(* ===== verification/Json.thy ===== *)
theory Json
  imports Complex_Main Prelude
begin

section \<open>JavaScript values, JSON text and number conversions\<close>

text \<open>
  What the server answers and what the browser stores reaches the program as JavaScript
  values of unknown shape, which the code reads with \<open>?.\<close>, \<open>||\<close>, \<open>Array.isArray\<close>,
  \<open>String(..)\<close> and \<open>Number(..)\<close>.  The datatype \<open>json\<close> is those values; a number is
  an exact rational (a JSON number is a finite decimal), \<open>JUndef\<close> is \<open>undefined\<close>.
  An object is the list of its properties in insertion order, with distinct names.
  A conversion that gives NaN returns \<open>None\<close>; infinite numbers are not represented,
  JSON has none.
\<close>

datatype json =
    JUndef
  | JNull
  | JBool bool
  | JNum rat
  | JStr string
  | JArr "json list"
  | JObj "(string \<times> json) list"

abbreviation JInt :: "int \<Rightarrow> json" where
  "JInt i \<equiv> JNum (of_int i)"

subsection \<open>Truthiness, property reads, arrays\<close>

fun truthy :: "json \<Rightarrow> bool" where
  "truthy JUndef = False"
| "truthy JNull = False"
| "truthy (JBool b) = b"
| "truthy (JNum n) = (n \<noteq> 0)"
| "truthy (JStr s) = (s \<noteq> [])"
| "truthy (JArr xs) = True"
| "truthy (JObj kvs) = True"

definition jor :: "json \<Rightarrow> json \<Rightarrow> json" where
  "jor a b = (if truthy a then a else b)"

text \<open>\<open>a ?? b\<close>\<close>

definition nullish :: "json \<Rightarrow> bool" where
  "nullish v = (v = JUndef \<or> v = JNull)"

definition jcoalesce :: "json \<Rightarrow> json \<Rightarrow> json" where
  "jcoalesce a b = (if nullish a then b else a)"

text \<open>\<open>v?.k\<close>, and \<open>v.k\<close> where \<open>None\<close> is the TypeError of reading a property of
  \<open>null\<close> or \<open>undefined\<close>.\<close>

fun jget :: "json \<Rightarrow> string \<Rightarrow> json" where
  "jget (JObj kvs) k = (case map_of kvs k of Some v \<Rightarrow> v | None \<Rightarrow> JUndef)"
| "jget _ k = JUndef"

definition jread :: "json \<Rightarrow> string \<Rightarrow> json option" where
  "jread v k = (if nullish v then None else Some (jget v k))"

text \<open>\<open>k in v\<close> for an object.\<close>

fun has_prop :: "json \<Rightarrow> string \<Rightarrow> bool" where
  "has_prop (JObj kvs) k = (k \<in> fst ` set kvs)"
| "has_prop _ k = False"

fun is_array :: "json \<Rightarrow> bool" where
  "is_array (JArr xs) = True"
| "is_array _ = False"

text \<open>\<open>Array.isArray(v) ? v : []\<close>\<close>

fun array_or_empty :: "json \<Rightarrow> json list" where
  "array_or_empty (JArr xs) = xs"
| "array_or_empty _ = []"

text \<open>\<open>{ ...v, k: x }\<close> and \<open>v.k = x\<close>: an existing name keeps its place.\<close>

fun assoc_set :: "'k \<Rightarrow> 'v \<Rightarrow> ('k \<times> 'v) list \<Rightarrow> ('k \<times> 'v) list" where
  "assoc_set k x [] = [(k, x)]"
| "assoc_set k x ((k', v) # kvs) =
     (if k' = k then (k, x) # kvs else (k', v) # assoc_set k x kvs)"

fun set_prop :: "json \<Rightarrow> string \<Rightarrow> json \<Rightarrow> json" where
  "set_prop (JObj kvs) k x = JObj (assoc_set k x kvs)"
| "set_prop v k x = JObj [(k, x)]"

text \<open>\<open>{ ...a, ...b }\<close>: the later properties win.\<close>

fun spread :: "json \<Rightarrow> json \<Rightarrow> json" where
  "spread (JObj a) (JObj b) = JObj (fold (\<lambda>(k, v). assoc_set k v) b a)"
| "spread (JObj a) _ = JObj a"
| "spread _ (JObj b) = JObj b"
| "spread _ _ = JObj []"

text \<open>\<open>a === b\<close> on primitive values; two objects read from different places are never the
  same object.\<close>

fun strict_eq :: "json \<Rightarrow> json \<Rightarrow> bool" where
  "strict_eq (JArr a) b = False"
| "strict_eq (JObj a) b = False"
| "strict_eq a b = (a = b)"

lemma map_of_assoc_set [simp]: "map_of (assoc_set k x kvs) k' = (if k' = k then Some x else map_of kvs k')"
  by (induction kvs) auto

lemma assoc_set_keys: "fst ` set (assoc_set k x kvs) = insert k (fst ` set kvs)"
  by (induction k x kvs rule: assoc_set.induct) auto

lemma assoc_set_distinct: "distinct (map fst kvs) \<Longrightarrow> distinct (map fst (assoc_set k x kvs))"
proof (induction kvs)
  case (Cons kv kvs)
  then show ?case using assoc_set_keys [of k x kvs] by (cases kv) auto
qed simp

lemma assoc_set_all: "list_all P kvs \<Longrightarrow> P (k, x) \<Longrightarrow> list_all P (assoc_set k x kvs)"
  by (induction kvs) auto

lemma jget_set_prop [simp]: "jget (set_prop v k x) k = x"
  by (cases v) auto

lemma jget_set_prop_other [simp]: "k' \<noteq> k \<Longrightarrow> jget (set_prop v k x) k' = jget v k'"
  by (cases v) auto

lemma truthy_jor [simp]: "truthy (jor a b) \<longleftrightarrow> truthy a \<or> truthy b"
  by (auto simp: jor_def)

lemma jor_truthy [simp]: "truthy a \<Longrightarrow> jor a b = a"
  by (simp add: jor_def)

lemma jor_falsy [simp]: "\<not> truthy a \<Longrightarrow> jor a b = b"
  by (simp add: jor_def)

lemma strict_eq_eq: "strict_eq a b \<Longrightarrow> a = b"
  by (cases a) auto

lemma strict_eq_JNum [simp]: "strict_eq a (JNum n) \<longleftrightarrow> a = JNum n"
  by (cases a) auto

lemma strict_eq_JNum_left [simp]: "strict_eq (JNum n) b \<longleftrightarrow> b = JNum n"
  by auto

lemma strict_eq_JStr [simp]: "strict_eq a (JStr s) \<longleftrightarrow> a = JStr s"
  by (cases a) auto

subsection \<open>Numbers\<close>

definition pow10 :: "int \<Rightarrow> rat" where
  "pow10 e = (if 0 \<le> e then 10 ^ nat e else 1 / 10 ^ nat (- e))"

text \<open>Fraction digits after the decimal point, and an exponent, as JSON and \<open>Number(..)\<close> read
  them: \<open>scan_frac\<close> returns the digits and the rest, \<open>scan_exp\<close> the exponent and the rest.\<close>

definition scan_exp :: "string \<Rightarrow> (int \<times> string) option" where
  "scan_exp s =
     (case s of
        c # r \<Rightarrow>
          if c = CHR ''e'' \<or> c = CHR ''E'' then
            (let (neg, r') = (case r of
                 d # r2 \<Rightarrow> if d = CHR ''-'' then (True, r2)
                           else if d = CHR ''+'' then (False, r2) else (False, r)
               | [] \<Rightarrow> (False, []));
                 ds = takeWhile is_digit r'
             in if ds = [] then None
                else Some (if neg then - int (digits_val ds) else int (digits_val ds),
                           dropWhile is_digit r'))
          else Some (0, s)
      | [] \<Rightarrow> Some (0, []))"

definition decimal_value :: "bool \<Rightarrow> string \<Rightarrow> string \<Rightarrow> int \<Rightarrow> rat" where
  "decimal_value neg ip fp e =
     (let m = of_nat (digits_val (ip @ fp)) * pow10 (e - int (length fp))
      in if neg then - m else m)"

text \<open>The JSON number grammar: no leading zero, digits after a point.\<close>

definition scan_json_number :: "string \<Rightarrow> (rat \<times> string) option" where
  "scan_json_number s =
     (let (neg, s1) = (case s of c # r \<Rightarrow> if c = CHR ''-'' then (True, r) else (False, s) | [] \<Rightarrow> (False, []));
          ip = takeWhile is_digit s1; s2 = dropWhile is_digit s1
      in if ip = [] \<or> (1 < length ip \<and> hd ip = CHR ''0'') then None
         else
           (let point = (s2 \<noteq> [] \<and> hd s2 = CHR ''.'');
                fp = (if point then takeWhile is_digit (tl s2) else []);
                s3 = (if point then dropWhile is_digit (tl s2) else s2)
            in if point \<and> fp = [] then None
               else (case scan_exp s3 of
                       None \<Rightarrow> None
                     | Some (e, rest) \<Rightarrow> Some (decimal_value neg ip fp e, rest))))"

text \<open>\<open>Number(s)\<close> for a string: white space around, an optional sign, digits with an
  optional point on either side and an exponent, or an unsigned hexadecimal, octal or binary
  literal; the empty string is 0, anything else NaN.\<close>

definition hex_val :: "char \<Rightarrow> nat option" where
  "hex_val c =
     (if is_digit c then Some (code c - 48)
      else if 97 \<le> code c \<and> code c \<le> 102 then Some (code c - 87)
      else if 65 \<le> code c \<and> code c \<le> 70 then Some (code c - 55)
      else None)"

fun radix_value :: "nat \<Rightarrow> nat \<Rightarrow> string \<Rightarrow> nat option" where
  "radix_value b acc [] = Some acc"
| "radix_value b acc (c # s) =
     (case hex_val c of
        None \<Rightarrow> None
      | Some d \<Rightarrow> if d < b then radix_value b (b * acc + d) s else None)"

definition radix_prefix :: "string \<Rightarrow> nat option" where
  "radix_prefix s =
     (let p = to_lower (take 2 s) in
      if p = ''0x'' then Some 16 else if p = ''0o'' then Some 8
      else if p = ''0b'' then Some 2 else None)"

definition string_number :: "string \<Rightarrow> rat option" where
  "string_number s =
     (let t = trim s in
      if t = [] then Some 0
      else case radix_prefix t of
        Some b \<Rightarrow> (if drop 2 t = [] then None else map_option of_nat (radix_value b 0 (drop 2 t)))
      | None \<Rightarrow>
         (let neg = (hd t = CHR ''-'');
              s1 = (if neg \<or> hd t = CHR ''+'' then tl t else t);
              ip = takeWhile is_digit s1; s2 = dropWhile is_digit s1;
              point = (s2 \<noteq> [] \<and> hd s2 = CHR ''.'');
              fp = (if point then takeWhile is_digit (tl s2) else []);
              s3 = (if point then dropWhile is_digit (tl s2) else s2)
          in if ip = [] \<and> fp = [] then None
             else (case scan_exp s3 of
                     None \<Rightarrow> None
                   | Some (e, rest) \<Rightarrow> if rest = [] then Some (decimal_value neg ip fp e) else None)))"

text \<open>\<open>String(n)\<close> of a finite decimal: the number of fraction digits is the least \<open>k\<close> with
  \<open>n * 10^k\<close> integral.  Twenty digits are more than a double carries.\<close>

fun fraction_digits :: "nat \<Rightarrow> nat \<Rightarrow> int \<Rightarrow> nat" where
  "fraction_digits 0 k q = k"
| "fraction_digits (Suc fuel) k q = (if q dvd 10 ^ k then k else fraction_digits fuel (Suc k) q)"

definition pad_left :: "nat \<Rightarrow> char \<Rightarrow> string \<Rightarrow> string" where
  "pad_left n c s = replicate (n - length s) c @ s"

definition show_rat :: "rat \<Rightarrow> string" where
  "show_rat r =
     (let (p, q) = quotient_of r in
      if q = 1 then show_int p
      else
        (let k = fraction_digits 20 0 q;
             m = nat (\<bar>p\<bar> * 10 ^ k div q);
             ip = m div 10 ^ k; fp = m mod 10 ^ k
         in (if p < 0 then ''-'' else '''') @ show_nat ip @ ''.'' @ pad_left k (CHR ''0'') (show_nat fp)))"

lemma show_rat_of_int [simp]: "show_rat (of_int i) = show_int i"
  by (simp add: show_rat_def)

fun js_string :: "json \<Rightarrow> string" where
  "js_string JUndef = ''undefined''"
| "js_string JNull = ''null''"
| "js_string (JBool b) = (if b then ''true'' else ''false'')"
| "js_string (JNum n) = show_rat n"
| "js_string (JStr s) = s"
| "js_string (JArr xs) =
     join '','' (map (\<lambda>x. case x of JUndef \<Rightarrow> '''' | JNull \<Rightarrow> '''' | _ \<Rightarrow> js_string x) xs)"
| "js_string (JObj kvs) = ''[object Object]''"

fun js_number :: "json \<Rightarrow> rat option" where
  "js_number JUndef = None"
| "js_number JNull = Some 0"
| "js_number (JBool b) = Some (if b then 1 else 0)"
| "js_number (JNum n) = Some n"
| "js_number (JStr s) = string_number s"
| "js_number (JArr xs) = string_number (js_string (JArr xs))"
| "js_number (JObj kvs) = None"

text \<open>\<open>Number(v) || d\<close>: NaN and 0 are falsy.\<close>

definition number_or :: "json \<Rightarrow> rat \<Rightarrow> rat" where
  "number_or v d = (case js_number v of None \<Rightarrow> d | Some n \<Rightarrow> if n = 0 then d else n)"

text \<open>\<open>Number(a) === Number(b)\<close>: NaN is not equal to itself.\<close>

definition same_number :: "json \<Rightarrow> json \<Rightarrow> bool" where
  "same_number a b = (case js_number a of None \<Rightarrow> False | Some n \<Rightarrow> js_number b = Some n)"

text \<open>\<open>String(v || d)\<close>, the usual way a field of unknown shape is read as text.\<close>

definition text_or :: "json \<Rightarrow> string \<Rightarrow> string" where
  "text_or v d = js_string (jor v (JStr d))"

lemma text_or_JStr [simp]: "text_or (JStr s) d = (if s = [] then d else s)"
  by (simp add: text_or_def jor_def)

lemma text_or_JUndef [simp]: "text_or JUndef d = d"
  by (simp add: text_or_def jor_def)

lemma number_or_JNum [simp]: "number_or (JNum n) d = (if n = 0 then d else n)"
  by (simp add: number_or_def)

lemma number_or_JUndef [simp]: "number_or JUndef d = d"
  by (simp add: number_or_def)

end
