(* ===== verification/JsonText.thy ===== *)
theory JsonText
  imports Json
begin

section \<open>JSON text: \<open>JSON.parse\<close> and \<open>JSON.stringify\<close>\<close>

text \<open>
  The text form of a value, as local storage, response bodies and socket messages carry it.
  \<open>json_parse\<close> returns \<open>None\<close> where \<open>JSON.parse\<close> throws.  The parser recurses on a fuel
  argument; the lemmas at the end show that the fuel given by \<open>json_parse\<close> is enough to read
  back everything \<open>json_print\<close> writes.
\<close>

definition dquote :: char where [js_eval]: "dquote = CHR 0x22"
definition bslash :: char where [js_eval]: "bslash = CHR 0x5C"

text \<open>UTF-8 of a code point; a lone surrogate keeps its three-byte form.\<close>

definition utf8 :: "nat \<Rightarrow> string" where
  "utf8 n =
     (if n < 128 then [char_of n]
      else if n < 2048 then [char_of (192 + n div 64), char_of (128 + n mod 64)]
      else if n < 65536 then
        [char_of (224 + n div 4096), char_of (128 + n div 64 mod 64), char_of (128 + n mod 64)]
      else
        [char_of (240 + n div 262144), char_of (128 + n div 4096 mod 64),
         char_of (128 + n div 64 mod 64), char_of (128 + n mod 64)])"

definition hex4 :: "char \<Rightarrow> char \<Rightarrow> char \<Rightarrow> char \<Rightarrow> nat option" where
  "hex4 a b c d = radix_value 16 0 [a, b, c, d]"

definition escape_char :: "char \<Rightarrow> char option" where
  "escape_char e =
     (if e = dquote \<or> e = bslash \<or> e = CHR ''/'' then Some e
      else if e = CHR ''b'' then Some (CHR 0x08)
      else if e = CHR ''f'' then Some (CHR 0x0C)
      else if e = CHR ''n'' then Some (CHR 0x0A)
      else if e = CHR ''r'' then Some (CHR 0x0D)
      else if e = CHR ''t'' then Some (CHR 0x09)
      else None)"

definition prepend :: "string \<Rightarrow> (string \<times> string) option \<Rightarrow> (string \<times> string) option" where
  "prepend w = map_option (\<lambda>(v, r). (w @ v, r))"

text \<open>The characters of a string literal, after its opening quote.\<close>

fun parse_chars :: "string \<Rightarrow> (string \<times> string) option" where
  "parse_chars [] = None"
| "parse_chars (c # s) =
     (if c = dquote then Some ([], s)
      else if c = bslash then
        (case s of
           [] \<Rightarrow> None
         | e # r \<Rightarrow>
             if e = CHR ''u'' then
               (case r of
                  h1 # h2 # h3 # h4 # r2 \<Rightarrow>
                    (case hex4 h1 h2 h3 h4 of
                       None \<Rightarrow> None
                     | Some n \<Rightarrow>
                         (case r2 of
                            b # u # l1 # l2 # l3 # l4 # r3 \<Rightarrow>
                              (case hex4 l1 l2 l3 l4 of
                                 None \<Rightarrow> prepend (utf8 n) (parse_chars r2)
                               | Some m \<Rightarrow>
                                   if 55296 \<le> n \<and> n < 56320 \<and> b = bslash \<and> u = CHR ''u'' \<and>
                                      56320 \<le> m \<and> m < 57344
                                   then prepend (utf8 (65536 + (n - 55296) * 1024 + (m - 56320)))
                                          (parse_chars r3)
                                   else prepend (utf8 n) (parse_chars r2))
                          | _ \<Rightarrow> prepend (utf8 n) (parse_chars r2)))
                | _ \<Rightarrow> None)
             else (case escape_char e of
                     None \<Rightarrow> None
                   | Some x \<Rightarrow> prepend [x] (parse_chars r)))
      else if code c < 32 then None
      else prepend [c] (parse_chars s))"

definition json_ws :: "char \<Rightarrow> bool" where
  "json_ws c = (code c = 32 \<or> code c = 9 \<or> code c = 10 \<or> code c = 13)"

definition skip_ws :: "string \<Rightarrow> string" where
  "skip_ws s = dropWhile json_ws s"

fun parse_value :: "nat \<Rightarrow> string \<Rightarrow> (json \<times> string) option"
  and parse_elems :: "nat \<Rightarrow> string \<Rightarrow> (json list \<times> string) option"
  and parse_members :: "nat \<Rightarrow> string \<Rightarrow> ((string \<times> json) list \<times> string) option"
where
  "parse_value 0 s = None"
| "parse_value (Suc f) s =
     (case skip_ws s of
        [] \<Rightarrow> None
      | c # r \<Rightarrow>
          if c = dquote then map_option (\<lambda>(v, t). (JStr v, t)) (parse_chars r)
          else if c = CHR ''['' then
            (if skip_ws r \<noteq> [] \<and> hd (skip_ws r) = CHR '']'' then Some (JArr [], tl (skip_ws r))
             else map_option (\<lambda>(xs, t). (JArr xs, t)) (parse_elems f r))
          else if c = CHR ''{'' then
            (if skip_ws r \<noteq> [] \<and> hd (skip_ws r) = CHR ''}'' then Some (JObj [], tl (skip_ws r))
             else map_option (\<lambda>(kvs, t). (JObj (fold (\<lambda>(k, v). assoc_set k v) kvs []), t))
                    (parse_members f r))
          else if starts_with (c # r) ''true'' then Some (JBool True, drop 4 (c # r))
          else if starts_with (c # r) ''false'' then Some (JBool False, drop 5 (c # r))
          else if starts_with (c # r) ''null'' then Some (JNull, drop 4 (c # r))
          else map_option (\<lambda>(n, t). (JNum n, t)) (scan_json_number (c # r)))"
| "parse_elems 0 s = None"
| "parse_elems (Suc f) s =
     (case parse_value f s of
        None \<Rightarrow> None
      | Some (v, r) \<Rightarrow>
          (case skip_ws r of
             [] \<Rightarrow> None
           | c # t \<Rightarrow>
               if c = CHR '']'' then Some ([v], t)
               else if c = CHR '','' then map_option (\<lambda>(vs, u). (v # vs, u)) (parse_elems f t)
               else None))"
| "parse_members 0 s = None"
| "parse_members (Suc f) s =
     (case skip_ws s of
        [] \<Rightarrow> None
      | q # r0 \<Rightarrow>
          if q \<noteq> dquote then None
          else (case parse_chars r0 of
             None \<Rightarrow> None
           | Some (k, r1) \<Rightarrow>
               (case skip_ws r1 of
                  [] \<Rightarrow> None
                | colon # r2 \<Rightarrow>
                    if colon \<noteq> CHR '':'' then None
                    else (case parse_value f r2 of
                       None \<Rightarrow> None
                     | Some (v, r) \<Rightarrow>
                         (case skip_ws r of
                            [] \<Rightarrow> None
                          | c # t \<Rightarrow>
                              if c = CHR ''}'' then Some ([(k, v)], t)
                              else if c = CHR '','' then
                                map_option (\<lambda>(kvs, u). ((k, v) # kvs, u)) (parse_members f t)
                              else None)))))"

definition json_parse :: "string \<Rightarrow> json option" where
  "json_parse s =
     (case parse_value (2 * length s + 2) s of
        None \<Rightarrow> None
      | Some (v, r) \<Rightarrow> if skip_ws r = [] then Some v else None)"

subsection \<open>Printing\<close>

definition escape :: "char \<Rightarrow> string" where
  "escape c =
     (if c = dquote then [bslash, dquote]
      else if c = bslash then [bslash, bslash]
      else if code c = 8 then [bslash, CHR ''b'']
      else if code c = 12 then [bslash, CHR ''f'']
      else if code c = 10 then [bslash, CHR ''n'']
      else if code c = 13 then [bslash, CHR ''r'']
      else if code c = 9 then [bslash, CHR ''t'']
      else if code c < 32 then
        [bslash, CHR ''u'', CHR ''0'', CHR ''0'', hex_char (code c div 16),
         lower_char (hex_char (code c mod 16))]
      else [c])"

definition quote :: "string \<Rightarrow> string" where
  "quote s = dquote # concat (map escape s) @ [dquote]"

fun json_print :: "json \<Rightarrow> string"
  and print_elems :: "json list \<Rightarrow> string list"
  and print_members :: "(string \<times> json) list \<Rightarrow> string list"
where
  "json_print JUndef = ''null''"
| "json_print JNull = ''null''"
| "json_print (JBool b) = (if b then ''true'' else ''false'')"
| "json_print (JNum n) = show_rat n"
| "json_print (JStr s) = quote s"
| "json_print (JArr xs) = ''['' @ join '','' (print_elems xs) @ '']''"
| "json_print (JObj kvs) = ''{'' @ join '','' (print_members kvs) @ ''}''"
| "print_elems [] = []"
| "print_elems (x # xs) = json_print x # print_elems xs"
| "print_members [] = []"
| "print_members ((k, v) # kvs) =
     (if v = JUndef then print_members kvs
      else (quote k @ '':'' @ json_print v) # print_members kvs)"

text \<open>\<open>JSON.stringify(v)\<close> of a value that is not itself \<open>undefined\<close>.\<close>

definition json_stringify :: "json \<Rightarrow> string" where
  "json_stringify v = json_print v"

text \<open>The values whose text is read back unchanged: no \<open>undefined\<close> inside, distinct property
  names, integral numbers.\<close>

fun plain_json :: "json \<Rightarrow> bool"
  and plain_elems :: "json list \<Rightarrow> bool"
  and plain_members :: "(string \<times> json) list \<Rightarrow> bool"
where
  "plain_json JUndef = False"
| "plain_json JNull = True"
| "plain_json (JBool b) = True"
| "plain_json (JNum n) = (snd (quotient_of n) = 1)"
| "plain_json (JStr s) = True"
| "plain_json (JArr xs) = plain_elems xs"
| "plain_json (JObj kvs) = (distinct (map fst kvs) \<and> plain_members kvs)"
| "plain_elems [] = True"
| "plain_elems (x # xs) = (plain_json x \<and> plain_elems xs)"
| "plain_members [] = True"
| "plain_members ((k, v) # kvs) = (plain_json v \<and> plain_members kvs)"

subsection \<open>Reading back what was printed\<close>

lemma hex_val_hex_char: "d < 16 \<Longrightarrow> hex_val (hex_char d) = Some d"
  by (auto simp: hex_val_def is_digit_def hex_char_code)

lemma hex_val_lower_hex_char: "d < 16 \<Longrightarrow> hex_val (lower_char (hex_char d)) = Some d"
  by (auto simp: hex_val_def is_digit_def lower_char_def is_upper_def hex_char_code code_char_of)

lemma hex4_control:
  assumes "n < 32"
  shows "hex4 (CHR ''0'') (CHR ''0'') (hex_char (n div 16)) (lower_char (hex_char (n mod 16))) = Some n"
proof -
  have "hex_val (CHR ''0'') = Some 0"
    by (simp add: hex_val_def is_digit_def code_def)
  moreover have "n div 16 < 16" "n mod 16 < 16" using assms by auto
  ultimately show ?thesis
    by (simp add: hex4_def hex_val_hex_char hex_val_lower_hex_char)
qed

lemma parse_chars_bmp:
  assumes "hex4 h1 h2 h3 h4 = Some n" and "n < 55296"
  shows "parse_chars (bslash # CHR ''u'' # h1 # h2 # h3 # h4 # t) = prepend (utf8 n) (parse_chars t)"
proof -
  have "bslash \<noteq> dquote" by (simp add: bslash_def dquote_def)
  with assms show ?thesis
    by (subst parse_chars.simps(2)) (simp del: parse_chars.simps split: list.split option.split)
qed

lemma parse_chars_short_escape:
  "escape_char e = Some x \<Longrightarrow> e \<noteq> CHR ''u'' \<Longrightarrow> parse_chars (bslash # e # t) = prepend [x] (parse_chars t)"
  by (subst parse_chars.simps(2)) (simp del: parse_chars.simps add: bslash_def dquote_def)

lemma parse_chars_escape: "parse_chars (escape c @ t) = prepend [c] (parse_chars t)"
proof -
  have neq: "bslash \<noteq> dquote" by (simp add: bslash_def dquote_def)
  consider "c = dquote" | "c = bslash" | "code c \<in> {8,12,10,13,9}" 
    | "code c < 32" "code c \<notin> {8,12,10,13,9}" "c \<noteq> dquote" "c \<noteq> bslash"
    | "\<not> code c < 32" "c \<noteq> dquote" "c \<noteq> bslash" by blast
  then show ?thesis
  proof cases
    case 1
    then show ?thesis
      using parse_chars_short_escape [of dquote dquote t] neq
      by (simp add: escape_def escape_char_def) (simp add: dquote_def)
  next
    case 2
    then show ?thesis
      using parse_chars_short_escape [of bslash bslash t] neq
      by (simp add: escape_def escape_char_def) (simp add: bslash_def)
  next
    case 3
    have "code (CHR 0x08) = 8" "code (CHR 0x0C) = 12" "code (CHR 0x0A) = 10"
         "code (CHR 0x0D) = 13" "code (CHR 0x09) = 9" by (simp_all add: code_def)
    with 3 have "c \<in> {CHR 0x08, CHR 0x0C, CHR 0x0A, CHR 0x0D, CHR 0x09}"
      by (metis code_inject insert_iff empty_iff)
    moreover have "escape (CHR 0x08) = [bslash, CHR ''b''] \<and> escape (CHR 0x0C) = [bslash, CHR ''f'']
        \<and> escape (CHR 0x0A) = [bslash, CHR ''n''] \<and> escape (CHR 0x0D) = [bslash, CHR ''r'']
        \<and> escape (CHR 0x09) = [bslash, CHR ''t'']"
      by (simp add: escape_def dquote_def bslash_def code_def)
    moreover have "escape_char (CHR ''b'') = Some (CHR 0x08) \<and> escape_char (CHR ''f'') = Some (CHR 0x0C)
        \<and> escape_char (CHR ''n'') = Some (CHR 0x0A) \<and> escape_char (CHR ''r'') = Some (CHR 0x0D)
        \<and> escape_char (CHR ''t'') = Some (CHR 0x09)"
      by (simp add: escape_char_def dquote_def bslash_def)
    ultimately have "\<exists>e. escape c = [bslash, e] \<and> escape_char e = Some c \<and> e \<noteq> CHR ''u''"
      by (elim insertE) simp_all
    then show ?thesis
      using parse_chars_short_escape by auto
  next
    case 4
    then have "escape c = [bslash, CHR ''u'', CHR ''0'', CHR ''0'', hex_char (code c div 16),
         lower_char (hex_char (code c mod 16))]" by (simp add: escape_def)
    moreover have "utf8 (code c) = [c]" using 4 by (simp add: utf8_def)
    ultimately show ?thesis
      using parse_chars_bmp [OF hex4_control [OF 4(1)], of t] 4(1) by simp
  next
    case 5
    then have "escape c = [c]" by (auto simp: escape_def)
    with 5 show ?thesis
      by (simp del: parse_chars.simps) (subst parse_chars.simps(2), simp del: parse_chars.simps)
  qed
qed

lemma parse_chars_quote: "parse_chars (concat (map escape s) @ dquote # t) = Some (s, t)"
proof (induction s)
  case Nil
  then show ?case by simp
next
  case (Cons c s)
  have "parse_chars (concat (map escape (c # s)) @ dquote # t)
      = prepend [c] (parse_chars (concat (map escape s) @ dquote # t))"
    using parse_chars_escape by simp
  also have "\<dots> = Some (c # s, t)"
    by (simp only: Cons.IH) (simp add: prepend_def)
  finally show ?case .
qed

definition ends_number :: "string \<Rightarrow> bool" where
  "ends_number t \<longleftrightarrow> t = [] \<or> (\<not> is_digit (hd t) \<and> hd t \<notin> set ''.eE'')"

lemma takeWhile_digits: "(\<And>c. c \<in> set ds \<Longrightarrow> is_digit c) \<Longrightarrow> ends_number t \<Longrightarrow>
   takeWhile is_digit (ds @ t) = ds \<and> dropWhile is_digit (ds @ t) = t"
  by (cases t) (auto simp: ends_number_def takeWhile_append2 dropWhile_append2)

lemma show_nat_zero_hd: "hd (show_nat n) = CHR ''0'' \<Longrightarrow> n = 0"
proof (induction n rule: show_nat.induct)
  case (1 n)
  show ?case
  proof (cases "n < 10")
    case True
    have "code (digit_char n) = 48 + n" using True by (rule code_digit_char)
    moreover have "digit_char n = CHR ''0''" using True 1 by (simp add: show_nat.simps [of n])
    ultimately show ?thesis by (simp add: code_def)
  next
    case False
    then have "hd (show_nat n) = hd (show_nat (n div 10))"
      by (simp add: show_nat.simps [of n])
    with 1 False show ?thesis by simp
  qed
qed

lemma show_nat_no_leading_zero: "\<not> (1 < length (show_nat n) \<and> hd (show_nat n) = CHR ''0'')"
proof
  assume a: "1 < length (show_nat n) \<and> hd (show_nat n) = CHR ''0''"
  then have "n = 0" using show_nat_zero_hd by blast
  with a show False by (simp add: show_nat.simps)
qed

lemma scan_exp_end: "ends_number t \<Longrightarrow> scan_exp t = Some (0, t)"
  by (cases t) (auto simp: scan_exp_def ends_number_def)

lemma scan_show_nat:
  assumes "ends_number t"
  shows "scan_json_number (show_nat n @ t) = Some (of_nat n, t)"
    and "scan_json_number (CHR ''-'' # show_nat n @ t) = Some (- of_nat n, t)"
proof -
  have td: "takeWhile is_digit (show_nat n @ t) = show_nat n" "dropWhile is_digit (show_nat n @ t) = t"
    using takeWhile_digits [of "show_nat n" t] show_nat_digits assms by auto
  have nd: "\<not> (t \<noteq> [] \<and> hd t = CHR ''.'')" using assms by (auto simp: ends_number_def)
  have nm: "hd (show_nat n @ t) \<noteq> CHR ''-''"
    using show_nat_no_minus [of n] hd_in_set [of "show_nat n"] by (metis hd_append2 show_nat_nonempty)
  obtain c r where cr: "show_nat n @ t = c # r" by (cases "show_nat n @ t") auto
  with nm have "c \<noteq> CHR ''-''" by simp
  then have s1: "(case show_nat n @ t of c # r \<Rightarrow> if c = CHR ''-'' then (True, r) else (False, show_nat n @ t) | [] \<Rightarrow> (False, [])) = (False, show_nat n @ t)"
    using cr by simp
  note nz = show_nat_no_leading_zero [of n]
  show "scan_json_number (show_nat n @ t) = Some (of_nat n, t)"
    unfolding scan_json_number_def s1 Let_def split_conv td
    using nz nd scan_exp_end [OF assms] by (auto simp: decimal_value_def pow10_def)
  show "scan_json_number (CHR ''-'' # show_nat n @ t) = Some (- of_nat n, t)"
    unfolding scan_json_number_def Let_def
    using nz nd scan_exp_end [OF assms] td by (auto simp: decimal_value_def pow10_def)
qed

lemma scan_show_int: "ends_number t \<Longrightarrow> scan_json_number (show_int i @ t) = Some (of_int i, t)"
  using scan_show_nat [of t "nat i"] scan_show_nat [of t "nat (- i)"]
  by (auto simp: show_int_def)

lemma integral_rat: "snd (quotient_of n) = 1 \<Longrightarrow> n = of_int (fst (quotient_of n))"
  using quotient_of_div [of n "fst (quotient_of n)" 1] by (cases "quotient_of n") auto

lemma scan_plain_number:
  assumes "plain_json (JNum n)" and "ends_number t"
  shows "scan_json_number (show_rat n @ t) = Some (n, t)"
proof -
  have "n = of_int (fst (quotient_of n))" using assms integral_rat by simp
  then show ?thesis
    using scan_show_int [OF assms(2)] by (metis show_rat_of_int)
qed

lemma fold_assoc_set_distinct:
  "distinct (map fst (acc @ kvs)) \<Longrightarrow> fold (\<lambda>(k, v). assoc_set k v) kvs acc = acc @ kvs"
proof (induction kvs arbitrary: acc)
  case (Cons kv kvs)
  obtain k v where kv: "kv = (k, v)" by fastforce
  have "k \<notin> fst ` set acc" using Cons.prems kv by auto
  then have "assoc_set k v acc = acc @ [(k, v)]"
    by (induction acc) auto
  with Cons kv show ?case by simp
qed simp

fun need_value :: "json \<Rightarrow> nat"
  and need_elems :: "json list \<Rightarrow> nat"
  and need_members :: "(string \<times> json) list \<Rightarrow> nat"
where
  "need_value (JArr xs) = Suc (need_elems xs)"
| "need_value (JObj kvs) = Suc (need_members kvs)"
| "need_value _ = 1"
| "need_elems [] = 0"
| "need_elems (x # xs) = Suc (max (need_value x) (need_elems xs))"
| "need_members [] = 0"
| "need_members ((k, v) # kvs) = Suc (max (need_value v) (need_members kvs))"

lemma show_int_nonempty [simp]: "show_int i \<noteq> []"
  by (simp add: show_int_def)

lemma show_rat_nonempty [simp]: "show_rat r \<noteq> []"
  by (auto simp: show_rat_def Let_def split: prod.split)

lemma show_rat_length: "Suc 0 \<le> length (show_rat r)"
proof -
  have "0 < length (show_rat r)" by simp
  then show ?thesis by linarith
qed

lemma join_Cons: "join sep (w # ws) = (if ws = [] then w else w @ sep @ join sep ws)"
  by (cases ws) auto

lemma print_elems_Nil [simp]: "print_elems xs = [] \<longleftrightarrow> xs = []"
  by (cases xs) auto

lemma print_members_Nil [simp]: "plain_members kvs \<Longrightarrow> print_members kvs = [] \<longleftrightarrow> kvs = []"
  by (cases kvs rule: print_members.cases) auto

lemma need_bound:
  shows "plain_json v \<Longrightarrow> need_value v \<le> 2 * length (json_print v)"
    and "plain_elems xs \<Longrightarrow> need_elems xs \<le> 2 * length (join '','' (print_elems xs)) + 1"
    and "plain_members kvs \<Longrightarrow> need_members kvs \<le> 2 * length (join '','' (print_members kvs)) + 1"
  by (induction v and xs and kvs rule: need_value_need_elems_need_members.induct)
    (auto simp: join_Cons quote_def show_rat_length)

definition value_start :: "string \<Rightarrow> bool" where
  "value_start s \<longleftrightarrow> s \<noteq> [] \<and> \<not> json_ws (hd s) \<and> hd s \<noteq> CHR '']'' \<and> hd s \<noteq> CHR ''}''"

lemma digit_start: "is_digit c \<Longrightarrow> \<not> json_ws c \<and> c \<noteq> CHR '']'' \<and> c \<noteq> CHR ''}''
    \<and> c \<noteq> dquote \<and> c \<noteq> CHR ''['' \<and> c \<noteq> CHR ''{'' \<and> c \<noteq> CHR ''t'' \<and> c \<noteq> CHR ''f'' \<and> c \<noteq> CHR ''n''"
  by (auto simp: is_digit_def json_ws_def code_def dquote_def)

lemma show_int_start:
  obtains c r where "show_int i = c # r" and "is_digit c \<or> c = CHR ''-''"
proof (cases "i < 0")
  case True
  then show ?thesis using that by (simp add: show_int_def)
next
  case False
  obtain c r where "show_nat (nat i) = c # r" by (meson list.exhaust show_nat_nonempty)
  with False show ?thesis using that show_nat_digits [of c "nat i"] by (simp add: show_int_def)
qed

lemma minus_start: "\<not> json_ws (CHR ''-'')"
  by (simp add: json_ws_def code_def)

lemma plain_number_start:
  assumes "plain_json (JNum n)"
  obtains c r where "show_rat n = c # r" and "is_digit c \<or> c = CHR ''-''"
  using assms integral_rat [of n] show_int_start by (metis plain_json.simps(4) show_rat_of_int)

lemma value_start_print: "plain_json v \<Longrightarrow> value_start (json_print v @ t)"
proof (cases v)
  case (JNum n)
  assume "plain_json v"
  with JNum obtain c r where "show_rat n = c # r" and "is_digit c \<or> c = CHR ''-''"
    using plain_number_start by blast
  with JNum show ?thesis
    using digit_start [of c] minus_start by (auto simp: value_start_def)
qed (auto simp: value_start_def quote_def json_ws_def code_def dquote_def)

lemma skip_ws_start [simp]: "value_start s \<Longrightarrow> skip_ws s = s"
  by (cases s) (auto simp: value_start_def skip_ws_def)

lemma value_start_append: "value_start s \<Longrightarrow> value_start (s @ t)"
  by (auto simp: value_start_def)

lemma parse_number_value:
  assumes "plain_json (JNum n)" and "ends_number t"
  shows "parse_value (Suc f) (show_rat n @ t) = Some (JNum n, t)"
proof -
  obtain c r where cr: "show_rat n = c # r" and c: "is_digit c \<or> c = CHR ''-''"
    using plain_number_start assms(1) .
  have "\<not> json_ws c" "c \<noteq> dquote" "c \<noteq> CHR ''[''" "c \<noteq> CHR ''{''"
    "c \<noteq> CHR ''t''" "c \<noteq> CHR ''f''" "c \<noteq> CHR ''n''"
    using c digit_start [of c] minus_start by (auto simp: dquote_def)
  then show ?thesis
    using scan_plain_number [OF assms] cr
    by (simp add: skip_ws_def starts_with_def)
qed


lemma skip_ws_delim [simp]:
  "skip_ws (CHR '']'' # t) = CHR '']'' # t" "skip_ws (CHR ''}'' # t) = CHR ''}'' # t"
  "skip_ws (CHR '','' # t) = CHR '','' # t" "skip_ws (CHR '':'' # t) = CHR '':'' # t"
  "skip_ws (dquote # t) = dquote # t"
  by (simp_all add: skip_ws_def json_ws_def code_def dquote_def)

lemma skip_ws_open [simp]:
  "skip_ws (CHR ''['' # t) = CHR ''['' # t" "skip_ws (CHR ''{'' # t) = CHR ''{'' # t"
  by (simp_all add: skip_ws_def json_ws_def code_def)

lemma ends_number_delim [simp]:
  "ends_number []" "ends_number (CHR '']'' # t)" "ends_number (CHR ''}'' # t)" "ends_number (CHR '','' # t)"
  by (simp_all add: ends_number_def is_digit_def code_def)

lemma dquote_neq [simp]: "dquote \<noteq> CHR ''[''" "dquote \<noteq> CHR ''{''" "dquote \<noteq> CHR '']''" "dquote \<noteq> CHR ''}''"
  "CHR ''['' \<noteq> dquote" "CHR ''{'' \<noteq> dquote" "CHR ''t'' \<noteq> dquote" "CHR ''f'' \<noteq> dquote" "CHR ''n'' \<noteq> dquote"
  by (simp_all add: dquote_def)

lemma parse_quote [simp]: "parse_chars (concat (map escape s) @ dquote # t) = Some (s, t)"
  by (rule parse_chars_quote)

lemma skip_ws_literal [simp]:
  "skip_ws (CHR ''t'' # t) = CHR ''t'' # t" "skip_ws (CHR ''f'' # t) = CHR ''f'' # t"
  "skip_ws (CHR ''n'' # t) = CHR ''n'' # t"
  by (simp_all add: skip_ws_def json_ws_def code_def)

lemma parse_printed:
  shows "plain_json v \<Longrightarrow> need_value v \<le> f \<Longrightarrow> ends_number t \<Longrightarrow>
           parse_value f (json_print v @ t) = Some (v, t)"
    and "plain_elems xs \<Longrightarrow> xs \<noteq> [] \<Longrightarrow> need_elems xs \<le> f \<Longrightarrow>
           parse_elems f (join '','' (print_elems xs) @ CHR '']'' # t) = Some (xs, t)"
    and "plain_members kvs \<Longrightarrow> kvs \<noteq> [] \<Longrightarrow> need_members kvs \<le> f \<Longrightarrow>
           parse_members f (join '','' (print_members kvs) @ CHR ''}'' # t) = Some (kvs, t)"
proof (induction v and xs and kvs arbitrary: f t and f t and f t
    rule: need_value_need_elems_need_members.induct)
  case (1 xs)
  then obtain g where f: "f = Suc g" and g: "need_elems xs \<le> g" by (cases f) auto
  show ?case
  proof (cases xs)
    case Nil
    then show ?thesis by (simp add: f)
  next
    case (Cons x ys)
    have "value_start (join '','' (print_elems xs) @ CHR '']'' # t)"
      using Cons 1(2) value_start_print by (simp add: join_Cons)
    then have "skip_ws (join '','' (print_elems xs) @ CHR '']'' # t)
        = join '','' (print_elems xs) @ CHR '']'' # t"
      and "hd (join '','' (print_elems xs) @ CHR '']'' # t) \<noteq> CHR '']''"
      using skip_ws_start by (auto simp: value_start_def)
    then show ?thesis
      using 1 Cons g by (simp add: f)
  qed
next
  case (2 kvs)
  then obtain g where f: "f = Suc g" and g: "need_members kvs \<le> g" by (cases f) auto
  show ?case
  proof (cases kvs)
    case Nil
    then show ?thesis by (simp add: f)
  next
    case (Cons kv ys)
    obtain k v where kv: "kv = (k, v)" by fastforce
    have "v \<noteq> JUndef" using 2(2) Cons kv by auto
    then obtain r where r: "join '','' (print_members kvs) @ CHR ''}'' # t = dquote # r"
      using Cons kv by (cases "print_members ys = []") (auto simp: join_Cons quote_def)
    have "fold (\<lambda>(k, v). assoc_set k v) kvs [] = kvs"
      using 2(2) fold_assoc_set_distinct [of "[]" kvs] by simp
    moreover have "parse_members g (dquote # r) = Some (kvs, t)"
      using 2 Cons g r by (metis list.discI plain_json.simps(7))
    ultimately show ?thesis
      using r by (simp add: f)
  qed
next
  case "3_1"
  then show ?case by simp
next
  case "3_2"
  then show ?case by (cases f) (auto simp: starts_with_def)
next
  case "3_3"
  then show ?case by (cases f) (auto simp: starts_with_def)
next
  case "3_4"
  then show ?case
    by (cases f) (auto simp del: parse_value.simps intro: parse_number_value)
next
  case "3_5"
  then show ?case by (cases f) (auto simp: quote_def)
next
  case 4
  then show ?case by simp
next
  case (5 x xs)
  then obtain g where f: "f = Suc g" and g: "need_value x \<le> g" "need_elems xs \<le> g" by (cases f) auto
  with 5 show ?case
    by (cases "xs = []") (auto simp: join_Cons)
next
  case 6
  then show ?case by simp
next
  case (7 k v kvs)
  then obtain g where f: "f = Suc g" and g: "need_value v \<le> g" "need_members kvs \<le> g" by (cases f) auto
  have "v \<noteq> JUndef" using 7 by auto
  with 7 f g show ?case
    by (cases "kvs = []") (auto simp: join_Cons quote_def)
qed

lemma json_parse_stringify:
  assumes "plain_json v"
  shows "json_parse (json_stringify v) = Some v"
proof -
  have "need_value v \<le> 2 * length (json_print v) + 2"
    using need_bound(1) [OF assms] by simp
  then have "parse_value (2 * length (json_print v) + 2) (json_print v @ []) = Some (v, [])"
    using parse_printed(1) [OF assms] ends_number_delim(1) by blast
  then show ?thesis
    by (simp add: json_parse_def json_stringify_def skip_ws_def)
qed

end
