(* ===== verification/FrMessages.thy ===== *)
theory FrMessages
  imports JsonText
begin

section \<open>The French table of the server messages (serverMessages.js, lines 10 to 494)\<close>

text \<open>
  The object \<open>FR\<close>, one definition per section of the source.  Accented letters and
  typographic marks are their UTF-8 bytes.  No message occurs twice (\<open>FR_distinct\<close>), so
  reading the list with \<open>map_of\<close> is reading the object.
\<close>

abbreviation squote :: string where "squote \<equiv> [CHR 0x27]"
abbreviation e_acute :: string where "e_acute \<equiv> [CHR 0xC3, CHR 0xA9]"
abbreviation e_grave :: string where "e_grave \<equiv> [CHR 0xC3, CHR 0xA8]"
abbreviation e_circ :: string where "e_circ \<equiv> [CHR 0xC3, CHR 0xAA]"
abbreviation a_grave :: string where "a_grave \<equiv> [CHR 0xC3, CHR 0xA0]"
abbreviation a_circ :: string where "a_circ \<equiv> [CHR 0xC3, CHR 0xA2]"
abbreviation o_circ :: string where "o_circ \<equiv> [CHR 0xC3, CHR 0xB4]"
abbreviation apos :: string where "apos \<equiv> [CHR 0xE2, CHR 0x80, CHR 0x99]"
abbreviation laquo :: string where "laquo \<equiv> [CHR 0xC2, CHR 0xAB]"
abbreviation raquo :: string where "raquo \<equiv> [CHR 0xC2, CHR 0xBB]"
abbreviation E_acute :: string where "E_acute \<equiv> [CHR 0xC3, CHR 0x89]"
abbreviation oe_lig :: string where "oe_lig \<equiv> [CHR 0xC5, CHR 0x93]"

text \<open>Generic\<close>

definition fr_generic :: "(string \<times> string) list" where
  "fr_generic =
   [
    (''Unauthorized'', ''Non authentifi'' @ e_acute @ '' : reconnectez-vous.''),
    (''Forbidden'', ''Action non autoris'' @ e_acute @ ''e.''),
    (''Access denied'', ''Acc'' @ e_grave @ ''s refus'' @ e_acute @ ''.''),
    (''Access denied to this resource'',
      ''Acc'' @ e_grave @ ''s refus'' @ e_acute @ '' '' @ a_grave @ '' cette ressource.''),
    (''No access to this resource'',
      ''Vous n'' @ apos @ ''avez pas acc'' @ e_grave @ ''s '' @ a_grave @
      '' cette ressource.''),
    (''Invalid JSON'', ''Requ'' @ e_circ @ ''te invalide (JSON).''),
    (''Invalid JSON body'', ''Requ'' @ e_circ @ ''te invalide (JSON).''),
    (''Invalid field type'',
      ''Requ'' @ e_circ @ ''te invalide : un champ n'' @ apos @ ''a pas le bon type.''),
    (''Too many attempts. Try again later.'',
      ''Trop de tentatives. R'' @ e_acute @ ''essayez plus tard.''),
    (''Missing fields'', ''Champs manquants.''),
    (''Field too long'', ''Un champ est trop long.''),
    (''Too many values'', ''Trop de valeurs.''),
    (''No values submitted'', ''Aucune valeur envoy'' @ e_acute @ ''e.''),
    (''Expected a '' @ [dquote] @ ''values'' @ [dquote] @ '' object'',
      ''Requ'' @ e_circ @ ''te invalide : objet '' @ laquo @ '' values '' @ raquo @
      '' attendu.''),
    (''Session expired. Please login again.'',
      ''Session expir'' @ e_acute @ ''e. Reconnectez-vous.''),
    (''License required'', ''Licence requise.''),
    (''Health check failed'', ''Le bastion ne r'' @ e_acute @ ''pond pas.''),
    (''database unavailable'', ''Base de donn'' @ e_acute @ ''es indisponible.''),
    (''no database connection'', ''Base de donn'' @ e_acute @ ''es indisponible.''),
    (''unknown setting'', ''Param'' @ e_grave @ ''tre inconnu.''),
    (''could not store the setting'',
      ''Impossible d'' @ apos @ ''enregistrer le param'' @ e_grave @ ''tre.''),
    (''could not clear the setting'',
      ''Impossible d'' @ apos @ ''effacer le param'' @ e_grave @ ''tre.''),
    (''expected a boolean'', ''Valeur attendue : oui ou non.''),
    (''expected a whole number'', ''Valeur attendue : un nombre entier.''),
    (''expected an absolute http:// or https:// URL'',
      ''Adresse attendue : une URL compl'' @ e_grave @ ''te en http:// ou https://.''),
    (''value contains a control character'',
      ''La valeur contient un caract'' @ e_grave @ ''re non autoris'' @ e_acute @ ''.''),
    (''no vault key configured: set ENDORIUMFORT_VAULT_KEY before storing a secret'',
      ''Aucune cl'' @ e_acute @ '' de coffre n'' @ apos @ ''est configur'' @ e_acute @
      ''e sur le bastion : impossible d'' @ apos @
      ''enregistrer un mot de passe ou un secret. D'' @ e_acute @
      ''finissez ENDORIUMFORT_VAULT_KEY (64 caract'' @ e_grave @ ''res hexad'' @ e_acute @
      ''cimaux) puis red'' @ e_acute @ ''marrez-le.'')
   ]"

text \<open>Sign-in, password, MFA\<close>

definition fr_sign_in :: "(string \<times> string) list" where
  "fr_sign_in =
   [
    (''Invalid credentials'', ''Identifiant ou mot de passe incorrect.''),
    (''Invalid username'',
      ''Nom d'' @ apos @ ''utilisateur invalide (128 caract'' @ e_grave @
      ''res maximum, sans caract'' @ e_grave @ ''re de contr'' @ o_circ @ ''le).''),
    (''Cannot delete your own account'', ''Vous ne pouvez pas supprimer votre propre compte.''),
    (''Cannot delete the last admin'', ''Impossible de supprimer le dernier administrateur.''),
    (''Cannot demote the last admin'',
      ''Impossible de r'' @ e_acute @ ''trograder le dernier administrateur.''),
    (''resourceId is required'',
      ''Une ressource doit '' @ e_circ @ ''tre indiqu'' @ e_acute @
      ''e pour ouvrir une session.''),
    (''Security setup required'',
      ''Changez d'' @ apos @ ''abord le mot de passe initial et ajoutez un second facteur.''),
    (''Missing username or password'',
      ''Saisissez l'' @ apos @ ''identifiant et le mot de passe.''),
    (''Missing user or password'', ''Saisissez l'' @ apos @ ''identifiant et le mot de passe.''),
    (''Too many login attempts. Try again later.'',
      ''Trop de tentatives de connexion. R'' @ e_acute @ ''essayez plus tard.''),
    (''Too many login attempts from this IP. Try again later.'',
      ''Trop de tentatives de connexion depuis cette adresse. R'' @ e_acute @
      ''essayez plus tard.''),
    (''Login failed'', ''La connexion a '' @ e_acute @ ''chou'' @ e_acute @ ''.''),
    (''Logout failed'',
      ''La d'' @ e_acute @ ''connexion a '' @ e_acute @ ''chou'' @ e_acute @ ''.''),
    (''Current password is incorrect'', ''Le mot de passe actuel est incorrect.''),
    (''Missing currentPassword or newPassword'',
      ''Saisissez le mot de passe actuel et le nouveau.''),
    (''Password must be at least 8 characters long'',
      ''Le mot de passe doit contenir au moins 8 caract'' @ e_grave @ ''res.''),
    (''Password must contain at least one digit'',
      ''Le mot de passe doit contenir au moins un chiffre.''),
    (''Password must contain at least one lowercase letter'',
      ''Le mot de passe doit contenir au moins une minuscule.''),
    (''Password must contain at least one uppercase letter'',
      ''Le mot de passe doit contenir au moins une majuscule.''),
    (''Failed to change password'', ''Impossible de changer le mot de passe.''),
    (''Failed to update password'',
      ''Impossible de mettre '' @ a_grave @ '' jour le mot de passe.''),
    (''Invalid TOTP code'', ''Code '' @ a_grave @ '' usage unique incorrect.''),
    (''Missing TOTP code'',
      ''Saisissez le code de l'' @ apos @ ''application d'' @ apos @ ''authentification.''),
    (''2FA is already enabled'',
      ''La double authentification est d'' @ e_acute @ ''j'' @ a_grave @ '' activ'' @ e_acute @
      ''e.''),
    (''2FA is not enabled'',
      ''La double authentification n'' @ apos @ ''est pas activ'' @ e_acute @ ''e.''),
    (''TOTP is not enabled for this account'',
      ''L'' @ apos @ ''application d'' @ apos @ ''authentification n'' @ apos @
      ''est pas activ'' @ e_acute @ ''e pour ce compte.''),
    (''Call /api/auth/setup-2fa first'',
      ''Commencez par configurer la double authentification.''),
    (''Failed to setup 2FA'', ''Impossible de configurer la double authentification.''),
    (''Failed to verify 2FA'', ''Impossible de v'' @ e_acute @ ''rifier le code.''),
    (''Failed to disable 2FA'',
      ''Impossible de retirer l'' @ apos @ ''application d'' @ apos @ ''authentification.''),
    (''Failed to fetch 2FA status'',
      ''Impossible de charger l'' @ apos @ e_acute @ ''tat de la double authentification.''),
    (''Admin accounts must keep at least one MFA method enabled'',
      ''Un compte administrateur doit garder au moins une m'' @ e_acute @
      ''thode de double authentification.''),
    (''Admin accounts need at least one MFA method before TOTP can be disabled'',
      ''Ajoutez une autre m'' @ e_acute @
      ''thode de double authentification avant de retirer l'' @ apos @ ''application.''),
    (''Invalid MFA preference'',
      ''Pr'' @ e_acute @ ''f'' @ e_acute @ ''rence de double authentification invalide.''),
    (''Failed to save MFA preference'',
      ''Impossible d'' @ apos @ ''enregistrer la pr'' @ e_acute @ ''f'' @ e_acute @
      ''rence de double authentification.''),
    (''No passkey is registered for this account'',
      ''Aucune cl'' @ e_acute @ '' de s'' @ e_acute @ ''curit'' @ e_acute @ '' n'' @ apos @
      ''est enregistr'' @ e_acute @ ''e pour ce compte.''),
    (''Passkey not found'',
      ''Cl'' @ e_acute @ '' de s'' @ e_acute @ ''curit'' @ e_acute @ '' introuvable.''),
    (''This passkey is already registered'',
      ''Cette cl'' @ e_acute @ '' de s'' @ e_acute @ ''curit'' @ e_acute @ '' est d'' @
      e_acute @ ''j'' @ a_grave @ '' enregistr'' @ e_acute @ ''e.''),
    (''Missing WebAuthn registration payload'',
      ''Enregistrement de la cl'' @ e_acute @ '' de s'' @ e_acute @ ''curit'' @ e_acute @
      '' incomplet.''),
    (''WebAuthn registration validation failed'',
      ''L'' @ apos @ ''enregistrement de la cl'' @ e_acute @ '' de s'' @ e_acute @ ''curit'' @
      e_acute @ '' a '' @ e_acute @ ''chou'' @ e_acute @ ''.''),
    (''Only ES256 and RS256 passkeys are supported currently'',
      ''Seules les cl'' @ e_acute @ ''s de s'' @ e_acute @ ''curit'' @ e_acute @
      '' ES256 et RS256 sont prises en charge.''),
    (''Failed to start passkey registration'',
      ''Impossible de d'' @ e_acute @ ''marrer l'' @ apos @ ''enregistrement de la cl'' @
      e_acute @ '' de s'' @ e_acute @ ''curit'' @ e_acute @ ''.''),
    (''Failed to verify passkey registration'',
      ''Impossible de v'' @ e_acute @ ''rifier la cl'' @ e_acute @ '' de s'' @ e_acute @
      ''curit'' @ e_acute @ ''.''),
    (''Failed to remove passkey'',
      ''Impossible de retirer la cl'' @ e_acute @ '' de s'' @ e_acute @ ''curit'' @ e_acute @
      ''.''),
    (''Failed to fetch bootstrap status'',
      ''Impossible de charger l'' @ apos @ e_acute @ ''tat de la premi'' @ e_grave @
      ''re connexion.''),
    (''Failed to update bootstrap security status'',
      ''Impossible de mettre '' @ a_grave @ '' jour l'' @ apos @ e_acute @ ''tat de la premi'' @
      e_grave @ ''re connexion.'')
   ]"

text \<open>SSO / OIDC / LDAP\<close>

definition fr_sso :: "(string \<times> string) list" where
  "fr_sso =
   [
    (''Missing authorization code or state'',
      ''R'' @ e_acute @ ''ponse SSO incompl'' @ e_grave @ ''te.''),
    (''OIDC state is invalid or expired'',
      ''La connexion SSO a expir'' @ e_acute @ ''. Recommencez.''),
    (''OIDC provider rejected authentication'',
      ''Le fournisseur SSO a refus'' @ e_acute @ '' la connexion.''),
    (''OIDC token endpoint rejected authorization'',
      ''Le fournisseur SSO a refus'' @ e_acute @ '' l'' @ apos @ ''autorisation.''),
    (''OIDC token exchange failed'',
      ''L'' @ apos @ e_acute @ ''change avec le fournisseur SSO a '' @ e_acute @ ''chou'' @
      e_acute @ ''.''),
    (''OIDC userinfo request failed'',
      ''Impossible d'' @ apos @ ''obtenir l'' @ apos @ ''identit'' @ e_acute @ '' aupr'' @
      e_grave @ ''s du fournisseur SSO.''),
    (''OIDC token response does not include access token'',
      ''R'' @ e_acute @ ''ponse SSO invalide.''),
    (''OIDC token response is not valid JSON payload'',
      ''R'' @ e_acute @ ''ponse SSO invalide.''),
    (''OIDC claims do not expose a usable identity'',
      ''Le fournisseur SSO ne transmet pas d'' @ apos @ ''identit'' @ e_acute @
      '' exploitable.''),
    (''OIDC SSO is disabled'',
      ''La connexion SSO est d'' @ e_acute @ ''sactiv'' @ e_acute @ ''e.''),
    (''OIDC identity is empty'',
      ''Le fournisseur SSO ne transmet pas d'' @ apos @ ''identit'' @ e_acute @ ''.''),
    (''Requested OIDC provider is disabled'',
      ''Ce fournisseur SSO est d'' @ e_acute @ ''sactiv'' @ e_acute @ ''.''),
    (''Unsupported OIDC provider'', ''Fournisseur SSO non pris en charge.''),
    (''Missing OIDC authorization endpoint configuration'',
      ''Configuration SSO incompl'' @ e_grave @ ''te (point d'' @ apos @ ''autorisation).''),
    (''Missing OIDC client identifier configuration'',
      ''Configuration SSO incompl'' @ e_grave @ ''te (identifiant client).''),
    (''Missing OIDC token endpoint configuration'',
      ''Configuration SSO incompl'' @ e_grave @ ''te (point de jeton).''),
    (''Invalid OIDC authorization endpoint'',
      ''Point d'' @ apos @ ''autorisation SSO invalide.''),
    (''Invalid OIDC token endpoint'', ''Point de jeton SSO invalide.''),
    (''Invalid OIDC userinfo endpoint'',
      ''Point d'' @ apos @ ''identit'' @ e_acute @ '' SSO invalide.''),
    (''Invalid OIDC state TTL'',
      ''Dur'' @ e_acute @ ''e de validit'' @ e_acute @ '' SSO invalide.''),
    (''Failed to initialize OIDC login state'',
      ''Impossible de d'' @ e_acute @ ''marrer la connexion SSO.''),
    (''Failed to provision SSO user'', ''Impossible de cr'' @ e_acute @ ''er le compte SSO.''),
    (''Failed to fetch SSO config'', ''Impossible de charger la configuration SSO.''),
    (''Failed to fetch SSO providers'', ''Impossible de charger les fournisseurs SSO.''),
    (''LDAP integration is disabled'',
      ''L'' @ apos @ ''annuaire LDAP est d'' @ e_acute @ ''sactiv'' @ e_acute @ ''.''),
    (''LDAP host is not configured'',
      ''Le serveur LDAP n'' @ apos @ ''est pas configur'' @ e_acute @ ''.''),
    (''LDAP username is empty'', ''Identifiant LDAP vide.''),
    (''Missing LDAP username or password'',
      ''Saisissez l'' @ apos @ ''identifiant et le mot de passe LDAP.''),
    (''Unable to build LDAP bind identity'',
      ''Impossible de construire l'' @ apos @ ''identit'' @ e_acute @ '' LDAP.''),
    (''ldapwhoami command is not available on this host'',
      ''La commande ldapwhoami n'' @ apos @ ''est pas install'' @ e_acute @
      ''e sur le bastion.''),
    (''Failed to execute ldapwhoami'',
      ''La v'' @ e_acute @ ''rification LDAP a '' @ e_acute @ ''chou'' @ e_acute @ ''.''),
    (''Failed to test LDAP bind'',
      ''Le test de connexion LDAP a '' @ e_acute @ ''chou'' @ e_acute @ ''.''),
    (''Failed to provision LDAP user'', ''Impossible de cr'' @ e_acute @ ''er le compte LDAP.''),
    (''Failed to persist LDAP user'', ''Impossible d'' @ apos @ ''enregistrer le compte LDAP.''),
    (''Failed to update LDAP user role'',
      ''Impossible de mettre '' @ a_grave @ '' jour le r'' @ o_circ @ ''le du compte LDAP.''),
    (''Failed to fetch LDAP config'', ''Impossible de charger la configuration LDAP.''),
    (''Failed to fetch directory providers'', ''Impossible de charger les annuaires.'')
   ]"

text \<open>Users\<close>

definition fr_users :: "(string \<times> string) list" where
  "fr_users =
   [
    (''User not found'', ''Utilisateur introuvable.''),
    (''User already exists'', ''Cet utilisateur existe d'' @ e_acute @ ''j'' @ a_grave @ ''.''),
    (''Invalid role'', ''R'' @ o_circ @ ''le invalide.''),
    (''Missing username, password, or role'',
      ''Saisissez l'' @ apos @ ''identifiant, le mot de passe et le r'' @ o_circ @ ''le.''),
    (''Missing password or role'', ''Saisissez le mot de passe et le r'' @ o_circ @ ''le.''),
    (''Failed to create user'',
      ''Impossible de cr'' @ e_acute @ ''er l'' @ apos @ ''utilisateur.''),
    (''Failed to update user'',
      ''Impossible de mettre '' @ a_grave @ '' jour l'' @ apos @ ''utilisateur.''),
    (''Failed to delete user'', ''Impossible de supprimer l'' @ apos @ ''utilisateur.''),
    (''Failed to persist user'',
      ''Impossible d'' @ apos @ ''enregistrer l'' @ apos @ ''utilisateur.''),
    (''Failed to fetch users'', ''Impossible de charger les utilisateurs.''),
    (''Failed to fetch permissions'',
      ''Impossible de charger les droits d'' @ apos @ ''acc'' @ e_grave @ ''s.''),
    (''Failed to grant permission'',
      ''Impossible d'' @ apos @ ''accorder l'' @ apos @ ''acc'' @ e_grave @ ''s.''),
    (''Failed to revoke permission'',
      ''Impossible de retirer l'' @ apos @ ''acc'' @ e_grave @ ''s.'')
   ]"

text \<open>Resources\<close>

definition fr_resources :: "(string \<times> string) list" where
  "fr_resources =
   [
    (''Resource not found'', ''Ressource introuvable.''),
    (''Unknown resource'', ''Ressource inconnue.''),
    (''Missing name'', ''Saisissez un nom.''),
    (''Missing name, target, or protocol'',
      ''Saisissez le nom, l'' @ apos @ ''adresse et le protocole.''),
    (''Missing resourceId'', ''Ressource non pr'' @ e_acute @ ''cis'' @ e_acute @ ''e.''),
    (''Invalid resourceId'', ''Ressource invalide.''),
    (''Invalid port'', ''Port invalide.''),
    (''Invalid protocol'', ''Protocole invalide.''),
    (''Invalid protocol. Allowed: ssh, rdp, vnc, http, https, agent, k8s, fileshare'',
      ''Protocole invalide. Possibles : ssh, rdp, vnc, http, https, agent, k8s, fileshare.''),
    (''Invalid agentProtocol. Allowed: ssh, rdp, vnc, http, https, tcp'',
      ''Protocole d'' @ apos @
      ''agent invalide. Possibles : ssh, rdp, vnc, http, https, tcp.''),
    (''Invalid target host'', ''Adresse de la cible invalide.''),
    (''Target address is not allowed for this protocol'',
      ''Cette adresse n'' @ apos @ ''est pas autoris'' @ e_acute @ ''e pour ce protocole.''),
    (''Invalid riskLevel'', ''Niveau de risque invalide.''),
    (''Invalid credentialSource'', ''Mode d'' @ apos @ ''identifiants invalide.''),
    (''Invalid label'', ''Libell'' @ e_acute @ '' invalide.''),
    (''Invalid imageUrl: must be HTTP(S) or relative path'',
      ''Image invalide : indiquez une adresse HTTP(S) ou un chemin relatif.''),
    (''Invalid tunnelTicketRateLimitMaxAttempts'', ''Limite de tickets de tunnel invalide.''),
    (''Resource is not a web resource'',
      ''Cette ressource n'' @ apos @ ''est pas une ressource web.''),
    (''Failed to create resource'', ''Impossible de cr'' @ e_acute @ ''er la ressource.''),
    (''Failed to update resource'',
      ''Impossible de mettre '' @ a_grave @ '' jour la ressource.''),
    (''Failed to delete resource'', ''Impossible de supprimer la ressource.''),
    (''Failed to persist resource'', ''Impossible d'' @ apos @ ''enregistrer la ressource.''),
    (''Failed to fetch resources'', ''Impossible de charger les ressources.'')
   ]"

text \<open>Sessions, access, JIT\<close>

definition fr_sessions :: "(string \<times> string) list" where
  "fr_sessions =
   [
    (''Session not found'', ''Session introuvable.''),
    (''Session closed'', ''Cette session est termin'' @ e_acute @ ''e.''),
    (''Invalid sessionId'', ''Session invalide.''),
    (''Missing sessionId'', ''Session non pr'' @ e_acute @ ''cis'' @ e_acute @ ''e.''),
    (''invalid session'', ''Session invalide.''),
    (''Missing target, user, or protocol'', ''Adresse, compte ou protocole manquant.''),
    (''resourceId does not match target/protocol/port payload'',
      ''La ressource ne correspond pas '' @ a_grave @ '' l'' @ apos @ ''adresse demand'' @
      e_acute @ ''e.''),
    (''Failed to create session'', ''Impossible d'' @ apos @ ''ouvrir la session.''),
    (''Failed to persist session'', ''Impossible d'' @ apos @ ''enregistrer la session.''),
    (''Failed to terminate session'', ''Impossible de terminer la session.''),
    (''Failed to fetch sessions'', ''Impossible de charger les sessions.''),
    (''Failed to preview session risk'',
      ''Impossible d'' @ apos @ e_acute @ ''valuer le risque de la session.''),
    (''Failed to fetch session DNA'',
      ''Impossible de charger l'' @ apos @ ''empreinte de la session.''),
    (''Failed to review session goal'',
      ''Impossible d'' @ apos @ ''enregistrer la revue de l'' @ apos @ ''objectif.''),
    (''mismatchReason is required when goalMatched is false'',
      ''Expliquez pourquoi l'' @ apos @ ''objectif n'' @ apos @ ''a pas '' @ e_acute @ ''t'' @
      e_acute @ '' respect'' @ e_acute @ ''.''),
    (''Failed to start session elevation'',
      ''Impossible de d'' @ e_acute @ ''marrer l'' @ apos @ e_acute @ ''l'' @ e_acute @
      ''vation de droits.''),
    (''Failed to end session elevation'',
      ''Impossible de terminer l'' @ apos @ e_acute @ ''l'' @ e_acute @ ''vation de droits.''),
    (''Failed to persist elevation scope'',
      ''Impossible d'' @ apos @ ''enregistrer l'' @ apos @ e_acute @ ''l'' @ e_acute @
      ''vation de droits.''),
    (''This resource requires an access justification before connect'',
      ''Cette ressource demande un motif avant la connexion.''),
    (''This resource requires dual approval: provide an approved accessRequestId'',
      ''Cette ressource demande une approbation : faites d'' @ apos @ ''abord une demande d'' @
      apos @ ''acc'' @ e_grave @ ''s.''),
    (''This access path requires a ticketId under JIT policy'',
      ''Cet acc'' @ e_grave @ ''s demande un num'' @ e_acute @
      ''ro de ticket (politique JIT).''),
    (''High-risk resources require a purpose (purpose-bound session)'',
      ''Les ressources '' @ a_grave @ '' risque '' @ e_acute @ ''lev'' @ e_acute @
      '' demandent l'' @ apos @ ''objectif de la session.''),
    (''Containment mode is enabled: provide a justification to open this session'',
      ''Le confinement est actif : donnez un motif pour ouvrir cette session.''),
    (''Additional MFA posture is required for this access'',
      ''Cet acc'' @ e_grave @ ''s demande une double authentification suppl'' @ e_acute @
      ''mentaire.''),
    (''This access policy requires a relay route'',
      ''Cette politique d'' @ apos @ ''acc'' @ e_grave @ ''s impose de passer par un relais.''),
    (''Access request not found'',
      ''Demande d'' @ apos @ ''acc'' @ e_grave @ ''s introuvable.''),
    (''Access request already decided'',
      ''Cette demande d'' @ apos @ ''acc'' @ e_grave @ ''s a d'' @ e_acute @ ''j'' @ a_grave @
      '' '' @ e_acute @ ''t'' @ e_acute @ '' trait'' @ e_acute @ ''e.''),
    (''Access request is not approved'',
      ''Cette demande d'' @ apos @ ''acc'' @ e_grave @ ''s n'' @ apos @ ''est pas approuv'' @
      e_acute @ ''e.''),
    (''Access request does not match requester/resource'',
      ''Cette demande d'' @ apos @ ''acc'' @ e_grave @ ''s ne correspond pas '' @ a_grave @
      '' vous ou '' @ a_grave @ '' cette ressource.''),
    (''justification is required for access requests'',
      ''Le motif est obligatoire pour une demande d'' @ apos @ ''acc'' @ e_grave @ ''s.''),
    (''justification is too long (max 280 chars)'',
      ''Le motif est trop long (280 caract'' @ e_grave @ ''res au plus).''),
    (''reason is too long (max 280 chars)'',
      ''Le motif est trop long (280 caract'' @ e_grave @ ''res au plus).''),
    (''purpose is too long (max 120 chars)'',
      ''L'' @ apos @ ''objectif est trop long (120 caract'' @ e_grave @ ''res au plus).''),
    (''purposeEvidence is too long (max 280 chars)'',
      ''La preuve d'' @ apos @ ''objectif est trop longue (280 caract'' @ e_grave @
      ''res au plus).''),
    (''ticketId is too long'', ''Le num'' @ e_acute @ ''ro de ticket est trop long.''),
    (''ticketId is too long (max 80 chars)'',
      ''Le num'' @ e_acute @ ''ro de ticket est trop long (80 caract'' @ e_grave @
      ''res au plus).''),
    (''Missing ticketId'', ''Saisissez un num'' @ e_acute @ ''ro de ticket.''),
    (''Failed to verify ITSM ticket'', ''Impossible de v'' @ e_acute @ ''rifier le ticket.''),
    (''Failed to create access request'',
      ''Impossible de cr'' @ e_acute @ ''er la demande d'' @ apos @ ''acc'' @ e_grave @ ''s.''),
    (''Failed to persist access request'',
      ''Impossible d'' @ apos @ ''enregistrer la demande d'' @ apos @ ''acc'' @ e_grave @
      ''s.''),
    (''Failed to approve access request'',
      ''Impossible d'' @ apos @ ''approuver la demande d'' @ apos @ ''acc'' @ e_grave @ ''s.''),
    (''Failed to deny access request'',
      ''Impossible de refuser la demande d'' @ apos @ ''acc'' @ e_grave @ ''s.''),
    (''Failed to persist decision'',
      ''Impossible d'' @ apos @ ''enregistrer la d'' @ e_acute @ ''cision.''),
    (''Failed to fetch access requests'',
      ''Impossible de charger les demandes d'' @ apos @ ''acc'' @ e_grave @ ''s.''),
    (''Failed to fetch access grants'',
      ''Impossible de charger les acc'' @ e_grave @ ''s accord'' @ e_acute @ ''s.''),
    (''Failed to persist access grant'',
      ''Impossible d'' @ apos @ ''enregistrer l'' @ apos @ ''acc'' @ e_grave @ ''s accord'' @
      e_acute @ ''.''),
    (''Invalid access grant TTL'',
      ''Dur'' @ e_acute @ ''e d'' @ apos @ ''acc'' @ e_grave @ ''s invalide.''),
    (''The access grant behind this session has expired'',
      ''L'' @ apos @ ''acc'' @ e_grave @ ''s accord'' @ e_acute @
      '' pour cette session a expir'' @ e_acute @ ''.''),
    (''The access grant behind this session is no longer valid'',
      ''L'' @ apos @ ''acc'' @ e_grave @ ''s accord'' @ e_acute @ '' pour cette session n'' @
      apos @ ''est plus valide.''),
    (''Access policy not found'',
      ''Politique d'' @ apos @ ''acc'' @ e_grave @ ''s introuvable.''),
    (''Referenced access policy not found'',
      ''La politique d'' @ apos @ ''acc'' @ e_grave @ ''s indiqu'' @ e_acute @
      ''e est introuvable.''),
    (''Invalid policy payload'', ''Politique d'' @ apos @ ''acc'' @ e_grave @ ''s invalide.''),
    (''Invalid approvalMode'', ''Mode d'' @ apos @ ''approbation invalide.''),
    (''Invalid mfaRequirement'', ''Exigence de double authentification invalide.''),
    (''Invalid routingConstraint'', ''Contrainte de routage invalide.''),
    (''Invalid timeWindow format'', ''Plage horaire invalide.''),
    (''Invalid maxDurationSeconds'', ''Dur'' @ e_acute @ ''e maximale invalide.''),
    (''Failed to create access policy'',
      ''Impossible de cr'' @ e_acute @ ''er la politique d'' @ apos @ ''acc'' @ e_grave @
      ''s.''),
    (''Failed to update access policy'',
      ''Impossible de mettre '' @ a_grave @ '' jour la politique d'' @ apos @ ''acc'' @
      e_grave @ ''s.''),
    (''Failed to delete access policy'',
      ''Impossible de supprimer la politique d'' @ apos @ ''acc'' @ e_grave @ ''s.''),
    (''Failed to persist access policy'',
      ''Impossible d'' @ apos @ ''enregistrer la politique d'' @ apos @ ''acc'' @ e_grave @
      ''s.''),
    (''Failed to fetch access policies'',
      ''Impossible de charger les politiques d'' @ apos @ ''acc'' @ e_grave @ ''s.''),
    (''Access profile not found'', ''Profil d'' @ apos @ ''acc'' @ e_grave @ ''s introuvable.''),
    (''Failed to create access profile'',
      ''Impossible de cr'' @ e_acute @ ''er le profil d'' @ apos @ ''acc'' @ e_grave @ ''s.''),
    (''Failed to update access profile'',
      ''Impossible de mettre '' @ a_grave @ '' jour le profil d'' @ apos @ ''acc'' @ e_grave @
      ''s.''),
    (''Failed to delete access profile'',
      ''Impossible de supprimer le profil d'' @ apos @ ''acc'' @ e_grave @ ''s.''),
    (''Failed to persist access profile'',
      ''Impossible d'' @ apos @ ''enregistrer le profil d'' @ apos @ ''acc'' @ e_grave @
      ''s.''),
    (''Failed to assign access profile'',
      ''Impossible d'' @ apos @ ''attribuer le profil d'' @ apos @ ''acc'' @ e_grave @ ''s.''),
    (''Failed to revoke access profile'',
      ''Impossible de retirer le profil d'' @ apos @ ''acc'' @ e_grave @ ''s.''),
    (''Failed to fetch access profiles'',
      ''Impossible de charger les profils d'' @ apos @ ''acc'' @ e_grave @ ''s.'')
   ]"

text \<open>Terminal, SSH, viewers\<close>

definition fr_terminal :: "(string \<times> string) list" where
  "fr_terminal =
   [
    (''Already started'',
      ''La session est d'' @ e_acute @ ''j'' @ a_grave @ '' d'' @ e_acute @ ''marr'' @ e_acute @
      ''e.''),
    (''This session belongs to another user: use Observe to follow it'',
      ''Cette session appartient '' @ a_grave @ '' un autre utilisateur : utilisez '' @ laquo @
      '' Observer '' @ raquo @ '' pour la suivre.''),
    (''No SSH credential available for this session'',
      ''Aucun identifiant SSH disponible pour cette session.''),
    (''SSH authentication failed'', ''Authentification SSH refus'' @ e_acute @ ''e.''),
    (''SSH handshake failed'',
      ''La n'' @ e_acute @ ''gociation SSH a '' @ e_acute @ ''chou'' @ e_acute @ ''.''),
    (''SSH channel open failed'', ''Impossible d'' @ apos @ ''ouvrir le canal SSH.''),
    (''SSH pty request failed'', ''Impossible d'' @ apos @ ''ouvrir le terminal SSH.''),
    (''SSH shell request failed'', ''Impossible d'' @ apos @ ''ouvrir le shell SSH.''),
    (''Unable to connect'', ''Connexion impossible '' @ a_grave @ '' la cible.''),
    (''Unable to resolve host'', ''Adresse de la cible introuvable.''),
    (''SSH proxy is not supported on Windows.'',
      ''Le relais SSH n'' @ apos @ ''est pas disponible sur Windows.''),
    (''SSH proxy disabled (libssh2 not found).'',
      ''Le relais SSH est d'' @ e_acute @ ''sactiv'' @ e_acute @
      '' sur ce bastion (libssh2 absente).''),
    (''Unable to connect to VNC target'',
      ''Connexion impossible '' @ a_grave @ '' la cible VNC.''),
    (''Unable to resolve VNC target'', ''Adresse de la cible VNC introuvable.''),
    (''Kubernetes resource not configured'',
      ''Cette ressource Kubernetes n'' @ apos @ ''est pas configur'' @ e_acute @ ''e.''),
    (''Kubernetes exec unavailable on this platform'',
      ''Le shell Kubernetes n'' @ apos @ ''est pas disponible sur ce bastion.''),
    (''k8s exec unavailable'', ''Le shell Kubernetes n'' @ apos @ ''est pas disponible.''),
    (''Invalid pod/container'', ''Pod ou conteneur invalide.''),
    (''Invalid namespace'', ''Espace de noms invalide.''),
    (''Failed to list pods'', ''Impossible de lister les pods.''),
    (''Failed to configure Kubernetes resource'',
      ''Impossible de configurer la ressource Kubernetes.''),
    (''Failed to fetch Kubernetes resources'',
      ''Impossible de charger les ressources Kubernetes.''),
    (''RBI only applies to http/https resources'',
      ''L'' @ apos @ ''isolation de navigation ne s'' @ apos @ ''applique qu'' @ apos @
      ''aux ressources web.''),
    (''Server at RBI capacity, retry shortly'',
      ''Le bastion est '' @ a_grave @ '' pleine capacit'' @ e_acute @ '' de navigation isol'' @
      e_acute @ ''e. R'' @ e_acute @ ''essayez dans un instant.''),
    (''Paste blocked by policy'', ''Le collage est bloqu'' @ e_acute @ '' par la politique.''),
    (''Upload blocked by policy'',
      ''L'' @ apos @ ''envoi de fichiers est bloqu'' @ e_acute @ '' par la politique.''),
    (''Upload exceeds size limit'',
      ''Le fichier d'' @ e_acute @ ''passe la taille autoris'' @ e_acute @ ''e.''),
    (''File upload requires the tiles engine'',
      ''L'' @ apos @ ''envoi de fichiers n'' @ apos @ ''est pas disponible dans ce mode d'' @
      apos @ ''affichage.''),
    (''Cannot stage upload'',
      ''Impossible de pr'' @ e_acute @ ''parer l'' @ apos @ ''envoi du fichier.''),
    (''Recording not found'', ''Enregistrement introuvable.''),
    (''Recording file not found on disk'',
      ''Le fichier d'' @ apos @ ''enregistrement est introuvable sur le bastion.''),
    (''Not an RBI recording'',
      ''Ce n'' @ apos @ ''est pas un enregistrement de navigation isol'' @ e_acute @ ''e.''),
    (''Failed to fetch recordings'', ''Impossible de charger les enregistrements.''),
    (''Failed to fetch recording data'',
      ''Impossible de charger l'' @ apos @ ''enregistrement.''),
    (''Failed to fetch RBI recording'',
      ''Impossible de charger l'' @ apos @ ''enregistrement de navigation isol'' @ e_acute @
      ''e.'')
   ]"

text \<open>Agent tunnels, relays, cluster\<close>

definition fr_agents :: "(string \<times> string) list" where
  "fr_agents =
   [
    (''Agent tunnels must be tied to a session: open the resource from the EndoriumFort portal, which checks its access rules (reason, ticket, purpose, approval) first'',
      ''Un tunnel d'' @ apos @ ''agent doit '' @ e_circ @ ''tre rattach'' @ e_acute @ '' '' @
      a_grave @ '' une session : ouvrez la ressource depuis le portail EndoriumFort, qui v'' @
      e_acute @ ''rifie d'' @ apos @ ''abord ses r'' @ e_grave @ ''gles d'' @ apos @ ''acc'' @
      e_grave @ ''s (motif, ticket, objectif, approbation).''),
    (''The session behind this tunnel has ended'',
      ''La session de ce tunnel est termin'' @ e_acute @ ''e.''),
    (''The session does not belong to this user'', ''Cette session ne vous appartient pas.''),
    (''The session does not match this resource'',
      ''Cette session ne correspond pas '' @ a_grave @ '' cette ressource.''),
    (''Tunnel ticket rate limit exceeded'',
      ''Trop de demandes de tunnel. Patientez un instant.''),
    (''Invalid tunnel ticket TTL'', ''Dur'' @ e_acute @ ''e de ticket de tunnel invalide.''),
    (''Invalid tunnel credential TTL'',
      ''Dur'' @ e_acute @ ''e d'' @ apos @ ''identifiant de tunnel invalide.''),
    (''Failed to mint agent token'',
      ''Impossible de cr'' @ e_acute @ ''er le jeton d'' @ apos @ ''agent.''),
    (''Failed to fetch agents'', ''Impossible de charger les agents.''),
    (''Relay not found'', ''Relais introuvable.''),
    (''Invalid relayId'', ''Relais invalide.''),
    (''Missing relayId'', ''Relais non pr'' @ e_acute @ ''cis'' @ e_acute @ ''.''),
    (''Missing relay token'', ''Jeton de relais manquant.''),
    (''Invalid relay token'', ''Jeton de relais invalide.''),
    (''Missing relay certificate'', ''Certificat de relais manquant.''),
    (''Invalid relay certificate'', ''Certificat de relais invalide.''),
    (''Relay enrollment denied'',
      ''Enr'' @ o_circ @ ''lement du relais refus'' @ e_acute @ ''.''),
    (''Relay enrollment secret is not configured'',
      ''Le secret d'' @ apos @ ''enr'' @ o_circ @ ''lement des relais n'' @ apos @
      ''est pas configur'' @ e_acute @ ''.''),
    (''Relay transport must be TLS (HTTPS)'', ''Le relais doit utiliser TLS (HTTPS).''),
    (''Invalid relay token TTL'', ''Dur'' @ e_acute @ ''e de jeton de relais invalide.''),
    (''Invalid relay certificate TTL'',
      ''Dur'' @ e_acute @ ''e de certificat de relais invalide.''),
    (''Invalid relay enrollment token TTL'',
      ''Dur'' @ e_acute @ ''e de jeton d'' @ apos @ ''enr'' @ o_circ @ ''lement invalide.''),
    (''Failed to assign relay'', ''Impossible d'' @ apos @ ''attribuer le relais.''),
    (''Failed to clear relay assignment'', ''Impossible de retirer le relais.''),
    (''Failed to create relay certificate'',
      ''Impossible de cr'' @ e_acute @ ''er le certificat de relais.''),
    (''Failed to create relay enrollment token'',
      ''Impossible de cr'' @ e_acute @ ''er le jeton d'' @ apos @ ''enr'' @ o_circ @
      ''lement.''),
    (''Failed to resolve relay route'',
      ''Impossible de d'' @ e_acute @ ''terminer la route par relais.''),
    (''Failed to fetch relay config'', ''Impossible de charger la configuration des relais.''),
    (''Failed to fetch relays'', ''Impossible de charger les relais.''),
    (''Cluster mode is disabled'',
      ''Le mode cluster est d'' @ e_acute @ ''sactiv'' @ e_acute @ ''.''),
    (''Cluster peer not found'', ''N'' @ oe_lig @ ''ud du cluster introuvable.''),
    (''Cluster shared secret is not configured'',
      ''Le secret partag'' @ e_acute @ '' du cluster n'' @ apos @ ''est pas configur'' @
      e_acute @ ''.''),
    (''Invalid cluster secret'', ''Secret du cluster invalide.''),
    (''Invalid nodeId'', ''Identifiant de n'' @ oe_lig @ ''ud invalide.''),
    (''Missing nodeId'', ''Identifiant de n'' @ oe_lig @ ''ud manquant.''),
    (''nodeId conflicts with local node'',
      ''Cet identifiant est celui du n'' @ oe_lig @ ''ud local.''),
    (''Failed to remove cluster peer'',
      ''Impossible de retirer le n'' @ oe_lig @ ''ud du cluster.''),
    (''Failed to fetch cluster config'', ''Impossible de charger la configuration du cluster.''),
    (''Failed to fetch cluster status'',
      ''Impossible de charger l'' @ apos @ e_acute @ ''tat du cluster.''),
    (''Invalid version'', ''Version invalide.''),
    (''Device not found'', ''Appareil introuvable.''),
    (''Invalid device signature'', ''Signature de l'' @ apos @ ''appareil invalide.''),
    (''Failed to register device'',
      ''Impossible d'' @ apos @ ''enregistrer l'' @ apos @ ''appareil.''),
    (''platform must be '' @ squote @ ''ios'' @ squote @ '' or '' @ squote @ ''android'' @ squote,
      ''Plateforme attendue : ios ou android.''),
    (''invalid pushProvider'', ''Service de notification invalide.''),
    (''pushToken required (max 2048 chars)'', ''Jeton de notification manquant ou trop long.''),
    (''publicKey too large'', ''Cl'' @ e_acute @ '' publique trop longue.'')
   ]"

text \<open>Vault\<close>

definition fr_vault :: "(string \<times> string) list" where
  "fr_vault =
   [
    (''Failed to rotate credential'', ''Impossible de changer le mot de passe.''),
    (''Failed to configure rotation'', ''Impossible de configurer la rotation.''),
    (''Failed to fetch rotation policies'', ''Impossible de charger les rotations.''),
    (''Failed to configure dynamic secrets'',
      ''Impossible de configurer les comptes temporaires.''),
    (''Failed to fetch dynamic secrets'', ''Impossible de charger les comptes temporaires.''),
    (''Failed to fetch credentials'', ''Impossible de charger les identifiants.''),
    (''Ephemeral credential lease is only available for SSH resources'',
      ''Les identifiants temporaires ne concernent que les ressources SSH.''),
    (''Resource has no vaulted SSH credentials to lease'',
      ''Cette ressource n'' @ apos @ ''a pas d'' @ apos @ ''identifiant SSH dans le coffre.''),
    (''Resource has no vaulted SSH credentials to consume'',
      ''Cette ressource n'' @ apos @ ''a pas d'' @ apos @ ''identifiant SSH dans le coffre.''),
    (''Invalid ephemeral lease TTL'',
      ''Dur'' @ e_acute @ ''e d'' @ apos @ ''identifiant temporaire invalide.''),
    (''Lease not found'', ''Identifiant temporaire introuvable.''),
    (''Lease has expired'', ''L'' @ apos @ ''identifiant temporaire a expir'' @ e_acute @ ''.''),
    (''Lease is not consumable'',
      ''Cet identifiant temporaire n'' @ apos @ ''est plus utilisable.''),
    (''Lease requester mismatch'',
      ''Cet identifiant temporaire a '' @ e_acute @ ''t'' @ e_acute @ '' demand'' @ e_acute @
      '' par quelqu'' @ apos @ ''un d'' @ apos @ ''autre.''),
    (''Failed to issue ephemeral credential lease'',
      ''Impossible de d'' @ e_acute @ ''livrer l'' @ apos @ ''identifiant temporaire.''),
    (''Failed to consume ephemeral credential lease'',
      ''Impossible d'' @ apos @ ''utiliser l'' @ apos @ ''identifiant temporaire.''),
    (''Failed to persist lease'',
      ''Impossible d'' @ apos @ ''enregistrer l'' @ apos @ ''identifiant temporaire.''),
    (''Failed to persist lease state'',
      ''Impossible d'' @ apos @ ''enregistrer l'' @ apos @ e_acute @ ''tat de l'' @ apos @
      ''identifiant temporaire.''),
    (''ssh unavailable'', ''SSH indisponible sur ce bastion.''),
    (''ssh unavailable on this platform'', ''SSH indisponible sur ce bastion.'')
   ]"

text \<open>Audit, evidence, security\<close>

definition fr_audit :: "(string \<times> string) list" where
  "fr_audit =
   [
    (''Failed to fetch audit log'', ''Impossible de charger le journal.''),
    (''Failed to search the audit log'',
      ''La recherche dans le journal a '' @ e_acute @ ''chou'' @ e_acute @ ''.''),
    (''Failed to verify the audit log'', ''Impossible de v'' @ e_acute @ ''rifier le journal.''),
    (''This page of the audit log is no longer available'',
      ''Cette page du journal n'' @ apos @ ''est plus disponible : relancez la recherche.''),
    (''invalid cursor'', ''Pagination invalide : relancez la recherche.''),
    (''category must be failure or admin'', ''Cat'' @ e_acute @ ''gorie invalide.''),
    (''dates must look like 2026-10-13 or 2026-10-13T08:30:00Z'',
      ''Date invalide (attendu : 2026-10-13 ou 2026-10-13T08:30:00Z).''),
    (''limit must be between 1 and 500'',
      ''Le nombre de lignes doit '' @ e_circ @ ''tre entre 1 et 500.''),
    (''Failed to fetch evidence pack'', ''Impossible de charger le dossier de preuves.''),
    (''Failed to fetch stats'', ''Impossible de charger les statistiques.''),
    (''Failed to fetch security alerts'',
      ''Impossible de charger les alertes de s'' @ e_acute @ ''curit'' @ e_acute @ ''.''),
    (''Failed to fetch containment status'',
      ''Impossible de charger l'' @ apos @ e_acute @ ''tat du confinement.''),
    (''Failed to update containment mode'', ''Impossible de changer le confinement.''),
    (''An incident case is already active'',
      ''Un incident est d'' @ e_acute @ ''j'' @ a_grave @ '' ouvert.''),
    (''No active incident case'', ''Aucun incident ouvert.''),
    (''Failed to open security incident'',
      ''Impossible d'' @ apos @ ''ouvrir l'' @ apos @ ''incident.''),
    (''Failed to close security incident'', ''Impossible de clore l'' @ apos @ ''incident.''),
    (''Failed to report security incident escalation'',
      ''Impossible de signaler l'' @ apos @ ''escalade de l'' @ apos @ ''incident.''),
    (''Failed to fetch active incident'',
      ''Impossible de charger l'' @ apos @ ''incident en cours.''),
    (''Unknown detection'', ''D'' @ e_acute @ ''tection inconnue.''),
    (''Failed to acknowledge detection'',
      ''Impossible d'' @ apos @ ''acquitter la d'' @ e_acute @ ''tection.''),
    (''Failed to fetch ITDR detections'',
      ''Impossible de charger les d'' @ e_acute @ ''tections.''),
    (''Failed to fetch ITDR rules'',
      ''Impossible de charger les r'' @ e_grave @ ''gles de d'' @ e_acute @ ''tection.''),
    (''Failed to update ITDR rule'',
      ''Impossible de mettre '' @ a_grave @ '' jour la r'' @ e_grave @ ''gle de d'' @ e_acute @
      ''tection.''),
    (''Unknown job'', ''T'' @ a_circ @ ''che inconnue.''),
    (''Failed to fetch SSH guard rules'',
      ''Impossible de charger les r'' @ e_grave @ ''gles du garde-fou SSH.''),
    (''Failed to save the SSH guard rule'',
      ''Impossible d'' @ apos @ ''enregistrer la r'' @ e_grave @ ''gle.''),
    (''Failed to delete the SSH guard rule'',
      ''Impossible de supprimer la r'' @ e_grave @ ''gle.''),
    (''built-in rules can be disabled but not removed'',
      ''Les r'' @ e_grave @ ''gles int'' @ e_acute @ ''gr'' @ e_acute @ ''es se d'' @ e_acute @
      ''sactivent mais ne se suppriment pas.''),
    (''no such rule'', ''R'' @ e_grave @ ''gle introuvable.''),
    (''could not save the rule'',
      ''Impossible d'' @ apos @ ''enregistrer la r'' @ e_grave @ ''gle.''),
    (''command must not be empty'', ''Saisissez la commande '' @ a_grave @ '' bloquer.''),
    (''command must contain at least one word'',
      ''Saisissez la commande '' @ a_grave @ '' bloquer.''),
    (''command must be at most 200 characters'',
      ''La commande est trop longue (200 caract'' @ e_grave @ ''res au plus).''),
    (''name may only contain letters, digits, '' @ squote @ ''_'' @ squote @ '' and '' @ squote @ ''-'' @ squote,
      ''Le nom ne peut contenir que lettres, chiffres, tirets et tirets bas.''),
    (''name must be 1 to 48 characters'',
      ''Le nom doit faire de 1 '' @ a_grave @ '' 48 caract'' @ e_grave @ ''res.'')
   ]"

text \<open>Integrations, SCIM, SIEM, ITSM\<close>

definition fr_integrations :: "(string \<times> string) list" where
  "fr_integrations =
   [
    (''Failed to fetch integration settings'',
      ''Impossible de charger les int'' @ e_acute @ ''grations.''),
    (''Failed to save integration settings'',
      ''Impossible d'' @ apos @ ''enregistrer les int'' @ e_acute @ ''grations.''),
    (''Failed to fetch SIEM channels'', ''Impossible de charger les canaux SIEM.''),
    (''Failed to forward SIEM event'',
      ''Impossible d'' @ apos @ ''envoyer l'' @ apos @ e_acute @ ''v'' @ e_acute @
      ''nement au SIEM.''),
    (''Unsupported SIEM channel'', ''Canal SIEM non pris en charge.''),
    (''Missing eventType'',
      ''Type d'' @ apos @ e_acute @ ''v'' @ e_acute @ ''nement manquant.''),
    (''eventType is too long'',
      ''Type d'' @ apos @ e_acute @ ''v'' @ e_acute @ ''nement trop long.''),
    (''Invalid deliveryMode'', ''Mode d'' @ apos @ ''envoi invalide.''),
    (''Invalid failMode'', ''Comportement en cas d'' @ apos @ e_acute @ ''chec invalide.''),
    (''channel not enabled or not configured'',
      ''Ce canal n'' @ apos @ ''est pas activ'' @ e_acute @ '' ou pas configur'' @ e_acute @
      ''.''),
    (''channel not implemented'', ''Ce canal n'' @ apos @ ''est pas encore disponible.''),
    (''invalid URL'', ''Adresse invalide.''),
    (''Failed to fetch ITSM providers'', ''Impossible de charger les outils de ticketing.''),
    (''Unsupported provider'', ''Fournisseur non pris en charge.''),
    (''unsupported provider'', ''Fournisseur non pris en charge.''),
    (''unexpected Jira answer'', ''R'' @ e_acute @ ''ponse inattendue de Jira.''),
    (''unexpected ServiceNow answer'', ''R'' @ e_acute @ ''ponse inattendue de ServiceNow.''),
    (''Missing userName'', ''Identifiant manquant.''),
    (''userName already exists'',
      ''Cet identifiant existe d'' @ e_acute @ ''j'' @ a_grave @ ''.''),
    (''userName cannot be empty'',
      ''L'' @ apos @ ''identifiant ne peut pas '' @ e_circ @ ''tre vide.''),
    (''Failed to create SCIM user'', ''Impossible de cr'' @ e_acute @ ''er le compte SCIM.''),
    (''Failed to update SCIM user'',
      ''Impossible de mettre '' @ a_grave @ '' jour le compte SCIM.''),
    (''Failed to patch SCIM user'', ''Impossible de modifier le compte SCIM.''),
    (''Failed to delete SCIM user'', ''Impossible de supprimer le compte SCIM.''),
    (''Failed to persist SCIM user'', ''Impossible d'' @ apos @ ''enregistrer le compte SCIM.''),
    (''Failed to fetch SCIM user'', ''Impossible de charger le compte SCIM.''),
    (''Failed to fetch SCIM users'', ''Impossible de charger les comptes SCIM.''),
    (''Failed to fetch SCIM groups'', ''Impossible de charger les groupes SCIM.''),
    (''Failed to fetch SCIM service provider config'',
      ''Impossible de charger la configuration SCIM.''),
    (''Failed to deprovision user'', ''Impossible de d'' @ e_acute @ ''sactiver le compte.'')
   ]"

text \<open>License, appearance\<close>

definition fr_license :: "(string \<times> string) list" where
  "fr_license =
   [
    (''Empty license token'', ''La licence est vide.''),
    (''Missing '' @ squote @ ''license'' @ squote @ '' field'', ''Licence manquante.''),
    (''Failed to apply license'', ''Impossible d'' @ apos @ ''appliquer la licence.''),
    (''Failed to reload license'', ''Impossible de recharger la licence.''),
    (''Failed to fetch license status'',
      ''Impossible de charger l'' @ apos @ e_acute @ ''tat de la licence.''),
    (''No license file path configured (set ENDORIUMFORT_LICENSE_FILE).'',
      ''Aucun fichier de licence configur'' @ e_acute @ '' (ENDORIUMFORT_LICENSE_FILE).''),
    (''Signing key unavailable'', ''Cl'' @ e_acute @ '' de signature indisponible.''),
    (''no license configured'', ''Aucune licence configur'' @ e_acute @ ''e.''),
    (''license expired'', ''La licence a expir'' @ e_acute @ ''.''),
    (''license not yet valid'', ''La licence n'' @ apos @ ''est pas encore valide.''),
    (''license revoked'',
      ''La licence a '' @ e_acute @ ''t'' @ e_acute @ '' r'' @ e_acute @ ''voqu'' @ e_acute @
      ''e.''),
    (''malformed token'', ''Licence mal form'' @ e_acute @ ''e.''),
    (''missing signature'', ''Licence non sign'' @ e_acute @ ''e.''),
    (''signature decode failed'', ''Signature de licence illisible.''),
    (''unknown issuer kid'',
      ''Licence '' @ e_acute @ ''mise par un '' @ e_acute @ ''metteur inconnu.''),
    (''unsupported license version'', ''Version de licence non prise en charge.''),
    (''system clock moved backwards'',
      ''L'' @ apos @ ''horloge du serveur a recul'' @ e_acute @ '' : licence bloqu'' @ e_acute @
      ''e.''),
    (''Image too large'', ''Image trop lourde.''),
    (''Empty image'', ''Image vide.''),
    (''Unsupported image format'',
      ''Format d'' @ apos @ ''image non pris en charge (PNG, JPEG, WebP ou ICO).''),
    (''Could not save the image'',
      ''Impossible d'' @ apos @ ''enregistrer l'' @ apos @ ''image.''),
    (''Could not remove the image'', ''Impossible de retirer l'' @ apos @ ''image.''),
    (''Could not save the appearance'',
      ''Impossible d'' @ apos @ ''enregistrer l'' @ apos @ ''apparence.''),
    (''Failed to save the appearance'',
      ''Impossible d'' @ apos @ ''enregistrer l'' @ apos @ ''apparence.''),
    (''Failed to upload the image'',
      ''Impossible d'' @ apos @ ''envoyer l'' @ apos @ ''image.''),
    (''Failed to remove the image'', ''Impossible de retirer l'' @ apos @ ''image.'')
   ]"

text \<open>Web proxy and outbound connections (shown on test results)\<close>

definition fr_web_proxy :: "(string \<times> string) list" where
  "fr_web_proxy =
   [
    (''Failed to connect to server'', ''Connexion impossible au serveur.''),
    (''Failed to resolve hostname'', ''Nom d'' @ apos @ ''h'' @ o_circ @ ''te introuvable.''),
    (''No response from upstream'', ''Le serveur cible ne r'' @ e_acute @ ''pond pas.''),
    (''TLS handshake failed'',
      ''La n'' @ e_acute @ ''gociation TLS a '' @ e_acute @ ''chou'' @ e_acute @ ''.''),
    (''Invalid HTTP response'', ''R'' @ e_acute @ ''ponse HTTP invalide du serveur cible.''),
    (''Incomplete HTTP response headers'',
      ''R'' @ e_acute @ ''ponse HTTP incompl'' @ e_grave @ ''te du serveur cible.''),
    (''Missing enabled field'',
      ''Champ '' @ laquo @ '' activ'' @ e_acute @ '' '' @ raquo @ '' manquant.''),
    (''value is too long'', ''Valeur trop longue.''),
    (''Unsupported SCIM filter attribute for Users'',
      ''Filtre SCIM non pris en charge pour les utilisateurs.''),
    (''Unsupported SCIM filter attribute for Groups'',
      ''Filtre SCIM non pris en charge pour les groupes.'')
   ]"

text \<open>File share (bastion + file share service)\<close>

definition fr_fileshare :: "(string \<times> string) list" where
  "fr_fileshare =
   [
    (''Not a file share session'',
      ''Cette session n'' @ apos @ ''est pas une session de partage de fichiers.''),
    (''Session is no longer active'', ''La session n'' @ apos @ ''est plus active.''),
    (''File share service is not configured'',
      ''Le service de partage de fichiers n'' @ apos @ ''est pas configur'' @ e_acute @ ''.''),
    (''Failed to open the drive'', ''Impossible d'' @ apos @ ''ouvrir le drive.''),
    (''Failed to fetch the directory'', ''Impossible de charger la liste des personnes.''),
    (''File share session required'', ''Session du drive requise.''),
    (''File share session expired'', ''La session du drive a expir'' @ e_acute @ ''.''),
    (''Invalid file share ticket'',
      ''Ticket d'' @ apos @ ''acc'' @ e_grave @ ''s au drive invalide.''),
    (''Not found'', E_acute @ ''l'' @ e_acute @ ''ment introuvable.''),
    (''Invalid path'', ''Nom ou chemin invalide.''),
    (''Read-only access'', ''Acc'' @ e_grave @ ''s en lecture seule.''),
    (''An item with this name already exists'',
      ''Un '' @ e_acute @ ''l'' @ e_acute @ ''ment porte d'' @ e_acute @ ''j'' @ a_grave @
      '' ce nom.''),
    (''Operation refused'', ''Op'' @ e_acute @ ''ration refus'' @ e_acute @ ''e.''),
    (''Storage quota exceeded'', ''Quota de stockage d'' @ e_acute @ ''pass'' @ e_acute @ ''.''),
    (''File exceeds the maximum upload size'',
      ''Le fichier d'' @ e_acute @ ''passe la taille maximale autoris'' @ e_acute @ ''e.''),
    (''Upload incomplete'', ''T'' @ e_acute @ ''l'' @ e_acute @ ''versement incomplet.''),
    (''Upload failed'',
      ''Le t'' @ e_acute @ ''l'' @ e_acute @ ''versement a '' @ e_acute @ ''chou'' @ e_acute @
      ''.''),
    (''Upload cancelled'',
      ''T'' @ e_acute @ ''l'' @ e_acute @ ''versement annul'' @ e_acute @ ''.''),
    (''Content-Length required'', ''Taille du fichier inconnue.''),
    (''Folder too large to download as an archive'',
      ''Dossier trop volumineux pour '' @ e_circ @ ''tre t'' @ e_acute @ ''l'' @ e_acute @
      ''charg'' @ e_acute @ '' en archive.''),
    (''Too many shares'', ''Trop de partages.''),
    (''Share could not be saved'',
      ''Le partage n'' @ apos @ ''a pas pu '' @ e_circ @ ''tre enregistr'' @ e_acute @ ''.''),
    (''Share could not be removed'',
      ''Le partage n'' @ apos @ ''a pas pu '' @ e_circ @ ''tre retir'' @ e_acute @ ''.''),
    (''Shares unavailable'', ''Partages indisponibles.''),
    (''Drive unavailable'', ''Drive indisponible.''),
    (''mode must be ro or rw'', ''Mode d'' @ apos @ ''acc'' @ e_grave @ ''s invalide.''),
    (''expiresInDays out of range'',
      ''Dur'' @ e_acute @ ''e d'' @ apos @ ''expiration invalide.''),
    (''Unable to open the drive'', ''Impossible d'' @ apos @ ''ouvrir le drive.''),
    (''Unable to list the folder'', ''Impossible d'' @ apos @ ''afficher le dossier.''),
    (''Unable to create the folder'', ''Impossible de cr'' @ e_acute @ ''er le dossier.''),
    (''Unable to rename'', ''Impossible de renommer.''),
    (''Unable to delete'', ''Impossible de supprimer.''),
    (''Unable to share'', ''Impossible de partager.''),
    (''Unable to revoke the share'', ''Impossible de retirer le partage.'')
   ]"

definition FR :: "(string \<times> string) list" where
  "FR =
     fr_generic @ fr_sign_in @ fr_sso @ fr_users @ fr_resources @
     fr_sessions @ fr_terminal @ fr_agents @
     fr_vault @ fr_audit @ fr_integrations @ fr_license @
     fr_web_proxy @ fr_fileshare"

end
