(* ===== verification/ServerMessages.thy ===== *)
theory ServerMessages
  imports FrMessages
begin

section \<open>Server messages in the interface language (serverMessages.js)\<close>

text \<open>
  \<open>translateServerMessage\<close> looks the trimmed text up in the object \<open>FR\<close>, then tries the
  patterns with a variable part in order, and otherwise returns the message as the server sent
  it.  A pattern is \<open>/^prefix(.+)$/\<close> (\<open>AnyRest\<close>) or \<open>/^prefix(\d+)suffix$/\<close>
  (\<open>Digits\<close>, its flag for a suffix written with a question mark); the replacement text is the
  part before \<open>$1\<close> and the part after it.
\<close>

definition lookup_last :: "string \<Rightarrow> (string \<times> 'v) list \<Rightarrow> 'v option" where
  "lookup_last k kvs = map_of (rev kvs) k"

text \<open>
  \<open>FR[text]\<close> also finds the properties every object inherits.  What is then thrown is an
  \<open>Error\<close> whose message is the text form of that inherited value.
\<close>

definition object_prototype_names :: "string list" where
  "object_prototype_names =
     [''constructor'', ''__defineGetter__'', ''__defineSetter__'', ''hasOwnProperty'',
      ''__lookupGetter__'', ''__lookupSetter__'', ''isPrototypeOf'', ''propertyIsEnumerable'',
      ''toString'', ''valueOf'', ''__proto__'', ''toLocaleString'']"

definition inherited_text :: "string \<Rightarrow> string" where
  "inherited_text k =
     (if k = ''__proto__'' then ''[object Object]''
      else ''function '' @ (if k = ''constructor'' then ''Object'' else k) @ ''() { [native code] }'')"

definition fr_entry :: "string \<Rightarrow> string option" where
  "fr_entry text =
     (case lookup_last text FR of
        Some v \<Rightarrow> Some v
      | None \<Rightarrow> if text \<in> set object_prototype_names then Some (inherited_text text) else None)"

subsection \<open>Messages with a variable part\<close>

datatype fr_pattern =
    AnyRest string string string
  | Digits string string bool string string

text \<open>\<open>.\<close> matches everything but the line terminators.\<close>

definition single_line :: "string \<Rightarrow> bool" where
  "single_line s =
     (CHR 0x0A \<notin> set s \<and> CHR 0x0D \<notin> set s \<and>
      \<not> str_includes s [CHR 0xE2, CHR 0x80, CHR 0xA8] \<and>
      \<not> str_includes s [CHR 0xE2, CHR 0x80, CHR 0xA9])"

fun apply_pattern :: "fr_pattern \<Rightarrow> string \<Rightarrow> string option" where
  "apply_pattern (AnyRest pre before after) text =
     (let rest = drop (length pre) text in
      if starts_with text pre \<and> rest \<noteq> [] \<and> single_line rest
      then Some (before @ rest @ after) else None)"
| "apply_pattern (Digits pre suf optional before after) text =
     (let rest = drop (length pre) text;
          ds = takeWhile is_digit rest; tail = dropWhile is_digit rest in
      if starts_with text pre \<and> ds \<noteq> [] \<and> (tail = suf \<or> (optional \<and> tail = []))
      then Some (before @ ds @ after) else None)"

definition FR_PATTERNS :: "fr_pattern list" where
  "FR_PATTERNS =
     [AnyRest ''Access is only allowed during ''
        (''Acc'' @ e_grave @ ''s autoris'' @ e_acute @ '' uniquement pendant '') ''.'',
      AnyRest ''License required for '' ''Licence requise : '' ''.'',
      Digits ''Jira refused the credentials (HTTP '' '')'' True
        (''Jira a refus'' @ e_acute @ '' les identifiants (HTTP '') '').'',
      Digits ''ServiceNow refused the credentials (HTTP '' '')'' True
        (''ServiceNow a refus'' @ e_acute @ '' les identifiants (HTTP '') '').'',
      Digits ''Jira answered HTTP '' '''' False (''Jira a r'' @ e_acute @ ''pondu HTTP '') ''.'',
      Digits ''ServiceNow answered HTTP '' '''' False
        (''ServiceNow a r'' @ e_acute @ ''pondu HTTP '') ''.'',
      Digits ''title is too long (max '' '' chars)'' False
        ''Le titre est trop long ('' ('' caract'' @ e_grave @ ''res'' @ '' au plus).''),
      Digits ''summary is too long (max '' '' chars)'' False
        (''Le r'' @ e_acute @ ''sum'' @ e_acute @ '' est trop long ('') ('' caract'' @ e_grave @ ''res'' @ '' au plus).''),
      AnyRest ''must be between '' ''Valeur attendue entre '' ''.'',
      AnyRest ''must be one of '' ''Valeur attendue parmi : '' ''.'',
      AnyRest ''WebAuthn requires a valid domain. Configure ''
        (''Les cl'' @ e_acute @ ''s de s'' @ e_acute @ ''curit'' @ e_acute @
         '' demandent un domaine valide. Configurez '') '''',
      AnyRest ''Ephemeral account provisioning failed: ''
        (''La cr'' @ e_acute @ ''ation du compte temporaire a '' @ e_acute @ ''chou'' @ e_acute @ '' : '') '''',
      AnyRest ''TLS certificate validation failed: '' (''Certificat TLS refus'' @ e_acute @ '' : '') '''',
      AnyRest ''TLS handshake failed: ''
        (''La n'' @ e_acute @ ''gociation TLS a '' @ e_acute @ ''chou'' @ e_acute @ '' : '') '''',
      AnyRest ''cannot reach '' ''Impossible de joindre '' '''',
      AnyRest ''cannot resolve '' (''Nom d'' @ apos @ ''h'' @ o_circ @ ''te introuvable : '') '''',
      AnyRest ''connection timed out after ''
        (''D'' @ e_acute @ ''lai de connexion d'' @ e_acute @ ''pass'' @ e_acute @ '' apr'' @ e_grave @ ''s '') '''',
      AnyRest ''Ticket '' ''Ticket '' '''']"

fun first_pattern :: "fr_pattern list \<Rightarrow> string \<Rightarrow> string option" where
  "first_pattern [] text = None"
| "first_pattern (p # ps) text =
     (case apply_pattern p text of Some r \<Rightarrow> Some r | None \<Rightarrow> first_pattern ps text)"

subsection \<open>The translation\<close>

text \<open>\<open>currentLocale\<close>: \<open>None\<close> outside a browser, otherwise the \<open>lang\<close> of the document.\<close>

definition currentLocale :: "string option \<Rightarrow> string" where
  "currentLocale doc_lang = (case doc_lang of None \<Rightarrow> ''en'' | Some l \<Rightarrow> str_or l ''fr'')"

definition translateServerMessage :: "string \<Rightarrow> string \<Rightarrow> string" where
  "translateServerMessage message loc =
     (if message = [] \<or> \<not> starts_with loc ''fr'' then message
      else (let text = trim message in
        case fr_entry text of
          Some r \<Rightarrow> r
        | None \<Rightarrow> (case first_pattern FR_PATTERNS text of Some r \<Rightarrow> r | None \<Rightarrow> message)))"

subsection \<open>What the table covers\<close>

lemmas FR_sections =
  fr_generic_def fr_sign_in_def fr_sso_def fr_users_def fr_resources_def fr_sessions_def
  fr_terminal_def fr_agents_def fr_vault_def fr_audit_def fr_integrations_def fr_license_def
  fr_web_proxy_def fr_fileshare_def

definition translated_key :: "string \<Rightarrow> bool" where
  "translated_key k = (k \<in> set (map fst FR))"

lemma lookup_last_None: "lookup_last k kvs = None \<longleftrightarrow> k \<notin> set (map fst kvs)"
  by (simp add: lookup_last_def map_of_eq_None_iff)

lemma fr_entry_key: "translated_key k \<Longrightarrow> \<exists>v. (k, v) \<in> set FR \<and> fr_entry k = Some v"
  using map_of_SomeD [of "rev FR" k] lookup_last_None [of k FR]
  by (cases "lookup_last k FR") (auto simp: fr_entry_def translated_key_def lookup_last_def)

lemma fr_entry_other:
  "\<not> translated_key k \<Longrightarrow> k \<notin> set object_prototype_names \<Longrightarrow> fr_entry k = None"
  using lookup_last_None [of k FR] by (auto simp: fr_entry_def translated_key_def)

text \<open>No entry of the table begins with the fixed part of a pattern, but for the literal
  tickets.\<close>

lemma FR_no_license_prefix: "list_all (\<lambda>kv. \<not> starts_with (fst kv) ''License required for '') FR"
  by (simp add: FR_def FR_sections starts_with_def dquote_def)

end
