(* ===== verification/ApiClient.thy ===== *)
theory ApiClient
  imports ServerMessages
begin

section \<open>The HTTP client's state and error handling (api.js, lines 1 to 78 and 320 to 332)\<close>

text \<open>
  \<open>client\<close> is the module state of api.js with the browser state it touches: the token, the two
  throttle times, local storage and the events dispatched on the window, with the time each was
  dispatched.  Times are \<open>Date.now()\<close> in milliseconds and are passed in.  A result is
  \<open>Inl\<close> of what is thrown or \<open>Inr\<close> of what is returned, with the new state.
\<close>

datatype window_event = Unauthorized | LicenseRequired json

record client =
  auth_token :: json
  last_unauthorized_at :: int
  last_license_at :: int
  storage :: "string \<Rightarrow> string option"
  dispatched :: "(int \<times> window_event) list"

text \<open>What the code throws: an error made by \<open>serverError\<close> (message shown, original text,
  status), the rejection of \<open>fetch\<close>, the SyntaxError of \<open>response.json()\<close>, a TypeError, or
  an error made by the code itself.\<close>

datatype js_error =
    ServerError string string "int option"
  | NetworkError
  | SyntaxError
  | TypeError
  | PlainError string

type_synonym headers = "(string \<times> string) list"

record response =
  resp_status :: int
  resp_headers :: headers
  resp_body :: string

type_synonym 'a outcome = "(js_error + 'a) \<times> client"

text \<open>\<open>response.ok\<close>, \<open>response.headers.get(name)\<close> (names compare without case) and
  \<open>response.json()\<close>.\<close>

definition resp_ok :: "response \<Rightarrow> bool" where
  "resp_ok r = (200 \<le> resp_status r \<and> resp_status r \<le> 299)"

definition header_get :: "string \<Rightarrow> response \<Rightarrow> string option" where
  "header_get name r =
     map_of (map (\<lambda>(k, v). (to_lower k, v)) (resp_headers r)) (to_lower name)"

definition resp_json :: "response \<Rightarrow> js_error + json" where
  "resp_json r = (case json_parse (resp_body r) of None \<Rightarrow> Inl SyntaxError | Some v \<Rightarrow> Inr v)"

subsection \<open>The token at load time\<close>

definition auth_key :: string where
  "auth_key = ''endoriumfort_auth''"

definition initial_token :: "(string \<Rightarrow> string option) \<Rightarrow> json" where
  "initial_token st =
     (case st auth_key of
        None \<Rightarrow> JStr []
      | Some saved \<Rightarrow>
          if saved = [] then JStr []
          else (case json_parse saved of
             None \<Rightarrow> JStr []
           | Some parsed \<Rightarrow>
               (case jread parsed ''token'' of
                  None \<Rightarrow> JStr []
                | Some t \<Rightarrow> jor t (JStr []))))"

definition load_client :: "(string \<Rightarrow> string option) \<Rightarrow> client" where
  "load_client st =
     \<lparr>auth_token = initial_token st, last_unauthorized_at = 0, last_license_at = 0,
      storage = st, dispatched = []\<rparr>"

definition setAuthToken :: "json \<Rightarrow> client \<Rightarrow> client" where
  "setAuthToken token c = c\<lparr>auth_token := jor token (JStr [])\<rparr>"

definition withAuthHeaders :: "client \<Rightarrow> headers \<Rightarrow> headers" where
  "withAuthHeaders c hs =
     (if \<not> truthy (auth_token c) then hs
      else assoc_set ''Authorization'' (''Bearer '' @ js_string (auth_token c)) hs)"

subsection \<open>Notifications to the interface\<close>

definition notifyUnauthorized :: "int \<Rightarrow> client \<Rightarrow> client" where
  "notifyUnauthorized now c =
     (if now - last_unauthorized_at c < 1500 then c
      else c\<lparr>last_unauthorized_at := now, auth_token := JStr [],
              storage := (storage c)(auth_key := None),
              dispatched := dispatched c @ [(now, Unauthorized)]\<rparr>)"

definition notifyLicenseRequired :: "int \<Rightarrow> json \<Rightarrow> client \<Rightarrow> client" where
  "notifyLicenseRequired now detail c =
     (if now - last_license_at c < 1000 then c
      else c\<lparr>last_license_at := now,
              dispatched := dispatched c @ [(now, LicenseRequired detail)]\<rparr>)"

subsection \<open>Errors made from an answer\<close>

definition server_error_text :: "string \<Rightarrow> string" where
  "server_error_text message =
     (let text = trim message in
      if starts_with text ''{'' then
        (case json_parse text of
           None \<Rightarrow> text
         | Some body \<Rightarrow> js_string (jor (jor (jget body ''error'') (jget body ''message'')) (JStr text)))
      else text)"

definition serverError :: "string \<Rightarrow> string \<Rightarrow> int \<Rightarrow> js_error" where
  "serverError loc message status =
     (let text = server_error_text message in
      ServerError (translateServerMessage text loc) text
        (if status = 0 then None else Some status))"

definition readError :: "string \<Rightarrow> response \<Rightarrow> string \<Rightarrow> js_error" where
  "readError loc r fallback = serverError loc (str_or (resp_body r) fallback) (resp_status r)"

definition license_header :: string where
  "license_header = ''X-EndoriumFort-License-Required''"

definition needs_license :: "response \<Rightarrow> bool" where
  "needs_license r = (resp_status r = 403 \<and> header_get license_header r = Some ''1'')"

definition ensureResponseOk :: "int \<Rightarrow> string \<Rightarrow> response \<Rightarrow> string \<Rightarrow> client \<Rightarrow> unit outcome" where
  "ensureResponseOk now loc r fallback c =
     (if resp_status r = 401 then
        (Inl (serverError loc ''Session expired. Please login again.'' 401),
         notifyUnauthorized now c)
      else if needs_license r then
        (let detail = (case json_parse (resp_body r) of None \<Rightarrow> JObj [] | Some d \<Rightarrow> d);
             c' = notifyLicenseRequired now detail c
         in (case jread detail ''feature'' of
               None \<Rightarrow> (Inl TypeError, c')
             | Some f \<Rightarrow>
                 (Inl (serverError loc
                         (if truthy f then ''License required for '' @ js_string f
                          else ''License required'') 403), c')))
      else if \<not> resp_ok r then (Inl (readError loc r fallback), c)
      else (Inr (), c))"

end
