(* ===== verification/ApiCall.thy ===== *)
theory ApiCall
  imports ApiClient
begin

section \<open>One call of the API: request, answer, and the calls in flight (api.js)\<close>

text \<open>
  Every exported function of api.js builds a request, waits for the answer, hands it to
  \<open>ensureResponseOk\<close> with its own fallback message and decodes the body.  An \<open>api_call\<close> is
  that description; \<open>build_request\<close> is what \<open>fetch\<close> is called with, in the client state of that
  moment, and \<open>complete_call\<close> what the caller gets, in the client state of the moment the answer
  arrives.  Between the two, other calls may have signed the user out or in.
\<close>

datatype request_body = NoBody | TextBody string | BlobBody string

datatype reply_kind = JsonReply | TextReply | BytesReply | NoReply | JsonOrEmpty

record api_call =
  api_method :: string
  api_url :: string
  api_auth :: bool
  api_headers :: headers
  api_body :: request_body
  api_fallback :: string
  api_reply :: reply_kind

record request =
  req_method :: string
  req_url :: string
  req_headers :: headers
  req_body :: request_body

definition plain_call :: "string \<Rightarrow> string \<Rightarrow> string \<Rightarrow> api_call" where
  "plain_call meth url fallback =
     \<lparr>api_method = meth, api_url = url, api_auth = True, api_headers = [], api_body = NoBody,
      api_fallback = fallback, api_reply = JsonReply\<rparr>"

text \<open>\<open>JSON.stringify(undefined)\<close> is \<open>undefined\<close>: no body is sent.\<close>

definition json_body :: "json \<Rightarrow> request_body" where
  "json_body v = (if v = JUndef then NoBody else TextBody (json_stringify v))"

definition json_type :: headers where
  "json_type = [(''Content-Type'', ''application/json'')]"

definition send_json :: "string \<Rightarrow> string \<Rightarrow> json \<Rightarrow> string \<Rightarrow> api_call" where
  "send_json meth url payload fallback =
     \<lparr>api_method = meth, api_url = url, api_auth = True, api_headers = json_type,
      api_body = json_body payload, api_fallback = fallback, api_reply = JsonReply\<rparr>"

definition put_file :: "string \<Rightarrow> string \<Rightarrow> string \<Rightarrow> string \<Rightarrow> api_call" where
  "put_file url type bytes fallback =
     \<lparr>api_method = ''PUT'', api_url = url, api_auth = True,
      api_headers = [(''Content-Type'', type)], api_body = BlobBody bytes,
      api_fallback = fallback, api_reply = JsonReply\<rparr>"

definition js_default :: "json \<Rightarrow> json \<Rightarrow> json" where
  "js_default v d = (if v = JUndef then d else v)"

definition encoded :: "json \<Rightarrow> string" where
  "encoded v = encodeURIComponent (js_string v)"

definition build_request :: "client \<Rightarrow> api_call \<Rightarrow> request" where
  "build_request c a =
     \<lparr>req_method = api_method a, req_url = api_url a,
      req_headers = (if api_auth a then withAuthHeaders c (api_headers a) else api_headers a),
      req_body = api_body a\<rparr>"

subsection \<open>The answer\<close>

datatype fetched = NoAnswer | Answer response

definition decode_reply :: "reply_kind \<Rightarrow> response \<Rightarrow> js_error + json" where
  "decode_reply k r =
     (case k of
        JsonReply \<Rightarrow> resp_json r
      | TextReply \<Rightarrow> Inr (JStr (resp_body r))
      | BytesReply \<Rightarrow> Inr (JStr (resp_body r))
      | NoReply \<Rightarrow> Inr JUndef
      | JsonOrEmpty \<Rightarrow> if resp_status r = 204 then Inr JNull else resp_json r)"

definition checked_reply :: "int \<Rightarrow> string \<Rightarrow> api_call \<Rightarrow> response \<Rightarrow> client \<Rightarrow> json outcome" where
  "checked_reply now loc a r c =
     (case ensureResponseOk now loc r (api_fallback a) c of
        (Inl e, c') \<Rightarrow> (Inl e, c')
      | (Inr _, c') \<Rightarrow> (decode_reply (api_reply a) r, c'))"

definition complete_call :: "int \<Rightarrow> string \<Rightarrow> api_call \<Rightarrow> fetched \<Rightarrow> client \<Rightarrow> json outcome" where
  "complete_call now loc a f c =
     (case f of
        NoAnswer \<Rightarrow> (Inl NetworkError, c)
      | Answer r \<Rightarrow> checked_reply now loc a r c)"

subsection \<open>What an answer can do to the client\<close>

definition signed_out :: "client \<Rightarrow> bool" where
  "signed_out c = (\<not> truthy (auth_token c) \<and> storage c auth_key = None)"

definition throttled :: "int \<Rightarrow> client \<Rightarrow> bool" where
  "throttled now c = (now - last_unauthorized_at c < 1500)"

lemma notifyUnauthorized_throttled: "throttled now c \<Longrightarrow> notifyUnauthorized now c = c"
  by (simp add: notifyUnauthorized_def throttled_def)

lemma notifyUnauthorized_signs_out: "\<not> throttled now c \<Longrightarrow> signed_out (notifyUnauthorized now c)"
  by (simp add: notifyUnauthorized_def throttled_def signed_out_def)

lemma notifyLicense_keeps:
  "auth_token (notifyLicenseRequired now d c) = auth_token c"
  "storage (notifyLicenseRequired now d c) = storage c"
  "last_unauthorized_at (notifyLicenseRequired now d c) = last_unauthorized_at c"
  by (simp_all add: notifyLicenseRequired_def)

lemma ensure_401:
  "resp_status r = 401 \<Longrightarrow>
   ensureResponseOk now loc r fb c =
     (Inl (serverError loc ''Session expired. Please login again.'' 401), notifyUnauthorized now c)"
  by (simp add: ensureResponseOk_def)

lemma ensure_ok: "resp_ok r \<Longrightarrow> ensureResponseOk now loc r fb c = (Inr (), c)"
  by (simp add: ensureResponseOk_def resp_ok_def needs_license_def)

lemma ensure_succeeds_iff: "fst (ensureResponseOk now loc r fb c) = Inr u \<longleftrightarrow> resp_ok r"
  by (auto simp: ensureResponseOk_def resp_ok_def needs_license_def Let_def split: option.splits)

text \<open>Only the two notifications change the client.\<close>

lemma ensure_client:
  "snd (ensureResponseOk now loc r fb c) \<in>
     {c, notifyUnauthorized now c} \<union> range (\<lambda>d. notifyLicenseRequired now d c)"
  by (auto simp: ensureResponseOk_def Let_def split: option.splits)

lemma ensure_token:
  assumes "resp_status r \<noteq> 401"
  shows "auth_token (snd (ensureResponseOk now loc r fb c)) = auth_token c"
    and "storage (snd (ensureResponseOk now loc r fb c)) = storage c"
  using assms by (auto simp: ensureResponseOk_def Let_def notifyLicense_keeps split: option.splits)

lemma complete_answer_client:
  "snd (complete_call now loc a (Answer r) c) = snd (ensureResponseOk now loc r (api_fallback a) c)"
  by (simp add: complete_call_def checked_reply_def split: prod.split sum.split)

lemma complete_network_client: "snd (complete_call now loc a NoAnswer c) = c"
  by (simp add: complete_call_def)


subsection \<open>Throttled notifications\<close>

text \<open>
  The contract of a throttled notification: inside \<open>gap\<close> milliseconds of the last one nothing
  happens, otherwise one event is emitted and its time remembered.  It is the contract both
  \<open>notifyUnauthorized\<close> and \<open>notifyLicenseRequired\<close> keep.
\<close>

definition spaced :: "int \<Rightarrow> int list \<Rightarrow> bool" where
  "spaced gap ts = sorted_wrt (\<lambda>a b. a + gap \<le> b) ts"

locale throttle =
  fixes last_at :: "'s \<Rightarrow> int"
    and emitted :: "'s \<Rightarrow> int list"
    and fire :: "int \<Rightarrow> 's \<Rightarrow> 's"
    and gap :: int
  assumes gap_pos: "0 < gap"
    and fire_within: "now - last_at s < gap \<Longrightarrow> fire now s = s"
    and fire_after: "gap \<le> now - last_at s \<Longrightarrow>
          last_at (fire now s) = now \<and> emitted (fire now s) = emitted s @ [now]"
begin

definition in_order :: "int \<Rightarrow> 's \<Rightarrow> bool" where
  "in_order now s =
     (spaced gap (emitted s) \<and> last_at s \<le> now \<and> (\<forall>t \<in> set (emitted s). t \<le> last_at s))"

lemma in_order_fire:
  assumes "in_order before s" and "before \<le> now"
  shows "in_order now (fire now s)"
proof (cases "now - last_at s < gap")
  case True
  with assms show ?thesis by (auto simp: in_order_def fire_within)
next
  case False
  then have "last_at (fire now s) = now" "emitted (fire now s) = emitted s @ [now]"
    using fire_after by auto
  with assms False gap_pos show ?thesis
    by (fastforce simp: in_order_def spaced_def sorted_wrt_append)
qed

lemma in_order_frame:
  assumes "in_order before s" and "before \<le> now"
    and "last_at s' = last_at s" and "emitted s' = emitted s"
  shows "in_order now s'"
  using assms by (auto simp: in_order_def)

lemma at_most_one_in_gap:
  assumes "in_order now s" and "emitted s = xs @ a # ys @ b # zs"
  shows "gap \<le> b - a"
  using assms by (auto simp: in_order_def spaced_def sorted_wrt_append)

end

definition unauthorized_times :: "client \<Rightarrow> int list" where
  "unauthorized_times c = map fst (filter (\<lambda>e. snd e = Unauthorized) (dispatched c))"

definition license_times :: "client \<Rightarrow> int list" where
  "license_times c = map fst (filter (\<lambda>e. snd e \<noteq> Unauthorized) (dispatched c))"

interpretation una: throttle last_unauthorized_at unauthorized_times notifyUnauthorized 1500
  by unfold_locales (auto simp: notifyUnauthorized_def unauthorized_times_def)

interpretation lic: throttle last_license_at license_times "\<lambda>now. notifyLicenseRequired now d" 1000
  for d
  by unfold_locales (auto simp: notifyLicenseRequired_def license_times_def)

lemma notify_frames [simp]:
  "last_license_at (notifyUnauthorized now c) = last_license_at c"
  "license_times (notifyUnauthorized now c) = license_times c"
  "last_unauthorized_at (notifyLicenseRequired now d c) = last_unauthorized_at c"
  "unauthorized_times (notifyLicenseRequired now d c) = unauthorized_times c"
  by (simp_all add: notifyUnauthorized_def notifyLicenseRequired_def license_times_def
      unauthorized_times_def)

lemma page_frames [simp]:
  "last_unauthorized_at (setAuthToken v c) = last_unauthorized_at c"
  "last_license_at (setAuthToken v c) = last_license_at c"
  "unauthorized_times (setAuthToken v c) = unauthorized_times c"
  "license_times (setAuthToken v c) = license_times c"
  "unauthorized_times (c\<lparr>storage := st\<rparr>) = unauthorized_times c"
  "license_times (c\<lparr>storage := st\<rparr>) = license_times c"
  by (simp_all add: setAuthToken_def unauthorized_times_def license_times_def)

subsection \<open>The client over time\<close>

text \<open>
  \<open>reachable now c\<close>: \<open>c\<close> is a state of the client at time \<open>now\<close>.  The page sets the token and
  writes local storage whenever it wants; answers arrive at times that do not go back.
\<close>

inductive reachable :: "int \<Rightarrow> client \<Rightarrow> bool" where
  load: "0 \<le> now \<Longrightarrow> reachable now (load_client st)"
| set_token: "reachable now c \<Longrightarrow> reachable now (setAuthToken v c)"
| store: "reachable now c \<Longrightarrow> reachable now (c\<lparr>storage := (storage c)(k := v)\<rparr>)"
| answer: "reachable before c \<Longrightarrow> before \<le> now \<Longrightarrow>
    reachable now (snd (ensureResponseOk now loc r fb c))"

inductive_cases reachable_answerE: "reachable now (snd (ensureResponseOk now loc r fb c))"

lemma reachable_una: "reachable now c \<Longrightarrow> una.in_order now c"
proof (induction rule: reachable.induct)
  case (load now st)
  then show ?case
    unfolding una.in_order_def by (simp add: spaced_def unauthorized_times_def load_client_def)
next
  case (answer before c now loc r fb)
  then show ?case
    using ensure_client [of now loc r fb c] una.in_order_fire una.in_order_frame by fastforce
qed (erule una.in_order_frame; simp)+

lemma reachable_lic: "reachable now c \<Longrightarrow> lic.in_order now c"
proof (induction rule: reachable.induct)
  case (load now st)
  then show ?case
    unfolding lic.in_order_def by (simp add: spaced_def license_times_def load_client_def)
next
  case (answer before c now loc r fb)
  then show ?case
    using ensure_client [of now loc r fb c] lic.in_order_fire lic.in_order_frame by fastforce
qed (erule lic.in_order_frame; simp)+

end
