(* ===== verification/ApiEndpoints.thy ===== *)
theory ApiEndpoints
  imports ApiCall
begin

section \<open>The endpoints (api.js, lines 80 to 1524)\<close>

text \<open>
  One definition per exported function of api.js, under its name.  A function whose body is the
  usual sequence (fetch with the token, \<open>ensureResponseOk\<close>, decode) is the \<open>api_call\<close> it
  makes; the functions that look at the answer first have a completion of their own at the end.
  An argument is a JavaScript value; an option object is passed as the fields the code reads, an
  absent one being \<open>JUndef\<close>.  A URL is the string handed to \<open>fetch\<close>.
\<close>

definition js_trunc :: "rat \<Rightarrow> int" where
  "js_trunc r = (if 0 \<le> r then \<lfloor>r\<rfloor> else \<lceil>r\<rceil>)"

definition number_param :: "string \<Rightarrow> json \<Rightarrow> (string \<times> string) list" where
  "number_param k v = (case v of JNum n \<Rightarrow> [(k, show_int (js_trunc n))] | _ \<Rightarrow> [])"

definition query_suffix :: "(string \<times> string) list \<Rightarrow> string" where
  "query_suffix kvs = (if kvs = [] then [] else CHR ''?'' # query_string kvs)"

definition buildScimListQuery :: "json \<Rightarrow> json \<Rightarrow> json \<Rightarrow> string" where
  "buildScimListQuery startIndex page_count filter_text =
     query_suffix
       (number_param ''startIndex'' startIndex @ number_param ''count'' page_count @
        (if truthy filter_text then [(''filter'', js_string filter_text)] else []))"

definition fetchLicenseStatus :: "api_call" where
  "fetchLicenseStatus =
     plain_call ''GET'' ''/api/license/status''
       ''Failed to fetch license status''"

definition applyLicense :: "json \<Rightarrow> api_call" where
  "applyLicense license =
     send_json ''POST'' ''/api/license/apply'' (JObj [(''license'', license)])
       ''Failed to apply license''"

definition reloadLicense :: "api_call" where
  "reloadLicense =
     plain_call ''POST'' ''/api/license/reload''
       ''Failed to reload license''"

definition fetchAgents :: "api_call" where
  "fetchAgents =
     plain_call ''GET'' ''/api/agents''
       ''Failed to fetch agents''"

definition mintAgentToken :: "json \<Rightarrow> api_call" where
  "mintAgentToken sessionId =
     send_json ''POST'' ''/api/auth/agent-token'' (JObj [(''sessionId'', sessionId)])
       ''Failed to mint agent token''"

subsection \<open>Secrets vault: rotation (premium)\<close>

definition fetchVaultRotation :: "api_call" where
  "fetchVaultRotation =
     plain_call ''GET'' ''/api/vault/rotation''
       ''Failed to fetch rotation policies''"

definition configureVaultRotation :: "json \<Rightarrow> json \<Rightarrow> api_call" where
  "configureVaultRotation resourceId payload =
     send_json ''PUT'' (''/api/vault/rotation/'' @ js_string resourceId) payload
       ''Failed to configure rotation''"

definition rotateVaultNow :: "json \<Rightarrow> api_call" where
  "rotateVaultNow resourceId =
     plain_call ''POST'' (''/api/vault/rotation/'' @ js_string resourceId @ ''/rotate'')
       ''Failed to rotate credential''"

subsection \<open>Secrets vault: dynamic ephemeral accounts (premium)\<close>

definition fetchVaultDynamic :: "api_call" where
  "fetchVaultDynamic =
     plain_call ''GET'' ''/api/vault/dynamic''
       ''Failed to fetch dynamic secrets''"

definition configureVaultDynamic :: "json \<Rightarrow> json \<Rightarrow> api_call" where
  "configureVaultDynamic resourceId payload =
     send_json ''PUT'' (''/api/vault/dynamic/'' @ js_string resourceId) payload
       ''Failed to configure dynamic secrets''"

subsection \<open>Personal API tokens (core)\<close>

definition fetchApiTokenScopes :: "api_call" where
  "fetchApiTokenScopes =
     plain_call ''GET'' ''/api/tokens/scopes''
       ''Failed to fetch API token scopes''"

definition fetchApiTokens :: "json \<Rightarrow> api_call" where
  "fetchApiTokens all_tokens =
     plain_call ''GET'' (if truthy all_tokens then ''/api/tokens?all=1'' else ''/api/tokens'')
       ''Failed to fetch API tokens''"

definition createApiToken :: "json \<Rightarrow> api_call" where
  "createApiToken payload =
     send_json ''POST'' ''/api/tokens'' payload
       ''Failed to create the API token''"

definition revokeApiToken :: "json \<Rightarrow> api_call" where
  "revokeApiToken ident =
     plain_call ''DELETE'' (''/api/tokens/'' @ encoded ident)
       ''Failed to revoke the API token''"

subsection \<open>SQL guard of the database proxy (Enterprise: database.proxy)\<close>

definition fetchDbGuardRules :: "api_call" where
  "fetchDbGuardRules =
     plain_call ''GET'' ''/api/db-guard/rules''
       ''Failed to fetch SQL guard rules''"

definition saveDbGuardRule :: "json \<Rightarrow> json \<Rightarrow> api_call" where
  "saveDbGuardRule name payload =
     send_json ''PUT'' (''/api/db-guard/rules/'' @ encoded name) payload
       ''Failed to save the SQL guard rule''"

definition deleteDbGuardRule :: "json \<Rightarrow> api_call" where
  "deleteDbGuardRule name =
     plain_call ''DELETE'' (''/api/db-guard/rules/'' @ encoded name)
       ''Failed to delete the SQL guard rule''"

subsection \<open>SSH command guard (core: the guard has no license feature)\<close>

definition fetchSshGuardRules :: "api_call" where
  "fetchSshGuardRules =
     plain_call ''GET'' ''/api/ssh-guard/rules''
       ''Failed to fetch SSH guard rules''"

definition saveSshGuardRule :: "json \<Rightarrow> json \<Rightarrow> api_call" where
  "saveSshGuardRule name payload =
     send_json ''PUT'' (''/api/ssh-guard/rules/'' @ encoded name) payload
       ''Failed to save the SSH guard rule''"

definition deleteSshGuardRule :: "json \<Rightarrow> api_call" where
  "deleteSshGuardRule name =
     plain_call ''DELETE'' (''/api/ssh-guard/rules/'' @ encoded name)
       ''Failed to delete the SSH guard rule''"

subsection \<open>ITDR: identity threat detection & response (premium)\<close>

definition fetchItdrRules :: "api_call" where
  "fetchItdrRules =
     plain_call ''GET'' ''/api/itdr/rules''
       ''Failed to fetch ITDR rules''"

definition updateItdrRule :: "json \<Rightarrow> json \<Rightarrow> api_call" where
  "updateItdrRule rule_name payload =
     send_json ''PUT'' (''/api/itdr/rules/'' @ encoded rule_name) payload
       ''Failed to update ITDR rule''"

definition fetchItdrDetections :: "api_call" where
  "fetchItdrDetections =
     plain_call ''GET'' ''/api/itdr/detections''
       ''Failed to fetch ITDR detections''"

definition ackItdrDetection :: "json \<Rightarrow> api_call" where
  "ackItdrDetection ident =
     plain_call ''POST'' (''/api/itdr/detections/'' @ js_string ident @ ''/ack'')
       ''Failed to acknowledge detection''"

subsection \<open>Kubernetes resources (premium)\<close>

definition fetchK8sResources :: "api_call" where
  "fetchK8sResources =
     plain_call ''GET'' ''/api/k8s/resources''
       ''Failed to fetch Kubernetes resources''"

definition configureK8sResource :: "json \<Rightarrow> json \<Rightarrow> api_call" where
  "configureK8sResource resourceId payload =
     send_json ''PUT'' (''/api/k8s/resources/'' @ js_string resourceId) payload
       ''Failed to configure Kubernetes resource''"

definition fetchK8sPods :: "json \<Rightarrow> api_call" where
  "fetchK8sPods resourceId =
     plain_call ''GET'' (''/api/k8s/resources/'' @ js_string resourceId @ ''/pods'')
       ''Failed to list pods''"

definition logout :: "api_call" where
  "logout =
     plain_call ''POST'' ''/api/auth/logout''
       ''Logout failed''"

definition changePassword :: "json \<Rightarrow> json \<Rightarrow> json \<Rightarrow> api_call" where
  "changePassword currentPassword newPassword keepCurrentSession =
     send_json ''POST'' ''/api/auth/change-password'' (
       JObj [(''currentPassword'', currentPassword),
         (''newPassword'', newPassword),
         (''keepCurrentSession'', JBool (truthy keepCurrentSession))])
       ''Failed to change password''"

definition fetchBootstrapStatus :: "api_call" where
  "fetchBootstrapStatus =
     plain_call ''GET'' ''/api/auth/bootstrap-status''
       ''Failed to fetch bootstrap status''"

definition saveBranding :: "json \<Rightarrow> api_call" where
  "saveBranding settings =
     send_json ''PUT'' ''/api/branding'' settings
       ''Failed to save the appearance''"

definition uploadBrandingImage :: "json \<Rightarrow> string \<Rightarrow> string \<Rightarrow> api_call" where
  "uploadBrandingImage kind file_type file_bytes =
     put_file (''/api/branding/'' @ js_string kind) (str_or file_type ''application/octet-stream'') file_bytes
       ''Failed to upload the image''"

definition deleteBrandingImage :: "json \<Rightarrow> api_call" where
  "deleteBrandingImage kind =
     plain_call ''DELETE'' (''/api/branding/'' @ js_string kind)
       ''Failed to remove the image''"

definition fetchSessions :: "api_call" where
  "fetchSessions =
     plain_call ''GET'' ''/api/sessions''
       ''Failed to fetch sessions''"

definition createSession :: "json \<Rightarrow> api_call" where
  "createSession payload =
     send_json ''POST'' ''/api/sessions'' payload
       ''Failed to create session''"

definition previewSessionRisk :: "json \<Rightarrow> api_call" where
  "previewSessionRisk payload =
     send_json ''POST'' ''/api/sessions/risk-preview'' payload
       ''Failed to preview session risk''"

definition fetchSessionDna :: "json \<Rightarrow> api_call" where
  "fetchSessionDna sessionId =
     plain_call ''GET'' (''/api/sessions/'' @ js_string sessionId @ ''/dna'')
       ''Failed to fetch session DNA''"

definition fetchSessionEvidencePack :: "json \<Rightarrow> api_call" where
  "fetchSessionEvidencePack sessionId =
     plain_call ''GET'' (''/api/evidence-packs/sessions/'' @ js_string sessionId)
       ''Failed to fetch evidence pack''"

definition terminateSession :: "json \<Rightarrow> api_call" where
  "terminateSession sessionId =
     plain_call ''POST'' (''/api/sessions/'' @ js_string sessionId @ ''/terminate'')
       ''Failed to terminate session''"

subsection \<open>File share resources (core)\<close>

definition fetchFileshareTicket :: "json \<Rightarrow> api_call" where
  "fetchFileshareTicket sessionId =
     plain_call ''POST'' (''/api/sessions/'' @ js_string sessionId @ ''/fileshare-ticket'')
       ''Failed to open the drive''"

definition fetchFileshareDirectory :: "json \<Rightarrow> api_call" where
  "fetchFileshareDirectory resourceId =
     plain_call ''GET'' (''/api/resources/'' @ js_string resourceId @ ''/fileshare/directory'')
       ''Failed to fetch the directory''"

definition startSessionElevation :: "json \<Rightarrow> json \<Rightarrow> api_call" where
  "startSessionElevation sessionId payload =
     send_json ''POST'' (''/api/sessions/'' @ js_string sessionId @ ''/elevation/start'') (jor (js_default payload (JObj [])) (JObj []))
       ''Failed to start session elevation''"

definition endSessionElevation :: "json \<Rightarrow> json \<Rightarrow> api_call" where
  "endSessionElevation sessionId payload =
     send_json ''POST'' (''/api/sessions/'' @ js_string sessionId @ ''/elevation/end'') (jor (js_default payload (JObj [])) (JObj []))
       ''Failed to end session elevation''"

definition reviewSessionGoal :: "json \<Rightarrow> json \<Rightarrow> api_call" where
  "reviewSessionGoal sessionId payload =
     send_json ''POST'' (''/api/sessions/'' @ js_string sessionId @ ''/goal-review'') (jor (js_default payload (JObj [])) (JObj []))
       ''Failed to review session goal''"

definition fetchAudit :: "api_call" where
  "fetchAudit =
     plain_call ''GET'' ''/api/audit''
       ''Failed to fetch audit log''"

definition verifyAuditChain :: "api_call" where
  "verifyAuditChain =
     plain_call ''GET'' ''/api/audit/verify''
       ''Failed to verify the audit log''"

definition fetchSecurityAlerts :: "json \<Rightarrow> api_call" where
  "fetchSecurityAlerts sinceId =
     plain_call ''GET'' (''/api/security/alerts?sinceId='' @ show_rat (number_or (js_default sinceId (JInt 0)) 0))
       ''Failed to fetch security alerts''"

definition reportSecurityIncidentEscalation :: "json \<Rightarrow> api_call" where
  "reportSecurityIncidentEscalation payload =
     send_json ''POST'' ''/api/security/incidents/escalate'' (jor payload (JObj []))
       ''Failed to report security incident escalation''"

definition fetchContainmentStatus :: "api_call" where
  "fetchContainmentStatus =
     plain_call ''GET'' ''/api/security/containment''
       ''Failed to fetch containment status''"

definition setContainmentMode :: "json \<Rightarrow> api_call" where
  "setContainmentMode payload =
     send_json ''POST'' ''/api/security/containment'' (jor payload (JObj []))
       ''Failed to update containment mode''"

definition fetchActiveSecurityIncident :: "api_call" where
  "fetchActiveSecurityIncident =
     plain_call ''GET'' ''/api/security/incidents/active''
       ''Failed to fetch active incident''"

definition openSecurityIncident :: "json \<Rightarrow> api_call" where
  "openSecurityIncident payload =
     send_json ''POST'' ''/api/security/incidents/open'' (jor payload (JObj []))
       ''Failed to open security incident''"

definition closeSecurityIncident :: "json \<Rightarrow> api_call" where
  "closeSecurityIncident payload =
     send_json ''POST'' ''/api/security/incidents/close'' (jor payload (JObj []))
       ''Failed to close security incident''"

definition fetchResources :: "api_call" where
  "fetchResources =
     plain_call ''GET'' ''/api/resources''
       ''Failed to fetch resources''"

definition createResource :: "json \<Rightarrow> api_call" where
  "createResource payload =
     send_json ''POST'' ''/api/resources'' payload
       ''Failed to create resource''"

definition updateResource :: "json \<Rightarrow> json \<Rightarrow> api_call" where
  "updateResource resourceId payload =
     send_json ''PUT'' (''/api/resources/'' @ js_string resourceId) payload
       ''Failed to update resource''"

definition deleteResource :: "json \<Rightarrow> api_call" where
  "deleteResource resourceId =
     plain_call ''DELETE'' (''/api/resources/'' @ js_string resourceId)
       ''Failed to delete resource''"

definition fetchUsers :: "api_call" where
  "fetchUsers =
     plain_call ''GET'' ''/api/users''
       ''Failed to fetch users''"

definition createUser :: "json \<Rightarrow> api_call" where
  "createUser payload =
     send_json ''POST'' ''/api/users'' payload
       ''Failed to create user''"

definition updateUser :: "json \<Rightarrow> json \<Rightarrow> api_call" where
  "updateUser userId payload =
     send_json ''PUT'' (''/api/users/'' @ js_string userId) payload
       ''Failed to update user''"

definition deleteUser :: "json \<Rightarrow> api_call" where
  "deleteUser userId =
     plain_call ''DELETE'' (''/api/users/'' @ js_string userId)
       ''Failed to delete user''"

definition getUserResourcePermissions :: "json \<Rightarrow> api_call" where
  "getUserResourcePermissions userId =
     plain_call ''GET'' (''/api/users/'' @ js_string userId @ ''/resources'')
       ''Failed to fetch permissions''"

definition grantResourcePermission :: "json \<Rightarrow> json \<Rightarrow> api_call" where
  "grantResourcePermission userId resourceId =
     plain_call ''POST'' (''/api/users/'' @ js_string userId @ ''/resources/'' @ js_string resourceId)
       ''Failed to grant permission''"

definition revokeResourcePermission :: "json \<Rightarrow> json \<Rightarrow> api_call" where
  "revokeResourcePermission userId resourceId =
     plain_call ''DELETE'' (''/api/users/'' @ js_string userId @ ''/resources/'' @ js_string resourceId)
       ''Failed to revoke permission''"

definition getUserAccessProfiles :: "json \<Rightarrow> api_call" where
  "getUserAccessProfiles userId =
     plain_call ''GET'' (''/api/users/'' @ js_string userId @ ''/access-profiles'')
       ''Failed to fetch access profiles''"

definition grantAccessProfile :: "json \<Rightarrow> json \<Rightarrow> api_call" where
  "grantAccessProfile userId profileId =
     plain_call ''POST'' (''/api/users/'' @ js_string userId @ ''/access-profiles/'' @ js_string profileId)
       ''Failed to assign access profile''"

definition revokeAccessProfile :: "json \<Rightarrow> json \<Rightarrow> api_call" where
  "revokeAccessProfile userId profileId =
     plain_call ''DELETE'' (''/api/users/'' @ js_string userId @ ''/access-profiles/'' @ js_string profileId)
       ''Failed to revoke access profile''"

definition fetchAccessPolicies :: "api_call" where
  "fetchAccessPolicies =
     plain_call ''GET'' ''/api/access-policies''
       ''Failed to fetch access policies''"

definition createAccessPolicy :: "json \<Rightarrow> api_call" where
  "createAccessPolicy payload =
     send_json ''POST'' ''/api/access-policies'' payload
       ''Failed to create access policy''"

definition updateAccessPolicy :: "json \<Rightarrow> json \<Rightarrow> api_call" where
  "updateAccessPolicy policyId payload =
     send_json ''PUT'' (''/api/access-policies/'' @ js_string policyId) payload
       ''Failed to update access policy''"

definition deleteAccessPolicy :: "json \<Rightarrow> api_call" where
  "deleteAccessPolicy policyId =
     plain_call ''DELETE'' (''/api/access-policies/'' @ js_string policyId)
       ''Failed to delete access policy''"

definition fetchAccessProfiles :: "api_call" where
  "fetchAccessProfiles =
     plain_call ''GET'' ''/api/access-profiles''
       ''Failed to fetch access profiles''"

definition createAccessProfile :: "json \<Rightarrow> api_call" where
  "createAccessProfile payload =
     send_json ''POST'' ''/api/access-profiles'' payload
       ''Failed to create access profile''"

definition updateAccessProfile :: "json \<Rightarrow> json \<Rightarrow> api_call" where
  "updateAccessProfile profileId payload =
     send_json ''PUT'' (''/api/access-profiles/'' @ js_string profileId) payload
       ''Failed to update access profile''"

definition deleteAccessProfile :: "json \<Rightarrow> api_call" where
  "deleteAccessProfile profileId =
     plain_call ''DELETE'' (''/api/access-profiles/'' @ js_string profileId)
       ''Failed to delete access profile''"

definition fetchAccessGrants :: "api_call" where
  "fetchAccessGrants =
     plain_call ''GET'' ''/api/access-grants''
       ''Failed to fetch access grants''"

subsection \<open>2FA / TOTP\<close>

definition setup2FA :: "api_call" where
  "setup2FA =
     plain_call ''POST'' ''/api/auth/setup-2fa''
       ''Failed to setup 2FA''"

definition verify2FA :: "json \<Rightarrow> api_call" where
  "verify2FA otp =
     send_json ''POST'' ''/api/auth/verify-2fa'' (JObj [(''code'', otp)])
       ''Failed to verify 2FA''"

definition disable2FA :: "json \<Rightarrow> api_call" where
  "disable2FA otp =
     send_json ''POST'' ''/api/auth/disable-2fa'' (JObj [(''code'', otp)])
       ''Failed to disable 2FA''"

definition get2FAStatus :: "api_call" where
  "get2FAStatus =
     plain_call ''GET'' ''/api/auth/2fa-status''
       ''Failed to fetch 2FA status''"

definition beginWebAuthnRegistration :: "json \<Rightarrow> api_call" where
  "beginWebAuthnRegistration payload =
     send_json ''POST'' ''/api/auth/webauthn/register/options'' (jor (js_default payload (JObj [])) (JObj []))
       ''Failed to start passkey registration''"

definition verifyWebAuthnRegistration :: "json \<Rightarrow> api_call" where
  "verifyWebAuthnRegistration payload =
     send_json ''POST'' ''/api/auth/webauthn/register/verify'' (jor payload (JObj []))
       ''Failed to verify passkey registration''"

definition deleteWebAuthnCredential :: "json \<Rightarrow> api_call" where
  "deleteWebAuthnCredential credentialId =
     plain_call ''DELETE'' (''/api/auth/webauthn/credentials/'' @ js_string credentialId)
       ''Failed to remove passkey''"

definition setMfaPreference :: "json \<Rightarrow> api_call" where
  "setMfaPreference method =
     send_json ''POST'' ''/api/auth/mfa-preference'' (JObj [(''method'', method)])
       ''Failed to save MFA preference''"

subsection \<open>Dashboard Stats\<close>

definition fetchStats :: "api_call" where
  "fetchStats =
     plain_call ''GET'' ''/api/stats''
       ''Failed to fetch stats''"

subsection \<open>Resource Credentials (Vault)\<close>

definition fetchResourceCredentials :: "json \<Rightarrow> api_call" where
  "fetchResourceCredentials resourceId =
     plain_call ''GET'' (''/api/resources/'' @ js_string resourceId @ ''/credentials'')
       ''Failed to fetch credentials''"

definition issueEphemeralCredential :: "json \<Rightarrow> api_call" where
  "issueEphemeralCredential resourceId =
     plain_call ''POST'' (''/api/resources/'' @ js_string resourceId @ ''/ephemeral-credentials'')
       ''Failed to issue ephemeral credential lease''"

definition consumeEphemeralCredential :: "json \<Rightarrow> api_call" where
  "consumeEphemeralCredential leaseId =
     plain_call ''POST'' (''/api/ephemeral-credentials/'' @ js_string leaseId @ ''/consume'')
       ''Failed to consume ephemeral credential lease''"

subsection \<open>Access Requests (Dual Control)\<close>

definition fetchAccessRequests :: "api_call" where
  "fetchAccessRequests =
     plain_call ''GET'' ''/api/access-requests''
       ''Failed to fetch access requests''"

definition createAccessRequest :: "json \<Rightarrow> api_call" where
  "createAccessRequest payload =
     send_json ''POST'' ''/api/access-requests'' payload
       ''Failed to create access request''"

definition approveAccessRequest :: "json \<Rightarrow> api_call" where
  "approveAccessRequest requestId =
     plain_call ''POST'' (''/api/access-requests/'' @ js_string requestId @ ''/approve'')
       ''Failed to approve access request''"

definition denyAccessRequest :: "json \<Rightarrow> api_call" where
  "denyAccessRequest requestId =
     plain_call ''POST'' (''/api/access-requests/'' @ js_string requestId @ ''/deny'')
       ''Failed to deny access request''"

subsection \<open>Relay Control Plane\<close>

definition fetchRelays :: "api_call" where
  "fetchRelays =
     plain_call ''GET'' ''/api/relays''
       ''Failed to fetch relays''"

definition fetchRelayConfig :: "api_call" where
  "fetchRelayConfig =
     plain_call ''GET'' ''/api/relays/config''
       ''Failed to fetch relay config''"

definition createRelayEnrollmentToken :: "json \<Rightarrow> api_call" where
  "createRelayEnrollmentToken payload =
     send_json ''POST'' ''/api/relays/enrollment-token'' (jor (js_default payload (JObj [])) (JObj []))
       ''Failed to create relay enrollment token''"

definition createRelayCertificate :: "json \<Rightarrow> api_call" where
  "createRelayCertificate payload =
     send_json ''POST'' ''/api/relays/certificate'' (jor (js_default payload (JObj [])) (JObj []))
       ''Failed to create relay certificate''"

definition assignRelayToResource :: "json \<Rightarrow> json \<Rightarrow> api_call" where
  "assignRelayToResource resourceId relayId =
     send_json ''POST'' ''/api/relays/assign'' (JObj [(''resourceId'', resourceId), (''relayId'', relayId)])
       ''Failed to assign relay''"

definition clearRelayForResource :: "json \<Rightarrow> api_call" where
  "clearRelayForResource resourceId =
     send_json ''POST'' ''/api/relays/assign'' (JObj [(''resourceId'', resourceId)])
       ''Failed to clear relay assignment''"

definition fetchRelayResolution :: "json \<Rightarrow> api_call" where
  "fetchRelayResolution resourceId =
     plain_call ''GET'' (''/api/relays/resolve/'' @ js_string resourceId)
       ''Failed to resolve relay route''"

subsection \<open>Cluster / HA Control Plane\<close>

definition fetchClusterStatus :: "api_call" where
  "fetchClusterStatus =
     plain_call ''GET'' ''/api/cluster/status''
       ''Failed to fetch cluster status''"

definition fetchClusterConfig :: "api_call" where
  "fetchClusterConfig =
     plain_call ''GET'' ''/api/cluster/config''
       ''Failed to fetch cluster config''"

definition removeClusterPeer :: "json \<Rightarrow> api_call" where
  "removeClusterPeer nodeId =
     plain_call ''DELETE'' (''/api/cluster/peers/'' @ encoded nodeId)
       ''Failed to remove cluster peer''"

subsection \<open>Enterprise Foundations\<close>

definition fetchSsoProviders :: "api_call" where
  "fetchSsoProviders =
     plain_call ''GET'' ''/api/auth/sso/providers''
       ''Failed to fetch SSO providers''"

definition fetchSsoConfig :: "api_call" where
  "fetchSsoConfig =
     plain_call ''GET'' ''/api/auth/sso/config''
       ''Failed to fetch SSO config''"

definition fetchDirectoryProviders :: "api_call" where
  "fetchDirectoryProviders =
     plain_call ''GET'' ''/api/auth/directory/providers''
       ''Failed to fetch directory providers''"

definition fetchLdapConfig :: "api_call" where
  "fetchLdapConfig =
     plain_call ''GET'' ''/api/auth/directory/ldap/config''
       ''Failed to fetch LDAP config''"

definition fetchScimServiceProviderConfig :: "api_call" where
  "fetchScimServiceProviderConfig =
     plain_call ''GET'' ''/api/scim/v2/ServiceProviderConfig''
       ''Failed to fetch SCIM service provider config''"

definition fetchScimUsers :: "json \<Rightarrow> json \<Rightarrow> json \<Rightarrow> api_call" where
  "fetchScimUsers startIndex page_count filter_text =
     plain_call ''GET'' (''/api/scim/v2/Users'' @ buildScimListQuery startIndex page_count filter_text)
       ''Failed to fetch SCIM users''"

definition fetchScimUser :: "json \<Rightarrow> api_call" where
  "fetchScimUser userIdOrName =
     plain_call ''GET'' (''/api/scim/v2/Users/'' @ encoded userIdOrName)
       ''Failed to fetch SCIM user''"

definition createScimUser :: "json \<Rightarrow> api_call" where
  "createScimUser payload =
     send_json ''POST'' ''/api/scim/v2/Users'' (jor payload (JObj []))
       ''Failed to create SCIM user''"

definition updateScimUser :: "json \<Rightarrow> json \<Rightarrow> api_call" where
  "updateScimUser userIdOrName payload =
     send_json ''PUT'' (''/api/scim/v2/Users/'' @ encoded userIdOrName) (jor payload (JObj []))
       ''Failed to update SCIM user''"

definition fetchScimGroups :: "json \<Rightarrow> json \<Rightarrow> json \<Rightarrow> api_call" where
  "fetchScimGroups startIndex page_count filter_text =
     plain_call ''GET'' (''/api/scim/v2/Groups'' @ buildScimListQuery startIndex page_count filter_text)
       ''Failed to fetch SCIM groups''"

definition fetchItsmProviders :: "api_call" where
  "fetchItsmProviders =
     plain_call ''GET'' ''/api/integrations/itsm/providers''
       ''Failed to fetch ITSM providers''"

definition verifyItsmTicket :: "json \<Rightarrow> api_call" where
  "verifyItsmTicket payload =
     send_json ''POST'' ''/api/integrations/itsm/verify-ticket'' (jor payload (JObj []))
       ''Failed to verify ITSM ticket''"

subsection \<open>Integration settings (admin-console configuration)\<close>

definition fetchIntegrationSettings :: "api_call" where
  "fetchIntegrationSettings =
     plain_call ''GET'' ''/api/settings/integrations''
       ''Failed to fetch integration settings''"

definition fetchSiemChannels :: "api_call" where
  "fetchSiemChannels =
     plain_call ''GET'' ''/api/integrations/siem/channels''
       ''Failed to fetch SIEM channels''"

definition forwardSiemEvent :: "json \<Rightarrow> api_call" where
  "forwardSiemEvent payload =
     send_json ''POST'' ''/api/integrations/siem/events'' (jor payload (JObj []))
       ''Failed to forward SIEM event''"

subsection \<open>Calls with another answer or another URL\<close>

definition fetchRbiRecording :: "json \<Rightarrow> api_call" where
  "fetchRbiRecording recId =
     (plain_call ''GET'' (''/api/recordings/'' @ js_string recId @ ''/rbi'')
        ''Failed to fetch RBI recording'')\<lparr>api_reply := BytesReply\<rparr>"

definition fetchRecordings :: "json \<Rightarrow> api_call" where
  "fetchRecordings sessionId =
     plain_call ''GET''
       (''/api/recordings'' @
        (if truthy sessionId then ''?sessionId='' @ js_string sessionId else []))
       ''Failed to fetch recordings''"

definition fetchRecordingCast :: "json \<Rightarrow> api_call" where
  "fetchRecordingCast recordingId =
     (plain_call ''GET'' (''/api/recordings/'' @ js_string recordingId @ ''/cast'')
        ''Failed to fetch recording data'')\<lparr>api_reply := TextReply\<rparr>"

definition patchScimUser :: "json \<Rightarrow> json \<Rightarrow> api_call" where
  "patchScimUser userIdOrName operations =
     (send_json ''PATCH'' (''/api/scim/v2/Users/'' @ encoded userIdOrName)
        (JObj [(''schemas'', JArr [JStr ''urn:ietf:params:scim:api:messages:2.0:PatchOp'']),
               (''Operations'', JArr (array_or_empty operations))])
        ''Failed to patch SCIM user'')\<lparr>api_reply := JsonOrEmpty\<rparr>"

definition deleteScimUser :: "json \<Rightarrow> api_call" where
  "deleteScimUser userIdOrName =
     (plain_call ''DELETE'' (''/api/scim/v2/Users/'' @ encoded userIdOrName)
        ''Failed to delete SCIM user'')\<lparr>api_reply := NoReply\<rparr>"

definition listSessionFiles :: "json \<Rightarrow> json \<Rightarrow> api_call" where
  "listSessionFiles sessionId path =
     plain_call ''GET''
       (''/api/sessions/'' @ js_string sessionId @ ''/files'' @
        (if truthy path then ''?path='' @ encoded path else []))
       ''Failed to list files''"

definition sessionFileDownloadUrl :: "json \<Rightarrow> json \<Rightarrow> string" where
  "sessionFileDownloadUrl sessionId path =
     ''/api/sessions/'' @ js_string sessionId @ ''/files/download?path='' @ encoded path"

text \<open>The query of a report or of the audit log: empty filters are left out; the audit log also
  leaves out \<open>false\<close> and writes \<open>true\<close> as 1.\<close>

definition report_params :: "(string \<times> json) list \<Rightarrow> (string \<times> string) list" where
  "report_params entries =
     fold (\<lambda>(k, v) q. if nullish v \<or> v = JStr [] then q else params_set k (js_string v) q) entries []"

definition audit_params :: "(string \<times> json) list \<Rightarrow> (string \<times> string) list" where
  "audit_params entries =
     fold (\<lambda>(k, v) q. if nullish v \<or> v = JStr [] \<or> v = JBool False then q
                      else params_set k (if v = JBool True then ''1'' else js_string v) q) entries []"

definition fetchReport :: "(string \<times> json) list \<Rightarrow> api_call" where
  "fetchReport params =
     plain_call ''GET'' (''/api/reports?'' @ query_string (report_params params))
       ''Failed to build the report''"

definition reportCsvCall :: "(string \<times> json) list \<Rightarrow> api_call" where
  "reportCsvCall params =
     (plain_call ''GET'' (''/api/reports/export?'' @ query_string (report_params params))
        ''Failed to export the report'')\<lparr>api_reply := BytesReply\<rparr>"

text \<open>\<open>/filename="?([^";]+)"?/.exec(s)\<close>: the first place the name follows.\<close>

definition filename_here :: "string \<Rightarrow> string option" where
  "filename_here s =
     (if starts_with s ''filename='' then
        (let r = drop 9 s;
             r' = (if r \<noteq> [] \<and> hd r = dquote then tl r else r);
             name = takeWhile (\<lambda>c. c \<noteq> dquote \<and> c \<noteq> CHR '';'') r'
         in if name = [] then None else Some name)
      else None)"

fun filename_in :: "string \<Rightarrow> string option" where
  "filename_in [] = None"
| "filename_in (c # s) =
     (case filename_here (c # s) of Some n \<Rightarrow> Some n | None \<Rightarrow> filename_in s)"

definition fetchReportCsv ::
    "int \<Rightarrow> string \<Rightarrow> (string \<times> json) list \<Rightarrow> fetched \<Rightarrow> client \<Rightarrow> json outcome" where
  "fetchReportCsv now loc params f c =
     (case complete_call now loc (reportCsvCall params) f c of
        (Inl e, c') \<Rightarrow> (Inl e, c')
      | (Inr blob, c') \<Rightarrow>
          (let disposition = (case f of
                 NoAnswer \<Rightarrow> []
               | Answer r \<Rightarrow> (case header_get ''Content-Disposition'' r of None \<Rightarrow> [] | Some d \<Rightarrow> d));
               name = (case filename_in disposition of
                         Some n \<Rightarrow> n | None \<Rightarrow> ''endoriumfort-report.csv'')
           in (Inr (JObj [(''blob'', blob), (''filename'', JStr name)]), c')))"

subsection \<open>Calls without the token\<close>

definition login :: "json \<Rightarrow> api_call" where
  "login payload = (send_json ''POST'' ''/api/auth/login'' payload ''Login failed'')\<lparr>api_auth := False\<rparr>"

definition finish_login :: "string \<Rightarrow> fetched \<Rightarrow> client \<Rightarrow> json outcome" where
  "finish_login loc f c =
     (case f of
        NoAnswer \<Rightarrow> (Inl NetworkError, c)
      | Answer r \<Rightarrow>
          if \<not> resp_ok r then (Inl (readError loc r ''Login failed''), c) else (resp_json r, c))"

definition public_call :: "string \<Rightarrow> string \<Rightarrow> api_call" where
  "public_call url fallback = (plain_call ''GET'' url fallback)\<lparr>api_auth := False\<rparr>"

definition fetchHealth :: "string \<Rightarrow> fetched \<Rightarrow> client \<Rightarrow> json outcome" where
  "fetchHealth loc f c =
     (case f of
        NoAnswer \<Rightarrow> (Inl NetworkError, c)
      | Answer r \<Rightarrow>
          if \<not> resp_ok r then (Inl (serverError loc ''Health check failed'' (resp_status r)), c)
          else (resp_json r, c))"

definition fetchBranding :: "fetched \<Rightarrow> client \<Rightarrow> json outcome" where
  "fetchBranding f c =
     (case f of
        NoAnswer \<Rightarrow> (Inl NetworkError, c)
      | Answer r \<Rightarrow> if \<not> resp_ok r then (Inr JNull, c) else (resp_json r, c))"

definition fetchSsoLoginOptions :: "fetched \<Rightarrow> json" where
  "fetchSsoLoginOptions f =
     (let unavailable = JObj [(''available'', JBool False)] in
      case f of
        NoAnswer \<Rightarrow> unavailable
      | Answer r \<Rightarrow>
          if \<not> resp_ok r then unavailable
          else (case json_parse (resp_body r) of
             None \<Rightarrow> unavailable
           | Some payload \<Rightarrow>
               JObj [(''available'', JBool (strict_eq (jget payload ''available'') (JBool True))),
                     (''provider'', jor (jget payload ''provider'') (JStr []))]))"

text \<open>The address the browser is sent to, and nothing outside a browser.\<close>

definition startOidcSso :: "bool \<Rightarrow> json \<Rightarrow> json \<Rightarrow> string option" where
  "startOidcSso in_browser provider postLoginRedirect =
     (if \<not> in_browser then None
      else Some (''/api/auth/sso/oidc/start'' @
        query_suffix
          ((if truthy provider then [(''provider'', js_string provider)] else []) @
           (if truthy postLoginRedirect
            then [(''postLoginRedirect'', js_string postLoginRedirect)] else []))))"

subsection \<open>Calls that look at the answer first\<close>

definition audit_call :: "(string \<times> json) list \<Rightarrow> api_call" where
  "audit_call params =
     plain_call ''GET'' (''/api/audit?'' @ query_string (audit_params params))
       ''Failed to search the audit log''"

text \<open>The flag is \<open>error.expired\<close>.\<close>

definition fetchAuditPage ::
    "int \<Rightarrow> string \<Rightarrow> (string \<times> json) list \<Rightarrow> fetched \<Rightarrow> client \<Rightarrow> json outcome \<times> bool" where
  "fetchAuditPage now loc params f c =
     (case f of
        Answer r \<Rightarrow>
          if resp_status r = 410 then
            ((Inl (readError loc r ''This page of the audit log is no longer available''), c), True)
          else (checked_reply now loc (audit_call params) r c, False)
      | NoAnswer \<Rightarrow> ((Inl NetworkError, c), False))"

definition ldap_test_call :: "json \<Rightarrow> api_call" where
  "ldap_test_call payload =
     send_json ''POST'' ''/api/auth/directory/ldap/test-bind'' (jor payload (JObj []))
       ''Failed to test LDAP bind''"

definition testLdapBind ::
    "int \<Rightarrow> string \<Rightarrow> json \<Rightarrow> fetched \<Rightarrow> client \<Rightarrow> json outcome" where
  "testLdapBind now loc payload f c =
     (case f of
        NoAnswer \<Rightarrow> (Inl NetworkError, c)
      | Answer r \<Rightarrow>
          (let result = (if resp_status r = 401 \<or> resp_status r = 503
                         then json_parse (resp_body r) else None)
           in (case result of
                 Some v \<Rightarrow>
                   if truthy v \<and> has_prop v ''authenticated'' then (Inr v, c)
                   else checked_reply now loc (ldap_test_call payload) r c
               | None \<Rightarrow> checked_reply now loc (ldap_test_call payload) r c)))"

definition integration_save_call :: "json \<Rightarrow> api_call" where
  "integration_save_call vals =
     send_json ''PUT'' ''/api/settings/integrations'' (JObj [(''values'', jor vals (JObj []))])
       ''Failed to save integration settings''"

definition saveIntegrationSettings ::
    "int \<Rightarrow> string \<Rightarrow> json \<Rightarrow> fetched \<Rightarrow> client \<Rightarrow> json outcome" where
  "saveIntegrationSettings now loc vals f c =
     (case f of
        NoAnswer \<Rightarrow> (Inl NetworkError, c)
      | Answer r \<Rightarrow>
          (let body = (if resp_status r = 400 \<or> resp_status r = 500
                       then json_parse (resp_body r) else None)
           in (case body of
                 Some v \<Rightarrow>
                   if is_array (jget v ''rejected'') then (Inr v, c)
                   else checked_reply now loc (integration_save_call vals) r c
               | None \<Rightarrow> checked_reply now loc (integration_save_call vals) r c)))"

definition chunk_call ::
    "json \<Rightarrow> json \<Rightarrow> json \<Rightarrow> json \<Rightarrow> string \<Rightarrow> json \<Rightarrow> json \<Rightarrow> api_call" where
  "chunk_call sessionId path uploadId offset chunk final overwrite =
     \<lparr>api_method = ''POST'',
      api_url = ''/api/sessions/'' @ js_string sessionId @ ''/files/upload?'' @
        query_string
          [(''path'', js_string path), (''uploadId'', js_string uploadId),
           (''offset'', js_string offset), (''final'', if truthy final then ''1'' else ''0''),
           (''overwrite'', if truthy overwrite then ''1'' else ''0'')],
      api_auth = True, api_headers = [(''Content-Type'', ''application/octet-stream'')],
      api_body = BlobBody chunk, api_fallback = ''Failed to send the file'',
      api_reply = JsonReply\<rparr>"

definition uploadSessionFileChunk ::
    "int \<Rightarrow> string \<Rightarrow> api_call \<Rightarrow> fetched \<Rightarrow> client \<Rightarrow> json outcome" where
  "uploadSessionFileChunk now loc call f c =
     (case f of
        NoAnswer \<Rightarrow> (Inl NetworkError, c)
      | Answer r \<Rightarrow>
          (let body = (if resp_status r = 409 then json_parse (resp_body r) else None)
           in (case body of
                 Some v \<Rightarrow>
                   if truthy (jget v ''error'') then (Inr (JObj [(''conflict'', v)]), c)
                   else checked_reply now loc call r c
               | None \<Rightarrow> checked_reply now loc call r c)))"

subsection \<open>All the calls that carry the token\<close>

inductive endpoint :: "api_call \<Rightarrow> bool" where
  "endpoint fetchLicenseStatus"
| "endpoint (applyLicense license)"
| "endpoint reloadLicense"
| "endpoint fetchAgents"
| "endpoint (mintAgentToken sessionId)"
| "endpoint fetchVaultRotation"
| "endpoint (configureVaultRotation resourceId payload)"
| "endpoint (rotateVaultNow resourceId)"
| "endpoint fetchVaultDynamic"
| "endpoint (configureVaultDynamic resourceId payload)"
| "endpoint fetchApiTokenScopes"
| "endpoint (fetchApiTokens all_tokens)"
| "endpoint (createApiToken payload)"
| "endpoint (revokeApiToken ident)"
| "endpoint fetchDbGuardRules"
| "endpoint (saveDbGuardRule name payload)"
| "endpoint (deleteDbGuardRule name)"
| "endpoint fetchSshGuardRules"
| "endpoint (saveSshGuardRule name payload)"
| "endpoint (deleteSshGuardRule name)"
| "endpoint fetchItdrRules"
| "endpoint (updateItdrRule rule_name payload)"
| "endpoint fetchItdrDetections"
| "endpoint (ackItdrDetection ident)"
| "endpoint fetchK8sResources"
| "endpoint (configureK8sResource resourceId payload)"
| "endpoint (fetchK8sPods resourceId)"
| "endpoint logout"
| "endpoint (changePassword currentPassword newPassword keepCurrentSession)"
| "endpoint fetchBootstrapStatus"
| "endpoint (saveBranding settings)"
| "endpoint (uploadBrandingImage kind file_type file_bytes)"
| "endpoint (deleteBrandingImage kind)"
| "endpoint fetchSessions"
| "endpoint (createSession payload)"
| "endpoint (previewSessionRisk payload)"
| "endpoint (fetchSessionDna sessionId)"
| "endpoint (fetchSessionEvidencePack sessionId)"
| "endpoint (terminateSession sessionId)"
| "endpoint (fetchFileshareTicket sessionId)"
| "endpoint (fetchFileshareDirectory resourceId)"
| "endpoint (startSessionElevation sessionId payload)"
| "endpoint (endSessionElevation sessionId payload)"
| "endpoint (reviewSessionGoal sessionId payload)"
| "endpoint fetchAudit"
| "endpoint verifyAuditChain"
| "endpoint (fetchSecurityAlerts sinceId)"
| "endpoint (reportSecurityIncidentEscalation payload)"
| "endpoint fetchContainmentStatus"
| "endpoint (setContainmentMode payload)"
| "endpoint fetchActiveSecurityIncident"
| "endpoint (openSecurityIncident payload)"
| "endpoint (closeSecurityIncident payload)"
| "endpoint fetchResources"
| "endpoint (createResource payload)"
| "endpoint (updateResource resourceId payload)"
| "endpoint (deleteResource resourceId)"
| "endpoint fetchUsers"
| "endpoint (createUser payload)"
| "endpoint (updateUser userId payload)"
| "endpoint (deleteUser userId)"
| "endpoint (getUserResourcePermissions userId)"
| "endpoint (grantResourcePermission userId resourceId)"
| "endpoint (revokeResourcePermission userId resourceId)"
| "endpoint (getUserAccessProfiles userId)"
| "endpoint (grantAccessProfile userId profileId)"
| "endpoint (revokeAccessProfile userId profileId)"
| "endpoint fetchAccessPolicies"
| "endpoint (createAccessPolicy payload)"
| "endpoint (updateAccessPolicy policyId payload)"
| "endpoint (deleteAccessPolicy policyId)"
| "endpoint fetchAccessProfiles"
| "endpoint (createAccessProfile payload)"
| "endpoint (updateAccessProfile profileId payload)"
| "endpoint (deleteAccessProfile profileId)"
| "endpoint fetchAccessGrants"
| "endpoint setup2FA"
| "endpoint (verify2FA otp)"
| "endpoint (disable2FA otp)"
| "endpoint get2FAStatus"
| "endpoint (beginWebAuthnRegistration payload)"
| "endpoint (verifyWebAuthnRegistration payload)"
| "endpoint (deleteWebAuthnCredential credentialId)"
| "endpoint (setMfaPreference method)"
| "endpoint fetchStats"
| "endpoint (fetchResourceCredentials resourceId)"
| "endpoint (issueEphemeralCredential resourceId)"
| "endpoint (consumeEphemeralCredential leaseId)"
| "endpoint fetchAccessRequests"
| "endpoint (createAccessRequest payload)"
| "endpoint (approveAccessRequest requestId)"
| "endpoint (denyAccessRequest requestId)"
| "endpoint fetchRelays"
| "endpoint fetchRelayConfig"
| "endpoint (createRelayEnrollmentToken payload)"
| "endpoint (createRelayCertificate payload)"
| "endpoint (assignRelayToResource resourceId relayId)"
| "endpoint (clearRelayForResource resourceId)"
| "endpoint (fetchRelayResolution resourceId)"
| "endpoint fetchClusterStatus"
| "endpoint fetchClusterConfig"
| "endpoint (removeClusterPeer nodeId)"
| "endpoint fetchSsoProviders"
| "endpoint fetchSsoConfig"
| "endpoint fetchDirectoryProviders"
| "endpoint fetchLdapConfig"
| "endpoint fetchScimServiceProviderConfig"
| "endpoint (fetchScimUsers startIndex page_count filter_text)"
| "endpoint (fetchScimUser userIdOrName)"
| "endpoint (createScimUser payload)"
| "endpoint (updateScimUser userIdOrName payload)"
| "endpoint (fetchScimGroups startIndex page_count filter_text)"
| "endpoint fetchItsmProviders"
| "endpoint (verifyItsmTicket payload)"
| "endpoint fetchIntegrationSettings"
| "endpoint fetchSiemChannels"
| "endpoint (forwardSiemEvent payload)"
| "endpoint (fetchRbiRecording recId)"
| "endpoint (fetchRecordings sessionId)"
| "endpoint (fetchRecordingCast recordingId)"
| "endpoint (patchScimUser userIdOrName operations)"
| "endpoint (deleteScimUser userIdOrName)"
| "endpoint (listSessionFiles sessionId path)"
| "endpoint (fetchReport entries)"
| "endpoint (reportCsvCall entries)"
| "endpoint (audit_call entries)"
| "endpoint (ldap_test_call payload)"
| "endpoint (integration_save_call vals)"
| "endpoint (chunk_call sessionId path uploadId offset chunk final overwrite)"

lemmas endpoint_defs =
  fetchLicenseStatus_def applyLicense_def reloadLicense_def fetchAgents_def mintAgentToken_def
  fetchVaultRotation_def configureVaultRotation_def rotateVaultNow_def fetchVaultDynamic_def
  configureVaultDynamic_def fetchApiTokenScopes_def fetchApiTokens_def createApiToken_def
  revokeApiToken_def fetchDbGuardRules_def saveDbGuardRule_def deleteDbGuardRule_def
  fetchSshGuardRules_def saveSshGuardRule_def deleteSshGuardRule_def fetchItdrRules_def
  updateItdrRule_def fetchItdrDetections_def ackItdrDetection_def fetchK8sResources_def
  configureK8sResource_def fetchK8sPods_def logout_def changePassword_def
  fetchBootstrapStatus_def saveBranding_def uploadBrandingImage_def deleteBrandingImage_def
  fetchSessions_def createSession_def previewSessionRisk_def fetchSessionDna_def
  fetchSessionEvidencePack_def terminateSession_def fetchFileshareTicket_def
  fetchFileshareDirectory_def startSessionElevation_def endSessionElevation_def
  reviewSessionGoal_def fetchAudit_def verifyAuditChain_def fetchSecurityAlerts_def
  reportSecurityIncidentEscalation_def fetchContainmentStatus_def setContainmentMode_def
  fetchActiveSecurityIncident_def openSecurityIncident_def closeSecurityIncident_def
  fetchResources_def createResource_def updateResource_def deleteResource_def fetchUsers_def
  createUser_def updateUser_def deleteUser_def getUserResourcePermissions_def
  grantResourcePermission_def revokeResourcePermission_def getUserAccessProfiles_def
  grantAccessProfile_def revokeAccessProfile_def fetchAccessPolicies_def
  createAccessPolicy_def updateAccessPolicy_def deleteAccessPolicy_def fetchAccessProfiles_def
  createAccessProfile_def updateAccessProfile_def deleteAccessProfile_def
  fetchAccessGrants_def setup2FA_def verify2FA_def disable2FA_def get2FAStatus_def
  beginWebAuthnRegistration_def verifyWebAuthnRegistration_def deleteWebAuthnCredential_def
  setMfaPreference_def fetchStats_def fetchResourceCredentials_def
  issueEphemeralCredential_def consumeEphemeralCredential_def fetchAccessRequests_def
  createAccessRequest_def approveAccessRequest_def denyAccessRequest_def fetchRelays_def
  fetchRelayConfig_def createRelayEnrollmentToken_def createRelayCertificate_def
  assignRelayToResource_def clearRelayForResource_def fetchRelayResolution_def
  fetchClusterStatus_def fetchClusterConfig_def removeClusterPeer_def fetchSsoProviders_def
  fetchSsoConfig_def fetchDirectoryProviders_def fetchLdapConfig_def
  fetchScimServiceProviderConfig_def fetchScimUsers_def fetchScimUser_def createScimUser_def
  updateScimUser_def fetchScimGroups_def fetchItsmProviders_def verifyItsmTicket_def
  fetchIntegrationSettings_def fetchSiemChannels_def forwardSiemEvent_def
  fetchRbiRecording_def fetchRecordings_def fetchRecordingCast_def patchScimUser_def
  deleteScimUser_def listSessionFiles_def fetchReport_def reportCsvCall_def audit_call_def
  ldap_test_call_def integration_save_call_def chunk_call_def

lemmas call_shapes = plain_call_def send_json_def put_file_def

end
