(* ===== verification/ApiSafety.thy ===== *)
theory ApiSafety
  imports ApiEndpoints
begin

section \<open>What every call of the API guarantees\<close>

text \<open>
  Facts about all the calls of \<open>endpoint\<close>: their URLs, the Authorization header, what an
  answer may do to the session, how an error body is shown, and which fallback messages the
  French table leaves out.
\<close>

subsection \<open>The request\<close>

lemma endpoint_auth: "endpoint a \<Longrightarrow> api_auth a"
  by (erule endpoint.cases) (simp_all add: endpoint_defs call_shapes)

lemma endpoint_url: "endpoint a \<Longrightarrow> starts_with (api_url a) ''/api/''"
  by (erule endpoint.cases) (simp_all add: endpoint_defs call_shapes starts_with_def)

lemma endpoint_headers: "endpoint a \<Longrightarrow> fst ` set (api_headers a) \<subseteq> {''Content-Type''}"
  by (erule endpoint.cases) (simp_all add: endpoint_defs call_shapes json_type_def)

lemma build_request_auth:
  assumes "api_auth a" and "''Authorization'' \<notin> fst ` set (api_headers a)"
  shows "map_of (req_headers (build_request c a)) ''Authorization'' =
           (if truthy (auth_token c) then Some (''Bearer '' @ js_string (auth_token c)) else None)"
  using assms by (auto simp: build_request_def withAuthHeaders_def map_of_eq_None_iff)

lemma endpoint_authorization:
  "endpoint a \<Longrightarrow> map_of (req_headers (build_request c a)) ''Authorization'' =
     (if truthy (auth_token c) then Some (''Bearer '' @ js_string (auth_token c)) else None)"
  using endpoint_headers by (intro build_request_auth endpoint_auth) auto

subsection \<open>Percent encoding is injective\<close>

definition decode_pair :: "char \<Rightarrow> char \<Rightarrow> char" where
  "decode_pair a b = char_of (the (hex_val a) * 16 + the (hex_val b))"

fun percent_decode :: "string \<Rightarrow> string" where
  "percent_decode (c # s) =
     (if c = CHR ''%'' then
        (case s of a # b # r \<Rightarrow> decode_pair a b # percent_decode r | _ \<Rightarrow> c # s)
      else c # percent_decode s)"
| "percent_decode [] = []"

lemma decode_percent: "percent_decode (percent c @ s) = c # percent_decode s"
proof -
  have "code c div 16 < 16" using code_less [of c] by (simp add: less_mult_imp_div_less)
  then have "decode_pair (hex_char (code c div 16)) (hex_char (code c mod 16)) = c"
    by (simp add: decode_pair_def hex_val_hex_char)
  then show ?thesis by (simp add: percent_def)
qed

lemma percent_decode_encode [simp]: "percent_decode (encodeURIComponent s @ t) = s @ percent_decode t"
proof (induction s)
  case (Cons c s)
  show ?case
  proof (cases "uri_unreserved c")
    case True
    then have "c \<noteq> CHR ''%''"
      by (auto simp: uri_unreserved_def is_alnum_def is_digit_def is_upper_def is_lower_def code_def)
    with True Cons show ?thesis by (simp add: encodeURIComponent_def)
  next
    case False
    with Cons decode_percent show ?thesis by (simp add: encodeURIComponent_def)
  qed
qed (simp add: encodeURIComponent_def)

lemma encodeURIComponent_inject [simp]: "encodeURIComponent a = encodeURIComponent b \<longleftrightarrow> a = b"
  by (metis append_Nil2 percent_decode.simps(2) percent_decode_encode)

lemma encoded_segment: "CHR ''/'' \<notin> set (encoded v)"
  by (simp add: encoded_def encodeURIComponent_no_separator)

subsection \<open>The session under an answer\<close>

lemma endpoint_value:
  assumes "fst (complete_call now loc a f c) = Inr v"
  obtains r where "f = Answer r" and "resp_ok r" and "snd (complete_call now loc a f c) = c"
    and "decode_reply (api_reply a) r = Inr v"
proof (cases f)
  case NoAnswer
  with assms show ?thesis by (simp add: complete_call_def)
next
  case (Answer r)
  have ok: "resp_ok r"
  proof (rule ccontr)
    assume "\<not> resp_ok r"
    then obtain e where "fst (ensureResponseOk now loc r (api_fallback a) c) = Inl e"
      using ensure_succeeds_iff by (metis (full_types) old.sum.exhaust)
    with assms Answer show False
      by (auto simp: complete_call_def checked_reply_def split: prod.splits sum.splits)
  qed
  with assms Answer ensure_ok that show ?thesis
    by (simp add: complete_call_def checked_reply_def)
qed

subsection \<open>Error bodies\<close>

lemma stringify_object: "\<exists>w. json_stringify (JObj kvs) = CHR ''{'' # w @ ''}''"
  by (simp add: json_stringify_def)

lemma trim_object: "trim (json_stringify (JObj kvs)) = json_stringify (JObj kvs)"
proof -
  obtain w where "json_stringify (JObj kvs) = CHR ''{'' # w @ ''}''"
    using stringify_object by blast
  then show ?thesis
    by (intro trim_fix disjI2) (simp add: is_ws_def code_def)
qed

lemma error_body_text:
  assumes "plain_json (JObj kvs)"
  shows "server_error_text (json_stringify (JObj kvs)) =
     js_string (jor (jor (jget (JObj kvs) ''error'') (jget (JObj kvs) ''message''))
                    (JStr (json_stringify (JObj kvs))))"
proof -
  have "starts_with (json_stringify (JObj kvs)) ''{''"
    using stringify_object [of kvs] by (auto simp: starts_with_def)
  then show ?thesis
    by (simp add: server_error_text_def trim_object json_parse_stringify [OF assms])
qed

subsection \<open>Fallback messages\<close>

definition untranslated_fallbacks :: "string list" where
  "untranslated_fallbacks =
     [''Failed to fetch API token scopes'', ''Failed to fetch API tokens'',
      ''Failed to create the API token'', ''Failed to revoke the API token'',
      ''Failed to fetch SQL guard rules'', ''Failed to save the SQL guard rule'',
      ''Failed to delete the SQL guard rule'', ''Failed to list files'',
      ''Failed to build the report'', ''Failed to export the report'',
      ''Failed to send the file'']"

lemma untranslated_generic: "set untranslated_fallbacks \<inter> fst ` set fr_generic = {}"
  unfolding untranslated_fallbacks_def fr_generic_def
  by (simp only: list.set image_insert image_empty fst_conv) (simp add: dquote_def)

lemma untranslated_sign_in: "set untranslated_fallbacks \<inter> fst ` set fr_sign_in = {}"
  unfolding untranslated_fallbacks_def fr_sign_in_def
  by (simp only: list.set image_insert image_empty fst_conv) (simp add: dquote_def)

lemma untranslated_sso: "set untranslated_fallbacks \<inter> fst ` set fr_sso = {}"
  unfolding untranslated_fallbacks_def fr_sso_def
  by (simp only: list.set image_insert image_empty fst_conv) (simp add: dquote_def)

lemma untranslated_users: "set untranslated_fallbacks \<inter> fst ` set fr_users = {}"
  unfolding untranslated_fallbacks_def fr_users_def
  by (simp only: list.set image_insert image_empty fst_conv) (simp add: dquote_def)

lemma untranslated_resources: "set untranslated_fallbacks \<inter> fst ` set fr_resources = {}"
  unfolding untranslated_fallbacks_def fr_resources_def
  by (simp only: list.set image_insert image_empty fst_conv) (simp add: dquote_def)

lemma untranslated_sessions: "set untranslated_fallbacks \<inter> fst ` set fr_sessions = {}"
  unfolding untranslated_fallbacks_def fr_sessions_def
  by (simp only: list.set image_insert image_empty fst_conv) (simp add: dquote_def)

lemma untranslated_terminal: "set untranslated_fallbacks \<inter> fst ` set fr_terminal = {}"
  unfolding untranslated_fallbacks_def fr_terminal_def
  by (simp only: list.set image_insert image_empty fst_conv) (simp add: dquote_def)

lemma untranslated_agents: "set untranslated_fallbacks \<inter> fst ` set fr_agents = {}"
  unfolding untranslated_fallbacks_def fr_agents_def
  by (simp only: list.set image_insert image_empty fst_conv) (simp add: dquote_def)

lemma untranslated_vault: "set untranslated_fallbacks \<inter> fst ` set fr_vault = {}"
  unfolding untranslated_fallbacks_def fr_vault_def
  by (simp only: list.set image_insert image_empty fst_conv) (simp add: dquote_def)

lemma untranslated_audit: "set untranslated_fallbacks \<inter> fst ` set fr_audit = {}"
  unfolding untranslated_fallbacks_def fr_audit_def
  by (simp only: list.set image_insert image_empty fst_conv) (simp add: dquote_def)

lemma untranslated_integrations: "set untranslated_fallbacks \<inter> fst ` set fr_integrations = {}"
  unfolding untranslated_fallbacks_def fr_integrations_def
  by (simp only: list.set image_insert image_empty fst_conv) (simp add: dquote_def)

lemma untranslated_license: "set untranslated_fallbacks \<inter> fst ` set fr_license = {}"
  unfolding untranslated_fallbacks_def fr_license_def
  by (simp only: list.set image_insert image_empty fst_conv) (simp add: dquote_def)

lemma untranslated_web_proxy: "set untranslated_fallbacks \<inter> fst ` set fr_web_proxy = {}"
  unfolding untranslated_fallbacks_def fr_web_proxy_def
  by (simp only: list.set image_insert image_empty fst_conv) (simp add: dquote_def)

lemma untranslated_fileshare: "set untranslated_fallbacks \<inter> fst ` set fr_fileshare = {}"
  unfolding untranslated_fallbacks_def fr_fileshare_def
  by (simp only: list.set image_insert image_empty fst_conv) (simp add: dquote_def)

lemmas untranslated_sections =
  untranslated_generic
  untranslated_sign_in
  untranslated_sso
  untranslated_users
  untranslated_resources
  untranslated_sessions
  untranslated_terminal
  untranslated_agents
  untranslated_vault
  untranslated_audit
  untranslated_integrations
  untranslated_license
  untranslated_web_proxy
  untranslated_fileshare

lemma disjoint_not_in: "x \<in> A \<Longrightarrow> A \<inter> B = {} \<Longrightarrow> x \<notin> B"
  by blast

lemma untranslated_not_keys: "f \<in> set untranslated_fallbacks \<Longrightarrow> \<not> translated_key f"
  unfolding translated_key_def FR_def set_append set_map image_Un Un_iff de_Morgan_disj
  by (intro conjI; erule disjoint_not_in, rule untranslated_sections)

subsection \<open>Properties of the API client\<close>


text \<open>A client with a token and a stored session, for the witnesses.\<close>

definition sample_client :: client where
  "sample_client = setAuthToken (JStr ''t0k'') (load_client [auth_key \<mapsto> ''saved''])"

lemmas sample_defs = sample_client_def setAuthToken_def load_client_def

definition plain_response :: "int \<Rightarrow> string \<Rightarrow> response" where
  "plain_response status body = \<lparr>resp_status = status, resp_headers = [], resp_body = body\<rparr>"






text \<open>However answers interleave with sign-ins and writes to the store, two sign-out
  notifications are at least 1500 ms apart and two licence notifications at least 1000 ms.\<close>

theorem notifications_spaced:
  assumes "reachable now c"
  shows "spaced 1500 (unauthorized_times c) \<and> spaced 1000 (license_times c)"
  using reachable_una [OF assms] reachable_lic [OF assms]
  unfolding una.in_order_def lic.in_order_def by blast

theorem notifications_spaced_witness:
  "spaced 1500 (unauthorized_times
     (snd (ensureResponseOk 2000 ''en'' (plain_response 401 []) [] (load_client Map.empty))))"
  using notifications_spaced [OF reachable.answer [OF reachable.load [of 0]]] by simp

text \<open>A rule name is one path segment of the URL, whatever it contains, and different names
  give different URLs.\<close>

theorem rule_url_segment:
  "split_on (CHR ''/'') (api_url (saveDbGuardRule n p)) =
     [[], ''api'', ''db-guard'', ''rules'', encoded n] \<and>
   split_on (CHR ''/'') (api_url (saveSshGuardRule n p)) =
     [[], ''api'', ''ssh-guard'', ''rules'', encoded n] \<and>
   CHR ''?'' \<notin> set (encoded n) \<and> CHR ''#'' \<notin> set (encoded n) \<and>
   (api_url (deleteDbGuardRule n) = api_url (deleteDbGuardRule m) \<longleftrightarrow> js_string n = js_string m)"
  by (simp add: endpoint_defs call_shapes split_on_none encoded_segment)
    (simp add: encoded_def encodeURIComponent_no_separator)

text \<open>A refused LDAP test account (401 or 503 with a test result in the body) is reported as
  the result and leaves the administrator signed in.\<close>

theorem ldap_refusal_keeps_session:
  assumes "resp_status r = 401 \<or> resp_status r = 503"
    and "json_parse (resp_body r) = Some result" and "has_prop result ''authenticated''"
  shows "testLdapBind now loc payload (Answer r) c = (Inr result, c)"
  using assms by (cases result) (auto simp: testLdapBind_def)

theorem ldap_refusal_keeps_session_witness:
  "testLdapBind 9000 ''fr'' JUndef
     (Answer (plain_response 401 (json_stringify (JObj [(''authenticated'', JBool False)])))) sample_client
   = (Inr (JObj [(''authenticated'', JBool False)]), sample_client)"
  by (rule ldap_refusal_keeps_session) (simp_all add: json_parse_stringify plain_response_def)

text \<open>A JSON error body is shown as its error field, in the interface language, with the
  original text and the status kept.\<close>

theorem json_error_shown:
  assumes "plain_json (JObj kvs)" and "jget (JObj kvs) ''error'' = JStr m" and "m \<noteq> []"
    and "resp_body r = json_stringify (JObj kvs)" and "resp_status r \<noteq> 0"
  shows "readError loc r fallback = ServerError (translateServerMessage m loc) m (Some (resp_status r))"
proof -
  have "json_stringify (JObj kvs) \<noteq> []"
    by (simp add: json_stringify_def)
  then have "server_error_text (str_or (resp_body r) fallback) = m"
    using error_body_text [OF assms(1)] assms by (simp add: str_or_def)
  then show ?thesis
    using assms(5) by (simp add: readError_def serverError_def)
qed

theorem json_error_shown_witness:
  "readError ''en'' (plain_response 409 (json_stringify (JObj [(''error'', JStr ''taken'')]))) ''Failed''
   = ServerError ''taken'' ''taken'' (Some 409)"
  using json_error_shown [of "[(''error'', JStr ''taken'')]" "''taken''"
      "plain_response 409 (json_stringify (JObj [(''error'', JStr ''taken'')]))" "''en''" "''Failed''"]
  by (simp add: translateServerMessage_def starts_with_def plain_response_def)

end
