(* ===== verification/Clock.thy ===== *)
theory Clock
  imports Json
begin

section \<open>Dates: \<open>Date.parse\<close> and \<open>new Date(text).getTime()\<close>\<close>

text \<open>
  Times are milliseconds since 1970 (UTC).  \<open>date_parse\<close> reads the date-time string format of
  ECMAScript, which is what the server sends: a date alone is UTC, a date with a time and no
  offset is local time, \<open>zone\<close> giving the offset of a local time.  Any other text is NaN, here
  \<open>None\<close>; browsers are free to accept more.
\<close>

definition days_from_civil :: "int \<Rightarrow> int \<Rightarrow> int \<Rightarrow> int" where
  "days_from_civil y m d =
     (let y' = (if m \<le> 2 then y - 1 else y);
          era = y' div 400;
          yoe = y' - era * 400;
          doy = (153 * (m + (if 2 < m then - 3 else 9)) + 2) div 5 + d - 1;
          doe = yoe * 365 + yoe div 4 - yoe div 100 + doy
      in era * 146097 + doe - 719468)"

definition leap_year :: "int \<Rightarrow> bool" where
  "leap_year y = (y mod 4 = 0 \<and> (y mod 100 \<noteq> 0 \<or> y mod 400 = 0))"

definition days_in_month :: "int \<Rightarrow> int \<Rightarrow> int" where
  "days_in_month y m =
     (if m = 2 then (if leap_year y then 29 else 28)
      else if m \<in> {4, 6, 9, 11} then 30 else 31)"

definition take_digits :: "nat \<Rightarrow> string \<Rightarrow> (int \<times> string) option" where
  "take_digits n s =
     (if length (take n s) = n \<and> list_all is_digit (take n s)
      then Some (int (digits_val (take n s)), drop n s) else None)"

text \<open>An optional part: a given character and then digits.\<close>

definition opt_part :: "char \<Rightarrow> nat \<Rightarrow> int \<Rightarrow> string \<Rightarrow> (int \<times> string) option" where
  "opt_part c n d s = (if s \<noteq> [] \<and> hd s = c then take_digits n (tl s) else Some (d, s))"

definition parse_day :: "string \<Rightarrow> (int \<times> string) option" where
  "parse_day s =
     Option.bind (take_digits 4 s) (\<lambda>(y, s1).
     Option.bind (opt_part (CHR ''-'') 2 1 s1) (\<lambda>(m, s2).
     Option.bind (if s1 = s2 then Some (1, s2) else opt_part (CHR ''-'') 2 1 s2) (\<lambda>(d, s3).
       if 1 \<le> m \<and> m \<le> 12 \<and> 1 \<le> d \<and> d \<le> days_in_month y m
       then Some (days_from_civil y m d, s3) else None)))"

definition parse_millis :: "string \<Rightarrow> (int \<times> string) option" where
  "parse_millis s =
     (if s \<noteq> [] \<and> hd s = CHR ''.'' then
        (let ds = takeWhile is_digit (tl s) in
         if ds = [] then None
         else Some (int (digits_val (take 3 (ds @ ''00''))), dropWhile is_digit (tl s)))
      else Some (0, s))"

definition parse_clock :: "string \<Rightarrow> (int \<times> string) option" where
  "parse_clock s =
     Option.bind (take_digits 2 s) (\<lambda>(h, s1).
     Option.bind (if s1 \<noteq> [] \<and> hd s1 = CHR '':'' then take_digits 2 (tl s1) else None) (\<lambda>(m, s2).
     Option.bind (opt_part (CHR '':'') 2 0 s2) (\<lambda>(sec, s3).
     Option.bind (if s2 = s3 then Some (0, s3) else parse_millis s3) (\<lambda>(ms, s4).
       if m < 60 \<and> sec < 60 \<and> (h < 24 \<or> (h = 24 \<and> m = 0 \<and> sec = 0 \<and> ms = 0))
       then Some (((h * 60 + m) * 60 + sec) * 1000 + ms, s4) else None))))"

text \<open>\<open>Z\<close> or an offset, in milliseconds; \<open>None\<close> inside when there is none.\<close>

definition parse_offset :: "string \<Rightarrow> (int option \<times> string) option" where
  "parse_offset s =
     (case s of
        [] \<Rightarrow> Some (None, [])
      | c # r \<Rightarrow>
          if c = CHR ''Z'' then Some (Some 0, r)
          else if c = CHR ''+'' \<or> c = CHR ''-'' then
            Option.bind (take_digits 2 r) (\<lambda>(h, r1).
            Option.bind (if r1 \<noteq> [] \<and> hd r1 = CHR '':'' then take_digits 2 (tl r1) else None) (\<lambda>(m, r2).
              if h < 24 \<and> m < 60
              then Some (Some ((if c = CHR ''-'' then - 1 else 1) * (h * 60 + m) * 60000), r2)
              else None))
          else None)"

definition date_parse :: "(int \<Rightarrow> int) \<Rightarrow> string \<Rightarrow> int option" where
  "date_parse zone s =
     Option.bind (parse_day s) (\<lambda>(day, s1).
       if s1 = [] then Some (day * 86400000)
       else if hd s1 \<noteq> CHR ''T'' then None
       else Option.bind (parse_clock (tl s1)) (\<lambda>(ms, s2).
            Option.bind (parse_offset s2) (\<lambda>(off, s3).
              if s3 \<noteq> [] then None
              else (let t = day * 86400000 + ms in
                    Some (t - (case off of Some z \<Rightarrow> z | None \<Rightarrow> zone t))))))"

text \<open>\<open>Date.parse(v)\<close> and \<open>new Date(v).getTime()\<close> of a value; a number is a time already for the
  second, a text for the first.\<close>

definition parse_of :: "(int \<Rightarrow> int) \<Rightarrow> json \<Rightarrow> int option" where
  "parse_of zone v = date_parse zone (js_string v)"

definition time_of :: "(int \<Rightarrow> int) \<Rightarrow> json \<Rightarrow> int option" where
  "time_of zone v =
     (case v of
        JStr s \<Rightarrow> date_parse zone s
      | JNum n \<Rightarrow> Some (if 0 \<le> n then \<lfloor>n\<rfloor> else \<lceil>n\<rceil>)
      | JNull \<Rightarrow> Some 0
      | JBool b \<Rightarrow> Some (if b then 1 else 0)
      | JUndef \<Rightarrow> None
      | _ \<Rightarrow> date_parse zone (js_string v))"

text \<open>\<open>new Date(ms).toISOString()\<close> for the years 0 to 9999.\<close>

definition civil_from_days :: "int \<Rightarrow> int \<times> int \<times> int" where
  "civil_from_days days =
     (let z = days + 719468;
          era = z div 146097;
          doe = z - era * 146097;
          yoe = (doe - doe div 1460 + doe div 36524 - doe div 146096) div 365;
          doy = doe - (365 * yoe + yoe div 4 - yoe div 100);
          mp = (5 * doy + 2) div 153;
          d = doy - (153 * mp + 2) div 5 + 1;
          m = (if mp < 10 then mp + 3 else mp - 9)
      in (yoe + era * 400 + (if m \<le> 2 then 1 else 0), m, d))"

definition padded :: "nat \<Rightarrow> int \<Rightarrow> string" where
  "padded n i = pad_left n (CHR ''0'') (show_int i)"

definition iso_of_ms :: "int \<Rightarrow> string" where
  "iso_of_ms t =
     (let (y, m, d) = civil_from_days (t div 86400000);
          ms = t mod 86400000; sec = ms div 1000
      in padded 4 y @ ''-'' @ padded 2 m @ ''-'' @ padded 2 d @ ''T'' @ padded 2 (sec div 3600) @ '':'' @
         padded 2 (sec div 60 mod 60) @ '':'' @ padded 2 (sec mod 60) @ ''.'' @ padded 3 (ms mod 1000) @ ''Z'')"

lemma date_parse_examples:
  "date_parse (\<lambda>_. 0) ''1970-01-01T00:00:01.5Z'' = Some 1500"
  "date_parse (\<lambda>_. 0) ''2024-02-29T12:30:00+01:00'' = Some 1709206200000"
  "date_parse (\<lambda>_. 0) ''2023-02-29'' = None"
  "date_parse (\<lambda>_. 0) ''soon'' = None"
  "iso_of_ms 1709206200250 = ''2024-02-29T11:30:00.250Z''"
  by code_simp+

end
