(* ===== verification/Sessions.thy ===== *)
theory Sessions
  imports Clock JsonText
begin

section \<open>Sessions: operators, time limits, durations (ui/sessions.js, layout/AppShell.jsx)\<close>

text \<open>
  A \<open>Map\<close> keyed by \<open>Number(id)\<close> is an association list in insertion order whose last entry
  wins; its keys compare by SameValueZero, so NaN, here \<open>None\<close>, is a key like another.
\<close>

definition map_last :: "'k \<Rightarrow> ('k \<times> json) list \<Rightarrow> json" where
  "map_last k kvs = (case map_of (rev kvs) k of Some v \<Rightarrow> v | None \<Rightarrow> JUndef)"

definition grant_by_id :: "json list \<Rightarrow> (rat option \<times> json) list" where
  "grant_by_id grants = map (\<lambda>g. (js_number (jget g ''id''), g)) grants"

text \<open>The creator an audit event names, when it is a readable session.create.\<close>

definition creator_entry :: "json \<Rightarrow> (rat option \<times> json) list" where
  "creator_entry item =
     (if jget item ''type'' \<noteq> JStr ''session.create'' \<or> \<not> truthy (jget item ''payloadIsJson'') then []
      else (case json_parse (text_or (jget item ''payloadRaw'') ''{}'') of
         None \<Rightarrow> []
       | Some payload \<Rightarrow>
           if nullish payload then []
           else (let i = number_or (jor (jget payload ''sessionId'') (jget payload ''id'')) 0 in
                 if i \<noteq> 0 \<and> truthy (jget item ''actor'') then [(Some i, jget item ''actor'')] else [])))"

definition creator_by_session :: "json list \<Rightarrow> (rat option \<times> json) list" where
  "creator_by_session items = concat (map creator_entry items)"

definition with_operator :: "json list \<Rightarrow> json list \<Rightarrow> json \<Rightarrow> json" where
  "with_operator grants items session =
     (let grant = jor (map_last (js_number (jget session ''accessGrantId'')) (grant_by_id grants)) JNull;
          creator = map_last (js_number (jget session ''id'')) (creator_by_session items)
      in set_prop (set_prop session ''grant'' grant) ''operator''
           (jor (jor (jor (jget session ''operator'') (jget grant ''subject'')) creator)
                (jget session ''user'')))"

definition withOperators :: "json list \<Rightarrow> json list \<Rightarrow> json list \<Rightarrow> json list" where
  "withOperators sessions grants items = map (with_operator grants items) sessions"

subsection \<open>Time-limited sessions\<close>

record privilege =
  pv_expires :: int
  pv_remaining :: int
  pv_ratio :: rat

definition trunc_rat :: "rat \<Rightarrow> int" where
  "trunc_rat r = (if 0 \<le> r then \<lfloor>r\<rfloor> else \<lceil>r\<rceil>)"

definition privilegeWindow :: "(int \<Rightarrow> int) \<Rightarrow> json \<Rightarrow> int \<Rightarrow> privilege option" where
  "privilegeWindow zone session now =
     (let seconds = number_or (jget session ''maxDurationSeconds'') 0 in
      case parse_of zone (jor (jget session ''createdAt'') (JStr [])) of
        None \<Rightarrow> None
      | Some start \<Rightarrow>
          if seconds \<le> 0 then None
          else (let total = seconds * 1000;
                    expires = trunc_rat (of_int start + total);
                    remaining = expires - now
                in Some \<lparr>pv_expires = expires, pv_remaining = remaining,
                         pv_ratio = of_int remaining / total\<rparr>))"

text \<open>\<open>usePrivileges\<close>: the signed-in user's active limited sessions, nearest expiry first.\<close>

definition own_active :: "json \<Rightarrow> json \<Rightarrow> bool" where
  "own_active username s =
     (jget s ''status'' = JStr ''active'' \<and>
      strict_eq (jor (jget s ''operator'') (jget s ''user'')) username)"

definition usePrivileges :: "(int \<Rightarrow> int) \<Rightarrow> int \<Rightarrow> json \<Rightarrow> json list \<Rightarrow> (json \<times> privilege) list" where
  "usePrivileges zone now username sessions =
     sort_by (\<lambda>a b. pv_remaining (snd a) < pv_remaining (snd b))
       (filter (\<lambda>p. 0 < pv_remaining (snd p))
         (List.map_filter (\<lambda>s. map_option (Pair s) (privilegeWindow zone s now))
           (filter (own_active username) sessions)))"

subsection \<open>Texts\<close>

definition initialsOf :: "json \<Rightarrow> string" where
  "initialsOf name =
     str_or (to_upper (take 2 (filter is_alnum (text_or name ''?'')))) ''?''"

definition pad2_nat :: "int \<Rightarrow> string" where
  "pad2_nat n = pad_left 2 (CHR ''0'') (show_int n)"

definition formatRemaining :: "int \<Rightarrow> string" where
  "formatRemaining ms =
     (let total = max 0 (ms div 60000); hours = total div 60; minutes = total mod 60 in
      if 0 < hours then show_int hours @ '' h '' @ pad2_nat minutes
      else show_int minutes @ '' min'')"

text \<open>\<open>None\<close> is an infinite or NaN duration; the dash is U+2014.\<close>

definition em_dash :: string where
  "em_dash = [CHR 0xE2, CHR 0x80, CHR 0x94]"

definition formatDuration :: "int option \<Rightarrow> bool \<Rightarrow> string" where
  "formatDuration dur french =
     (case dur of
        None \<Rightarrow> em_dash
      | Some ms \<Rightarrow>
          if ms < 0 then em_dash
          else (let total = ms div 60000; hours = total div 60 in
                if total < 60 then show_int (max 1 total) @ '' min''
                else if hours < 48 then show_int hours @ '' h '' @ pad2_nat (total mod 60)
                else show_int (hours div 24) @ '' '' @ (if french then ''j'' else ''d'')))"

subsection \<open>Properties\<close>

lemma jget_with_operator [simp]:
  "k \<noteq> ''grant'' \<Longrightarrow> k \<noteq> ''operator'' \<Longrightarrow> jget (with_operator grants items s) k = jget s k"
  by (simp add: with_operator_def Let_def)

text \<open>Resolving the operators keeps the sessions, their order and every field but the operator and
  the grant; an operator the server sent is never replaced, and otherwise the subject of the
  session's grant comes first.\<close>

theorem with_operators_faithful:
  assumes "k \<noteq> ''grant''" and "k \<noteq> ''operator''"
  shows "map (\<lambda>s. jget s k) (withOperators sessions grants items) = map (\<lambda>s. jget s k) sessions \<and>
         (truthy (jget s ''operator'') \<longrightarrow>
            jget (with_operator grants items s) ''operator'' = jget s ''operator'') \<and>
         (\<not> truthy (jget s ''operator'') \<longrightarrow>
            truthy (jget (jget (with_operator grants items s) ''grant'') ''subject'') \<longrightarrow>
            jget (with_operator grants items s) ''operator'' =
              jget (jget (with_operator grants items s) ''grant'') ''subject'')"
  using assms by (simp add: withOperators_def with_operator_def Let_def)

theorem with_operators_faithful_witness:
  "map (\<lambda>s. jget s ''id'') (withOperators [JObj [(''id'', JInt 4), (''user'', JStr ''root'')]] [] []) = [JInt 4]"
  using with_operators_faithful [of "''id''" "[JObj [(''id'', JInt 4), (''user'', JStr ''root'')]]" "[]" "[]"]
  by simp

lemma map_filter_set: "y \<in> set (List.map_filter f xs) \<longleftrightarrow> (\<exists>x \<in> set xs. f x = Some y)"
  by (induction xs) (auto simp: map_filter_simps split: option.split)

lemma sorted_sort_by: "sorted (map f (sort_by (\<lambda>a b. f a < f b) xs))"
  for f :: "'a \<Rightarrow> 'b::linorder"
proof -
  have "sorted_wrt (\<lambda>a b. \<not> f b < f a) (sort_by (\<lambda>a b. f a < f b) xs)"
    by (rule sort_by_ordered) auto
  then show ?thesis by (simp add: sorted_map not_less)
qed

lemma use_privileges_set:
  "x \<in> set (usePrivileges zone now username sessions) \<longleftrightarrow>
     fst x \<in> set sessions \<and> own_active username (fst x) \<and>
     privilegeWindow zone (fst x) now = Some (snd x) \<and> 0 < pv_remaining (snd x)"
  by (cases x) (auto simp: usePrivileges_def map_filter_set)

text \<open>The privileges shown are exactly the user's own active sessions whose limit is still ahead,
  in order of expiry.\<close>

theorem privileges_own_and_ordered:
  "set (usePrivileges zone now username sessions) =
     {(s, p). s \<in> set sessions \<and> own_active username s \<and> privilegeWindow zone s now = Some p \<and>
              now < pv_expires p} \<and>
   sorted (map (\<lambda>p. pv_remaining (snd p)) (usePrivileges zone now username sessions))"
proof
  have "pv_remaining p = pv_expires p - now" if "privilegeWindow zone s now = Some p" for s p
    using that by (auto simp: privilegeWindow_def Let_def split: option.splits if_splits)
  then show "set (usePrivileges zone now username sessions) =
     {(s, p). s \<in> set sessions \<and> own_active username s \<and> privilegeWindow zone s now = Some p \<and>
              now < pv_expires p}"
    using use_privileges_set [of _ zone now username sessions] by fastforce
next
  show "sorted (map (\<lambda>p. pv_remaining (snd p)) (usePrivileges zone now username sessions))"
    unfolding usePrivileges_def by (rule sorted_sort_by)
qed

end
