(* ===== verification/AccessPolicy.thy ===== *)
theory AccessPolicy
  imports Json
begin

section \<open>How the access rules of a resource are described (accessPolicy.js)\<close>

text \<open>
  The texts the map and the resource pages show for the rules of a resource.  A translation
  function takes a key and named parameters; \<open>fallbackTranslate\<close> is the English one of the
  source.  The keys the code asks for are names of its dictionary or start with map.risk, never
  a name inherited from Object.prototype.
\<close>

type_synonym translate = "string \<Rightarrow> (string \<times> json) list \<Rightarrow> string"

definition risk_levels :: "string list" where
  "risk_levels = [''low'', ''medium'', ''high'', ''critical'']"

definition normalizeRiskLevel :: "json \<Rightarrow> string" where
  "normalizeRiskLevel v =
     (let normalized = to_lower (text_or v ''low'')
      in if normalized \<in> set risk_levels then normalized else ''low'')"

definition param_text :: "(string \<times> json) list \<Rightarrow> string \<Rightarrow> string" where
  "param_text params k = js_string (case map_of params k of Some v \<Rightarrow> v | None \<Rightarrow> JUndef)"

definition fallbackTranslate :: translate where
  "fallbackTranslate key params =
     (case map_of
        [(''policy.risk'', ''Risk '' @ param_text params ''level''),
         (''policy.reasonRequired'', ''Reason required''),
         (''policy.dualApproval'', ''Dual approval''),
         (''policy.adaptiveControls'', ''Adaptive controls''),
         (''policy.sshGuard'', ''SSH guard''),
         (''policy.tunnelLimit'', ''Tunnel limit '' @ param_text params ''limit'' @ ''/min''),
         (''policy.mfaSensitive'', ''MFA-sensitive''),
         (''policy.requestApproval'', ''Request approval''),
         (''policy.connectNow'', ''Connect now''),
         (''policy.ticketOrPurposeLikely'', ''Ticket or purpose likely''),
         (''policy.purposeRequired'', ''Purpose required'')] key of
        Some text \<Rightarrow> str_or text key
      | None \<Rightarrow> key)"

definition elevated_risk :: "json \<Rightarrow> bool" where
  "elevated_risk resource =
     (normalizeRiskLevel (jget resource ''riskLevel'') = ''high'' \<or>
      normalizeRiskLevel (jget resource ''riskLevel'') = ''critical'')"

definition tunnel_limit :: "json \<Rightarrow> rat" where
  "tunnel_limit resource = max 0 (number_or (jget resource ''tunnelTicketRateLimitMaxAttempts'') 0)"

definition flag :: "json \<Rightarrow> string \<Rightarrow> bool" where
  "flag resource k = truthy (jget resource k)"

definition describeResourcePolicy :: "translate \<Rightarrow> json \<Rightarrow> string list" where
  "describeResourcePolicy translate resource =
     (let riskLevel = normalizeRiskLevel (jget resource ''riskLevel'');
          levelKey = ''map.risk.'' @ riskLevel;
          levelLabel = translate levelKey [];
          level = (if levelLabel \<noteq> [] \<and> levelLabel \<noteq> levelKey then levelLabel else riskLevel);
          protocol = to_lower (text_or (jget resource ''protocol'') [])
      in [translate ''policy.risk'' [(''level'', JStr level)]] @
         (if flag resource ''requireAccessJustification'' then [translate ''policy.reasonRequired'' []] else []) @
         (if flag resource ''requireDualApproval'' then [translate ''policy.dualApproval'' []] else []) @
         (if flag resource ''adaptiveAccessPolicy'' then [translate ''policy.adaptiveControls'' []] else []) @
         (if flag resource ''enableCommandGuard'' then [translate ''policy.sshGuard'' []] else []) @
         (if protocol \<in> {''agent'', ''rdp''} \<and> 0 < tunnel_limit resource
          then [translate ''policy.tunnelLimit'' [(''limit'', JNum (tunnel_limit resource))]] else []) @
         (if riskLevel = ''high'' \<or> riskLevel = ''critical'' then [translate ''policy.mfaSensitive'' []] else []))"

definition describeAccessOutcome :: "translate \<Rightarrow> json \<Rightarrow> string list" where
  "describeAccessOutcome translate resource =
     (if flag resource ''requireDualApproval'' then [translate ''policy.requestApproval'' []]
      else [translate ''policy.connectNow'' []]) @
     (if flag resource ''requireAccessJustification'' then [translate ''policy.reasonRequired'' []] else []) @
     (if flag resource ''adaptiveAccessPolicy'' \<and> elevated_risk resource
      then [translate ''policy.ticketOrPurposeLikely'' []]
      else if elevated_risk resource then [translate ''policy.purposeRequired'' []] else [])"

subsection \<open>The texts\<close>

lemma normalizeRiskLevel_range: "normalizeRiskLevel v \<in> set risk_levels"
  by (simp add: normalizeRiskLevel_def risk_levels_def Let_def)

lemma normalizeRiskLevel_fix [simp]: "l \<in> set risk_levels \<Longrightarrow> normalizeRiskLevel (JStr l) = l"
  by (auto simp: normalizeRiskLevel_def risk_levels_def to_lower_def lower_char_def is_upper_def code_def)

lemma fallback_texts [simp]:
  "fallbackTranslate ''policy.risk'' ps = ''Risk '' @ param_text ps ''level''"
  "fallbackTranslate ''policy.reasonRequired'' ps = ''Reason required''"
  "fallbackTranslate ''policy.dualApproval'' ps = ''Dual approval''"
  "fallbackTranslate ''policy.adaptiveControls'' ps = ''Adaptive controls''"
  "fallbackTranslate ''policy.sshGuard'' ps = ''SSH guard''"
  "fallbackTranslate ''policy.tunnelLimit'' ps = ''Tunnel limit '' @ param_text ps ''limit'' @ ''/min''"
  "fallbackTranslate ''policy.mfaSensitive'' ps = ''MFA-sensitive''"
  "fallbackTranslate ''policy.requestApproval'' ps = ''Request approval''"
  "fallbackTranslate ''policy.connectNow'' ps = ''Connect now''"
  "fallbackTranslate ''policy.ticketOrPurposeLikely'' ps = ''Ticket or purpose likely''"
  "fallbackTranslate ''policy.purposeRequired'' ps = ''Purpose required''"
  by (simp_all add: fallbackTranslate_def str_or_def)

lemma fallback_risk_key: "fallbackTranslate (''map.risk.'' @ l) ps = ''map.risk.'' @ l"
  by (simp add: fallbackTranslate_def)

lemma describe_fallback:
  "describeResourcePolicy fallbackTranslate resource =
     [''Risk '' @ normalizeRiskLevel (jget resource ''riskLevel'')] @
     (if flag resource ''requireAccessJustification'' then [''Reason required''] else []) @
     (if flag resource ''requireDualApproval'' then [''Dual approval''] else []) @
     (if flag resource ''adaptiveAccessPolicy'' then [''Adaptive controls''] else []) @
     (if flag resource ''enableCommandGuard'' then [''SSH guard''] else []) @
     (if to_lower (text_or (jget resource ''protocol'') []) \<in> {''agent'', ''rdp''} \<and> 0 < tunnel_limit resource
      then [''Tunnel limit '' @ show_rat (tunnel_limit resource) @ ''/min''] else []) @
     (if elevated_risk resource then [''MFA-sensitive''] else [])"
  by (simp add: describeResourcePolicy_def fallback_risk_key [simplified] param_text_def elevated_risk_def Let_def)

text \<open>The English description names a rule exactly when the resource has it: a reason, a
  second approval, adaptive controls, the command guard, and the MFA mark exactly at high or
  critical risk; the risk itself always comes first and is one of the four levels.\<close>

theorem policy_description_exact:
  "hd (describeResourcePolicy fallbackTranslate resource) \<in> {''Risk '' @ l |l. l \<in> set risk_levels} \<and>
   (''Reason required'' \<in> set (describeResourcePolicy fallbackTranslate resource)
      \<longleftrightarrow> truthy (jget resource ''requireAccessJustification'')) \<and>
   (''Dual approval'' \<in> set (describeResourcePolicy fallbackTranslate resource)
      \<longleftrightarrow> truthy (jget resource ''requireDualApproval'')) \<and>
   (''Adaptive controls'' \<in> set (describeResourcePolicy fallbackTranslate resource)
      \<longleftrightarrow> truthy (jget resource ''adaptiveAccessPolicy'')) \<and>
   (''SSH guard'' \<in> set (describeResourcePolicy fallbackTranslate resource)
      \<longleftrightarrow> truthy (jget resource ''enableCommandGuard'')) \<and>
   (''MFA-sensitive'' \<in> set (describeResourcePolicy fallbackTranslate resource)
      \<longleftrightarrow> elevated_risk resource)"
  unfolding describe_fallback flag_def
  using normalizeRiskLevel_range [of "jget resource ''riskLevel''"] by simp

end
