(* ===== verification/Gating.thy ===== *)
theory Gating
  imports AccessPolicy
begin

section \<open>Roles, capabilities, licence tiers and tabs (App.jsx, layout/AppShell.jsx)\<close>

text \<open>
  What the interface shows to whom: the role name, the capability test with its fallback for a
  session without a permission list, the licence gate of the premium parts, the tabs of the
  shell, the tab a path belongs to, and the sections of the administration page.
\<close>

subsection \<open>Roles and capabilities\<close>

definition normalizeRole :: "json \<Rightarrow> string" where
  "normalizeRole role =
     (let value = to_lower (text_or role []) in
      if value = ''platform_admin'' \<or> value = ''access_admin'' then ''admin''
      else if value = ''session_operator'' then ''operator''
      else if value = ''security_auditor'' \<or> value = ''security_analyst'' then ''auditor''
      else str_or value ''operator'')"

text \<open>\<open>None\<close>: no translation function was given.\<close>

definition roleLabel :: "json \<Rightarrow> (string \<Rightarrow> string) option \<Rightarrow> string" where
  "roleLabel role translate =
     (let mapped = normalizeRole role in
      case translate of
        None \<Rightarrow> mapped
      | Some t \<Rightarrow>
          (let key = ''roles.'' @ mapped @ ''.label''; label = t key
           in if label \<noteq> key then label else mapped))"

datatype capability = ManageResources | ViewAudit | ViewRecordings | OperateSessions | ViewStats

fun CAPABILITY_PERMISSION_MAP :: "capability \<Rightarrow> string list" where
  "CAPABILITY_PERMISSION_MAP ManageResources = [''resources.manage'']"
| "CAPABILITY_PERMISSION_MAP ViewAudit = [''audit.read'']"
| "CAPABILITY_PERMISSION_MAP ViewRecordings = [''recordings.read'']"
| "CAPABILITY_PERMISSION_MAP OperateSessions = [''sessions.create'', ''sessions.read'']"
| "CAPABILITY_PERMISSION_MAP ViewStats = [''stats.read'']"

definition hasRoleCapabilityFallback :: "json \<Rightarrow> capability \<Rightarrow> bool" where
  "hasRoleCapabilityFallback role c =
     (let mapped = normalizeRole role in
      if mapped = ''admin'' then True
      else if mapped = ''operator'' then c \<in> {OperateSessions, ViewStats}
      else if mapped = ''auditor'' then c \<in> {ViewAudit, ViewRecordings, ViewStats}
      else False)"

definition hasCapability :: "json \<Rightarrow> json \<Rightarrow> capability \<Rightarrow> bool" where
  "hasCapability role permissions c =
     (case permissions of
        JArr (p # ps) \<Rightarrow>
          list_ex (\<lambda>k. JStr k \<in> set (p # ps) \<or> JStr ''*'' \<in> set (p # ps))
            (CAPABILITY_PERMISSION_MAP c)
      | _ \<Rightarrow> hasRoleCapabilityFallback role c)"

subsection \<open>Licence tiers\<close>

definition tier_rank :: "string \<Rightarrow> nat" where
  "tier_rank tier = (if tier = ''pro'' then 1 else if tier = ''enterprise'' then 2 else 0)"

definition licenseValid :: "json \<Rightarrow> bool" where
  "licenseValid st = (jor (jget st ''state'') (JStr ''none'') = JStr ''valid'')"

definition activeTier :: "json \<Rightarrow> string" where
  "activeTier st = (if licenseValid st then text_or (jget st ''tier'') ''free'' else ''free'')"

definition premiumUnlocked :: "json \<Rightarrow> string \<Rightarrow> bool" where
  "premiumUnlocked st required =
     (jor (jget st ''edition'') (JStr ''community'') = JStr ''enterprise'' \<and>
      tier_rank required \<le> tier_rank (activeTier st))"

subsection \<open>Tabs\<close>

definition SHELL_TABS :: "(string \<times> string) list" where
  "SHELL_TABS =
     [(''carte'', ''/carte''), (''sessions'', ''/sessions''), (''demandes'', ''/demandes''),
      (''journal'', ''/journal''), (''rapports'', ''/rapports''), (''preuves'', ''/preuves''),
      (''zones'', ''/zones''), (''admin'', ''/admin'')]"

definition tabForPath :: "string \<Rightarrow> string option" where
  "tabForPath pathname =
     (let path = (if pathname = ''/'' then ''/carte'' else pathname) in
      map_option fst
        (find (\<lambda>(i, p). path = p \<or> starts_with path (p @ ''/'')) SHELL_TABS))"

record session_user =
  user_role :: json
  user_permissions :: json

definition can :: "session_user \<Rightarrow> capability \<Rightarrow> bool" where
  "can u c = hasCapability (user_role u) (user_permissions u) c"

definition visibleShellTabs :: "session_user \<Rightarrow> json \<Rightarrow> string list" where
  "visibleShellTabs u st =
     [''carte'', ''sessions''] @
     (if can u ManageResources \<or> premiumUnlocked st ''pro'' then [''demandes''] else []) @
     (if can u ViewAudit then [''journal''] else []) @
     (if can u ViewAudit then [''rapports''] else []) @
     (if can u ViewRecordings then [''preuves''] else []) @
     (if can u ManageResources then [''zones''] else []) @
     (if can u ManageResources then [''admin''] else [])"

subsection \<open>Administration sections\<close>

record admin_section =
  sec_id :: string
  sec_label :: string
  sec_hint :: string
  sec_tier :: "string option"
  sec_locked :: bool
  sec_badge :: string
  sec_tone :: string

definition padlock :: string where
  "padlock = [CHR 0xF0, CHR 0x9F, CHR 0x94, CHR 0x92]"

text \<open>What the sections are computed from: \<open>users_without_mfa\<close> is
  \<open>stats?.users?.adminsWithoutMfa || 0\<close>, \<open>pending\<close> the number of pending requests.\<close>

record admin_facts =
  users_without_mfa :: nat
  pending :: nat
  n_resources :: nat
  n_users :: nat
  n_grants :: nat
  loading_resources :: bool
  loading_users :: bool
  loading_grants :: bool
  french :: bool
  license_of :: json

definition core_section :: "string \<Rightarrow> string \<Rightarrow> string \<Rightarrow> string \<Rightarrow> string \<Rightarrow> admin_section" where
  "core_section i label hint badge tone =
     \<lparr>sec_id = i, sec_label = label, sec_hint = hint, sec_tier = None, sec_locked = False,
      sec_badge = badge, sec_tone = tone\<rparr>"

definition premium_section ::
    "json \<Rightarrow> string \<Rightarrow> string \<Rightarrow> string \<Rightarrow> string \<Rightarrow> string \<Rightarrow> string \<Rightarrow> admin_section" where
  "premium_section st i label hint tier badge tone =
     (let locked = \<not> premiumUnlocked st tier in
      \<lparr>sec_id = i, sec_label = label, sec_hint = hint, sec_tier = Some tier, sec_locked = locked,
       sec_badge = (if locked then padlock else badge),
       sec_tone = (if locked then ''locked'' else tone)\<rparr>)"

definition dot :: string where "dot = [CHR 0xC2, CHR 0xB7]"
definition e_acc :: string where "e_acc = [CHR 0xC3, CHR 0xA9]"

definition load_tone :: "bool \<Rightarrow> string" where
  "load_tone loading = (if loading then ''loading'' else ''ok'')"

definition adminSections :: "translate \<Rightarrow> admin_facts \<Rightarrow> admin_section list" where
  "adminSections t f =
     (let st = license_of f; fr = french f; tx = (\<lambda>k. t k []);
          count = (\<lambda>k n. t k [(''count'', JInt (int n))]) in
      [core_section ''resources'' (tx ''admin.resources'') (tx ''admin.inventoryAndPolicies'')
         (show_nat (n_resources f)) (load_tone (loading_resources f)),
       core_section ''users'' (tx ''admin.users'') (tx ''admin.accountsAndAccessScope'')
         (show_nat (n_users f)) (load_tone (loading_users f)),
       premium_section st ''routing'' (tx ''admin.routing'') (tx ''admin.relaysAndApprovals'') ''pro''
         (if 0 < pending f then count ''admin.pendingCount'' (pending f) else tx ''admin.healthy'')
         (if 0 < pending f then ''active'' else ''ok''),
       premium_section st ''jit'' ''JIT'' ''Policies, profiles and grants'' ''pro''
         (show_nat (n_grants f)) (load_tone (loading_grants f)),
       premium_section st ''enterprise'' ''Enterprise IAM'' ''LDAP/AD, SSO, SCIM, ITSM, SIEM'' ''enterprise''
         (''SSO'' @ dot @ ''LDAP'' @ dot @ ''SCIM'') ''ok'',
       premium_section st ''vault'' (if fr then ''Coffre-fort'' else ''Vault'')
         (if fr then ''Rotation + secrets dynamiques'' else ''Rotation + dynamic secrets'') ''enterprise''
         (if fr then ''Rotation'' @ dot @ [CHR 0xC3, CHR 0x89] @ ''ph'' @ e_acc @ ''m'' @ [CHR 0xC3, CHR 0xA8] @ ''re''
          else ''Rotation'' @ dot @ ''Ephemeral'') ''ok'',
       premium_section st ''itdr'' ''ITDR''
         (if fr then ''D'' @ e_acc @ ''tection menaces + r'' @ e_acc @ ''ponse'' else ''Threat detection + response'')
         ''enterprise''
         (if fr then ''D'' @ e_acc @ ''tection'' @ dot @ ''R'' @ e_acc @ ''ponse'' else ''Detect'' @ dot @ ''Respond'') ''ok'',
       premium_section st ''k8s'' ''Kubernetes'' (if fr then ''Exec shell dans les pods'' else ''Pod exec shell'')
         ''pro'' ''kubectl exec'' ''ok'',
       premium_section st ''appearance'' (tx ''adminE.nav.appearance'') (tx ''appearance.hint'') ''pro'' [] ''ok'',
       core_section ''security'' (tx ''admin.security'') (tx ''admin.mfaAndPosture'')
         (if 0 < users_without_mfa f then count ''admin.riskCount'' (users_without_mfa f)
          else tx ''admin.healthy'')
         (if 0 < users_without_mfa f then ''loading'' else ''ok''),
       core_section ''license'' (if fr then ''Licence'' else ''License'')
         (if fr then ''Statut, expiration, upload'' else ''Status, expiry, upload'')
         (if truthy (jget st ''tier'') \<and> jget st ''state'' = JStr ''valid'' then js_string (jget st ''tier'')
          else text_or (jget st ''state'') ''none'')
         (if jget st ''state'' = JStr ''valid'' then ''ok''
          else if jget st ''state'' = JStr ''expired'' \<or> jget st ''state'' = JStr ''revoked'' then ''locked''
          else ''loading'')])"

record nav_section =
  nav_id :: string
  nav_label :: string
  nav_locked :: bool
  nav_count :: "nat option"
  nav_alert :: "string option"

definition nav_order :: "string list" where
  "nav_order = [''resources'', ''users'', ''jit'', ''routing'', ''vault'', ''security'', ''itdr'',
     ''enterprise'', ''k8s'', ''appearance'', ''license'']"

definition adminNavSections :: "translate \<Rightarrow> admin_facts \<Rightarrow> nav_section list" where
  "adminNavSections t f =
     map (\<lambda>s. \<lparr>nav_id = sec_id s, nav_label = t (''adminE.nav.'' @ sec_id s) [],
               nav_locked = sec_locked s,
               nav_count = (if sec_id s = ''resources'' then Some (n_resources f)
                            else if sec_id s = ''users'' then Some (n_users f) else None),
               nav_alert = (if sec_id s = ''security'' \<and> 0 < users_without_mfa f
                            then Some (show_nat (users_without_mfa f)) else None)\<rparr>)
       (List.map_filter (\<lambda>i. find (\<lambda>s. sec_id s = i) (adminSections t f)) nav_order)"
subsection \<open>Properties\<close>

lemma normalizeRole_JStr:
  "normalizeRole (JStr s) =
     (let value = to_lower s in
      if value = ''platform_admin'' \<or> value = ''access_admin'' then ''admin''
      else if value = ''session_operator'' then ''operator''
      else if value = ''security_auditor'' \<or> value = ''security_analyst'' then ''auditor''
      else str_or value ''operator'')"
  by (cases s) (simp_all add: normalizeRole_def to_lower_def)

lemma to_lower_text_or: "to_lower (to_lower (text_or role d)) = to_lower (text_or role d)"
  by simp

lemma lower_ascii [simp]:
  "to_lower ''admin'' = ''admin''" "to_lower ''operator'' = ''operator''" "to_lower ''auditor'' = ''auditor''"
  by (simp_all add: to_lower_def lower_char_def is_upper_def code_def)

lemma normalizeRole_cases:
  "normalizeRole role \<in> {''admin'', ''operator'', ''auditor''} \<or>
   (normalizeRole role = to_lower (text_or role []) \<and> normalizeRole role \<noteq> [] \<and>
    to_lower (text_or role []) \<notin> {''platform_admin'', ''access_admin'', ''session_operator'',
      ''security_auditor'', ''security_analyst''})"
  by (simp add: normalizeRole_def Let_def str_or_def)

lemma normalizeRole_twice: "normalizeRole (JStr (normalizeRole role)) = normalizeRole role"
  using normalizeRole_cases [of role]
  by (auto simp: normalizeRole_JStr Let_def str_or_def)

text \<open>Normalising a role twice is normalising it once, and the server's role names all land
  on admin, operator or auditor.\<close>

theorem normalizeRole_idem:
  "normalizeRole (JStr (normalizeRole role)) = normalizeRole role \<and>
   normalizeRole JUndef = ''operator''"
  using normalizeRole_twice by (simp add: normalizeRole_def to_lower_def str_or_def)

lemma hasCapability_list:
  "ps \<noteq> [] \<Longrightarrow> hasCapability role (JArr ps) c \<longleftrightarrow>
     JStr ''*'' \<in> set ps \<or> (\<exists>k \<in> set (CAPABILITY_PERMISSION_MAP c). JStr k \<in> set ps)"
  by (cases ps; cases c) (auto simp: hasCapability_def)

lemma can_mono:
  assumes "user_permissions u = JArr ps" and "user_permissions v = JArr qs"
    and "ps \<noteq> []" and "set ps \<subseteq> set qs" and "can u c"
  shows "can v c"
proof -
  have "qs \<noteq> []" using assms by auto
  with assms show ?thesis by (auto simp: can_def hasCapability_list)
qed

lemma set_if_mono: "P \<longrightarrow> Q \<Longrightarrow> set (if P then xs else []) \<subseteq> set (if Q then xs else [])"
  by auto

text \<open>More permissions never hide a tab: for two users with explicit permission lists, one
  contained in the other, every tab the first sees the second sees too, under the same
  licence.\<close>

theorem more_permissions_more_tabs:
  assumes "user_permissions u = JArr ps" and "user_permissions v = JArr qs"
    and "ps \<noteq> []" and "set ps \<subseteq> set qs"
  shows "set (visibleShellTabs u st) \<subseteq> set (visibleShellTabs v st)"
proof -
  have m: "can u c \<longrightarrow> can v c" for c
    using can_mono [OF assms] by blast
  show ?thesis
    unfolding visibleShellTabs_def set_append
    by (intro Un_mono set_if_mono order_refl) (use m in blast)+
qed

theorem more_permissions_more_tabs_witness:
  "set (visibleShellTabs \<lparr>user_role = JStr ''auditor'', user_permissions = JArr [JStr ''audit.read'']\<rparr> JNull)
   \<subseteq> set (visibleShellTabs \<lparr>user_role = JStr ''auditor'',
        user_permissions = JArr [JStr ''stats.read'', JStr ''audit.read'']\<rparr> JNull)"
  by (rule more_permissions_more_tabs [of _ "[JStr ''audit.read'']" _ "[JStr ''stats.read'', JStr ''audit.read'']"])
    simp_all

lemma premium_valid:
  "premiumUnlocked st tier \<Longrightarrow> tier_rank tier \<noteq> 0 \<Longrightarrow> licenseValid st \<and> jget st ''edition'' = JStr ''enterprise''"
  by (auto simp: premiumUnlocked_def activeTier_def tier_rank_def jor_def split: if_splits)

lemma premium_order: "premiumUnlocked st ''enterprise'' \<Longrightarrow> premiumUnlocked st ''pro''"
  by (simp add: premiumUnlocked_def tier_rank_def)

definition section_tier :: "string \<Rightarrow> string option" where
  "section_tier i =
     (if i \<in> {''jit'', ''routing'', ''k8s'', ''appearance''} then Some ''pro''
      else if i \<in> {''vault'', ''itdr'', ''enterprise''} then Some ''enterprise'' else None)"

lemmas section_defs = adminSections_def core_section_def premium_section_def Let_def

lemma nav_sections:
  "map (\<lambda>s. (nav_id s, nav_locked s)) (adminNavSections t f) =
     map (\<lambda>i. (i, case section_tier i of None \<Rightarrow> False
                   | Some tier \<Rightarrow> \<not> premiumUnlocked (license_of f) tier)) nav_order"
  by (simp add: adminNavSections_def nav_order_def List.map_filter_def section_tier_def section_defs)

text \<open>The administration menu always lists its eleven sections in the same order; a section is
  locked exactly when it belongs to a tier the licence does not unlock, so the core sections never
  are, and something is locked exactly when the licence does not unlock the enterprise tier.\<close>

theorem admin_menu_locks:
  "map nav_id (adminNavSections t f) = nav_order \<and>
   map nav_locked (adminNavSections t f) =
     map (\<lambda>i. case section_tier i of None \<Rightarrow> False
              | Some tier \<Rightarrow> \<not> premiumUnlocked (license_of f) tier) nav_order \<and>
   (list_ex nav_locked (adminNavSections t f) \<longleftrightarrow> \<not> premiumUnlocked (license_of f) ''enterprise'')"
proof -
  have ids: "map nav_id (adminNavSections t f) = nav_order"
    using arg_cong [OF nav_sections, of "map fst" t f] by (simp add: comp_def)
  have locks: "map nav_locked (adminNavSections t f) =
     map (\<lambda>i. case section_tier i of None \<Rightarrow> False
              | Some tier \<Rightarrow> \<not> premiumUnlocked (license_of f) tier) nav_order"
    using arg_cong [OF nav_sections, of "map snd" t f] by (simp add: comp_def)
  have "list_ex nav_locked (adminNavSections t f) = list_ex id (map nav_locked (adminNavSections t f))"
    by (induction "adminNavSections t f") (auto simp: list_ex_iff)
  also have "\<dots> \<longleftrightarrow> \<not> premiumUnlocked (license_of f) ''enterprise'' \<or> \<not> premiumUnlocked (license_of f) ''pro''"
    unfolding locks by (auto simp: nav_order_def section_tier_def)
  finally show ?thesis
    using ids locks premium_order by blast
qed

lemma find_unique:
  assumes "\<And>t u. t \<in> set xs \<Longrightarrow> u \<in> set xs \<Longrightarrow> P t \<Longrightarrow> P u \<Longrightarrow> t = u"
  shows "find P xs = Some t \<longleftrightarrow> t \<in> set xs \<and> P t"
proof
  assume "find P xs = Some t"
  then show "t \<in> set xs \<and> P t" by (auto simp: find_Some_iff)
next
  assume t: "t \<in> set xs \<and> P t"
  then obtain u where u: "find P xs = Some u" by (cases "find P xs") (auto simp: find_None_iff)
  then have "u \<in> set xs \<and> P u" by (auto simp: find_Some_iff)
  with t u assms show "find P xs = Some t" by blast
qed

definition below :: "string \<Rightarrow> string \<Rightarrow> bool" where
  "below q path = (q = path \<or> starts_with q (path @ ''/''))"

lemma shell_tab_paths:
  "list_all (\<lambda>(i, path). path = CHR ''/'' # tl path \<and> CHR ''/'' \<notin> set (tl path)) SHELL_TABS"
  by (simp add: SHELL_TABS_def)

lemma shell_tab_distinct: "distinct (map snd SHELL_TABS)"
  by (simp add: SHELL_TABS_def)

lemma below_path:
  assumes "below q path" and "path = CHR ''/'' # tl path" and "CHR ''/'' \<notin> set (tl path)"
  shows "path = CHR ''/'' # takeWhile (\<lambda>c. c \<noteq> CHR ''/'') (tl q)"
proof -
  have w: "takeWhile (\<lambda>c. c \<noteq> CHR ''/'') (tl path) = tl path"
    using assms(3) by (auto simp: takeWhile_eq_all_conv)
  have w': "takeWhile (\<lambda>c. c \<noteq> CHR ''/'') (tl path @ CHR ''/'' # r) = tl path" for r
    using assms(3) by (subst takeWhile_append2) auto
  show ?thesis
    using assms(1,2) w w' unfolding below_def starts_with_iff
    by (metis append.assoc append_Cons append_Nil list.sel(3))
qed

lemma below_unique:
  assumes "t \<in> set SHELL_TABS" and "u \<in> set SHELL_TABS" and "below q (snd t)" and "below q (snd u)"
  shows "t = u"
proof -
  have "snd v = CHR ''/'' # takeWhile (\<lambda>c. c \<noteq> CHR ''/'') (tl q)"
    if "v \<in> set SHELL_TABS" "below q (snd v)" for v
    using below_path [of q "snd v"] shell_tab_paths that by (cases v) (fastforce simp: list_all_iff)
  then have "snd t = snd u" using assms by metis
  then show ?thesis
    using shell_tab_distinct assms(1,2) by (auto simp: distinct_map inj_on_def)
qed

lemma tab_for_path_find:
  "tabForPath p = map_option fst (find (\<lambda>t. below (if p = ''/'' then ''/carte'' else p) (snd t)) SHELL_TABS)"
  by (simp add: tabForPath_def below_def Let_def case_prod_beta')

text \<open>A path opens a tab exactly when it is the tab's own path or lies below it; the root opens
  the map.\<close>

theorem tab_for_path_iff:
  "tabForPath p = Some i \<longleftrightarrow>
     (\<exists>path. (i, path) \<in> set SHELL_TABS \<and>
        (below p path \<or> (p = ''/'' \<and> i = ''carte'')))"
proof -
  have f: "find (\<lambda>t. below q (snd t)) SHELL_TABS = Some t \<longleftrightarrow> t \<in> set SHELL_TABS \<and> below q (snd t)" for q t
    by (rule find_unique) (rule below_unique)
  have root: "tabForPath ''/'' = Some ''carte''"
    by (simp add: tabForPath_def SHELL_TABS_def)
  have noroot: "\<not> below ''/'' path" if "(i, path) \<in> set SHELL_TABS" for i path
    using that by (auto simp: SHELL_TABS_def below_def starts_with_def)
  show ?thesis
  proof (cases "p = ''/''")
    case True
    have "\<exists>path. (''carte'', path) \<in> set SHELL_TABS" by (auto simp: SHELL_TABS_def)
    with True root noroot show ?thesis by auto
  next
    case False
    then show ?thesis
      by (auto simp: tab_for_path_find f)
  qed
qed
end
