(* ===== verification/Passkeys.thy ===== *)
theory Passkeys
  imports "HOL-Library.Word" ApiSafety
begin

section \<open>Passkeys: base64url and the WebAuthn exchanges (App.jsx, lines 150 to 250)\<close>

text \<open>
  Byte arrays are lists of 8-bit words; a binary string of \<open>btoa\<close> and \<open>atob\<close> is the list
  of its character codes.  The browser's credential is a record of what the code reads from it.
\<close>

type_synonym bytes = "8 word list"

subsection \<open>\<open>btoa\<close> and \<open>atob\<close>\<close>

definition b64_alphabet :: string where
  "b64_alphabet = ''ABCDEFGHIJKLMNOPQRSTUVWXYZabcdefghijklmnopqrstuvwxyz0123456789+/''"

definition b64_char :: "nat \<Rightarrow> char" where
  "b64_char n =
     char_of (if n < 26 then 65 + n else if n < 52 then 71 + n else if n < 62 then n - 4
              else if n = 62 then 43 else 47)"

definition b64_val :: "char \<Rightarrow> nat option" where
  "b64_val c =
     (let n = code c in
      if 65 \<le> n \<and> n \<le> 90 then Some (n - 65)
      else if 97 \<le> n \<and> n \<le> 122 then Some (n - 71)
      else if 48 \<le> n \<and> n \<le> 57 then Some (n + 4)
      else if n = 43 then Some 62 else if n = 47 then Some 63 else None)"

fun sextets :: "nat list \<Rightarrow> nat list" where
  "sextets (a # b # c # r) =
     (a div 4) # ((a mod 4) * 16 + b div 16) # ((b mod 16) * 4 + c div 64) # (c mod 64) # sextets r"
| "sextets [a, b] = [a div 4, (a mod 4) * 16 + b div 16, (b mod 16) * 4]"
| "sextets [a] = [a div 4, (a mod 4) * 16]"
| "sextets [] = []"

text \<open>Remaining bits that do not make a byte are dropped.\<close>

fun octets :: "nat list \<Rightarrow> nat list" where
  "octets (w # x # y # z # r) =
     ((w * 4 + x div 16) mod 256) # (((x mod 16) * 16 + y div 4) mod 256) # (((y mod 4) * 64 + z) mod 256) # octets r"
| "octets [w, x, y] = [(w * 4 + x div 16) mod 256, ((x mod 16) * 16 + y div 4) mod 256]"
| "octets [w, x] = [(w * 4 + x div 16) mod 256]"
| "octets [w] = []"
| "octets [] = []"

definition btoa :: "bytes \<Rightarrow> string" where
  "btoa bs =
     map b64_char (sextets (map unat bs)) @
     replicate ((3 - length bs mod 3) mod 3) (CHR ''='')"

definition atob_ws :: "char \<Rightarrow> bool" where
  "atob_ws c = (code c = 32 \<or> code c = 9 \<or> code c = 10 \<or> code c = 12 \<or> code c = 13)"

definition drop_padding :: "string \<Rightarrow> string" where
  "drop_padding s =
     (if length s mod 4 = 0 then
        (let s1 = (if s \<noteq> [] \<and> last s = CHR ''='' then butlast s else s)
         in if s1 \<noteq> s \<and> s1 \<noteq> [] \<and> last s1 = CHR ''='' then butlast s1 else s1)
      else s)"

text \<open>\<open>None\<close> is the exception for a character outside the alphabet or a bad length.\<close>

definition atob :: "string \<Rightarrow> bytes option" where
  "atob s =
     (let t = drop_padding (filter (\<lambda>c. \<not> atob_ws c) s) in
      if length t mod 4 = 1 then None
      else map_option (\<lambda>vs. map of_nat (octets vs)) (all_some (map b64_val t)))"

subsection \<open>The URL-safe form\<close>

definition decodeBase64Url :: "json \<Rightarrow> bytes option" where
  "decodeBase64Url v =
     (let normalized = replace_char (CHR ''_'') (CHR ''/'') (replace_char (CHR ''-'') (CHR ''+'') (text_or v []));
          r = length normalized mod 4;
          padded = normalized @ replicate ((4 - (if r = 0 then 4 else r)) mod 4) (CHR ''='')
      in atob padded)"

definition strip_padding :: "string \<Rightarrow> string" where
  "strip_padding s = rev (dropWhile (\<lambda>c. c = CHR ''='') (rev s))"

definition encodeBase64Url :: "bytes \<Rightarrow> string" where
  "encodeBase64Url bs =
     strip_padding (replace_char (CHR ''/'') (CHR ''_'') (replace_char (CHR ''+'') (CHR ''-'') (btoa bs)))"

subsection \<open>Round trip\<close>

lemma b64_val_char: "n < 64 \<Longrightarrow> b64_val (b64_char n) = Some n"
  by (auto simp: b64_val_def b64_char_def code_char_of Let_def)

lemma sextets_range: "\<forall>a \<in> set as. a < 256 \<Longrightarrow> \<forall>v \<in> set (sextets as). v < 64"
  by (induction as rule: sextets.induct) auto

lemma octets_sextets: "\<forall>a \<in> set as. a < 256 \<Longrightarrow> octets (sextets as) = as"
  by (induction as rule: sextets.induct) auto

lemma length_sextets: "length (sextets as) = (4 * length as + 2) div 3"
  by (induction as rule: sextets.induct) auto

lemma all_some_map: "(\<And>v. v \<in> set vs \<Longrightarrow> f (g v) = Some v) \<Longrightarrow> all_some (map f (map g vs)) = Some vs"
  by (induction vs) auto

lemma unat_bytes: "\<forall>a \<in> set (map unat (bs :: bytes)). a < 256"
proof -
  have "unat w < 2 ^ 8" for w :: "8 word"
    using unsigned_less [of w] by simp
  then show ?thesis by simp
qed

lemma of_nat_unat_bytes: "map (of_nat \<circ> unat) (bs :: bytes) = bs"
  by (induction bs) auto

definition url_char :: "char \<Rightarrow> char" where
  "url_char c = (if c = CHR ''+'' then CHR ''-'' else if c = CHR ''/'' then CHR ''_'' else c)"

lemma code_b64_char: "n < 64 \<Longrightarrow> code (b64_char n) =
    (if n < 26 then 65 + n else if n < 52 then 71 + n else if n < 62 then n - 4
     else if n = 62 then 43 else 47)"
  by (simp add: b64_char_def code_char_of)

lemma code_ascii:
  "code (CHR ''='') = 61" "code (CHR ''+'') = 43" "code (CHR ''/'') = 47"
  "code (CHR ''-'') = 45" "code (CHR ''_'') = 95"
  by (simp_all add: code_def)

lemma b64_code_other: "n < 64 \<Longrightarrow> code (b64_char n) \<notin> {61, 45, 95, 32, 9, 10, 12, 13}"
  by (auto simp: code_b64_char)

lemma b64_char_not:
  assumes "n < 64"
  shows "b64_char n \<noteq> CHR ''=''" and "b64_char n \<noteq> CHR ''-''" and "b64_char n \<noteq> CHR ''_''"
    and "\<not> atob_ws (b64_char n)"
  using b64_code_other [OF assms] code_ascii by (auto simp: atob_ws_def)

definition back_char :: "char \<Rightarrow> char" where
  "back_char c = (if c = CHR ''_'' then CHR ''/'' else if c = CHR ''-'' then CHR ''+'' else c)"

lemma back_url_char: "n < 64 \<Longrightarrow> back_char (url_char (b64_char n)) = b64_char n"
  using b64_char_not [of n] by (auto simp: back_char_def url_char_def)

lemma replace_back: "replace_char (CHR ''_'') (CHR ''/'') (replace_char (CHR ''-'') (CHR ''+'') s) = map back_char s"
  by (simp add: replace_char_def back_char_def)

lemma replace_url: "replace_char (CHR ''/'') (CHR ''_'') (replace_char (CHR ''+'') (CHR ''-'') s) = map url_char s"
  by (auto simp: replace_char_def url_char_def)

lemma encode_eq:
  "encodeBase64Url bs = map (url_char \<circ> b64_char) (sextets (map unat bs))"
proof -
  let ?v = "sextets (map unat bs)"
  have ne: "url_char (b64_char v) \<noteq> CHR ''=''" if "v \<in> set ?v" for v
    using b64_char_not [of v] sextets_range [OF unat_bytes [of bs]] that by (auto simp: url_char_def)
  have "strip_padding (map (url_char \<circ> b64_char) ?v @ replicate k (CHR ''='')) = map (url_char \<circ> b64_char) ?v" for k
  proof -
    have "dropWhile (\<lambda>c. c = CHR ''='') (rev (map (url_char \<circ> b64_char) ?v)) = rev (map (url_char \<circ> b64_char) ?v)"
      using ne by (auto simp: dropWhile_eq_self_iff hd_rev last_map)
    then show ?thesis
      by (simp add: strip_padding_def dropWhile_append)
  qed
  then show ?thesis
    by (simp add: encodeBase64Url_def replace_url btoa_def url_char_def)
qed

lemma drop_padding_replicate:
  assumes "\<forall>c \<in> set t. c \<noteq> CHR ''=''" and "k \<le> 2" and "(length t + k) mod 4 = 0"
  shows "drop_padding (t @ replicate k (CHR ''='')) = t"
proof -
  have l: "t \<noteq> [] \<Longrightarrow> last t \<noteq> CHR ''=''" using assms(1) by auto
  consider "k = 0" | "k = 1" | "k = 2" using assms(2) by linarith
  then show ?thesis
  proof cases
    case 1
    then show ?thesis using assms(3) l by (auto simp: drop_padding_def Let_def)
  next
    case 2
    then show ?thesis using assms(3) l by (auto simp: drop_padding_def Let_def butlast_append)
  next
    case 3
    then have "replicate k (CHR ''='') = [CHR ''='', CHR ''='']" by (simp add: numeral_2_eq_2)
    then show ?thesis using assms(3) 3 l by (auto simp: drop_padding_def Let_def butlast_append)
  qed
qed

lemma pad_count:
  assumes "n mod 4 \<noteq> (1::nat)"
  shows "(4 - (if n mod 4 = 0 then 4 else n mod 4)) mod 4 \<le> 2"
    and "(n + (4 - (if n mod 4 = 0 then 4 else n mod 4)) mod 4) mod 4 = 0"
proof -
  have "n mod 4 < 4" by simp
  with assms consider "n mod 4 = 0" | "n mod 4 = 2" | "n mod 4 = 3" by linarith
  then show "(4 - (if n mod 4 = 0 then 4 else n mod 4)) mod 4 \<le> 2"
    and "(n + (4 - (if n mod 4 = 0 then 4 else n mod 4)) mod 4) mod 4 = 0"
    by (cases; simp; presburger)+
qed

lemma sextets_length_mod: "length (sextets as) mod 4 \<noteq> 1"
  by (induction as rule: sextets.induct) auto

lemma text_or_self: "text_or (JStr s) [] = s"
  by simp

lemma char_plus: "char_of (43 :: nat) = CHR ''+''"
  by (metis char_of_code code_ascii(2))

lemma char_slash: "char_of (47 :: nat) = CHR ''/''"
  by (metis char_of_code code_ascii(3))

lemma atob_printed:
  assumes r: "\<forall>v \<in> set vs. v < 64" and m: "length vs mod 4 \<noteq> 1"
    and k: "k \<le> 2" "(length vs + k) mod 4 = 0"
  shows "atob (map b64_char vs @ replicate k (CHR ''='')) = Some (map of_nat (octets vs))"
proof -
  have "filter (\<lambda>c. \<not> atob_ws c) (map b64_char vs @ replicate k (CHR ''='')) =
        map b64_char vs @ replicate k (CHR ''='')"
    by (rule filter_True) (use r b64_char_not in \<open>auto simp: atob_ws_def code_ascii\<close>)
  moreover have "drop_padding (map b64_char vs @ replicate k (CHR ''='')) = map b64_char vs"
    using r k b64_char_not by (intro drop_padding_replicate) auto
  moreover have "all_some (map b64_val (map b64_char vs)) = Some vs"
    using r b64_val_char by (intro all_some_map) auto
  ultimately show ?thesis
    using m by (simp add: atob_def del: map_map)
qed

lemma url_b64_unreserved: "v < 64 \<Longrightarrow> uri_unreserved (url_char (b64_char v))"
  by (auto simp: url_char_def uri_unreserved_def is_alnum_def is_digit_def is_upper_def is_lower_def
      code_b64_char code_ascii) (auto simp: b64_char_def char_plus char_slash split: if_splits)

lemma encode_unreserved: "\<forall>c \<in> set s. uri_unreserved c \<Longrightarrow> encodeURIComponent s = s"
  by (induction s) (auto simp: encodeURIComponent_def)

lemma base64_decode_encode: "decodeBase64Url (JStr (encodeBase64Url bs)) = Some bs"
proof -
  let ?v = "sextets (map unat bs)"
  let ?t = "map b64_char ?v"
  let ?k = "(4 - (if length ?t mod 4 = 0 then 4 else length ?t mod 4)) mod 4"
  have r: "\<forall>v \<in> set ?v. v < 64" using sextets_range unat_bytes .
  have bk: "map back_char (encodeBase64Url bs) = ?t"
    using r back_url_char by (auto simp: encode_eq)
  have m: "length ?t mod 4 \<noteq> 1" using sextets_length_mod by simp
  have "atob (?t @ replicate ?k (CHR ''='')) = Some (map of_nat (octets ?v))"
    using r m pad_count [OF m] by (intro atob_printed) simp_all
  then have "atob (?t @ replicate ?k (CHR ''='')) = Some bs"
    by (simp add: octets_sextets unat_bytes of_nat_unat_bytes del: length_map)
  then show ?thesis
    by (simp only: decodeBase64Url_def replace_back text_or_self bk Let_def)
qed

lemma base64_url_safe: "encodeURIComponent (encodeBase64Url bs) = encodeBase64Url bs"
proof -
  have "\<forall>v \<in> set (sextets (map unat bs)). v < 64" using sextets_range unat_bytes .
  then have "\<forall>c \<in> set (encodeBase64Url bs). uri_unreserved c"
    using url_b64_unreserved by (auto simp: encode_eq)
  then show ?thesis
    by (rule encode_unreserved)
qed

text \<open>The bytes of a WebAuthn exchange survive the base64url text form, whatever they are, and
  the text needs no percent encoding.\<close>

theorem base64url_roundtrip:
  "decodeBase64Url (JStr (encodeBase64Url bs)) = Some bs \<and>
   encodeURIComponent (encodeBase64Url bs) = encodeBase64Url bs"
  using base64_decode_encode base64_url_safe by blast

subsection \<open>Creating a passkey and answering a challenge\<close>

text \<open>
  What is handed to \<open>navigator.credentials\<close>: the options as received with the binary fields
  decoded.  \<open>browser_error\<close> stands for the exception \<open>atob\<close> throws.
\<close>

definition browser_error :: js_error where
  "browser_error = PlainError ''InvalidCharacterError''"

definition decode_field :: "json \<Rightarrow> string \<Rightarrow> js_error + bytes" where
  "decode_field v k =
     (case jread v k of
        None \<Rightarrow> Inl TypeError
      | Some x \<Rightarrow> (case decodeBase64Url x of None \<Rightarrow> Inl browser_error | Some b \<Rightarrow> Inr b))"

fun decode_ids :: "json list \<Rightarrow> js_error + bytes list" where
  "decode_ids [] = Inr []"
| "decode_ids (v # vs) =
     (case decode_field v ''id'' of
        Inl e \<Rightarrow> Inl e
      | Inr b \<Rightarrow> (case decode_ids vs of Inl e \<Rightarrow> Inl e | Inr bs \<Rightarrow> Inr (b # bs)))"

text \<open>\<open>(x || []).map(..)\<close>: a truthy value that is not an array has no \<open>map\<close>.\<close>

definition decode_id_list :: "json \<Rightarrow> js_error + bytes list" where
  "decode_id_list v =
     (if \<not> truthy v then Inr []
      else case v of JArr xs \<Rightarrow> decode_ids xs | _ \<Rightarrow> Inl TypeError)"

record creation_request =
  cr_options :: json
  cr_challenge :: bytes
  cr_user_id :: bytes
  cr_exclude :: "bytes list"

record assertion_request =
  ar_options :: json
  ar_challenge :: bytes
  ar_allow :: "bytes list"

text \<open>Fields are evaluated in the order of the object literal.\<close>

definition creation_options :: "json \<Rightarrow> js_error + creation_request" where
  "creation_options options =
     (case jread options ''publicKey'' of
        None \<Rightarrow> Inl TypeError
      | Some pk \<Rightarrow>
          (case decode_field pk ''challenge'' of
             Inl e \<Rightarrow> Inl e
           | Inr ch \<Rightarrow>
               (case decode_field (jget pk ''user'') ''id'' of
                  Inl e \<Rightarrow> Inl e
                | Inr uid \<Rightarrow>
                    (case decode_id_list (jget pk ''excludeCredentials'') of
                       Inl e \<Rightarrow> Inl e
                     | Inr ex \<Rightarrow>
                         Inr \<lparr>cr_options = pk, cr_challenge = ch, cr_user_id = uid, cr_exclude = ex\<rparr>))))"

definition assertion_options :: "json \<Rightarrow> js_error + assertion_request" where
  "assertion_options options =
     (case decode_field options ''challenge'' of
        Inl e \<Rightarrow> Inl e
      | Inr ch \<Rightarrow>
          (case decode_id_list (jget options ''allowCredentials'') of
             Inl e \<Rightarrow> Inl e
           | Inr al \<Rightarrow> Inr \<lparr>ar_options = options, ar_challenge = ch, ar_allow = al\<rparr>))"

text \<open>The credential the browser returns, as far as it is read.  \<open>new_key\<close> has no field for a
  method the browser lacks.\<close>

record new_key =
  nk_id :: json
  nk_public_key :: "bytes option"
  nk_auth_data :: "bytes option"
  nk_algorithm :: "rat option"
  nk_client_data :: bytes
  nk_transports :: "json option"

record key_assertion =
  ka_id :: json
  ka_auth_data :: bytes
  ka_client_data :: bytes
  ka_signature :: bytes

text \<open>\<open>None\<close>: no \<open>getTransports\<close>, or it threw.\<close>

definition serializeAuthenticatorTransports :: "json option \<Rightarrow> json" where
  "serializeAuthenticatorTransports ts =
     (case ts of None \<Rightarrow> JArr [] | Some v \<Rightarrow> JArr (array_or_empty v))"

text \<open>\<open>create\<close> is \<open>navigator.credentials.create\<close>; its outer \<open>None\<close> is no credential or one
  without \<open>getPublicKey\<close>.\<close>

definition createBrowserPasskey ::
    "bool \<Rightarrow> (creation_request \<Rightarrow> js_error + new_key option) \<Rightarrow> json \<Rightarrow> js_error + json" where
  "createBrowserPasskey supported create options =
     (if \<not> supported then Inl (PlainError ''WebAuthn is not available in this browser.'')
      else case creation_options options of
        Inl e \<Rightarrow> Inl e
      | Inr req \<Rightarrow>
          (case create req of
             Inl e \<Rightarrow> Inl e
           | Inr None \<Rightarrow>
               Inl (PlainError ''This browser did not return a usable WebAuthn public key.'')
           | Inr (Some k) \<Rightarrow>
               (case (nk_public_key k, nk_auth_data k) of
                  (Some pk, Some ad) \<Rightarrow>
                    Inr (JObj
                      [(''credentialId'', nk_id k),
                       (''publicKey'', JStr (encodeBase64Url pk)),
                       (''algorithm'', JNum (case nk_algorithm k of None \<Rightarrow> 0 | Some a \<Rightarrow> a)),
                       (''authenticatorData'', JStr (encodeBase64Url ad)),
                       (''clientDataJSON'', JStr (encodeBase64Url (nk_client_data k))),
                       (''transports'', serializeAuthenticatorTransports (nk_transports k))])
                | _ \<Rightarrow> Inl (PlainError
                        ''Unable to extract WebAuthn registration data from this browser.''))))"

definition getBrowserPasskeyAssertion ::
    "bool \<Rightarrow> (assertion_request \<Rightarrow> js_error + key_assertion option) \<Rightarrow> json \<Rightarrow> js_error + json" where
  "getBrowserPasskeyAssertion supported ask options =
     (if \<not> supported then Inl (PlainError ''WebAuthn is not available in this browser.'')
      else case assertion_options options of
        Inl e \<Rightarrow> Inl e
      | Inr req \<Rightarrow>
          (case ask req of
             Inl e \<Rightarrow> Inl e
           | Inr None \<Rightarrow> Inl (PlainError ''No passkey assertion was returned by the browser.'')
           | Inr (Some a) \<Rightarrow>
               Inr (JObj
                 [(''credentialId'', ka_id a),
                  (''authenticatorData'', JStr (encodeBase64Url (ka_auth_data a))),
                  (''clientDataJSON'', JStr (encodeBase64Url (ka_client_data a))),
                  (''signature'', JStr (encodeBase64Url (ka_signature a)))])))"

lemma decode_ids_length: "decode_ids vs = Inr bs \<Longrightarrow> length bs = length vs"
  by (induction vs arbitrary: bs) (auto split: sum.splits)

lemma decode_encoded_field: "decode_field (JObj [(k, JStr (encodeBase64Url b))]) k = Inr b"
  using base64_decode_encode [of b] by (simp add: decode_field_def jread_def nullish_def)

text \<open>The authenticator is asked with exactly the challenge the server sent: when the server's
  challenge is the base64url text of some bytes and no credential list is given, the request carries
  those bytes, and the signature it answers with reaches the server as a text that decodes back to
  the signature.\<close>

theorem passkey_challenge_faithful:
  assumes "ask \<lparr>ar_options = options, ar_challenge = ch, ar_allow = []\<rparr> = Inr (Some a)"
    and "options = JObj [(''challenge'', JStr (encodeBase64Url ch)), (''requestId'', rid)]"
  shows "\<exists>reply. getBrowserPasskeyAssertion True ask options = Inr reply \<and>
           decodeBase64Url (jget reply ''signature'') = Some (ka_signature a) \<and>
           decodeBase64Url (jget reply ''clientDataJSON'') = Some (ka_client_data a) \<and>
           jget reply ''credentialId'' = ka_id a"
proof -
  have "assertion_options options = Inr \<lparr>ar_options = options, ar_challenge = ch, ar_allow = []\<rparr>"
    by (simp add: assertion_options_def assms(2) decode_field_def jread_def nullish_def
        base64_decode_encode decode_id_list_def)
  then show ?thesis
    by (simp add: getBrowserPasskeyAssertion_def assms(1) base64_decode_encode)
qed

theorem passkey_challenge_faithful_witness:
  "\<exists>reply. getBrowserPasskeyAssertion True
       (\<lambda>req. Inr (Some \<lparr>ka_id = JStr ''k1'', ka_auth_data = [1], ka_client_data = [2],
                        ka_signature = rev (ar_challenge req)\<rparr>))
       (JObj [(''challenge'', JStr (encodeBase64Url [10, 200, 3])), (''requestId'', JStr ''r'')]) = Inr reply
     \<and> decodeBase64Url (jget reply ''signature'') = Some [3, 200, 10]"
  using passkey_challenge_faithful [of
      "\<lambda>req. Inr (Some \<lparr>ka_id = JStr ''k1'', ka_auth_data = [1], ka_client_data = [2],
                        ka_signature = rev (ar_challenge req)\<rparr>)"
      "JObj [(''challenge'', JStr (encodeBase64Url [10, 200, 3])), (''requestId'', JStr ''r'')]"
      "[10, 200, 3]"
      "\<lparr>ka_id = JStr ''k1'', ka_auth_data = [1], ka_client_data = [2], ka_signature = [3, 200, 10]\<rparr>"
      "JStr ''r''"]
  by auto

end
