(* ===== verification/AuthFlow.thy ===== *)
theory AuthFlow
  imports Gating Passkeys Clock
begin

section \<open>Signing in and out (App.jsx)\<close>

text \<open>
  The part of the application state that belongs to signing in: the \<open>auth\<close> object, the login
  form, the first-login setup, the two-factor settings, the expiry of the token, the current
  route and the page to come back to, with the API client inside.  A handler that waits for the
  server is split where it waits: what it sends, and what it does with the reply.  A value a
  handler captured when it started is an argument of its second half.
\<close>

record env =
  env_now :: int
  env_loc :: string
  env_t :: translate
  env_text :: "js_error \<Rightarrow> string"
  env_zone :: "int \<Rightarrow> int"

text \<open>\<open>error.message\<close>: the errors the browser itself raises have a text of its own.\<close>

definition error_message :: "env \<Rightarrow> js_error \<Rightarrow> string" where
  "error_message env e =
     (case e of ServerError msg _ _ \<Rightarrow> msg | PlainError msg \<Rightarrow> msg | _ \<Rightarrow> env_text env e)"

definition shown :: "env \<Rightarrow> js_error \<Rightarrow> string \<Rightarrow> string" where
  "shown env e fallback = str_or (error_message env e) fallback"

definition tx :: "env \<Rightarrow> string \<Rightarrow> string" where
  "tx env k = env_t env k []"

record bootstrap_state =
  bs_required :: bool
  bs_password :: bool
  bs_mfa :: bool
  bs_totp :: bool
  bs_webauthn :: bool

definition no_bootstrap :: bootstrap_state where
  "no_bootstrap = \<lparr>bs_required = False, bs_password = False, bs_mfa = False, bs_totp = False,
     bs_webauthn = False\<rparr>"

record app =
  api :: client
  user :: json
  password :: string
  role :: string
  token :: json
  permissions :: "json list"
  auth_error :: string
  two_fa_required :: bool
  totp_code :: string
  mfa_methods :: "json list"
  webauthn_login :: json
  webauthn_busy :: bool
  preferred_mfa :: string
  totp_enabled :: bool
  webauthn_enabled :: bool
  webauthn_credentials :: "json list"
  totp_setup :: json
  totp_setup_code :: string
  totp_disable_code :: string
  totp_error :: string
  pw_current :: string
  pw_new :: string
  pw_confirm :: string
  pw_error :: string
  pw_success :: string
  bootstrap :: bootstrap_state
  expires_at :: json
  expiry_warning :: bool
  upsell :: "(json \<times> json) option"
  route :: string
  return_to :: "string option"

subsection \<open>The page to come back to\<close>

definition rememberReturnTo :: "string \<Rightarrow> app \<Rightarrow> app" where
  "rememberReturnTo path a =
     (if path \<noteq> [] \<and> starts_with path ''/'' \<and> \<not> starts_with path ''/login''
      then a\<lparr>return_to := Some path\<rparr> else a)"

definition takeReturnTo :: "app \<Rightarrow> string \<times> app" where
  "takeReturnTo a =
     (let path = (case return_to a of None \<Rightarrow> [] | Some p \<Rightarrow> p) in
      (if starts_with path ''/'' \<and> \<not> starts_with path ''//'' then path else ''/'',
       a\<lparr>return_to := None\<rparr>))"

definition navigate :: "string \<Rightarrow> app \<Rightarrow> app" where
  "navigate path a = a\<lparr>route := path\<rparr>"

subsection \<open>Loading the page\<close>

text \<open>The initial \<open>auth\<close> object, as the saved session gives it, and the saved expiry.\<close>

definition load_auth :: "client \<Rightarrow> app \<Rightarrow> app" where
  "load_auth c a =
     (case (case storage c auth_key of None \<Rightarrow> None | Some saved \<Rightarrow> if saved = [] then None else json_parse saved) of
        None \<Rightarrow> a\<lparr>api := c, user := JStr [], password := [], role := ''operator'', token := JStr [], permissions := []\<rparr>
      | Some parsed \<Rightarrow>
          if \<not> truthy (jget parsed ''token'')
          then a\<lparr>api := c, user := JStr [], password := [], role := ''operator'', token := JStr [], permissions := []\<rparr>
          else a\<lparr>api := setAuthToken (jget parsed ''token'') c,
                 user := jor (jget parsed ''user'') (JStr []), password := [],
                 role := normalizeRole (jget parsed ''role''), token := jget parsed ''token'',
                 permissions := array_or_empty (jget parsed ''permissions'')\<rparr>)"

definition load_expiry :: "client \<Rightarrow> json" where
  "load_expiry c =
     (let saved = (case storage c auth_key of None \<Rightarrow> ''{}'' | Some s \<Rightarrow> str_or s ''{}'') in
      case json_parse saved of
        None \<Rightarrow> JStr []
      | Some parsed \<Rightarrow>
          (case jread parsed ''expiresAt'' of None \<Rightarrow> JStr [] | Some e \<Rightarrow> jor e (JStr [])))"

definition blank_app :: "client \<Rightarrow> app" where
  "blank_app c =
     \<lparr>api = c, user = JStr [], password = [], role = ''operator'', token = JStr [], permissions = [],
      auth_error = [], two_fa_required = False, totp_code = [], mfa_methods = [],
      webauthn_login = JNull, webauthn_busy = False, preferred_mfa = ''any'', totp_enabled = False,
      webauthn_enabled = False, webauthn_credentials = [], totp_setup = JNull, totp_setup_code = [],
      totp_disable_code = [], totp_error = [], pw_current = [], pw_new = [], pw_confirm = [],
      pw_error = [], pw_success = [], bootstrap = no_bootstrap, expires_at = JStr [],
      expiry_warning = False, upsell = None, route = ''/'', return_to = None\<rparr>"

definition load_page :: "(string \<Rightarrow> string option) \<Rightarrow> string \<Rightarrow> string option \<Rightarrow> app" where
  "load_page st path saved_return =
     (let c = load_client st in
      (load_auth c (blank_app c))
        \<lparr>expires_at := load_expiry c, route := str_or path ''/'', return_to := saved_return\<rparr>)"

subsection \<open>Events of the API client\<close>

definition clear_mfa :: "app \<Rightarrow> app" where
  "clear_mfa a =
     a\<lparr>bootstrap := no_bootstrap, webauthn_enabled := False, webauthn_credentials := [],
       webauthn_login := JNull, mfa_methods := [], preferred_mfa := ''any''\<rparr>"

definition onUnauthorized :: "env \<Rightarrow> app \<Rightarrow> app" where
  "onUnauthorized env a =
     navigate ''/login''
       ((clear_mfa a)\<lparr>token := JStr [], password := [], permissions := [],
          auth_error := tx env ''auth.sessionExpired'', expires_at := JStr [],
          api := setAuthToken (JStr []) (api a)\<rparr>)"

definition onLicenseRequired :: "json \<Rightarrow> app \<Rightarrow> app" where
  "onLicenseRequired event_detail a =
     (let detail = jor event_detail (JObj []) in
      a\<lparr>upsell := Some (jor (jget detail ''feature'') (JStr []),
                        jor (jget detail ''requiredTier'') (JStr ''pro''))\<rparr>)"

text \<open>The listeners run inside \<open>dispatchEvent\<close>, before the call throws.\<close>

definition deliver :: "env \<Rightarrow> client \<Rightarrow> app \<Rightarrow> app" where
  "deliver env c' a =
     foldl (\<lambda>b e. case snd e of Unauthorized \<Rightarrow> onUnauthorized env b | LicenseRequired d \<Rightarrow> onLicenseRequired d b)
       (a\<lparr>api := c'\<rparr>) (drop (length (dispatched (api a))) (dispatched c'))"

definition answered :: "env \<Rightarrow> api_call \<Rightarrow> fetched \<Rightarrow> app \<Rightarrow> (js_error + json) \<times> app" where
  "answered env call f a =
     (let (res, c') = complete_call (env_now env) (env_loc env) call f (api a)
      in (res, deliver env c' a))"

subsection \<open>Signing in\<close>

definition onAuthChange :: "string \<Rightarrow> string \<Rightarrow> app \<Rightarrow> app" where
  "onAuthChange field text a =
     (if field = ''user'' then a\<lparr>user := JStr text\<rparr>
      else if field = ''password'' then a\<lparr>password := text\<rparr> else a)"

definition login_payload :: "app \<Rightarrow> json" where
  "login_payload a =
     JObj [(''user'', user a), (''password'', JStr (password a)),
           (''totpCode'', if totp_code a = [] then JUndef else JStr (totp_code a))]"

definition bootstrap_of :: "json \<Rightarrow> bool \<Rightarrow> bool \<Rightarrow> bootstrap_state" where
  "bootstrap_of b totp webauthn =
     \<lparr>bs_required = truthy (jget b ''required''), bs_password = truthy (jget b ''passwordChangeRequired''),
      bs_mfa = truthy (jget b ''mfaSetupRequired''), bs_totp = totp, bs_webauthn = webauthn\<rparr>"

definition saved_session :: "json \<Rightarrow> json" where
  "saved_session payload =
     JObj [(''token'', jget payload ''token''), (''user'', jget payload ''user''),
           (''role'', JStr (normalizeRole (jget payload ''role''))),
           (''permissions'', JArr (array_or_empty (jget payload ''permissions''))),
           (''expiresAt'', jor (jget payload ''expiresAt'') (JStr []))]"

text \<open>The steps both ways of signing in share: the \<open>auth\<close> object, the token of the client, the
  two-factor state, the expiry and the saved session.\<close>

definition signed_in :: "json \<Rightarrow> app \<Rightarrow> app" where
  "signed_in payload a =
     (let c = setAuthToken (jget payload ''token'') (api a) in
      a\<lparr>two_fa_required := False, mfa_methods := [], webauthn_login := JNull, totp_code := [],
        token := jget payload ''token'', role := normalizeRole (jget payload ''role''),
        user := jget payload ''user'', permissions := array_or_empty (jget payload ''permissions''),
        password := [],
        api := c\<lparr>storage := (storage c)(auth_key \<mapsto> json_stringify (saved_session payload))\<rparr>,
        totp_enabled := truthy (jget payload ''totpEnabled''),
        webauthn_enabled := truthy (jget payload ''webauthnEnabled''),
        preferred_mfa := text_or (jget payload ''preferredMfaMethod'') ''any'',
        bootstrap := bootstrap_of (jor (jget payload ''bootstrap'') (JObj []))
          (truthy (jget payload ''totpEnabled'')) (truthy (jget payload ''webauthnEnabled'')),
        expires_at := jor (jget payload ''expiresAt'') (JStr [])\<rparr>)"

definition go_back :: "app \<Rightarrow> app" where
  "go_back a = (let (path, a') = takeReturnTo a in navigate path a')"

definition mfa_status :: "json \<Rightarrow> bool" where
  "mfa_status v = (v = JStr ''mfa_required'' \<or> v = JStr ''2fa_required'')"

definition on_login_reply :: "env \<Rightarrow> string \<Rightarrow> (js_error + json) \<Rightarrow> app \<Rightarrow> app" where
  "on_login_reply env sent_password reply a =
     (case reply of
        Inl e \<Rightarrow> a\<lparr>auth_error := shown env e (tx env ''auth.loginFailed'')\<rparr>
      | Inr payload \<Rightarrow>
          (case jread payload ''status'' of
             None \<Rightarrow> a\<lparr>auth_error := shown env TypeError (tx env ''auth.loginFailed'')\<rparr>
           | Some st \<Rightarrow>
               if mfa_status st then
                 a\<lparr>two_fa_required := True, totp_code := [],
                   mfa_methods :=
                     (case jget payload ''mfaMethods'' of
                        JArr ms \<Rightarrow> ms
                      | _ \<Rightarrow> if truthy (jget payload ''totpEnabled'') then [JStr ''totp''] else []),
                   webauthn_login := jor (jget payload ''webauthn'') JNull,
                   preferred_mfa := text_or (jget payload ''preferredMfaMethod'') ''any'',
                   auth_error := []\<rparr>
               else
                 (let b = jor (jget payload ''bootstrap'') (JObj []) in
                  go_back ((signed_in payload a)
                    \<lparr>pw_current := (if truthy (jget b ''passwordChangeRequired'') then sent_password else []),
                     totp_setup := JNull, totp_setup_code := [], totp_error := [], auth_error := []\<rparr>))))"

text \<open>With a passkey: the options of the challenge, the assertion of the browser, the reply.\<close>

definition passkey_payload :: "app \<Rightarrow> json \<Rightarrow> json" where
  "passkey_payload a assertion =
     JObj [(''user'', user a), (''password'', JStr (password a)),
           (''webauthnRequestId'', jget (webauthn_login a) ''requestId''),
           (''webauthnCredentialId'', jget assertion ''credentialId''),
           (''webauthnAuthenticatorData'', jget assertion ''authenticatorData''),
           (''webauthnClientDataJSON'', jget assertion ''clientDataJSON''),
           (''webauthnSignature'', jget assertion ''signature'')]"

definition start_passkey :: "env \<Rightarrow> app \<Rightarrow> app \<times> json option" where
  "start_passkey env a =
     (if \<not> truthy (webauthn_login a)
      then (a\<lparr>auth_error := tx env ''auth.noPasskeyChallenge''\<rparr>, None)
      else (a\<lparr>webauthn_busy := True, auth_error := []\<rparr>, Some (webauthn_login a)))"

definition on_passkey_reply :: "env \<Rightarrow> (js_error + json) \<Rightarrow> app \<Rightarrow> app" where
  "on_passkey_reply env reply a =
     (let failed = (\<lambda>e b. b\<lparr>auth_error := shown env e (tx env ''auth.passkeySignInFailed''),
                            webauthn_busy := False\<rparr>) in
      case reply of
        Inl e \<Rightarrow> failed e a
      | Inr payload \<Rightarrow>
          (case jread payload ''status'' of
             None \<Rightarrow> failed TypeError a
           | Some st \<Rightarrow>
               if st = JStr ''mfa_required'' then
                 failed (PlainError (text_or (jget payload ''message'') (tx env ''auth.passkeyStillRequired'')))
                   (a\<lparr>webauthn_login := jor (jget payload ''webauthn'') JNull\<rparr>)
               else (go_back (signed_in payload a))\<lparr>webauthn_busy := False\<rparr>))"

definition onCancelMfa :: "app \<Rightarrow> app" where
  "onCancelMfa a =
     a\<lparr>two_fa_required := False, totp_code := [], mfa_methods := [], webauthn_login := JNull,
       auth_error := []\<rparr>"

subsection \<open>Signing out\<close>

definition sign_out :: "app \<Rightarrow> app" where
  "sign_out a =
     (let c = setAuthToken (JStr []) (api a) in
      navigate ''/login''
        ((clear_mfa a)\<lparr>token := JStr [], password := [], permissions := [], expires_at := JStr [],
           api := c\<lparr>storage := (storage c)(auth_key := None)\<rparr>, totp_setup := JNull\<rparr>))"

text \<open>\<open>onLogout\<close> once the logout call is answered, however it went.\<close>

definition onLogout :: "env \<Rightarrow> api_call \<Rightarrow> fetched \<Rightarrow> app \<Rightarrow> app" where
  "onLogout env call f a = sign_out (snd (answered env call f a))"

subsection \<open>The effects that watch the token\<close>

definition route_effect :: "app \<Rightarrow> app" where
  "route_effect a =
     (let b = (if \<not> truthy (token a) \<and> route a \<noteq> ''/login'' then navigate ''/login'' a else a)
      in if truthy (token a) \<and> route a = ''/login'' then navigate ''/'' b else b)"

definition EXPIRY_WARNING_MS :: int where
  "EXPIRY_WARNING_MS = 5 * 60 * 1000"

datatype expiry_plan = NoTimer | SignOutNow | Timers int int

text \<open>A date that does not parse makes every comparison false and both delays NaN, which a timer
  takes as 0.\<close>

definition expiry_plan_of :: "env \<Rightarrow> app \<Rightarrow> expiry_plan" where
  "expiry_plan_of env a =
     (if \<not> truthy (expires_at a) \<or> \<not> truthy (token a) then NoTimer
      else (case time_of (env_zone env) (expires_at a) of
         None \<Rightarrow> Timers 0 0
       | Some t \<Rightarrow>
           (let remaining = t - env_now env in
            if remaining \<le> 0 then SignOutNow
            else if 2147483647 < remaining then NoTimer
            else Timers (max 0 (remaining - EXPIRY_WARNING_MS)) remaining)))"

definition expiry_effect :: "env \<Rightarrow> app \<Rightarrow> app \<times> expiry_plan" where
  "expiry_effect env a =
     (let a1 = a\<lparr>expiry_warning := False\<rparr>; plan = expiry_plan_of env a in
      (if plan = SignOutNow then rememberReturnTo (route a) a1 else a1, plan))"

definition on_warn_timer :: "app \<Rightarrow> app" where
  "on_warn_timer a = a\<lparr>expiry_warning := True\<rparr>"

text \<open>The page is remembered and the message set at once; the rest is \<open>onLogout\<close>.\<close>

definition on_expiry_timer :: "env \<Rightarrow> app \<Rightarrow> app" where
  "on_expiry_timer env a =
     (rememberReturnTo (route a) a)\<lparr>auth_error := tx env ''auth.sessionExpired''\<rparr>"

definition bootstrapRequired :: "app \<Rightarrow> bool" where
  "bootstrapRequired a = (truthy (token a) \<and> bs_required (bootstrap a))"

definition reload_due :: "bool \<Rightarrow> app \<Rightarrow> bool" where
  "reload_due was_required a = (was_required \<and> \<not> bootstrapRequired a \<and> truthy (token a))"

text \<open>\<open>SessionExpiryBanner\<close>: the countdown shown during the last five minutes.\<close>

definition pad2 :: "string \<Rightarrow> string" where
  "pad2 s = pad_left 2 (CHR ''0'') s"

definition expiry_banner :: "(int \<Rightarrow> int) \<Rightarrow> int \<Rightarrow> json \<Rightarrow> string option" where
  "expiry_banner zone now expiresAt =
     (case (if truthy expiresAt then time_of zone expiresAt else None) of
        None \<Rightarrow> None
      | Some end_ms \<Rightarrow>
          (let remaining = end_ms - now in
           if EXPIRY_WARNING_MS < remaining \<or> remaining \<le> 0 then None
           else (let seconds = (remaining + 999) div 1000 in
                 Some (show_int (seconds div 60) @ '':'' @ pad2 (show_int (seconds mod 60))))))"

subsection \<open>Facts about the steps\<close>

lemma takeReturnTo_path:
  "starts_with (fst (takeReturnTo a)) ''/'' \<and> \<not> starts_with (fst (takeReturnTo a)) ''//''"
  by (auto simp: takeReturnTo_def Let_def starts_with_def)

lemma takeReturnTo_clears: "return_to (snd (takeReturnTo a)) = None"
  by (simp add: takeReturnTo_def Let_def)

lemma takeReturnTo_remembered:
  "return_to a = Some p \<Longrightarrow> starts_with p ''/'' \<Longrightarrow> \<not> starts_with p ''//'' \<Longrightarrow> fst (takeReturnTo a) = p"
  by (simp add: takeReturnTo_def Let_def)

lemma takeReturnTo_frame: "snd (takeReturnTo a) = a\<lparr>return_to := None\<rparr>"
  by (simp add: takeReturnTo_def Let_def)

lemma go_back_frame: "go_back a = a\<lparr>return_to := None, route := fst (takeReturnTo a)\<rparr>"
  by (simp add: go_back_def takeReturnTo_frame navigate_def split: prod.split)
    (metis prod.collapse takeReturnTo_frame fst_conv snd_conv)

text \<open>A call changes the application only through the event it dispatches, if any.\<close>

lemma deliver_cases:
  assumes "c' \<in> {api a, notifyUnauthorized now (api a)} \<union> range (\<lambda>d. notifyLicenseRequired now d (api a))"
  obtains "deliver env c' a = a\<lparr>api := c'\<rparr>" and "c' = api a"
  | "deliver env c' a = onUnauthorized env (a\<lparr>api := c'\<rparr>)" and "c' = notifyUnauthorized now (api a)"
  | d where "deliver env c' a = onLicenseRequired d (a\<lparr>api := c'\<rparr>)"
      and "auth_token c' = auth_token (api a)" and "storage c' = storage (api a)"
proof -
  have same: "deliver env (api a) a = a\<lparr>api := api a\<rparr>"
    by (simp add: deliver_def)
  consider "c' = api a" | "c' = notifyUnauthorized now (api a)" | d where "c' = notifyLicenseRequired now d (api a)"
    using assms by blast
  then show ?thesis
  proof cases
    case 1
    then show ?thesis using that(1) same by simp
  next
    case 2
    show ?thesis
    proof (cases "throttled now (api a)")
      case True
      then show ?thesis using 2 that(1) same notifyUnauthorized_throttled by simp
    next
      case False
      then have "deliver env c' a = onUnauthorized env (a\<lparr>api := c'\<rparr>)"
        by (simp add: 2 deliver_def notifyUnauthorized_def throttled_def)
      then show ?thesis using 2 that(2) by simp
    qed
  next
    case (3 d)
    show ?thesis
    proof (cases "now - last_license_at (api a) < 1000")
      case True
      then have "c' = api a" using 3 by (simp add: notifyLicenseRequired_def)
      then show ?thesis using that(1) same by simp
    next
      case False
      then have "deliver env c' a = onLicenseRequired d (a\<lparr>api := c'\<rparr>)"
        by (simp add: 3 deliver_def notifyLicenseRequired_def)
      then show ?thesis using 3 that(3) by (simp add: notifyLicense_keeps)
    qed
  qed
qed

lemma answered_client:
  "\<exists>c'. snd (answered env call f a) = deliver env c' a \<and>
        c' \<in> {api a, notifyUnauthorized (env_now env) (api a)}
             \<union> range (\<lambda>d. notifyLicenseRequired (env_now env) d (api a))"
proof (cases f)
  case NoAnswer
  then show ?thesis by (auto simp: answered_def complete_call_def)
next
  case (Answer r)
  have "snd (answered env call f a)
      = deliver env (snd (complete_call (env_now env) (env_loc env) call f (api a))) a"
    by (simp add: answered_def split: prod.split)
  then show ?thesis
    using ensure_client Answer complete_answer_client by metis
qed

subsection \<open>The interface and the client agree on being signed in\<close>

definition agree :: "app \<Rightarrow> bool" where
  "agree a =
     (auth_token (api a) = token a \<or> (\<not> truthy (token a) \<and> \<not> truthy (auth_token (api a))))"

lemma agree_truthy: "agree a \<Longrightarrow> truthy (auth_token (api a)) \<longleftrightarrow> truthy (token a)"
  by (auto simp: agree_def)

lemma agree_frame:
  "agree a \<Longrightarrow> token b = token a \<Longrightarrow> auth_token (api b) = auth_token (api a) \<Longrightarrow> agree b"
  by (simp add: agree_def)

lemma setAuthToken_token [simp]: "auth_token (setAuthToken v c) = jor v (JStr [])"
  by (simp add: setAuthToken_def)

lemma jor_same [simp]: "jor v v = v"
  by (simp add: jor_def)

lemma agree_set: "token a = v \<Longrightarrow> auth_token (api a) = jor v (JStr []) \<Longrightarrow> agree a"
  by (cases "truthy v") (simp_all add: agree_def)

lemma load_auth_token:
  "token (load_auth c a) = v \<Longrightarrow> auth_token c = initial_token (storage c) \<Longrightarrow>
   auth_token (api (load_auth c a)) = jor v (JStr [])"
  by (auto simp: load_auth_def initial_token_def jread_def nullish_def split: option.splits if_splits)

lemma agree_load: "agree (load_page st path r)"
  by (rule agree_set [OF refl]) (simp add: load_page_def Let_def load_auth_token [OF refl] load_client_def)

lemma signed_in_token [simp]:
  "token (signed_in payload a) = jget payload ''token''"
  "auth_token (api (signed_in payload a)) = jor (jget payload ''token'') (JStr [])"
  by (simp_all add: signed_in_def Let_def)

lemma sign_out_token [simp]:
  "token (sign_out a) = JStr []" "auth_token (api (sign_out a)) = JStr []"
  by (simp_all add: sign_out_def Let_def navigate_def jor_def)

lemma go_back_token [simp]: "token (go_back a) = token a" "api (go_back a) = api a"
  by (simp_all add: go_back_frame)

lemma unauthorized_token [simp]:
  "token (onUnauthorized env a) = JStr []" "auth_token (api (onUnauthorized env a)) = JStr []"
  by (simp_all add: onUnauthorized_def navigate_def jor_def)

lemma license_token [simp]:
  "token (onLicenseRequired d a) = token a" "api (onLicenseRequired d a) = api a"
  by (simp_all add: onLicenseRequired_def Let_def)

lemma agree_sign_out: "agree (sign_out a)"
  by (rule agree_set [OF sign_out_token(1)]) simp

lemma agree_deliver:
  assumes "agree a"
    and "c' \<in> {api a, notifyUnauthorized now (api a)} \<union> range (\<lambda>d. notifyLicenseRequired now d (api a))"
  shows "agree (deliver env c' a)"
  using assms(2)
proof (cases rule: deliver_cases [where env = env])
  case 1
  with assms(1) show ?thesis by (auto intro: agree_frame)
next
  case 2
  then show ?thesis by (simp add: agree_set [OF unauthorized_token(1)])
next
  case (3 d)
  with assms(1) show ?thesis by (auto intro: agree_frame)
qed

lemma agree_answered: "agree a \<Longrightarrow> agree (snd (answered env call f a))"
  using answered_client agree_deliver by metis

text \<open>A reply either signs in or leaves both tokens alone.\<close>

lemma login_reply_token:
  "(token (on_login_reply env pw reply a) = token a \<and> api (on_login_reply env pw reply a) = api a) \<or>
   (\<exists>v. token (on_login_reply env pw reply a) = v \<and>
        auth_token (api (on_login_reply env pw reply a)) = jor v (JStr []))"
  by (cases reply) (simp_all add: on_login_reply_def Let_def split: option.split)

lemma passkey_reply_token:
  "(token (on_passkey_reply env reply a) = token a \<and> api (on_passkey_reply env reply a) = api a) \<or>
   (\<exists>v. token (on_passkey_reply env reply a) = v \<and>
        auth_token (api (on_passkey_reply env reply a)) = jor v (JStr []))"
  by (cases reply) (simp_all add: on_passkey_reply_def Let_def split: option.split)

lemma agree_login_reply: "agree a \<Longrightarrow> agree (on_login_reply env pw reply a)"
  using login_reply_token [of env pw reply a] by (metis agree_frame agree_set)

lemma agree_passkey_reply: "agree a \<Longrightarrow> agree (on_passkey_reply env reply a)"
  using passkey_reply_token [of env reply a] by (metis agree_frame agree_set)

lemma form_steps_token [simp]:
  "token (fst (start_passkey env a)) = token a" "api (fst (start_passkey env a)) = api a"
  "token (onCancelMfa a) = token a" "api (onCancelMfa a) = api a"
  "token (onAuthChange field text a) = token a" "api (onAuthChange field text a) = api a"
  "token (navigate path a) = token a" "api (navigate path a) = api a"
  "token (route_effect a) = token a" "api (route_effect a) = api a"
  "token (fst (expiry_effect env a)) = token a" "api (fst (expiry_effect env a)) = api a"
  "token (on_warn_timer a) = token a" "api (on_warn_timer a) = api a"
  "token (on_expiry_timer env a) = token a" "api (on_expiry_timer env a) = api a"
  by (simp_all add: start_passkey_def onCancelMfa_def onAuthChange_def navigate_def route_effect_def
      expiry_effect_def rememberReturnTo_def on_warn_timer_def on_expiry_timer_def Let_def)

text \<open>The states of the page: loaded from any saved session, then changed by answers, replies to
  a sign-in, sign-outs, the effects and the forms, in any order.\<close>

inductive page :: "app \<Rightarrow> bool" where
  load: "page (load_page st path r)"
| answer: "page a \<Longrightarrow> page (snd (answered env call f a))"
| login_reply: "page a \<Longrightarrow> page (on_login_reply env pw reply a)"
| passkey_start: "page a \<Longrightarrow> page (fst (start_passkey env a))"
| passkey_reply: "page a \<Longrightarrow> page (on_passkey_reply env reply a)"
| cancel_mfa: "page a \<Longrightarrow> page (onCancelMfa a)"
| logout: "page a \<Longrightarrow> page (onLogout env call f a)"
| auth_change: "page a \<Longrightarrow> page (onAuthChange field text a)"
| route_change: "page a \<Longrightarrow> page (navigate path a)"
| redirect: "page a \<Longrightarrow> page (route_effect a)"
| expiry: "page a \<Longrightarrow> page (fst (expiry_effect env a))"
| warn: "page a \<Longrightarrow> page (on_warn_timer a)"
| timer: "page a \<Longrightarrow> page (on_expiry_timer env a)"

lemma page_agree: "page a \<Longrightarrow> agree a"
proof (induction rule: page.induct)
  case (load st path r)
  show ?case by (rule agree_load)
next
  case (answer a env call f)
  then show ?case by (simp add: agree_answered)
next
  case (login_reply a env pw reply)
  then show ?case by (simp add: agree_login_reply)
next
  case (passkey_reply a env reply)
  then show ?case by (simp add: agree_passkey_reply)
next
  case (logout a env call f)
  show ?case by (simp add: onLogout_def agree_sign_out)
qed (erule agree_frame, simp, simp)+

subsection \<open>Properties\<close>

text \<open>C4: in every state of the page, a call carries the user's bearer token exactly when the
  interface shows a signed-in user: the client and the interface never disagree.\<close>

theorem interface_and_client_agree:
  assumes "page a" and "endpoint call"
  shows "map_of (req_headers (build_request (api a) call)) ''Authorization'' =
           (if truthy (token a) then Some (''Bearer '' @ js_string (token a)) else None)"
  using page_agree [OF assms(1)] endpoint_authorization [OF assms(2), of "api a"]
  by (auto simp: agree_def)

definition sample_env :: env where
  "sample_env = \<lparr>env_now = 100000, env_loc = ''en'', env_t = fallbackTranslate,
     env_text = (\<lambda>_. ''failed''), env_zone = (\<lambda>_. 0)\<rparr>"

definition sample_reply :: json where
  "sample_reply = JObj [(''token'', JStr ''t1''), (''user'', JStr ''ana''), (''role'', JStr ''platform_admin''),
     (''permissions'', JArr [JStr ''audit.read'']), (''expiresAt'', JStr ''2030-01-01'')]"

theorem interface_and_client_agree_witness:
  "map_of (req_headers (build_request
      (api (on_login_reply sample_env [] (Inr sample_reply) (load_page Map.empty [] None))) fetchAgents))
     ''Authorization'' = Some ''Bearer t1''"
  using interface_and_client_agree [OF page.login_reply [OF page.load], of fetchAgents sample_env "[]"
      "Inr sample_reply" Map.empty "[]" None]
  by (simp add: endpoint.intros on_login_reply_def jread_def nullish_def sample_reply_def mfa_status_def
      Let_def go_back_frame)

lemma sign_in_reply:
  assumes "jread payload ''status'' = Some st" and "\<not> mfa_status st"
  shows "token (on_login_reply env pw (Inr payload) a) = jget payload ''token''"
    and "user (on_login_reply env pw (Inr payload) a) = jget payload ''user''"
    and "role (on_login_reply env pw (Inr payload) a) = normalizeRole (jget payload ''role'')"
    and "permissions (on_login_reply env pw (Inr payload) a) = array_or_empty (jget payload ''permissions'')"
    and "expires_at (on_login_reply env pw (Inr payload) a) = jor (jget payload ''expiresAt'') (JStr [])"
    and "storage (api (on_login_reply env pw (Inr payload) a)) auth_key
           = Some (json_stringify (saved_session payload))"
    and "route (on_login_reply env pw (Inr payload) a) = fst (takeReturnTo a)"
    and "return_to (on_login_reply env pw (Inr payload) a) = None"
    and "password (on_login_reply env pw (Inr payload) a) = []"
  using assms by (simp_all add: on_login_reply_def go_back_frame signed_in_def Let_def takeReturnTo_def)

lemma saved_session_nonempty: "json_stringify (saved_session p) \<noteq> []"
  by (simp add: json_stringify_def saved_session_def)

text \<open>A sign-in survives a reload of the page: what is saved reads back as the same token, user,
  role, permissions and expiry, and the client of the reloaded page has the token.\<close>

theorem sign_in_survives_reload:
  assumes "jread payload ''status'' = Some st" and "\<not> mfa_status st"
    and "jget payload ''token'' = JStr t" and "t \<noteq> []" and "jget payload ''user'' = JStr u"
    and "jget payload ''permissions'' = JArr ps" and "plain_elems ps"
    and "jget payload ''expiresAt'' = JStr x"
    and "b = on_login_reply env pw (Inr payload) a"
    and "c = load_page (storage (api b)) path None"
  shows "token c = token b \<and> user c = user b \<and> role c = role b \<and> permissions c = permissions b \<and>
         expires_at c = expires_at b \<and> auth_token (api c) = auth_token (api b)"
proof -
  have plain: "plain_json (saved_session payload)"
    by (cases "x = []") (simp_all add: saved_session_def assms(3-8))
  have st: "storage (api b) auth_key = Some (json_stringify (saved_session payload))"
    using sign_in_reply(6) [OF assms(1,2)] assms(9) by simp
  note parse = json_parse_stringify [OF plain]
  have "load_auth (load_client (storage (api b))) (blank_app (load_client (storage (api b)))) =
      (blank_app (load_client (storage (api b))))
        \<lparr>api := setAuthToken (JStr t) (load_client (storage (api b))), user := JStr u, password := [],
         role := normalizeRole (JStr (normalizeRole (jget payload ''role''))), token := JStr t,
         permissions := ps\<rparr>"
    using saved_session_nonempty [of payload]
    by (cases "u = []")
      (simp_all add: load_auth_def load_client_def st parse, simp_all add: saved_session_def assms(3-8))
  moreover have "load_expiry (load_client (storage (api b))) = JStr x"
    using saved_session_nonempty [of payload]
    by (simp add: load_expiry_def load_client_def st parse str_or_def jread_def nullish_def)
      (cases "x = []"; simp add: saved_session_def assms(3-8) nullish_def)
  moreover have "auth_token (api b) = JStr t"
    using assms(1-4,9) by (simp add: on_login_reply_def Let_def)
  moreover have "normalizeRole (JStr (normalizeRole r)) = normalizeRole r" for r
    by (rule normalizeRole_twice)
  ultimately show ?thesis
    using sign_in_reply [OF assms(1,2), of env pw a] assms(3-10)
    by (cases "x = []") (simp_all add: load_page_def Let_def)
qed

lemma sample_reply_reads [simp]:
  "jread sample_reply ''status'' = Some JUndef" "jget sample_reply ''token'' = JStr ''t1''"
  "jget sample_reply ''user'' = JStr ''ana''" "jget sample_reply ''permissions'' = JArr [JStr ''audit.read'']"
  "jget sample_reply ''expiresAt'' = JStr ''2030-01-01''" "\<not> mfa_status JUndef"
  by (simp_all add: sample_reply_def jread_def nullish_def mfa_status_def)

theorem sign_in_survives_reload_witness:
  "token (load_page (storage (api (on_login_reply sample_env [] (Inr sample_reply)
            (load_page Map.empty [] None)))) ''/carte'' None) = JStr ''t1''"
  using sign_in_survives_reload [of sample_reply JUndef "''t1''" "''ana''" "[JStr ''audit.read'']"
      "''2030-01-01''" "on_login_reply sample_env [] (Inr sample_reply) (load_page Map.empty [] None)"
      sample_env "[]" "load_page Map.empty [] None"
      "load_page (storage (api (on_login_reply sample_env [] (Inr sample_reply)
            (load_page Map.empty [] None)))) ''/carte'' None" "''/carte''"]
    sign_in_reply(1) [of sample_reply JUndef sample_env "[]" "load_page Map.empty [] None"]
  by simp

text \<open>Signing out always works: whatever the logout call answers, even nothing, the token is
  gone from the interface and the client, the saved session is deleted, the password and the
  permissions are forgotten and the login page is shown.\<close>

theorem logout_always_signs_out:
  "signed_out (api (onLogout env call f a)) \<and> token (onLogout env call f a) = JStr [] \<and>
   password (onLogout env call f a) = [] \<and> permissions (onLogout env call f a) = [] \<and>
   route (onLogout env call f a) = ''/login''"
  by (simp add: onLogout_def sign_out_def signed_out_def navigate_def Let_def setAuthToken_def jor_def
      clear_mfa_def)

text \<open>The page to come back to is always a path of this site, never another host, whatever the
  tab's storage holds, and it is used once.\<close>

theorem return_path_same_site:
  "starts_with (route (go_back a)) ''/'' \<and> \<not> starts_with (route (go_back a)) ''//'' \<and>
   return_to (go_back a) = None"
  using takeReturnTo_path by (simp add: go_back_frame)

text \<open>When the session expires and the user signs in again, the application is back on the page
  it was on.\<close>

theorem expiry_returns_to_page:
  assumes "starts_with (route a) ''/''" and "\<not> starts_with (route a) ''/login''"
    and "\<not> starts_with (route a) ''//''"
    and "jread payload ''status'' = Some st" and "\<not> mfa_status st"
    and "b = sign_out (on_expiry_timer env a)"
  shows "route b = ''/login'' \<and> \<not> truthy (token b) \<and>
         route (on_login_reply env' pw (Inr payload) b) = route a"
proof -
  have "route a \<noteq> []" using assms(1) by (auto simp: starts_with_def)
  then have r: "return_to b = Some (route a)"
    using assms by (simp add: sign_out_def on_expiry_timer_def rememberReturnTo_def navigate_def Let_def
        clear_mfa_def)
  show ?thesis
    using sign_in_reply(7) [OF assms(4,5)] takeReturnTo_remembered [OF r assms(1,3)] assms(6)
    by (simp add: sign_out_def navigate_def Let_def)
qed

theorem expiry_returns_to_page_witness:
  "route (on_login_reply sample_env [] (Inr sample_reply)
     (sign_out (on_expiry_timer sample_env (load_page Map.empty ''/journal'' None)))) = ''/journal''"
  using expiry_returns_to_page [of "load_page Map.empty ''/journal'' None" sample_reply JUndef
      "sign_out (on_expiry_timer sample_env (load_page Map.empty ''/journal'' None))" sample_env sample_env "[]"]
  by (simp add: load_page_def Let_def str_or_def starts_with_def)

text \<open>A reply that asks for a second factor does not sign in: no token, no saved session, the
  same page.\<close>

theorem mfa_challenge_stays_out:
  assumes "jread payload ''status'' = Some st" and "mfa_status st"
    and "b = on_login_reply env pw (Inr payload) a"
  shows "token b = token a \<and> api b = api a \<and> route b = route a \<and> two_fa_required b"
  using assms by (simp add: on_login_reply_def)

theorem mfa_challenge_stays_out_witness:
  "two_fa_required (on_login_reply sample_env [] (Inr (JObj [(''status'', JStr ''mfa_required'')]))
     (load_page Map.empty [] None))"
  using mfa_challenge_stays_out [of "JObj [(''status'', JStr ''mfa_required'')]" "JStr ''mfa_required''"
      "on_login_reply sample_env [] (Inr (JObj [(''status'', JStr ''mfa_required'')])) (load_page Map.empty [] None)"
      sample_env "[]" "load_page Map.empty [] None"]
  by (simp add: jread_def nullish_def mfa_status_def)

end
