(* ===== verification/LiveAlerts.thy ===== *)
theory LiveAlerts
  imports AuthFlow
begin

section \<open>The live security feed (App.jsx, lines 285 to 330 and 1226 to 1383)\<close>

text \<open>
  Every ten seconds the page asks for the security signals after the last event it knows, keeps
  the recent critical ones to decide whether to raise an incident, and shows a few alerts: sorted
  by severity and time, throttled by type, capped by severity.  \<open>feed\<close> is the state this keeps,
  with the calls it makes in the order they are made.
\<close>

subsection \<open>Alerts and profiles\<close>

record alert =
  al_key :: string
  al_type :: json
  al_session :: json
  al_created :: json
  al_severity :: json
  al_title :: json
  al_hint :: json

definition severity_weight :: "json \<Rightarrow> nat" where
  "severity_weight s =
     (if js_string s = ''critical'' then 3 else if js_string s = ''warning'' then 2
      else if js_string s = ''ok'' then 1 else 0)"

definition severity_cooldown :: "json \<Rightarrow> rat" where
  "severity_cooldown s =
     (if js_string s = ''critical'' then 0 else if js_string s = ''warning'' then 45000
      else if js_string s = ''ok'' then 120000 else 60000)"

datatype severity = Critical | Warning | Okay

fun severity_text :: "severity \<Rightarrow> string" where
  "severity_text Critical = ''critical''"
| "severity_text Warning = ''warning''"
| "severity_text Okay = ''ok''"

record alert_profile =
  cooldown_multiplier :: rat
  max_of :: "severity \<Rightarrow> nat"
  max_total :: nat

definition max_visible :: "nat \<Rightarrow> nat \<Rightarrow> nat \<Rightarrow> severity \<Rightarrow> nat" where
  "max_visible c w k s = (case s of Critical \<Rightarrow> c | Warning \<Rightarrow> w | Okay \<Rightarrow> k)"

definition LIVE_ALERT_PROFILES :: "(string \<times> alert_profile) list" where
  "LIVE_ALERT_PROFILES =
     [(''strict'', \<lparr>cooldown_multiplier = 18 / 10, max_of = max_visible 2 2 1, max_total = 4\<rparr>),
      (''normal'', \<lparr>cooldown_multiplier = 1, max_of = max_visible 2 3 1, max_total = 5\<rparr>),
      (''permissive'', \<lparr>cooldown_multiplier = 55 / 100, max_of = max_visible 3 4 2, max_total = 7\<rparr>)]"

definition normal_profile :: alert_profile where
  "normal_profile = \<lparr>cooldown_multiplier = 1, max_of = max_visible 2 3 1, max_total = 5\<rparr>"

definition active_profile :: "string \<Rightarrow> alert_profile" where
  "active_profile name =
     (case map_of LIVE_ALERT_PROFILES name of Some p \<Rightarrow> p | None \<Rightarrow> normal_profile)"

subsection \<open>Order and caps\<close>

definition created_time :: "(int \<Rightarrow> int) \<Rightarrow> json \<Rightarrow> int \<Rightarrow> int" where
  "created_time zone created d =
     (case parse_of zone (jor created (JStr [])) of None \<Rightarrow> d | Some t \<Rightarrow> if t = 0 then d else t)"

text \<open>A negative value of \<open>compareLiveAlertPriority\<close>.\<close>

definition before_alert :: "(int \<Rightarrow> int) \<Rightarrow> alert \<Rightarrow> alert \<Rightarrow> bool" where
  "before_alert zone left right =
     (let delta = int (severity_weight (al_severity right)) - int (severity_weight (al_severity left)) in
      if delta \<noteq> 0 then delta < 0
      else created_time zone (al_created right) 0 - created_time zone (al_created left) 0 < 0)"

definition sort_alerts :: "(int \<Rightarrow> int) \<Rightarrow> alert list \<Rightarrow> alert list" where
  "sort_alerts zone = sort_by (before_alert zone)"

definition severity_class :: "json \<Rightarrow> severity" where
  "severity_class s =
     (if s = JStr ''critical'' then Critical else if s = JStr ''ok'' then Okay else Warning)"

fun cap_loop :: "alert_profile \<Rightarrow> (severity \<Rightarrow> nat) \<Rightarrow> nat \<Rightarrow> alert list \<Rightarrow> alert list" where
  "cap_loop p counts n [] = []"
| "cap_loop p counts n (item # rest) =
     (let s = severity_class (al_severity item) in
      if max_of p s \<le> counts s then cap_loop p counts n rest
      else if max_total p \<le> n then []
      else item\<lparr>al_severity := JStr (severity_text s)\<rparr>
             # cap_loop p (counts(s := counts s + 1)) (n + 1) rest)"

definition capLiveAlertsBySeverity :: "alert_profile \<Rightarrow> alert list \<Rightarrow> alert list" where
  "capLiveAlertsBySeverity p alerts = cap_loop p (\<lambda>_. 0) 0 alerts"

subsection \<open>The feed\<close>

record escalation =
  es_time :: int
  es_count :: nat

record feed =
  f_bootstrapped :: bool
  f_last_id :: rat
  f_cooldown :: "string \<Rightarrow> int option"
  f_critical :: "int list"
  f_cooldown_until :: int
  f_incident :: "escalation option"
  f_alerts :: "alert list"
  f_reports :: "escalation list"
  f_opened :: "escalation list"

definition empty_feed :: feed where
  "empty_feed =
     \<lparr>f_bootstrapped = False, f_last_id = 0, f_cooldown = Map.empty, f_critical = [],
      f_cooldown_until = 0, f_incident = None, f_alerts = [], f_reports = [], f_opened = []\<rparr>"

definition incident_window :: int where
  "incident_window = 5 * 60 * 1000"

definition is_critical :: "json \<Rightarrow> bool" where
  "is_critical item = (to_lower (text_or (jget item ''severity'') []) = ''critical'')"

definition next_critical :: "(int \<Rightarrow> int) \<Rightarrow> int \<Rightarrow> int list \<Rightarrow> json list \<Rightarrow> int list" where
  "next_critical zone now kept items =
     filter (\<lambda>ts. now - incident_window \<le> ts) kept @
     map (\<lambda>item. created_time zone (jget item ''createdAt'') now) (filter is_critical items)"

text \<open>Raising an incident: the banner, the audit report, and a case unless one is open.\<close>

definition raise_incident :: "bool \<Rightarrow> nat \<Rightarrow> int \<Rightarrow> feed \<Rightarrow> feed" where
  "raise_incident case_open count now f =
     (if f_cooldown_until f \<le> now then
        (let e = \<lparr>es_time = now, es_count = count\<rparr> in
         f\<lparr>f_cooldown_until := now + incident_window, f_incident := Some e,
           f_reports := f_reports f @ [e],
           f_opened := (if case_open then f_opened f else f_opened f @ [e])\<rparr>)
      else f)"

definition incoming_alert :: "json \<Rightarrow> alert" where
  "incoming_alert item =
     \<lparr>al_key = js_string (jget item ''id'') @ '':'' @ js_string (jget item ''eventType''),
      al_type = jget item ''eventType'',
      al_session = (let n = number_or (jget item ''sessionId'') 0 in if n = 0 then JNull else JNum n),
      al_created = jget item ''createdAt'',
      al_severity = jor (jget item ''severity'') (JStr ''warning''),
      al_title = jor (jget item ''title'') (JStr ''Security Signal''),
      al_hint = jor (jget item ''hint'') (JStr ''Investigate in audit timeline.'')\<rparr>"

definition cooldown_key :: "alert \<Rightarrow> string" where
  "cooldown_key al = js_string (jor (al_type al) (al_severity al))"

definition js_round :: "rat \<Rightarrow> int" where
  "js_round r = \<lfloor>r + 1 / 2\<rfloor>"

definition cooldown_ms :: "alert_profile \<Rightarrow> alert \<Rightarrow> int" where
  "cooldown_ms p al =
     js_round (severity_cooldown (al_severity al) *
       (if cooldown_multiplier p = 0 then 1 else cooldown_multiplier p))"

text \<open>The filter with its side effects: the alerts let through, the severities of the throttled
  ones, and the new times.\<close>

fun admit :: "alert_profile \<Rightarrow> int \<Rightarrow> string list \<Rightarrow> (string \<Rightarrow> int option) \<Rightarrow> alert list \<Rightarrow>
    alert list \<times> json list \<times> (string \<Rightarrow> int option)" where
  "admit p now existing cd [] = ([], [], cd)"
| "admit p now existing cd (al # als) =
     (if al_key al \<in> set existing then admit p now existing cd als
      else (let k = cooldown_key al; last = (case cd k of None \<Rightarrow> 0 | Some t \<Rightarrow> t) in
        if now - last < cooldown_ms p al then
          (let (xs, ths, cd') = admit p now existing cd als in (xs, al_severity al # ths, cd'))
        else
          (let (xs, ths, cd') = admit p now existing (cd(k \<mapsto> now)) als in (al # xs, ths, cd'))))"

definition throttled_alert :: "int \<Rightarrow> json list \<Rightarrow> alert" where
  "throttled_alert now ths =
     \<lparr>al_key = ''throttled:'' @ show_int now, al_type = JStr ''security.alerts.throttled'',
      al_session = JUndef, al_created = JStr (iso_of_ms now),
      al_severity = JStr (if \<exists>s \<in> set ths. js_string s \<in> {''warning'', ''critical''} then ''warning'' else ''ok''),
      al_title = JStr (show_nat (length ths) @ '' signal'' @ (if 1 < length ths then ''s'' else []) @ '' grouped''),
      al_hint = JStr ''Low-priority duplicates were throttled to keep focus on high-risk events.''\<rparr>"

definition show_alerts :: "(int \<Rightarrow> int) \<Rightarrow> alert_profile \<Rightarrow> int \<Rightarrow> json list \<Rightarrow> feed \<Rightarrow> feed" where
  "show_alerts zone p now items f =
     (let (xs, ths, cd) = admit p now (map al_key (f_alerts f)) (f_cooldown f)
                            (sort_alerts zone (map incoming_alert items));
          incoming = (if ths = [] then xs else xs @ [throttled_alert now ths])
      in f\<lparr>f_cooldown := cd,
           f_alerts := capLiveAlertsBySeverity p (sort_alerts zone (incoming @ f_alerts f))\<rparr>)"

definition incident_threshold :: nat where
  "incident_threshold = 3"

definition handle_items ::
    "(int \<Rightarrow> int) \<Rightarrow> alert_profile \<Rightarrow> bool \<Rightarrow> int \<Rightarrow> json list \<Rightarrow> feed \<Rightarrow> feed" where
  "handle_items zone p case_open now items f =
     (let crit = next_critical zone now (f_critical f) items;
          f1 = f\<lparr>f_critical := crit\<rparr>;
          f2 = (if incident_threshold \<le> length crit then raise_incident case_open (length crit) now f1 else f1)
      in show_alerts zone p now items f2)"

text \<open>One answer of the feed.  A failed call, and an item that is not an object, leave the feed as
  it is; the first answer only sets the starting point.\<close>

definition on_feed ::
    "(int \<Rightarrow> int) \<Rightarrow> alert_profile \<Rightarrow> bool \<Rightarrow> int \<Rightarrow> (js_error + json) \<Rightarrow> feed \<Rightarrow> feed" where
  "on_feed zone p case_open now reply f =
     (case reply of
        Inl e \<Rightarrow> f
      | Inr data \<Rightarrow>
          (let since = f_last_id f;
               next_id = number_or (jget data ''maxEventId'') since;
               items = array_or_empty (jget data ''items'') in
           if \<not> f_bootstrapped f then f\<lparr>f_bootstrapped := True, f_last_id := max since next_id\<rparr>
           else if items = [] then f\<lparr>f_last_id := max since next_id\<rparr>
           else if list_ex nullish items then f
           else (handle_items zone p case_open now items f)\<lparr>f_last_id := max since next_id\<rparr>))"

text \<open>The nine-second timer drops the last alert; the user can dismiss one, and the incident.\<close>

definition drop_oldest :: "feed \<Rightarrow> feed" where
  "drop_oldest f = f\<lparr>f_alerts := butlast (f_alerts f)\<rparr>"

definition dismissLiveSecurityAlert :: "string \<Rightarrow> feed \<Rightarrow> feed" where
  "dismissLiveSecurityAlert key f = f\<lparr>f_alerts := filter (\<lambda>al. al_key al \<noteq> key) (f_alerts f)\<rparr>"

definition dismissLiveSecurityIncident :: "feed \<Rightarrow> feed" where
  "dismissLiveSecurityIncident f = f\<lparr>f_incident := None\<rparr>"

subsection \<open>The cap\<close>

definition count_severity :: "severity \<Rightarrow> alert list \<Rightarrow> nat" where
  "count_severity s als = length (filter (\<lambda>al. al_severity al = JStr (severity_text s)) als)"

lemma severity_text_inject [simp]: "severity_text s = severity_text r \<longleftrightarrow> s = r"
  by (cases s; cases r) simp_all

lemma count_severity_Cons [simp]:
  "count_severity s (al\<lparr>al_severity := JStr (severity_text r)\<rparr> # als) =
     count_severity s als + (if r = s then 1 else 0)"
  by (simp add: count_severity_def)

lemma count_severity_Nil [simp]: "count_severity s [] = 0"
  by (simp add: count_severity_def)

lemma cap_loop_bounds:
  "(\<forall>s. counts s \<le> max_of p s) \<Longrightarrow> n \<le> max_total p \<Longrightarrow>
   n + length (cap_loop p counts n als) \<le> max_total p \<and>
   (\<forall>s. counts s + count_severity s (cap_loop p counts n als) \<le> max_of p s)"
proof (induction p counts n als rule: cap_loop.induct)
  case (1 p counts n)
  then show ?case by simp
next
  case (2 p counts n item rest)
  define s where "s = severity_class (al_severity item)"
  consider "max_of p s \<le> counts s" | "\<not> max_of p s \<le> counts s" "max_total p \<le> n"
    | "\<not> max_of p s \<le> counts s" "\<not> max_total p \<le> n" by blast
  then show ?case
  proof cases
    case 1
    with 2 show ?thesis by (simp add: s_def [symmetric])
  next
    case 2
    with "2.prems" show ?thesis by (simp add: s_def [symmetric])
  next
    case 3
    have "(\<forall>r. (counts(s := counts s + 1)) r \<le> max_of p r) \<and> n + 1 \<le> max_total p"
      using 2 3 by auto
    then have IH: "n + 1 + length (cap_loop p (counts(s := counts s + 1)) (n + 1) rest) \<le> max_total p \<and>
        (\<forall>r. (counts(s := counts s + 1)) r + count_severity r (cap_loop p (counts(s := counts s + 1)) (n + 1) rest)
             \<le> max_of p r)"
      using 2 3 s_def by blast
    have "counts r + count_severity r (cap_loop p counts n (item # rest)) \<le> max_of p r" for r
      using IH [THEN conjunct2, THEN spec, of r] 3 by (auto simp: s_def [symmetric] split: if_splits)
    with IH 3 show ?thesis by (simp add: s_def [symmetric])
  qed
qed

lemma cap_loop_keys: "set (map al_key (cap_loop p counts n als)) \<subseteq> set (map al_key als)"
  by (induction p counts n als rule: cap_loop.induct) (auto simp: Let_def fun_upd_def)

lemma cap_loop_classes:
  "al \<in> set (cap_loop p counts n als) \<Longrightarrow> \<exists>s. al_severity al = JStr (severity_text s)"
  by (induction p counts n als rule: cap_loop.induct) (auto simp: Let_def fun_upd_def split: if_splits)

text \<open>Never more alerts on screen than the profile allows, in total and of each severity, and
  every one shown is one of the alerts, with one of the three severities.\<close>

theorem visible_alerts_bounded:
  "length (capLiveAlertsBySeverity p als) \<le> max_total p \<and>
   count_severity s (capLiveAlertsBySeverity p als) \<le> max_of p s \<and>
   set (map al_key (capLiveAlertsBySeverity p als)) \<subseteq> set (map al_key als) \<and>
   list_all (\<lambda>al. \<exists>r. al_severity al = JStr (severity_text r)) (capLiveAlertsBySeverity p als)"
  using cap_loop_bounds [of "\<lambda>_. 0" p 0 als] cap_loop_keys [of p "\<lambda>_. 0" 0 als]
    cap_loop_classes [of _ p "\<lambda>_. 0" 0 als]
  by (auto simp: capLiveAlertsBySeverity_def list_all_iff)

subsection \<open>Throttling by type\<close>

definition last_shown :: "(string \<Rightarrow> int option) \<Rightarrow> alert \<Rightarrow> int" where
  "last_shown cd al = (case cd (cooldown_key al) of None \<Rightarrow> 0 | Some t \<Rightarrow> t)"

lemma admit_Cons:
  "admit p now ex cd (al # als) =
     (if al_key al \<in> set ex then admit p now ex cd als
      else if now - last_shown cd al < cooldown_ms p al then
        (let (xs, ths, cd') = admit p now ex cd als in (xs, al_severity al # ths, cd'))
      else (let (xs, ths, cd') = admit p now ex (cd(cooldown_key al \<mapsto> now)) als in (al # xs, ths, cd')))"
  by (simp add: last_shown_def Let_def)

declare admit.simps(2) [simp del]

lemma admit_spec:
  assumes "admit p now ex cd als = (xs, ths, cd')" and "\<forall>k t. cd k = Some t \<longrightarrow> t \<le> now" and "0 \<le> now"
  shows "(\<forall>al \<in> set xs. al \<in> set als \<and> al_key al \<notin> set ex \<and> cooldown_ms p al \<le> now - last_shown cd al \<and>
             cd' (cooldown_key al) = Some now) \<and>
         (\<forall>k t. cd' k = Some t \<longrightarrow> t \<le> now) \<and>
         (\<forall>k. cd' k = cd k \<or> cd' k = Some now)"
  using assms
proof (induction als arbitrary: cd xs ths cd')
  case Nil
  then show ?case by simp
next
  case (Cons al als)
  let ?cd1 = "cd(cooldown_key al \<mapsto> now)"
  consider (known) "al_key al \<in> set ex"
    | (throttled) "al_key al \<notin> set ex" "now - last_shown cd al < cooldown_ms p al"
    | (shown) "al_key al \<notin> set ex" "\<not> now - last_shown cd al < cooldown_ms p al" by blast
  then show ?case
  proof cases
    case known
    then show ?thesis using Cons by (fastforce simp: admit_Cons)
  next
    case throttled
    then obtain ths0 where "admit p now ex cd als = (xs, ths0, cd')"
      using Cons.prems(1) by (auto simp: admit_Cons split: prod.splits)
    then show ?thesis using Cons.IH Cons.prems by fastforce
  next
    case shown
    then obtain xs0 where xs: "xs = al # xs0" and rec: "admit p now ex ?cd1 als = (xs0, ths, cd')"
      using Cons.prems(1) by (auto simp: admit_Cons split: prod.splits)
    have "\<forall>k t. ?cd1 k = Some t \<longrightarrow> t \<le> now" using Cons.prems(2) by simp
    note IH = Cons.IH [OF rec this Cons.prems(3)]
    have later: "now - last_shown ?cd1 b \<le> now - last_shown cd b" for b
      using Cons.prems(2,3) by (auto simp: last_shown_def split: option.split)
    have "cd' (cooldown_key al) = Some now" using IH by (metis fun_upd_same)
    moreover have "\<forall>k. cd' k = cd k \<or> cd' k = Some now" using IH by (metis fun_upd_apply)
    moreover have "cooldown_ms p b \<le> now - last_shown cd b" if "b \<in> set xs0" for b
    proof -
      have "cooldown_ms p b \<le> now - last_shown ?cd1 b" using IH that by blast
      with later [of b] show ?thesis by linarith
    qed
    ultimately show ?thesis using IH shown(1,2) xs by auto
  qed
qed

text \<open>An alert that gets through had its whole cooldown since its type was last shown, and is not
  on screen already; every shown type remembers the time, so another alert of that type waits for
  its cooldown from then on.\<close>

theorem alert_cooldown:
  assumes "admit p t1 ex1 cd als = (xs, ths, cd1)" and "admit p t2 ex2 cd1 bls = (ys, ths2, cd2)"
    and "\<forall>k t. cd k = Some t \<longrightarrow> t \<le> t1" and "0 \<le> t1" and "t1 \<le> t2"
    and "a \<in> set xs" and "b \<in> set ys" and "cooldown_key a = cooldown_key b"
  shows "cooldown_ms p b \<le> t2 - t1 \<and> al_key b \<notin> set ex2"
proof -
  have "cd1 (cooldown_key b) = Some t1"
    using admit_spec [OF assms(1,3,4)] assms(6,8) by auto
  moreover have "\<forall>k t. cd1 k = Some t \<longrightarrow> t \<le> t2"
    using admit_spec [OF assms(1,3,4)] assms(5) by fastforce
  then have "cooldown_ms p b \<le> t2 - last_shown cd1 b \<and> al_key b \<notin> set ex2"
    using admit_spec [OF assms(2)] assms(4,5,7) by force
  ultimately show ?thesis by (simp add: last_shown_def)
qed

definition sample_alert :: "string \<Rightarrow> alert" where
  "sample_alert key =
     \<lparr>al_key = key, al_type = JStr ''auth.failed'', al_session = JNull, al_created = JStr [],
      al_severity = JStr ''warning'', al_title = JStr ''t'', al_hint = JStr ''h''\<rparr>"

theorem alert_cooldown_witness:
  "cooldown_ms normal_profile (sample_alert ''2'') \<le> 150000 - 100000"
proof -
  let ?cd1 = "Map.empty(''auth.failed'' \<mapsto> 100000 :: int)"
  have k: "cooldown_key (sample_alert x) = ''auth.failed''" for x
    by (simp add: cooldown_key_def sample_alert_def)
  have c: "cooldown_ms normal_profile (sample_alert x) = 45000" for x
    by (simp add: cooldown_ms_def sample_alert_def normal_profile_def severity_cooldown_def js_round_def)
      (simp add: floor_eq_iff)
  have 1: "admit normal_profile 100000 [] Map.empty [sample_alert ''1''] = ([sample_alert ''1''], [], ?cd1)"
    by (simp add: admit_Cons c k last_shown_def)
  have 2: "admit normal_profile 150000 [] ?cd1 [sample_alert ''2''] =
      ([sample_alert ''2''], [], ?cd1(''auth.failed'' \<mapsto> 150000))"
    by (simp add: admit_Cons c k last_shown_def)
  show ?thesis
    using alert_cooldown [OF 1 2, of "sample_alert ''1''" "sample_alert ''2''"] k by simp
qed

subsection \<open>Incidents\<close>

definition report_times :: "feed \<Rightarrow> int list" where
  "report_times f = map es_time (f_reports f)"

definition last_incident :: "feed \<Rightarrow> int" where
  "last_incident f = f_cooldown_until f - incident_window"

interpretation inc: throttle last_incident report_times "\<lambda>now. raise_incident open_case count now" incident_window
  for open_case count
  by unfold_locales
    (auto simp: raise_incident_def last_incident_def report_times_def incident_window_def Let_def)

lemma show_alerts_frame [simp]:
  "f_reports (show_alerts zone p now items f) = f_reports f"
  "f_cooldown_until (show_alerts zone p now items f) = f_cooldown_until f"
  "f_incident (show_alerts zone p now items f) = f_incident f"
  by (simp_all add: show_alerts_def Let_def split: prod.split)

lemma incident_frame [simp]:
  "report_times (f\<lparr>f_critical := x\<rparr>) = report_times f" "last_incident (f\<lparr>f_critical := x\<rparr>) = last_incident f"
  "report_times (f\<lparr>f_last_id := y\<rparr>) = report_times f" "last_incident (f\<lparr>f_last_id := y\<rparr>) = last_incident f"
  "report_times (show_alerts zone p now items f) = report_times f"
  "last_incident (show_alerts zone p now items f) = last_incident f"
  by (simp_all add: report_times_def last_incident_def)

lemma handle_items_in_order:
  assumes "inc.in_order earlier f" and "earlier \<le> now"
  shows "inc.in_order now (handle_items zone p oc now items f)"
proof -
  let ?f1 = "f\<lparr>f_critical := next_critical zone now (f_critical f) items\<rparr>"
  have f1: "inc.in_order earlier ?f1"
    by (rule inc.in_order_frame [OF assms(1)]) simp_all
  then have "inc.in_order now ?f1" and "inc.in_order now (raise_incident oc n now ?f1)" for n
    using inc.in_order_frame [OF f1 assms(2)] inc.in_order_fire [OF f1 assms(2)] by simp_all
  then have "inc.in_order now (if incident_threshold \<le> n then raise_incident oc n now ?f1 else ?f1)" for n
    by simp
  then show ?thesis
    unfolding handle_items_def Let_def by (rule inc.in_order_frame) simp_all
qed

inductive feed_run :: "int \<Rightarrow> feed \<Rightarrow> bool" where
  start: "0 \<le> now \<Longrightarrow> feed_run now empty_feed"
| poll: "feed_run earlier f \<Longrightarrow> earlier \<le> now \<Longrightarrow> feed_run now (on_feed zone p oc now reply f)"
| drop: "feed_run now f \<Longrightarrow> feed_run now (drop_oldest f)"
| dismiss: "feed_run now f \<Longrightarrow> feed_run now (dismissLiveSecurityAlert key f)"
| dismiss_incident: "feed_run now f \<Longrightarrow> feed_run now (dismissLiveSecurityIncident f)"

inductive_cases feed_run_cases: "feed_run now f"

lemma feed_run_in_order: "feed_run now f \<Longrightarrow> inc.in_order now f"
proof (induction rule: feed_run.induct)
  case (start now)
  then show ?case
    unfolding inc.in_order_def
    by (simp add: report_times_def last_incident_def empty_feed_def incident_window_def spaced_def)
next
  case (poll earlier f now zone p oc reply)
  note same = inc.in_order_frame [OF poll.IH poll.hyps(2)]
  show ?case
  proof (cases reply)
    case (Inl e)
    then show ?thesis by (auto simp: on_feed_def intro: same)
  next
    case (Inr data)
    have "inc.in_order now (f\<lparr>f_bootstrapped := True, f_last_id := y\<rparr>)" "inc.in_order now (f\<lparr>f_last_id := y\<rparr>)"
      "inc.in_order now f" for y
      by (rule same; simp add: report_times_def last_incident_def)+
    moreover have "inc.in_order now ((handle_items zone p oc now items f)\<lparr>f_last_id := y\<rparr>)" for items y
      by (rule inc.in_order_frame [OF handle_items_in_order [OF poll.IH poll.hyps(2)] order_refl]) simp_all
    ultimately show ?thesis by (simp add: Inr on_feed_def Let_def)
  qed
qed (erule inc.in_order_frame; simp add: report_times_def last_incident_def drop_oldest_def
       dismissLiveSecurityAlert_def dismissLiveSecurityIncident_def)+

text \<open>However signals arrive, the audit log gets at most one escalation in any five minutes.\<close>

theorem escalations_spaced:
  assumes "feed_run now f"
  shows "spaced 300000 (map es_time (f_reports f))"
  using feed_run_in_order [OF assms] unfolding inc.in_order_def
  by (simp add: report_times_def incident_window_def)

definition stale_signal :: json where
  "stale_signal = JObj [(''id'', JInt 1), (''severity'', JStr ''CRITICAL''),
     (''createdAt'', JStr ''1970-01-01T00:00:01Z'')]"

theorem escalations_spaced_witness:
  "spaced 300000 (map es_time (f_reports
     (on_feed (\<lambda>_. 0) normal_profile False 600000 (Inr (JObj [(''items'', JArr [stale_signal])])) empty_feed)))"
  by (rule escalations_spaced [OF feed_run.poll [OF feed_run.start [of 0]]]) simp_all

text \<open>The five-minute window is not applied to the signals of the answer itself: three critical
  signals, however old and far apart, raise an incident at once.\<close>

theorem stale_signals_raise_incident:
  assumes "f_bootstrapped f" and "f_cooldown_until f \<le> now"
    and "items = [a, b, c]" and "is_critical a" and "is_critical b" and "is_critical c"
  shows "f_incident (on_feed zone p oc now (Inr (JObj [(''items'', JArr items)])) f) \<noteq> None"
proof -
  have obj: "\<not> nullish x" if "is_critical x" for x
    using that by (auto simp: is_critical_def nullish_def text_or_def jor_def to_lower_def)
  have "3 \<le> length (next_critical zone now (f_critical f) items)"
    using assms(3-6) by (simp add: next_critical_def)
  then have "f_incident (handle_items zone p oc now items f) \<noteq> None"
    using assms(2) by (simp add: handle_items_def Let_def incident_threshold_def raise_incident_def)
  then show ?thesis
    using assms obj by (simp add: on_feed_def Let_def)
qed

theorem stale_signals_raise_incident_witness:
  "f_incident (on_feed (\<lambda>_. 0) normal_profile False 86400000000
      (Inr (JObj [(''items'', JArr [stale_signal, stale_signal, stale_signal])]))
      (empty_feed\<lparr>f_bootstrapped := True\<rparr>)) \<noteq> None"
proof -
  have "to_lower ''CRITICAL'' = ''critical''" by code_simp
  then have "is_critical stale_signal"
    by (simp add: is_critical_def stale_signal_def)
  then show ?thesis
    by (intro stale_signals_raise_incident [OF _ _ refl]) (simp_all add: empty_feed_def)
qed

end
