(* ===== verification/SessionStore.thy ===== *)
theory SessionStore
  imports Json
begin

section \<open>Lists of server records, updated by identifier (App.jsx)\<close>

text \<open>
  Sessions, access requests and the other lists of the page are arrays of server records; a reply
  replaces the record with the same numeric \<open>id\<close>
  (\<open>prev.map((item) => (item.id === id ? updated : item))\<close>).  The locale states what the
  handlers rely on; it is interpreted on that update.
\<close>

locale keyed_list =
  fixes ident :: "'i \<Rightarrow> 'k option"
    and update :: "'k \<Rightarrow> 'i \<Rightarrow> 'i list \<Rightarrow> 'i list"
  assumes length_update: "length (update k v xs) = length xs"
    and update_hit: "i < length xs \<Longrightarrow> ident (xs ! i) = Some k \<Longrightarrow> update k v xs ! i = v"
    and update_miss: "i < length xs \<Longrightarrow> ident (xs ! i) \<noteq> Some k \<Longrightarrow> update k v xs ! i = xs ! i"
begin

lemma update_keys:
  assumes "ident v = Some k"
  shows "map ident (update k v xs) = map ident xs"
proof (rule nth_equalityI)
  show "map ident (update k v xs) ! i = map ident xs ! i" if "i < length (map ident (update k v xs))" for i
    using that assms update_hit [of i xs k v] update_miss [of i xs k v]
    by (cases "ident (xs ! i) = Some k") (simp_all add: length_update)
qed (simp add: length_update)

lemma update_absent:
  assumes "Some k \<notin> ident ` set xs"
  shows "update k v xs = xs"
proof (rule nth_equalityI)
  show "update k v xs ! i = xs ! i" if "i < length (update k v xs)" for i
    using that assms update_miss by (metis length_update nth_mem image_eqI)
qed (simp add: length_update)

lemma update_others:
  "i < length xs \<Longrightarrow> update k v xs ! i \<in> {v, xs ! i}"
  using update_hit [of i xs k v] update_miss [of i xs k v] by blast

lemma update_commute:
  assumes "k \<noteq> l" and "ident v = Some k" and "ident w = Some l"
  shows "update k v (update l w xs) = update l w (update k v xs)"
proof (rule nth_equalityI)
  fix i assume "i < length (update k v (update l w xs))"
  then have i: "i < length xs" by (simp add: length_update)
  consider "ident (xs ! i) = Some k" | "ident (xs ! i) = Some l"
    | "ident (xs ! i) \<noteq> Some k" "ident (xs ! i) \<noteq> Some l" by blast
  then show "update k v (update l w xs) ! i = update l w (update k v xs) ! i"
    using i assms by cases (simp_all add: update_hit update_miss length_update)
qed (simp add: length_update)

end

definition item_id :: "json \<Rightarrow> rat option" where
  "item_id item = (case jget item ''id'' of JNum n \<Rightarrow> Some n | _ \<Rightarrow> None)"

definition replace_item :: "rat \<Rightarrow> json \<Rightarrow> json list \<Rightarrow> json list" where
  "replace_item k v items = map (\<lambda>item. if strict_eq (jget item ''id'') (JNum k) then v else item) items"

lemma same_item_id: "strict_eq (jget item ''id'') (JNum k) \<longleftrightarrow> item_id item = Some k"
  by (cases "jget item ''id''") (auto simp: item_id_def)

interpretation items: keyed_list item_id replace_item
  by unfold_locales (simp_all only: replace_item_def same_item_id length_map nth_map simp_thms if_True if_False)

end
