(* ===== verification/Incident.thy ===== *)
theory Incident
  imports LiveAlerts Sessions SessionStore
begin

section \<open>Incidents: suspect sessions, containment, cases (App.jsx, lines 332 to 342 and 1385 to 1584)\<close>

text \<open>
  When an incident is on screen the page correlates the audit events and the alerts of the five
  minutes before it with sessions, ranks the sessions, and offers to end the active ones, to turn
  containment on, and to open or close a case.  \<open>desk\<close> is the state these handlers change.
\<close>

record containment =
  ct_enabled :: bool
  ct_updated_at :: json
  ct_updated_by :: json
  ct_reason :: json

record desk =
  d_sessions :: "json list"
  d_error :: string
  d_confirm_open :: bool
  d_terminate_busy :: bool
  d_containment :: containment
  d_containment_busy :: bool
  d_case_active :: bool
  d_case :: json
  d_case_busy :: bool

subsection \<open>Suspects\<close>

definition extractSessionIdFromAuditItem :: "json \<Rightarrow> rat option" where
  "extractSessionIdFromAuditItem item =
     (if \<not> truthy (jget item ''payloadIsJson'') \<or> \<not> truthy (jget item ''payloadRaw'') then None
      else (case json_parse (js_string (jget item ''payloadRaw'')) of
         None \<Rightarrow> None
       | Some payload \<Rightarrow>
           (case js_number (jor (jget payload ''sessionId'') (JInt 0)) of
              None \<Rightarrow> None
            | Some n \<Rightarrow> if 0 < n then Some n else None)))"

record suspicion =
  su_signals :: nat
  su_critical :: nat
  su_last :: int

definition touchSuspicion ::
    "int \<Rightarrow> rat option \<Rightarrow> json \<Rightarrow> int \<Rightarrow> (rat \<times> suspicion) list \<Rightarrow> (rat \<times> suspicion) list" where
  "touchSuspicion incident sid severity signal by_id =
     (case sid of
        None \<Rightarrow> by_id
      | Some n \<Rightarrow>
          if n \<le> 0 then by_id
          else (let old = (case map_of by_id n of Some s \<Rightarrow> s
                           | None \<Rightarrow> \<lparr>su_signals = 0, su_critical = 0, su_last = 0\<rparr>)
                in assoc_set n
                     \<lparr>su_signals = su_signals old + 1,
                      su_critical = su_critical old +
                        (if to_lower (text_or severity []) = ''critical'' then 1 else 0),
                      su_last = max (su_last old) signal\<rparr> by_id))"

definition suspicious_type :: "string \<Rightarrow> bool" where
  "suspicious_type type =
     (str_includes type ''behavior.anomaly'' \<or> str_includes type ''session.create.unjustified'' \<or>
      (str_includes type ''session.dna'' \<and> str_includes type ''mismatch''))"

definition touch_audit ::
    "(int \<Rightarrow> int) \<Rightarrow> int \<Rightarrow> json \<Rightarrow> (rat \<times> suspicion) list \<Rightarrow> (rat \<times> suspicion) list" where
  "touch_audit zone incident item by_id =
     (let type = to_lower (text_or (jget item ''type'') []) in
      if created_time zone (jget item ''createdAt'') 0 < incident - incident_window \<or> \<not> suspicious_type type
      then by_id
      else touchSuspicion incident (extractSessionIdFromAuditItem item)
             (JStr (if str_includes type ''mismatch'' then ''critical'' else ''warning''))
             (created_time zone (jget item ''createdAt'') incident) by_id)"

definition touch_alert ::
    "(int \<Rightarrow> int) \<Rightarrow> int \<Rightarrow> alert \<Rightarrow> (rat \<times> suspicion) list \<Rightarrow> (rat \<times> suspicion) list" where
  "touch_alert zone incident al by_id =
     (if created_time zone (al_created al) 0 < incident - incident_window then by_id
      else touchSuspicion incident (Some (number_or (al_session al) 0)) (al_severity al)
             (created_time zone (al_created al) incident) by_id)"

definition suspicions ::
    "(int \<Rightarrow> int) \<Rightarrow> int \<Rightarrow> json list \<Rightarrow> alert list \<Rightarrow> (rat \<times> suspicion) list" where
  "suspicions zone incident audit alerts =
     fold (touch_alert zone incident) alerts (fold (touch_audit zone incident) audit [])"

definition find_session :: "rat \<Rightarrow> json list \<Rightarrow> json" where
  "find_session n sessions =
     (case find (\<lambda>s. strict_eq (jget s ''id'') (JNum n)) sessions of
        Some s \<Rightarrow> s
      | None \<Rightarrow> JObj [(''id'', JNum n), (''status'', JStr ''unknown''), (''target'', JStr ''n/a''),
                      (''user'', JStr ''n/a'')])"

record suspect =
  sp_session :: json
  sp_score :: int
  sp_suspicion :: suspicion

definition score_of :: "int \<Rightarrow> bool \<Rightarrow> suspicion \<Rightarrow> int" where
  "score_of incident is_active s =
     (let minutes = max 0 ((incident - su_last s) div 60000) in
      int (su_signals s) * 20 + int (su_critical s) * 25 + (if is_active then 30 else 0) +
      max 0 (20 - minutes * 4))"

definition session_active :: "json \<Rightarrow> bool" where
  "session_active s = (jget s ''status'' = JStr ''active'')"

definition suspect_of :: "int \<Rightarrow> json list \<Rightarrow> rat \<times> suspicion \<Rightarrow> suspect" where
  "suspect_of incident sessions entry =
     (let m = find_session (fst entry) sessions in
      \<lparr>sp_session = m, sp_score = score_of incident (session_active m) (snd entry),
       sp_suspicion = snd entry\<rparr>)"

definition incidentSuspectSessions ::
    "(int \<Rightarrow> int) \<Rightarrow> int \<Rightarrow> escalation option \<Rightarrow> json list \<Rightarrow> alert list \<Rightarrow> json list \<Rightarrow> suspect list" where
  "incidentSuspectSessions zone now incident audit alerts sessions =
     (case incident of
        None \<Rightarrow> []
      | Some e \<Rightarrow>
          (let ts = created_time zone (JStr (iso_of_ms (es_time e))) now in
           take 4 (sort_by (\<lambda>a b. sp_score b < sp_score a)
             (map (suspect_of ts sessions) (suspicions zone ts audit alerts)))))"

definition activeIncidentSuspectSessions :: "suspect list \<Rightarrow> suspect list" where
  "activeIncidentSuspectSessions suspects = filter (\<lambda>s. session_active (sp_session s)) suspects"

subsection \<open>Ending the suspect sessions\<close>

definition requestTerminateIncidentSuspects :: "bool \<Rightarrow> suspect list \<Rightarrow> desk \<Rightarrow> desk" where
  "requestTerminateIncidentSuspects can_operate targets d =
     (if \<not> can_operate then d\<lparr>d_error := ''You are not allowed to terminate sessions.''\<rparr>
      else if targets = [] then d\<lparr>d_error := ''No active correlated suspect sessions to terminate.''\<rparr>
      else d\<lparr>d_confirm_open := True\<rparr>)"

definition terminate_ids :: "suspect list \<Rightarrow> json list" where
  "terminate_ids targets = map (\<lambda>s. jget (sp_session s) ''id'') targets"

definition start_terminate_suspects :: "suspect list \<Rightarrow> desk \<Rightarrow> desk \<times> api_call list" where
  "start_terminate_suspects targets d =
     (if targets = [] \<or> d_terminate_busy d then (d, [])
      else (d\<lparr>d_terminate_busy := True\<rparr>, map terminateSession (terminate_ids targets)))"

definition fulfilled :: "json list \<Rightarrow> (js_error + json) list \<Rightarrow> (json \<times> json) list" where
  "fulfilled ids results =
     List.map_filter (\<lambda>(i, r). case r of Inr v \<Rightarrow> if truthy v then Some (i, v) else None | Inl _ \<Rightarrow> None)
       (zip ids results)"

definition updated_item :: "(json \<times> json) list \<Rightarrow> json \<Rightarrow> json" where
  "updated_item updated item =
     (case map_of (rev updated) (jget item ''id'') of Some v \<Rightarrow> v | None \<Rightarrow> item)"

text \<open>\<open>ids\<close> are those of the calls, \<open>results\<close> how each settled.\<close>

definition on_suspects_settled :: "json list \<Rightarrow> (js_error + json) list \<Rightarrow> desk \<Rightarrow> desk" where
  "on_suspects_settled ids results d =
     (let updated = fulfilled ids results;
          failed = length results - length updated
      in d\<lparr>d_sessions := map (updated_item updated) (d_sessions d),
           d_error := (if 0 < failed
                       then show_nat failed @ '' suspect session(s) could not be terminated.'' else []),
           d_terminate_busy := False, d_confirm_open := False\<rparr>)"

subsection \<open>Containment\<close>

definition containment_of :: "json \<Rightarrow> json \<Rightarrow> containment" where
  "containment_of payload who =
     \<lparr>ct_enabled = truthy (jget payload ''enabled''),
      ct_updated_at = jor (jget payload ''updatedAt'') (JStr []),
      ct_updated_by = jor (jget payload ''updatedBy'') who,
      ct_reason = jor (jget payload ''reason'') (JStr [])\<rparr>"

definition start_containment ::
    "bool \<Rightarrow> json \<Rightarrow> json \<Rightarrow> json \<Rightarrow> desk \<Rightarrow> desk \<times> api_call option" where
  "start_containment can_manage enabled reason incident_title d =
     (if d_containment_busy d then (d, None)
      else if \<not> can_manage then
        (d\<lparr>d_error := ''Only platform admins can change containment mode.''\<rparr>, None)
      else (d\<lparr>d_containment_busy := True\<rparr>,
            Some (setContainmentMode
              (JObj [(''enabled'', enabled),
                     (''reason'', jor (jor reason incident_title) (JStr ''incident.escalation''))]))))"

definition on_containment_reply :: "env \<Rightarrow> json \<Rightarrow> (js_error + json) \<Rightarrow> desk \<Rightarrow> desk" where
  "on_containment_reply env who reply d =
     (case reply of
        Inl e \<Rightarrow> d\<lparr>d_error := shown env e ''Unable to update containment mode'', d_containment_busy := False\<rparr>
      | Inr payload \<Rightarrow>
          d\<lparr>d_containment := containment_of payload who, d_error := [], d_containment_busy := False\<rparr>)"

text \<open>The fifteen-second pollers of the containment state and of the open case.\<close>

definition on_containment_poll :: "(js_error + json) \<Rightarrow> desk \<Rightarrow> desk" where
  "on_containment_poll reply d =
     d\<lparr>d_containment :=
         (case reply of
            Inl e \<Rightarrow> containment_of JUndef (JStr [])
          | Inr data \<Rightarrow> containment_of data (JStr []))\<rparr>"

definition on_case_poll :: "(js_error + json) \<Rightarrow> desk \<Rightarrow> desk" where
  "on_case_poll reply d =
     (case reply of
        Inl e \<Rightarrow> d\<lparr>d_case_active := False, d_case := JNull\<rparr>
      | Inr data \<Rightarrow> d\<lparr>d_case_active := truthy (jget data ''active''),
                     d_case := jor (jget data ''incident'') JNull\<rparr>)"

subsection \<open>Cases\<close>

definition incident_title :: string where
  "incident_title = ''Potential Security Incident''"

definition incident_hint :: string where
  "incident_hint = ''Multiple critical signals observed in a short window. Escalate and investigate immediately.''"

definition start_open_case :: "string \<Rightarrow> escalation option \<Rightarrow> desk \<Rightarrow> desk \<times> api_call option" where
  "start_open_case profile incident d =
     (if d_case_busy d then (d, None)
      else (d\<lparr>d_case_busy := True\<rparr>,
            Some (openSecurityIncident
              (JObj [(''criticalCount'', JInt (case incident of None \<Rightarrow> 0 | Some e \<Rightarrow> int (es_count e))),
                     (''windowSeconds'', JInt 300),
                     (''profile'', JStr profile),
                     (''title'', JStr incident_title),
                     (''summary'', JStr (case incident of None \<Rightarrow> ''Opened manually from incident banner.''
                                         | Some _ \<Rightarrow> incident_hint))]))))"

definition on_open_case_reply :: "env \<Rightarrow> (js_error + json) \<Rightarrow> desk \<Rightarrow> desk" where
  "on_open_case_reply env reply d =
     (case reply of
        Inl e \<Rightarrow> d\<lparr>d_error := shown env e ''Unable to open incident case'', d_case_busy := False\<rparr>
      | Inr payload \<Rightarrow>
          d\<lparr>d_case_active := truthy (jget payload ''active''),
            d_case := jor (jget payload ''incident'') JNull, d_error := [], d_case_busy := False\<rparr>)"

definition close_reason :: "escalation option \<Rightarrow> string" where
  "close_reason incident =
     (case incident of None \<Rightarrow> ''Incident mitigated and closed from UI'' | Some _ \<Rightarrow> incident_title)"

definition start_close_case :: "escalation option \<Rightarrow> desk \<Rightarrow> desk \<times> api_call option" where
  "start_close_case incident d =
     (if d_case_busy d \<or> \<not> d_case_active d then (d, None)
      else (d\<lparr>d_case_busy := True\<rparr>,
            Some (closeSecurityIncident (JObj [(''reason'', JStr (close_reason incident))]))))"

definition on_close_case_reply :: "env \<Rightarrow> escalation option \<Rightarrow> (js_error + json) \<Rightarrow> desk \<Rightarrow> desk" where
  "on_close_case_reply env incident reply d =
     (case reply of
        Inl e \<Rightarrow> d\<lparr>d_error := shown env e ''Unable to close incident case'', d_case_busy := False\<rparr>
      | Inr _ \<Rightarrow>
          d\<lparr>d_case_active := False,
            d_case := (if truthy (d_case d)
              then set_prop (set_prop (d_case d) ''closedAt'' (JStr (iso_of_ms (env_now env))))
                     ''closeReason'' (JStr (close_reason incident))
              else d_case d),
            d_error := [], d_case_busy := False\<rparr>)"

subsection \<open>Properties\<close>

definition well_suspected :: "(rat \<times> suspicion) list \<Rightarrow> bool" where
  "well_suspected by_id =
     (distinct (map fst by_id) \<and>
      list_all (\<lambda>(n, s). 0 < n \<and> 1 \<le> su_signals s \<and> su_critical s \<le> su_signals s) by_id)"

lemma touch_well:
  assumes "well_suspected by_id"
  shows "well_suspected (touchSuspicion incident sid severity signal by_id)"
proof (cases sid)
  case None
  with assms show ?thesis by (simp add: touchSuspicion_def)
next
  case (Some n)
  show ?thesis
  proof (cases "n \<le> 0")
    case True
    with assms Some show ?thesis by (simp add: touchSuspicion_def)
  next
    case False
    have "su_critical s \<le> su_signals s \<and> su_critical s \<le> Suc (su_signals s)"
      if "map_of by_id n = Some s" for s
      using assms map_of_SomeD [OF that] by (force simp: well_suspected_def list_all_iff)
    with assms Some False show ?thesis
      by (auto simp: touchSuspicion_def well_suspected_def Let_def assoc_set_distinct
          intro!: assoc_set_all split: option.split)
  qed
qed

lemma suspicions_well: "well_suspected (suspicions zone incident audit alerts)"
proof -
  have a: "well_suspected b \<Longrightarrow> well_suspected (fold (touch_audit zone incident) audit b)" for b
    by (induction audit arbitrary: b) (simp_all add: touch_audit_def Let_def touch_well)
  have b: "well_suspected b \<Longrightarrow> well_suspected (fold (touch_alert zone incident) alerts b)" for b
    by (induction alerts arbitrary: b) (simp_all add: touch_alert_def touch_well)
  show ?thesis
    unfolding suspicions_def by (intro a b) (simp add: well_suspected_def)
qed

lemma suspects_cases:
  obtains "incidentSuspectSessions zone now incident audit alerts sessions = []"
  | ts where "incidentSuspectSessions zone now incident audit alerts sessions =
      take 4 (sort_by (\<lambda>a b. sp_score b < sp_score a) (map (suspect_of ts sessions) (suspicions zone ts audit alerts)))"
  by (cases incident) (auto simp: incidentSuspectSessions_def Let_def)

lemma sort_desc: "sorted_wrt (\<lambda>a b. sp_score b \<le> sp_score a) (sort_by (\<lambda>a b. sp_score b < sp_score a) xs)"
  using sort_by_ordered [of "\<lambda>a b. sp_score b < sp_score a" xs] by (simp add: not_less)

text \<open>At most four suspects are proposed, highest score first, each with at least one signal and no
  more critical signals than signals; ending them touches only sessions that are active, one call
  for each.\<close>

theorem suspects_ranked_and_bounded:
  assumes "suspects = incidentSuspectSessions zone now incident audit alerts sessions"
  shows "length suspects \<le> 4 \<and> sorted_wrt (\<lambda>a b. sp_score b \<le> sp_score a) suspects \<and>
         list_all (\<lambda>s. 1 \<le> su_signals (sp_suspicion s) \<and>
                       su_critical (sp_suspicion s) \<le> su_signals (sp_suspicion s)) suspects \<and>
         length (snd (start_terminate_suspects (activeIncidentSuspectSessions suspects) d)) \<le> 4 \<and>
         set (snd (start_terminate_suspects (activeIncidentSuspectSessions suspects) d)) \<subseteq>
           (\<lambda>s. terminateSession (jget (sp_session s) ''id'')) `
             {s. s \<in> set suspects \<and> session_active (sp_session s)}"
proof -
  have calls: "snd (start_terminate_suspects ts d) \<in> {[], map terminateSession (terminate_ids ts)}" for ts
    by (simp add: start_terminate_suspects_def)
  have ranked: "length suspects \<le> 4 \<and> sorted_wrt (\<lambda>a b. sp_score b \<le> sp_score a) suspects \<and>
      list_all (\<lambda>s. 1 \<le> su_signals (sp_suspicion s) \<and>
                    su_critical (sp_suspicion s) \<le> su_signals (sp_suspicion s)) suspects"
  proof (cases rule: suspects_cases [of zone now incident audit alerts sessions])
    case 1
    with assms show ?thesis by simp
  next
    case (2 ts)
    have "1 \<le> su_signals (sp_suspicion s) \<and> su_critical (sp_suspicion s) \<le> su_signals (sp_suspicion s)"
      if "s \<in> set (map (suspect_of ts sessions) (suspicions zone ts audit alerts))" for s
      using suspicions_well [of zone ts audit alerts] that
      by (auto simp: list_all_iff well_suspected_def suspect_of_def Let_def)
    then show ?thesis
      unfolding assms 2 list_all_iff
      using sorted_wrt_take [OF sort_desc, of 4]
      by (auto dest!: in_set_takeD simp del: set_map)
  qed
  moreover have "length (activeIncidentSuspectSessions suspects) \<le> 4"
    using ranked length_filter_le [of "\<lambda>s. session_active (sp_session s)" suspects]
    unfolding activeIncidentSuspectSessions_def by linarith
  ultimately show ?thesis
    using calls [of "activeIncidentSuspectSessions suspects"]
    by (auto simp: terminate_ids_def activeIncidentSuspectSessions_def)
qed

definition sample_desk :: desk where
  "sample_desk =
     \<lparr>d_sessions = [JObj [(''id'', JInt 7), (''status'', JStr ''active'')],
                    JObj [(''id'', JInt 8), (''status'', JStr ''active'')]],
      d_error = [], d_confirm_open = True, d_terminate_busy = True,
      d_containment = containment_of JUndef JUndef, d_containment_busy = False, d_case_active = False,
      d_case = JNull, d_case_busy = False\<rparr>"

theorem suspects_ranked_and_bounded_witness:
  "length (incidentSuspectSessions (\<lambda>_. 0) 0 (Some \<lparr>es_time = 5, es_count = 3\<rparr>) [] [] (d_sessions sample_desk)) \<le> 4"
  using suspects_ranked_and_bounded [OF refl] by blast

lemma fulfilled_set:
  "(i, v) \<in> set (fulfilled ids results) \<longleftrightarrow> (i, Inr v) \<in> set (zip ids results) \<and> truthy v"
  by (induction ids results rule: list_induct2')
    (auto simp: fulfilled_def map_filter_simps split: sum.splits option.splits if_splits)

lemma distinct_fulfilled:
  "distinct ids \<Longrightarrow> distinct (map fst (fulfilled ids results))"
proof (induction ids results rule: list_induct2')
  case (4 i ids r results)
  have "i \<notin> fst ` set (fulfilled ids results)"
    using 4(2) by (auto simp: fulfilled_set dest: set_zip_leftD)
  with 4 show ?case
    by (auto simp: fulfilled_def map_filter_simps split: sum.split)
qed (simp_all add: fulfilled_def map_filter_simps)

lemma length_fulfilled: "length (fulfilled ids results) \<le> length results"
  by (induction ids results rule: list_induct2')
    (auto simp: fulfilled_def map_filter_simps split: sum.split)

text \<open>When the calls that end the suspects have settled, every session whose call succeeded is
  replaced by the server's version and every other session is as before, whatever failed; the dialog
  is closed and the buttons work again, and the error is empty exactly when all succeeded.\<close>

theorem suspects_settled:
  assumes "distinct ids" and "length results = length ids" and "i < length (d_sessions d)"
    and "s = d_sessions d ! i" and "d' = on_suspects_settled ids results d"
  shows "length (d_sessions d') = length (d_sessions d) \<and>
         (\<forall>v. (jget s ''id'', Inr v) \<in> set (zip ids results) \<and> truthy v \<longrightarrow> d_sessions d' ! i = v) \<and>
         ((\<nexists>v. (jget s ''id'', Inr v) \<in> set (zip ids results) \<and> truthy v) \<longrightarrow> d_sessions d' ! i = s) \<and>
         \<not> d_confirm_open d' \<and> \<not> d_terminate_busy d' \<and>
         (d_error d' = [] \<longleftrightarrow> length (fulfilled ids results) = length ids)"
proof -
  let ?u = "fulfilled ids results"
  have look: "map_of (rev ?u) k = Some v \<longleftrightarrow> (k, Inr v) \<in> set (zip ids results) \<and> truthy v" for k v
    using distinct_fulfilled [OF assms(1), of results] fulfilled_set [of k v ids results]
    by (simp add: rev_map [symmetric])
  have "d_sessions d' ! i = updated_item ?u s"
    using assms(3-5) by (simp add: on_suspects_settled_def Let_def)
  moreover have "updated_item ?u s = v" if "(jget s ''id'', Inr v) \<in> set (zip ids results)" "truthy v" for v
    using look [of "jget s ''id''" v] that by (simp add: updated_item_def)
  moreover have "updated_item ?u s = s" if "\<nexists>v. (jget s ''id'', Inr v) \<in> set (zip ids results) \<and> truthy v"
    using look [of "jget s ''id''"] that by (auto simp: updated_item_def split: option.split)
  ultimately show ?thesis
    using length_fulfilled [of ids results] assms(2,5)
    by (auto simp: on_suspects_settled_def Let_def)
qed

theorem suspects_settled_witness:
  "d_sessions (on_suspects_settled [JInt 7, JInt 8] [Inr (JStr ''ended''), Inl NetworkError] sample_desk) ! 0 = JStr ''ended''"
  by (rule suspects_settled [THEN conjunct2, THEN conjunct1, THEN spec, THEN mp, OF _ _ _ refl refl])
    (simp_all add: sample_desk_def)

end
