(* ===== verification/MfaSettings.thy ===== *)
theory MfaSettings
  imports AuthFlow
begin

section \<open>Two-factor settings, the first-login setup and the password (App.jsx)\<close>

text \<open>
  The handlers of the security settings and of the first-login dialog, each from the reply of the
  server on.  \<open>kept\<close> is the value of \<open>webauthnEnabled\<close> the handler captured when it was made.
\<close>

text \<open>\<open>'k' in v\<close>: \<open>None\<close> is the TypeError for a value that is not an object.\<close>

definition in_object :: "string \<Rightarrow> json \<Rightarrow> bool option" where
  "in_object k v = (case v of JObj _ \<Rightarrow> Some (has_prop v k) | JArr _ \<Rightarrow> Some False | _ \<Rightarrow> None)"

text \<open>\<open>if ('webauthnEnabled' in data) setWebauthnEnabled(!!data.webauthnEnabled);
  if (data.preferredMfaMethod) setPreferredMfaMethod(String(..))\<close>\<close>

definition keep_key_state :: "json \<Rightarrow> app \<Rightarrow> app" where
  "keep_key_state data a =
     (if in_object ''webauthnEnabled'' data = Some True
      then a\<lparr>webauthn_enabled := truthy (jget data ''webauthnEnabled'')\<rparr> else a)"

definition keep_preference :: "json \<Rightarrow> app \<Rightarrow> app" where
  "keep_preference data a =
     (if truthy (jget data ''preferredMfaMethod'')
      then a\<lparr>preferred_mfa := js_string (jget data ''preferredMfaMethod'')\<rparr> else a)"

definition keys_left :: "json \<Rightarrow> bool \<Rightarrow> bool" where
  "keys_left data kept =
     (if in_object ''webauthnEnabled'' data = Some True
      then truthy (jget data ''webauthnEnabled'') else kept)"

definition totp_failed :: "env \<Rightarrow> string \<Rightarrow> js_error \<Rightarrow> app \<Rightarrow> app" where
  "totp_failed env key e a = a\<lparr>totp_error := shown env e (tx env key)\<rparr>"

definition onSetup2FA :: "env \<Rightarrow> (js_error + json) \<Rightarrow> app \<Rightarrow> app" where
  "onSetup2FA env reply a =
     (let b = a\<lparr>totp_error := []\<rparr> in
      case reply of
        Inl e \<Rightarrow> totp_failed env ''feedback.failedSetup2fa'' e b
      | Inr data \<Rightarrow> b\<lparr>totp_setup := data\<rparr>)"

definition onVerify2FA :: "env \<Rightarrow> bool \<Rightarrow> (js_error + json) \<Rightarrow> app \<Rightarrow> app" where
  "onVerify2FA env kept reply a =
     (let b = a\<lparr>totp_error := []\<rparr> in
      case reply of
        Inl e \<Rightarrow> totp_failed env ''feedback.invalidCode'' e b
      | Inr data \<Rightarrow>
          (case in_object ''webauthnEnabled'' data of
             None \<Rightarrow> totp_failed env ''feedback.invalidCode'' TypeError (b\<lparr>totp_enabled := True\<rparr>)
           | Some _ \<Rightarrow>
               (keep_preference data (keep_key_state data (b\<lparr>totp_enabled := True\<rparr>)))
                 \<lparr>totp_setup := JNull, totp_setup_code := [], totp_error := [],
                  bootstrap := bootstrap_of (jor (jget data ''bootstrap'') (JObj [])) True
                    (keys_left data kept)\<rparr>))"

definition onDisable2FA :: "env \<Rightarrow> bool \<Rightarrow> (js_error + json) \<Rightarrow> app \<Rightarrow> app" where
  "onDisable2FA env kept reply a =
     (let b = a\<lparr>totp_error := []\<rparr> in
      case reply of
        Inl e \<Rightarrow> totp_failed env ''feedback.invalidCode'' e b
      | Inr data \<Rightarrow>
          (case in_object ''webauthnEnabled'' data of
             None \<Rightarrow> totp_failed env ''feedback.invalidCode'' TypeError (b\<lparr>totp_enabled := False\<rparr>)
           | Some _ \<Rightarrow>
               (let c = keep_preference data (keep_key_state data (b\<lparr>totp_enabled := False\<rparr>));
                    left = keys_left data kept
                in c\<lparr>totp_disable_code := [], totp_error := [],
                    bootstrap := (bootstrap c)\<lparr>bs_mfa := \<not> left, bs_totp := False, bs_webauthn := left\<rparr>\<rparr>)))"

definition onLoad2FAStatus :: "(js_error + json) \<Rightarrow> app \<Rightarrow> app" where
  "onLoad2FAStatus reply a =
     (case reply of
        Inl e \<Rightarrow> a
      | Inr data \<Rightarrow>
          (case jread data ''totpEnabled'' of
             None \<Rightarrow> a
           | Some totp \<Rightarrow>
               (case in_object ''webauthnEnabled'' data of
                  None \<Rightarrow> a\<lparr>totp_enabled := truthy totp\<rparr>
                | Some _ \<Rightarrow>
                    (let b = keep_key_state data (a\<lparr>totp_enabled := truthy totp\<rparr>) in
                     b\<lparr>webauthn_credentials := array_or_empty (jget data ''credentials''),
                       preferred_mfa := text_or (jget data ''preferredMfaMethod'') ''any'',
                       bootstrap := (bootstrap b)\<lparr>bs_totp := truthy totp,
                          bs_webauthn := truthy (jget data ''webauthnEnabled'')\<rparr>\<rparr>))))"

text \<open>\<open>status\<close> is the reply of the status call the handler awaits in the middle.\<close>

definition onRegisterPasskey :: "env \<Rightarrow> string \<Rightarrow> (js_error + json) \<Rightarrow> (js_error + json) \<Rightarrow> app \<Rightarrow> app" where
  "onRegisterPasskey env origin reply status a =
     (let b = a\<lparr>totp_error := []\<rparr>;
          failed = (\<lambda>e c.
            (let message = shown env e (tx env ''feedback.failedRegisterPasskey'') in
             c\<lparr>totp_error :=
                 (if str_includes (to_lower message) ''valid domain''
                  then message @ '' '' @ env_t env ''feedback.currentOrigin'' [(''value'', JStr origin)]
                  else message),
               webauthn_busy := False\<rparr>)) in
      case reply of
        Inl e \<Rightarrow> failed e b
      | Inr data \<Rightarrow>
          (case in_object ''webauthnEnabled'' data of
             None \<Rightarrow> failed TypeError b
           | Some _ \<Rightarrow>
               (onLoad2FAStatus status
                  (keep_preference data ((keep_key_state data b)\<lparr>totp_enabled := truthy (jget data ''totpEnabled'')\<rparr>)))
                 \<lparr>bootstrap := bootstrap_of (jor (jget data ''bootstrap'') (JObj []))
                    (truthy (jget data ''totpEnabled'')) (truthy (jget data ''webauthnEnabled'')),
                  webauthn_busy := False\<rparr>))"

definition onDeletePasskey :: "env \<Rightarrow> (js_error + json) \<Rightarrow> app \<Rightarrow> app" where
  "onDeletePasskey env reply a =
     (let b = a\<lparr>totp_error := []\<rparr> in
      case reply of
        Inl e \<Rightarrow> (totp_failed env ''feedback.failedRemovePasskey'' e b)\<lparr>webauthn_busy := False\<rparr>
      | Inr data \<Rightarrow>
          (case in_object ''webauthnEnabled'' data of
             None \<Rightarrow> (totp_failed env ''feedback.failedRemovePasskey'' TypeError b)\<lparr>webauthn_busy := False\<rparr>
           | Some _ \<Rightarrow>
               (let totp = truthy (jget data ''totpEnabled''); key = truthy (jget data ''webauthnEnabled'');
                    c = keep_preference data
                          ((keep_key_state data b)\<lparr>totp_enabled := totp,
                             webauthn_credentials := array_or_empty (jget data ''credentials'')\<rparr>)
                in c\<lparr>bootstrap := (bootstrap c)\<lparr>bs_mfa := \<not> totp \<and> \<not> key, bs_totp := totp, bs_webauthn := key\<rparr>,
                    webauthn_busy := False\<rparr>)))"

definition onUpdateMfaPreference :: "env \<Rightarrow> json \<Rightarrow> (js_error + json) \<Rightarrow> app \<Rightarrow> app" where
  "onUpdateMfaPreference env meth reply a =
     (let b = a\<lparr>totp_error := []\<rparr> in
      case reply of
        Inl e \<Rightarrow> totp_failed env ''feedback.failedSaveMfaPreference'' e b
      | Inr data \<Rightarrow>
          (case jread data ''preferredMfaMethod'' of
             None \<Rightarrow> totp_failed env ''feedback.failedSaveMfaPreference'' TypeError b
           | Some p \<Rightarrow> b\<lparr>preferred_mfa := text_or (jor p meth) ''any''\<rparr>))"

subsection \<open>The first-login setup\<close>

text \<open>The effect on the token: \<open>active\<close> is false when the token changed before the reply.\<close>

definition bootstrap_effect :: "app \<Rightarrow> app" where
  "bootstrap_effect a =
     (if truthy (token a) then a
      else a\<lparr>bootstrap := no_bootstrap, webauthn_enabled := False, webauthn_credentials := []\<rparr>)"

definition on_bootstrap_status :: "bool \<Rightarrow> (js_error + json) \<Rightarrow> app \<Rightarrow> app" where
  "on_bootstrap_status active reply a =
     (case reply of
        Inl e \<Rightarrow> a
      | Inr data \<Rightarrow>
          (case jread data ''bootstrap'' of
             None \<Rightarrow> a
           | Some v \<Rightarrow>
               if \<not> active then a
               else (let b = jor v (JObj []) in
                     a\<lparr>bootstrap := bootstrap_of b (truthy (jget b ''totpEnabled''))
                          (truthy (jget b ''webauthnEnabled''))\<rparr>)))"

text \<open>Changing the password: the call is made only when the two entries match.\<close>

definition start_change_password :: "env \<Rightarrow> app \<Rightarrow> app \<times> api_call option" where
  "start_change_password env a =
     (let b = a\<lparr>pw_error := [], pw_success := []\<rparr> in
      if pw_new a \<noteq> pw_confirm a then (b\<lparr>pw_error := tx env ''feedback.passwordsDoNotMatch''\<rparr>, None)
      else (b, Some (changePassword (JStr (pw_current a)) (JStr (pw_new a)) (JBool (bootstrapRequired a)))))"

text \<open>\<open>required\<close>, \<open>totp\<close> and \<open>key\<close> are the values captured when the form was submitted.\<close>

definition on_change_password ::
    "env \<Rightarrow> bool \<Rightarrow> bool \<Rightarrow> bool \<Rightarrow> (js_error + json) \<Rightarrow> app \<Rightarrow> app" where
  "on_change_password env required totp key reply a =
     (let failed = (\<lambda>e b. b\<lparr>pw_error := shown env e (tx env ''feedback.failedChangePassword'')\<rparr>) in
      case reply of
        Inl e \<Rightarrow> failed e a
      | Inr data \<Rightarrow>
          (let b = a\<lparr>pw_success := tx env (if required then ''feedback.passwordUpdatedContinueMfa''
                                           else ''feedback.passwordChanged''),
                     pw_current := [], pw_new := [], pw_confirm := []\<rparr> in
           case jread data ''bootstrap'' of
             None \<Rightarrow> failed TypeError b
           | Some v \<Rightarrow>
               b\<lparr>bootstrap := (if required then bootstrap_of (jor v (JObj [])) totp key
                               else no_bootstrap\<lparr>bs_totp := totp, bs_webauthn := key\<rparr>)\<rparr>))"

subsection \<open>Properties\<close>

lemma keep_fields [simp]:
  "token (keep_key_state d a) = token a" "api (keep_key_state d a) = api a"
  "token (keep_preference d a) = token a" "api (keep_preference d a) = api a"
  "webauthn_enabled (keep_preference d a) = webauthn_enabled a"
  "bootstrap (keep_preference d a) = bootstrap a" "bootstrap (keep_key_state d a) = bootstrap a"
  "totp_enabled (keep_preference d a) = totp_enabled a" "totp_enabled (keep_key_state d a) = totp_enabled a"
  by (simp_all add: keep_key_state_def keep_preference_def)

lemma keep_key_value:
  "webauthn_enabled (keep_key_state d a) =
     (if in_object ''webauthnEnabled'' d = Some True then truthy (jget d ''webauthnEnabled'')
      else webauthn_enabled a)"
  by (simp add: keep_key_state_def)

lemma load_status_fields [simp]:
  "token (onLoad2FAStatus r a) = token a" "api (onLoad2FAStatus r a) = api a"
  by (simp_all add: onLoad2FAStatus_def Let_def split: sum.split option.split)

lemma totp_failed_fields [simp]:
  "token (totp_failed env k e a) = token a" "api (totp_failed env k e a) = api a"
  by (simp_all add: totp_failed_def)

text \<open>No handler of the two-factor settings, of the password form or of the first-login setup
  signs anyone in or out, whatever the server replies.\<close>

theorem mfa_settings_keep_session:
  "(token (onSetup2FA env r a), api (onSetup2FA env r a)) = (token a, api a) \<and>
   (token (onVerify2FA env k r a), api (onVerify2FA env k r a)) = (token a, api a) \<and>
   (token (onDisable2FA env k r a), api (onDisable2FA env k r a)) = (token a, api a) \<and>
   (token (onRegisterPasskey env o1 r s a), api (onRegisterPasskey env o1 r s a)) = (token a, api a) \<and>
   (token (onDeletePasskey env r a), api (onDeletePasskey env r a)) = (token a, api a) \<and>
   (token (on_bootstrap_status act r a), api (on_bootstrap_status act r a)) = (token a, api a) \<and>
   (token (on_change_password env q m k r a), api (on_change_password env q m k r a)) = (token a, api a)"
  by (intro conjI)
    (simp_all add: onSetup2FA_def onVerify2FA_def onDisable2FA_def onRegisterPasskey_def
      onDeletePasskey_def on_bootstrap_status_def on_change_password_def Let_def
      split: sum.split option.split)

text \<open>After verifying or turning off the one-time password, the key state of the first-login
  setup is the key state of the settings, also when the server does not echo it: the captured value
  is kept in both.\<close>

theorem verify_disable_key_state:
  assumes "webauthn_enabled a = kept" and "in_object ''webauthnEnabled'' data \<noteq> None"
  shows "bs_webauthn (bootstrap (onVerify2FA env kept (Inr data) a)) =
           webauthn_enabled (onVerify2FA env kept (Inr data) a) \<and>
         bs_webauthn (bootstrap (onDisable2FA env kept (Inr data) a)) =
           webauthn_enabled (onDisable2FA env kept (Inr data) a)"
proof -
  obtain y where "in_object ''webauthnEnabled'' data = Some y" using assms(2) by blast
  then show ?thesis
    using assms(1)
    by (cases y) (simp_all add: onVerify2FA_def onDisable2FA_def Let_def keep_key_value keys_left_def bootstrap_of_def)
qed

theorem verify_disable_key_state_witness:
  "bs_webauthn (bootstrap (onDisable2FA sample_env True (Inr (JObj [])) ((load_page Map.empty [] None)\<lparr>webauthn_enabled := True\<rparr>)))"
  using verify_disable_key_state [of "(load_page Map.empty [] None)\<lparr>webauthn_enabled := True\<rparr>" True "JObj []" sample_env]
  by (simp add: in_object_def onDisable2FA_def Let_def keys_left_def)

text \<open>Reading the status back is different: a status without the key state keeps the setting but
  clears the key flag of the first-login setup, against the comment that says to keep ours.\<close>

theorem status_forgets_key_flag:
  assumes "webauthn_enabled a" and "bs_webauthn (bootstrap a)"
  shows "webauthn_enabled (onLoad2FAStatus (Inr (JObj [(''totpEnabled'', JBool b)])) a) \<and>
         \<not> bs_webauthn (bootstrap (onLoad2FAStatus (Inr (JObj [(''totpEnabled'', JBool b)])) a))"
  using assms by (simp add: onLoad2FAStatus_def jread_def nullish_def in_object_def Let_def keep_key_value)

theorem status_forgets_key_flag_witness:
  "\<not> bs_webauthn (bootstrap (onLoad2FAStatus (Inr (JObj [(''totpEnabled'', JBool True)]))
      ((load_page Map.empty [] None)\<lparr>webauthn_enabled := True,
         bootstrap := no_bootstrap\<lparr>bs_webauthn := True\<rparr>\<rparr>)))"
  using status_forgets_key_flag [of "(load_page Map.empty [] None)\<lparr>webauthn_enabled := True,
         bootstrap := no_bootstrap\<lparr>bs_webauthn := True\<rparr>\<rparr>" True]
  by simp

end
