(* ===== verification/Terminal.thy ===== *)
theory Terminal
  imports AuthFlow SessionStore
begin

section \<open>The SSH terminal of the page (App.jsx, lines 122 to 133, 342 to 347 and 1799 to 2300)\<close>

text \<open>
  One terminal, one socket at a time.  The socket object the handlers close over is a record with
  a number of its own and the values captured when it was made; \<open>t_socket\<close> is \<open>socketRef\<close>,
  \<open>t_listener\<close> the socket whose input listener is attached, \<open>t_states\<close> the \<open>readyState\<close>
  of each socket as the browser keeps it, \<open>t_made\<close> the sockets made so far.  What is sent is
  logged with the socket it goes to.
\<close>

datatype ready = Connecting | Opened | Closed

record socket =
  so_id :: nat
  so_session :: json
  so_password :: string

record terminal_state =
  t_session :: json
  t_status :: string
  t_error :: string
  t_info :: string
  t_password :: string
  t_ready :: bool
  t_auto :: json
  t_resume :: json
  t_socket :: "socket option"
  t_opened :: bool
  t_listener :: "nat option"
  t_states :: "nat \<Rightarrow> ready"
  t_made :: "socket list"
  t_sent :: "(nat \<times> json) list"
  t_written :: "string list"
  t_saved :: "string option"
  t_snippets :: "json list"
  t_snippet_label :: string
  t_snippet_command :: string
  t_resume_checked :: bool

subsection \<open>The session to resume after a reload\<close>

definition readOpenTerminal :: "terminal_state \<Rightarrow> rat" where
  "readOpenTerminal tm =
     number_or (case t_saved tm of None \<Rightarrow> JNull | Some s \<Rightarrow> JStr s) 0"

definition rememberOpenTerminal :: "json \<Rightarrow> terminal_state \<Rightarrow> terminal_state" where
  "rememberOpenTerminal sid tm = tm\<lparr>t_saved := Some (js_string sid)\<rparr>"

definition forgetOpenTerminal :: "terminal_state \<Rightarrow> terminal_state" where
  "forgetOpenTerminal tm = tm\<lparr>t_saved := None\<rparr>"

subsection \<open>Which resource a session is on\<close>

definition port_of :: "json \<Rightarrow> rat" where
  "port_of v = number_or (jget v ''port'') 0"

definition same_endpoint :: "json \<Rightarrow> json \<Rightarrow> bool" where
  "same_endpoint session item =
     (let target = trim (text_or (jget item ''target'') []);
          protocol = to_lower (text_or (jget item ''protocol'') []) in
      target \<noteq> [] \<and> protocol \<noteq> [] \<and> 0 < port_of item \<and>
      target = trim (text_or (jget session ''target'') []) \<and>
      protocol = to_lower (text_or (jget session ''protocol'') []) \<and>
      port_of item = port_of session)"

definition find_or_null :: "(json \<Rightarrow> bool) \<Rightarrow> json list \<Rightarrow> json" where
  "find_or_null P xs = (case find P xs of Some x \<Rightarrow> x | None \<Rightarrow> JNull)"

definition resolveSessionResource :: "json list \<Rightarrow> json \<Rightarrow> json" where
  "resolveSessionResource resources session =
     (if \<not> truthy session then JNull
      else (let rid = number_or (jget session ''resourceId'') 0;
                by_id = (if 0 < rid then find (\<lambda>r. js_number (jget r ''id'') = Some rid) resources else None)
            in case by_id of
                 Some r \<Rightarrow> r
               | None \<Rightarrow> find_or_null (same_endpoint session) resources))"

definition credential_source :: "json \<Rightarrow> json" where
  "credential_source v = jor (jget v ''credentialSource'') (JStr ''vaulted'')"

definition bastionInjectsCredential :: "json list \<Rightarrow> json \<Rightarrow> bool" where
  "bastionInjectsCredential resources session =
     (let r = resolveSessionResource resources session in
      truthy r \<and> (truthy (jget r ''hasCredentials'') \<or> credential_source r \<noteq> JStr ''vaulted''))"

subsection \<open>Opening a terminal\<close>

text \<open>What opening leads to: nothing more, or a lease to ask for first.\<close>

definition connect_injected :: "env \<Rightarrow> json \<Rightarrow> terminal_state \<Rightarrow> terminal_state" where
  "connect_injected env session tm =
     tm\<lparr>t_password := [], t_auto := jget session ''id'', t_info := tx env ''feedback.vaultInjected''\<rparr>"

definition reset_terminal :: "json \<Rightarrow> terminal_state \<Rightarrow> terminal_state" where
  "reset_terminal session tm =
     tm\<lparr>t_session := session, t_password := [], t_error := [], t_info := [], t_status := ''idle'',
        t_ready := False\<rparr>"

definition openTerminal ::
    "env \<Rightarrow> json list \<Rightarrow> bool \<Rightarrow> bool \<Rightarrow> json \<Rightarrow> terminal_state \<Rightarrow> terminal_state \<times> api_call option" where
  "openTerminal env resources jit resume session tm =
     (let a = reset_terminal session tm; sid = jget session ''id'' in
      if resume then
        (a\<lparr>t_resume := sid, t_auto := sid, t_info := tx env ''feedback.sessionResuming''\<rparr>, None)
      else
        (let b = a\<lparr>t_resume := JNull\<rparr>; r = resolveSessionResource resources session in
         if \<not> truthy r \<or> \<not> truthy (jget r ''hasCredentials'') then
           (b\<lparr>t_info := tx env ''feedback.manualPasswordRequired''\<rparr>, None)
         else if jor (jor (jget r ''credentialSource'') (jget session ''credentialSource'')) (JStr ''vaulted'')
                 \<noteq> JStr ''vaulted'' then
           (b\<lparr>t_auto := sid, t_info := ''Brokered session ready. Credentials stay on the bastion.''\<rparr>, None)
         else if \<not> jit then (connect_injected env session b, None)
         else (b\<lparr>t_info := tx env ''feedback.autoReconnectAttempt''\<rparr>,
               Some (issueEphemeralCredential (jget r ''id'')))))"

text \<open>The lease, then its use; a failure of either falls back to the injected secret.\<close>

definition lease_use :: "(js_error + json) \<Rightarrow> api_call option" where
  "lease_use reply =
     (case reply of
        Inl e \<Rightarrow> None
      | Inr lease \<Rightarrow> map_option consumeEphemeralCredential (jread lease ''leaseId''))"

definition on_lease_used :: "env \<Rightarrow> json \<Rightarrow> (js_error + json) \<Rightarrow> terminal_state \<Rightarrow> terminal_state" where
  "on_lease_used env session reply tm =
     (case reply of
        Inl e \<Rightarrow> connect_injected env session tm
      | Inr creds \<Rightarrow>
          (case jread creds ''sshPassword'' of
             None \<Rightarrow> connect_injected env session tm
           | Some p \<Rightarrow>
               if truthy p then
                 tm\<lparr>t_password := js_string p, t_auto := jget session ''id'',
                    t_info := tx env ''feedback.vaultCredentialsLoaded''\<rparr>
               else connect_injected env session tm))"

subsection \<open>Connecting\<close>

definition same_value :: "json \<Rightarrow> json \<Rightarrow> bool" where
  "same_value a b = strict_eq a b"

definition drop_socket :: "terminal_state \<Rightarrow> terminal_state" where
  "drop_socket tm =
     (let a = tm\<lparr>t_listener := None\<rparr> in
      case t_socket tm of
        None \<Rightarrow> a
      | Some s \<Rightarrow> a\<lparr>t_socket := None, t_states := (t_states a)(so_id s := Closed)\<rparr>)"

definition new_socket :: "terminal_state \<Rightarrow> socket" where
  "new_socket tm =
     \<lparr>so_id = length (t_made tm), so_session = t_session tm, so_password = t_password tm\<rparr>"

text \<open>\<open>has_terminal\<close>: the terminal instance exists; otherwise a retry is due in 150 ms.\<close>

definition connectTerminal ::
    "env \<Rightarrow> json list \<Rightarrow> json \<Rightarrow> bool \<Rightarrow> terminal_state \<Rightarrow> terminal_state" where
  "connectTerminal env resources auth_tok has_terminal tm =
     (let a = tm\<lparr>t_info := []\<rparr>; s = t_session tm in
      if \<not> truthy s then a\<lparr>t_error := tx env ''feedback.pickSessionToConnect''\<rparr>
      else if t_password tm = [] \<and> \<not> same_value (jget s ''id'') (t_resume tm) \<and>
              \<not> bastionInjectsCredential resources s
      then a\<lparr>t_error := tx env ''feedback.sshPasswordRequired''\<rparr>
      else if \<not> truthy auth_tok then a\<lparr>t_error := tx env ''feedback.signInFirst''\<rparr>
      else if \<not> has_terminal then a\<lparr>t_error := tx env ''feedback.terminalInitializing''\<rparr>
      else (drop_socket a)
             \<lparr>t_socket := Some (new_socket tm), t_made := t_made tm @ [new_socket tm],
              t_opened := False, t_status := ''connecting''\<rparr>)"

text \<open>The automatic connection once everything it needs is there.\<close>

definition auto_connect ::
    "env \<Rightarrow> json list \<Rightarrow> json \<Rightarrow> bool \<Rightarrow> terminal_state \<Rightarrow> terminal_state" where
  "auto_connect env resources auth_tok has_terminal tm =
     (if \<not> truthy (t_auto tm) \<or> \<not> t_ready tm \<or> \<not> truthy auth_tok then tm
      else if t_password tm = [] \<and> \<not> same_value (t_resume tm) (t_auto tm) \<and>
              \<not> bastionInjectsCredential resources (t_session tm) then tm
      else if \<not> truthy (t_session tm) \<or> \<not> same_value (jget (t_session tm) ''id'') (t_auto tm) then tm
      else connectTerminal env resources auth_tok has_terminal (tm\<lparr>t_auto := JNull\<rparr>))"

subsection \<open>Events of a socket\<close>

definition current :: "socket \<Rightarrow> terminal_state \<Rightarrow> bool" where
  "current s tm = (case t_socket tm of None \<Rightarrow> False | Some c \<Rightarrow> c = s)"

definition send_to :: "nat \<Rightarrow> json \<Rightarrow> terminal_state \<Rightarrow> terminal_state" where
  "send_to i msg tm = tm\<lparr>t_sent := t_sent tm @ [(i, msg)]\<rparr>"

definition start_message :: "socket \<Rightarrow> nat \<Rightarrow> nat \<Rightarrow> json" where
  "start_message s cols rows =
     JObj [(''type'', JStr ''start''), (''sessionId'', jget (so_session s) ''id''),
           (''password'', JStr (so_password s)), (''cols'', JInt (int cols)), (''rows'', JInt (int rows))]"

definition on_socket_open :: "nat \<Rightarrow> nat \<Rightarrow> socket \<Rightarrow> terminal_state \<Rightarrow> terminal_state" where
  "on_socket_open cols rows s tm =
     (let a = tm\<lparr>t_states := (t_states tm)(so_id s := Opened)\<rparr> in
      if \<not> current s tm then a
      else (send_to (so_id s) (start_message s cols rows)
             (rememberOpenTerminal (jget (so_session s) ''id'')
               (a\<lparr>t_opened := True, t_status := ''live''\<rparr>)))\<lparr>t_listener := Some (so_id s)\<rparr>)"

text \<open>Typed data: DEL goes out as backspace.\<close>

definition input_message :: "string \<Rightarrow> json" where
  "input_message data =
     JObj [(''type'', JStr ''input''), (''data'', JStr (replace_char (CHR 0x7F) (CHR 0x08) data))]"

definition on_typed :: "string \<Rightarrow> terminal_state \<Rightarrow> terminal_state" where
  "on_typed data tm =
     (case t_listener tm of
        None \<Rightarrow> tm
      | Some i \<Rightarrow> if t_states tm i = Opened then send_to i (input_message data) tm else tm)"

definition known_ssh_errors :: "(string \<times> string) list" where
  "known_ssh_errors =
     [(''Unable to resolve host'', ''feedback.sshHostUnknown''),
      (''Unable to connect'', ''feedback.sshUnreachable''),
      (''SSH handshake failed'', ''feedback.sshHandshake''),
      (''SSH authentication failed'', ''feedback.sshAuthFailed''),
      (''No SSH credential available for this session'', ''feedback.sshNoCredential'')]"

definition ssh_error_text :: "env \<Rightarrow> json \<Rightarrow> string" where
  "ssh_error_text env message =
     (case map_of known_ssh_errors (js_string message) of
        Some key \<Rightarrow> tx env key
      | None \<Rightarrow>
          str_or (case message of
                    JStr m \<Rightarrow> translateServerMessage m (env_loc env)
                  | _ \<Rightarrow> if truthy message then translateServerMessage (js_string message) (env_loc env) else [])
            (tx env ''feedback.sshError''))"

definition is_status :: "json \<Rightarrow> string \<Rightarrow> bool" where
  "is_status payload msg = (jget payload ''type'' = JStr ''status'' \<and> jget payload ''message'' = JStr msg)"

text \<open>A text message: a control message, or shown as it is when it is not JSON, or is \<open>null\<close>.\<close>

definition on_socket_text :: "env \<Rightarrow> string \<Rightarrow> socket \<Rightarrow> terminal_state \<Rightarrow> terminal_state" where
  "on_socket_text env data s tm =
     (if \<not> current s tm then tm
      else (case json_parse data of
         None \<Rightarrow> tm\<lparr>t_written := t_written tm @ [data]\<rparr>
       | Some payload \<Rightarrow>
           if nullish payload then tm\<lparr>t_written := t_written tm @ [data]\<rparr>
           else (let a = (if is_status payload ''Session resumed''
                          then tm\<lparr>t_resume := JNull, t_info := tx env ''feedback.sessionResumed''\<rparr>
                          else if is_status payload ''SSH closed'' then forgetOpenTerminal tm else tm)
                 in if jget payload ''type'' = JStr ''error'' then
                      (forgetOpenTerminal a)
                        \<lparr>t_resume := JNull, t_status := ''error'',
                         t_error := ssh_error_text env (jget payload ''message'')\<rparr>
                    else a)))"

definition on_socket_bytes :: "string \<Rightarrow> socket \<Rightarrow> terminal_state \<Rightarrow> terminal_state" where
  "on_socket_bytes data s tm =
     (if \<not> current s tm then tm else tm\<lparr>t_written := t_written tm @ [data]\<rparr>)"

definition on_socket_close :: "env \<Rightarrow> int \<Rightarrow> socket \<Rightarrow> terminal_state \<Rightarrow> terminal_state" where
  "on_socket_close env closing s tm =
     (let a = tm\<lparr>t_states := (t_states tm)(so_id s := Closed)\<rparr> in
      if \<not> current s tm then a
      else (let b = a\<lparr>t_listener := None, t_socket := None\<rparr> in
        if \<not> t_opened tm then b\<lparr>t_status := ''error'', t_error := tx env ''feedback.sshRejected''\<rparr>
        else if closing = 1008 \<or> closing = 1006
        then b\<lparr>t_status := ''error'', t_error := tx env ''feedback.sshInterrupted''\<rparr>
        else b\<lparr>t_status := ''closed''\<rparr>))"

definition on_socket_error :: "env \<Rightarrow> socket \<Rightarrow> terminal_state \<Rightarrow> terminal_state" where
  "on_socket_error env s tm =
     (if \<not> current s tm then tm
      else tm\<lparr>t_status := ''error'', t_error := tx env ''feedback.websocketTransportError''\<rparr>)"

text \<open>The terminal is built for a session, and taken down when the session changes.\<close>

definition terminal_mounted :: "terminal_state \<Rightarrow> terminal_state" where
  "terminal_mounted tm = tm\<lparr>t_ready := True\<rparr>"

definition terminal_unmounted :: "terminal_state \<Rightarrow> terminal_state" where
  "terminal_unmounted tm = (drop_socket tm)\<lparr>t_ready := False\<rparr>"

definition socket_is_open :: "terminal_state \<Rightarrow> nat option" where
  "socket_is_open tm =
     (case t_socket tm of None \<Rightarrow> None | Some s \<Rightarrow> if t_states tm (so_id s) = Opened then Some (so_id s) else None)"

definition refitTerminal :: "nat \<Rightarrow> nat \<Rightarrow> terminal_state \<Rightarrow> terminal_state" where
  "refitTerminal cols rows tm =
     (case socket_is_open tm of
        None \<Rightarrow> tm
      | Some i \<Rightarrow> send_to i (JObj [(''type'', JStr ''resize''), (''cols'', JInt (int cols)), (''rows'', JInt (int rows))]) tm)"


subsection \<open>Snippets\<close>

definition DEFAULT_SSH_SNIPPETS :: "json list" where
  "DEFAULT_SSH_SNIPPETS =
     [JObj [(''id'', JStr ''health''), (''labelKey'', JStr ''Health Snapshot''),
            (''command'', JStr ''whoami && hostname && uptime'')],
      JObj [(''id'', JStr ''net''), (''labelKey'', JStr ''Network Quick Check''),
            (''command'', JStr ''ip a && ss -tulpen | head -n 30'')],
      JObj [(''id'', JStr ''disk''), (''labelKey'', JStr ''Disk Pressure''),
            (''command'', JStr ''df -h && du -sh /var/log 2>/dev/null'')],
      JObj [(''id'', JStr ''proc''), (''labelKey'', JStr ''Top Processes''),
            (''command'', JStr ''ps aux --sort=-%cpu | head -n 15'')]]"

definition normalized_snippet :: "json \<Rightarrow> json" where
  "normalized_snippet item =
     JObj [(''id'', JStr (text_or (jget item ''id'') [])),
           (''label'', JStr (trim (text_or (jget item ''label'') []))),
           (''command'', JStr (trim (text_or (jget item ''command'') [])))]"

definition complete_snippet :: "json \<Rightarrow> bool" where
  "complete_snippet item =
     (truthy (jget item ''id'') \<and> truthy (jget item ''label'') \<and> truthy (jget item ''command''))"

definition sshSnippetLibrary :: "json list \<Rightarrow> json list" where
  "sshSnippetLibrary custom =
     map (\<lambda>item. set_prop (set_prop item ''label'' (jget item ''labelKey'')) ''custom'' (JBool False))
       DEFAULT_SSH_SNIPPETS @
     map (\<lambda>item. set_prop item ''custom'' (JBool True))
       (filter complete_snippet (map normalized_snippet custom))"

definition sendSnippetToTerminal :: "env \<Rightarrow> json \<Rightarrow> bool \<Rightarrow> terminal_state \<Rightarrow> terminal_state" where
  "sendSnippetToTerminal env snippet execute tm =
     (if \<not> truthy (jget snippet ''command'') then tm
      else (case socket_is_open tm of
         None \<Rightarrow> tm\<lparr>t_error := tx env ''feedback.connectTerminalBeforeSnippets''\<rparr>
       | Some i \<Rightarrow>
           (let command = jget snippet ''command'';
                payload = (if execute then JStr (js_string command @ [CHR 0x0A]) else command);
                label = [(''label'', jget snippet ''label'')]
            in (send_to i (JObj [(''type'', JStr ''input''), (''data'', payload)]) tm)
                 \<lparr>t_info := (if execute then env_t env ''feedback.snippetExecuted'' label
                             else env_t env ''feedback.snippetInjected'' label)\<rparr>)))"

definition addCustomSnippet :: "env \<Rightarrow> terminal_state \<Rightarrow> terminal_state" where
  "addCustomSnippet env tm =
     (let label = trim (t_snippet_label tm); command = trim (t_snippet_command tm) in
      if label = [] \<or> command = [] then tm\<lparr>t_error := tx env ''feedback.snippetRequired''\<rparr>
      else tm\<lparr>t_snippets := t_snippets tm @
                [JObj [(''id'', JStr (''custom-'' @ show_int (env_now env))), (''label'', JStr label),
                       (''command'', JStr command)]],
              t_snippet_label := [], t_snippet_command := [], t_error := [],
              t_info := env_t env ''feedback.snippetSaved'' [(''label'', JStr label)]\<rparr>)"

definition removeCustomSnippet :: "json \<Rightarrow> terminal_state \<Rightarrow> terminal_state" where
  "removeCustomSnippet snippet_id tm =
     tm\<lparr>t_snippets := filter (\<lambda>item. \<not> strict_eq (jget item ''id'') snippet_id) (t_snippets tm)\<rparr>"

subsection \<open>Resuming after a reload, and ending a session\<close>

definition resumable :: "json \<Rightarrow> bool" where
  "resumable session =
     (jget session ''status'' = JStr ''active'' \<and>
      to_lower (text_or (jget session ''protocol'') []) = ''ssh'')"

definition resume_check ::
    "env \<Rightarrow> json list \<Rightarrow> bool \<Rightarrow> json \<Rightarrow> json list \<Rightarrow> terminal_state \<Rightarrow> terminal_state" where
  "resume_check env resources jit auth_tok sessions tm =
     (if t_resume_checked tm \<or> \<not> truthy auth_tok \<or> truthy (t_session tm) \<or> sessions = [] then tm
      else (let a = tm\<lparr>t_resume_checked := True\<rparr>; sid = readOpenTerminal tm in
        if sid = 0 then a
        else (case find (\<lambda>item. strict_eq (jget item ''id'') (JNum sid)) sessions of
                None \<Rightarrow> forgetOpenTerminal a
              | Some session \<Rightarrow>
                  if resumable session then fst (openTerminal env resources jit True session a)
                  else forgetOpenTerminal a)))"

definition onTerminate_start :: "json \<Rightarrow> terminal_state \<Rightarrow> terminal_state \<times> api_call" where
  "onTerminate_start sid tm =
     (if strict_eq (JNum (readOpenTerminal tm)) sid then forgetOpenTerminal tm else tm,
      terminateSession sid)"

definition onTerminate_reply ::
    "env \<Rightarrow> rat \<Rightarrow> (js_error + json) \<Rightarrow> json list \<Rightarrow> string \<Rightarrow> json list \<times> string" where
  "onTerminate_reply env sid reply sessions session_error =
     (case reply of
        Inr updated \<Rightarrow> (replace_item sid updated sessions, session_error)
      | Inl e \<Rightarrow> (sessions, shown env e (tx env ''feedback.unableTerminateSession'')))"


subsection \<open>The WebSocket address\<close>

text \<open>For a path of this site; \<open>params_set\<close> keeps one value per name.\<close>

definition buildWebSocketUrl :: "bool \<Rightarrow> string \<Rightarrow> string \<Rightarrow> (string \<times> json) list \<Rightarrow> string" where
  "buildWebSocketUrl https host path params =
     (let kept = filter (\<lambda>(k, v). \<not> nullish v \<and> v \<noteq> JStr []) params;
          query = fold (\<lambda>(k, v). params_set k (js_string v)) kept [] in
      (if https then ''wss:'' else ''ws:'') @ ''//'' @ host @ path @
      (if query = [] then [] else ''?'' @ query_string query))"

subsection \<open>Every order of events\<close>

definition blank_terminal :: "string option \<Rightarrow> json list \<Rightarrow> terminal_state" where
  "blank_terminal saved snippets =
     \<lparr>t_session = JNull, t_status = ''idle'', t_error = [], t_info = [], t_password = [], t_ready = False,
      t_auto = JNull, t_resume = JNull, t_socket = None, t_opened = False, t_listener = None,
      t_states = (\<lambda>i. Connecting), t_made = [], t_sent = [], t_written = [], t_saved = saved,
      t_snippets = snippets, t_snippet_label = [], t_snippet_command = [], t_resume_checked = False\<rparr>"

text \<open>A socket reports that it is open once, while it connects.\<close>

inductive terminal_run :: "terminal_state \<Rightarrow> bool" where
  start: "terminal_run (blank_terminal saved snippets)"
| fields: "terminal_run tm \<Longrightarrow> terminal_run (tm\<lparr>t_password := p, t_snippet_label := l, t_snippet_command := c\<rparr>)"
| opens: "terminal_run tm \<Longrightarrow> terminal_run (fst (openTerminal env resources jit resume session tm))"
| lease: "terminal_run tm \<Longrightarrow> terminal_run (on_lease_used env session reply tm)"
| connect: "terminal_run tm \<Longrightarrow> terminal_run (connectTerminal env resources tok has_terminal tm)"
| auto: "terminal_run tm \<Longrightarrow> terminal_run (auto_connect env resources tok has_terminal tm)"
| opened: "terminal_run tm \<Longrightarrow> s \<in> set (t_made tm) \<Longrightarrow> t_states tm (so_id s) = Connecting
    \<Longrightarrow> terminal_run (on_socket_open cols rows s tm)"
| typed: "terminal_run tm \<Longrightarrow> terminal_run (on_typed data tm)"
| text_in: "terminal_run tm \<Longrightarrow> terminal_run (on_socket_text env data s tm)"
| bytes_in: "terminal_run tm \<Longrightarrow> terminal_run (on_socket_bytes data s tm)"
| closed: "terminal_run tm \<Longrightarrow> s \<in> set (t_made tm) \<Longrightarrow> terminal_run (on_socket_close env closing s tm)"
| failed: "terminal_run tm \<Longrightarrow> terminal_run (on_socket_error env s tm)"
| mounted: "terminal_run tm \<Longrightarrow> terminal_run (terminal_mounted tm)"
| unmounted: "terminal_run tm \<Longrightarrow> terminal_run (terminal_unmounted tm)"
| refit: "terminal_run tm \<Longrightarrow> terminal_run (refitTerminal cols rows tm)"
| snippet: "terminal_run tm \<Longrightarrow> terminal_run (sendSnippetToTerminal env item execute tm)"
| add_snippet: "terminal_run tm \<Longrightarrow> terminal_run (addCustomSnippet env tm)"
| drop_snippet: "terminal_run tm \<Longrightarrow> terminal_run (removeCustomSnippet sid tm)"
| resumes: "terminal_run tm \<Longrightarrow> terminal_run (resume_check env resources jit tok sessions tm)"
| terminates: "terminal_run tm \<Longrightarrow> terminal_run (fst (onTerminate_start sid tm))"

subsection \<open>What no order of events breaks\<close>

definition to_socket :: "nat \<Rightarrow> (nat \<times> json) list \<Rightarrow> json list" where
  "to_socket i sent = map snd (filter (\<lambda>(j, m). j = i) sent)"

definition not_start :: "json \<Rightarrow> bool" where
  "not_start m = (jget m ''type'' \<noteq> JStr ''start'')"

definition begun :: "socket \<Rightarrow> json list \<Rightarrow> bool" where
  "begun s ms = (\<exists>cols rows rest. ms = start_message s cols rows # rest \<and> list_all not_start rest)"

definition wired :: "terminal_state \<Rightarrow> bool" where
  "wired tm =
     ((\<forall>i < length (t_made tm). so_id (t_made tm ! i) = i) \<and>
      (\<forall>i. length (t_made tm) \<le> i \<longrightarrow> t_states tm i = Connecting) \<and>
      (\<forall>i. t_states tm i = Connecting \<longrightarrow> to_socket i (t_sent tm) = []) \<and>
      (\<forall>s. t_socket tm = Some s \<longrightarrow> s \<in> set (t_made tm)) \<and>
      (\<forall>i. t_listener tm = Some i \<longrightarrow> (\<exists>s. t_socket tm = Some s \<and> so_id s = i)) \<and>
      (\<forall>s. t_socket tm = Some s \<longrightarrow> t_states tm (so_id s) = Opened \<longrightarrow> to_socket (so_id s) (t_sent tm) \<noteq> []) \<and>
      (\<forall>s \<in> set (t_made tm). to_socket (so_id s) (t_sent tm) = [] \<or> begun s (to_socket (so_id s) (t_sent tm))))"

definition wiring :: "terminal_state \<Rightarrow> socket option \<times> nat option \<times> (nat \<Rightarrow> ready) \<times> socket list \<times> (nat \<times> json) list" where
  "wiring tm = (t_socket tm, t_listener tm, t_states tm, t_made tm, t_sent tm)"

lemma wired_cong: "wiring a = wiring b \<Longrightarrow> wired a = wired b"
  by (simp add: wiring_def wired_def)

named_theorems keeps_wiring

lemma wiring_forget [keeps_wiring]: "wiring (forgetOpenTerminal tm) = wiring tm"
  by (simp add: wiring_def forgetOpenTerminal_def)

lemma wiring_injected [keeps_wiring]: "wiring (connect_injected env s tm) = wiring tm"
  by (simp add: wiring_def connect_injected_def)

lemma wiring_reset [keeps_wiring]: "wiring (reset_terminal s tm) = wiring tm"
  by (simp add: wiring_def reset_terminal_def)

lemma wiring_fields [keeps_wiring]:
  "wiring (t_resume_update f tm) = wiring tm" "wiring (t_auto_update f1 tm) = wiring tm"
  "wiring (t_info_update f2 tm) = wiring tm" "wiring (t_error_update f2 tm) = wiring tm"
  "wiring (t_password_update f2 tm) = wiring tm" "wiring (t_status_update f2 tm) = wiring tm"
  "wiring (t_written_update f3 tm) = wiring tm" "wiring (t_ready_update f4 tm) = wiring tm"
  "wiring (t_snippets_update f5 tm) = wiring tm" "wiring (t_snippet_label_update f2 tm) = wiring tm"
  "wiring (t_snippet_command_update f2 tm) = wiring tm" "wiring (t_resume_checked_update f4 tm) = wiring tm"
  "wiring (t_opened_update f4 tm) = wiring tm" "wiring (t_saved_update f6 tm) = wiring tm"
  by (simp_all add: wiring_def)

lemma wiring_opens [keeps_wiring]: "wiring (fst (openTerminal env rs jit resume s tm)) = wiring tm"
  by (simp add: openTerminal_def Let_def keeps_wiring)

lemma wiring_lease [keeps_wiring]: "wiring (on_lease_used env s reply tm) = wiring tm"
  by (simp add: on_lease_used_def keeps_wiring split: sum.split option.split)

lemma wiring_text [keeps_wiring]: "wiring (on_socket_text env data s tm) = wiring tm"
  by (simp add: on_socket_text_def Let_def keeps_wiring split: option.split)

lemma wiring_events [keeps_wiring]:
  "wiring (on_socket_bytes data s tm) = wiring tm" "wiring (on_socket_error env s tm) = wiring tm"
  "wiring (terminal_mounted tm) = wiring tm" "wiring (addCustomSnippet env tm) = wiring tm"
  "wiring (removeCustomSnippet sid tm) = wiring tm" "wiring (fst (onTerminate_start sid tm)) = wiring tm"
  by (simp_all add: on_socket_bytes_def on_socket_error_def terminal_mounted_def addCustomSnippet_def
      removeCustomSnippet_def onTerminate_start_def Let_def keeps_wiring)

lemma wiring_resume [keeps_wiring]: "wiring (resume_check env rs jit tok ss tm) = wiring tm"
  by (simp add: resume_check_def Let_def keeps_wiring split: option.split)

lemma to_socket_append [simp]:
  "to_socket i (sent @ [(j, m)]) = to_socket i sent @ (if j = i then [m] else [])"
  by (simp add: to_socket_def)

lemma wiredI:
  assumes "\<And>i. i < length (t_made tm) \<Longrightarrow> so_id (t_made tm ! i) = i"
    and "\<And>i. length (t_made tm) \<le> i \<Longrightarrow> t_states tm i = Connecting"
    and "\<And>i. t_states tm i = Connecting \<Longrightarrow> to_socket i (t_sent tm) = []"
    and "\<And>s. t_socket tm = Some s \<Longrightarrow> s \<in> set (t_made tm)"
    and "\<And>i. t_listener tm = Some i \<Longrightarrow> \<exists>s. t_socket tm = Some s \<and> so_id s = i"
    and "\<And>s. t_socket tm = Some s \<Longrightarrow> t_states tm (so_id s) = Opened \<Longrightarrow> to_socket (so_id s) (t_sent tm) \<noteq> []"
    and "\<And>s. s \<in> set (t_made tm) \<Longrightarrow> to_socket (so_id s) (t_sent tm) = [] \<or> begun s (to_socket (so_id s) (t_sent tm))"
  shows "wired tm"
  using assms unfolding wired_def by blast

lemma wiredD:
  assumes "wired tm"
  shows "i < length (t_made tm) \<Longrightarrow> so_id (t_made tm ! i) = i"
    and "length (t_made tm) \<le> i \<Longrightarrow> t_states tm i = Connecting"
    and "t_states tm i = Connecting \<Longrightarrow> to_socket i (t_sent tm) = []"
    and "t_socket tm = Some s \<Longrightarrow> s \<in> set (t_made tm)"
    and "t_listener tm = Some i \<Longrightarrow> \<exists>s. t_socket tm = Some s \<and> so_id s = i"
    and "t_socket tm = Some s \<Longrightarrow> t_states tm (so_id s) = Opened \<Longrightarrow> to_socket (so_id s) (t_sent tm) \<noteq> []"
    and "s \<in> set (t_made tm) \<Longrightarrow> to_socket (so_id s) (t_sent tm) = [] \<or> begun s (to_socket (so_id s) (t_sent tm))"
  using assms unfolding wired_def by blast+

lemma made_id:
  assumes "wired tm" and "s \<in> set (t_made tm)"
  shows "so_id s < length (t_made tm)" and "t_made tm ! so_id s = s"
  using assms wiredD(1) [OF assms(1)] by (auto simp: in_set_conv_nth)

lemma made_inject: "wired tm \<Longrightarrow> s \<in> set (t_made tm) \<Longrightarrow> r \<in> set (t_made tm) \<Longrightarrow> so_id s = so_id r \<Longrightarrow> s = r"
  by (metis made_id(2))

lemma wired_start: "wired (blank_terminal saved snippets)"
  by (rule wiredI) (simp_all add: blank_terminal_def to_socket_def)

lemma drop_socket_fields [simp]:
  "t_made (drop_socket tm) = t_made tm" "t_sent (drop_socket tm) = t_sent tm"
  "t_socket (drop_socket tm) = None" "t_listener (drop_socket tm) = None"
  "t_states (drop_socket tm) =
     (case t_socket tm of None \<Rightarrow> t_states tm | Some s \<Rightarrow> (t_states tm)(so_id s := Closed))"
  by (simp_all add: drop_socket_def Let_def split: option.split)

lemma wired_drop:
  assumes "wired tm"
  shows "wired (drop_socket tm)"
proof (rule wiredI)
  show "t_states (drop_socket tm) i = Connecting" if "length (t_made (drop_socket tm)) \<le> i" for i
    using that assms made_id(1) [OF assms] wiredD(2,4) [OF assms] by (fastforce split: option.split)
qed (use wiredD [OF assms] in \<open>auto split: option.splits if_splits\<close>)

lemma begun_start: "begun s [start_message s cols rows]"
  unfolding begun_def by (intro exI [of _ cols] exI [of _ rows] exI [of _ "[]"]) simp

lemma begun_more: "begun s ms \<Longrightarrow> not_start m \<Longrightarrow> begun s (ms @ [m])"
  unfolding begun_def by fastforce

lemma wired_send:
  assumes "wired tm" and "t_socket tm = Some s" and "t_states tm (so_id s) = Opened" and "not_start m"
  shows "wired (send_to (so_id s) m tm)"
proof (rule wiredI)
  fix r assume r: "r \<in> set (t_made (send_to (so_id s) m tm))"
  show "to_socket (so_id r) (t_sent (send_to (so_id s) m tm)) = [] \<or>
        begun r (to_socket (so_id r) (t_sent (send_to (so_id s) m tm)))"
    using r assms wiredD(7) [OF assms(1), of r] wiredD(6) [OF assms(1,2,3)]
    by (auto simp: send_to_def begun_more)
qed (use assms wiredD [OF assms(1)] in \<open>auto simp: send_to_def\<close>)

lemma wired_new:
  assumes "wired tm" and "t_socket tm = None" and "t_listener tm = None" and "so_id s = length (t_made tm)"
  shows "wired (tm\<lparr>t_socket := Some s, t_made := t_made tm @ [s]\<rparr>)"
  using wiredD [OF assms(1)] assms by (intro wiredI) (auto simp: nth_append less_Suc_eq)

lemma not_start_simps [simp]:
  "not_start (JObj ((''type'', JStr ''input'') # r))" "not_start (JObj ((''type'', JStr ''resize'') # r))"
  "not_start (input_message d)"
  by (simp_all add: not_start_def input_message_def)

lemma wired_wiring: "wired a \<Longrightarrow> wiring b = wiring a \<Longrightarrow> wired b"
  using wired_cong by blast

lemma wired_connect:
  assumes "wired tm"
  shows "wired (connectTerminal env rs tok has_terminal tm)"
proof -
  have "wired ((drop_socket tm)\<lparr>t_socket := Some (new_socket tm), t_made := t_made (drop_socket tm) @ [new_socket tm]\<rparr>)"
    using wired_drop [OF assms] by (rule wired_new) (simp_all add: new_socket_def)
  then have "wired ((drop_socket (tm\<lparr>t_info := []\<rparr>))
       \<lparr>t_socket := Some (new_socket tm), t_made := t_made tm @ [new_socket tm], t_opened := False,
        t_status := ''connecting''\<rparr>)"
    by (rule wired_wiring) (simp add: wiring_def split: option.split)
  moreover have "wired (tm\<lparr>t_info := [], t_error := e\<rparr>)" for e
    using assms by (rule wired_wiring) (simp add: keeps_wiring)
  ultimately show ?thesis
    by (simp add: connectTerminal_def Let_def)
qed

lemma wired_auto:
  assumes "wired tm"
  shows "wired (auto_connect env rs tok has_terminal tm)"
proof -
  have "wired (tm\<lparr>t_auto := JNull\<rparr>)"
    using assms by (rule wired_wiring) (simp add: keeps_wiring)
  with assms wired_connect show ?thesis by (simp add: auto_connect_def)
qed

lemma wired_open:
  assumes w: "wired tm" and s: "s \<in> set (t_made tm)" and c: "t_states tm (so_id s) = Connecting"
  shows "wired (on_socket_open cols rows s tm)"
proof (cases "current s tm")
  case False
  have no: "t_socket tm \<noteq> Some r" if "so_id r = so_id s" for r
    using made_inject [OF w s, of r] wiredD(4) [OF w, of r] False that by (auto simp: current_def)
  have "wired (tm\<lparr>t_states := (t_states tm)(so_id s := Opened)\<rparr>)"
    using wiredD [OF w] made_id(1) [OF w s] no by (intro wiredI) (simp_all split: if_splits, fastforce+)
  with False show ?thesis by (simp add: on_socket_open_def Let_def current_def)
next
  case True
  then have cur: "t_socket tm = Some s" by (simp add: current_def split: option.splits)
  have "wired (tm\<lparr>t_states := (t_states tm)(so_id s := Opened),
      t_sent := t_sent tm @ [(so_id s, start_message s cols rows)], t_listener := Some (so_id s)\<rparr>)"
  proof (rule wiredI, goal_cases)
    case (7 r)
    then show ?case
      using wiredD(3,7) [OF w] made_inject [OF w s, of r] c by (auto simp: begun_start)
  qed (use wiredD [OF w] made_id(1) [OF w s] cur in \<open>auto split: if_splits\<close>)
  then show ?thesis
    by (rule wired_wiring)
      (simp add: wiring_def on_socket_open_def Let_def cur current_def send_to_def rememberOpenTerminal_def)
qed

lemma wired_close:
  assumes w: "wired tm" and s: "s \<in> set (t_made tm)"
  shows "wired (on_socket_close env closing s tm)"
proof (cases "current s tm")
  case False
  have "wired (tm\<lparr>t_states := (t_states tm)(so_id s := Closed)\<rparr>)"
    using wiredD [OF w] made_id(1) [OF w s] by (intro wiredI) (auto split: if_splits)
  with False show ?thesis by (simp add: on_socket_close_def Let_def current_def)
next
  case True
  then have cur: "t_socket tm = Some s" by (simp add: current_def split: option.splits)
  have "wired (tm\<lparr>t_states := (t_states tm)(so_id s := Closed), t_listener := None, t_socket := None\<rparr>)"
    using wiredD [OF w] made_id(1) [OF w s] by (intro wiredI) (auto split: if_splits)
  then show ?thesis
    by (rule wired_wiring) (simp add: wiring_def on_socket_close_def Let_def cur current_def)
qed

lemma wired_typed: "wired tm \<Longrightarrow> wired (on_typed data tm)"
  using wiredD(5) [of tm] wired_send by (fastforce simp: on_typed_def split: option.split)

lemma wired_refit: "wired tm \<Longrightarrow> wired (refitTerminal cols rows tm)"
  using wired_send by (auto simp: refitTerminal_def socket_is_open_def split: option.splits if_splits)

lemma wired_snippet:
  assumes "wired tm"
  shows "wired (sendSnippetToTerminal env item execute tm)"
proof (cases "socket_is_open tm")
  case None
  then show ?thesis
    using assms by (simp add: sendSnippetToTerminal_def wired_cong [OF wiring_fields(4)])
next
  case (Some i)
  then obtain s where "t_socket tm = Some s" "so_id s = i" "t_states tm i = Opened"
    by (auto simp: socket_is_open_def split: option.splits if_splits)
  with assms wired_send [of tm s]
  have "wired (send_to i (JObj [(''type'', JStr ''input''), (''data'', p)]) tm)" for p
    by auto
  with assms Some show ?thesis
    by (simp add: sendSnippetToTerminal_def Let_def wired_cong [OF wiring_fields(3)])
qed

lemmas wired_kept = keeps_wiring [THEN wired_cong]

lemma terminal_run_wired: "terminal_run tm \<Longrightarrow> wired tm"
proof (induction rule: terminal_run.induct)
  case (unmounted tm)
  then show ?case
    by (simp add: terminal_unmounted_def wired_kept wired_drop)
qed (simp_all add: wired_start wired_connect wired_auto wired_open wired_close wired_typed wired_refit
    wired_snippet wired_kept)

subsection \<open>Properties\<close>

text \<open>C7: in every order of events, what a socket receives begins with the start message of the
  session and the password it was opened with, and holds no second one.\<close>

theorem socket_begins_with_its_session:
  assumes "terminal_run tm" and "s \<in> set (t_made tm)"
  shows "to_socket (so_id s) (t_sent tm) = [] \<or> begun s (to_socket (so_id s) (t_sent tm))"
  using wiredD(7) [OF terminal_run_wired [OF assms(1)] assms(2)] .

definition sample_ssh :: json where
  "sample_ssh = JObj [(''id'', JInt 7), (''resourceId'', JInt 3), (''protocol'', JStr ''ssh''),
                      (''status'', JStr ''active'')]"

definition sample_socket :: socket where
  "sample_socket = \<lparr>so_id = 0, so_session = sample_ssh, so_password = ''pw''\<rparr>"

definition sample_terminal :: terminal_state where
  "sample_terminal =
     connectTerminal sample_env [] (JStr ''t1'') True
       ((fst (openTerminal sample_env [] False False sample_ssh (blank_terminal None [])))
          \<lparr>t_password := ''pw'', t_snippet_label := [], t_snippet_command := []\<rparr>)"

lemma sample_terminal_run: "terminal_run sample_terminal"
  unfolding sample_terminal_def by (intro terminal_run.connect terminal_run.fields terminal_run.opens terminal_run.start)

lemma sample_terminal_fields [simp]:
  "t_made sample_terminal = [sample_socket]" "t_socket sample_terminal = Some sample_socket"
  "t_sent sample_terminal = []" "t_states sample_terminal 0 = Connecting" "so_id sample_socket = 0"
  "t_listener sample_terminal = None"
  by (simp_all add: sample_terminal_def sample_socket_def connectTerminal_def openTerminal_def
      reset_terminal_def blank_terminal_def sample_ssh_def new_socket_def Let_def resolveSessionResource_def
      find_or_null_def drop_socket_def)

lemma sample_opened_run: "terminal_run (on_socket_open 80 24 sample_socket sample_terminal)"
  by (rule terminal_run.opened [OF sample_terminal_run]) simp_all

lemma sample_opened_fields [simp]:
  "t_sent (on_socket_open 80 24 sample_socket sample_terminal) = [(0, start_message sample_socket 80 24)]"
  "t_made (on_socket_open 80 24 sample_socket sample_terminal) = [sample_socket]"
  "t_listener (on_socket_open 80 24 sample_socket sample_terminal) = Some 0"
  "t_states (on_socket_open 80 24 sample_socket sample_terminal) 0 = Opened"
  "t_socket (on_socket_open 80 24 sample_socket sample_terminal) = Some sample_socket"
  by (simp_all add: on_socket_open_def current_def Let_def send_to_def rememberOpenTerminal_def)

theorem socket_begins_with_its_session_witness:
  "begun sample_socket (to_socket 0 (t_sent (on_socket_open 80 24 sample_socket sample_terminal)))"
  using socket_begins_with_its_session [OF sample_opened_run, of sample_socket]
  by (simp add: to_socket_def)



text \<open>A socket that was replaced is deaf: none of its later events shows anything, changes the
  status or the socket in use, or sends anything.\<close>

theorem replaced_socket_is_ignored:
  assumes "t_socket tm \<noteq> Some s"
  shows "on_socket_text env data s tm = tm \<and> on_socket_bytes data s tm = tm \<and> on_socket_error env s tm = tm \<and>
         on_socket_open cols rows s tm = tm\<lparr>t_states := (t_states tm)(so_id s := Opened)\<rparr> \<and>
         on_socket_close env closing s tm = tm\<lparr>t_states := (t_states tm)(so_id s := Closed)\<rparr>"
proof -
  have "\<not> current s tm" "\<not> current s (tm\<lparr>t_states := f\<rparr>)" for f
    using assms by (auto simp: current_def split: option.splits)
  then show ?thesis
    by (simp add: on_socket_text_def on_socket_bytes_def on_socket_error_def on_socket_open_def
        on_socket_close_def Let_def)
qed

theorem replaced_socket_is_ignored_witness:
  "on_socket_bytes ''x'' (sample_socket\<lparr>so_id := 5\<rparr>) sample_terminal = sample_terminal"
  using replaced_socket_is_ignored [of sample_terminal "sample_socket\<lparr>so_id := 5\<rparr>"]
  by (simp add: sample_socket_def)

text \<open>A socket is opened only for a chosen session and a signed-in user, and without a password
  only to resume that session or when the bastion injects the credential.\<close>

theorem no_socket_without_a_credential:
  assumes "t_made (connectTerminal env resources tok has_terminal tm) \<noteq> t_made tm"
  shows "truthy (t_session tm) \<and> truthy tok \<and>
         t_socket (connectTerminal env resources tok has_terminal tm) = Some (new_socket tm) \<and>
         (t_password tm \<noteq> [] \<or> strict_eq (jget (t_session tm) ''id'') (t_resume tm) \<or>
          bastionInjectsCredential resources (t_session tm))"
  using assms by (auto simp: connectTerminal_def same_value_def Let_def split: if_splits)

definition sample_form :: terminal_state where
  "sample_form =
     (fst (openTerminal sample_env [] False False sample_ssh (blank_terminal None [])))\<lparr>t_password := ''pw''\<rparr>"

theorem no_socket_without_a_credential_witness:
  "t_socket (connectTerminal sample_env [] (JStr ''t1'') True sample_form) = Some (new_socket sample_form)"
proof -
  have "t_made (connectTerminal sample_env [] (JStr ''t1'') True sample_form) \<noteq> t_made sample_form"
    by (simp add: sample_form_def connectTerminal_def openTerminal_def reset_terminal_def blank_terminal_def
        sample_ssh_def Let_def resolveSessionResource_def find_or_null_def)
  then show ?thesis
    using no_socket_without_a_credential [of sample_env "[]" "JStr ''t1''" True sample_form] by blast
qed

text \<open>After a reload only a session that is still listed, active and an SSH one is resumed, the one
  this tab had open, and only once.\<close>

theorem resumes_only_the_tab_session:
  assumes "t_session (resume_check env resources jit tok sessions tm) \<noteq> t_session tm"
    and "b = resume_check env resources jit tok sessions tm"
  shows "t_session b \<in> set sessions \<and> resumable (t_session b) \<and>
         jget (t_session b) ''id'' = JNum (readOpenTerminal tm) \<and> t_resume b = jget (t_session b) ''id'' \<and>
         t_auto b = jget (t_session b) ''id'' \<and> resume_check env resources jit tok sessions' b = b"
proof -
  obtain session where s: "find (\<lambda>item. jget item ''id'' = JNum (readOpenTerminal tm)) sessions = Some session"
      and r: "resumable session"
      and b: "b = fst (openTerminal env resources jit True session (tm\<lparr>t_resume_checked := True\<rparr>))"
    using assms by (auto simp: resume_check_def forgetOpenTerminal_def Let_def split: if_splits option.splits)
  then show ?thesis
    by (auto simp: find_Some_iff openTerminal_def reset_terminal_def resume_check_def Let_def)
qed

theorem resumes_only_the_tab_session_witness:
  "t_resume (resume_check sample_env [] False (JStr ''t1'') [sample_ssh] (blank_terminal (Some ''7'') [])) = JInt 7"
proof -
  have n: "readOpenTerminal (blank_terminal (Some ''7'') []) = 7"
    by (simp add: readOpenTerminal_def blank_terminal_def number_or_def) code_simp
  have t: "to_lower ''ssh'' = ''ssh''" by code_simp
  show ?thesis
    using resumes_only_the_tab_session [OF _ refl, of sample_env "[]" False "JStr ''t1''" "[sample_ssh]"
        "blank_terminal (Some ''7'') []"] n t
    by (simp add: resume_check_def resumable_def openTerminal_def reset_terminal_def sample_ssh_def
        blank_terminal_def Let_def)
qed

text \<open>C12: as written, a lease that arrives after the user opened another session leaves its password in
  the form of that other session: connecting sends it there.\<close>

theorem late_lease_reaches_other_session:
  assumes "truthy b" and "truthy tok" and "p \<noteq> []" and "jget creds ''sshPassword'' = JStr p"
    and "tm = fst (openTerminal env resources jit False b (fst (openTerminal env resources jit False a start)))"
    and "late = connectTerminal env resources tok True (on_lease_used env a (Inr creds) tm)"
  shows "\<exists>s. t_socket late = Some s \<and> so_session s = b \<and> so_password s = p"
proof -
  have "jread creds ''sshPassword'' = Some (JStr p)"
    using assms(4) by (cases creds) (auto simp: jread_def nullish_def)
  moreover have "t_session tm = b"
    using assms(5) by (simp add: openTerminal_def reset_terminal_def connect_injected_def Let_def)
  ultimately show ?thesis
    using assms(1-3,6)
    by (simp add: on_lease_used_def connectTerminal_def new_socket_def Let_def)
qed

theorem late_lease_reaches_other_session_witness:
  "\<exists>s. t_socket (connectTerminal sample_env [] (JStr ''t1'') True
          (on_lease_used sample_env sample_ssh (Inr (JObj [(''sshPassword'', JStr ''secret'')]))
            (fst (openTerminal sample_env [] True False (JObj [(''id'', JInt 8)])
              (fst (openTerminal sample_env [] True False sample_ssh (blank_terminal None []))))))) = Some s \<and>
       jget (so_session s) ''id'' = JInt 8 \<and> so_password s = ''secret''"
  using late_lease_reaches_other_session [OF _ _ _ _ refl refl, of "JObj [(''id'', JInt 8)]" "JStr ''t1''" "''secret''"
      "JObj [(''sshPassword'', JStr ''secret'')]" sample_env "[]" sample_ssh True "blank_terminal None []"]
  by auto

end
