(* ===== verification/AgentLaunch.thy ===== *)
theory AgentLaunch
  imports AuthFlow ApiSafety
begin

section \<open>Opening a tunnel with the local agent (App.jsx, lines 2302 to 2428)\<close>

text \<open>
  A tunnel is opened by a deep link to the agent of the user's computer.  What the link holds, the
  short-lived token it needs, and the watcher that tells whether the agent opened: a timer of 1600 ms
  against the page being hidden.
\<close>

subsection \<open>What to launch\<close>

definition isAgentTunnelProtocol :: "json \<Rightarrow> bool" where
  "isAgentTunnelProtocol protocol =
     (let normalized = to_lower (text_or protocol []) in
      normalized = ''agent'' \<or> normalized = ''rdp'' \<or> normalized = ''postgres'')"

record install_guide =
  ig_platform :: string
  ig_command :: string

definition resolveAgentInstallGuide :: "json \<Rightarrow> install_guide" where
  "resolveAgentInstallGuide user_agent =
     (let ua = to_lower (text_or user_agent []) in
      if str_includes ua ''windows'' then
        \<lparr>ig_platform = ''Windows'',
         ig_command = [CHR 0x2E, CHR 0x5C] @ ''agent'' @ [CHR 0x5C] @ ''installers'' @ [CHR 0x5C] @ ''windows'' @
           [CHR 0x5C] @ ''install-protocol.ps1 -AgentPath .'' @ [CHR 0x5C] @ ''agent'' @ [CHR 0x5C] @
           ''endoriumfort-agent.exe''\<rparr>
      else if str_includes ua ''mac os'' \<or> str_includes ua ''macintosh'' \<or> str_includes ua ''darwin'' then
        \<lparr>ig_platform = ''macOS'',
         ig_command = ''./agent/installers/macos/install-protocol.sh ./agent/endoriumfort-agent-darwin-arm64''\<rparr>
      else
        \<lparr>ig_platform = ''Linux'',
         ig_command = ''./agent/installers/linux/install-protocol.sh ./agent/endoriumfort-agent''\<rparr>)"

record launch =
  la_local_url :: string
  la_local_endpoint :: string
  la_open_in_browser :: bool
  la_guide :: install_guide
  la_command :: string
  la_deep_link :: string

record page_env =
  pe_origin :: string
  pe_user_agent :: json

definition without_last_slash :: "string \<Rightarrow> string" where
  "without_last_slash s = (if s \<noteq> [] \<and> last s = CHR ''/'' then butlast s else s)"

definition effective_protocol :: "json \<Rightarrow> string" where
  "effective_protocol resource =
     (let resourceProtocol = to_lower (text_or (jget resource ''protocol'') []) in
      if resourceProtocol = ''agent''
      then to_lower (text_or (jget resource ''agentProtocol'') ''tcp'') else resourceProtocol)"

definition opens_in_browser :: "string \<Rightarrow> bool" where
  "opens_in_browser p = (p = ''http'' \<or> p = ''https'' \<or> p = ''tcp'')"

definition tunnel_user :: "json \<Rightarrow> string" where
  "tunnel_user resource = trim (text_or (jget resource ''sshUsername'') [])"

definition local_url :: "nat \<Rightarrow> string" where
  "local_url port = ''http://127.0.0.1:'' @ show_nat port"

text \<open>The parameters of the link, in the order the code sets them.\<close>

definition user_params :: "string \<Rightarrow> string \<Rightarrow> (string \<times> string) list" where
  "user_params protocol account =
     (if account = [] then []
      else (''user'', account) #
        ((if protocol = ''ssh'' then [(''ssh-user'', account)] else []) @
         (if protocol = ''rdp'' then [(''rdp-user'', account)] else [])))"

definition launch_settings :: "page_env \<Rightarrow> json \<Rightarrow> nat \<Rightarrow> (string \<times> string) list" where
  "launch_settings pe resource port =
     (let p = effective_protocol resource in
      [(''server'', without_last_slash (pe_origin pe)), (''resource'', js_string (jget resource ''id'')),
       (''local-port'', show_nat port), (''protocol'', p)] @
      user_params p (tunnel_user resource) @
      (if opens_in_browser p then [(''redirect-url'', local_url port)] else [(''no-browser'', ''1'')]))"

definition set_all :: "(string \<times> string) list \<Rightarrow> (string \<times> string) list" where
  "set_all kvs = fold (\<lambda>(k, v). params_set k v) kvs []"

definition launch_params :: "page_env \<Rightarrow> json \<Rightarrow> nat \<Rightarrow> string \<Rightarrow> (string \<times> string) list" where
  "launch_params pe resource port link_token =
     params_set ''token'' link_token (set_all (launch_settings pe resource port))"

definition link_prefix :: string where
  "link_prefix = ''endoriumfort://connect?''"

text \<open>The reply of \<open>mintAgentToken\<close>: without a token the launch is refused.\<close>

definition minted_token :: "env \<Rightarrow> (js_error + json) \<Rightarrow> js_error + string" where
  "minted_token env reply =
     (case reply of
        Inl e \<Rightarrow> Inl e
      | Inr minted \<Rightarrow>
          (let t = jor (jget minted ''token'') (JStr []) in
           if truthy t then Inr (js_string t)
           else Inl (PlainError (tx env ''feedback.agentTokenUnavailable''))))"

definition buildAgentLaunchPayload ::
    "env \<Rightarrow> page_env \<Rightarrow> json \<Rightarrow> nat \<Rightarrow> (js_error + json) \<Rightarrow> js_error + launch" where
  "buildAgentLaunchPayload env pe resource port reply =
     (case minted_token env reply of
        Inl e \<Rightarrow> Inl e
      | Inr tok \<Rightarrow>
          Inr \<lparr>la_local_url = local_url port,
               la_local_endpoint = ''127.0.0.1:'' @ show_nat port,
               la_open_in_browser = opens_in_browser (effective_protocol resource),
               la_guide = resolveAgentInstallGuide (pe_user_agent pe),
               la_command = ''endoriumfort-agent connect --server '' @ without_last_slash (pe_origin pe) @
                 '' --token '' @ tok @ '' --resource '' @ js_string (jget resource ''id'') @
                 '' --local-port '' @ show_nat port,
               la_deep_link = link_prefix @ query_string (launch_params pe resource port tok)\<rparr>)"

text \<open>\<open>10000 + Math.floor(Math.random() * 50000)\<close>, for a draw of \<open>Math.random\<close>.\<close>

definition random_port :: "rat \<Rightarrow> nat" where
  "random_port draw = 10000 + nat (floor (draw * 50000))"

subsection \<open>The dialog and the watcher\<close>

record modal =
  mo_resource :: json
  mo_session :: json
  mo_port :: nat
  mo_state :: string
  mo_launch :: launch

text \<open>\<open>wa_timer\<close> is the time the timer fires at, \<open>wa_listening\<close> that the two listeners are
  attached, \<open>wa_link\<close> the links the browser was sent to.\<close>

record launcher =
  wa_modal :: "modal option"
  wa_timer :: "int option"
  wa_listening :: bool
  wa_links :: "string list"

definition clearAgentLaunchWatcher :: "launcher \<Rightarrow> launcher" where
  "clearAgentLaunchWatcher w = w\<lparr>wa_timer := None, wa_listening := False\<rparr>"

definition set_launch_state :: "string \<Rightarrow> launcher \<Rightarrow> launcher" where
  "set_launch_state s w = w\<lparr>wa_modal := map_option (\<lambda>m. m\<lparr>mo_state := s\<rparr>) (wa_modal w)\<rparr>"

definition launchAgentDeepLink :: "int \<Rightarrow> string \<Rightarrow> launcher \<Rightarrow> launcher" where
  "launchAgentDeepLink now link w =
     (if link = [] then w
      else (set_launch_state ''opening'' (clearAgentLaunchWatcher w))
             \<lparr>wa_timer := Some (now + 1600), wa_listening := True, wa_links := wa_links w @ [link]\<rparr>)"

definition on_page_hidden :: "launcher \<Rightarrow> launcher" where
  "on_page_hidden w =
     (if wa_listening w then set_launch_state ''opened'' (clearAgentLaunchWatcher w) else w)"

definition on_launch_timer :: "int \<Rightarrow> launcher \<Rightarrow> launcher" where
  "on_launch_timer now w =
     (case wa_timer w of
        None \<Rightarrow> w
      | Some due \<Rightarrow> if due \<le> now then set_launch_state ''fallback'' (clearAgentLaunchWatcher w) else w)"

definition show_launch :: "json \<Rightarrow> json \<Rightarrow> nat \<Rightarrow> launch \<Rightarrow> launcher \<Rightarrow> launcher" where
  "show_launch resource sid port l w =
     w\<lparr>wa_modal := Some \<lparr>mo_resource = resource, mo_session = sid, mo_port = port, mo_state = ''opening'',
                        mo_launch = l\<rparr>\<rparr>"

definition launch_tunnel :: "int \<Rightarrow> json \<Rightarrow> json \<Rightarrow> nat \<Rightarrow> launch \<Rightarrow> launcher \<Rightarrow> launcher" where
  "launch_tunnel now resource sid port l w =
     launchAgentDeepLink now (la_deep_link l) (show_launch resource sid port l w)"

definition no_launch :: launcher where
  "no_launch = \<lparr>wa_modal = None, wa_timer = None, wa_listening = False, wa_links = []\<rparr>"

datatype watch_event = Hidden | Tick int

fun watch :: "watch_event \<Rightarrow> launcher \<Rightarrow> launcher" where
  "watch Hidden w = on_page_hidden w"
| "watch (Tick now) w = on_launch_timer now w"

fun_cases watchE: "watch e w = v"

subsection \<open>Reading a link back\<close>

text \<open>What the agent reads: the parameters of the query, percent-decoded.\<close>

fun form_decode :: "string \<Rightarrow> string" where
  "form_decode [] = []"
| "form_decode (c # s) =
     (if c = CHR ''+'' then CHR '' '' # form_decode s
      else if c = CHR ''%'' then
        (case s of
           a # b # r \<Rightarrow> (char_of (the (hex_val a) * 16 + the (hex_val b)) :: char) # form_decode r
         | _ \<Rightarrow> c # s)
      else c # form_decode s)"

definition read_pair :: "string \<Rightarrow> string \<times> string" where
  "read_pair s =
     (form_decode (takeWhile (\<lambda>c. c \<noteq> CHR ''='') s), form_decode (tl (dropWhile (\<lambda>c. c \<noteq> CHR ''='') s)))"

definition read_query :: "string \<Rightarrow> (string \<times> string) list" where
  "read_query q = map read_pair (split_on (CHR ''&'') q)"

definition read_link :: "string \<Rightarrow> (string \<times> string) list" where
  "read_link link = read_query (drop (length link_prefix) link)"

lemma form_decode_percent: "form_decode (percent c @ s) = c # form_decode s"
proof -
  have "code c div 16 < 16" using code_less [of c] by (simp add: less_mult_imp_div_less)
  moreover have "(char_of (code c div 16 * 16 + code c mod 16) :: char) = c" by simp
  ultimately show ?thesis
    by (simp add: percent_def hex_val_hex_char)
qed

lemma form_unreserved_plain: "form_unreserved c \<Longrightarrow> c \<noteq> CHR ''%'' \<and> c \<noteq> CHR ''+'' \<and> c \<noteq> CHR ''&'' \<and> c \<noteq> CHR ''=''"
  by (auto simp: form_unreserved_def is_alnum_def is_digit_def is_upper_def is_lower_def code_def)

lemma form_decode_encode [simp]: "form_decode (form_encode s @ r) = s @ form_decode r"
proof (induction s)
  case (Cons c s)
  have "form_encode (c # s) = (if c = CHR '' '' then ''+'' else if form_unreserved c then [c] else percent c) @ form_encode s"
    by (simp add: form_encode_def)
  with Cons show ?case
    using form_unreserved_plain [of c] form_decode_percent [of c] by simp
qed (simp add: form_encode_def)

lemma form_encode_clean:
  "CHR ''='' \<notin> set (form_encode s)" "CHR ''&'' \<notin> set (form_encode s)"
  using form_encode_chars [of _ s] form_unreserved_plain by fastforce+

lemma read_pair_encode: "read_pair (form_encode k @ ''='' @ form_encode v) = (k, v)"
proof -
  have "\<forall>c \<in> set (form_encode k). c \<noteq> CHR ''=''" using form_encode_clean(1) by metis
  then have "takeWhile (\<lambda>c. c \<noteq> CHR ''='') (form_encode k @ ''='' @ form_encode v) = form_encode k"
    and "dropWhile (\<lambda>c. c \<noteq> CHR ''='') (form_encode k @ ''='' @ form_encode v) = ''='' @ form_encode v"
    by (simp_all add: takeWhile_append dropWhile_append)
  then show ?thesis
    using form_decode_encode [of k "[]"] form_decode_encode [of v "[]"] by (simp add: read_pair_def)
qed

lemma read_query_string:
  assumes "kvs \<noteq> []"
  shows "read_query (query_string kvs) = kvs"
proof -
  have "split_on (CHR ''&'') (query_string kvs) = map (\<lambda>(k, v). form_encode k @ ''='' @ form_encode v) kvs"
    unfolding query_string_def using assms form_encode_clean(2) by (intro split_on_join) auto
  then show ?thesis
    by (simp add: read_query_def comp_def split_def read_pair_encode [simplified])
qed

subsection \<open>The parameters\<close>

lemma params_set_nonempty [simp]: "params_set k v kvs \<noteq> []"
  by (cases kvs) (auto split: if_splits)

lemma params_set_distinct: "distinct (map fst kvs) \<Longrightarrow> distinct (map fst (params_set k v kvs))"
proof (induction k v kvs rule: params_set.induct)
  case (2 k v k' v' kvs)
  have "fst ` set (params_set k v kvs) \<subseteq> insert k (fst ` set kvs)" for kvs :: "(string \<times> string) list"
    by (induction k v kvs rule: params_set.induct) auto
  with 2 show ?case by (auto simp: distinct_map_filter)
qed simp

lemma params_set_absent: "k \<notin> fst ` set kvs \<Longrightarrow> params_set k v kvs = kvs @ [(k, v)]"
  by (induction kvs) auto

lemma set_all_distinct:
  "distinct (map fst (acc @ kvs)) \<Longrightarrow> fold (\<lambda>(k, v). params_set k v) kvs acc = acc @ kvs"
proof (induction kvs arbitrary: acc)
  case (Cons kv kvs)
  obtain k v where kv: "kv = (k, v)" by (cases kv)
  with Cons.prems have "k \<notin> fst ` set acc" by auto
  then have "params_set k v acc = acc @ [(k, v)]" by (rule params_set_absent)
  with Cons.IH [of "acc @ [(k, v)]"] Cons.prems kv show ?case by simp
qed simp

lemma launch_settings_distinct:
  "distinct (map fst (launch_settings pe resource port))"
  "''token'' \<notin> fst ` set (launch_settings pe resource port)"
  by (auto simp: launch_settings_def user_params_def Let_def)

lemma launch_params_eq:
  "launch_params pe resource port tok = launch_settings pe resource port @ [(''token'', tok)]"
  using launch_settings_distinct set_all_distinct [of "[]" "launch_settings pe resource port"]
  by (simp add: launch_params_def set_all_def params_set_absent)

subsection \<open>Properties\<close>

text \<open>C11: the agent reads from the deep link exactly the settings of the launch, whatever characters
  the resource, its account or the token hold: no value can add or replace a parameter, and the
  token is the minted one.\<close>

theorem deep_link_carries_the_launch:
  assumes "buildAgentLaunchPayload env pe resource port reply = Inr l"
  shows "\<exists>tok minted. reply = Inr minted \<and> truthy (jget minted ''token'') \<and>
           tok = js_string (jget minted ''token'') \<and>
           starts_with (la_deep_link l) link_prefix \<and>
           read_link (la_deep_link l) = launch_settings pe resource port @ [(''token'', tok)] \<and>
           distinct (map fst (read_link (la_deep_link l)))"
proof -
  obtain tok where tok: "minted_token env reply = Inr tok"
    and l: "la_deep_link l = link_prefix @ query_string (launch_params pe resource port tok)"
    using assms by (auto simp: buildAgentLaunchPayload_def split: sum.splits)
  have "read_link (la_deep_link l) = launch_params pe resource port tok"
    using l by (simp add: read_link_def read_query_string launch_params_def)
  moreover obtain minted where "reply = Inr minted" "truthy (jget minted ''token'')"
      "tok = js_string (jget minted ''token'')"
    using tok by (auto simp: minted_token_def Let_def jor_def split: sum.splits if_splits)
  ultimately show ?thesis
    using l launch_settings_distinct by (simp add: launch_params_eq)
qed

definition sample_page :: page_env where
  "sample_page = \<lparr>pe_origin = ''https://bastion.example'', pe_user_agent = JStr []\<rparr>"

definition sample_tunnel :: json where
  "sample_tunnel = JObj [(''id'', JInt 4), (''protocol'', JStr ''rdp''), (''sshUsername'', JStr ''a&token=x'')]"

theorem deep_link_carries_the_launch_witness:
  "\<exists>l. buildAgentLaunchPayload sample_env sample_page sample_tunnel 12000
          (Inr (JObj [(''token'', JStr ''m1'')])) = Inr l \<and>
       map_of (read_link (la_deep_link l)) ''token'' = Some ''m1''"
proof -
  obtain l where l: "buildAgentLaunchPayload sample_env sample_page sample_tunnel 12000
      (Inr (JObj [(''token'', JStr ''m1'')])) = Inr l"
    by (simp add: buildAgentLaunchPayload_def minted_token_def)
  then have "map_of (read_link (la_deep_link l)) ''token'' = Some ''m1''"
    using deep_link_carries_the_launch [OF l] by (fastforce intro: map_of_is_SomeI)
  with l show ?thesis by blast
qed

text \<open>No agent is launched without a minted token: when the reply has none the payload is refused
  with the error to show, or with the error of the call.\<close>

theorem no_launch_without_minted_token:
  "\<not> truthy (jget minted ''token'') \<Longrightarrow>
   buildAgentLaunchPayload env pe resource port (Inr minted) =
     Inl (PlainError (tx env ''feedback.agentTokenUnavailable''))"
  by (simp add: buildAgentLaunchPayload_def minted_token_def jor_def)

theorem no_launch_without_minted_token_witness:
  "buildAgentLaunchPayload sample_env sample_page sample_tunnel 12000 (Inr (JObj [])) =
     Inl (PlainError (tx sample_env ''feedback.agentTokenUnavailable''))"
  by (rule no_launch_without_minted_token) simp

subsection \<open>The watcher settles once\<close>

text \<open>What the dialog should say after some events, from the time the timer is due.\<close>

fun outcome_of_launch :: "int \<Rightarrow> watch_event list \<Rightarrow> string" where
  "outcome_of_launch due [] = ''opening''"
| "outcome_of_launch due (Hidden # es) = ''opened''"
| "outcome_of_launch due (Tick now # es) = (if due \<le> now then ''fallback'' else outcome_of_launch due es)"

definition armed :: "int \<Rightarrow> launcher \<Rightarrow> bool" where
  "armed due w = (wa_timer w = Some due \<and> wa_listening w)"

definition idle :: "launcher \<Rightarrow> bool" where
  "idle w = (wa_timer w = None \<and> \<not> wa_listening w)"

lemma watch_idle: "idle w \<Longrightarrow> watch e w = w"
  by (cases e) (simp_all add: idle_def on_page_hidden_def on_launch_timer_def)

lemma watch_all_idle: "idle w \<Longrightarrow> fold watch es w = w"
  by (induction es) (simp_all add: watch_idle)

lemma idle_settled: "idle (set_launch_state s (clearAgentLaunchWatcher w))"
  by (simp add: idle_def set_launch_state_def clearAgentLaunchWatcher_def)

lemma fold_watch_armed:
  assumes "armed due w" and "wa_modal w = Some m" and "mo_state m = ''opening''"
  shows "map_option mo_state (wa_modal (fold watch es w)) = Some (outcome_of_launch due es)"
  using assms
proof (induction es arbitrary: w)
  case (Cons e es)
  show ?case
  proof (cases e)
    case Hidden
    with Cons.prems show ?thesis
      by (simp add: on_page_hidden_def armed_def watch_all_idle idle_settled)
        (simp add: set_launch_state_def clearAgentLaunchWatcher_def)
  next
    case (Tick now)
    with Cons show ?thesis
      by (simp add: on_launch_timer_def armed_def watch_all_idle idle_settled)
        (simp add: set_launch_state_def clearAgentLaunchWatcher_def)
  qed
qed simp

lemma deep_link_nonempty: "buildAgentLaunchPayload env pe resource port reply = Inr l \<Longrightarrow> la_deep_link l \<noteq> []"
  by (auto simp: buildAgentLaunchPayload_def link_prefix_def split: sum.splits)

lemma launch_tunnel_state:
  assumes "la_deep_link l \<noteq> []"
  shows "armed (now + 1600) (launch_tunnel now resource sid port l w)"
    and "wa_modal (launch_tunnel now resource sid port l w) =
           Some \<lparr>mo_resource = resource, mo_session = sid, mo_port = port, mo_state = ''opening'', mo_launch = l\<rparr>"
    and "wa_links (launch_tunnel now resource sid port l w) = wa_links w @ [la_deep_link l]"
  using assms
  by (simp_all add: launch_tunnel_def launchAgentDeepLink_def show_launch_def set_launch_state_def
      clearAgentLaunchWatcher_def armed_def)

lemma links_watch: "wa_links (fold watch es w) = wa_links w"
proof (induction es arbitrary: w)
  case (Cons e es)
  have "wa_links (watch e w) = wa_links w"
    by (cases e) (auto simp: on_page_hidden_def on_launch_timer_def set_launch_state_def
        clearAgentLaunchWatcher_def split: option.split)
  with Cons show ?case by simp
qed simp

text \<open>After a launch, whatever the earlier one left behind and in every order of the timer and of the
  page being hidden, the browser is sent to the link once and the dialog follows the first of the
  two: opened when the page was hidden first, the manual command when the 1600 ms passed first;
  what comes later does not change it.\<close>

theorem launch_follows_the_first_event:
  assumes "buildAgentLaunchPayload env pe resource port reply = Inr l"
  shows "map_option mo_state (wa_modal (fold watch es (launch_tunnel now resource sid port l w))) =
           Some (outcome_of_launch (now + 1600) es) \<and>
         wa_links (fold watch es (launch_tunnel now resource sid port l w)) = wa_links w @ [la_deep_link l]"
  using launch_tunnel_state [OF deep_link_nonempty [OF assms]] fold_watch_armed links_watch
  by simp

theorem launch_follows_the_first_event_witness:
  "\<exists>l. buildAgentLaunchPayload sample_env sample_page sample_tunnel 12000
          (Inr (JObj [(''token'', JStr ''m1'')])) = Inr l \<and>
       map_option mo_state (wa_modal (fold watch [Tick 900, Hidden, Tick 1700]
          (launch_tunnel 0 sample_tunnel (JInt 9) 12000 l no_launch))) = Some ''opened''"
proof -
  obtain l where l: "buildAgentLaunchPayload sample_env sample_page sample_tunnel 12000
      (Inr (JObj [(''token'', JStr ''m1'')])) = Inr l"
    by (simp add: buildAgentLaunchPayload_def minted_token_def)
  then show ?thesis
    using launch_follows_the_first_event [OF l, of "[Tick 900, Hidden, Tick 1700]" 0 "JInt 9" no_launch] by simp
qed

end
