(* ===== verification/Connect.thy ===== *)
theory Connect
  imports Terminal AgentLaunch
begin

section \<open>Opening a session on a resource (App.jsx, lines 2430 to 2977)\<close>

text \<open>
  What happens between the click on a resource and the session: what the server will ask for, the
  access dialog, the request for approval, and the route each protocol takes.  A handler that waits
  is split where it waits; the calls and the moves of the browser a step makes are returned as a
  list of effects.
\<close>

record user_view =
  v_env :: env
  v_page :: page_env
  v_token :: json
  v_user :: json
  v_jit :: bool
  v_containment :: bool
  v_manager :: bool

record desk =
  d_resources :: "json list"
  d_sessions :: "json list"
  d_grants :: "json list"
  d_error :: string
  d_last_error :: string
  d_vnc :: json
  d_rbi :: json
  d_term :: terminal_state
  d_launcher :: launcher
  d_playbooks :: "json list"
  d_requests :: "json list"
  d_request_error :: string
  p_resource :: json
  p_reason :: string
  p_ticket :: string
  p_purpose :: string
  p_evidence :: string
  p_mode :: string
  p_request :: json
  p_preview :: json
  p_preview_error :: string
  d_route :: string

datatype effect =
    Call api_call
  | Tab string
  | Here string
  | CloseTab

definition session_error :: "string \<Rightarrow> desk \<Rightarrow> desk" where
  "session_error s d = d\<lparr>d_error := s\<rparr>"

subsection \<open>The session asked for\<close>

text \<open>\<open>(v || '').trim()\<close>: \<open>None\<close> is the TypeError for a value without \<open>trim\<close>.\<close>

definition trimmed :: "json \<Rightarrow> string option" where
  "trimmed v =
     (case v of JStr s \<Rightarrow> Some (trim s) | _ \<Rightarrow> if truthy v then None else Some [])"

definition session_payload :: "json \<Rightarrow> json \<Rightarrow> json \<Rightarrow> json option" where
  "session_payload resource account meta =
     (case (trimmed (jget meta ''justification''), trimmed (jget meta ''ticketId''),
            trimmed (jget meta ''purpose''), trimmed (jget meta ''purposeEvidence'')) of
        (Some j, Some t, Some p, Some e) \<Rightarrow>
          Some (JObj [(''resourceId'', jget resource ''id''), (''target'', jget resource ''target''),
                      (''user'', account), (''protocol'', jget resource ''protocol''),
                      (''port'', jget resource ''port''), (''justification'', JStr j), (''ticketId'', JStr t),
                      (''purpose'', JStr p), (''purposeEvidence'', JStr e),
                      (''accessRequestId'', jor (jget meta ''accessRequestId'') JUndef)])
      | _ \<Rightarrow> None)"

datatype access_route = Web | Files | Vnc | Tunnel | Ssh

definition route_of :: "json \<Rightarrow> access_route" where
  "route_of resource =
     (let protocol = to_lower (text_or (jget resource ''protocol'') []) in
      if protocol = ''http'' \<or> protocol = ''https'' then Web
      else if protocol = ''fileshare'' then Files
      else if protocol = ''vnc'' then Vnc
      else if isAgentTunnelProtocol (jget resource ''protocol'') then Tunnel
      else Ssh)"

definition session_login :: "user_view \<Rightarrow> json \<Rightarrow> json" where
  "session_login v resource =
     (case route_of resource of
        Web \<Rightarrow> jor (jget resource ''httpUsername'') (v_user v)
      | Files \<Rightarrow> v_user v
      | _ \<Rightarrow> jor (jget resource ''sshUsername'') (v_user v))"

text \<open>A tab is opened in the click for the routes that need one; it is closed when the session is
  refused.  \<open>tab\<close>: the browser did open it.\<close>

definition uses_tab :: "access_route \<Rightarrow> bool" where
  "uses_tab r = (r = Web \<or> r = Files)"

definition connect_failed :: "user_view \<Rightarrow> json \<Rightarrow> bool \<Rightarrow> js_error \<Rightarrow> desk \<Rightarrow> desk \<times> effect list" where
  "connect_failed v resource tab e d =
     (d\<lparr>d_last_error := error_message (v_env v) e,
        d_error := shown (v_env v) e ''Unable to create session''\<rparr>,
      if uses_tab (route_of resource) \<and> tab then [CloseTab] else [])"

text \<open>The first half of \<open>connectToResource\<close>: the call it makes, if it gets that far.\<close>

definition connect_start ::
    "user_view \<Rightarrow> json \<Rightarrow> json \<Rightarrow> bool \<Rightarrow> desk \<Rightarrow> desk \<times> effect list" where
  "connect_start v resource meta tab d =
     (let a = d\<lparr>d_last_error := []\<rparr> in
      if \<not> truthy (v_token v) then (session_error (tx (v_env v) ''feedback.signInFirst'') a, [])
      else (case session_payload resource (session_login v resource) meta of
              None \<Rightarrow> connect_failed v resource tab TypeError a
            | Some payload \<Rightarrow> (a, [Call (createSession payload)])))"

subsection \<open>The session is created\<close>

definition grants_call :: "user_view \<Rightarrow> json \<Rightarrow> effect list" where
  "grants_call v created =
     (if truthy (jget created ''accessGrantId'') \<and> v_jit v then [Call fetchAccessGrants] else [])"

definition on_grants :: "(js_error + json) \<Rightarrow> desk \<Rightarrow> desk" where
  "on_grants reply d =
     (case reply of
        Inl e \<Rightarrow> d
      | Inr payload \<Rightarrow> d\<lparr>d_grants := array_or_empty (jget payload ''items'')\<rparr>)"

definition vaulted_secret :: "json \<Rightarrow> bool" where
  "vaulted_secret resource =
     (truthy (jget resource ''hasCredentials'') \<and> credential_source resource = JStr ''vaulted'')"

definition connect_without_password :: "json \<Rightarrow> terminal_state \<Rightarrow> terminal_state" where
  "connect_without_password created tm = tm\<lparr>t_password := [], t_auto := jget created ''id''\<rparr>"

definition ssh_created :: "user_view \<Rightarrow> json \<Rightarrow> json \<Rightarrow> desk \<Rightarrow> desk \<times> effect list" where
  "ssh_created v resource created d =
     (let (tm, lease) = openTerminal (v_env v) (d_resources d) (v_jit v) False created (d_term d);
          calls = (case lease of None \<Rightarrow> [] | Some c \<Rightarrow> [Call c]) in
      if vaulted_secret resource then
        (if v_jit v then (d\<lparr>d_term := tm\<rparr>, calls @ [Call (issueEphemeralCredential (jget resource ''id''))])
         else (d\<lparr>d_term := connect_without_password created tm\<rparr>, calls))
      else if credential_source resource \<noteq> JStr ''vaulted'' then
        (d\<lparr>d_term := connect_without_password created tm\<rparr>, calls)
      else (d\<lparr>d_term := tm\<rparr>, calls))"

text \<open>The lease the handler itself asked for.\<close>

definition on_connect_lease :: "json \<Rightarrow> (js_error + json) \<Rightarrow> terminal_state \<Rightarrow> terminal_state" where
  "on_connect_lease created reply tm =
     (case reply of
        Inl e \<Rightarrow> connect_without_password created tm
      | Inr creds \<Rightarrow>
          (case jread creds ''sshPassword'' of
             None \<Rightarrow> connect_without_password created tm
           | Some p \<Rightarrow>
               if truthy p then tm\<lparr>t_password := js_string p, t_auto := jget created ''id''\<rparr>
               else connect_without_password created tm))"

definition page_for :: "user_view \<Rightarrow> string \<Rightarrow> json \<Rightarrow> string" where
  "page_for v param created = pe_origin (v_page v) @ ''/?'' @ param @ ''='' @ js_string (jget created ''id'')"

definition session_created ::
    "user_view \<Rightarrow> json \<Rightarrow> bool \<Rightarrow> json \<Rightarrow> desk \<Rightarrow> desk \<times> effect list" where
  "session_created v resource tab created d =
     (let a = d\<lparr>d_sessions := created # d_sessions d\<rparr>; b = a\<lparr>d_error := []\<rparr>;
          grants = grants_call v created in
      case route_of resource of
        Web \<Rightarrow>
          (if tab then (b\<lparr>d_vnc := JNull\<rparr>, grants @ [Tab (page_for v ''rbi'' created)])
           else (b\<lparr>d_vnc := JNull, d_rbi := created\<rparr>, grants))
      | Files \<Rightarrow>
          (b, [if tab then Tab (page_for v ''files'' created) else Here (page_for v ''files'' created)])
      | Vnc \<Rightarrow> (b\<lparr>d_vnc := created\<rparr>, grants)
      | Tunnel \<Rightarrow> (a, grants @ [Call (mintAgentToken (jget created ''id''))])
      | Ssh \<Rightarrow> (let (c, calls) = ssh_created v resource created b in (c, grants @ calls)))"

definition on_session_reply ::
    "user_view \<Rightarrow> json \<Rightarrow> bool \<Rightarrow> (js_error + json) \<Rightarrow> desk \<Rightarrow> desk \<times> effect list" where
  "on_session_reply v resource tab reply d =
     (case reply of
        Inl e \<Rightarrow> connect_failed v resource tab e d
      | Inr created \<Rightarrow> session_created v resource tab created d)"

text \<open>A tunnel waits for its token before it is launched.\<close>

definition on_tunnel_token ::
    "user_view \<Rightarrow> json \<Rightarrow> json \<Rightarrow> nat \<Rightarrow> (js_error + json) \<Rightarrow> desk \<Rightarrow> desk" where
  "on_tunnel_token v resource created port reply d =
     (case buildAgentLaunchPayload (v_env v) (v_page v) resource port reply of
        Inl e \<Rightarrow> fst (connect_failed v resource False e d)
      | Inr l \<Rightarrow> d\<lparr>d_error := [],
                  d_launcher := launch_tunnel (env_now (v_env v)) resource (jget created ''id'') port l
                                  (d_launcher d)\<rparr>)"

subsection \<open>What the server will ask for\<close>

record needs =
  n_approval :: bool
  n_prompt :: bool

definition high_risk :: "json \<Rightarrow> bool" where
  "high_risk resource =
     (let risk = to_lower (text_or (jget resource ''riskLevel'') []) in risk = ''high'' \<or> risk = ''critical'')"

definition local_prompt :: "user_view \<Rightarrow> json \<Rightarrow> bool" where
  "local_prompt v resource =
     (truthy (jget resource ''requireAccessJustification'') \<or> high_risk resource \<or> v_containment v)"

definition empty_preview_request :: "json \<Rightarrow> json" where
  "empty_preview_request resource =
     JObj [(''resourceId'', jget resource ''id''), (''justification'', JStr []), (''ticketId'', JStr []),
           (''purpose'', JStr [])]"

text \<open>\<open>accessNeeds\<close>: the call it makes, and its result, \<open>None\<close> when no call was made.\<close>

definition accessNeeds_call :: "user_view \<Rightarrow> json \<Rightarrow> effect list" where
  "accessNeeds_call v resource =
     (if v_jit v then [Call (previewSessionRisk (empty_preview_request resource))] else [])"

definition accessNeeds :: "user_view \<Rightarrow> json \<Rightarrow> (js_error + json) option \<Rightarrow> needs" where
  "accessNeeds v resource reply =
     (let dual = truthy (jget resource ''requireDualApproval'') in
      case reply of
        None \<Rightarrow> \<lparr>n_approval = dual, n_prompt = local_prompt v resource\<rparr>
      | Some (Inl e) \<Rightarrow> \<lparr>n_approval = dual, n_prompt = True\<rparr>
      | Some (Inr p) \<Rightarrow>
          \<lparr>n_approval = (dual \<or> truthy (jget p ''approvalRequired'')),
           n_prompt = (local_prompt v resource \<or> truthy (jget p ''justificationRequired'') \<or>
                       truthy (jget p ''ticketRequired'') \<or> truthy (jget p ''purposeRequired''))\<rparr>)"

text \<open>The refusals the dialog can fix, a case-insensitive alternative of four fixed texts.\<close>

definition missing_access_details :: "string \<Rightarrow> bool" where
  "missing_access_details s =
     (let l = to_lower s in
      str_includes l ''requires an access justification'' \<or> str_includes l ''requires a ticketid'' \<or>
      str_includes l ''require a purpose'' \<or> str_includes l ''provide a justification'')"

subsection \<open>The access dialog\<close>

definition closeAccessPrompt :: "desk \<Rightarrow> desk" where
  "closeAccessPrompt d =
     d\<lparr>p_resource := JNull, p_reason := [], p_ticket := [], p_purpose := [], p_evidence := [],
       p_mode := ''connect'', p_request := JNull, p_preview := JNull, p_preview_error := []\<rparr>"

definition playbook_of :: "json \<Rightarrow> desk \<Rightarrow> json" where
  "playbook_of resource d =
     find_or_null (\<lambda>item. same_number (jget item ''resourceId'') (jget resource ''id'')) (d_playbooks d)"

definition fill_from_playbook :: "json \<Rightarrow> desk \<Rightarrow> desk" where
  "fill_from_playbook playbook d =
     d\<lparr>p_reason := text_or (jget playbook ''justification'') [], p_ticket := text_or (jget playbook ''ticketId'') [],
       p_purpose := text_or (jget playbook ''purpose'') [],
       p_evidence := text_or (jget playbook ''purposeEvidence'') []\<rparr>"

definition show_prompt :: "string \<Rightarrow> json \<Rightarrow> desk \<Rightarrow> desk" where
  "show_prompt mode resource d =
     d\<lparr>p_mode := mode, p_resource := resource, d_error := [], p_preview := JNull, p_preview_error := []\<rparr>"

definition openConnectPrompt :: "json \<Rightarrow> desk \<Rightarrow> desk" where
  "openConnectPrompt resource d =
     fill_from_playbook (playbook_of resource d) (show_prompt ''connect'' resource d)"

definition openRequestPrompt :: "json \<Rightarrow> desk \<Rightarrow> desk" where
  "openRequestPrompt resource d =
     fill_from_playbook (playbook_of resource d) (show_prompt ''request'' resource d)"

definition openApprovedPrompt :: "json \<Rightarrow> json \<Rightarrow> desk \<Rightarrow> desk" where
  "openApprovedPrompt approved resource d =
     (let playbook = playbook_of resource d in
      (show_prompt ''connect'' resource d)
        \<lparr>p_request := jget approved ''id'', p_reason := text_or (jget approved ''justification'') [],
         p_ticket := text_or (jget approved ''ticketId'') [], p_purpose := text_or (jget playbook ''purpose'') [],
         p_evidence := text_or (jget playbook ''purposeEvidence'') []\<rparr>)"

subsection \<open>The click on a resource\<close>

definition approved_for :: "user_view \<Rightarrow> json \<Rightarrow> json \<Rightarrow> bool" where
  "approved_for v resource item =
     (strict_eq (jget item ''resourceId'') (jget resource ''id'') \<and>
      strict_eq (jget item ''requester'') (v_user v) \<and> jget item ''status'' = JStr ''approved'')"

definition approved_meta :: "json \<Rightarrow> json" where
  "approved_meta approved =
     JObj [(''justification'', jor (jget approved ''justification'') (JStr [])),
           (''ticketId'', jor (jget approved ''ticketId'') (JStr [])),
           (''accessRequestId'', jget approved ''id'')]"

text \<open>\<open>onConnectResource\<close> once the needs are known.\<close>

definition onConnectResource ::
    "user_view \<Rightarrow> json \<Rightarrow> bool \<Rightarrow> needs \<Rightarrow> desk \<Rightarrow> desk \<times> effect list" where
  "onConnectResource v resource tab n d =
     (if n_approval n \<and> \<not> v_manager v then
        (case find (approved_for v resource) (d_requests d) of
           Some approved \<Rightarrow>
             if \<not> n_prompt n then connect_start v resource (approved_meta approved) tab d
             else (openApprovedPrompt approved resource d, [])
         | None \<Rightarrow> (openRequestPrompt resource d, []))
      else if \<not> n_prompt n then connect_start v resource (JObj []) tab d
      else (openConnectPrompt resource d, []))"

text \<open>After the connection the click made itself, without an approved request: a refusal the dialog
  can fix opens it.\<close>

definition after_direct_connect :: "json \<Rightarrow> bool \<Rightarrow> desk \<Rightarrow> desk" where
  "after_direct_connect resource done_ok d =
     (if \<not> done_ok \<and> missing_access_details (d_last_error d) then openConnectPrompt resource d else d)"

definition on_direct_refusal :: "user_view \<Rightarrow> json \<Rightarrow> bool \<Rightarrow> js_error \<Rightarrow> desk \<Rightarrow> desk \<times> effect list" where
  "on_direct_refusal v resource tab e d =
     (let (a, effects) = connect_failed v resource tab e d in
      (after_direct_connect resource False a, effects))"

subsection \<open>The dialog is submitted\<close>

definition bilingual :: "env \<Rightarrow> string \<Rightarrow> string \<Rightarrow> string" where
  "bilingual env fr en = (if env_loc env = ''fr'' then fr else en)"

definition reason_required :: "user_view \<Rightarrow> desk \<Rightarrow> bool" where
  "reason_required v d =
     (p_mode d = ''request'' \<or> truthy (jget (p_resource d) ''requireAccessJustification'') \<or>
      v_containment v \<or> truthy (jget (p_preview d) ''justificationRequired''))"

definition purpose_required :: "desk \<Rightarrow> bool" where
  "purpose_required d = (p_mode d \<noteq> ''request'' \<and> high_risk (p_resource d))"

definition reason_missing_text :: "user_view \<Rightarrow> string" where
  "reason_missing_text v =
     (if v_containment v then
        bilingual (v_env v)
          (''Une raison d'acc'' @ e_grave @ ''s est requise tant que le mode confinement est actif.'')
          ''Access reason is required while containment mode is active.''
      else
        bilingual (v_env v) (''Une raison d'acc'' @ e_grave @ ''s est requise pour cette ressource.'')
          ''Access reason is required for this resource.'')"

definition purpose_missing_text :: "user_view \<Rightarrow> string" where
  "purpose_missing_text v =
     bilingual (v_env v) (''Les ressources '' @ a_grave @ '' haut risque exigent un objectif.'')
       ''High-risk resources require a purpose.''"

definition prompt_meta :: "desk \<Rightarrow> json" where
  "prompt_meta d =
     JObj [(''justification'', JStr (trim (p_reason d))), (''ticketId'', JStr (trim (p_ticket d))),
           (''purpose'', JStr (trim (p_purpose d))), (''purposeEvidence'', JStr (trim (p_evidence d))),
           (''accessRequestId'', jor (p_request d) JUndef)]"

definition onSubmitAccessPrompt :: "user_view \<Rightarrow> bool \<Rightarrow> desk \<Rightarrow> desk \<times> effect list" where
  "onSubmitAccessPrompt v tab d =
     (if \<not> truthy (p_resource d) then (d, [])
      else if reason_required v d \<and> trim (p_reason d) = [] then (session_error (reason_missing_text v) d, [])
      else if purpose_required d \<and> trim (p_purpose d) = [] then (session_error (purpose_missing_text v) d, [])
      else if p_mode d = ''request'' then
        (d, [Call (createAccessRequest
               (JObj [(''resourceId'', jget (p_resource d) ''id''), (''justification'', JStr (trim (p_reason d))),
                      (''ticketId'', JStr (trim (p_ticket d)))]))])
      else connect_start v (p_resource d) (prompt_meta d) tab d)"

definition on_request_created :: "user_view \<Rightarrow> (js_error + json) \<Rightarrow> desk \<Rightarrow> desk" where
  "on_request_created v reply d =
     (case reply of
        Inl e \<Rightarrow> session_error (shown (v_env v) e (bilingual (v_env v)
           (''Impossible d'envoyer la demande d'acc'' @ e_grave @ ''s'') ''Unable to submit access request'')) d
      | Inr created \<Rightarrow>
          (closeAccessPrompt (d\<lparr>d_requests := created # d_requests d, d_error := []\<rparr>))
            \<lparr>d_route := ''/demandes''\<rparr>)"

text \<open>After the connection the dialog made.\<close>

definition after_prompt_connect :: "bool \<Rightarrow> desk \<Rightarrow> desk" where
  "after_prompt_connect done_ok d = (if done_ok then closeAccessPrompt d else d)"


subsection \<open>Playbooks: details kept per resource\<close>

definition applyCurrentAccessPlaybook :: "env \<Rightarrow> desk \<Rightarrow> desk" where
  "applyCurrentAccessPlaybook env d =
     (let rid = number_or (jget (p_resource d) ''id'') 0;
          playbook = (if rid = 0 then JNull
            else find_or_null (\<lambda>item. js_number (jget item ''resourceId'') = Some rid) (d_playbooks d)) in
      if \<not> truthy playbook then
        session_error (bilingual env (''Aucun playbook enregistr'' @ e_acute @ '' pour cette ressource.'')
          ''No saved playbook for this resource.'') d
      else (fill_from_playbook playbook d)\<lparr>d_error := []\<rparr>)"

definition prompt_playbook :: "env \<Rightarrow> rat \<Rightarrow> desk \<Rightarrow> json" where
  "prompt_playbook env rid d =
     JObj [(''resourceId'', JNum rid), (''justification'', JStr (trim (p_reason d))),
           (''ticketId'', JStr (trim (p_ticket d))), (''purpose'', JStr (trim (p_purpose d))),
           (''purposeEvidence'', JStr (trim (p_evidence d))), (''updatedAt'', JStr (iso_of_ms (env_now env)))]"

definition nothing_typed :: "desk \<Rightarrow> bool" where
  "nothing_typed d =
     (trim (p_reason d) = [] \<and> trim (p_ticket d) = [] \<and> trim (p_purpose d) = [] \<and> trim (p_evidence d) = [])"

definition not_for :: "rat \<Rightarrow> json \<Rightarrow> bool" where
  "not_for rid item = (js_number (jget item ''resourceId'') \<noteq> Some rid)"

definition saveCurrentAccessPlaybook :: "env \<Rightarrow> desk \<Rightarrow> desk" where
  "saveCurrentAccessPlaybook env d =
     (let rid = number_or (jget (p_resource d) ''id'') 0 in
      if rid = 0 then d
      else if nothing_typed d then
        session_error (bilingual env
          (''Le playbook ne peut pas '' @ e_circ @ ''tre vide. Remplissez au moins un champ avant enregistrement.'')
          ''Playbook cannot be empty. Fill at least one field before saving.'') d
      else
        d\<lparr>d_playbooks := filter (not_for rid) (d_playbooks d) @ [prompt_playbook env rid d], d_error := [],
          d_term := (d_term d)
            \<lparr>t_info := bilingual env
               (''Playbook d'acc'' @ e_grave @ ''s enregistr'' @ e_acute @ '' pour '' @
                  text_or (jget (p_resource d) ''name'') ''la ressource'' @ ''.'')
               (''Access playbook saved for '' @ text_or (jget (p_resource d) ''name'') ''resource'' @ ''.'')\<rparr>\<rparr>)"

definition deleteCurrentAccessPlaybook :: "desk \<Rightarrow> desk" where
  "deleteCurrentAccessPlaybook d =
     (let rid = number_or (jget (p_resource d) ''id'') 0 in
      if rid = 0 then d else d\<lparr>d_playbooks := filter (not_for rid) (d_playbooks d), d_error := []\<rparr>)"

subsection \<open>The risk preview of the dialog\<close>

text \<open>The request due 220 ms after the last change, or none and the preview is cleared.\<close>

definition preview_effect :: "user_view \<Rightarrow> desk \<Rightarrow> desk \<times> effect list" where
  "preview_effect v d =
     (if \<not> truthy (p_resource d) \<or> \<not> truthy (v_token v) \<or> \<not> v_jit v
      then (d\<lparr>p_preview := JNull, p_preview_error := []\<rparr>, [])
      else (d, [Call (previewSessionRisk
              (JObj [(''resourceId'', jget (p_resource d) ''id''), (''justification'', JStr (trim (p_reason d))),
                     (''ticketId'', JStr (trim (p_ticket d))), (''purpose'', JStr (trim (p_purpose d)))]))]))"

definition on_preview :: "env \<Rightarrow> (js_error + json) \<Rightarrow> desk \<Rightarrow> desk" where
  "on_preview env reply d =
     (case reply of
        Inr payload \<Rightarrow> d\<lparr>p_preview := payload, p_preview_error := []\<rparr>
      | Inl e \<Rightarrow> d\<lparr>p_preview := JNull,
                  p_preview_error := shown env e (bilingual env
                    (''Impossible de calculer l'aper'' @ [CHR 0xC3, CHR 0xA7] @ ''u de risque'') ''Unable to compute risk preview'')\<rparr>)"

subsection \<open>Access requests\<close>

definition decide_reply :: "env \<Rightarrow> string \<Rightarrow> rat \<Rightarrow> (js_error + json) \<Rightarrow> desk \<Rightarrow> desk" where
  "decide_reply env fallback request_id reply d =
     (case reply of
        Inr updated \<Rightarrow> d\<lparr>d_requests := replace_item request_id updated (d_requests d), d_request_error := []\<rparr>
      | Inl e \<Rightarrow> d\<lparr>d_request_error := shown env e fallback\<rparr>)"

definition onApproveAccessRequest :: "env \<Rightarrow> rat \<Rightarrow> (js_error + json) \<Rightarrow> desk \<Rightarrow> desk" where
  "onApproveAccessRequest env =
     decide_reply env (bilingual env (''Impossible d'approuver la demande d'acc'' @ e_grave @ ''s'')
       ''Unable to approve access request'')"

definition onDenyAccessRequest :: "env \<Rightarrow> rat \<Rightarrow> (js_error + json) \<Rightarrow> desk \<Rightarrow> desk" where
  "onDenyAccessRequest env =
     decide_reply env (bilingual env (''Impossible de refuser la demande d'acc'' @ e_grave @ ''s'')
       ''Unable to deny access request'')"

definition reloadAccessRequests_call :: "user_view \<Rightarrow> effect list" where
  "reloadAccessRequests_call v =
     (if \<not> truthy (v_token v) \<or> \<not> v_jit v then [] else [Call fetchAccessRequests])"

text \<open>\<open>data.items\<close> is read without a guard: no object is a TypeError.\<close>

definition reloadAccessRequests_reply :: "env \<Rightarrow> (js_error + json) \<Rightarrow> desk \<Rightarrow> desk" where
  "reloadAccessRequests_reply env reply d =
     (case reply of
        Inl e \<Rightarrow> d\<lparr>d_request_error := shown env e ''Unable to load access requests''\<rparr>
      | Inr payload \<Rightarrow>
          (case jread payload ''items'' of
             None \<Rightarrow> d\<lparr>d_request_error := shown env TypeError ''Unable to load access requests''\<rparr>
           | Some items \<Rightarrow> d\<lparr>d_requests := array_or_empty items, d_request_error := []\<rparr>))"

subsection \<open>Back to a session\<close>

definition resumeSession :: "user_view \<Rightarrow> json \<Rightarrow> desk \<Rightarrow> desk \<times> effect list" where
  "resumeSession v session d =
     (let protocol = to_lower (text_or (jget session ''protocol'') []) in
      if protocol = ''ssh'' then
        (let (tm, lease) = openTerminal (v_env v) (d_resources d) (v_jit v) False session (d_term d) in
         (d\<lparr>d_term := tm\<rparr>, case lease of None \<Rightarrow> [] | Some c \<Rightarrow> [Call c]))
      else if protocol = ''fileshare'' then (d, [Tab (page_for v ''files'' session)])
      else if \<not> isAgentTunnelProtocol (JStr protocol) then (d, [])
      else (case find (\<lambda>item. same_number (jget item ''id'') (jget session ''resourceId'')) (d_resources d) of
              None \<Rightarrow> (d, [])
            | Some resource \<Rightarrow> (d, [Call (mintAgentToken (jget session ''id''))])))"

definition on_resume_token :: "user_view \<Rightarrow> json \<Rightarrow> json \<Rightarrow> nat \<Rightarrow> (js_error + json) \<Rightarrow> desk \<Rightarrow> desk" where
  "on_resume_token v resource session port reply d =
     (case buildAgentLaunchPayload (v_env v) (v_page v) resource port reply of
        Inl e \<Rightarrow> session_error (shown (v_env v) e (tx (v_env v) ''feedback.agentTokenUnavailable'')) d
      | Inr l \<Rightarrow> d\<lparr>d_error := [],
                  d_launcher := launch_tunnel (env_now (v_env v)) resource (jget session ''id'') port l
                                  (d_launcher d)\<rparr>)"

definition openLiveSession :: "user_view \<Rightarrow> json \<Rightarrow> desk \<Rightarrow> desk \<times> effect list" where
  "openLiveSession v session d =
     (let protocol = to_lower (text_or (jget session ''protocol'') []) in
      if protocol = ''vnc'' then (d\<lparr>d_vnc := session\<rparr>, [])
      else if protocol = ''fileshare'' then resumeSession v session d
      else (let (tm, lease) = openTerminal (v_env v) (d_resources d) (v_jit v) False session (d_term d) in
            (d\<lparr>d_term := tm\<rparr>, case lease of None \<Rightarrow> [] | Some c \<Rightarrow> [Call c])))"

subsection \<open>How a session reaches its resource\<close>

definition session_resource_id :: "json list \<Rightarrow> json \<Rightarrow> rat" where
  "session_resource_id resources session =
     number_or (jget (resolveSessionResource resources session) ''id'') 0"

text \<open>The resources to ask a route for, each once, in the order of the sessions.\<close>

definition relay_resource_ids :: "json list \<Rightarrow> json list \<Rightarrow> rat list" where
  "relay_resource_ids resources sessions =
     filter (\<lambda>i. 0 < i) (rev (remdups (rev (map (session_resource_id resources) sessions))))"

record relay_hint =
  rh_route :: string
  rh_label :: json
  rh_status :: string
  rh_assigned :: bool

definition relay_hint :: "json \<Rightarrow> relay_hint" where
  "relay_hint resolution =
     (let relay = jget resolution ''relay'' in
      \<lparr>rh_route = (if to_lower (text_or (jget resolution ''route'') ''direct'') = ''relay'' then ''relay'' else ''direct''),
       rh_label = jor (jor (jget relay ''label'') (jget relay ''relayId'')) (JStr []),
       rh_status = str_or (to_lower (text_or (jget relay ''status'') [])) ''offline'',
       rh_assigned = truthy (jget resolution ''relayAssigned'')\<rparr>)"

definition relay_hints :: "json list \<Rightarrow> json list \<Rightarrow> (rat \<times> json) list \<Rightarrow> (string \<times> relay_hint) list" where
  "relay_hints resources sessions resolutions =
     fold (\<lambda>session hints.
         let rid = session_resource_id resources session in
         if rid = 0 then hints
         else assoc_set (js_string (jget session ''id''))
                (relay_hint (case map_of resolutions rid of Some r \<Rightarrow> r | None \<Rightarrow> JUndef)) hints)
       sessions []"

text \<open>A lookup that fails counts as no resolution.\<close>

definition on_relay_resolution :: "rat \<Rightarrow> (js_error + json) \<Rightarrow> rat \<times> json" where
  "on_relay_resolution rid reply = (rid, case reply of Inl e \<Rightarrow> JNull | Inr r \<Rightarrow> r)"

subsection \<open>Properties\<close>

lemma connect_start_calls:
  "c \<in> set (snd (connect_start v resource meta tab d)) \<Longrightarrow>
   (\<exists>payload. c = Call (createSession payload) \<and>
      session_payload resource (session_login v resource) meta = Some payload) \<or> c = CloseTab"
  by (auto simp: connect_start_def connect_failed_def Let_def split: if_splits option.splits)

lemma prompt_payload:
  "session_payload resource account (prompt_meta d) =
     Some (JObj [(''resourceId'', jget resource ''id''), (''target'', jget resource ''target''),
        (''user'', account), (''protocol'', jget resource ''protocol''), (''port'', jget resource ''port''),
        (''justification'', JStr (trim (p_reason d))), (''ticketId'', JStr (trim (p_ticket d))),
        (''purpose'', JStr (trim (p_purpose d))), (''purposeEvidence'', JStr (trim (p_evidence d))),
        (''accessRequestId'', jor (p_request d) JUndef)])"
  by (simp add: session_payload_def prompt_meta_def trimmed_def jor_def)

lemma high_risk_prompt: "high_risk resource \<Longrightarrow> n_prompt (accessNeeds v resource reply)"
  by (simp add: accessNeeds_def local_prompt_def Let_def split: option.split sum.split)




definition sample_view :: user_view where
  "sample_view = \<lparr>v_env = sample_env, v_page = sample_page, v_token = JStr ''t1'', v_user = JStr ''ana'',
     v_jit = True, v_containment = False, v_manager = False\<rparr>"

definition sample_desk :: desk where
  "sample_desk =
     \<lparr>d_resources = [], d_sessions = [], d_grants = [], d_error = [], d_last_error = [], d_vnc = JNull,
      d_rbi = JNull, d_term = blank_terminal None [], d_launcher = no_launch, d_playbooks = [], d_requests = [],
      d_request_error = [], p_resource = JNull, p_reason = [], p_ticket = [], p_purpose = [], p_evidence = [],
      p_mode = ''connect'', p_request = JNull, p_preview = JNull, p_preview_error = [], d_route = ''/''\<rparr>"

definition sample_critical :: json where
  "sample_critical = JObj [(''id'', JInt 3), (''protocol'', JStr ''ssh''), (''riskLevel'', JStr ''critical'')]"


definition sample_dual :: json where
  "sample_dual = JObj [(''id'', JInt 5), (''protocol'', JStr ''ssh''), (''requireDualApproval'', JBool True)]"


text \<open>A created session is put first in the list with the others after it, and the error line is
  cleared unless a tunnel still waits for its token; a refused one changes no list, shows why and
  closes the tab that was opened for it, when one was.\<close>

theorem session_reply_is_recorded:
  "d_sessions (fst (on_session_reply v resource tab reply d)) =
     (case reply of Inl e \<Rightarrow> d_sessions d | Inr created \<Rightarrow> created # d_sessions d) \<and>
   d_requests (fst (on_session_reply v resource tab reply d)) = d_requests d \<and>
   d_error (fst (on_session_reply v resource tab reply d)) =
     (case reply of
        Inl e \<Rightarrow> shown (v_env v) e ''Unable to create session''
      | Inr created \<Rightarrow> if route_of resource = Tunnel then d_error d else []) \<and>
   (CloseTab \<in> set (snd (on_session_reply v resource tab reply d)) \<longleftrightarrow>
      (\<exists>e. reply = Inl e) \<and> uses_tab (route_of resource) \<and> tab)"
proof (cases reply)
  case (Inl e)
  then show ?thesis by (simp add: on_session_reply_def connect_failed_def)
next
  case (Inr created)
  then show ?thesis
    by (cases "route_of resource")
      (auto simp: on_session_reply_def session_created_def ssh_created_def grants_call_def Let_def
        split: prod.splits option.splits)
qed

text \<open>A saved playbook is the only one of its resource, leaves the ones of the others as they were,
  and fills the dialog with the trimmed details the next time it opens on that resource.\<close>

theorem saved_playbook_fills_the_dialog:
  assumes "number_or (jget (p_resource d) ''id'') 0 = rid" and "rid \<noteq> 0" and "\<not> nothing_typed d"
    and "b = saveCurrentAccessPlaybook env d" and "js_number (jget resource ''id'') = Some rid"
  shows "filter (not_for rid) (d_playbooks b) = filter (not_for rid) (d_playbooks d) \<and>
         (\<exists>playbook. filter (\<lambda>p. \<not> not_for rid p) (d_playbooks b) = [playbook]) \<and>
         p_reason (openConnectPrompt resource b) = trim (p_reason d) \<and>
         p_ticket (openConnectPrompt resource b) = trim (p_ticket d) \<and>
         p_purpose (openConnectPrompt resource b) = trim (p_purpose d) \<and>
         p_evidence (openConnectPrompt resource b) = trim (p_evidence d)"
proof -
  have b: "d_playbooks b = filter (not_for rid) (d_playbooks d) @ [prompt_playbook env rid d]"
    using assms(1-4) by (simp add: saveCurrentAccessPlaybook_def Let_def)
  have p: "\<not> not_for rid (prompt_playbook env rid d)"
    by (simp add: not_for_def prompt_playbook_def)
  have same: "same_number (jget item ''resourceId'') (jget resource ''id'') \<longleftrightarrow> \<not> not_for rid item" for item
    using assms(5) by (auto simp: same_number_def not_for_def split: option.split)
  have "find (\<lambda>item. \<not> not_for rid item) (filter (not_for rid) xs @ [x]) = Some x" if "\<not> not_for rid x" for xs x
    using that by (induction xs) auto
  with p have "playbook_of resource b = prompt_playbook env rid d"
    by (simp add: playbook_of_def find_or_null_def same b)
  then show ?thesis
    using b p by (simp add: openConnectPrompt_def fill_from_playbook_def prompt_playbook_def comp_def)
qed

theorem saved_playbook_fills_the_dialog_witness:
  "p_reason (openConnectPrompt sample_critical (saveCurrentAccessPlaybook sample_env
     (sample_desk\<lparr>p_resource := sample_critical, p_reason := ''patch''\<rparr>))) = trim ''patch''"
proof -
  have "trim ''patch'' \<noteq> []" by code_simp
  then show ?thesis
    using saved_playbook_fills_the_dialog [of "sample_desk\<lparr>p_resource := sample_critical, p_reason := ''patch''\<rparr>" 3
        "saveCurrentAccessPlaybook sample_env (sample_desk\<lparr>p_resource := sample_critical, p_reason := ''patch''\<rparr>)"
        sample_env sample_critical]
    by (simp add: sample_critical_def nothing_typed_def)
qed


definition dialog_refusals :: "string list" where
  "dialog_refusals =
     [''This resource requires an access justification before connect'',
      ''This access path requires a ticketId under JIT policy'',
      ''High-risk resources require a purpose (purpose-bound session)'',
      ''Containment mode is enabled: provide a justification to open this session'']"

lemma refusals_recognised: "list_all missing_access_details dialog_refusals"
  by code_simp

definition unmatched :: "string \<times> string \<Rightarrow> bool" where
  "unmatched kv = (fst kv \<notin> set dialog_refusals \<or> \<not> missing_access_details (snd kv))"

lemma unmatched_generic: "list_all unmatched fr_generic"
  by code_simp

lemma unmatched_sign_in: "list_all unmatched fr_sign_in"
  by code_simp

lemma unmatched_sso: "list_all unmatched fr_sso"
  by code_simp

lemma unmatched_users: "list_all unmatched fr_users"
  by code_simp

lemma unmatched_resources: "list_all unmatched fr_resources"
  by code_simp

lemma unmatched_sessions: "list_all unmatched fr_sessions"
  by code_simp

lemma unmatched_terminal: "list_all unmatched fr_terminal"
  by code_simp

lemma unmatched_agents: "list_all unmatched fr_agents"
  by code_simp

lemma unmatched_vault: "list_all unmatched fr_vault"
  by code_simp

lemma unmatched_audit: "list_all unmatched fr_audit"
  by code_simp

lemma unmatched_integrations: "list_all unmatched fr_integrations"
  by code_simp

lemma unmatched_license: "list_all unmatched fr_license"
  by code_simp

lemma unmatched_web_proxy: "list_all unmatched fr_web_proxy"
  by code_simp

lemma unmatched_fileshare: "list_all unmatched fr_fileshare"
  by code_simp

lemmas unmatched_sections =
  unmatched_generic
  unmatched_sign_in
  unmatched_sso
  unmatched_users
  unmatched_resources
  unmatched_sessions
  unmatched_terminal
  unmatched_agents
  unmatched_vault
  unmatched_audit
  unmatched_integrations
  unmatched_license
  unmatched_web_proxy
  unmatched_fileshare

lemma unmatched_table: "list_all unmatched FR"
  unfolding FR_def list_all_append by (intro conjI unmatched_sections)

lemma refusals_in_table: "list_all (\<lambda>m. m \<in> set (map fst fr_sessions)) dialog_refusals"
  by code_simp

lemma french_refusal_missed:
  assumes "m \<in> set dialog_refusals" and "trim m = m"
  shows "\<not> missing_access_details (translateServerMessage m ''fr'')"
proof -
  have "m \<in> set (map fst fr_sessions)" using refusals_in_table assms by (auto simp: list_all_iff)
  then have "translated_key m" by (auto simp: translated_key_def FR_def)
  then obtain w where w: "(m, w) \<in> set FR" "fr_entry m = Some w" using fr_entry_key by blast
  then have "\<not> missing_access_details w"
    using unmatched_table assms(1) by (fastforce simp: list_all_iff unmatched_def)
  moreover have "m \<noteq> []" using assms(1) by (auto simp: dialog_refusals_def)
  ultimately show ?thesis
    using w assms(2) by (simp add: translateServerMessage_def starts_with_def)
qed

lemma english_unchanged: "translateServerMessage m ''en'' = m"
  by (simp add: translateServerMessage_def starts_with_def)

lemma direct_refusal_prompt:
  "p_resource (fst (on_direct_refusal v resource tab e d)) =
     (if missing_access_details (error_message (v_env v) e) then resource else p_resource d)"
  by (simp add: on_direct_refusal_def connect_failed_def after_direct_connect_def openConnectPrompt_def
      fill_from_playbook_def show_prompt_def)

text \<open>The refusals the access dialog can fix open it in English, but as written not in French: the
  error holds the translated text, which the pattern does not match.\<close>

theorem french_refusals_open_no_dialog:
  "list_all (\<lambda>m.
      p_resource (fst (on_direct_refusal v resource tab (serverError ''en'' m 400) d)) = resource \<and>
      p_resource (fst (on_direct_refusal v resource tab (serverError ''fr'' m 400) d)) = p_resource d)
     dialog_refusals"
proof -
  have "list_all (\<lambda>m. server_error_text m = m \<and> trim m = m) dialog_refusals" by code_simp
  with refusals_recognised french_refusal_missed show ?thesis
    by (simp add: list_all_iff direct_refusal_prompt serverError_def Let_def error_message_def english_unchanged)
qed

text \<open>As written, connecting to an SSH resource with a vaulted secret under the JIT licence asks for
  two one-time leases of the same resource: the one of the terminal and the one of the handler.\<close>

theorem vaulted_connect_takes_two_leases:
  assumes "route_of resource = Ssh" and "vaulted_secret resource" and "v_jit v"
    and "truthy resource" and "resolveSessionResource (d_resources d) created = resource"
    and "\<not> truthy (jget created ''credentialSource'') \<or> jget created ''credentialSource'' = JStr ''vaulted''"
    and "\<not> truthy (jget created ''accessGrantId'')"
  shows "snd (session_created v resource tab created d) =
           [Call (issueEphemeralCredential (jget resource ''id'')),
            Call (issueEphemeralCredential (jget resource ''id''))]"
proof -
  have "jor (jor (jget resource ''credentialSource'') x) (JStr ''vaulted'') = JStr ''vaulted''"
    if "\<not> truthy x \<or> x = JStr ''vaulted''" for x
    using assms(2) that by (auto simp: vaulted_secret_def credential_source_def jor_def split: if_splits)
  then show ?thesis
    using assms
    by (simp add: session_created_def ssh_created_def openTerminal_def vaulted_secret_def credential_source_def
        grants_call_def Let_def split: prod.split)
qed


definition sample_vaulted :: json where
  "sample_vaulted = JObj [(''id'', JInt 3), (''protocol'', JStr ''ssh''), (''hasCredentials'', JBool True)]"

lemma sample_vaulted_route: "route_of sample_vaulted = Ssh"
  by code_simp

lemma sample_vaulted_resolved: "resolveSessionResource [sample_vaulted] sample_ssh = sample_vaulted"
  by (simp add: resolveSessionResource_def sample_ssh_def sample_vaulted_def)

theorem vaulted_connect_takes_two_leases_witness:
  "length (snd (session_created sample_view sample_vaulted False sample_ssh
     (sample_desk\<lparr>d_resources := [sample_vaulted]\<rparr>))) = 2"
  using vaulted_connect_takes_two_leases [of sample_vaulted sample_view "sample_desk\<lparr>d_resources := [sample_vaulted]\<rparr>"
      sample_ssh False] sample_vaulted_route sample_vaulted_resolved
  by (simp add: vaulted_secret_def credential_source_def sample_view_def)
    (simp add: sample_vaulted_def sample_ssh_def jor_def)

text \<open>Without the JIT licence no secret reaches the page when an SSH session is opened: the terminal
  holds no password and no lease is asked for.\<close>

theorem unlicensed_connect_holds_no_secret:
  assumes "route_of resource = Ssh" and "\<not> v_jit v"
  shows "t_password (d_term (fst (session_created v resource tab created d))) = [] \<and>
         snd (session_created v resource tab created d) = []"
  using assms
  by (simp add: session_created_def ssh_created_def openTerminal_def reset_terminal_def connect_injected_def
      connect_without_password_def grants_call_def Let_def)

theorem unlicensed_connect_holds_no_secret_witness:
  "t_password (d_term (fst (session_created (sample_view\<lparr>v_jit := False\<rparr>) sample_vaulted False sample_ssh
     sample_desk))) = []"
  using unlicensed_connect_holds_no_secret [OF sample_vaulted_route, of "sample_view\<lparr>v_jit := False\<rparr>"] by simp

text \<open>The relay route is asked for once per resource, for exactly the resources the sessions resolve
  to, and every session on one of them gets a hint.\<close>

theorem relay_routes_asked_once:
  "distinct (relay_resource_ids resources sessions) \<and>
   set (relay_resource_ids resources sessions) =
     {session_resource_id resources s | s. s \<in> set sessions \<and> 0 < session_resource_id resources s}"
  by (auto simp: relay_resource_ids_def)

end
