(* ===== verification/SshUpload.thy ===== *)
theory SshUpload
  imports AuthFlow ApiSafety
begin

section \<open>Sending a file to the target of an SSH session (ui/SshFilesDialog.jsx)\<close>

text \<open>
  A file goes up in chunks of 4 MB.  The bastion stages them under the upload identifier and answers
  409 when the target exists or when the offset is not the one it expects; the dialog restarts or
  moves accordingly.  The loop of the dialog need not end for every server, so it is a
  \<open>partial_function\<close>: \<open>None\<close> is an upload that never returns.  The second part models what
  \<open>upload_chunk\<close> of the bastion (ssh_transfer.cc) does with a chunk once the request is
  allowed, and shows that the two together store the file.
\<close>

definition CHUNK_BYTES :: nat where
  "CHUNK_BYTES = 4 * 1024 * 1024"

definition joinPath :: "string \<Rightarrow> string \<Rightarrow> string" where
  "joinPath dir name = (if ends_with dir ''/'' then dir @ name else dir @ ''/'' @ name)"

subsection \<open>Sizes as text\<close>

text \<open>\<open>value.toFixed(d)\<close> for a value that is not negative.\<close>

definition to_fixed :: "nat \<Rightarrow> rat \<Rightarrow> string" where
  "to_fixed d v =
     (let m = nat (floor (v * 10 ^ d + 1 / 2)) in
      if d = 0 then show_nat m
      else show_nat (m div 10 ^ d) @ ''.'' @ pad_left d (CHR ''0'') (show_nat (m mod 10 ^ d)))"

fun scale_size :: "string list \<Rightarrow> rat \<Rightarrow> rat \<times> string" where
  "scale_size [] v = (v, [])"
| "scale_size [u] v = (v, u)"
| "scale_size (u # u2 # us) v =
     (if 1024 \<le> v then scale_size (u2 # us) (v / 1024) else (v, u))"

definition formatSize :: "json \<Rightarrow> string" where
  "formatSize bytes =
     (let n = number_or bytes 0 in
      if n < 1024 then show_rat n @ '' B''
      else (let (v, u) = scale_size [''KB'', ''MB'', ''GB'', ''TB''] (n / 1024) in
            to_fixed (if v < 10 then 1 else 0) v @ '' '' @ u))"

subsection \<open>The parts of a file\<close>

record upload_file =
  fi_name :: string
  fi_bytes :: string

definition file_size :: "upload_file \<Rightarrow> nat" where
  "file_size f = length (fi_bytes f)"

text \<open>\<open>file.slice(a, b)\<close>: positions are truncated to integers, a negative one counts from the
  end, and both stay within the file.\<close>

definition blob_index :: "nat \<Rightarrow> rat \<Rightarrow> nat" where
  "blob_index len r =
     (let i = (if r < 0 then - floor (- r) else floor r) in
      if i < 0 then nat (int len + i) else min len (nat i))"

definition slice :: "string \<Rightarrow> rat \<Rightarrow> rat \<Rightarrow> string" where
  "slice bytes a b =
     (let i = blob_index (length bytes) a; j = blob_index (length bytes) b in take (j - i) (drop i bytes))"

subsection \<open>One chunk\<close>

record upload_query =
  q_path :: string
  q_upload :: nat
  q_offset :: rat
  q_chunk :: string
  q_final :: bool
  q_overwrite :: bool

text \<open>The server: its state, and the reply of \<open>uploadSessionFileChunk\<close>.\<close>

type_synonym 'u server = "'u \<Rightarrow> upload_query \<Rightarrow> (js_error + json) \<times> 'u"

record transfer =
  xf_error :: string
  xf_notice :: string
  xf_progress :: "(string \<times> int) option"

record 'u sending =
  sd_overwrite :: bool
  sd_upload :: nat
  sd_offset :: rat
  sd_server :: 'u
  sd_ui :: transfer

type_synonym 'u sent = "bool \<times> 'u \<times> transfer"

definition percent_done :: "upload_file \<Rightarrow> rat \<Rightarrow> int" where
  "percent_done f offset =
     (if file_size f = 0 then 100 else floor (offset / of_nat (file_size f) * 100 + 1 / 2))"

definition chunk_query :: "upload_file \<Rightarrow> string \<Rightarrow> 'u sending \<Rightarrow> upload_query" where
  "chunk_query f dest s =
     (let chunk = slice (fi_bytes f) (sd_offset s) (sd_offset s + of_nat CHUNK_BYTES) in
      \<lparr>q_path = dest, q_upload = sd_upload s, q_offset = sd_offset s, q_chunk = chunk,
       q_final = (of_nat (file_size f) \<le> sd_offset s + of_nat (length chunk)),
       q_overwrite = sd_overwrite s\<rparr>)"

definition stop_sending :: "transfer \<Rightarrow> transfer" where
  "stop_sending x = x\<lparr>xf_progress := None\<rparr>"

definition failed_sending :: "string \<Rightarrow> transfer \<Rightarrow> transfer" where
  "failed_sending msg x = x\<lparr>xf_error := msg, xf_progress := None\<rparr>"

text \<open>One turn of the loop: \<open>Inl\<close> the result, or \<open>Inr\<close> the state of the next turn.  A restart
  that replaces the file takes a new upload identifier; the \<open>finally\<close> of the first attempt has
  cleared the progress by then.\<close>

definition send_chunk ::
    "'u server \<Rightarrow> env \<Rightarrow> bool \<Rightarrow> upload_file \<Rightarrow> string \<Rightarrow> 'u sending \<Rightarrow> 'u sent + 'u sending" where
  "send_chunk srv env ask f dest s =
     (let q = chunk_query f dest s; (reply, u) = srv (sd_server s) q; x = sd_ui s in
      case reply of
        Inl e \<Rightarrow> Inl (False, u, failed_sending (shown env e ''Error'') x)
      | Inr result \<Rightarrow>
          (let conflict = jget result ''conflict'' in
           if truthy conflict then
             (if jget conflict ''error'' = JStr ''exists'' then
                (if \<not> ask then Inl (False, u, stop_sending x)
                 else Inr \<lparr>sd_overwrite = True, sd_upload = sd_upload s + 1, sd_offset = 0, sd_server = u,
                           sd_ui = stop_sending x\<rparr>)
              else if jget conflict ''error'' = JStr ''offset_mismatch'' then
                (let expected = number_or (jget conflict ''expected'') 0 in
                 if expected \<le> of_nat (file_size f)
                 then Inr (s\<lparr>sd_offset := expected, sd_server := u\<rparr>)
                 else Inl (True, u, stop_sending x))
              else Inl (False, u,
                     failed_sending (str_or (js_string (jor (jget conflict ''message'') (jget conflict ''error''))) ''Error'') x))
           else
             (let offset = sd_offset s + of_nat (length (q_chunk q));
                  y = x\<lparr>xf_progress := Some (fi_name f, percent_done f offset)\<rparr> in
              if q_final q then
                Inl (True, u, stop_sending
                  (y\<lparr>xf_notice := env_t env ''sshTransfer.uploaded''
                       [(''name'', JStr (fi_name f)),
                        (''size'', JStr (formatSize (jcoalesce (jget result ''size'') (JInt (int (file_size f))))))]\<rparr>))
              else if offset \<le> of_nat (file_size f) then Inr (s\<lparr>sd_offset := offset, sd_server := u, sd_ui := y\<rparr>)
              else Inl (True, u, stop_sending y))))"

partial_function (option) send_loop ::
    "'u server \<Rightarrow> env \<Rightarrow> bool \<Rightarrow> upload_file \<Rightarrow> string \<Rightarrow> 'u sending \<Rightarrow> 'u sent option" where
  "send_loop srv env ask f dest s =
     (case send_chunk srv env ask f dest s of
        Inl result \<Rightarrow> Some result
      | Inr s' \<Rightarrow> send_loop srv env ask f dest s')"

text \<open>\<open>max_mb\<close> is the limit the listing announced, 0 for none; \<open>first\<close> a fresh upload identifier.\<close>

definition sendFile ::
    "'u server \<Rightarrow> env \<Rightarrow> bool \<Rightarrow> rat \<Rightarrow> nat \<Rightarrow> upload_file \<Rightarrow> string \<Rightarrow> bool \<Rightarrow> 'u \<Rightarrow> transfer \<Rightarrow> 'u sent option" where
  "sendFile srv env ask max_mb first f dest overwrite u x =
     (if max_mb \<noteq> 0 \<and> max_mb * 1024 * 1024 < of_nat (file_size f)
      then Some (False, u,
             x\<lparr>xf_error := env_t env ''sshTransfer.tooLarge''
                 [(''name'', JStr (fi_name f)), (''max'', JNum max_mb)]\<rparr>)
      else send_loop srv env ask f dest
             \<lparr>sd_overwrite = overwrite, sd_upload = first, sd_offset = 0, sd_server = u,
              sd_ui = x\<lparr>xf_progress := Some (fi_name f, 0)\<rparr>\<rparr>)"

subsection \<open>Several files\<close>

definition destination_of :: "bool \<Rightarrow> string \<Rightarrow> upload_file \<Rightarrow> string" where
  "destination_of sftp base f =
     (if sftp \<or> ends_with base ''/'' \<or> base = [] then joinPath (str_or base ''.'') (fi_name f) else base)"

text \<open>The upload identifiers of a file are those from \<open>2 n\<close> on: at most two attempts per file.\<close>

fun send_each ::
    "'u server \<Rightarrow> env \<Rightarrow> bool \<Rightarrow> rat \<Rightarrow> bool \<Rightarrow> string \<Rightarrow> nat \<Rightarrow> upload_file list \<Rightarrow> 'u \<Rightarrow> transfer \<Rightarrow> ('u \<times> transfer) option" where
  "send_each srv env ask max_mb sftp base n [] u x = Some (u, x)"
| "send_each srv env ask max_mb sftp base n (f # fs) u x =
     (case sendFile srv env ask max_mb (2 * n) f (destination_of sftp base f) False u x of
        None \<Rightarrow> None
      | Some (good, u', x') \<Rightarrow>
          if good then send_each srv env ask max_mb sftp base (n + 1) fs u' x' else Some (u', x'))"

definition sendFiles ::
    "'u server \<Rightarrow> env \<Rightarrow> bool \<Rightarrow> json \<Rightarrow> string \<Rightarrow> nat \<Rightarrow> upload_file list \<Rightarrow> 'u \<Rightarrow> transfer \<Rightarrow> ('u \<times> transfer) option" where
  "sendFiles srv env ask listing path_input n files u x =
     (if files = [] then Some (u, x)
      else (let sftp = (\<not> truthy listing \<or> jget listing ''sftp'' \<noteq> JBool False);
                base = (if sftp then text_or (jget listing ''path'') ''.'' else trim path_input) in
            send_each srv env ask (number_or (jget listing ''maxUploadMb'') 0) sftp base n files u
              (x\<lparr>xf_error := [], xf_notice := []\<rparr>)))"

subsection \<open>The bastion's side of a chunk\<close>

text \<open>
  Staged uploads by identifier and the files of the target.  \<open>ho_link\<close> is the error of opening
  the link to the target when it cannot be opened; without SFTP the file goes over SCP, which does
  not look for an existing one.  Writing to the staging area and to the target succeeds.
\<close>

record host =
  ho_link :: "string option"
  ho_sftp :: bool
  ho_limit_mb :: nat
  ho_staged :: "nat \<Rightarrow> string option"
  ho_files :: "string \<Rightarrow> string option"

definition kMaxChunkBytes :: nat where
  "kMaxChunkBytes = 6 * 1024 * 1024"

definition valid_remote_path :: "string \<Rightarrow> bool" where
  "valid_remote_path path =
     (path \<noteq> [] \<and> length path \<le> 4096 \<and> list_all (\<lambda>c. 32 \<le> code c \<and> code c \<noteq> 127) path)"

definition refuse :: "string \<Rightarrow> string \<Rightarrow> int \<Rightarrow> js_error + json" where
  "refuse loc text status = Inl (serverError loc text status)"

definition conflict_reply :: "(string \<times> json) list \<Rightarrow> js_error + json" where
  "conflict_reply body = Inr (JObj [(''conflict'', JObj body)])"

definition staged_bytes :: "host \<Rightarrow> nat \<Rightarrow> string" where
  "staged_bytes h i = (case ho_staged h i of None \<Rightarrow> [] | Some b \<Rightarrow> b)"

definition unstage :: "nat \<Rightarrow> host \<Rightarrow> host" where
  "unstage i h = h\<lparr>ho_staged := (ho_staged h)(i := None)\<rparr>"

text \<open>What follows the checks: the chunk is appended, and the last one pushes the file.\<close>

definition store_chunk :: "string \<Rightarrow> host \<Rightarrow> upload_query \<Rightarrow> (js_error + json) \<times> host" where
  "store_chunk loc h q =
     (let old = staged_bytes h (q_upload q); bytes = old @ q_chunk q; total = length bytes in
      if of_nat (length old) \<noteq> q_offset q then
        (conflict_reply [(''error'', JStr ''offset_mismatch''), (''expected'', JInt (int (length old)))], h)
      else if ho_limit_mb h * 1024 * 1024 < total then
        (refuse loc (''File exceeds the maximum upload size ('' @ show_nat (ho_limit_mb h) @ '' MB)'') 413,
         unstage (q_upload q) h)
      else if \<not> q_final q then
        (Inr (JObj [(''status'', JStr ''partial''), (''received'', JInt (int total))]),
         h\<lparr>ho_staged := (ho_staged h)(q_upload q := Some bytes)\<rparr>)
      else (case ho_link h of
              Some e \<Rightarrow> (refuse loc e 502, unstage (q_upload q) h)
            | None \<Rightarrow>
                (Inr (JObj [(''status'', JStr ''ok''), (''path'', JStr (q_path q)), (''size'', JInt (int total))]),
                 (unstage (q_upload q) h)\<lparr>ho_files := (ho_files h)(q_path q := Some bytes)\<rparr>)))"

definition upload_chunk :: "string \<Rightarrow> host server" where
  "upload_chunk loc h q =
     (if \<not> valid_remote_path (q_path q) then (refuse loc ''Invalid path'' 400, h)
      else if q_offset q < 0 then (refuse loc ''Invalid offset'' 400, h)
      else if kMaxChunkBytes < length (q_chunk q) then (refuse loc ''Chunk too large'' 413, h)
      else if q_offset q = 0 then
        (let h0 = unstage (q_upload q) h in
         if q_overwrite q then store_chunk loc h0 q
         else (case ho_link h of
                 Some e \<Rightarrow> (refuse loc e 502, h0)
               | None \<Rightarrow>
                   if ho_sftp h \<and> ho_files h (q_path q) \<noteq> None then
                     (conflict_reply [(''error'', JStr ''exists''),
                                      (''message'', JStr ''A file already exists at this path'')], h0)
                   else store_chunk loc h0 q))
      else store_chunk loc h q)"

subsection \<open>One turn against the bastion\<close>

lemma blob_index_nat: "blob_index len (of_nat k) = min len k"
  by (simp add: blob_index_def)

lemma slice_nat:
  assumes "k \<le> length bytes"
  shows "slice bytes (of_nat k) (of_nat k + of_nat c) = take c (drop k bytes)"
proof -
  have "slice bytes (of_nat k) (of_nat (k + c)) = take c (drop k bytes)"
    unfolding slice_def blob_index_nat using assms by (auto simp: Let_def min_def)
  then show ?thesis by simp
qed

lemma chunk_query_at:
  assumes "sd_offset s = of_nat k" and "k \<le> file_size f"
  shows "chunk_query f dest s =
     \<lparr>q_path = dest, q_upload = sd_upload s, q_offset = of_nat k,
      q_chunk = take CHUNK_BYTES (drop k (fi_bytes f)),
      q_final = (file_size f \<le> k + CHUNK_BYTES), q_overwrite = sd_overwrite s\<rparr>"
proof -
  have "of_nat (file_size f) \<le> (of_nat k + of_nat (length (take CHUNK_BYTES (drop k (fi_bytes f)))) :: rat)
      \<longleftrightarrow> file_size f \<le> k + length (take CHUNK_BYTES (drop k (fi_bytes f)))"
    by (metis of_nat_add of_nat_le_iff)
  also have "\<dots> \<longleftrightarrow> file_size f \<le> k + CHUNK_BYTES"
    using assms(2) by (auto simp: file_size_def min_def)
  finally show ?thesis
    using assms by (simp add: chunk_query_def Let_def slice_nat file_size_def)
qed

text \<open>The bastion expects the chunk at position \<open>k\<close>.\<close>

definition expects :: "host \<Rightarrow> upload_file \<Rightarrow> string \<Rightarrow> bool \<Rightarrow> nat \<Rightarrow> nat \<Rightarrow> bool" where
  "expects h f dest overwrite i k =
     (ho_link h = None \<and> valid_remote_path dest \<and> file_size f \<le> ho_limit_mb h * 1024 * 1024 \<and>
      k \<le> file_size f \<and>
      (if k = 0 then overwrite \<or> \<not> ho_sftp h \<or> ho_files h dest = None
       else ho_staged h i = Some (take k (fi_bytes f))))"

lemma store_next:
  assumes "staged_bytes h (q_upload q) = take k bytes" and "q_offset q = of_nat k" and "k \<le> length bytes"
    and "q_chunk q = take c (drop k bytes)" and "length bytes \<le> ho_limit_mb h * 1024 * 1024"
  shows "store_chunk loc h q =
     (if \<not> q_final q then
        (Inr (JObj [(''status'', JStr ''partial''), (''received'', JInt (int (length (take (k + c) bytes))))]),
         h\<lparr>ho_staged := (ho_staged h)(q_upload q := Some (take (k + c) bytes))\<rparr>)
      else (case ho_link h of
              Some e \<Rightarrow> (refuse loc e 502, unstage (q_upload q) h)
            | None \<Rightarrow>
                (Inr (JObj [(''status'', JStr ''ok''), (''path'', JStr (q_path q)),
                            (''size'', JInt (int (length (take (k + c) bytes))))]),
                 (unstage (q_upload q) h)\<lparr>ho_files := (ho_files h)(q_path q := Some (take (k + c) bytes))\<rparr>)))"
proof -
  have t: "take k bytes @ take c (drop k bytes) = take (k + c) bytes" by (simp add: take_add)
  have l: "length (take k bytes) = k" using assms(3) by simp
  have fits: "\<not> ho_limit_mb h * 1024 * 1024 < length (take (k + c) bytes)" using assms(5) by simp
  show ?thesis
    unfolding store_chunk_def Let_def assms(1,2,4) t l by (simp only: simp_thms if_False fits)
qed

lemma chunk_size_fits: "length (take CHUNK_BYTES xs) \<le> kMaxChunkBytes"
  by (simp add: CHUNK_BYTES_def kMaxChunkBytes_def)

lemma upload_chunk_expected:
  assumes "expects h f dest (q_overwrite q) (q_upload q) k"
    and "q = \<lparr>q_path = dest, q_upload = i, q_offset = of_nat k,
              q_chunk = take CHUNK_BYTES (drop k (fi_bytes f)), q_final = fin, q_overwrite = ov\<rparr>"
  shows "upload_chunk loc h q =
     (let h0 = (if k = 0 then unstage i h else h); b = take (k + CHUNK_BYTES) (fi_bytes f) in
      if \<not> fin then
        (Inr (JObj [(''status'', JStr ''partial''), (''received'', JInt (int (length b)))]),
         h0\<lparr>ho_staged := (ho_staged h0)(i := Some b)\<rparr>)
      else (Inr (JObj [(''status'', JStr ''ok''), (''path'', JStr dest), (''size'', JInt (int (length b)))]),
            (unstage i h0)\<lparr>ho_files := (ho_files h0)(dest := Some b)\<rparr>))"
proof -
  define h0 where "h0 = (if k = 0 then unstage i h else h)"
  have "staged_bytes h0 (q_upload q) = take k (fi_bytes f)"
    using assms by (simp add: h0_def staged_bytes_def expects_def unstage_def)
  moreover have "ho_limit_mb h0 = ho_limit_mb h" "ho_link h0 = ho_link h"
    by (simp_all add: h0_def unstage_def)
  ultimately have "store_chunk loc h0 q =
      (if \<not> fin then
        (Inr (JObj [(''status'', JStr ''partial''),
                    (''received'', JInt (int (length (take (k + CHUNK_BYTES) (fi_bytes f)))))]),
         h0\<lparr>ho_staged := (ho_staged h0)(i := Some (take (k + CHUNK_BYTES) (fi_bytes f)))\<rparr>)
      else (Inr (JObj [(''status'', JStr ''ok''), (''path'', JStr dest),
                       (''size'', JInt (int (length (take (k + CHUNK_BYTES) (fi_bytes f)))))]),
            (unstage i h0)\<lparr>ho_files := (ho_files h0)(dest := Some (take (k + CHUNK_BYTES) (fi_bytes f)))\<rparr>))"
    using assms by (subst store_next [where k = k and bytes = "fi_bytes f" and c = CHUNK_BYTES])
      (simp_all add: expects_def file_size_def)
  moreover have "upload_chunk loc h q = store_chunk loc h0 q"
  proof -
    have "\<not> kMaxChunkBytes < length (q_chunk q)"
      using chunk_size_fits [of "drop k (fi_bytes f)"] by (simp only: assms(2) upload_query.simps not_less)
    moreover have "q_path q = dest" "q_upload q = i" "q_offset q = of_nat k" by (simp_all add: assms(2))
    ultimately show ?thesis
      using assms(1) by (cases "k = 0") (auto simp: upload_chunk_def h0_def expects_def Let_def)
  qed
  ultimately show ?thesis by (simp add: h0_def Let_def)
qed


lemma expected_partial:
  assumes "expects h f dest ov i k" and "k + CHUNK_BYTES < file_size f"
  shows "expects ((if k = 0 then unstage i h else h)
            \<lparr>ho_staged := (ho_staged (if k = 0 then unstage i h else h))(i := Some (take (k + CHUNK_BYTES) (fi_bytes f)))\<rparr>)
          f dest ov i (k + CHUNK_BYTES)"
  using assms by (simp add: expects_def unstage_def CHUNK_BYTES_def)

definition uploaded_notice :: "env \<Rightarrow> upload_file \<Rightarrow> string" where
  "uploaded_notice env f =
     env_t env ''sshTransfer.uploaded''
       [(''name'', JStr (fi_name f)), (''size'', JStr (formatSize (JInt (int (file_size f)))))]"

lemma send_loop_stores:
  assumes "expects h f dest (sd_overwrite s) (sd_upload s) k" and "sd_offset s = of_nat k" and "sd_server s = h"
  shows "\<exists>h' x. send_loop (upload_chunk loc) env ask f dest s = Some (True, h', x) \<and>
           ho_files h' = (ho_files h)(dest := Some (fi_bytes f)) \<and> xf_progress x = None \<and>
           xf_error x = xf_error (sd_ui s) \<and> xf_notice x = uploaded_notice env f"
  using assms
proof (induction "file_size f - k" arbitrary: k h s rule: less_induct)
  case less
  let ?q = "chunk_query f dest s" and ?b = "take (k + CHUNK_BYTES) (fi_bytes f)"
  let ?h0 = "if k = 0 then unstage (sd_upload s) h else h"
  have k: "k \<le> file_size f" using less.prems(1) by (simp add: expects_def)
  note q = chunk_query_at [OF less.prems(2) k, of dest]
  have offset: "sd_offset s + of_nat (length (q_chunk ?q)) = of_nat (k + min CHUNK_BYTES (file_size f - k))"
    using less.prems(2) q by (simp add: file_size_def min.commute)
  have u: "upload_chunk loc h ?q =
      (if \<not> q_final ?q then
        (Inr (JObj [(''status'', JStr ''partial''), (''received'', JInt (int (length ?b)))]),
         ?h0\<lparr>ho_staged := (ho_staged ?h0)(sd_upload s := Some ?b)\<rparr>)
       else (Inr (JObj [(''status'', JStr ''ok''), (''path'', JStr dest), (''size'', JInt (int (length ?b)))]),
             (unstage (sd_upload s) ?h0)\<lparr>ho_files := (ho_files ?h0)(dest := Some ?b)\<rparr>))"
    using upload_chunk_expected [of h f dest ?q k "sd_upload s" "q_final ?q" "sd_overwrite s"] less.prems(1)
    by (simp add: q Let_def)
  have pos: "0 < CHUNK_BYTES" by (simp add: CHUNK_BYTES_def)
  show ?case
  proof (cases "file_size f \<le> k + CHUNK_BYTES")
    case True
    then have fin: "q_final ?q" and b: "?b = fi_bytes f" using q by (simp_all add: file_size_def)
    have "send_loop (upload_chunk loc) env ask f dest s =
        Some (True, (unstage (sd_upload s) ?h0)\<lparr>ho_files := (ho_files ?h0)(dest := Some (fi_bytes f))\<rparr>,
          stop_sending ((sd_ui s)
            \<lparr>xf_progress := Some (fi_name f, percent_done f (sd_offset s + of_nat (length (q_chunk ?q)))),
             xf_notice := uploaded_notice env f\<rparr>))"
      using fin b
      by (subst send_loop.simps)
        (simp add: send_chunk_def Let_def less.prems(3) u uploaded_notice_def jcoalesce_def nullish_def file_size_def)
    then show ?thesis by (simp add: stop_sending_def unstage_def)
  next
    case False
    then have fin: "\<not> q_final ?q" using q by simp
    define h1 where "h1 = ?h0\<lparr>ho_staged := (ho_staged ?h0)(sd_upload s := Some ?b)\<rparr>"
    define s1 where "s1 = s\<lparr>sd_offset := of_nat (k + CHUNK_BYTES), sd_server := h1,
        sd_ui := (sd_ui s)\<lparr>xf_progress := Some (fi_name f, percent_done f (of_nat (k + CHUNK_BYTES)))\<rparr>\<rparr>"
    have off: "sd_offset s + of_nat (length (q_chunk ?q)) = of_nat (k + CHUNK_BYTES)"
      using offset False by simp
    have "k + CHUNK_BYTES \<le> file_size f" using False by simp
    then have "(of_nat (k + CHUNK_BYTES) :: rat) \<le> of_nat (file_size f)" by (simp only: of_nat_le_iff)
    then have step: "send_chunk (upload_chunk loc) env ask f dest s = Inr s1"
      using fin by (simp add: send_chunk_def Let_def less.prems(3) u off h1_def [symmetric] s1_def del: of_nat_add)
    have e: "expects h1 f dest (sd_overwrite s1) (sd_upload s1) (k + CHUNK_BYTES)"
      using expected_partial [OF less.prems(1)] False by (simp add: h1_def s1_def)
    have "file_size f - (k + CHUNK_BYTES) < file_size f - k" using False pos by simp
    from less.hyps [OF this e] have
      "\<exists>h' x. send_loop (upload_chunk loc) env ask f dest s1 = Some (True, h', x) \<and>
         ho_files h' = (ho_files h1)(dest := Some (fi_bytes f)) \<and> xf_progress x = None \<and>
         xf_error x = xf_error (sd_ui s1) \<and> xf_notice x = uploaded_notice env f"
      by (simp add: s1_def)
    moreover have "ho_files h1 = ho_files h" by (simp add: h1_def unstage_def)
    moreover have "send_loop (upload_chunk loc) env ask f dest s = send_loop (upload_chunk loc) env ask f dest s1"
      by (subst send_loop.simps) (simp add: step)
    ultimately show ?thesis by (simp add: s1_def)
  qed
qed

subsection \<open>Properties\<close>

text \<open>C9: sending a file stores exactly its bytes at the destination and touches no other file of the
  target, over the size of the file and in as many chunks as it takes, when the bastion reaches the
  target, the path is valid, the file is within its limit, and a file that is already there may be
  replaced or is not looked for; the upload ends, reports success, clears the progress and says so.\<close>

theorem upload_stores_the_file:
  assumes "ho_link h = None" and "valid_remote_path dest" and "file_size f \<le> ho_limit_mb h * 1024 * 1024"
    and "max_mb = 0 \<or> of_nat (file_size f) \<le> max_mb * 1024 * 1024"
    and "ask \<or> overwrite \<or> \<not> ho_sftp h \<or> ho_files h dest = None"
  shows "\<exists>h' x'. sendFile (upload_chunk loc) env ask max_mb first f dest overwrite h x = Some (True, h', x') \<and>
           ho_files h' = (ho_files h)(dest := Some (fi_bytes f)) \<and> xf_progress x' = None \<and>
           xf_error x' = xf_error x \<and> xf_notice x' = uploaded_notice env f"
proof -
  let ?s = "\<lparr>sd_overwrite = overwrite, sd_upload = first, sd_offset = 0, sd_server = h,
      sd_ui = x\<lparr>xf_progress := Some (fi_name f, 0)\<rparr>\<rparr>"
  have start: "sendFile (upload_chunk loc) env ask max_mb first f dest overwrite h x =
      send_loop (upload_chunk loc) env ask f dest ?s"
    using assms(4) by (auto simp: sendFile_def)
  show ?thesis
  proof (cases "overwrite \<or> \<not> ho_sftp h \<or> ho_files h dest = None")
    case True
    then have "expects h f dest (sd_overwrite ?s) (sd_upload ?s) 0"
      using assms by (simp add: expects_def)
    from send_loop_stores [OF this, of loc env ask] show ?thesis by (simp add: start)
  next
    case False
    let ?h0 = "unstage first h"
    let ?again = "\<lparr>sd_overwrite = True, sd_upload = first + 1, sd_offset = 0, sd_server = ?h0,
        sd_ui = stop_sending (sd_ui ?s)\<rparr>"
    have q: "chunk_query f dest ?s = \<lparr>q_path = dest, q_upload = first, q_offset = 0,
        q_chunk = take CHUNK_BYTES (fi_bytes f), q_final = (file_size f \<le> CHUNK_BYTES), q_overwrite = overwrite\<rparr>"
      using chunk_query_at [of ?s 0 f dest] by simp
    have "\<not> kMaxChunkBytes < length (take CHUNK_BYTES (fi_bytes f))"
      using chunk_size_fits [of "fi_bytes f"] by (simp only: not_less)
    then have "upload_chunk loc h (chunk_query f dest ?s) =
        (conflict_reply [(''error'', JStr ''exists''),
                         (''message'', JStr ''A file already exists at this path'')], ?h0)"
      using False assms(1,2) unfolding q by (auto simp: upload_chunk_def Let_def)
    then have "send_loop (upload_chunk loc) env ask f dest ?s = send_loop (upload_chunk loc) env ask f dest ?again"
      using False assms(5)
      by (subst send_loop.simps) (auto simp: send_chunk_def Let_def conflict_reply_def)
    moreover have e: "expects ?h0 f dest (sd_overwrite ?again) (sd_upload ?again) 0"
      using assms by (simp add: expects_def unstage_def)
    moreover have "ho_files ?h0 = ho_files h" by (simp add: unstage_def)
    ultimately show ?thesis
      using send_loop_stores [OF e, of loc env ask] by (simp add: start stop_sending_def)
  qed
qed

definition sample_host :: host where
  "sample_host = \<lparr>ho_link = None, ho_sftp = True, ho_limit_mb = 1, ho_staged = (\<lambda>i. None),
     ho_files = (\<lambda>p. if p = ''/tmp/a'' then Some ''old'' else None)\<rparr>"

definition sample_file :: upload_file where
  "sample_file = \<lparr>fi_name = ''a'', fi_bytes = ''new content''\<rparr>"

definition sample_transfer :: transfer where
  "sample_transfer = \<lparr>xf_error = [], xf_notice = [], xf_progress = None\<rparr>"

theorem upload_stores_the_file_witness:
  "\<exists>h' x'. sendFile (upload_chunk ''fr'') sample_env True 1 0 sample_file ''/tmp/a'' False sample_host sample_transfer
       = Some (True, h', x') \<and> ho_files h' ''/tmp/a'' = Some ''new content''"
proof -
  have v: "valid_remote_path ''/tmp/a''" by code_simp
  have n: "file_size sample_file = 11" by (simp add: file_size_def sample_file_def)
  show ?thesis
    using upload_stores_the_file [of sample_host "''/tmp/a''" sample_file 1 True False "''fr''" sample_env 0
        sample_transfer] v n
    by (simp add: sample_host_def) (fastforce simp: sample_file_def)
qed

text \<open>A server whose conflicts let an upload progress: it says that the file exists only to a request
  that does not replace it, and never moves the offset.\<close>

definition lets_progress :: "'u server \<Rightarrow> bool" where
  "lets_progress srv =
     (\<forall>u q. case fst (srv u q) of
        Inl e \<Rightarrow> True
      | Inr result \<Rightarrow>
          (let conflict = jget result ''conflict'' in
           truthy conflict \<longrightarrow>
             jget conflict ''error'' \<noteq> JStr ''offset_mismatch'' \<and>
             (jget conflict ''error'' = JStr ''exists'' \<longrightarrow> \<not> q_overwrite q)))"

definition work_left :: "upload_file \<Rightarrow> 'u sending \<Rightarrow> nat \<Rightarrow> nat" where
  "work_left f s k = (if sd_overwrite s then 0 else file_size f + 1) + (file_size f - k)"

lemma progress_step:
  assumes "lets_progress srv" and "sd_offset s = of_nat k" and "k \<le> file_size f"
    and "send_chunk srv env ask f dest s = Inr s'"
  shows "\<exists>k'. sd_offset s' = of_nat k' \<and> k' \<le> file_size f \<and> work_left f s' k' < work_left f s k"
proof -
  note q = chunk_query_at [OF assms(2,3), of dest]
  obtain reply u where r: "srv (sd_server s) (chunk_query f dest s) = (reply, u)" by (metis surj_pair)
  obtain result where res: "reply = Inr result"
    using assms(4) r by (cases reply) (auto simp: send_chunk_def Let_def)
  let ?c = "jget result ''conflict''"
  have ok: "truthy ?c \<Longrightarrow> jget ?c ''error'' \<noteq> JStr ''offset_mismatch'' \<and>
      (jget ?c ''error'' = JStr ''exists'' \<longrightarrow> \<not> sd_overwrite s)"
  proof -
    have qo: "q_overwrite (chunk_query f dest s) = sd_overwrite s" by (simp add: q)
    have "case fst (srv u q) of Inl e \<Rightarrow> True
        | Inr result \<Rightarrow> (let conflict = jget result ''conflict'' in truthy conflict \<longrightarrow>
             jget conflict ''error'' \<noteq> JStr ''offset_mismatch'' \<and>
             (jget conflict ''error'' = JStr ''exists'' \<longrightarrow> \<not> q_overwrite q))" for u q
      using assms(1) unfolding lets_progress_def by blast
    from this [of "chunk_query f dest s" "sd_server s"] show "truthy ?c \<Longrightarrow> ?thesis"
      by (simp add: r res qo Let_def)
  qed
  show ?thesis
  proof (cases "truthy ?c")
    case True
    with assms(4) r res ok show ?thesis
      by (auto simp: send_chunk_def Let_def work_left_def split: if_splits intro!: exI [of _ 0])
  next
    case False
    with assms(4) r res have fin: "\<not> q_final (chunk_query f dest s)"
      and s': "sd_overwrite s' = sd_overwrite s"
        "sd_offset s' = sd_offset s + of_nat (length (q_chunk (chunk_query f dest s)))"
      by (auto simp: send_chunk_def Let_def split: if_splits)
    from fin q have "k + CHUNK_BYTES < file_size f" by simp
    moreover have "0 < CHUNK_BYTES" by (simp add: CHUNK_BYTES_def)
    ultimately show ?thesis
      using s' assms(2) q by (intro exI [of _ "k + CHUNK_BYTES"]) (simp add: work_left_def file_size_def)
  qed
qed

text \<open>C10: an upload always ends, with success or failure, on every server that lets it progress, whatever
  else it answers and whatever the file.\<close>

theorem uploads_end:
  assumes "lets_progress srv"
  shows "\<exists>result. sendFile srv env ask max_mb first f dest overwrite u x = Some result"
proof -
  have loop: "\<exists>result. send_loop srv env ask f dest s = Some result"
    if "sd_offset s = of_nat k" "k \<le> file_size f" for s :: "'a sending" and k
    using that
  proof (induction "work_left f s k" arbitrary: s k rule: less_induct)
    case less
    show ?case
    proof (cases "send_chunk srv env ask f dest s")
      case (Inl result)
      then show ?thesis by (cases result) (subst send_loop.simps, simp)
    next
      case (Inr s')
      with progress_step [OF assms less.prems(1,2)] obtain k' where
        "sd_offset s' = of_nat k'" "k' \<le> file_size f" "work_left f s' k' < work_left f s k" by blast
      with less.hyps Inr show ?thesis by (subst send_loop.simps) simp
    qed
  qed
  have "\<exists>result. send_loop srv env ask f dest
      \<lparr>sd_overwrite = overwrite, sd_upload = first, sd_offset = 0, sd_server = u,
       sd_ui = x\<lparr>xf_progress := Some (fi_name f, 0)\<rparr>\<rparr> = Some result"
    by (rule loop [of _ 0]) simp_all
  then show ?thesis unfolding sendFile_def by (simp only: split: if_split) blast
qed

definition deaf_server :: "unit server" where
  "deaf_server u q = (Inl NetworkError, u)"

theorem uploads_end_witness:
  "\<exists>result. sendFile deaf_server sample_env False 0 0 sample_file ''/tmp/a'' False () sample_transfer = Some result"
  by (rule uploads_end) (simp add: lets_progress_def deaf_server_def)

text \<open>As written, a bastion that expects an offset past the end of the file makes the upload end with
  success although no final chunk was sent and nothing was said about the file.\<close>

theorem mismatch_past_the_end_is_success:
  assumes "max_mb = 0" and "truthy (JObj kvs)"
    and "map_of kvs ''error'' = Some (JStr ''offset_mismatch'')" and "map_of kvs ''expected'' = Some (JNum e)"
    and "of_nat (file_size f) < e"
  shows "sendFile (\<lambda>u q. (conflict_reply kvs, u @ [q])) env ask max_mb first f dest overwrite [] x =
     Some (True, [chunk_query f dest \<lparr>sd_overwrite = overwrite, sd_upload = first, sd_offset = 0,
                    sd_server = [] :: upload_query list, sd_ui = x\<rparr>], stop_sending x)"
proof -
  let ?s = "\<lparr>sd_overwrite = overwrite, sd_upload = first, sd_offset = 0, sd_server = [] :: upload_query list,
      sd_ui = x\<lparr>xf_progress := Some (fi_name f, 0)\<rparr>\<rparr>"
  have "e \<noteq> 0" using assms(5) by auto
  with assms have "send_chunk (\<lambda>u q. (conflict_reply kvs, u @ [q])) env ask f dest ?s =
      Inl (True, [chunk_query f dest ?s], stop_sending (sd_ui ?s))"
    by (simp add: send_chunk_def Let_def conflict_reply_def)
  moreover have "chunk_query f dest ?s = chunk_query f dest (?s\<lparr>sd_ui := x\<rparr>)"
    by (simp add: chunk_query_def)
  moreover have "stop_sending (sd_ui ?s) = stop_sending x" by (simp add: stop_sending_def)
  ultimately show ?thesis
    using assms(1) by (simp add: sendFile_def send_loop.simps)
qed

theorem mismatch_past_the_end_is_success_witness:
  "\<exists>sent x. sendFile (\<lambda>u q. (conflict_reply [(''error'', JStr ''offset_mismatch''), (''expected'', JInt 50)], u @ [q]))
      sample_env True 0 0 sample_file ''/tmp/a'' False [] sample_transfer = Some (True, sent, x) \<and> length sent = 1"
  using mismatch_past_the_end_is_success [of 0 "[(''error'', JStr ''offset_mismatch''), (''expected'', JInt 50)]" 50
      sample_file sample_env True 0 "''/tmp/a''" False sample_transfer]
  by (simp add: file_size_def sample_file_def)


text \<open>A bastion that always expects the offset just sent.\<close>

definition stuck_server :: "unit server" where
  "stuck_server u q =
     (conflict_reply [(''error'', JStr ''offset_mismatch''), (''expected'', JNum (q_offset q))], u)"

lemma stuck_turn: "sd_offset s = 0 \<Longrightarrow> send_chunk stuck_server env ask f dest s = Inr s"
  by (simp add: send_chunk_def stuck_server_def conflict_reply_def chunk_query_def Let_def)

lemma stuck_loop:
  assumes "send_loop srv env ask f dest s = Some r"
  shows "srv = stuck_server \<longrightarrow> sd_offset s \<noteq> 0"
proof (rule send_loop.raw_induct [where P = "\<lambda>srv env ask f dest s r. srv = stuck_server \<longrightarrow> sd_offset s \<noteq> 0",
      OF _ assms])
  fix loop env ask f dest r and srv :: "unit server" and s :: "unit sending"
  assume ih: "\<And>srv env ask f dest s r. loop srv env ask f dest s = Some r \<Longrightarrow> srv = stuck_server \<longrightarrow> sd_offset s \<noteq> 0"
    and eq: "(case send_chunk srv env ask f dest s of Inl result \<Rightarrow> Some result
        | Inr s' \<Rightarrow> loop srv env ask f dest s') = Some r"
  show "srv = stuck_server \<longrightarrow> sd_offset s \<noteq> 0"
    using ih [of stuck_server env ask f dest s r] eq stuck_turn [of s env ask f dest] by auto
qed

text \<open>As written, nothing bounds the number of turns: against such a bastion the upload never returns.\<close>

theorem stuck_upload_never_returns:
  "max_mb = 0 \<Longrightarrow> sendFile stuck_server env ask max_mb first f dest overwrite u x = None"
  by (cases "sendFile stuck_server env ask max_mb first f dest overwrite u x")
    (auto simp: sendFile_def dest!: stuck_loop)

theorem stuck_upload_never_returns_witness:
  "sendFile stuck_server sample_env False 0 0 sample_file ''/tmp/a'' False () sample_transfer = None"
  by (rule stuck_upload_never_returns) simp

end
