(* ===== verification/RbiFrames.thy ===== *)
theory RbiFrames
  imports Passkeys
begin

section \<open>The binary frames of the isolated browser (RbiViewerModal.jsx, lines 120 to 227)\<close>

text \<open>
  The bastion relays what the isolated browser shows as binary WebSocket frames: a full JPEG, or
  one type byte and a payload of big-endian fields.  The viewer reads them through a
  \<open>DataView\<close>, whose accessors raise a \<open>RangeError\<close> out of bounds: \<open>None\<close> here.  The
  second half is the encoder of the helper process (tools/rbi-cef/main.cc), and the two are shown
  to be inverse to each other, file names in UTF-8 included.
\<close>

unbundle bit_operations_syntax

type_synonym u8 = "8 word"
type_synonym u16 = "16 word"
type_synonym u32 = "32 word"
type_synonym u64 = "64 word"

subsection \<open>\<open>DataView\<close> and typed arrays over the payload\<close>

definition big_endian :: "bytes \<Rightarrow> 'a :: len word" where
  "big_endian bs = foldl (\<lambda>a b. push_bit 8 a OR ucast b) 0 bs"

definition sub_array :: "nat \<Rightarrow> nat \<Rightarrow> bytes \<Rightarrow> bytes option" where
  "sub_array i n bs = (if i + n \<le> length bs then Some (take n (drop i bs)) else None)"

definition getUint8 :: "bytes \<Rightarrow> nat \<Rightarrow> u8 option" where
  "getUint8 bs i = (if i < length bs then Some (bs ! i) else None)"

definition getUint16 :: "bytes \<Rightarrow> nat \<Rightarrow> u16 option" where
  "getUint16 bs i = map_option big_endian (sub_array i 2 bs)"

definition getUint32 :: "bytes \<Rightarrow> nat \<Rightarrow> u32 option" where
  "getUint32 bs i = map_option big_endian (sub_array i 4 bs)"

definition getBigUint64 :: "bytes \<Rightarrow> nat \<Rightarrow> u64 option" where
  "getBigUint64 bs i = map_option big_endian (sub_array i 8 bs)"

subsection \<open>\<open>new TextDecoder().decode(..)\<close>\<close>

text \<open>
  The UTF-8 decoder of the Encoding standard: the bytes of an incomplete sequence, how many are
  still needed and the range of the next one.  A malformed sequence becomes U+FFFD, and a byte
  order mark at the start is dropped.
\<close>

definition replacement :: string where
  "replacement = utf8 65533"

definition byte_order_mark :: string where
  "byte_order_mark = utf8 65279"

function utf8_run :: "string \<Rightarrow> nat \<Rightarrow> nat \<Rightarrow> nat \<Rightarrow> string \<Rightarrow> string" where
  "utf8_run seen needed low high [] = (if needed = 0 then [] else replacement)"
| "utf8_run seen needed low high (b # bs) =
     (let c = code b in
      if needed = 0 then
        (if c < 128 then b # utf8_run [] 0 128 191 bs
         else if 194 \<le> c \<and> c \<le> 223 then utf8_run [b] 1 128 191 bs
         else if 224 \<le> c \<and> c \<le> 239 then
           utf8_run [b] 2 (if c = 224 then 160 else 128) (if c = 237 then 159 else 191) bs
         else if 240 \<le> c \<and> c \<le> 244 then
           utf8_run [b] 3 (if c = 240 then 144 else 128) (if c = 244 then 143 else 191) bs
         else replacement @ utf8_run [] 0 128 191 bs)
      else if low \<le> c \<and> c \<le> high then
        (if needed = 1 then seen @ [b] @ utf8_run [] 0 128 191 bs
         else utf8_run (seen @ [b]) (needed - 1) 128 191 bs)
      else replacement @ utf8_run [] 0 128 191 (b # bs))"
  by pat_completeness auto
termination
  by (relation "measure (\<lambda>(seen, needed, low, high, bs). 2 * length bs + (if needed = 0 then 0 else 1))") auto

definition text_of :: "bytes \<Rightarrow> string" where
  "text_of bs = map (\<lambda>b. char_of (unat b)) bs"

definition bytes_of :: "string \<Rightarrow> bytes" where
  "bytes_of s = map (\<lambda>c. word_of_nat (code c)) s"

definition decode_text :: "bytes \<Rightarrow> string" where
  "decode_text bs =
     (let s = utf8_run [] 0 128 191 (text_of bs) in
      if starts_with s byte_order_mark then drop (length byte_order_mark) s else s)"

subsection \<open>Reading a frame\<close>

datatype rbi_frame =
    Empty_frame
  | File_dialog u32 string bool
  | Download_begin u32 string u64
  | Download_chunk u32 bytes
  | Download_end u32
  | Full_image bytes
  | Surface u16 u16
  | Raw_tile u16 u16 u16 u16 bytes
  | Encoded_tile u16 u16 string bytes
  | Ignored_frame
  | Raised

definition or_raised :: "'a option \<Rightarrow> ('a \<Rightarrow> rbi_frame) \<Rightarrow> rbi_frame" where
  "or_raised v f = (case v of None \<Rightarrow> Raised | Some x \<Rightarrow> f x)"

definition read_dialog :: "bytes \<Rightarrow> rbi_frame" where
  "read_dialog d =
     (if length d < 8 then Ignored_frame
      else or_raised (getUint32 d 0) (\<lambda>seq.
           or_raised (getUint8 d 5) (\<lambda>multiple.
           or_raised (getUint16 d 6) (\<lambda>n.
             if length d < 8 + unat n then File_dialog seq [] (multiple = 1)
             else or_raised (sub_array 8 (unat n) d) (\<lambda>accept.
               File_dialog seq (decode_text accept) (multiple = 1))))))"

definition read_download :: "u8 \<Rightarrow> bytes \<Rightarrow> rbi_frame" where
  "read_download t d =
     (if length d < 4 then Ignored_frame
      else or_raised (getUint32 d 0) (\<lambda>id.
        if t = 5 then
          or_raised (getBigUint64 d 4) (\<lambda>count.
          or_raised (getUint16 d 12) (\<lambda>n.
          or_raised (sub_array 14 (unat n) d) (\<lambda>name. Download_begin id (decode_text name) count)))
        else if t = 6 then Download_chunk id (drop 4 d)
        else Download_end id))"

text \<open>An \<open>ImageData\<close> without a pixel raises.\<close>

definition read_tile :: "bytes \<Rightarrow> rbi_frame" where
  "read_tile d =
     (if length d < 9 then Ignored_frame
      else or_raised (getUint16 d 0) (\<lambda>x.
           or_raised (getUint16 d 2) (\<lambda>y.
           or_raised (getUint16 d 4) (\<lambda>w.
           or_raised (getUint16 d 6) (\<lambda>h.
           or_raised (getUint8 d 8) (\<lambda>format.
             let img = drop 9 d; n = unat w * unat h * 4 in
             if format = 2 then
               (if length img < n then Ignored_frame
                else if n = 0 then Raised else Raw_tile x y w h (take n img))
             else Encoded_tile x y (if format = 1 then ''image/webp'' else ''image/jpeg'') img))))))"

definition read_surface :: "bytes \<Rightarrow> rbi_frame" where
  "read_surface d =
     (if length d < 4 then Ignored_frame
      else or_raised (getUint16 d 0) (\<lambda>w. or_raised (getUint16 d 2) (\<lambda>h. Surface w h)))"

definition read_frame :: "bytes \<Rightarrow> rbi_frame" where
  "read_frame bytes =
     (case bytes of
        [] \<Rightarrow> Empty_frame
      | t # d \<Rightarrow>
          if t = 4 then read_dialog d
          else if t = 5 \<or> t = 6 \<or> t = 7 then read_download t d
          else if t = 0xff then Full_image bytes
          else if t = 2 then read_surface d
          else if t = 1 then read_tile d
          else Ignored_frame)"

subsection \<open>The helper's encoder (tools/rbi-cef/main.cc)\<close>

definition put_u16 :: "u16 \<Rightarrow> bytes" where
  "put_u16 v = [ucast (drop_bit 8 v AND 0xff), ucast (v AND 0xff)]"

definition put_u32 :: "u32 \<Rightarrow> bytes" where
  "put_u32 v =
     [ucast (drop_bit 24 v AND 0xff), ucast (drop_bit 16 v AND 0xff),
      ucast (drop_bit 8 v AND 0xff), ucast (v AND 0xff)]"

definition put_u64 :: "u64 \<Rightarrow> bytes" where
  "put_u64 v = map (\<lambda>i. ucast (drop_bit (i * 8) v AND 0xff)) (rev [0 ..< 8])"

text \<open>\<open>put_u16(static_cast<uint16_t>(n > 0xffff ? 0xffff : n))\<close>, then that many bytes.\<close>

definition put_text :: "bytes \<Rightarrow> bytes" where
  "put_text s = put_u16 (word_of_nat (min (length s) 0xffff)) @ take 0xffff s"

definition HELPER_CHUNK :: nat where
  "HELPER_CHUNK = 256 * 1024"

fun pieces :: "nat \<Rightarrow> 'a list \<Rightarrow> 'a list list" where
  "pieces n xs = (if n = 0 \<or> xs = [] then [] else take n xs # pieces n (drop n xs))"

declare pieces.simps [simp del]

text \<open>A finished download as the frames the bastion relays; \<open>count\<close> is the size \<open>stat\<close> gave.\<close>

definition stream_download :: "u32 \<Rightarrow> u64 \<Rightarrow> bytes \<Rightarrow> bytes \<Rightarrow> bytes list" where
  "stream_download did count name content =
     (5 # put_u32 did @ put_u64 count @ put_text name) #
     map (\<lambda>chunk. 6 # put_u32 did @ chunk) (pieces HELPER_CHUNK content) @ [7 # put_u32 did]"

definition ask_file :: "u32 \<Rightarrow> bool \<Rightarrow> bytes \<Rightarrow> bytes" where
  "ask_file seq multiple accept =
     4 # put_u32 seq @ [if multiple then 1 else 0, if multiple then 1 else 0] @ put_text accept"

definition surface_frame :: "u16 \<Rightarrow> u16 \<Rightarrow> bytes" where
  "surface_frame w h = 2 # put_u16 w @ put_u16 h"

subsection \<open>Numbers survive\<close>

lemma length_put [simp]:
  "length (put_u16 v) = 2" "length (put_u32 w) = 4" "length (put_u64 x) = 8"
  by (simp_all add: put_u16_def put_u32_def put_u64_def)

text \<open>One byte of the reader takes back one byte of the writer.\<close>

lemma low_byte: "ucast (v AND 0xff) = (ucast v :: u8)" for v :: "'a :: len word"
proof -
  have "v AND 0xff = take_bit 8 v"
    by (simp add: take_bit_eq_mask mask_eq_exp_minus_1)
  then show ?thesis
    by (simp only:) (rule bit_word_eqI, auto simp: bit_simps)
qed

lemma byte_step:
  "push_bit 8 (drop_bit (8 + k) v) OR ucast (ucast (drop_bit k v) :: u8) = drop_bit k v"
  for v :: "'a :: len word"
proof (rule bit_word_eqI)
  fix n
  assume "n < LENGTH('a)"
  then show "bit (push_bit 8 (drop_bit (8 + k) v) OR ucast (ucast (drop_bit k v) :: u8)) n
      = bit (drop_bit k v) n"
    by (cases "n < 8") (auto simp: bit_simps)
qed

lemma drop_all [simp]: "LENGTH('a) \<le> k \<Longrightarrow> drop_bit k v = 0" for v :: "'a :: len word"
  by (rule bit_word_eqI) (auto simp: bit_simps dest: bit_imp_le_length)

lemma big_endian_put_u16 [simp]: "big_endian (put_u16 v) = v"
  using byte_step [of 8 v] byte_step [of 0 v]
  by (simp add: big_endian_def put_u16_def low_byte)

lemma big_endian_put_u32 [simp]: "big_endian (put_u32 v) = v"
  using byte_step [of 24 v] byte_step [of 16 v] byte_step [of 8 v] byte_step [of 0 v]
  by (simp add: big_endian_def put_u32_def low_byte)

lemma big_endian_put_u64 [simp]: "big_endian (put_u64 v) = v"
  using byte_step [of 56 v] byte_step [of 48 v] byte_step [of 40 v] byte_step [of 32 v]
    byte_step [of 24 v] byte_step [of 16 v] byte_step [of 8 v] byte_step [of 0 v]
  by (simp add: big_endian_def put_u64_def low_byte upt_rec [of 0] upt_rec [of "Suc _"])

subsection \<open>Texts survive\<close>

text \<open>A text as its code points; a byte order mark in front would be dropped by the decoder.\<close>

definition scalar :: "nat \<Rightarrow> bool" where
  "scalar n = (n < 0xD800 \<or> (0xE000 \<le> n \<and> n < 0x110000))"

definition proper_text :: "nat list \<Rightarrow> bool" where
  "proper_text cps = (list_all scalar cps \<and> (cps = [] \<or> hd cps \<noteq> 0xFEFF))"

definition utf8_text :: "nat list \<Rightarrow> string" where
  "utf8_text cps = concat (map utf8 cps)"

declare utf8_run.simps(2) [simp del]

lemma utf8_lead:
  "code b < 128 \<Longrightarrow> utf8_run [] 0 l h (b # bs) = b # utf8_run [] 0 128 191 bs"
  "194 \<le> code b \<Longrightarrow> code b \<le> 223 \<Longrightarrow> utf8_run [] 0 l h (b # bs) = utf8_run [b] 1 128 191 bs"
  "224 \<le> code b \<Longrightarrow> code b \<le> 239 \<Longrightarrow> utf8_run [] 0 l h (b # bs) =
     utf8_run [b] 2 (if code b = 224 then 160 else 128) (if code b = 237 then 159 else 191) bs"
  "240 \<le> code b \<Longrightarrow> code b \<le> 244 \<Longrightarrow> utf8_run [] 0 l h (b # bs) =
     utf8_run [b] 3 (if code b = 240 then 144 else 128) (if code b = 244 then 143 else 191) bs"
  by (simp_all add: utf8_run.simps(2) [of "[]" 0 l h b bs] Let_def)

lemma utf8_follow:
  assumes "low \<le> code b" and "code b \<le> high"
  shows "utf8_run seen (Suc 0) low high (b # bs) = seen @ [b] @ utf8_run [] 0 128 191 bs"
    and "utf8_run seen 2 low high (b # bs) = utf8_run (seen @ [b]) 1 128 191 bs"
    and "utf8_run seen 3 low high (b # bs) = utf8_run (seen @ [b]) 2 128 191 bs"
  using assms by (simp_all add: utf8_run.simps(2) [of seen _ low high b bs] Let_def)

lemma utf8_run_utf8:
  assumes "scalar n"
  shows "utf8_run [] 0 128 191 (utf8 n @ s) = utf8 n @ utf8_run [] 0 128 191 s"
proof -
  consider "n < 128" | "128 \<le> n" "n < 2048" | "2048 \<le> n" "n < 65536" | "65536 \<le> n" "n < 1114112"
    using assms unfolding scalar_def by linarith
  then show ?thesis
  proof cases
    case 1
    then show ?thesis by (simp add: utf8_def code_char_of utf8_lead)
  next
    case 2
    then have "2 \<le> n div 64" "n div 64 < 32" by (auto simp: less_mult_imp_div_less)
    moreover have "n mod 64 \<le> 63" using pos_mod_bound [of 64 "int n"] by linarith
    ultimately show ?thesis
      using 2 by (simp add: utf8_def code_char_of utf8_lead utf8_follow)
  next
    case 3
    define x y z where "x = n div 4096" and "y = n div 64 mod 64" and "z = n mod 64"
    have "y < 64" "z < 64" by (simp_all add: y_def z_def)
    moreover have "x < 16" using 3 by (simp add: x_def less_mult_imp_div_less)
    moreover have "x = 0 \<Longrightarrow> 32 \<le> y" using 3 by (simp add: x_def y_def div_eq_0_iff)
    moreover have "y < 32" if "x = 13"
    proof -
      have "n < 55296" using that assms by (auto simp: x_def scalar_def)
      then have "n div 64 < 13 * 64 + 32" by (simp add: less_mult_imp_div_less)
      moreover have "n div 64 div 64 = 13" using that by (simp add: x_def div_mult2_eq [symmetric])
      ultimately show ?thesis
        using div_mult_mod_eq [of "n div 64" 64] unfolding y_def by linarith
    qed
    ultimately show ?thesis
      using 3
      by (cases "x = 0"; cases "x = 13")
        (simp_all add: utf8_def code_char_of utf8_lead utf8_follow flip: x_def y_def z_def)
  next
    case 4
    define w x y z where "w = n div 262144" and "x = n div 4096 mod 64"
      and "y = n div 64 mod 64" and "z = n mod 64"
    define a where "a = n div 4096"
    have "16 \<le> a" "a < 272" "w = a div 64" "x = a mod 64"
      using 4 by (simp_all add: a_def w_def x_def less_mult_imp_div_less div_mult2_eq [symmetric])
    then have "w = 0 \<Longrightarrow> 16 \<le> x" "w = 4 \<Longrightarrow> x < 16" "w < 5"
      using div_mult_mod_eq [of a 64] by linarith+
    moreover have "x < 64" "y < 64" "z < 64" by (simp_all add: x_def y_def z_def)
    ultimately show ?thesis
      using 4
      by (cases "w = 0"; cases "w = 4")
        (simp_all add: utf8_def code_char_of utf8_lead utf8_follow flip: w_def x_def y_def z_def)
  qed
qed

lemma utf8_run_text: "list_all scalar cps \<Longrightarrow> utf8_run [] 0 128 191 (utf8_text cps) = utf8_text cps"
  by (induction cps) (auto simp: utf8_text_def utf8_run_utf8)

lemma byte_order_mark_first:
  assumes "scalar n" and "starts_with (utf8 n @ s) byte_order_mark"
  shows "n = 0xFEFF"
proof -
  have b: "byte_order_mark = [char_of (239 :: nat), char_of (187 :: nat), char_of (191 :: nat)]"
    by (simp add: byte_order_mark_def utf8_def)
  consider "n < 128" | "128 \<le> n" "n < 2048" | "2048 \<le> n" "n < 65536" | "65536 \<le> n" "n < 1114112"
    using assms(1) unfolding scalar_def by linarith
  then show ?thesis
  proof cases
    case 3
    then have d: "n div 4096 < 16" by (simp add: less_mult_imp_div_less)
    have m: "n div 64 mod 64 < 64" "n mod 64 < 64" by simp_all
    have "(224 + n div 4096) mod 256 = 239" "(128 + n div 64 mod 64) mod 256 = 187"
        "(128 + n mod 64) mod 256 = 191"
      using 3 assms(2) by (auto simp: starts_with_def b utf8_def char_of_eq_iff take_bit_eq_mod)
    then have "n div 4096 = 15" "n div 64 mod 64 = 59" "n mod 64 = 63"
      using d m by (simp_all only: mod_less)
    moreover have "n div 64 div 64 = n div 4096" by (simp add: div_mult2_eq [symmetric])
    ultimately show ?thesis
      using div_mult_mod_eq [of n 64] div_mult_mod_eq [of "n div 64" 64] by linarith
  qed (use assms(2) in \<open>auto simp: starts_with_def b utf8_def\<close>)
qed

lemma text_of_bytes_of [simp]: "text_of (bytes_of s) = s"
proof -
  have "char_of (unat (word_of_nat (code c) :: u8)) = c" for c
    using code_less [of c] by (simp add: unat_of_nat del: code_less)
  then show ?thesis by (induction s) (auto simp: text_of_def bytes_of_def)
qed

lemma decode_utf8_text:
  assumes "proper_text cps"
  shows "decode_text (bytes_of (utf8_text cps)) = utf8_text cps"
proof (cases cps)
  case Nil
  then show ?thesis
    by (simp add: decode_text_def utf8_text_def byte_order_mark_def utf8_def starts_with_def bytes_of_def text_of_def)
next
  case (Cons n ns)
  with assms have "\<not> starts_with (utf8_text cps) byte_order_mark"
    using byte_order_mark_first [of n "utf8_text ns"] by (auto simp: proper_text_def utf8_text_def)
  with assms show ?thesis
    by (simp add: decode_text_def utf8_run_text proper_text_def)
qed

subsection \<open>Frames survive\<close>

lemma sub_array_append [simp]:
  "sub_array (length a + i) n (a @ b) = sub_array i n b"
  by (simp add: sub_array_def)

lemma sub_array_head [simp]: "n = length a \<Longrightarrow> sub_array 0 n (a @ b) = Some a"
  by (simp add: sub_array_def)

lemma reads_put [simp]:
  "getUint16 (put_u16 v @ b) 0 = Some v"
  "getUint32 (put_u32 w @ b) 0 = Some w"
  "getBigUint64 (put_u64 x @ b) 0 = Some x"
  by (simp_all add: getUint16_def getUint32_def getBigUint64_def)

lemma reads_skip:
  "length a = k \<Longrightarrow> getUint16 (a @ b) (k + i) = getUint16 b i"
  "length a = k \<Longrightarrow> getUint32 (a @ b) (k + i) = getUint32 b i"
  "length a = k \<Longrightarrow> getBigUint64 (a @ b) (k + i) = getBigUint64 b i"
  "length a = k \<Longrightarrow> getUint8 (a @ b) (k + i) = getUint8 b i"
  "length a = k \<Longrightarrow> sub_array (k + i) n (a @ b) = sub_array i n b"
  by (auto simp: getUint16_def getUint32_def getBigUint64_def getUint8_def)

lemma unat_text_length: "n \<le> 0xffff \<Longrightarrow> unat (word_of_nat n :: u16) = n"
  by (simp add: unat_of_nat)

lemma length_bytes_of [simp]: "length (bytes_of s) = length s"
  by (simp add: bytes_of_def)

text \<open>A text the length field can hold.\<close>

definition short_text :: "nat list \<Rightarrow> bool" where
  "short_text cps = (proper_text cps \<and> length (utf8_text cps) \<le> 0xffff)"

lemma put_short_text:
  "short_text cps \<Longrightarrow> put_text (bytes_of (utf8_text cps))
     = put_u16 (word_of_nat (length (utf8_text cps))) @ bytes_of (utf8_text cps)"
  by (simp add: put_text_def short_text_def min_absorb1)

lemma read_download_begin:
  assumes "short_text cps"
  shows "read_frame (5 # put_u32 i @ put_u64 n @ put_text (bytes_of (utf8_text cps)))
      = Download_begin i (utf8_text cps) n"
proof -
  let ?d = "put_u32 i @ put_u64 n @ put_text (bytes_of (utf8_text cps))"
  let ?m = "length (utf8_text cps)"
  have "getUint32 ?d 0 = Some i" by simp
  moreover have "getBigUint64 ?d 4 = Some n"
    using reads_skip(3) [of "put_u32 i" 4 _ 0] by simp
  moreover have "getUint16 ?d 12 = Some (word_of_nat ?m)"
    using reads_skip(1) [of "put_u32 i @ put_u64 n" 12 _ 0] assms by (simp add: put_short_text)
  moreover have "sub_array 14 ?m ?d = Some (bytes_of (utf8_text cps))"
    using reads_skip(5) [of "put_u32 i @ put_u64 n @ put_u16 (word_of_nat ?m)" 14 0 ?m "bytes_of (utf8_text cps)"]
      sub_array_head [of ?m "bytes_of (utf8_text cps)" "[]"] assms
    by (simp add: put_short_text)
  ultimately show ?thesis
    using assms by (simp add: read_frame_def read_download_def or_raised_def short_text_def
        unat_text_length decode_utf8_text)
qed

lemma read_download_chunk: "read_frame (6 # put_u32 i @ chunk) = Download_chunk i chunk"
  by (simp add: read_frame_def read_download_def or_raised_def)

lemma read_download_end: "read_frame (7 # put_u32 i) = Download_end i"
  using reads_put(2) [of i "[]"] by (simp add: read_frame_def read_download_def or_raised_def)

lemma read_surface_frame: "read_frame (surface_frame w h) = Surface w h"
  using reads_skip(1) [of "put_u16 w" 2 "put_u16 h" 0] reads_put(1) [of h "[]"]
  by (simp add: surface_frame_def read_frame_def read_surface_def or_raised_def)

lemma read_ask_file:
  assumes "short_text cps"
  shows "read_frame (ask_file seq multiple (bytes_of (utf8_text cps)))
      = File_dialog seq (utf8_text cps) multiple"
proof -
  let ?m = "length (utf8_text cps)" and ?b = "if multiple then 1 else (0 :: u8)"
  let ?d = "put_u32 seq @ [?b, ?b] @ put_text (bytes_of (utf8_text cps))"
  have "getUint32 ?d 0 = Some seq" by simp
  moreover have "getUint8 ?d 5 = Some ?b"
    using reads_skip(4) [of "put_u32 seq @ [?b]" 5 "?b # put_text (bytes_of (utf8_text cps))" 0]
    by (simp add: getUint8_def)
  moreover have "getUint16 ?d 6 = Some (word_of_nat ?m)"
    using reads_skip(1) [of "put_u32 seq @ [?b, ?b]" 6 _ 0] assms
    by (simp add: put_short_text)
  moreover have "sub_array 8 ?m ?d = Some (bytes_of (utf8_text cps))"
    using reads_skip(5) [of "put_u32 seq @ [?b, ?b] @ put_u16 (word_of_nat ?m)" 8 0 ?m "bytes_of (utf8_text cps)"]
      sub_array_head [of ?m "bytes_of (utf8_text cps)" "[]"] assms
    by (simp add: put_short_text)
  moreover have "length ?d = 8 + ?m"
    using assms by (simp add: put_short_text)
  ultimately show ?thesis
    using assms by (simp add: ask_file_def read_frame_def read_dialog_def or_raised_def short_text_def
        unat_text_length decode_utf8_text)
qed

lemma concat_pieces: "0 < n \<Longrightarrow> concat (pieces n xs) = xs"
proof (induction n xs rule: pieces.induct)
  case (1 n xs)
  then show ?case
    by (cases "xs = []") (simp_all add: pieces.simps [of n xs] pieces.simps [of n "[]"])
qed

end
