(* ===== verification/RbiViewer.thy ===== *)
theory RbiViewer
  imports RbiFrames AuthFlow
begin

section \<open>The viewer of the isolated browser (RbiViewerModal.jsx)\<close>

text \<open>
  One socket carries the frames of the page one way, and the mouse, the keyboard and the uploads
  the other way.  \<open>rv_sent\<close> is what was handed to the socket, \<open>rv_open\<close> whether the socket
  is the current one and open, \<open>rv_saved\<close> the files the browser was asked to save.  The
  \<open>status\<close> that \<open>onmessage\<close> reads is the one its effect captured: an argument here.
  The last part is the bastion's side of an upload (rbi.cc).
\<close>

datatype outgoing =
    Text_frame json
  | Binary_frame bytes

datatype painted =
    Whole bytes
  | Pixels u16 u16 u16 u16 bytes
  | Picture u16 u16 string bytes

record download =
  dl_name :: string
  dl_size :: nat
  dl_chunks :: "bytes list"
  dl_got :: nat

record rbi_view =
  rv_open :: bool
  rv_status :: string
  rv_message :: string
  rv_transfer :: "(string \<times> string \<times> int option) option"
  rv_hiding :: nat
  rv_downloads :: "u32 \<Rightarrow> download option"
  rv_saved :: "(string \<times> bytes) list"
  rv_canvas :: "(nat \<times> nat) option"
  rv_painted :: "painted list"
  rv_sent :: "outgoing list"
  rv_input :: bool
  rv_pending :: u32
  rv_picker :: "(string \<times> bool) option"
  rv_upload_id :: nat
  rv_last_move :: rat
  rv_clicks :: int
  rv_textarea :: string
  rv_composing :: bool
  rv_files_allowed :: bool
  rv_paste_allowed :: bool
  rv_resize :: "int option"

subsection \<open>Opening the socket\<close>

definition buildRbiWebSocketUrl :: "string \<Rightarrow> string \<Rightarrow> string" where
  "buildRbiWebSocketUrl protocol host =
     (if protocol = ''https:'' then ''wss:'' else ''ws:'') @ ''//'' @ host @ ''/api/ws/rbi''"

definition clamped :: "nat \<Rightarrow> nat \<Rightarrow> nat \<Rightarrow> nat option \<Rightarrow> nat" where
  "clamped low high d v =
     max low (min high (case v of None \<Rightarrow> d | Some n \<Rightarrow> if n = 0 then d else n))"

definition sizeOf :: "(nat \<times> nat) option \<Rightarrow> nat \<times> nat" where
  "sizeOf el = (clamped 320 1920 1280 (map_option fst el), clamped 240 1200 800 (map_option snd el))"

definition rbi_send :: "(string \<times> json) list \<Rightarrow> rbi_view \<Rightarrow> rbi_view" where
  "rbi_send obj v = (if rv_open v then v\<lparr>rv_sent := rv_sent v @ [Text_frame (JObj obj)]\<rparr> else v)"

definition on_rbi_open :: "json \<Rightarrow> (nat \<times> nat) option \<Rightarrow> rbi_view \<Rightarrow> rbi_view" where
  "on_rbi_open session el v =
     (let (w, h) = sizeOf el in
      rbi_send [(''type'', JStr ''start''), (''sessionId'', jget session ''id''),
                 (''width'', JInt (int w)), (''height'', JInt (int h))] (v\<lparr>rv_open := True\<rparr>))"

definition on_rbi_close :: "rbi_view \<Rightarrow> rbi_view" where
  "on_rbi_close v =
     v\<lparr>rv_open := False,
       rv_status := (if rv_status v = ''error'' then rv_status v else ''disconnected'')\<rparr>"

definition on_rbi_error :: "rbi_view \<Rightarrow> rbi_view" where
  "on_rbi_error v = v\<lparr>rv_status := ''error''\<rparr>"

text \<open>A change of size is sent once the size has been still for 250 ms.\<close>

definition resize_observed :: "int \<Rightarrow> rbi_view \<Rightarrow> rbi_view" where
  "resize_observed now v = v\<lparr>rv_resize := Some (now + 250)\<rparr>"

definition resize_timer :: "int \<Rightarrow> (nat \<times> nat) option \<Rightarrow> rbi_view \<Rightarrow> rbi_view" where
  "resize_timer now el v =
     (case rv_resize v of
        None \<Rightarrow> v
      | Some due \<Rightarrow>
          if now < due then v
          else (let (w, h) = sizeOf el in
            rbi_send [(''type'', JStr ''resize''), (''width'', JInt (int w)), (''height'', JInt (int h))]
              (v\<lparr>rv_resize := None\<rparr>)))"

definition rbi_unmounted :: "rbi_view \<Rightarrow> rbi_view" where
  "rbi_unmounted v = v\<lparr>rv_resize := None, rv_open := False\<rparr>"

subsection \<open>Text messages\<close>

definition SERVER_MESSAGES :: "(string \<times> string) list" where
  "SERVER_MESSAGES =
     [(''browser closed'', ''viewer.msg.browserClosed''),
      (''Server at RBI capacity, retry shortly'', ''viewer.msg.capacity''),
      (''Session not found'', ''viewer.msg.sessionNotFound''),
      (''Forbidden'', ''viewer.msg.forbidden''),
      (''RBI only applies to http/https resources'', ''viewer.msg.httpOnly''),
      (''download blocked by policy'', ''viewer.msg.downloadBlocked''),
      (''Upload blocked by policy'', ''viewer.msg.uploadBlocked''),
      (''Paste blocked by policy'', ''viewer.msg.pasteBlocked''),
      (''Upload exceeds size limit'', ''viewer.msg.uploadTooBig''),
      (''File upload requires the tiles engine'', ''viewer.msg.uploadEngine''),
      (''upload complete'', ''viewer.msg.uploadDone'')]"

definition rbi_message_text :: "env \<Rightarrow> json \<Rightarrow> string \<Rightarrow> string" where
  "rbi_message_text env message fallback =
     (case map_of SERVER_MESSAGES (js_string message) of
        Some key \<Rightarrow> tx env key
      | None \<Rightarrow>
          str_or (if truthy message then translateServerMessage (js_string message) (env_loc env) else [])
            fallback)"

definition on_rbi_text :: "env \<Rightarrow> string \<Rightarrow> rbi_view \<Rightarrow> rbi_view" where
  "on_rbi_text env data v =
     (case json_parse data of
        None \<Rightarrow> v
      | Some msg \<Rightarrow>
          if jget msg ''type'' = JStr ''error'' then
            v\<lparr>rv_status := ''error'',
              rv_message := rbi_message_text env (jget msg ''message'') (tx env ''viewer.error'')\<rparr>
          else if jget msg ''type'' = JStr ''status'' then
            (if jget msg ''message'' = JStr ''connected'' then v\<lparr>rv_status := ''connected'', rv_message := []\<rparr>
             else v\<lparr>rv_message := rbi_message_text env (jget msg ''message'') []\<rparr>)
          else v)"

subsection \<open>Binary messages\<close>

definition percent_of :: "nat \<Rightarrow> nat \<Rightarrow> int" where
  "percent_of got n = floor (of_nat got / of_nat n * 100 + (1 / 2 :: rat))"

text \<open>The isolated page asks for a file.\<close>

definition triggerFilePicker :: "u32 \<Rightarrow> string \<Rightarrow> bool \<Rightarrow> rbi_view \<Rightarrow> rbi_view" where
  "triggerFilePicker seq accept multiple v =
     (let a = v\<lparr>rv_pending := seq\<rparr> in
      if \<not> rv_input v then
        rbi_send [(''type'', JStr ''file-pick-cancel''), (''dialogSeq'', JInt (int (unat seq)))] a
      else a\<lparr>rv_picker := Some (accept, multiple)\<rparr>)"

definition download_begun :: "u32 \<Rightarrow> string \<Rightarrow> u64 \<Rightarrow> rbi_view \<Rightarrow> rbi_view" where
  "download_begun i name n v =
     v\<lparr>rv_downloads := (rv_downloads v)
         (i := Some \<lparr>dl_name = name, dl_size = unat n, dl_chunks = [], dl_got = 0\<rparr>),
       rv_transfer := Some (''down'', name, if n \<noteq> 0 then Some 0 else None)\<rparr>"

definition download_chunk :: "u32 \<Rightarrow> bytes \<Rightarrow> rbi_view \<Rightarrow> rbi_view" where
  "download_chunk i chunk v =
     (case rv_downloads v i of
        None \<Rightarrow> v
      | Some d \<Rightarrow>
          (let d' = d\<lparr>dl_chunks := dl_chunks d @ [chunk], dl_got := dl_got d + length chunk\<rparr>;
               a = v\<lparr>rv_downloads := (rv_downloads v)(i := Some d')\<rparr> in
           if dl_size d = 0 then a
           else a\<lparr>rv_transfer := Some (''down'', dl_name d, Some (percent_of (dl_got d') (dl_size d)))\<rparr>))"

definition download_ended :: "u32 \<Rightarrow> rbi_view \<Rightarrow> rbi_view" where
  "download_ended i v =
     (let a = v\<lparr>rv_downloads := (rv_downloads v)(i := None)\<rparr> in
      case rv_downloads v i of
        None \<Rightarrow> a
      | Some d \<Rightarrow>
          a\<lparr>rv_saved := rv_saved v @ [(str_or (dl_name d) ''download.bin'', concat (dl_chunks d))],
            rv_transfer := None\<rparr>)"

text \<open>Any frame that is not empty shows the viewer as connected, unless it was when its effect
  started; the image of a frame is decoded later, \<open>image_decoded\<close> sizes the canvas to it.\<close>

definition paint :: "painted \<Rightarrow> rbi_view \<Rightarrow> rbi_view" where
  "paint p v = (if rv_canvas v = None then v else v\<lparr>rv_painted := rv_painted v @ [p]\<rparr>)"

definition on_rbi_frame :: "string \<Rightarrow> bytes \<Rightarrow> rbi_view \<Rightarrow> rbi_view" where
  "on_rbi_frame seen data v =
     (let f = read_frame data;
          a = (if f \<noteq> Empty_frame \<and> seen \<noteq> ''connected'' then v\<lparr>rv_status := ''connected''\<rparr> else v) in
      case f of
        File_dialog seq accept multiple \<Rightarrow> triggerFilePicker seq accept multiple a
      | Download_begin i name n \<Rightarrow> download_begun i name n a
      | Download_chunk i chunk \<Rightarrow> download_chunk i chunk a
      | Download_end i \<Rightarrow> download_ended i a
      | Full_image img \<Rightarrow> paint (Whole img) a
      | Surface w h \<Rightarrow> (if rv_canvas a = None then a else a\<lparr>rv_canvas := Some (unat w, unat h)\<rparr>)
      | Raw_tile x y w h img \<Rightarrow> paint (Pixels x y w h img) a
      | Encoded_tile x y mime img \<Rightarrow> paint (Picture x y mime img) a
      | Empty_frame \<Rightarrow> a
      | Ignored_frame \<Rightarrow> a
      | Raised \<Rightarrow> a)"

definition image_decoded :: "nat \<Rightarrow> nat \<Rightarrow> rbi_view \<Rightarrow> rbi_view" where
  "image_decoded w h v = (if rv_canvas v = None then v else v\<lparr>rv_canvas := Some (w, h)\<rparr>)"

subsection \<open>Sending a file\<close>

record local_file =
  lf_name :: string
  lf_bytes :: bytes

record upload_job =
  uj_id :: u32
  uj_file :: local_file
  uj_off :: nat

text \<open>
  How a turn of the loop goes: the buffer of the socket is full and is looked at again in 15 ms,
  the slice is read, or reading it fails (the file changed on the disk).
\<close>

datatype turn = Full_buffer | Slice_read | Slice_failed

definition UPLOAD_CHUNK :: nat where
  "UPLOAD_CHUNK = 256 * 1024"

definition show_upload :: "local_file \<Rightarrow> int \<Rightarrow> rbi_view \<Rightarrow> rbi_view" where
  "show_upload f pct v = v\<lparr>rv_transfer := Some (''up'', lf_name f, Some pct)\<rparr>"

definition hide_soon :: "rbi_view \<Rightarrow> rbi_view" where
  "hide_soon v = v\<lparr>rv_hiding := rv_hiding v + 1\<rparr>"

definition hide_transfer :: "rbi_view \<Rightarrow> rbi_view" where
  "hide_transfer v = v\<lparr>rv_hiding := rv_hiding v - 1, rv_transfer := None\<rparr>"

definition upload_note :: "string \<Rightarrow> u32 \<Rightarrow> (string \<times> json) list" where
  "upload_note kind i = [(''type'', JStr kind), (''id'', JInt (int (unat i)))]"

text \<open>What follows a chunk, or the announcement: another turn, or the end.\<close>

definition upload_more :: "upload_job \<Rightarrow> rbi_view \<Rightarrow> upload_job option \<times> rbi_view" where
  "upload_more job v =
     (if uj_off job < length (lf_bytes (uj_file job)) then (Some job, v)
      else (None, hide_soon (rbi_send (upload_note ''upload-end'' (uj_id job)) v)))"

definition uploadFile :: "local_file \<Rightarrow> (string \<times> json) list \<Rightarrow> rbi_view \<Rightarrow> upload_job option \<times> rbi_view" where
  "uploadFile f opts v =
     (if \<not> rv_open v then (None, v)
      else (let i = word_of_nat (rv_upload_id v);
                begun = rbi_send (upload_note ''upload-begin'' i @
                          [(''name'', JStr (lf_name f)), (''size'', JInt (int (length (lf_bytes f))))] @ opts)
                          (v\<lparr>rv_upload_id := rv_upload_id v + 1\<rparr>) in
            upload_more \<lparr>uj_id = i, uj_file = f, uj_off = 0\<rparr> (show_upload f 0 begun)))"

definition chunk_frame :: "upload_job \<Rightarrow> bytes \<Rightarrow> bytes" where
  "chunk_frame job part = 0x10 # put_u32 (uj_id job) @ part"

definition send_bytes :: "bytes \<Rightarrow> rbi_view \<Rightarrow> rbi_view" where
  "send_bytes b v = (if rv_open v then v\<lparr>rv_sent := rv_sent v @ [Binary_frame b]\<rparr> else v)"

definition upload_turn :: "turn \<Rightarrow> upload_job \<Rightarrow> rbi_view \<Rightarrow> upload_job option \<times> rbi_view" where
  "upload_turn t job v =
     (case t of
        Full_buffer \<Rightarrow> if rv_open v then (Some job, v) else (None, hide_soon v)
      | Slice_failed \<Rightarrow> (None, hide_soon (rbi_send (upload_note ''upload-cancel'' (uj_id job)) v))
      | Slice_read \<Rightarrow>
          (let f = uj_file job;
               part = take UPLOAD_CHUNK (drop (uj_off job) (lf_bytes f));
               off = uj_off job + length part in
           upload_more (job\<lparr>uj_off := off\<rparr>)
             (show_upload f (percent_of off (max 1 (length (lf_bytes f)))) (send_bytes (chunk_frame job part) v))))"

text \<open>The uploads in progress, and a schedule of their turns: which one, and how its turn goes.\<close>

fun upload_run :: "(nat \<times> turn) list \<Rightarrow> (nat \<Rightarrow> upload_job option) \<times> rbi_view
    \<Rightarrow> (nat \<Rightarrow> upload_job option) \<times> rbi_view" where
  "upload_run [] s = s"
| "upload_run ((k, t) # ts) (jobs, v) =
     (case jobs k of
        None \<Rightarrow> upload_run ts (jobs, v)
      | Some job \<Rightarrow> (let (j, v') = upload_turn t job v in upload_run ts (jobs(k := j), v')))"

text \<open>Dropping files starts an upload for each of them, one after the other.\<close>

fun start_uploads :: "nat \<Rightarrow> local_file list \<Rightarrow> (string \<times> json) list \<Rightarrow> (nat \<Rightarrow> upload_job option) \<times> rbi_view
    \<Rightarrow> (nat \<Rightarrow> upload_job option) \<times> rbi_view" where
  "start_uploads k [] opts s = s"
| "start_uploads k (f # fs) opts (jobs, v) =
     (let (j, v') = uploadFile f opts v in start_uploads (Suc k) fs opts (jobs(k := j), v'))"

definition point_props :: "rat \<times> rat \<Rightarrow> (string \<times> json) list" where
  "point_props p = [(''x'', JNum (fst p)), (''y'', JNum (snd p))]"

definition onDrop :: "nat \<Rightarrow> local_file list \<Rightarrow> rat \<times> rat \<Rightarrow> (nat \<Rightarrow> upload_job option) \<times> rbi_view
    \<Rightarrow> (nat \<Rightarrow> upload_job option) \<times> rbi_view" where
  "onDrop k files point s =
     (if \<not> rv_files_allowed (snd s) then s
      else start_uploads k files ((''drop'', JBool True) # point_props point) s)"

definition file_pick_cancel :: "u32 \<Rightarrow> rbi_view \<Rightarrow> rbi_view" where
  "file_pick_cancel seq v =
     rbi_send [(''type'', JStr ''file-pick-cancel''), (''dialogSeq'', JInt (int (unat seq)))] v"

definition onFileInputChange :: "local_file list \<Rightarrow> rbi_view \<Rightarrow> upload_job option \<times> rbi_view" where
  "onFileInputChange files v =
     (let seq = rv_pending v; a = v\<lparr>rv_pending := 0, rv_picker := None\<rparr> in
      case files of
        [] \<Rightarrow> (None, file_pick_cancel seq a)
      | f # _ \<Rightarrow> uploadFile f [(''dialogSeq'', JInt (int (unat seq)))] a)"

definition onFileInputCancel :: "rbi_view \<Rightarrow> rbi_view" where
  "onFileInputCancel v =
     (let seq = rv_pending v; a = v\<lparr>rv_pending := 0, rv_picker := None\<rparr> in
      if seq \<noteq> 0 then file_pick_cancel seq a else a)"

subsection \<open>The bastion's side of an upload (rbi.cc)\<close>

text \<open>
  One upload at a time.  \<open>bu_file\<close> is the staged file while it is open, \<open>bu_handed\<close> the files
  handed to the isolated browser with the number of the dialog they answer (\<open>None\<close> for a drop),
  \<open>bu_max_mb\<close> the limit, 0 for none.  \<open>allows\<close> is the transfer policy; the tiles engine is
  in use and staging a file succeeds.
\<close>

record bastion_upload =
  bu_active :: bool
  bu_open :: bool
  bu_id :: u32
  bu_name :: string
  bu_bytes :: bytes
  bu_drop :: bool
  bu_dialog :: u32
  bu_handed :: "(u32 option \<times> string \<times> bytes) list"
  bu_max_mb :: nat

definition path_separator :: "char \<Rightarrow> bool" where
  "path_separator c = (c = CHR ''/'' \<or> c = CHR 0x5C)"

definition sanitize_upload_name :: "string \<Rightarrow> string" where
  "sanitize_upload_name s =
     (let base = rev (takeWhile (\<lambda>c. \<not> path_separator c) (rev s));
          out = filter (\<lambda>c. c \<noteq> CHR 0x00 \<and> \<not> path_separator c) base;
          named = (if out = [] \<or> out = ''.'' \<or> out = ''..'' then ''upload.bin'' else out) in
      take 200 named)"

definition word_field :: "json \<Rightarrow> string \<Rightarrow> u32" where
  "word_field j k = (case jget j k of JNum n \<Rightarrow> word_of_int (floor n) | _ \<Rightarrow> 0)"

definition string_field :: "json \<Rightarrow> string \<Rightarrow> string \<Rightarrow> string" where
  "string_field j k d = (case jget j k of JStr s \<Rightarrow> s | _ \<Rightarrow> d)"

definition on_upload_begin :: "(string \<Rightarrow> bool) \<Rightarrow> json \<Rightarrow> bastion_upload \<Rightarrow> bastion_upload" where
  "on_upload_begin allows j b =
     (let a = (if bu_active b then b\<lparr>bu_open := False\<rparr> else b);
          name = sanitize_upload_name (string_field j ''name'' ''upload.bin'') in
      if \<not> allows name then a
      else a\<lparr>bu_active := True, bu_open := True, bu_id := word_field j ''id'', bu_name := name,
             bu_bytes := [], bu_drop := (jget j ''drop'' = JBool True), bu_dialog := word_field j ''dialogSeq''\<rparr>)"

definition on_upload_end :: "json \<Rightarrow> bastion_upload \<Rightarrow> bastion_upload" where
  "on_upload_end j b =
     (if \<not> bu_active b \<or> word_field j ''id'' \<noteq> bu_id b then b
      else b\<lparr>bu_open := False, bu_active := False,
             bu_handed := bu_handed b @
               [(if bu_drop b then None else Some (bu_dialog b), bu_name b, bu_bytes b)]\<rparr>)"

definition on_upload_cancel :: "bastion_upload \<Rightarrow> bastion_upload" where
  "on_upload_cancel b = b\<lparr>bu_open := False, bu_active := False\<rparr>"

definition on_upload_bytes :: "bytes \<Rightarrow> bastion_upload \<Rightarrow> bastion_upload" where
  "on_upload_bytes data b =
     (if \<not> bu_active b \<or> \<not> bu_open b \<or> length data < 5 \<or> hd data \<noteq> 0x10 then b
      else if big_endian (take 4 (drop 1 data)) \<noteq> bu_id b then b
      else (let part = drop 5 data in
            if bu_max_mb b \<noteq> 0 \<and> bu_max_mb b * 1024 * 1024 < length (bu_bytes b) + length part
            then b\<lparr>bu_open := False, bu_active := False\<rparr>
            else b\<lparr>bu_bytes := bu_bytes b @ part\<rparr>))"

definition bastion_step :: "(string \<Rightarrow> bool) \<Rightarrow> bastion_upload \<Rightarrow> outgoing \<Rightarrow> bastion_upload" where
  "bastion_step allows b m =
     (case m of
        Binary_frame data \<Rightarrow> on_upload_bytes data b
      | Text_frame j \<Rightarrow>
          if jget j ''type'' = JStr ''upload-begin'' then on_upload_begin allows j b
          else if jget j ''type'' = JStr ''upload-end'' then on_upload_end j b
          else if jget j ''type'' = JStr ''upload-cancel'' then on_upload_cancel b
          else b)"

definition bastion_after :: "(string \<Rightarrow> bool) \<Rightarrow> bastion_upload \<Rightarrow> rbi_view \<Rightarrow> bastion_upload" where
  "bastion_after allows b v = foldl (bastion_step allows) b (rv_sent v)"

subsection \<open>Keyboard text: what the browser composed\<close>

definition flushText :: "rbi_view \<Rightarrow> rbi_view" where
  "flushText v =
     (let text = rv_textarea v; a = v\<lparr>rv_textarea := []\<rparr> in
      if text \<noteq> [] then rbi_send [(''type'', JStr ''text''), (''text'', JStr text)] a else a)"

definition onTextInput :: "string \<Rightarrow> rbi_view \<Rightarrow> rbi_view" where
  "onTextInput content v =
     (let a = v\<lparr>rv_textarea := content\<rparr> in if rv_composing a then a else flushText a)"

definition onCompositionStart :: "rbi_view \<Rightarrow> rbi_view" where
  "onCompositionStart v = v\<lparr>rv_composing := True\<rparr>"

definition onCompositionEnd :: "rbi_view \<Rightarrow> rbi_view" where
  "onCompositionEnd v = flushText (v\<lparr>rv_composing := False\<rparr>)"

definition onKbPaste :: "string \<Rightarrow> rbi_view \<Rightarrow> rbi_view" where
  "onKbPaste text v =
     (if \<not> rv_paste_allowed v \<or> text = [] then v
      else rbi_send [(''type'', JStr ''paste''), (''text'', JStr text)] v)"

subsection \<open>The mouse\<close>

record rect =
  re_left :: rat
  re_top :: rat
  re_width :: rat
  re_height :: rat

record mouse_event =
  me_x :: rat
  me_y :: rat
  me_button :: int
  me_buttons :: int
  me_detail :: int
  me_delta_x :: rat
  me_delta_y :: rat

definition cdpButton :: "int \<Rightarrow> string" where
  "cdpButton button =
     (if button = 0 then ''left'' else if button = 1 then ''middle''
      else if button = 2 then ''right'' else ''none'')"

definition heldButton :: "int \<Rightarrow> string" where
  "heldButton buttons =
     (if buttons AND 1 \<noteq> 0 then ''left'' else if buttons AND 2 \<noteq> 0 then ''right''
      else if buttons AND 4 \<noteq> 0 then ''middle'' else ''none'')"

definition normPoint :: "rect option \<Rightarrow> mouse_event \<Rightarrow> rat \<times> rat" where
  "normPoint r e =
     (case r of
        None \<Rightarrow> (0, 0)
      | Some re \<Rightarrow>
          if re_width re = 0 \<or> re_height re = 0 then (0, 0)
          else (min 1 (max 0 ((me_x e - re_left re) / re_width re)),
                min 1 (max 0 ((me_y e - re_top re) / re_height re))))"

definition mouse_message :: "string \<Rightarrow> rat \<times> rat \<Rightarrow> string \<Rightarrow> (string \<times> json) list \<Rightarrow> (string \<times> json) list" where
  "mouse_message event p button extra =
     [(''type'', JStr ''mouse''), (''event'', JStr event)] @ point_props p @
     [(''button'', JStr button)] @ extra"

definition onMouseMove :: "rat \<Rightarrow> rect option \<Rightarrow> mouse_event \<Rightarrow> rbi_view \<Rightarrow> rbi_view" where
  "onMouseMove now r e v =
     (if now - rv_last_move v < 16 then v
      else rbi_send (mouse_message ''move'' (normPoint r e) (heldButton (me_buttons e))
                       [(''buttons'', JInt (me_buttons e))]) (v\<lparr>rv_last_move := now\<rparr>))"

definition press_props :: "mouse_event \<Rightarrow> int \<Rightarrow> (string \<times> json) list" where
  "press_props e clicks = [(''buttons'', JInt (me_buttons e)), (''clickCount'', JInt clicks)]"

text \<open>The click count of a press is the one its release reports.\<close>

definition clicks_of :: "mouse_event \<Rightarrow> int" where
  "clicks_of e = (if me_detail e = 0 then 1 else me_detail e)"

definition onMouseDown :: "rect option \<Rightarrow> mouse_event \<Rightarrow> rbi_view \<Rightarrow> rbi_view" where
  "onMouseDown r e v =
     (let clicks = clicks_of e in
      rbi_send (mouse_message ''down'' (normPoint r e) (cdpButton (me_button e)) (press_props e clicks))
        (v\<lparr>rv_clicks := clicks\<rparr>))"

definition onMouseUp :: "rect option \<Rightarrow> mouse_event \<Rightarrow> rbi_view \<Rightarrow> rbi_view" where
  "onMouseUp r e v =
     rbi_send (mouse_message ''up'' (normPoint r e) (cdpButton (me_button e)) (press_props e (rv_clicks v))) v"

definition onWheel :: "rect option \<Rightarrow> mouse_event \<Rightarrow> rbi_view \<Rightarrow> rbi_view" where
  "onWheel r e v =
     rbi_send (mouse_message ''wheel'' (normPoint r e) ''none''
       [(''deltaX'', JNum (me_delta_x e)), (''deltaY'', JNum (me_delta_y e))]) v"

subsection \<open>Keys\<close>

record key_event =
  ke_key :: string
  ke_code :: string
  ke_key_code :: int
  ke_alt :: bool
  ke_ctrl :: bool
  ke_meta :: bool
  ke_shift :: bool
  ke_alt_graph :: bool

definition CONTROL_KEYS :: "string list" where
  "CONTROL_KEYS =
     [''Enter'', ''Tab'', ''Backspace'', ''Delete'', ''Escape'', ''Insert'',
      ''ArrowUp'', ''ArrowDown'', ''ArrowLeft'', ''ArrowRight'',
      ''Home'', ''End'', ''PageUp'', ''PageDown'',
      ''F1'', ''F2'', ''F3'', ''F4'', ''F5'', ''F6'', ''F7'', ''F8'', ''F9'', ''F10'', ''F11'', ''F12'']"

definition modifiersOf :: "key_event \<Rightarrow> int" where
  "modifiersOf e =
     (if ke_alt e then 1 else 0) OR (if ke_ctrl e then 2 else 0) OR
     (if ke_meta e then 4 else 0) OR (if ke_shift e then 8 else 0)"

record key_class =
  kc_shortcut :: bool
  kc_paste :: bool
  kc_forward :: bool

definition classifyKey :: "bool \<Rightarrow> key_event \<Rightarrow> key_class" where
  "classifyKey paste_allowed e =
     (let shortcut = ((ke_ctrl e \<or> ke_meta e) \<and> \<not> ke_alt_graph e) in
      \<lparr>kc_shortcut = shortcut,
       kc_paste = (shortcut \<and> paste_allowed \<and> (ke_key e = ''v'' \<or> ke_key e = ''V'')),
       kc_forward = (ke_key e \<in> set CONTROL_KEYS \<or> shortcut)\<rparr>)"

definition key_message :: "string \<Rightarrow> key_event \<Rightarrow> (string \<times> json) list" where
  "key_message event e =
     [(''type'', JStr ''key''), (''event'', JStr event), (''key'', JStr (ke_key e)), (''code'', JStr (ke_code e)),
      (''keyCode'', JInt (ke_key_code e)), (''modifiers'', JInt (modifiersOf e))]"

text \<open>The flag says whether the default action of the key is prevented.\<close>

definition on_key :: "string \<Rightarrow> key_event \<Rightarrow> rbi_view \<Rightarrow> bool \<times> rbi_view" where
  "on_key event e v =
     (let c = classifyKey (rv_paste_allowed v) e in
      if kc_paste c then (False, v)
      else if kc_forward c then (True, rbi_send (key_message event e) v)
      else (False, v))"

definition onKeyDown :: "key_event \<Rightarrow> rbi_view \<Rightarrow> bool \<times> rbi_view" where
  "onKeyDown e v = on_key ''down'' e v"

definition onKeyUp :: "key_event \<Rightarrow> rbi_view \<Rightarrow> bool \<times> rbi_view" where
  "onKeyUp e v = on_key ''up'' e v"

subsection \<open>What the deployment supports\<close>

definition probe_headers :: "string option \<Rightarrow> (string \<times> string) list" where
  "probe_headers saved =
     (let tok = (case saved of
                   None \<Rightarrow> JStr []
                 | Some s \<Rightarrow> if s = [] then JStr []
                     else (case json_parse s of
                       None \<Rightarrow> JStr []
                     | Some d \<Rightarrow> jor (jget d ''token'') (JStr []))) in
      if truthy tok then [(''Authorization'', ''Bearer '' @ js_string tok)] else [])"

definition on_capabilities :: "json \<Rightarrow> rbi_view \<Rightarrow> rbi_view" where
  "on_capabilities data v =
     (if \<not> truthy data then v
      else v\<lparr>rv_files_allowed := (jget data ''fileTransfer'' \<noteq> JBool False),
             rv_paste_allowed := (jget data ''clipboardPaste'' \<noteq> JBool False)\<rparr>)"

definition status_label :: "env \<Rightarrow> rbi_view \<Rightarrow> string" where
  "status_label env v =
     tx env (if rv_status v = ''connected'' then ''viewer.connected''
             else if rv_status v = ''disconnected'' then ''viewer.disconnected''
             else if rv_status v = ''error'' then ''viewer.error'' else ''viewer.connecting'')"

definition status_tone :: "rbi_view \<Rightarrow> string" where
  "status_tone v =
     (if rv_status v = ''connected'' then ''ok'' else if rv_status v = ''error'' then ''error''
      else if rv_status v = ''connecting'' then ''busy'' else ''idle'')"

subsection \<open>Downloads arrive whole\<close>

text \<open>The transfer a frame belongs to.\<close>

definition transfer_of :: "bytes \<Rightarrow> u32 option" where
  "transfer_of data =
     (case read_frame data of
        Download_begin i name n \<Rightarrow> Some i
      | Download_chunk i chunk \<Rightarrow> Some i
      | Download_end i \<Rightarrow> Some i
      | _ \<Rightarrow> None)"

definition frames_run :: "string \<Rightarrow> bytes list \<Rightarrow> rbi_view \<Rightarrow> rbi_view" where
  "frames_run seen frames v = fold (on_rbi_frame seen) frames v"

lemma frames_run_simps [simp]:
  "frames_run seen [] v = v"
  "frames_run seen (f # fs) v = frames_run seen fs (on_rbi_frame seen f v)"
  by (simp_all add: frames_run_def)

lemmas frame_handlers =
  triggerFilePicker_def download_begun_def download_chunk_def download_ended_def paint_def rbi_send_def

lemma other_frame_keeps_download:
  "transfer_of f \<noteq> Some i \<Longrightarrow> rv_downloads (on_rbi_frame seen f v) i = rv_downloads v i"
  by (auto simp: transfer_of_def on_rbi_frame_def frame_handlers Let_def split: rbi_frame.splits option.splits)

lemma frame_keeps_saved: "set (rv_saved v) \<subseteq> set (rv_saved (on_rbi_frame seen f v))"
  by (auto simp: on_rbi_frame_def frame_handlers Let_def split: rbi_frame.splits option.splits)

lemma frames_keep_saved: "x \<in> set (rv_saved v) \<Longrightarrow> x \<in> set (rv_saved (frames_run seen fs v))"
proof (induction fs arbitrary: v)
  case (Cons f fs)
  then show ?case using frame_keeps_saved [of v seen f] by auto
qed simp

lemma transfer_of_download:
  "short_text cps \<Longrightarrow> transfer_of (5 # put_u32 i @ put_u64 n @ put_text (bytes_of (utf8_text cps))) = Some i"
  "transfer_of (6 # put_u32 i @ chunk) = Some i"
  "transfer_of (7 # put_u32 i) = Some i"
  by (simp_all add: transfer_of_def read_download_begin read_download_chunk read_download_end)

lemma chunk_received:
  assumes "rv_downloads v i = Some d"
  shows "rv_downloads (on_rbi_frame seen (6 # put_u32 i @ chunk) v) i
     = Some (d\<lparr>dl_chunks := dl_chunks d @ [chunk], dl_got := dl_got d + length chunk\<rparr>)"
  using assms by (simp add: on_rbi_frame_def read_download_chunk download_chunk_def Let_def)

lemma chunks_received:
  assumes "filter (\<lambda>f. transfer_of f = Some i) fs = map (\<lambda>c. 6 # put_u32 i @ c) cs @ [7 # put_u32 i]"
    and "rv_downloads v i = Some d"
  shows "(str_or (dl_name d) ''download.bin'', concat (dl_chunks d @ cs)) \<in> set (rv_saved (frames_run seen fs v))"
  using assms
proof (induction fs arbitrary: v d cs)
  case (Cons f fs)
  let ?v = "on_rbi_frame seen f v"
  show ?case
  proof (cases "transfer_of f = Some i")
    case False
    with Cons.prems other_frame_keeps_download [OF False, of seen v]
    show ?thesis using Cons.IH [of cs ?v d] by simp
  next
    case True
    show ?thesis
    proof (cases cs)
      case Nil
      with True Cons.prems have "f = 7 # put_u32 i" by simp
      with Nil Cons.prems(2) have "(str_or (dl_name d) ''download.bin'', concat (dl_chunks d @ cs)) \<in> set (rv_saved ?v)"
        by (simp add: on_rbi_frame_def read_download_end download_ended_def Let_def)
      then show ?thesis by (simp add: frames_keep_saved)
    next
      case (Cons c cs')
      with True Cons.prems have f: "f = 6 # put_u32 i @ c"
        and rest: "filter (\<lambda>f. transfer_of f = Some i) fs = map (\<lambda>c. 6 # put_u32 i @ c) cs' @ [7 # put_u32 i]"
        by simp_all
      show ?thesis
        using Cons.IH [OF rest, of ?v] chunk_received [OF Cons.prems(2), of seen c] Cons
        by (simp add: f)
    qed
  qed
qed simp

text \<open>C13: a file the isolated browser downloads is saved on the operator's side under its name, byte
  for byte, whatever other frames (tiles, other downloads, malformed ones) come in between.\<close>

theorem download_saved_as_sent:
  assumes "short_text name"
    and "filter (\<lambda>f. transfer_of f = Some i) frames = stream_download i n (bytes_of (utf8_text name)) content"
  shows "(str_or (utf8_text name) ''download.bin'', content) \<in> set (rv_saved (frames_run seen frames v))"
  using assms(2)
proof (induction frames arbitrary: v)
  case Nil
  then show ?case by (simp add: stream_download_def)
next
  case (Cons f fs)
  let ?v = "on_rbi_frame seen f v"
  show ?case
  proof (cases "transfer_of f = Some i")
    case False
    with Cons show ?thesis by simp
  next
    case True
    then have f: "f = 5 # put_u32 i @ put_u64 n @ put_text (bytes_of (utf8_text name))"
      and rest: "filter (\<lambda>f. transfer_of f = Some i) fs
        = map (\<lambda>c. 6 # put_u32 i @ c) (pieces HELPER_CHUNK content) @ [7 # put_u32 i]"
      using Cons.prems by (simp_all add: stream_download_def)
    have "rv_downloads ?v i = Some \<lparr>dl_name = utf8_text name, dl_size = unat n, dl_chunks = [], dl_got = 0\<rparr>"
      using assms(1) by (simp add: f on_rbi_frame_def read_download_begin download_begun_def Let_def)
    from chunks_received [OF rest this, of seen] show ?thesis
      by (simp add: concat_pieces HELPER_CHUNK_def)
  qed
qed

text \<open>The state the component starts in, with its canvas and file input mounted.\<close>

definition rbi_start :: rbi_view where
  "rbi_start = \<lparr>rv_open = False, rv_status = ''connecting'', rv_message = [], rv_transfer = None, rv_hiding = 0,
     rv_downloads = Map.empty, rv_saved = [], rv_canvas = Some (300, 150), rv_painted = [], rv_sent = [],
     rv_input = True, rv_pending = 0, rv_picker = None, rv_upload_id = 1, rv_last_move = 0, rv_clicks = 0,
     rv_textarea = [], rv_composing = False, rv_files_allowed = True, rv_paste_allowed = True, rv_resize = None\<rparr>"

lemma download_frames_own:
  assumes "short_text name"
  shows "filter (\<lambda>f. transfer_of f = Some i) (stream_download i n (bytes_of (utf8_text name)) content)
      = stream_download i n (bytes_of (utf8_text name)) content"
  using assms by (simp add: stream_download_def transfer_of_download filter_map o_def)

theorem download_saved_as_sent_witness:
  "(''a'', [1, 2]) \<in> set (rv_saved (frames_run ''connecting''
     (surface_frame 640 480 # stream_download 7 2 (bytes_of (utf8_text [97])) [1, 2]) rbi_start))"
proof -
  have letter: "utf8_text [97] = ''a''" by code_simp
  then have name: "short_text [97]" by (simp add: short_text_def proper_text_def scalar_def)
  have "filter (\<lambda>f. transfer_of f = Some 7)
      (surface_frame 640 480 # stream_download 7 2 (bytes_of (utf8_text [97])) [1, 2])
      = stream_download 7 2 (bytes_of (utf8_text [97])) [1, 2]"
    using download_frames_own [OF name, of 7 2 "[1, 2]"] by (simp add: transfer_of_def read_surface_frame)
  from download_saved_as_sent [OF name this, of "''connecting''" rbi_start]
  show ?thesis by (simp only: letter) (simp add: str_or_def)
qed

subsection \<open>Uploads arrive whole\<close>

lemma bastion_after_rbi_send [simp]:
  "bastion_after allows b (rbi_send obj v) =
     (if rv_open v then bastion_step allows (bastion_after allows b v) (Text_frame (JObj obj))
      else bastion_after allows b v)"
  by (simp add: bastion_after_def rbi_send_def)

lemma bastion_after_send_bytes [simp]:
  "bastion_after allows b (send_bytes data v) =
     (if rv_open v then bastion_step allows (bastion_after allows b v) (Binary_frame data)
      else bastion_after allows b v)"
  by (simp add: bastion_after_def send_bytes_def)

lemma bastion_after_shown [simp]:
  "bastion_after allows b (show_upload f p v) = bastion_after allows b v"
  "bastion_after allows b (hide_soon v) = bastion_after allows b v"
  by (simp_all add: bastion_after_def show_upload_def hide_soon_def)

lemma upload_keeps_open [simp]:
  "rv_open (rbi_send obj v) = rv_open v"
  "rv_open (send_bytes data v) = rv_open v"
  "rv_open (show_upload f p v) = rv_open v"
  "rv_open (hide_soon v) = rv_open v"
  by (simp_all add: rbi_send_def send_bytes_def show_upload_def hide_soon_def)

lemma word_field_unat: "jget j k = JInt (int (unat (i :: u32))) \<Longrightarrow> word_field j k = i"
proof -
  have "(word_of_int \<lfloor>rat_of_int (int (unat i))\<rfloor> :: u32) = i"
    by (simp only: floor_of_int) simp
  then show "jget j k = JInt (int (unat i)) \<Longrightarrow> word_field j k = i"
    by (simp only: word_field_def json.case)
qed

text \<open>The bastion holds the first \<open>k\<close> bytes of the file under the identifier of its upload.\<close>

definition holding :: "upload_job \<Rightarrow> bool \<Rightarrow> u32 \<Rightarrow> bastion_upload \<Rightarrow> bool" where
  "holding job dropped dialog s =
     (bu_active s \<and> bu_open s \<and> bu_id s = uj_id job \<and> bu_drop s = dropped \<and> bu_dialog s = dialog \<and>
      bu_name s = sanitize_upload_name (lf_name (uj_file job)) \<and>
      bu_bytes s = take (uj_off job) (lf_bytes (uj_file job)) \<and> uj_off job \<le> length (lf_bytes (uj_file job)) \<and>
      (bu_max_mb s = 0 \<or> length (lf_bytes (uj_file job)) \<le> bu_max_mb s * 1024 * 1024))"

definition handed_over :: "upload_job \<Rightarrow> bool \<Rightarrow> u32 \<Rightarrow> u32 option \<times> string \<times> bytes" where
  "handed_over job dropped dialog =
     (if dropped then None else Some dialog, sanitize_upload_name (lf_name (uj_file job)), lf_bytes (uj_file job))"

lemma bastion_end:
  assumes "holding job dropped dialog s" and "uj_off job = length (lf_bytes (uj_file job))"
  shows "bu_handed (bastion_step allows s (Text_frame (JObj (upload_note ''upload-end'' (uj_id job)))))
     = bu_handed s @ [handed_over job dropped dialog]"
  using assms by (simp add: bastion_step_def on_upload_end_def upload_note_def word_field_unat holding_def handed_over_def)

lemma bastion_chunk:
  assumes "holding job dropped dialog s" and "part = take c (drop (uj_off job) (lf_bytes (uj_file job)))"
  shows "holding (job\<lparr>uj_off := uj_off job + length part\<rparr>) dropped dialog
           (bastion_step allows s (Binary_frame (chunk_frame job part)))
      \<and> bu_handed (bastion_step allows s (Binary_frame (chunk_frame job part))) = bu_handed s"
proof -
  let ?b = "lf_bytes (uj_file job)"
  have n: "length part = min c (length ?b - uj_off job)" using assms(2) by simp
  have "take (uj_off job + length part) ?b = take (uj_off job) ?b @ part"
    by (simp add: take_add n assms(2) min_def)
  moreover have "big_endian (take 4 (drop 1 (chunk_frame job part))) = uj_id job"
    by (simp add: chunk_frame_def)
  moreover have "uj_off job + length part \<le> length ?b" using assms(1) n by (auto simp: holding_def min_def)
  ultimately show ?thesis
    using assms(1) by (auto simp: holding_def bastion_step_def on_upload_bytes_def chunk_frame_def Let_def)
qed

text \<open>What a turn that goes well leads to: the file is with the bastion up to the new offset, or
  handed over.\<close>

definition on_course :: "(string \<Rightarrow> bool) \<Rightarrow> bastion_upload \<Rightarrow> upload_job \<Rightarrow> bool \<Rightarrow> u32
    \<Rightarrow> (u32 option \<times> string \<times> bytes) list \<Rightarrow> upload_job option \<Rightarrow> rbi_view \<Rightarrow> bool" where
  "on_course allows b job dropped dialog old next v =
     (rv_open v \<and>
      (case next of
         None \<Rightarrow> bu_handed (bastion_after allows b v) = old @ [handed_over job dropped dialog]
       | Some j \<Rightarrow> uj_file j = uj_file job \<and> holding j dropped dialog (bastion_after allows b v) \<and>
                  bu_handed (bastion_after allows b v) = old))"

lemma upload_more_on_course:
  assumes "rv_open v" and "holding job dropped dialog (bastion_after allows b v)"
    and "bu_handed (bastion_after allows b v) = old"
  shows "(case upload_more job v of (next, v') \<Rightarrow> on_course allows b job dropped dialog old next v')"
proof (cases "uj_off job < length (lf_bytes (uj_file job))")
  case True
  with assms show ?thesis by (simp add: upload_more_def on_course_def)
next
  case False
  with assms(2) have "uj_off job = length (lf_bytes (uj_file job))" by (simp add: holding_def)
  with assms False show ?thesis by (simp add: upload_more_def on_course_def bastion_end)
qed

lemma handed_over_off [simp]: "handed_over (job\<lparr>uj_off := k\<rparr>) dropped dialog = handed_over job dropped dialog"
  by (simp add: handed_over_def)

lemma on_course_off [simp]:
  "on_course allows b (job\<lparr>uj_off := k\<rparr>) dropped dialog old nxt v = on_course allows b job dropped dialog old nxt v"
  by (cases nxt) (simp_all add: on_course_def)

lemma upload_turn_on_course:
  assumes "on_course allows b job dropped dialog old (Some job) v" and "t \<noteq> Slice_failed"
  shows "(case upload_turn t job v of (next, v') \<Rightarrow> on_course allows b job dropped dialog old next v')"
proof (cases t)
  case Full_buffer
  with assms show ?thesis by (simp add: upload_turn_def on_course_def)
next
  case Slice_read
  let ?part = "take UPLOAD_CHUNK (drop (uj_off job) (lf_bytes (uj_file job)))"
  let ?job = "job\<lparr>uj_off := uj_off job + length ?part\<rparr>"
  let ?v = "show_upload (uj_file job) (percent_of (uj_off job + length ?part) (max 1 (length (lf_bytes (uj_file job)))))
              (send_bytes (chunk_frame job ?part) v)"
  have "rv_open ?v" and "holding ?job dropped dialog (bastion_after allows b ?v)"
    and "bu_handed (bastion_after allows b ?v) = old"
    using assms(1) bastion_chunk [OF _ refl, of job dropped dialog "bastion_after allows b v"]
    by (auto simp: on_course_def)
  from upload_more_on_course [OF this] show ?thesis
    by (simp only: upload_turn_def Slice_read turn.case Let_def on_course_off)
qed (use assms in simp)

lemma upload_run_idle: "upload_run (map (Pair 0) ts) (Map.empty, v) = (Map.empty, v)"
  by (induction ts) simp_all

lemma upload_run_on_course:
  assumes "on_course allows b job dropped dialog old nxt v" and "\<forall>j. nxt = Some j \<longrightarrow> uj_file j = uj_file job"
    and "Slice_failed \<notin> set ts"
  shows "(case upload_run (map (Pair 0) ts) (Map.empty(0 := nxt), v) of
           (jobs, v') \<Rightarrow> on_course allows b job dropped dialog old (jobs 0) v')"
  using assms
proof (induction ts arbitrary: nxt v)
  case (Cons t ts)
  show ?case
  proof (cases nxt)
    case None
    then have idle: "Map.empty(0 := nxt) = (\<lambda>_. None)" by (simp add: fun_eq_iff)
    show ?thesis
      using Cons.prems(1) None unfolding idle upload_run_idle by simp
  next
    case (Some j)
    have same: "on_course allows b j dropped dialog old n w = on_course allows b job dropped dialog old n w" for n w
      using Cons.prems(2) Some by (cases n) (simp_all add: on_course_def handed_over_def)
    obtain n w where turn: "upload_turn t j v = (n, w)" by fastforce
    have "on_course allows b job dropped dialog old n w"
      using upload_turn_on_course [of allows b j dropped dialog old v t] Cons.prems Some turn same by auto
    moreover from this have "\<forall>j. n = Some j \<longrightarrow> uj_file j = uj_file job"
      by (simp add: on_course_def split: option.splits)
    moreover have "upload_run (map (Pair 0) (t # ts)) (Map.empty(0 := nxt), v)
        = upload_run (map (Pair 0) ts) (Map.empty(0 := n), w)"
      by (simp only: list.map upload_run.simps Some fun_upd_same option.case turn Let_def prod.case fun_upd_upd)
    moreover have "Slice_failed \<notin> set ts" using Cons.prems(3) by simp
    ultimately show ?thesis
      using Cons.IH [of n w] by metis
  qed
qed simp

lemma upload_begun:
  assumes "allows (sanitize_upload_name (lf_name f))" and "jget (JObj opts) ''drop'' = JBool True \<longleftrightarrow> dropped"
    and "set (map fst opts) \<inter> {''type'', ''id'', ''name'', ''size''} = {}"
    and "bu_max_mb s = 0 \<or> length (lf_bytes f) \<le> bu_max_mb s * 1024 * 1024"
  shows "holding \<lparr>uj_id = i, uj_file = f, uj_off = 0\<rparr> dropped (word_field (JObj opts) ''dialogSeq'')
           (bastion_step allows s (Text_frame (JObj (upload_note ''upload-begin'' i @
              [(''name'', JStr (lf_name f)), (''size'', JInt (int (length (lf_bytes f))))] @ opts))))
      \<and> bu_handed (bastion_step allows s (Text_frame (JObj (upload_note ''upload-begin'' i @
              [(''name'', JStr (lf_name f)), (''size'', JInt (int (length (lf_bytes f))))] @ opts)))) = bu_handed s"
proof -
  let ?j = "JObj (upload_note ''upload-begin'' i @
              [(''name'', JStr (lf_name f)), (''size'', JInt (int (length (lf_bytes f))))] @ opts)"
  have "word_field ?j ''id'' = i"
    by (rule word_field_unat) (simp add: upload_note_def)
  moreover have "jget ?j ''drop'' = jget (JObj opts) ''drop''" "jget ?j ''dialogSeq'' = jget (JObj opts) ''dialogSeq''"
    by (simp_all add: upload_note_def)
  moreover have "jget ?j ''type'' = JStr ''upload-begin''" "string_field ?j ''name'' d = lf_name f" for d
    by (simp_all add: upload_note_def string_field_def)
  ultimately show ?thesis
    using assms by (simp add: bastion_step_def on_upload_begin_def word_field_def holding_def Let_def del: jget.simps)
qed

lemma uploadFile_on_course:
  fixes f :: local_file and opts :: "(string \<times> json) list"
  assumes "rv_open v" and "allows (sanitize_upload_name (lf_name f))"
    and "jget (JObj opts) ''drop'' = JBool True \<longleftrightarrow> dropped"
    and "set (map fst opts) \<inter> {''type'', ''id'', ''name'', ''size''} = {}"
    and "bu_max_mb (bastion_after allows b v) = 0 \<or>
         length (lf_bytes f) \<le> bu_max_mb (bastion_after allows b v) * 1024 * 1024"
  shows "(case uploadFile f opts v of (job, v1) \<Rightarrow>
           on_course allows b \<lparr>uj_id = word_of_nat (rv_upload_id v), uj_file = f, uj_off = 0\<rparr> dropped
             (word_field (JObj opts) ''dialogSeq'') (bu_handed (bastion_after allows b v)) job v1)"
proof -
  let ?i = "word_of_nat (rv_upload_id v) :: u32" and ?s = "bastion_after allows b v"
  let ?m = "upload_note ''upload-begin'' ?i @
              [(''name'', JStr (lf_name f)), (''size'', JInt (int (length (lf_bytes f))))] @ opts"
  let ?w = "show_upload f 0 (rbi_send ?m (v\<lparr>rv_upload_id := rv_upload_id v + 1\<rparr>))"
  have "bastion_after allows b (v\<lparr>rv_upload_id := n\<rparr>) = ?s" for n by (simp add: bastion_after_def)
  then have w: "rv_open ?w" "bastion_after allows b ?w = bastion_step allows ?s (Text_frame (JObj ?m))"
    using assms(1) by (simp_all del: append_Cons append.simps)
  note begun = upload_begun [of allows f opts dropped ?s ?i, OF assms(2-5)]
  from upload_more_on_course [of ?w "\<lparr>uj_id = ?i, uj_file = f, uj_off = 0\<rparr>" dropped
      "word_field (JObj opts) ''dialogSeq''" allows b, OF w(1), unfolded w(2), OF conjunct1 [OF begun] conjunct2 [OF begun]]
  show ?thesis using assms(1) by (simp only: uploadFile_def Let_def simp_thms if_False)
qed

text \<open>C14: the file chosen for a dialog of the isolated page is handed to it whole, with its name and the
  number of its dialog, whichever way the turns of the upload go, as long as the file can be read, the
  policy allows its name and it is within the limit.\<close>

theorem picked_file_reaches_the_dialog:
  assumes "rv_open v" and "onFileInputChange (f # fs) v = (job, v1)"
    and "upload_run (map (Pair 0) ts) (Map.empty(0 := job), v1) = (jobs, v2)" and "jobs 0 = None"
    and "Slice_failed \<notin> set ts" and "allows (sanitize_upload_name (lf_name f))"
    and "bu_max_mb (bastion_after allows b v) = 0 \<or>
         length (lf_bytes f) \<le> bu_max_mb (bastion_after allows b v) * 1024 * 1024"
  shows "bu_handed (bastion_after allows b v2) = bu_handed (bastion_after allows b v) @
           [(Some (rv_pending v), sanitize_upload_name (lf_name f), lf_bytes f)]"
proof -
  let ?v = "v\<lparr>rv_pending := 0, rv_picker := None\<rparr>" and ?seq = "rv_pending v"
  let ?opts = "[(''dialogSeq'', JInt (int (unat ?seq)))]"
  let ?job = "\<lparr>uj_id = word_of_nat (rv_upload_id v), uj_file = f, uj_off = 0\<rparr>"
  have seq: "word_field (JObj ?opts) ''dialogSeq'' = ?seq" by (rule word_field_unat) simp
  have same: "bastion_after allows b ?v = bastion_after allows b v" by (simp add: bastion_after_def)
  have "on_course allows b ?job False ?seq (bu_handed (bastion_after allows b v)) job v1"
    using uploadFile_on_course [of ?v allows f ?opts False b, unfolded seq same] assms(1,2,6,7)
    by (simp add: onFileInputChange_def Let_def)
  moreover from this have "\<forall>j. job = Some j \<longrightarrow> uj_file j = uj_file ?job"
    by (auto simp: on_course_def)
  ultimately have "on_course allows b ?job False ?seq (bu_handed (bastion_after allows b v)) (jobs 0) v2"
    using upload_run_on_course [of allows b ?job False ?seq _ job v1 ts] assms(3,5) by simp
  then show ?thesis
    using assms(4) by (simp add: on_course_def handed_over_def)
qed

text \<open>Enough turns that read a slice end the upload.\<close>

lemma enough_turns:
  assumes "\<forall>j. nxt = Some j \<longrightarrow> uj_off j < length (lf_bytes (uj_file j)) \<and>
      length (lf_bytes (uj_file j)) \<le> uj_off j + n * UPLOAD_CHUNK"
  shows "fst (upload_run (map (Pair 0) (replicate n Slice_read)) (Map.empty(0 := nxt), v)) 0 = None"
  using assms
proof (induction n arbitrary: nxt v)
  case 0
  then show ?case by (cases nxt) auto
next
  case (Suc n)
  show ?case
  proof (cases nxt)
    case None
    then have idle: "Map.empty(0 := nxt) = (\<lambda>_. None)" by (simp add: fun_eq_iff)
    show ?thesis unfolding idle upload_run_idle by simp
  next
    case (Some j)
    obtain j' w where turn: "upload_turn Slice_read j v = (j', w)" by fastforce
    have "\<forall>i. j' = Some i \<longrightarrow> uj_off i < length (lf_bytes (uj_file i)) \<and>
        length (lf_bytes (uj_file i)) \<le> uj_off i + n * UPLOAD_CHUNK"
      using turn Suc.prems Some by (auto simp: upload_turn_def upload_more_def Let_def min_def split: if_splits)
    from Suc.IH [OF this, of w] show ?thesis
      by (simp only: replicate_Suc list.map upload_run.simps Some fun_upd_same option.case turn Let_def prod.case fun_upd_upd)
  qed
qed

subsection \<open>Two files dropped together\<close>

text \<open>Nothing but an announcement starts an upload.\<close>

definition announces :: "outgoing \<Rightarrow> bool" where
  "announces m = (case m of Text_frame j \<Rightarrow> jget j ''type'' = JStr ''upload-begin'' | Binary_frame b \<Rightarrow> False)"

definition only_second :: "(u32 option \<times> string \<times> bytes) list \<Rightarrow> string \<Rightarrow> bastion_upload \<Rightarrow> bool" where
  "only_second old name s =
     ((bu_active s \<longrightarrow> bu_handed s = old \<and> bu_name s = name \<and> bu_drop s) \<and>
      (bu_handed s = old \<or> (\<exists>bytes. bu_handed s = old @ [(None, name, bytes)])))"

lemma bastion_only_second:
  "\<not> announces m \<Longrightarrow> only_second old name s \<Longrightarrow> only_second old name (bastion_step allows s m)"
  by (cases m) (auto simp: announces_def only_second_def bastion_step_def on_upload_end_def on_upload_cancel_def
      on_upload_bytes_def Let_def)

lemma turn_only_second:
  assumes "only_second old name (bastion_after allows b v)"
  shows "only_second old name (bastion_after allows b (snd (upload_turn t job v)))"
  using assms
  by (auto simp: upload_turn_def upload_more_def upload_note_def announces_def Let_def
      intro!: bastion_only_second split: turn.splits)

lemma run_only_second:
  "only_second old name (bastion_after allows b v) \<Longrightarrow>
   only_second old name (bastion_after allows b (snd (upload_run ts (jobs, v))))"
proof (induction ts arbitrary: jobs v)
  case (Cons kt ts)
  obtain k t where kt: "kt = (k, t)" by fastforce
  show ?case
  proof (cases "jobs k")
    case None
    then show ?thesis using Cons by (simp add: kt)
  next
    case (Some job)
    obtain j w where turn: "upload_turn t job v = (j, w)" by fastforce
    then show ?thesis
      using Cons.IH [of w "jobs(k := j)"] turn_only_second [OF Cons.prems, of t job] Some
      by (simp add: kt fun_upd_def)
  qed
qed simp

lemma begin_keeps_handed: "bu_handed (on_upload_begin allows j s) = bu_handed s"
  by (simp add: on_upload_begin_def Let_def)

lemma uploadFile_begun:
  fixes opts :: "(string \<times> json) list"
  assumes "rv_open v" and "set (map fst opts) \<inter> {''type'', ''id'', ''name'', ''size''} = {}"
  obtains j w where "uploadFile f opts v = upload_more \<lparr>uj_id = word_of_nat (rv_upload_id v), uj_file = f, uj_off = 0\<rparr> w"
    and "rv_open w" and "bastion_after allows b w = on_upload_begin allows j (bastion_after allows b v)"
    and "string_field j ''name'' ''upload.bin'' = lf_name f" and "jget j ''drop'' = jget (JObj opts) ''drop''"
proof
  let ?i = "word_of_nat (rv_upload_id v) :: u32"
  let ?m = "upload_note ''upload-begin'' ?i @
              [(''name'', JStr (lf_name f)), (''size'', JInt (int (length (lf_bytes f))))] @ opts"
  let ?w = "show_upload f 0 (rbi_send ?m (v\<lparr>rv_upload_id := rv_upload_id v + 1\<rparr>))"
  show "uploadFile f opts v = upload_more \<lparr>uj_id = ?i, uj_file = f, uj_off = 0\<rparr> ?w"
    using assms(1) by (simp only: uploadFile_def Let_def simp_thms if_False)
  show "rv_open ?w" using assms(1) by simp
  have "bastion_after allows b (v\<lparr>rv_upload_id := n\<rparr>) = bastion_after allows b v" for n
    by (simp add: bastion_after_def)
  then show "bastion_after allows b ?w = on_upload_begin allows (JObj ?m) (bastion_after allows b v)"
    using assms(1) by (simp add: bastion_step_def upload_note_def)
  show "string_field (JObj ?m) ''name'' ''upload.bin'' = lf_name f" "jget (JObj ?m) ''drop'' = jget (JObj opts) ''drop''"
    by (simp_all add: upload_note_def string_field_def)
qed

lemma begin_only_second:
  assumes "allows (sanitize_upload_name (string_field j ''name'' ''upload.bin''))" and "jget j ''drop'' = JBool True"
  shows "only_second (bu_handed s) (sanitize_upload_name (string_field j ''name'' ''upload.bin'')) (on_upload_begin allows j s)"
  using assms by (simp add: only_second_def on_upload_begin_def Let_def)

lemma upload_more_only_second:
  "only_second old name (bastion_after allows b v) \<Longrightarrow>
   only_second old name (bastion_after allows b (snd (upload_more job v)))"
  by (auto simp: upload_more_def upload_note_def announces_def intro!: bastion_only_second)

text \<open>As written, of two files dropped together the bastion hands over at most the second: the
  announcement of the second one closes the staging of the first, in every order of the turns.\<close>

theorem second_drop_discards_first:
  assumes "rv_open v" and "rv_files_allowed v" and "lf_bytes f1 \<noteq> []"
    and "allows (sanitize_upload_name (lf_name f2))"
    and "onDrop 0 [f1, f2] point (Map.empty, v) = (jobs, v1)"
    and "upload_run ts (jobs, v1) = (jobs', v2)"
  shows "bu_handed (bastion_after allows b v2) = bu_handed (bastion_after allows b v) \<or>
     (\<exists>bytes. bu_handed (bastion_after allows b v2)
        = bu_handed (bastion_after allows b v) @ [(None, sanitize_upload_name (lf_name f2), bytes)])"
proof -
  let ?opts = "(''drop'', JBool True) # point_props point"
  have opts: "set (map fst ?opts) \<inter> {''type'', ''id'', ''name'', ''size''} = {}" by (simp add: point_props_def)
  obtain j1 w1 where first: "uploadFile f1 ?opts v
        = upload_more \<lparr>uj_id = word_of_nat (rv_upload_id v), uj_file = f1, uj_off = 0\<rparr> w1"
      "rv_open w1" "bastion_after allows b w1 = on_upload_begin allows j1 (bastion_after allows b v)"
    using uploadFile_begun [OF assms(1) opts] by metis
  then have started: "uploadFile f1 ?opts v = (Some \<lparr>uj_id = word_of_nat (rv_upload_id v), uj_file = f1, uj_off = 0\<rparr>, w1)"
    using assms(3) by (simp add: upload_more_def)
  obtain j2 w2 job where second: "uploadFile f2 ?opts w1 = upload_more job w2"
      "bastion_after allows b w2 = on_upload_begin allows j2 (bastion_after allows b w1)"
      "string_field j2 ''name'' ''upload.bin'' = lf_name f2" "jget j2 ''drop'' = jget (JObj ?opts) ''drop''"
    using uploadFile_begun [OF first(2) opts] by metis
  have "only_second (bu_handed (bastion_after allows b v)) (sanitize_upload_name (lf_name f2)) (bastion_after allows b w2)"
    using begin_only_second [of allows j2 "bastion_after allows b w1"] second(2-4) assms(4)
    by (simp add: first(3) begin_keeps_handed)
  moreover have "v1 = snd (upload_more job w2)"
    using assms(2,5) started second(1) by (auto simp: onDrop_def split: prod.splits)
  ultimately have "only_second (bu_handed (bastion_after allows b v)) (sanitize_upload_name (lf_name f2)) (bastion_after allows b v1)"
    by (simp add: upload_more_only_second)
  then show ?thesis
    using run_only_second [of _ _ allows b v1 ts jobs] assms(6) by (auto simp: only_second_def)
qed

subsection \<open>Every event of the viewer\<close>

type_synonym rbi_state = "(nat \<Rightarrow> upload_job option) \<times> rbi_view"

inductive rbi_step :: "rbi_state \<Rightarrow> rbi_state \<Rightarrow> bool" where
  opened: "rbi_step (jobs, v) (jobs, on_rbi_open session el v)"
| closed: "rbi_step (jobs, v) (jobs, on_rbi_close v)"
| failed: "rbi_step (jobs, v) (jobs, on_rbi_error v)"
| resizing: "rbi_step (jobs, v) (jobs, resize_observed now v)"
| resized: "rbi_step (jobs, v) (jobs, resize_timer now el v)"
| unmounted: "rbi_step (jobs, v) (jobs, rbi_unmounted v)"
| told: "rbi_step (jobs, v) (jobs, on_rbi_text env data v)"
| frame: "rbi_step (jobs, v) (jobs, on_rbi_frame seen bytes v)"
| decoded: "rbi_step (jobs, v) (jobs, image_decoded w h v)"
| picked: "jobs k = None \<Longrightarrow> onFileInputChange files v = (j, v') \<Longrightarrow> rbi_step (jobs, v) (jobs(k := j), v')"
| not_picked: "rbi_step (jobs, v) (jobs, onFileInputCancel v)"
| dropped: "\<forall>i \<ge> k. jobs i = None \<Longrightarrow> rbi_step (jobs, v) (onDrop k files (normPoint r e) (jobs, v))"
| turned: "rbi_step (jobs, v) (upload_run [(k, t)] (jobs, v))"
| hidden: "rbi_step (jobs, v) (jobs, hide_transfer v)"
| typed: "rbi_step (jobs, v) (jobs, onTextInput content v)"
| composing: "rbi_step (jobs, v) (jobs, onCompositionStart v)"
| composed: "rbi_step (jobs, v) (jobs, onCompositionEnd v)"
| pasted: "rbi_step (jobs, v) (jobs, onKbPaste pasted_text v)"
| moved: "rbi_step (jobs, v) (jobs, onMouseMove time r e v)"
| pressed: "rbi_step (jobs, v) (jobs, onMouseDown r e v)"
| released: "rbi_step (jobs, v) (jobs, onMouseUp r e v)"
| wheeled: "rbi_step (jobs, v) (jobs, onWheel r e v)"
| key_down: "rbi_step (jobs, v) (jobs, snd (onKeyDown key v))"
| key_up: "rbi_step (jobs, v) (jobs, snd (onKeyUp key v))"
| capable: "rbi_step (jobs, v) (jobs, on_capabilities caps v)"

inductive rbi_reachable :: "rbi_state \<Rightarrow> bool" where
  mounted: "rbi_reachable (Map.empty, rbi_start)"
| stepped: "rbi_reachable s \<Longrightarrow> rbi_step s s' \<Longrightarrow> rbi_reachable s'"

text \<open>What the bastion reads of a message: the type of each field, and its range.\<close>

definition number_in :: "rat \<Rightarrow> rat \<Rightarrow> json \<Rightarrow> bool" where
  "number_in low high v = (case v of JNum n \<Rightarrow> low \<le> n \<and> n \<le> high | _ \<Rightarrow> False)"

definition string_in :: "string list \<Rightarrow> json \<Rightarrow> bool" where
  "string_in ss v = (case v of JStr s \<Rightarrow> s \<in> set ss | _ \<Rightarrow> False)"

definition absent_or :: "(json \<Rightarrow> bool) \<Rightarrow> json \<Rightarrow> bool" where
  "absent_or P v = (v = JUndef \<or> P v)"

fun is_number :: "json \<Rightarrow> bool" where
  "is_number (JNum n) = True"
| "is_number v = False"

fun is_text :: "json \<Rightarrow> bool" where
  "is_text (JStr s) = True"
| "is_text v = False"

definition size_ok :: "json \<Rightarrow> bool" where
  "size_ok j = (number_in 320 1920 (jget j ''width'') \<and> number_in 240 1200 (jget j ''height''))"

definition id_ok :: "json \<Rightarrow> bool" where
  "id_ok v = number_in 0 (2 ^ 32 - 1) v"

definition mouse_ok :: "json \<Rightarrow> bool" where
  "mouse_ok j =
     (string_in [''move'', ''down'', ''up'', ''wheel''] (jget j ''event'') \<and>
      number_in 0 1 (jget j ''x'') \<and> number_in 0 1 (jget j ''y'') \<and>
      string_in [''left'', ''middle'', ''right'', ''none''] (jget j ''button'') \<and>
      absent_or is_number (jget j ''buttons'') \<and> absent_or is_number (jget j ''clickCount'') \<and>
      absent_or is_number (jget j ''deltaX'') \<and> absent_or is_number (jget j ''deltaY''))"

definition key_ok :: "json \<Rightarrow> bool" where
  "key_ok j =
     (string_in [''down'', ''up''] (jget j ''event'') \<and> is_text (jget j ''key'') \<and> is_text (jget j ''code'') \<and>
      is_number (jget j ''keyCode'') \<and> number_in 0 15 (jget j ''modifiers''))"

definition begin_ok :: "json \<Rightarrow> bool" where
  "begin_ok j =
     (id_ok (jget j ''id'') \<and> is_text (jget j ''name'') \<and> is_number (jget j ''size'') \<and>
      absent_or (number_in 0 1) (jget j ''x'') \<and> absent_or (number_in 0 1) (jget j ''y'') \<and>
      absent_or (\<lambda>v. v = JBool True) (jget j ''drop'') \<and> absent_or id_ok (jget j ''dialogSeq''))"

definition message_ok :: "json \<Rightarrow> bool" where
  "message_ok j =
     (case jget j ''type'' of
        JStr t \<Rightarrow>
          if t = ''start'' \<or> t = ''resize'' then size_ok j
          else if t = ''mouse'' then mouse_ok j
          else if t = ''key'' then key_ok j
          else if t = ''text'' \<or> t = ''paste'' then is_text (jget j ''text'') \<and> jget j ''text'' \<noteq> JStr []
          else if t = ''upload-begin'' then begin_ok j
          else if t = ''upload-end'' \<or> t = ''upload-cancel'' then id_ok (jget j ''id'')
          else if t = ''file-pick-cancel'' then id_ok (jget j ''dialogSeq'')
          else False
      | _ \<Rightarrow> False)"

definition outgoing_ok :: "outgoing \<Rightarrow> bool" where
  "outgoing_ok m =
     (case m of
        Text_frame j \<Rightarrow> message_ok j
      | Binary_frame b \<Rightarrow> hd b = 0x10 \<and> 5 \<le> length b \<and> length b \<le> 5 + UPLOAD_CHUNK)"

definition all_ok :: "rbi_view \<Rightarrow> bool" where
  "all_ok v = list_all outgoing_ok (rv_sent v)"

named_theorems all_ok_steps

lemma all_ok_rbi_send [all_ok_steps]: "all_ok v \<Longrightarrow> message_ok (JObj obj) \<Longrightarrow> all_ok (rbi_send obj v)"
  by (simp add: all_ok_def rbi_send_def outgoing_ok_def)

lemma all_ok_same [simp]:
  "all_ok (v\<lparr>rv_open := a\<rparr>) = all_ok v" "all_ok (v\<lparr>rv_status := s\<rparr>) = all_ok v"
  "all_ok (v\<lparr>rv_message := s\<rparr>) = all_ok v" "all_ok (v\<lparr>rv_transfer := x\<rparr>) = all_ok v"
  "all_ok (v\<lparr>rv_hiding := n\<rparr>) = all_ok v" "all_ok (v\<lparr>rv_downloads := d\<rparr>) = all_ok v"
  "all_ok (v\<lparr>rv_saved := sv\<rparr>) = all_ok v" "all_ok (v\<lparr>rv_canvas := c\<rparr>) = all_ok v"
  "all_ok (v\<lparr>rv_painted := p\<rparr>) = all_ok v" "all_ok (v\<lparr>rv_pending := q\<rparr>) = all_ok v"
  "all_ok (v\<lparr>rv_picker := pk\<rparr>) = all_ok v" "all_ok (v\<lparr>rv_upload_id := n\<rparr>) = all_ok v"
  "all_ok (v\<lparr>rv_last_move := r\<rparr>) = all_ok v" "all_ok (v\<lparr>rv_clicks := i\<rparr>) = all_ok v"
  "all_ok (v\<lparr>rv_textarea := s\<rparr>) = all_ok v" "all_ok (v\<lparr>rv_composing := a\<rparr>) = all_ok v"
  "all_ok (v\<lparr>rv_files_allowed := a\<rparr>) = all_ok v" "all_ok (v\<lparr>rv_paste_allowed := a\<rparr>) = all_ok v"
  "all_ok (v\<lparr>rv_resize := z\<rparr>) = all_ok v"
  by (simp_all add: all_ok_def)

lemma id_ok_word [simp]: "id_ok (JNum (unsigned (i :: u32)))"
proof -
  have "unat i < 2 ^ LENGTH(32)" by (rule unsigned_less)
  then have "(of_nat (unat i) :: rat) \<le> of_nat 4294967295"
    by (subst of_nat_le_iff) simp
  moreover have "(0 :: rat) \<le> of_nat (unat i)" by (rule of_nat_0_le_iff)
  ultimately show ?thesis by (simp add: id_ok_def number_in_def)
qed

lemma normPoint_unit:
  "0 \<le> fst (normPoint r e)" "fst (normPoint r e) \<le> 1" "0 \<le> snd (normPoint r e)" "snd (normPoint r e) \<le> 1"
  by (auto simp: normPoint_def split: option.splits)

lemma clamped_range: "low \<le> high \<Longrightarrow> low \<le> clamped low high d v \<and> clamped low high d v \<le> high"
  by (simp add: clamped_def)

lemma size_message_ok:
  "sizeOf el = (w, h) \<Longrightarrow> size_ok (JObj ((''type'', t) # p @ [(''width'', JInt (int w)), (''height'', JInt (int h))]))"
  if "set (map fst p) \<inter> {''width'', ''height''} = {}"
  using that clamped_range [of 320 1920 1280 "map_option fst el"] clamped_range [of 240 1200 800 "map_option snd el"]
  by (auto simp: size_ok_def sizeOf_def number_in_def map_add_Some_iff map_of_eq_None_iff [symmetric] split: option.splits)

text \<open>The four flags as a number: CDP's bit mask is their sum.\<close>

lemma modifiersOf_sum:
  "modifiersOf e = of_bool (ke_alt e) + 2 * of_bool (ke_ctrl e) + 4 * of_bool (ke_meta e) + 8 * of_bool (ke_shift e)"
  by (simp add: modifiersOf_def)

lemma cdpButton_known: "string_in [''left'', ''middle'', ''right'', ''none''] (JStr (cdpButton b))"
  and heldButton_known: "string_in [''left'', ''middle'', ''right'', ''none''] (JStr (heldButton b))"
  by (simp_all add: string_in_def cdpButton_def heldButton_def)

lemmas message_parts =
  message_ok_def mouse_ok_def key_ok_def begin_ok_def absent_or_def mouse_message_def press_props_def point_props_def

lemma mouse_message_ok:
  assumes "string_in [''move'', ''down'', ''up'', ''wheel''] (JStr event)"
    and "string_in [''left'', ''middle'', ''right'', ''none''] (JStr button)"
    and "set (map fst extra) \<inter> {''type'', ''event'', ''x'', ''y'', ''button''} = {}"
    and "\<forall>k. absent_or is_number (jget (JObj extra) k)"
  shows "message_ok (JObj (mouse_message event (normPoint r e) button extra))"
proof -
  let ?j = "JObj (mouse_message event (normPoint r e) button extra)"
  have "jget ?j ''type'' = JStr ''mouse''" "jget ?j ''event'' = JStr event" "jget ?j ''button'' = JStr button"
    "jget ?j ''x'' = JNum (fst (normPoint r e))" "jget ?j ''y'' = JNum (snd (normPoint r e))"
    by (simp_all add: mouse_message_def point_props_def)
  moreover have "jget ?j k = jget (JObj extra) k" if "k \<in> {''buttons'', ''clickCount'', ''deltaX'', ''deltaY''}" for k
    using that by (auto simp: mouse_message_def point_props_def)
  moreover have "number_in 0 1 (JNum (fst (normPoint r e)))" "number_in 0 1 (JNum (snd (normPoint r e)))"
    using normPoint_unit [of r e] by (simp_all add: number_in_def)
  ultimately show ?thesis
    using assms by (simp add: message_ok_def mouse_ok_def del: jget.simps)
qed

lemma mouse_all_ok [all_ok_steps]:
  "all_ok v \<Longrightarrow> all_ok (onMouseMove time r e v)"
  "all_ok v \<Longrightarrow> all_ok (onMouseDown r e v)"
  "all_ok v \<Longrightarrow> all_ok (onMouseUp r e v)"
  "all_ok v \<Longrightarrow> all_ok (onWheel r e v)"
  unfolding onMouseMove_def onMouseDown_def onMouseUp_def onWheel_def Let_def
  by (auto intro!: all_ok_rbi_send mouse_message_ok cdpButton_known heldButton_known
      simp: string_in_def press_props_def absent_or_def)

lemma modifiers_range: "number_in 0 15 (JInt (modifiersOf e))"
  by (simp add: number_in_def modifiersOf_sum of_bool_def)

lemma key_all_ok [all_ok_steps]:
  assumes "all_ok v" and "event \<in> {''down'', ''up''}"
  shows "all_ok (snd (on_key event e v))"
proof -
  let ?j = "JObj (key_message event e)"
  have "jget ?j ''type'' = JStr ''key''" "jget ?j ''event'' = JStr event" "jget ?j ''key'' = JStr (ke_key e)"
    "jget ?j ''code'' = JStr (ke_code e)" "jget ?j ''keyCode'' = JInt (ke_key_code e)"
    "jget ?j ''modifiers'' = JInt (modifiersOf e)"
    by (simp_all add: key_message_def)
  then have "message_ok ?j"
    using assms(2) modifiers_range [of e] by (auto simp: message_ok_def key_ok_def string_in_def simp del: jget.simps)
  then show ?thesis
    using assms(1) by (simp add: on_key_def Let_def all_ok_rbi_send)
qed

lemma text_all_ok [all_ok_steps]:
  "all_ok v \<Longrightarrow> all_ok (flushText v)" "all_ok v \<Longrightarrow> all_ok (onTextInput c v)"
  "all_ok v \<Longrightarrow> all_ok (onCompositionEnd v)" "all_ok v \<Longrightarrow> all_ok (onKbPaste c v)"
  by (auto simp: onTextInput_def onCompositionEnd_def onKbPaste_def flushText_def Let_def message_ok_def
      intro!: all_ok_rbi_send)

lemma upload_note_ok:
  "message_ok (JObj (upload_note ''upload-end'' i))" "message_ok (JObj (upload_note ''upload-cancel'' i))"
  by (simp_all add: message_ok_def upload_note_def)

lemma begin_message_ok:
  assumes "begin_ok (JObj ([(''type'', t), (''id'', JInt (int (unat (i :: u32)))), (''name'', JStr []), (''size'', JInt 0)] @ opts))"
    and "set (map fst opts) \<inter> {''type'', ''id'', ''name'', ''size''} = {}"
  shows "message_ok (JObj (upload_note ''upload-begin'' i @ [(''name'', JStr n), (''size'', JNum z)] @ opts))"
  using assms by (simp add: message_ok_def begin_ok_def upload_note_def)

lemma all_ok_upload_parts [all_ok_steps]:
  "all_ok v \<Longrightarrow> all_ok (show_upload f p v)" "all_ok v \<Longrightarrow> all_ok (hide_soon v)"
  "all_ok v \<Longrightarrow> all_ok (file_pick_cancel seq v)"
  by (auto simp: show_upload_def hide_soon_def file_pick_cancel_def message_ok_def
      intro!: all_ok_rbi_send)

lemma all_ok_send_bytes [all_ok_steps]:
  "all_ok v \<Longrightarrow> length part \<le> UPLOAD_CHUNK \<Longrightarrow> all_ok (send_bytes (chunk_frame job part) v)"
  by (simp add: all_ok_def send_bytes_def outgoing_ok_def chunk_frame_def)

lemma upload_all_ok [all_ok_steps]:
  "all_ok v \<Longrightarrow> all_ok (snd (upload_more job v))"
  "all_ok v \<Longrightarrow> all_ok (snd (upload_turn t job v))"
  by (auto simp: upload_more_def upload_turn_def Let_def upload_note_ok intro!: all_ok_steps split: turn.splits)

lemma uploadFile_all_ok [all_ok_steps]:
  fixes opts :: "(string \<times> json) list"
  assumes "all_ok v" and "set (map fst opts) \<inter> {''type'', ''id'', ''name'', ''size''} = {}"
    and "\<forall>i :: u32. begin_ok (JObj ([(''type'', JUndef), (''id'', JInt (int (unat i))), (''name'', JStr []), (''size'', JInt 0)] @ opts))"
  shows "all_ok (snd (uploadFile f opts v))"
  using assms begin_message_ok [of JUndef "word_of_nat (rv_upload_id v)" opts]
  by (simp add: uploadFile_def Let_def del: append.simps) (intro impI all_ok_steps; simp)

lemma start_uploads_all_ok:
  fixes opts :: "(string \<times> json) list"
  assumes "set (map fst opts) \<inter> {''type'', ''id'', ''name'', ''size''} = {}"
    and "\<forall>i :: u32. begin_ok (JObj ([(''type'', JUndef), (''id'', JInt (int (unat i))), (''name'', JStr []), (''size'', JInt 0)] @ opts))"
  shows "all_ok v \<Longrightarrow> all_ok (snd (start_uploads k fs opts (jobs, v)))"
proof (induction fs arbitrary: k jobs v)
  case (Cons f fs)
  obtain j w where "uploadFile f opts v = (j, w)" by fastforce
  with Cons uploadFile_all_ok [OF Cons.prems assms, of f] show ?case by simp
qed simp

lemma onDrop_all_ok: "all_ok v \<Longrightarrow> all_ok (snd (onDrop k files (normPoint r e) (jobs, v)))"
  using start_uploads_all_ok [of "(''drop'', JBool True) # point_props (normPoint r e)" v k files jobs] normPoint_unit [of r e]
  by (simp add: onDrop_def point_props_def begin_ok_def absent_or_def number_in_def)

lemma pick_all_ok: "all_ok v \<Longrightarrow> all_ok (snd (onFileInputChange files v))"
  using uploadFile_all_ok [of "v\<lparr>rv_pending := 0, rv_picker := None\<rparr>" "[(''dialogSeq'', JInt (int (unat (rv_pending v))))]"]
  by (auto simp: onFileInputChange_def Let_def begin_ok_def absent_or_def intro!: all_ok_steps split: list.splits)

lemma frame_all_ok: "all_ok v \<Longrightarrow> all_ok (on_rbi_frame seen data v)"
  by (auto simp: on_rbi_frame_def Let_def triggerFilePicker_def download_begun_def download_chunk_def
      download_ended_def paint_def message_ok_def intro!: all_ok_rbi_send split: rbi_frame.splits option.splits)

lemma socket_all_ok:
  "all_ok v \<Longrightarrow> all_ok (on_rbi_open session el v)" "all_ok v \<Longrightarrow> all_ok (resize_timer now el v)"
  using size_message_ok [of "[(''sessionId'', jget session ''id'')]" el _ _ "JStr ''start''"]
    size_message_ok [of "[]" el _ _ "JStr ''resize''"]
  by (auto simp: on_rbi_open_def resize_timer_def message_ok_def intro!: all_ok_rbi_send split: prod.splits option.splits)

lemma step_all_ok: "rbi_step s s' \<Longrightarrow> all_ok (snd s) \<Longrightarrow> all_ok (snd s')"
proof (induction rule: rbi_step.induct)
  case (picked jobs k files v j v')
  then show ?case using pick_all_ok [of v files] by simp
next
  case (turned jobs v k t)
  then show ?case
    using upload_all_ok(2) [of v t "the (jobs k)"] by (auto split: option.splits prod.splits)
qed (auto simp: on_rbi_close_def on_rbi_error_def resize_observed_def rbi_unmounted_def on_rbi_text_def image_decoded_def
      hide_transfer_def onCompositionStart_def onKeyDown_def onKeyUp_def on_capabilities_def
      onFileInputCancel_def Let_def
      intro!: all_ok_steps socket_all_ok frame_all_ok onDrop_all_ok split: option.splits)



text \<open>A bastion that has no upload yet, and an open viewer whose page asked for a file.\<close>

definition bastion_start :: bastion_upload where
  "bastion_start = \<lparr>bu_active = False, bu_open = False, bu_id = 0, bu_name = [], bu_bytes = [],
     bu_drop = False, bu_dialog = 0, bu_handed = [], bu_max_mb = 512\<rparr>"

definition rbi_sample :: rbi_view where
  "rbi_sample = rbi_start\<lparr>rv_open := True, rv_pending := 5\<rparr>"

lemma bastion_start_fields [simp]: "bu_handed bastion_start = []" "bu_max_mb bastion_start = 512"
  by (simp_all add: bastion_start_def)

lemma sample_after [simp]: "bastion_after allows bastion_start rbi_sample = bastion_start"
  by (simp add: bastion_after_def rbi_sample_def rbi_start_def)

theorem picked_file_reaches_the_dialog_witness:
  "bu_handed (bastion_after (\<lambda>_. True) bastion_start
     (snd (upload_run (map (Pair 0) [Full_buffer, Slice_read])
        (Map.empty(0 := fst (onFileInputChange [\<lparr>lf_name = ''a'', lf_bytes = [1, 2, 3]\<rparr>] rbi_sample)),
         snd (onFileInputChange [\<lparr>lf_name = ''a'', lf_bytes = [1, 2, 3]\<rparr>] rbi_sample)))))
   = [(Some 5, ''a'', [1, 2, 3])]"
proof -
  let ?f = "\<lparr>lf_name = ''a'', lf_bytes = [1, 2, 3]\<rparr>" and ?ts = "[Full_buffer, Slice_read]"
  obtain job v1 where picked: "onFileInputChange [?f] rbi_sample = (job, v1)" by fastforce
  obtain jobs v2 where run: "upload_run (map (Pair 0) ?ts) (Map.empty(0 := job), v1) = (jobs, v2)" by fastforce
  have "rv_open rbi_sample" and pending: "rv_pending rbi_sample = 5"
    by (simp_all add: rbi_sample_def)
  moreover have "jobs 0 = None"
    using picked run by (auto simp: onFileInputChange_def rbi_sample_def rbi_start_def uploadFile_def upload_more_def
        upload_turn_def UPLOAD_CHUNK_def Let_def rbi_send_def send_bytes_def show_upload_def)
  moreover have "sanitize_upload_name ''a'' = ''a''" by code_simp
  ultimately show ?thesis
    using picked_file_reaches_the_dialog [of rbi_sample ?f "[]" job v1 ?ts jobs v2 "\<lambda>_. True" bastion_start]
      picked run by (simp add: pending del: upload_run.simps list.map)
qed

theorem second_drop_discards_first_witness:
  "let first = \<lparr>lf_name = ''a'', lf_bytes = [1, 2]\<rparr>; second = \<lparr>lf_name = ''b'', lf_bytes = [3]\<rparr>;
       (jobs, v1) = onDrop 0 [first, second] (0, 0) (Map.empty, rbi_sample);
       (jobs', v2) = upload_run [(0, Slice_read), (1, Slice_read)] (jobs, v1);
       handed = bu_handed (bastion_after (\<lambda>_. True) bastion_start v2)
   in handed = [] \<or> (\<exists>bytes. handed = [(None, ''b'', bytes)])"
proof -
  let ?first = "\<lparr>lf_name = ''a'', lf_bytes = [1, 2]\<rparr>" and ?second = "\<lparr>lf_name = ''b'', lf_bytes = [3]\<rparr>"
  obtain jobs v1 where dropped: "onDrop 0 [?first, ?second] (0, 0) (Map.empty, rbi_sample) = (jobs, v1)" by fastforce
  obtain jobs' v2 where run: "upload_run [(0, Slice_read), (1, Slice_read)] (jobs, v1) = (jobs', v2)" by fastforce
  have "rv_open rbi_sample" "rv_files_allowed rbi_sample" by (simp_all add: rbi_sample_def rbi_start_def)
  moreover have "sanitize_upload_name ''b'' = ''b''" by code_simp
  ultimately show ?thesis
    using second_drop_discards_first [of rbi_sample ?first "\<lambda>_. True" ?second "(0, 0)" jobs v1
        "[(0, Slice_read), (1, Slice_read)]" jobs' v2 bastion_start] dropped run
    by (simp add: Let_def del: upload_run.simps)
qed

subsection \<open>Keys\<close>

text \<open>The modifiers of a key event are the bits of the number sent with it: bit 0 is Alt, 1 Control,
  2 Meta, 3 Shift, and no other bit is set.\<close>

theorem modifiers_bits:
  "bit (modifiersOf e) n \<longleftrightarrow>
     n = 0 \<and> ke_alt e \<or> n = 1 \<and> ke_ctrl e \<or> n = 2 \<and> ke_meta e \<or> n = 3 \<and> ke_shift e"
proof -
  have "n = 0 \<or> n = 1 \<or> n = 2 \<or> n = 3 \<or> (\<exists>m. n = Suc (Suc (Suc (Suc m))))"
    by (cases n; cases "n - 1"; cases "n - 2"; cases "n - 3") auto
  then show ?thesis
    unfolding modifiersOf_sum by (auto simp: bit_simps bit_Suc of_bool_def numeral_2_eq_2 numeral_3_eq_3)
qed

text \<open>A key that produces text, AltGr included, is left to the text field and never sent as a key.\<close>

theorem text_keys_not_forwarded:
  assumes "ke_key e \<notin> set CONTROL_KEYS" and "(\<not> ke_ctrl e \<and> \<not> ke_meta e) \<or> ke_alt_graph e"
  shows "onKeyDown e v = (False, v) \<and> onKeyUp e v = (False, v)"
  using assms by (auto simp: onKeyDown_def onKeyUp_def on_key_def classifyKey_def Let_def)

text \<open>As written, the press of Control itself is sent and its release is not: at the release the
  browser no longer reports the modifier.\<close>

theorem control_release_not_sent:
  assumes "rv_open v" and "ke_key down = ''Control''" and "ke_ctrl down" and "\<not> ke_alt_graph down"
    and "ke_key up = ''Control''" and "\<not> ke_ctrl up" and "\<not> ke_meta up"
  shows "rv_sent (snd (onKeyDown down v)) = rv_sent v @ [Text_frame (JObj (key_message ''down'' down))]
    \<and> onKeyUp up w = (False, w)"
  using assms by (simp_all add: onKeyDown_def onKeyUp_def on_key_def classifyKey_def Let_def rbi_send_def CONTROL_KEYS_def)

text \<open>As written, a frame that arrives after an error shows the viewer as connected again, the text of
  the error still there: \<open>onmessage\<close> reads the status of the render its effect ran in.\<close>

lemma frame_hides_error:
  assumes "seen \<noteq> ''connected''" and "read_frame data \<noteq> Empty_frame"
  shows "rv_status (on_rbi_frame seen data v) = ''connected''" and "rv_message (on_rbi_frame seen data v) = rv_message v"
  using assms by (auto simp: on_rbi_frame_def frame_handlers Let_def split: rbi_frame.splits option.splits)

definition alt_gr_at :: key_event where
  "alt_gr_at = \<lparr>ke_key = [CHR 0x40], ke_code = ''Digit0'', ke_key_code = 48, ke_alt = True, ke_ctrl = True,
     ke_meta = False, ke_shift = False, ke_alt_graph = True\<rparr>"

theorem text_keys_not_forwarded_witness:
  "onKeyDown alt_gr_at rbi_sample = (False, rbi_sample) \<and> onKeyUp alt_gr_at rbi_sample = (False, rbi_sample)"
  by (rule text_keys_not_forwarded) (simp_all add: alt_gr_at_def CONTROL_KEYS_def)

end
