(* ===== verification/Fileshare.thy ===== *)
theory Fileshare
  imports AgentLaunch LiveAlerts
begin

section \<open>The drive of a file share (fileshareApi.js, FileShareApp.jsx)\<close>

text \<open>
  The files of a share live in a service of their own, under \<open>/files/\<close>, which knows a session
  cookie obtained from a ticket of the bastion.  The first part is its client; the second the
  page: the renewal of the drive session, the folder shown, the uploads and the shares.  What the
  page waits for is split where it waits, with the values captured before as arguments.
\<close>

subsection \<open>The client of the service\<close>

record fs_call =
  fc_route :: string
  fc_method :: string
  fc_query :: "(string \<times> json) list"
  fc_body :: json
  fc_fallback :: string

definition fs_base :: "json \<Rightarrow> string" where
  "fs_base resourceId = ''/files/api/r/'' @ encodeURIComponent (js_string resourceId)"

text \<open>\<open>url.searchParams.set(key, value)\<close> for each property that is not null or undefined.\<close>

definition fs_params :: "(string \<times> json) list \<Rightarrow> (string \<times> string) list" where
  "fs_params query =
     fold (\<lambda>(k, v) kvs. if nullish v then kvs else params_set k (js_string v) kvs) query []"

definition with_query :: "string \<Rightarrow> (string \<times> string) list \<Rightarrow> string" where
  "with_query url kvs = (if kvs = [] then url else url @ ''?'' @ query_string kvs)"

definition fs_send :: "json \<Rightarrow> fs_call \<Rightarrow> request" where
  "fs_send resourceId a =
     \<lparr>req_method = fc_method a,
      req_url = with_query (fs_base resourceId @ ''/'' @ fc_route a) (fs_params (fc_query a)),
      req_headers = (''X-EF-Files'', ''1'') #
        (if fc_body a = JUndef then [] else [(''Content-Type'', ''application/json'')]),
      req_body = json_body (fc_body a)\<rparr>"

definition fs_call_of :: "string \<Rightarrow> string \<Rightarrow> (string \<times> json) list \<Rightarrow> json \<Rightarrow> string \<Rightarrow> fs_call" where
  "fs_call_of rt meth query body fallback =
     \<lparr>fc_route = rt, fc_method = meth, fc_query = query, fc_body = body, fc_fallback = fallback\<rparr>"

definition openFileshareSession :: "json \<Rightarrow> fs_call" where
  "openFileshareSession ticket =
     fs_call_of ''session'' ''POST'' [] (JObj [(''ticket'', ticket)]) ''Unable to open the drive''"

definition closeFileshareSession :: fs_call where
  "closeFileshareSession = fs_call_of ''session'' ''DELETE'' [] JUndef []"

definition fetchDriveInfo :: fs_call where
  "fetchDriveInfo = fs_call_of ''me'' ''GET'' [] JUndef ''Unable to read the drive''"

definition listFolder :: "json \<Rightarrow> json \<Rightarrow> fs_call" where
  "listFolder base path =
     fs_call_of ''list'' ''GET'' [(''root'', base), (''path'', path)] JUndef ''Unable to list the folder''"

definition makeFolder :: "json \<Rightarrow> json \<Rightarrow> json \<Rightarrow> fs_call" where
  "makeFolder base path name =
     fs_call_of ''mkdir'' ''POST'' [] (JObj [(''root'', base), (''path'', path), (''name'', name)])
       ''Unable to create the folder''"

definition renameItem :: "json \<Rightarrow> json \<Rightarrow> json \<Rightarrow> fs_call" where
  "renameItem base path newName =
     fs_call_of ''rename'' ''POST'' [] (JObj [(''root'', base), (''path'', path), (''newName'', newName)])
       ''Unable to rename''"

definition deleteItem :: "json \<Rightarrow> json \<Rightarrow> fs_call" where
  "deleteItem base path =
     fs_call_of ''delete'' ''POST'' [] (JObj [(''root'', base), (''path'', path)]) ''Unable to delete''"

definition fetchShares :: fs_call where
  "fetchShares = fs_call_of ''shares'' ''GET'' [] JUndef ''Unable to read the shares''"

definition createShare :: "json \<Rightarrow> fs_call" where
  "createShare payload = fs_call_of ''shares'' ''POST'' [] payload ''Unable to share''"

definition revokeShare :: "json \<Rightarrow> fs_call" where
  "revokeShare shareId =
     fs_call_of (''shares/'' @ encodeURIComponent (js_string shareId)) ''DELETE'' [] JUndef
       ''Unable to revoke the share''"

text \<open>The link of a download, as a path of this site.\<close>

definition downloadUrl :: "json \<Rightarrow> string \<Rightarrow> string \<Rightarrow> string" where
  "downloadUrl resourceId base path =
     with_query (fs_base resourceId @ ''/download'')
       (params_set ''path'' path (params_set ''root'' base []))"

definition upload_params :: "string \<Rightarrow> string \<Rightarrow> string \<Rightarrow> bool \<Rightarrow> (string \<times> string) list" where
  "upload_params base dir name overwrite =
     (let kvs = params_set ''name'' name (params_set ''path'' dir (params_set ''root'' base [])) in
      if overwrite then params_set ''overwrite'' ''1'' kvs else kvs)"

definition upload_request :: "json \<Rightarrow> string \<Rightarrow> string \<Rightarrow> string \<Rightarrow> string \<Rightarrow> bool \<Rightarrow> request" where
  "upload_request resourceId base dir name bytes overwrite =
     \<lparr>req_method = ''PUT'',
      req_url = with_query (fs_base resourceId @ ''/upload'') (upload_params base dir name overwrite),
      req_headers = [(''X-EF-Files'', ''1''), (''Content-Type'', ''application/octet-stream'')],
      req_body = BlobBody bytes\<rparr>"

subsection \<open>Its answers\<close>

definition FileshareError :: "string \<Rightarrow> string \<Rightarrow> int \<Rightarrow> js_error" where
  "FileshareError loc message status = ServerError (translateServerMessage message loc) message (Some status)"

text \<open>\<open>text.length\<close> counts UTF-16 units: one per character, two above U+FFFF.\<close>

definition utf16_length :: "string \<Rightarrow> nat" where
  "utf16_length s =
     length (filter (\<lambda>c. \<not> (128 \<le> code c \<and> code c < 192)) s) + length (filter (\<lambda>c. 240 \<le> code c) s)"

text \<open>\<open>JSON.parse(text).error || message\<close>, \<open>None\<close> where it raises.\<close>

definition error_field :: "string \<Rightarrow> string \<Rightarrow> string option" where
  "error_field text message =
     (case json_parse text of
        None \<Rightarrow> None
      | Some v \<Rightarrow> map_option (\<lambda>e. text_or e message) (jread v ''error''))"

definition fs_message :: "string \<Rightarrow> string \<Rightarrow> string" where
  "fs_message text fallback =
     (case error_field text fallback of
        Some m \<Rightarrow> m
      | None \<Rightarrow>
          if text \<noteq> [] \<and> utf16_length text < 300 \<and> \<not> starts_with (trim text) ''<'' then text else fallback)"

definition fs_check :: "string \<Rightarrow> string \<Rightarrow> response \<Rightarrow> js_error + response" where
  "fs_check loc fallback r =
     (if resp_ok r then Inr r else Inl (FileshareError loc (fs_message (resp_body r) fallback) (resp_status r)))"

definition fs_json :: "string \<Rightarrow> fs_call \<Rightarrow> fetched \<Rightarrow> js_error + json" where
  "fs_json loc a f =
     (case f of
        NoAnswer \<Rightarrow> Inl NetworkError
      | Answer r \<Rightarrow> (case fs_check loc (fc_fallback a) r of Inl e \<Rightarrow> Inl e | Inr r' \<Rightarrow> resp_json r'))"

datatype xhr_end = Xhr_load int string | Xhr_error | Xhr_abort

definition upload_result :: "string \<Rightarrow> xhr_end \<Rightarrow> js_error + unit" where
  "upload_result loc x =
     (case x of
        Xhr_load status body \<Rightarrow>
          if status = 201 then Inr ()
          else Inl (FileshareError loc
                 (case error_field body ''Upload failed'' of Some m \<Rightarrow> m | None \<Rightarrow> ''Upload failed'') status)
      | Xhr_error \<Rightarrow> Inl (FileshareError loc ''Upload failed'' 0)
      | Xhr_abort \<Rightarrow> Inl (FileshareError loc ''Upload cancelled'' 0))"

definition error_status :: "js_error \<Rightarrow> int option" where
  "error_status e = (case e of ServerError msg original status \<Rightarrow> status | _ \<Rightarrow> None)"

subsection \<open>The drive and its session\<close>

datatype fs_view = Home | Shared json | Outgoing

record drive =
  dr_phase :: string
  dr_fatal :: string
  dr_rid :: json
  dr_name :: json
  dr_user :: json
  dr_title :: string
  dr_timer :: "int option"
  dr_view :: fs_view
  dr_path :: string
  dr_entries :: json
  dr_writable :: bool
  dr_owner :: json
  dr_list_error :: string
  dr_incoming :: "json list"
  dr_outgoing :: "json list"
  dr_info :: json
  dr_notice :: string

text \<open>
  \<open>renew\<close>: the answer of the bastion (a ticket), then that of the service.  A ticket refused
  because the session is over ends the page; another refusal is an error of the page.
\<close>

definition ticket_refused :: "env \<Rightarrow> js_error \<Rightarrow> drive \<Rightarrow> drive" where
  "ticket_refused env e d =
     (if error_status e \<in> {Some 404, Some 409, Some 401, Some 403} then d\<lparr>dr_phase := ''ended''\<rparr>
      else d\<lparr>dr_fatal := error_message env e, dr_phase := ''error''\<rparr>)"

definition renewal_delay :: "json \<Rightarrow> int" where
  "renewal_delay opened = floor (max 60 (number_or (jget opened ''ttlSeconds'') 600) / 2) * 1000"

definition renew ::
    "env \<Rightarrow> (js_error + json) \<Rightarrow> (js_error + json) \<Rightarrow> drive \<Rightarrow> (js_error + json) \<times> drive" where
  "renew env ticket_reply opened_reply d =
     (let a = d\<lparr>dr_timer := None\<rparr> in
      case ticket_reply of
        Inl e \<Rightarrow> (Inl e, ticket_refused env e a)
      | Inr ticket \<Rightarrow>
          if nullish ticket then (Inl TypeError, a)
          else (case opened_reply of
             Inl e \<Rightarrow> (Inl e, a)
           | Inr opened \<Rightarrow>
               (let b = a\<lparr>dr_rid := jget ticket ''resourceId'', dr_name := jget ticket ''resourceName'',
                          dr_user := jget ticket ''user'',
                          dr_title := js_string (jget ticket ''resourceName'') @ utf8 32 @ utf8 8212 @ utf8 32 @ ''EndoriumFort''\<rparr> in
                if nullish opened then (Inl TypeError, b)
                else (Inr (jget ticket ''resourceId''), b\<lparr>dr_timer := Some (env_now env + renewal_delay opened)\<rparr>))))"

definition drive_mounted :: "env \<Rightarrow> (js_error + json) \<Rightarrow> drive \<Rightarrow> drive" where
  "drive_mounted env renewed d =
     (case renewed of
        Inr rid \<Rightarrow> d\<lparr>dr_phase := ''ready''\<rparr>
      | Inl e \<Rightarrow>
          d\<lparr>dr_fatal := str_or (dr_fatal d) (error_message env e),
            dr_phase := (if dr_phase d = ''loading'' then ''error'' else dr_phase d)\<rparr>)"

text \<open>A call that finds the drive session gone renews it once, then is made again.\<close>

definition drive_call ::
    "('s \<Rightarrow> (js_error + 'a) \<times> 's) \<Rightarrow> ('s \<Rightarrow> (js_error + json) \<times> 's) \<Rightarrow> 's \<Rightarrow> (js_error + 'a) \<times> 's" where
  "drive_call fn renewal s =
     (case fn s of
        (Inr x, s1) \<Rightarrow> (Inr x, s1)
      | (Inl e, s1) \<Rightarrow>
          if error_status e \<noteq> Some 401 then (Inl e, s1)
          else (case renewal s1 of
                  (Inl e', s2) \<Rightarrow> (Inl e', s2)
                | (Inr _, s2) \<Rightarrow> fn s2))"

definition closeDrive :: "drive \<Rightarrow> drive" where
  "closeDrive d = d\<lparr>dr_timer := None, dr_phase := ''ended''\<rparr>"

subsection \<open>The folder shown\<close>

definition joinPath :: "string \<Rightarrow> string \<Rightarrow> string" where
  "joinPath dir name = (if dir = ''/'' then ''/'' @ name else dir @ ''/'' @ name)"

definition drive_root :: "fs_view \<Rightarrow> string" where
  "drive_root v = (case v of Shared share \<Rightarrow> ''share:'' @ js_string (jget share ''id'') | _ \<Rightarrow> ''home'')"

definition openView :: "fs_view \<Rightarrow> drive \<Rightarrow> drive" where
  "openView v d = d\<lparr>dr_view := v, dr_path := ''/'', dr_notice := []\<rparr>"

definition setPath :: "string \<Rightarrow> drive \<Rightarrow> drive" where
  "setPath path d = d\<lparr>dr_path := path\<rparr>"

definition path_parts :: "string \<Rightarrow> string list" where
  "path_parts path = filter (\<lambda>w. w \<noteq> []) (split_on (CHR ''/'') path)"

definition crumbs :: "string \<Rightarrow> (string \<times> string) list" where
  "crumbs path =
     (let parts = path_parts path in
      map (\<lambda>i. (parts ! i, ''/'' @ join ''/'' (take (i + 1) parts))) [0 ..< length parts])"

text \<open>\<open>refresh\<close>: what it asks for, and what it does with the answer.\<close>

definition refresh_request :: "drive \<Rightarrow> fs_call option" where
  "refresh_request d =
     (if \<not> truthy (dr_rid d) \<or> dr_view d = Outgoing then None
      else Some (listFolder (JStr (drive_root (dr_view d))) (JStr (dr_path d))))"

definition no_listing :: "env \<Rightarrow> js_error \<Rightarrow> drive \<Rightarrow> drive" where
  "no_listing env e d =
     d\<lparr>dr_entries := JArr [], dr_writable := False, dr_owner := JStr [], dr_list_error := error_message env e\<rparr>"

definition on_listing :: "env \<Rightarrow> (js_error + json) \<Rightarrow> drive \<Rightarrow> drive" where
  "on_listing env reply d =
     (case reply of
        Inl e \<Rightarrow> no_listing env e d
      | Inr data \<Rightarrow>
          if nullish data then no_listing env TypeError d
          else d\<lparr>dr_entries := jor (jget data ''entries'') (JArr []), dr_writable := truthy (jget data ''writable''),
                 dr_owner := jor (jget data ''owner'') (JStr []), dr_list_error := []\<rparr>)"

definition item_path :: "drive \<Rightarrow> json \<Rightarrow> string" where
  "item_path d entry = joinPath (dr_path d) (js_string (jget entry ''name''))"

definition can_write :: "drive \<Rightarrow> bool" where
  "can_write d = (dr_writable d \<and> dr_view d \<noteq> Outgoing)"

definition delete_request :: "drive \<Rightarrow> json \<Rightarrow> fs_call" where
  "delete_request d entry = deleteItem (JStr (drive_root (dr_view d))) (JStr (item_path d entry))"

definition shared_with :: "drive \<Rightarrow> json \<Rightarrow> json list" where
  "shared_with d entry =
     (if dr_view d = Home then filter (\<lambda>s. jget s ''path'' = JStr (item_path d entry)) (dr_outgoing d) else [])"

definition quotaPct :: "json \<Rightarrow> int option" where
  "quotaPct info =
     (case (js_number (jget info ''quotaBytes''), js_number (jget info ''usedBytes'')) of
        (Some quota, Some used) \<Rightarrow>
          if truthy (jget info ''quotaBytes'') \<and> quota \<noteq> 0 then Some (min 100 (js_round (used / quota * 100))) else Some 0
      | _ \<Rightarrow> if truthy (jget info ''quotaBytes'') then None else Some 0)"

text \<open>\<open>fmt\<close> is \<open>toLocaleString\<close> with at most that many fraction digits.\<close>

fun in_units :: "(rat \<Rightarrow> nat \<Rightarrow> string) \<Rightarrow> string list \<Rightarrow> rat \<Rightarrow> string" where
  "in_units fmt [] n = []"
| "in_units fmt [u] n = fmt n (if n < 10 then 1 else 0) @ '' '' @ u"
| "in_units fmt (u # u' # us) n =
     (if 1024 \<le> n then in_units fmt (u' # us) (n / 1024) else fmt n (if n < 10 then 1 else 0) @ '' '' @ u)"

definition formatBytes :: "(rat \<Rightarrow> nat \<Rightarrow> string) \<Rightarrow> json \<Rightarrow> string \<Rightarrow> string" where
  "formatBytes fmt bytes locale =
     (let value = number_or bytes 0 in
      if value < 1024 then show_rat value @ '' '' @ (if locale = ''fr'' then ''o'' else ''B'')
      else in_units fmt (if locale = ''fr'' then [''Ko'', ''Mo'', ''Go'', ''To''] else [''KB'', ''MB'', ''GB'', ''TB''])
             (value / 1024))"

subsection \<open>Sharing\<close>

definition folder_name :: "string \<Rightarrow> string option" where
  "folder_name input = (let value = trim input in if value = [] then None else Some value)"

record share_dialog =
  sh_people :: "json list"
  sh_grantee :: string
  sh_mode :: string
  sh_days :: json
  sh_busy :: bool
  sh_error :: string

definition on_directory :: "env \<Rightarrow> (js_error + json) \<Rightarrow> share_dialog \<Rightarrow> share_dialog" where
  "on_directory env reply s =
     (case reply of
        Inl e \<Rightarrow> s\<lparr>sh_error := error_message env e\<rparr>
      | Inr data \<Rightarrow>
          if nullish data then s\<lparr>sh_error := error_message env TypeError\<rparr>
          else (case jor (jget data ''items'') (JArr []) of
                  JArr items \<Rightarrow>
                    if list_ex nullish items then s\<lparr>sh_error := error_message env TypeError\<rparr>
                    else s\<lparr>sh_people := map (\<lambda>item. jget item ''username'') items\<rparr>
                | _ \<Rightarrow> s\<lparr>sh_error := error_message env TypeError\<rparr>))"

definition known :: "share_dialog \<Rightarrow> bool" where
  "known s = (JStr (trim (sh_grantee s)) \<in> set (sh_people s))"

definition submit_share :: "env \<Rightarrow> json \<Rightarrow> string \<Rightarrow> share_dialog \<Rightarrow> json option \<times> share_dialog" where
  "submit_share env entry path s =
     (if \<not> known s then (None, s\<lparr>sh_error := tx env ''files.unknownPerson''\<rparr>)
      else (Some (JObj [(''path'', JStr path), (''grantee'', JStr (trim (sh_grantee s))),
                        (''mode'', JStr (if truthy (jget entry ''dir'') then sh_mode s else ''ro'')),
                        (''expiresInDays'', JNum (number_or (sh_days s) 0))]),
            s\<lparr>sh_busy := True, sh_error := []\<rparr>))"

definition on_shared :: "env \<Rightarrow> (js_error + json) \<Rightarrow> share_dialog \<Rightarrow> share_dialog" where
  "on_shared env reply s =
     (case reply of
        Inl e \<Rightarrow> s\<lparr>sh_error := error_message env e, sh_busy := False\<rparr>
      | Inr v \<Rightarrow> s\<lparr>sh_grantee := [], sh_busy := False\<rparr>)"

subsection \<open>Uploads\<close>

text \<open>
  The list of the page, and the transfer each file is in: being sent (with the overwrite flag), or
  waiting for the drive session to be renewed after the error that asked for it.
\<close>

datatype fs_transfer = Sending bool | Renewing bool js_error

record upload_entry =
  ue_id :: string
  ue_name :: string
  ue_progress :: rat
  ue_status :: string
  ue_error :: string

record uploads =
  us_list :: "upload_entry list"
  us_jobs :: "string \<Rightarrow> fs_transfer option"

definition without_upload :: "string \<Rightarrow> upload_entry list \<Rightarrow> upload_entry list" where
  "without_upload i us = filter (\<lambda>u. ue_id u \<noteq> i) us"

definition on_entry :: "string \<Rightarrow> (upload_entry \<Rightarrow> upload_entry) \<Rightarrow> upload_entry list \<Rightarrow> upload_entry list" where
  "on_entry i f us = map (\<lambda>u. if ue_id u = i then f u else u) us"

definition run_upload :: "bool \<Rightarrow> string \<Rightarrow> string \<Rightarrow> uploads \<Rightarrow> uploads" where
  "run_upload overwrite i name s =
     s\<lparr>us_list := without_upload i (us_list s) @
         [\<lparr>ue_id = i, ue_name = name, ue_progress = 0, ue_status = ''running'', ue_error = []\<rparr>],
       us_jobs := (us_jobs s)(i := Some (Sending overwrite))\<rparr>"

definition upload_progress :: "string \<Rightarrow> rat \<Rightarrow> uploads \<Rightarrow> uploads" where
  "upload_progress i p s = s\<lparr>us_list := on_entry i (\<lambda>u. u\<lparr>ue_progress := p\<rparr>) (us_list s)\<rparr>"

definition upload_done :: "string \<Rightarrow> uploads \<Rightarrow> uploads" where
  "upload_done i s = s\<lparr>us_list := without_upload i (us_list s), us_jobs := (us_jobs s)(i := None)\<rparr>"

text \<open>After a refusal, and after the renewal it led to failed.\<close>

definition upload_refused :: "env \<Rightarrow> bool \<Rightarrow> string \<Rightarrow> js_error \<Rightarrow> uploads \<Rightarrow> uploads" where
  "upload_refused env overwrite i e s =
     s\<lparr>us_jobs := (us_jobs s)(i := None),
       us_list := on_entry i
         (if error_status e = Some 409 \<and> \<not> overwrite then (\<lambda>u. u\<lparr>ue_status := ''conflict''\<rparr>)
          else (\<lambda>u. u\<lparr>ue_status := ''error'', ue_error := error_message env e\<rparr>)) (us_list s)\<rparr>"

definition upload_failed :: "env \<Rightarrow> bool \<Rightarrow> string \<Rightarrow> js_error \<Rightarrow> uploads \<Rightarrow> uploads" where
  "upload_failed env overwrite i e s =
     (if error_status e = Some 401 then s\<lparr>us_jobs := (us_jobs s)(i := Some (Renewing overwrite e))\<rparr>
      else upload_refused env overwrite i e s)"

definition upload_renewed ::
    "env \<Rightarrow> bool \<Rightarrow> string \<Rightarrow> string \<Rightarrow> js_error \<Rightarrow> (js_error + json) \<Rightarrow> uploads \<Rightarrow> uploads" where
  "upload_renewed env overwrite i name e renewal s =
     (case renewal of
        Inr rid \<Rightarrow> run_upload overwrite i name s
      | Inl e' \<Rightarrow> upload_refused env overwrite i e s)"

definition dismiss_upload :: "string \<Rightarrow> uploads \<Rightarrow> uploads" where
  "dismiss_upload i s = s\<lparr>us_list := without_upload i (us_list s)\<rparr>"

fun startUploads :: "drive \<Rightarrow> (string \<times> string) list \<Rightarrow> uploads \<Rightarrow> uploads" where
  "startUploads d [] s = s"
| "startUploads d ((i, name) # files) s =
     (if \<not> can_write d then s else startUploads d files (run_upload False i name s))"

text \<open>The events of the uploads.  An identifier is a time and a random number, never given twice; the
  buttons of an entry are there only in the states that show them.\<close>

inductive upload_step :: "uploads \<Rightarrow> uploads \<Rightarrow> bool" where
  started: "set (map fst files) \<inter> ue_id ` set (us_list s) = {} \<Longrightarrow> \<forall>i \<in> set (map fst files). us_jobs s i = None \<Longrightarrow>
    upload_step s (startUploads d files s)"
| progressed: "us_jobs s i = Some (Sending overwrite) \<Longrightarrow> upload_step s (upload_progress i p s)"
| stored: "us_jobs s i = Some (Sending overwrite) \<Longrightarrow> upload_step s (upload_done i s)"
| failed: "us_jobs s i = Some (Sending overwrite) \<Longrightarrow> upload_step s (upload_failed env overwrite i e s)"
| renewed: "us_jobs s i = Some (Renewing overwrite e) \<Longrightarrow> upload_step s (upload_renewed env overwrite i name e renewal s)"
| replaced: "u \<in> set (us_list s) \<Longrightarrow> ue_status u = ''conflict'' \<Longrightarrow> upload_step s (run_upload True (ue_id u) (ue_name u) s)"
| dismissed: "u \<in> set (us_list s) \<Longrightarrow> ue_status u \<noteq> ''running'' \<Longrightarrow> upload_step s (dismiss_upload (ue_id u) s)"

definition no_uploads :: uploads where
  "no_uploads = \<lparr>us_list = [], us_jobs = Map.empty\<rparr>"

inductive uploads_reachable :: "uploads \<Rightarrow> bool" where
  none: "uploads_reachable no_uploads"
| step: "uploads_reachable s \<Longrightarrow> upload_step s s' \<Longrightarrow> uploads_reachable s'"

text \<open>One entry per file, and the ones shown as running are those being transferred.\<close>

definition uploads_ok :: "uploads \<Rightarrow> bool" where
  "uploads_ok s =
     (distinct (map ue_id (us_list s)) \<and>
      (\<forall>u \<in> set (us_list s). ue_status u = ''running'' \<longleftrightarrow> us_jobs s (ue_id u) \<noteq> None) \<and>
      (\<forall>i. us_jobs s i \<noteq> None \<longrightarrow> i \<in> ue_id ` set (us_list s)))"

lemma ids_on_entry: "(\<And>u. ue_id (f u) = ue_id u) \<Longrightarrow> map ue_id (on_entry i f us) = map ue_id us"
  by (induction us) (auto simp: on_entry_def)

lemma ids_set_on_entry: "(\<And>u. ue_id (f u) = ue_id u) \<Longrightarrow> ue_id ` set (on_entry i f us) = ue_id ` set us"
  by (metis ids_on_entry list.set_map)

lemma in_on_entry: "u \<in> set (on_entry i f us) \<Longrightarrow> \<exists>v \<in> set us. u = (if ue_id v = i then f v else v)"
  by (auto simp: on_entry_def)

lemma ids_without [simp]: "ue_id ` set (without_upload i us) = ue_id ` set us - {i}"
  by (auto simp: without_upload_def)

lemma distinct_without: "distinct (map ue_id us) \<Longrightarrow> distinct (map ue_id (without_upload i us))"
  by (simp add: without_upload_def distinct_map_filter)

lemma run_upload_ok: "uploads_ok s \<Longrightarrow> uploads_ok (run_upload overwrite i name s)"
  by (auto simp: uploads_ok_def run_upload_def distinct_without) (auto simp: without_upload_def)

lemma startUploads_ok: "uploads_ok s \<Longrightarrow> uploads_ok (startUploads d files s)"
  by (induction d files s rule: startUploads.induct) (auto simp: run_upload_ok)

text \<open>An update of one entry that follows its transfer keeps the invariant.\<close>

lemma on_entry_ok:
  assumes "uploads_ok s" and keeps: "\<And>u. ue_id (f u) = ue_id u"
    and "\<And>j. j \<noteq> i \<Longrightarrow> jobs j = us_jobs s j" and "jobs i \<noteq> None \<Longrightarrow> us_jobs s i \<noteq> None"
    and state: "\<And>u. u \<in> set (us_list s) \<Longrightarrow> ue_id u = i \<Longrightarrow> ue_status (f u) = ''running'' \<longleftrightarrow> jobs i \<noteq> None"
  shows "uploads_ok \<lparr>us_list = on_entry i f (us_list s), us_jobs = jobs\<rparr>"
proof -
  have "distinct (map ue_id (on_entry i f (us_list s)))"
    using assms(1) by (simp add: ids_on_entry [OF keeps] uploads_ok_def)
  moreover have "ue_status u = ''running'' \<longleftrightarrow> jobs (ue_id u) \<noteq> None" if u: "u \<in> set (on_entry i f (us_list s))" for u
  proof -
    obtain v where v: "v \<in> set (us_list s)" "u = (if ue_id v = i then f v else v)"
      using in_on_entry [OF u] by blast
    then show ?thesis
      using assms(1,3) state [of v] keeps [of v] by (cases "ue_id v = i") (auto simp: uploads_ok_def)
  qed
  moreover have "j \<in> ue_id ` set (on_entry i f (us_list s))" if "jobs j \<noteq> None" for j
    unfolding ids_set_on_entry [of f, OF keeps]
    using assms(1,3,4) that by (cases "j = i") (auto simp: uploads_ok_def)
  ultimately show ?thesis by (simp add: uploads_ok_def)
qed

lemma upload_progress_ok: "uploads_ok s \<Longrightarrow> uploads_ok (upload_progress i p s)"
  using on_entry_ok [of s "\<lambda>u. u\<lparr>ue_progress := p\<rparr>" i "us_jobs s"]
  by (auto simp: upload_progress_def uploads_ok_def)

lemma upload_done_ok: "uploads_ok s \<Longrightarrow> uploads_ok (upload_done i s)"
  by (auto simp: uploads_ok_def upload_done_def distinct_without) (auto simp: without_upload_def)

lemma upload_refused_ok: "uploads_ok s \<Longrightarrow> uploads_ok (upload_refused env overwrite i e s)"
  using on_entry_ok [of s "\<lambda>u. u\<lparr>ue_status := ''conflict''\<rparr>" i "(us_jobs s)(i := None)"]
    on_entry_ok [of s "\<lambda>u. u\<lparr>ue_status := ''error'', ue_error := error_message env e\<rparr>" i "(us_jobs s)(i := None)"]
  by (cases s) (simp add: upload_refused_def)

lemma upload_step_ok: "upload_step s s' \<Longrightarrow> uploads_ok s \<Longrightarrow> uploads_ok s'"
proof (induction rule: upload_step.induct)
  case (failed s i overwrite env e)
  then show ?case
    by (auto simp: upload_failed_def upload_refused_ok) (auto simp: uploads_ok_def)
next
  case (renewed s i overwrite e env name renewal)
  then show ?case by (cases renewal) (auto simp: upload_renewed_def upload_refused_ok run_upload_ok)
next
  case (dismissed u s)
  then have "us_jobs s (ue_id u) = None" by (auto simp: uploads_ok_def)
  with dismissed show ?case
    by (auto simp: uploads_ok_def dismiss_upload_def distinct_without) (auto simp: without_upload_def)
qed (auto simp: startUploads_ok upload_progress_ok upload_done_ok run_upload_ok)

text \<open>C16: whatever the order of answers, renewals and clicks, each upload is listed once, and it is shown
  as running exactly while its file is being sent or its drive session renewed.\<close>

theorem running_uploads_are_transferred:
  "uploads_reachable s \<Longrightarrow> uploads_ok s"
proof (induction rule: uploads_reachable.induct)
  case none
  show ?case by (simp add: uploads_ok_def no_uploads_def)
qed (rule upload_step_ok)

theorem running_uploads_are_transferred_witness:
  "uploads_ok (run_upload False ''1-0.5'' ''a.txt'' no_uploads)"
proof -
  let ?d = "\<lparr>dr_phase = ''ready'', dr_fatal = [], dr_rid = JInt 3, dr_name = JNull, dr_user = JNull, dr_title = [],
     dr_timer = None, dr_view = Home, dr_path = ''/'', dr_entries = JArr [], dr_writable = True, dr_owner = JStr [],
     dr_list_error = [], dr_incoming = [], dr_outgoing = [], dr_info = JNull, dr_notice = []\<rparr>"
  have "upload_step no_uploads (startUploads ?d [(''1-0.5'', ''a.txt'')] no_uploads)"
    by (rule upload_step.started) (simp_all add: no_uploads_def)
  moreover have "startUploads ?d [(''1-0.5'', ''a.txt'')] no_uploads = run_upload False ''1-0.5'' ''a.txt'' no_uploads"
    by (simp add: can_write_def)
  ultimately have "uploads_reachable (run_upload False ''1-0.5'' ''a.txt'' no_uploads)"
    using uploads_reachable.step [OF uploads_reachable.none] by simp
  then show ?thesis by (rule running_uploads_are_transferred)
qed

subsection \<open>What reaches the service\<close>

inductive fs_endpoint :: "fs_call \<Rightarrow> bool" where
  "fs_endpoint (openFileshareSession ticket)"
| "fs_endpoint closeFileshareSession"
| "fs_endpoint fetchDriveInfo"
| "fs_endpoint (listFolder place path)"
| "fs_endpoint (makeFolder place path name)"
| "fs_endpoint (renameItem place path newName)"
| "fs_endpoint (deleteItem place path)"
| "fs_endpoint fetchShares"
| "fs_endpoint (createShare payload)"
| "fs_endpoint (revokeShare shareId)"

lemmas fs_calls =
  openFileshareSession_def closeFileshareSession_def fetchDriveInfo_def listFolder_def makeFolder_def renameItem_def
  deleteItem_def fetchShares_def createShare_def revokeShare_def fs_call_of_def

text \<open>The URL is below the prefix of the resource, whose identifier is one segment.\<close>

definition below_resource :: "json \<Rightarrow> string \<Rightarrow> bool" where
  "below_resource rid url =
     (\<exists>seg rest. url = ''/files/api/r/'' @ seg @ ''/'' @ rest \<and> seg = encodeURIComponent (js_string rid) \<and>
        set seg \<inter> set ''/?#&= '' = {})"

lemma segment_clean: "set (encodeURIComponent s) \<inter> set ''/?#&= '' = {}"
  using encodeURIComponent_no_separator [of _ s] by blast

lemma below_resourceI: "below_resource rid (with_query (fs_base rid @ ''/'' @ rest) kvs)"
  using segment_clean [of "js_string rid"]
  by (auto simp: below_resource_def fs_base_def with_query_def)

text \<open>Every request to the file service stays below the path its cookie is scoped to, whatever the
  identifier, and carries the header no form of another site can send; a request that changes something
  is never a GET.\<close>

theorem fs_request_scope:
  assumes "fs_endpoint a"
  shows "below_resource rid (req_url (fs_send rid a)) \<and>
     (''X-EF-Files'', ''1'') \<in> set (req_headers (fs_send rid a)) \<and>
     (req_body (fs_send rid a) \<noteq> NoBody \<longrightarrow> req_method (fs_send rid a) = ''POST'')"
  using assms below_resourceI [of rid]
  by (cases rule: fs_endpoint.cases) (simp_all add: fs_send_def fs_calls json_body_def)

theorem fs_request_scope_witness:
  "below_resource (JStr ''../9'') (req_url (fs_send (JStr ''../9'') (deleteItem (JStr ''home'') (JStr ''/a''))))
   \<and> (''X-EF-Files'', ''1'') \<in> set (req_headers (fs_send (JStr ''../9'') (deleteItem (JStr ''home'') (JStr ''/a''))))"
  using fs_request_scope [of "deleteItem (JStr ''home'') (JStr ''/a'')" "JStr ''../9''"] by (simp add: fs_endpoint.intros)

lemma upload_params_list:
  "upload_params place dir name overwrite =
     [(''root'', place), (''path'', dir), (''name'', name)] @ (if overwrite then [(''overwrite'', ''1'')] else [])"
  by (simp add: upload_params_def Let_def)

text \<open>The service reads back from the URL of an upload exactly the drive, the folder and the name of
  the file, whatever characters they hold, and the overwrite flag only when it was given.\<close>

theorem upload_url_read_back:
  "read_query (drop (length (fs_base rid @ ''/upload?'')) (req_url (upload_request rid place dir name bytes overwrite)))
     = [(''root'', place), (''path'', dir), (''name'', name)] @ (if overwrite then [(''overwrite'', ''1'')] else [])"
proof -
  let ?kvs = "[(''root'', place), (''path'', dir), (''name'', name)] @ (if overwrite then [(''overwrite'', ''1'')] else [])"
  have "req_url (upload_request rid place dir name bytes overwrite) = (fs_base rid @ ''/upload?'') @ query_string ?kvs"
    by (simp add: upload_request_def with_query_def upload_params_list)
  then show ?thesis
    by (simp only: append_eq_conv_conj [THEN iffD1, OF refl, THEN conjunct2] append_eq_conv_conj) (simp add: read_query_string)
qed

subsection \<open>Folders\<close>

definition clean_name :: "string \<Rightarrow> bool" where
  "clean_name w = (w \<noteq> [] \<and> CHR ''/'' \<notin> set w)"

definition path_of :: "string list \<Rightarrow> string" where
  "path_of ws = ''/'' @ join ''/'' ws"

lemma join_snoc: "ws \<noteq> [] \<Longrightarrow> join sep (ws @ [w]) = join sep ws @ sep @ w"
  by (induction sep ws rule: join.induct) auto

lemma path_parts_of:
  assumes "list_all clean_name ws"
  shows "path_parts (path_of ws) = ws"
proof (cases ws)
  case Nil
  then show ?thesis by (simp add: path_parts_def path_of_def)
next
  case Cons
  have "split_on (CHR ''/'') (join ''/'' ws) = ws"
    using assms Cons by (intro split_on_join) (auto simp: list_all_iff clean_name_def)
  moreover have "filter (\<lambda>w. w \<noteq> []) ws = ws"
    using assms by (induction ws) (auto simp: clean_name_def)
  ultimately show ?thesis by (simp add: path_parts_def path_of_def)
qed

lemma crumbs_of:
  "list_all clean_name ws \<Longrightarrow> crumbs (path_of ws) = map (\<lambda>i. (ws ! i, path_of (take (i + 1) ws))) [0 ..< length ws]"
  unfolding crumbs_def by (simp only: path_parts_of Let_def) (simp add: path_of_def)

lemma path_of_Nil_iff: "list_all clean_name ws \<Longrightarrow> path_of ws = ''/'' \<longleftrightarrow> ws = []"
  using path_parts_of [of ws] path_parts_of [of "[]"] by (auto simp: path_of_def)

lemma joinPath_of: "list_all clean_name ws \<Longrightarrow> joinPath (path_of ws) name = path_of (ws @ [name])"
  unfolding joinPath_def by (simp only: path_of_Nil_iff) (auto simp: path_of_def join_snoc)

text \<open>Opening a folder adds one crumb, with its name and its path, and keeps the others; each crumb
  leads back to the folder it names.\<close>

theorem crumbs_follow_the_path:
  assumes "list_all clean_name ws" and "clean_name name"
  shows "crumbs (joinPath (path_of ws) name) = crumbs (path_of ws) @ [(name, joinPath (path_of ws) name)] \<and>
     (\<forall>i < length ws. fst (crumbs (path_of ws) ! i) = ws ! i \<and>
        path_parts (snd (crumbs (path_of ws) ! i)) = take (i + 1) ws)"
proof -
  have "list_all clean_name (ws @ [name])" using assms by simp
  moreover have "list_all clean_name (take k ws)" for k
    using assms(1) by (auto simp: list_all_iff dest: in_set_takeD)
  ultimately show ?thesis
    using assms(1) by (simp add: joinPath_of crumbs_of path_parts_of nth_append)
qed

theorem crumbs_follow_the_path_witness:
  "crumbs (joinPath (path_of [''a'']) ''b'') = crumbs (path_of [''a'']) @ [(''b'', joinPath (path_of [''a'']) ''b'')] \<and>
     (\<forall>i < length [''a'']. fst (crumbs (path_of [''a'']) ! i) = [''a''] ! i \<and>
        path_parts (snd (crumbs (path_of [''a'']) ! i)) = take (i + 1) [''a''])"
  by (rule crumbs_follow_the_path) (simp_all add: clean_name_def)

text \<open>As written, an answer is shown under the folder opened since: its entries then act on that folder.\<close>

lemma late_listing_acts_elsewhere:
  assumes "\<not> nullish data"
  shows "dr_entries (on_listing env (Inr data) (setPath p d)) = jor (jget data ''entries'') (JArr [])"
    and "delete_request (on_listing env (Inr data) (setPath p d)) entry =
      deleteItem (JStr (drive_root (dr_view d))) (JStr (joinPath p (js_string (jget entry ''name''))))"
  using assms by (simp_all add: on_listing_def setPath_def delete_request_def item_path_def)

subsection \<open>Shares and the drive session\<close>

text \<open>A share is asked for only for a person of the directory, and a file is never shared for writing.\<close>

theorem shares_are_for_known_people:
  assumes "submit_share env entry path s = (Some payload, s')"
  shows "jget payload ''grantee'' \<in> set (sh_people s) \<and> jget payload ''path'' = JStr path \<and>
     (\<not> truthy (jget entry ''dir'') \<longrightarrow> jget payload ''mode'' = JStr ''ro'')"
  using assms by (auto simp: submit_share_def known_def split: if_splits)

theorem shares_are_for_known_people_witness:
  "let s = \<lparr>sh_people = [JStr ''ann''], sh_grantee = '' ann '', sh_mode = ''rw'', sh_days = JInt 0, sh_busy = False, sh_error = []\<rparr>;
       payload = the (fst (submit_share sample_env (JObj []) ''/a'' s))
   in jget payload ''grantee'' \<in> set (sh_people s) \<and> jget payload ''path'' = JStr ''/a'' \<and>
     (\<not> truthy (jget (JObj []) ''dir'') \<longrightarrow> jget payload ''mode'' = JStr ''ro'')"
proof -
  let ?s = "\<lparr>sh_people = [JStr ''ann''], sh_grantee = '' ann '', sh_mode = ''rw'', sh_days = JInt 0, sh_busy = False, sh_error = []\<rparr>"
  have "trim '' ann '' = ''ann''" by code_simp
  then have "known ?s" by (simp add: known_def)
  then obtain payload s' where sub: "submit_share sample_env (JObj []) ''/a'' ?s = (Some payload, s')"
    by (simp add: submit_share_def)
  then show ?thesis
    using shares_are_for_known_people [OF sub] by (simp add: Let_def)
qed

text \<open>A call is made at most twice and the session renewed at most once, the second time only after a
  renewal that succeeded: the state counts both.\<close>

definition counted_call :: "('s \<Rightarrow> (js_error + 'a) \<times> 's) \<Rightarrow> nat \<times> nat \<times> 's \<Rightarrow> (js_error + 'a) \<times> nat \<times> nat \<times> 's" where
  "counted_call fn = (\<lambda>(n, m, s). let (x, s') = fn s in (x, n + 1, m, s'))"

definition counted_renewal :: "('s \<Rightarrow> (js_error + json) \<times> 's) \<Rightarrow> nat \<times> nat \<times> 's \<Rightarrow> (js_error + json) \<times> nat \<times> nat \<times> 's" where
  "counted_renewal fn = (\<lambda>(n, m, s). let (x, s') = fn s in (x, n, m + 1, s'))"

lemma drive_call_once_more:
  assumes "drive_call (counted_call fn) (counted_renewal rn) (0, 0, s) = (x, n, m, s')"
  shows "n = 1 \<and> m = 0 \<or> n = 1 \<and> m = 1 \<and> (\<exists>e. x = Inl e) \<or> n = 2 \<and> m = 1"
  using assms
  by (auto simp: drive_call_def counted_call_def counted_renewal_def split: prod.splits sum.splits if_splits)

lemma floor_half_minute: "(60 :: rat) \<le> t \<Longrightarrow> 30 \<le> floor (t / 2)"
  by (simp add: le_floor_iff)

text \<open>The drive session is renewed after at least thirty seconds and by the middle of its life.\<close>

theorem renewal_in_time:
  assumes "number_or (jget opened ''ttlSeconds'') 600 = ttl" and "60 \<le> ttl"
  shows "30000 \<le> renewal_delay opened \<and> of_int (renewal_delay opened) \<le> ttl * 1000 / 2"
proof -
  have "renewal_delay opened = floor (ttl / 2) * 1000"
    using assms by (simp add: renewal_delay_def max_def)
  moreover have "30 \<le> floor (ttl / 2)" using assms(2) by (rule floor_half_minute)
  moreover have "of_int (floor (ttl / 2)) \<le> ttl / 2" by (rule of_int_floor_le)
  ultimately show ?thesis by simp
qed

theorem renewal_in_time_witness:
  "30000 \<le> renewal_delay (JObj [(''ttlSeconds'', JInt 900)]) \<and>
     of_int (renewal_delay (JObj [(''ttlSeconds'', JInt 900)])) \<le> (900 :: rat) * 1000 / 2"
  by (rule renewal_in_time) (simp_all add: number_or_def)

subsection \<open>The end of an upload and the folder shown\<close>

text \<open>When an upload ends the folder is read again with the \<open>refresh\<close> of the render it was started in:
  \<open>captured\<close> is the drive at that time, \<open>answer\<close> what the service replies to a call.\<close>

definition upload_refresh :: "env \<Rightarrow> (fs_call \<Rightarrow> js_error + json) \<Rightarrow> drive \<Rightarrow> drive \<Rightarrow> drive" where
  "upload_refresh env answer captured d =
     (case refresh_request captured of
        None \<Rightarrow> d
      | Some a \<Rightarrow> on_listing env (answer a) d)"

text \<open>As written, an upload that ends after another folder was opened puts the entries of the folder it
  was sent to under the path of the open one, and the buttons of an entry then act on the open folder: what
  is deleted is not what is shown.\<close>

theorem ended_upload_shows_other_folder:
  assumes "truthy (dr_rid d)" and "dr_view d \<noteq> Outgoing"
    and "answer (listFolder (JStr (drive_root (dr_view d))) (JStr (dr_path d))) = Inr (JObj [(''entries'', JArr es)])"
    and "e \<in> set es" and "p \<noteq> dr_path d"
  shows "dr_entries (upload_refresh env answer d (setPath p d)) = JArr es \<and>
     delete_request (upload_refresh env answer d (setPath p d)) e =
       deleteItem (JStr (drive_root (dr_view d))) (JStr (joinPath p (js_string (jget e ''name''))))"
  using assms by (simp add: upload_refresh_def refresh_request_def on_listing_def nullish_def setPath_def
      delete_request_def item_path_def)

definition sample_drive :: drive where
  "sample_drive = \<lparr>dr_phase = ''ready'', dr_fatal = [], dr_rid = JInt 3, dr_name = JStr ''team'', dr_user = JStr ''ann'',
     dr_title = [], dr_timer = None, dr_view = Home, dr_path = ''/old'', dr_entries = JArr [], dr_writable = True,
     dr_owner = JStr [], dr_list_error = [], dr_incoming = [], dr_outgoing = [], dr_info = JNull, dr_notice = []\<rparr>"

theorem ended_upload_shows_other_folder_witness:
  "let answer = (\<lambda>a. Inr (JObj [(''entries'', JArr [JObj [(''name'', JStr ''a.txt'')]])]));
       d = upload_refresh sample_env answer sample_drive (setPath ''/new'' sample_drive)
   in dr_entries d = JArr [JObj [(''name'', JStr ''a.txt'')]] \<and>
      delete_request d (JObj [(''name'', JStr ''a.txt'')]) = deleteItem (JStr ''home'') (JStr ''/new/a.txt'')"
  using ended_upload_shows_other_folder [of sample_drive
      "\<lambda>a. Inr (JObj [(''entries'', JArr [JObj [(''name'', JStr ''a.txt'')]])])" "[JObj [(''name'', JStr ''a.txt'')]]"
      "JObj [(''name'', JStr ''a.txt'')]" "''/new''" sample_env]
  by (simp add: sample_drive_def Let_def drive_root_def joinPath_def)

end
