(* ===== verification/AccessMap.thy ===== *)
theory AccessMap
  imports Connect LiveAlerts "HOL-Library.Multiset"
begin

section \<open>The map of the resources (pages/MapPage.jsx)\<close>

text \<open>
  The page shows the resources by zone, a zone being the first \<open>zone:\<close> tag of a resource, with
  the sessions on them, under one of four lenses.  What it computes at each render is modelled as
  functions of its state; \<open>day_of\<close> is the calendar day of a time in the browser's time zone and
  \<open>before\<close> the order of \<open>localeCompare\<close>.
\<close>

subsection \<open>Zones and addresses\<close>

definition csv_tags :: "json \<Rightarrow> string list" where
  "csv_tags csv = map trim (split_on (CHR '','') (text_or csv []))"

definition zoneOf :: "json \<Rightarrow> string" where
  "zoneOf resource =
     (case find (\<lambda>tag. starts_with tag ''zone:'' \<and> 5 < length tag) (map to_lower (csv_tags (jget resource ''tagsCsv''))) of
        Some tag \<Rightarrow> drop 5 tag
      | None \<Rightarrow> [])"

definition protocolOf :: "json \<Rightarrow> string" where
  "protocolOf resource = to_lower (text_or (jget resource ''protocol'') ''ssh'')"

definition addressOf :: "json \<Rightarrow> string" where
  "addressOf resource =
     (if protocolOf resource = ''fileshare'' then js_string (jget resource ''target'')
      else js_string (jget resource ''target'') @ '':'' @ js_string (jget resource ''port''))"

subsection \<open>The relay route of every resource\<close>

record route_info =
  ro_route :: string
  ro_relay :: json
  ro_relay_id :: json
  ro_status :: string

definition route_entry :: "json \<Rightarrow> route_info" where
  "route_entry data =
     (let relay = jget data ''relay'' in
      \<lparr>ro_route = (if to_lower (text_or (jget data ''route'') ''direct'') = ''relay'' then ''relay'' else ''direct''),
       ro_relay = jor (jor (jget relay ''label'') (jget relay ''relayId'')) (JStr []),
       ro_relay_id = jor (jget relay ''relayId'') (JStr []),
       ro_status = to_lower (text_or (jget relay ''status'') [])\<rparr>)"

text \<open>One request after the other, up to the first that fails: what was read so far is kept.\<close>

fun relay_routes ::
    "(json \<Rightarrow> js_error + json) \<Rightarrow> json list \<Rightarrow> (string \<times> route_info) list \<Rightarrow> (string \<times> route_info) list" where
  "relay_routes answer [] acc = acc"
| "relay_routes answer (r # rs) acc =
     (case answer (jget r ''id'') of
        Inl e \<Rightarrow> acc
      | Inr data \<Rightarrow> relay_routes answer rs (assoc_set (js_string (jget r ''id'')) (route_entry data) acc))"

definition useRelayRoutes :: "(json \<Rightarrow> js_error + json) \<Rightarrow> bool \<Rightarrow> json list \<Rightarrow>
    (string \<times> route_info) list \<Rightarrow> (string \<times> route_info) list" where
  "useRelayRoutes answer enabled resources routes =
     (if \<not> enabled \<or> resources = [] then routes else relay_routes answer resources [])"

definition route_for :: "(string \<times> route_info) list \<Rightarrow> json \<Rightarrow> route_info option" where
  "route_for routes resource = map_of routes (js_string (jget resource ''id''))"

text \<open>The connector drawn between two points.\<close>

definition elbow :: "int \<Rightarrow> int \<Rightarrow> int \<Rightarrow> int \<Rightarrow> string" where
  "elbow x1 y1 x2 y2 =
     (let mid = js_round (of_int x1 + of_int (x2 - x1) / 2) in
      ''M'' @ show_int x1 @ '' '' @ show_int y1 @ '' H'' @ show_int mid @ '' V'' @ show_int y2 @ '' H'' @ show_int x2)"

subsection \<open>The state of the page\<close>

record access_map =
  am_resources :: "json list"
  am_sessions :: "json list"
  am_audit :: "json list"
  am_user :: json
  am_manages :: bool
  am_views_audit :: bool
  am_relays :: bool
  am_lens :: string
  am_query :: string
  am_zone :: string
  am_mine_only :: bool
  am_selected :: json
  am_focus :: json
  am_routes :: "(string \<times> route_info) list"
  am_preview :: "(json \<times> json) option"

definition map_view :: "string option \<Rightarrow> string" where
  "map_view saved = (if saved = Some ''liste'' then ''liste'' else ''carte'')"

definition active_sessions :: "access_map \<Rightarrow> json list" where
  "active_sessions m = filter (\<lambda>s. jget s ''status'' = JStr ''active'') (am_sessions m)"

definition resource_of_session :: "access_map \<Rightarrow> json \<Rightarrow> json option" where
  "resource_of_session m s =
     (case find (\<lambda>r. same_number (jget r ''id'') (jget s ''resourceId'')) (am_resources m) of
        Some r \<Rightarrow> Some r
      | None \<Rightarrow> find (\<lambda>r. strict_eq (jget r ''target'') (jget s ''target'') \<and>
                         same_number (jget r ''port'') (jget s ''port'')) (am_resources m))"

definition sessionsByResource :: "access_map \<Rightarrow> json \<Rightarrow> json list" where
  "sessionsByResource m resource =
     filter (\<lambda>s. case resource_of_session m s of
                  None \<Rightarrow> False
                | Some r \<Rightarrow> js_string (jget r ''id'') = js_string (jget resource ''id'')) (active_sessions m)"

definition operated_by_user :: "access_map \<Rightarrow> json \<Rightarrow> bool" where
  "operated_by_user m s = strict_eq (jget s ''operator'') (am_user m)"

definition sessionState :: "access_map \<Rightarrow> json \<Rightarrow> string" where
  "sessionState m resource =
     (let here = sessionsByResource m resource in
      if list_ex (operated_by_user m) here then ''mine'' else if here \<noteq> [] then ''other'' else [])"

definition accessLabel :: "env \<Rightarrow> access_map \<Rightarrow> json \<Rightarrow> string" where
  "accessLabel env m resource =
     (if sessionState m resource = ''mine'' then tx env ''map.accessOpen''
      else if flag resource ''requireDualApproval'' then tx env ''policy.requestApproval''
      else if flag resource ''requireAccessJustification'' then tx env ''policy.reasonRequired''
      else tx env ''map.accessDirect'')"

definition searched_fields :: "string list" where
  "searched_fields = [''name'', ''target'', ''tagsCsv'', ''description'', ''protocol'']"

definition map_matches :: "access_map \<Rightarrow> json \<Rightarrow> bool" where
  "map_matches m resource =
     (let q = to_lower (trim (am_query m)) in
      \<not> (am_mine_only m \<and> sessionState m resource \<noteq> ''mine'') \<and>
      (am_zone m = ''all'' \<or> zoneOf resource = am_zone m) \<and>
      (q = [] \<or> list_ex (\<lambda>k. str_includes (to_lower (text_or (jget resource k) [])) q) searched_fields))"

definition visible :: "access_map \<Rightarrow> json list" where
  "visible m = filter (map_matches m) (am_resources m)"

text \<open>\<open>Array.from(new Set(xs))\<close>\<close>

definition uniq :: "'a list \<Rightarrow> 'a list" where
  "uniq xs = rev (remdups (rev xs))"

definition zone_before :: "(string \<Rightarrow> string \<Rightarrow> bool) \<Rightarrow> string \<Rightarrow> string \<Rightarrow> bool" where
  "zone_before before a b = (if a = [] then False else if b = [] then True else before a b)"

definition zones :: "(string \<Rightarrow> string \<Rightarrow> bool) \<Rightarrow> access_map \<Rightarrow> string list" where
  "zones before m = sort_by (zone_before before) (uniq (map zoneOf (am_resources m)))"

definition grouped :: "(string \<Rightarrow> string \<Rightarrow> bool) \<Rightarrow> access_map \<Rightarrow> (string \<times> json list) list" where
  "grouped before m =
     filter (\<lambda>g. snd g \<noteq> [])
       (map (\<lambda>z. (z, filter (\<lambda>r. zoneOf r = z) (visible m))) (zones before m))"

subsection \<open>Today's journal\<close>

record log_line =
  ll_item :: json
  ll_resource :: "rat option"
  ll_target :: json

text \<open>A payload that is JSON \<open>null\<close> raises, outside the \<open>try\<close>: the whole list is then \<open>None\<close>.\<close>

definition log_payload :: "json \<Rightarrow> json" where
  "log_payload item =
     (if truthy (jget item ''payloadIsJson'') then
        (case json_parse (js_string (jget item ''payloadRaw'')) of None \<Rightarrow> JObj [] | Some v \<Rightarrow> v)
      else JObj [])"

definition log_line_of :: "json \<Rightarrow> log_line option" where
  "log_line_of item =
     (let payload = log_payload item in
      if nullish payload then None
      else Some \<lparr>ll_item = item,
             ll_resource = (case js_number (jget payload ''resourceId'') of
                              None \<Rightarrow> None | Some n \<Rightarrow> if n = 0 then None else Some n),
             ll_target = jor (jget payload ''target'') (JStr [])\<rparr>)"

definition todayLog :: "env \<Rightarrow> (int \<Rightarrow> int) \<Rightarrow> access_map \<Rightarrow> log_line list option" where
  "todayLog env day_of m =
     (if \<not> am_views_audit m then Some []
      else all_some (map log_line_of (take 8
             (filter (\<lambda>item. map_option day_of (time_of (env_zone env) (jget item ''createdAt'')) = Some (day_of (env_now env)))
                (am_audit m)))))"

definition focus_of :: "log_line list \<Rightarrow> access_map \<Rightarrow> log_line option" where
  "focus_of lines m = find (\<lambda>l. strict_eq (jget (ll_item l) ''id'') (am_focus m)) lines"

definition inFocus :: "log_line option \<Rightarrow> json \<Rightarrow> bool" where
  "inFocus focus resource =
     (case focus of
        None \<Rightarrow> True
      | Some l \<Rightarrow> js_number (jget resource ''id'') = Some (case ll_resource l of None \<Rightarrow> 0 | Some n \<Rightarrow> n))"

subsection \<open>People, links, lenses\<close>

definition user_before :: "(string \<Rightarrow> string \<Rightarrow> bool) \<Rightarrow> access_map \<Rightarrow> json \<Rightarrow> json \<Rightarrow> bool" where
  "user_before before m a b =
     (if strict_eq a (am_user m) then True else if strict_eq b (am_user m) then False
      else before (js_string a) (js_string b))"

definition map_users :: "(string \<Rightarrow> string \<Rightarrow> bool) \<Rightarrow> access_map \<Rightarrow> json list" where
  "map_users before m =
     (let names = uniq (map (\<lambda>s. jget s ''operator'') (active_sessions m)) in
      sort_by (user_before before m)
        (if truthy (am_user m) \<and> am_user m \<notin> set names then am_user m # names else names))"

record map_link =
  li_from :: string
  li_to :: string
  li_kind :: string
  li_dim :: bool

definition user_link :: "access_map \<Rightarrow> bool \<Rightarrow> json \<Rightarrow> map_link" where
  "user_link m focused person =
     \<lparr>li_from = ''user:'' @ js_string person, li_to = ''bastion'',
      li_kind = (if \<not> list_ex (\<lambda>s. strict_eq (jget s ''operator'') person) (active_sessions m) then ''idle''
                 else if strict_eq person (am_user m) then ''mine'' else ''other''),
      li_dim = focused\<rparr>"

definition zone_link :: "access_map \<Rightarrow> log_line option \<Rightarrow> string \<times> json list \<Rightarrow> map_link" where
  "zone_link m focus g =
     (let states = map (sessionState m) (snd g) in
      \<lparr>li_from = ''bastion'', li_to = ''zone:'' @ fst g,
       li_kind = (if ''mine'' \<in> set states then ''mine'' else if ''other'' \<in> set states then ''other'' else ''idle''),
       li_dim = (focus \<noteq> None \<and> \<not> list_ex (inFocus focus) (snd g))\<rparr>)"

definition map_links :: "(string \<Rightarrow> string \<Rightarrow> bool) \<Rightarrow> access_map \<Rightarrow> log_line option \<Rightarrow> map_link list" where
  "map_links before m focus =
     map (user_link m (focus \<noteq> None)) (map_users before m) @ map (zone_link m focus) (grouped before m)"

definition RISK_COLOR :: "(string \<times> string) list" where
  "RISK_COLOR = [(''critical'', ''var(--ef-danger)''), (''high'', ''var(--ef-warn)''),
     (''medium'', ''var(--ef-muted)''), (''low'', ''var(--ef-ok)'')]"

definition dotColor :: "access_map \<Rightarrow> json \<Rightarrow> string" where
  "dotColor m resource =
     (let state = sessionState m resource in
      if am_lens m = ''sessions'' then
        (if state = ''mine'' then ''var(--ef-priv)'' else if state = ''other'' then ''var(--ef-accent)'' else ''transparent'')
      else if am_lens m = ''risque'' then the (map_of RISK_COLOR (normalizeRiskLevel (jget resource ''riskLevel'')))
      else if am_lens m = ''reseau'' then
        (case route_for (am_routes m) resource of
           None \<Rightarrow> ''transparent''
         | Some r \<Rightarrow> if ro_route r = ''direct'' then ''transparent''
                    else if ro_status r = ''online'' then ''var(--ef-ok)'' else ''var(--ef-warn)'')
      else if state = ''mine'' then ''var(--ef-priv)''
      else if flag resource ''requireDualApproval'' \<or> flag resource ''requireAccessJustification''
      then ''var(--ef-muted)'' else ''var(--ef-ok)'')"

definition subLabel :: "env \<Rightarrow> access_map \<Rightarrow> json \<Rightarrow> string" where
  "subLabel env m resource =
     (let state = sessionState m resource; here = sessionsByResource m resource in
      if am_lens m = ''sessions'' then
        (if here \<noteq> [] then join '', '' (map (\<lambda>s. if nullish (jget s ''operator'') then [] else js_string (jget s ''operator'')) here)
         else tx env ''map.noSession'')
      else if am_lens m = ''risque'' then tx env (''map.risk.'' @ normalizeRiskLevel (jget resource ''riskLevel''))
      else if am_lens m = ''reseau'' then
        (if \<not> am_relays m then addressOf resource
         else addressOf resource @ utf8 32 @ utf8 183 @ utf8 32 @
           (case route_for (am_routes m) resource of
              Some r \<Rightarrow> if ro_route r = ''relay'' then ''via '' @ js_string (ro_relay r) else tx env ''map.direct''
            | None \<Rightarrow> tx env ''map.direct''))
      else if state = ''other'' then tx env ''map.inUse'' else accessLabel env m resource)"

text \<open>What the main button of a resource does.\<close>

datatype map_action = Resume json | Ask_access | Connect_to

definition primaryAction :: "access_map \<Rightarrow> json \<Rightarrow> map_action" where
  "primaryAction m resource =
     (case find (operated_by_user m) (sessionsByResource m resource) of
        Some s \<Rightarrow> Resume s
      | None \<Rightarrow> if flag resource ''requireDualApproval'' \<and> \<not> am_manages m then Ask_access else Connect_to)"

text \<open>The conditions shown for the selected resource: those of the preview when it is its own.\<close>

definition rules_shown :: "access_map \<Rightarrow> json \<Rightarrow> json" where
  "rules_shown m selected =
     (case am_preview m of
        Some (i, data) \<Rightarrow> if strict_eq i (jget selected ''id'') then data else JNull
      | None \<Rightarrow> JNull)"

definition preview_conditions :: "env \<Rightarrow> json \<Rightarrow> string list" where
  "preview_conditions env rules =
     (if \<not> truthy rules then []
      else concat
        [if truthy (jget rules ''justificationRequired'') then [tx env ''policy.reasonRequired''] else [],
         if truthy (jget rules ''ticketRequired'') then [tx env ''policy.ticketRequired''] else [],
         if truthy (jget rules ''purposeRequired'') then [tx env ''policy.purposeRequired''] else [],
         if truthy (jget rules ''mfaRequirement'') \<and> jget rules ''mfaRequirement'' \<noteq> JStr ''any''
         then [env_t env ''policy.mfaLevel'' [(''value'', jget rules ''mfaRequirement'')]] else [],
         if jget rules ''routingConstraint'' = JStr ''relay'' then [tx env ''policy.viaRelay''] else [],
         if truthy (jget rules ''timeWindow'') \<and> jget rules ''timeWindow'' \<noteq> JStr ''any''
         then [env_t env ''policy.hours'' [(''window'', jget rules ''timeWindow'')]] else [],
         (case js_number (jget rules ''maxDurationSeconds'') of
            Some n \<Rightarrow> if 0 < n then [env_t env ''policy.maxDuration'' [(''minutes'', JInt (js_round (n / 60)))]] else []
          | None \<Rightarrow> [])])"

definition conditions :: "env \<Rightarrow> access_map \<Rightarrow> json \<Rightarrow> string list" where
  "conditions env m selected =
     (let riskItem = env_t env ''policy.risk'' [(''level'', JStr (normalizeRiskLevel (jget selected ''riskLevel'')))];
          rules = rules_shown m selected;
          approval = (\<not> am_manages m \<and> (flag selected ''requireDualApproval'' \<or> truthy (jget rules ''approvalRequired''))) in
      filter (\<lambda>item. item \<noteq> riskItem)
        (uniq (filter (\<lambda>item. item \<noteq> [])
           (describeAccessOutcome (env_t env) (set_prop selected ''requireDualApproval'' (JBool approval)) @
            describeResourcePolicy (env_t env) selected @ preview_conditions env rules))))"

subsection \<open>What the lemmas show\<close>

lemma mset_insert_by [simp]: "mset (insert_by lt x ys) = add_mset x (mset ys)"
  by (induction ys) auto

lemma mset_sort_by [simp]: "mset (sort_by lt xs) = mset xs"
  by (induction xs) auto

lemma set_uniq [simp]: "set (uniq xs) = set xs"
  by (simp add: uniq_def)

lemma distinct_uniq [simp]: "distinct (uniq xs)"
  by (simp add: uniq_def)

lemma zones_distinct: "distinct (zones before m)"
  using distinct_sort_by [of "\<lambda>z. z" "zone_before before" "uniq (map zoneOf (am_resources m))"]
  by (simp add: zones_def)

lemma zone_in_zones: "r \<in> set (visible m) \<Longrightarrow> zoneOf r \<in> set (zones before m)"
  by (auto simp: visible_def zones_def)

lemma grouped_empty_dropped:
  "concat (map snd (filter (\<lambda>g. snd g \<noteq> []) gs)) = concat (map snd gs)"
  by (induction gs) auto

lemma mset_split_by_key:
  assumes "distinct ks" and "\<And>x. x \<in> set xs \<Longrightarrow> f x \<in> set ks"
  shows "mset (concat (map (\<lambda>k. filter (\<lambda>x. f x = k) xs) ks)) = mset xs"
  using assms
proof (induction ks arbitrary: xs)
  case Nil
  then show ?case by (cases xs) auto
next
  case (Cons k ks)
  let ?rest = "filter (\<lambda>x. f x \<noteq> k) xs"
  have "filter (\<lambda>x. f x = j) ?rest = filter (\<lambda>x. f x = j) xs" if "j \<in> set ks" for j
    using that Cons.prems(1) by (auto intro!: filter_cong)
  then have "map (\<lambda>j. filter (\<lambda>x. f x = j) xs) ks = map (\<lambda>j. filter (\<lambda>x. f x = j) ?rest) ks"
    by (simp cong: map_cong)
  moreover have "mset (concat (map (\<lambda>j. filter (\<lambda>x. f x = j) ?rest) ks)) = mset ?rest"
    by (rule Cons.IH) (use Cons.prems in auto)
  ultimately have "mset (concat (map (\<lambda>j. filter (\<lambda>x. f x = j) xs) ks)) = filter_mset (\<lambda>x. f x \<noteq> k) (mset xs)"
    by (simp only: mset_filter)
  then show ?case
    using multiset_partition [of "mset xs" "\<lambda>x. f x = k"] by simp
qed

text \<open>The map shows every resource that passes the filters in one zone and one zone only, the
  zone its tags name, and no card of a zone is empty or drawn twice.\<close>

theorem map_shows_each_resource_once:
  "mset (concat (map snd (grouped before m))) = mset (visible m) \<and>
   distinct (map fst (grouped before m)) \<and>
   list_all (\<lambda>g. snd g \<noteq> [] \<and> list_all (\<lambda>r. zoneOf r = fst g) (snd g)) (grouped before m)"
proof (intro conjI)
  have "map snd (map (\<lambda>z. (z, filter (\<lambda>r. zoneOf r = z) (visible m))) zs) =
        map (\<lambda>z. filter (\<lambda>r. zoneOf r = z) (visible m)) zs" for zs
    by simp
  then show "mset (concat (map snd (grouped before m))) = mset (visible m)"
    by (simp only: grouped_def grouped_empty_dropped)
      (rule mset_split_by_key [OF zones_distinct zone_in_zones])
  show "distinct (map fst (grouped before m))"
    unfolding grouped_def
    by (rule distinct_map_filter) (simp add: comp_def zones_distinct)
  show "list_all (\<lambda>g. snd g \<noteq> [] \<and> list_all (\<lambda>r. zoneOf r = fst g) (snd g)) (grouped before m)"
    by (auto simp: grouped_def list_all_iff)
qed

lemma mine_iff: "sessionState m resource = ''mine'' \<longleftrightarrow> list_ex (operated_by_user m) (sessionsByResource m resource)"
  by (simp add: sessionState_def Let_def)

text \<open>The main button of a resource resumes a session exactly when the map shows one as the
  person's own, and the session it resumes is theirs, active and on that resource.\<close>

theorem button_resumes_own_session:
  "(sessionState m resource = ''mine'') = (\<exists>s. primaryAction m resource = Resume s) \<and>
   (case primaryAction m resource of
      Resume s \<Rightarrow> jget s ''operator'' = am_user m \<and> jget s ''status'' = JStr ''active'' \<and>
                  s \<in> set (am_sessions m)
    | Ask_access \<Rightarrow> flag resource ''requireDualApproval'' \<and> \<not> am_manages m
    | Connect_to \<Rightarrow> am_manages m \<or> \<not> flag resource ''requireDualApproval'')"
proof (cases "find (operated_by_user m) (sessionsByResource m resource)")
  case None
  then have "\<not> list_ex (operated_by_user m) (sessionsByResource m resource)"
    by (simp add: find_None_iff list_ex_iff)
  with None show ?thesis
    by (auto simp: mine_iff primaryAction_def)
next
  case (Some s)
  then have "s \<in> set (sessionsByResource m resource)" and "operated_by_user m s"
    by (auto simp: find_Some_iff)
  with Some show ?thesis
    by (auto simp: mine_iff primaryAction_def list_ex_iff sessionsByResource_def active_sessions_def
        operated_by_user_def dest: strict_eq_eq)
qed


end
