(* ===== verification/Zones.thy ===== *)
theory Zones
  imports AccessMap "HOL-Library.Char_ord" "HOL-Library.List_Lexorder"
begin

section \<open>The zones and their rules (pages/ZonesPage.jsx)\<close>

text \<open>
  A zone is a \<open>zone:\<close> tag on resources and, for its rules, one access policy named after it.  The
  page keeps the moves and the edits that are not saved yet and writes them in one go.  The two
  functions of the bastion that read what the page writes, the tag test and the time window of
  utils.h, are modelled beside it.  Names are ordered by their bytes.
\<close>

subsection \<open>Names, tags and time windows\<close>

definition policyName :: "string \<Rightarrow> string" where
  "policyName zone = ''zone-'' @ zone"

definition zoneTag :: "string \<Rightarrow> string" where
  "zoneTag zone = ''zone:'' @ zone"

definition MIXED :: string where
  "MIXED = ''__mixed__''"

definition DURATIONS :: "rat list" where
  "DURATIONS = [1800, 3600, 7200, 14400, 28800]"

definition zone_first :: "char \<Rightarrow> bool" where
  "zone_first c = (is_lower c \<or> is_digit c)"

definition zone_char :: "char \<Rightarrow> bool" where
  "zone_char c = (zone_first c \<or> c = CHR ''_'' \<or> c = CHR ''-'')"

fun ZONE_NAME :: "string \<Rightarrow> bool" where
  "ZONE_NAME [] = False"
| "ZONE_NAME (c # s) = (zone_first c \<and> length s \<le> 31 \<and> list_all zone_char s)"

fun hour_minute :: "string \<Rightarrow> bool" where
  "hour_minute [a, b, c, d, e] =
     ((a \<in> set ''01'' \<and> is_digit b \<or> a = CHR ''2'' \<and> b \<in> set ''0123'') \<and> c = CHR '':'' \<and>
      d \<in> set ''012345'' \<and> is_digit e)"
| "hour_minute _ = False"

definition TIME_WINDOW :: "string \<Rightarrow> bool" where
  "TIME_WINDOW w = (hour_minute (take 5 w) \<and> take 1 (drop 5 w) = ''-'' \<and> hour_minute (drop 6 w))"

definition tagsWithZone :: "json \<Rightarrow> string \<Rightarrow> string" where
  "tagsWithZone tagsCsv zone =
     (let tags = filter (\<lambda>tag. \<not> starts_with (to_lower tag) ''zone:'')
                   (filter (\<lambda>tag. tag \<noteq> []) (map trim (split_on (CHR '','') (text_or tagsCsv [])))) in
      join '','' (if zone = [] then tags else zoneTag zone # tags))"

subsection \<open>What the bastion makes of them (utils.h)\<close>

definition split_csv_compact :: "string \<Rightarrow> string list" where
  "split_csv_compact s = filter (\<lambda>w. w \<noteq> []) (map trim (split_on (CHR '','') s))"

definition csv_intersects :: "string \<Rightarrow> string \<Rightarrow> bool" where
  "csv_intersects left right =
     list_ex (\<lambda>i. to_lower i \<in> set (map to_lower (split_csv_compact right))) (split_csv_compact left)"

fun parse_minutes :: "string \<Rightarrow> nat option" where
  "parse_minutes [a, b, c, d, e] =
     (if c \<noteq> CHR '':'' \<or> \<not> is_digit a \<or> \<not> is_digit b \<or> \<not> is_digit d \<or> \<not> is_digit e then None
      else let hours = digits_val [a, b]; minutes = digits_val [d, e] in
           if 23 < hours \<or> 59 < minutes then None else Some (hours * 60 + minutes))"
| "parse_minutes _ = None"

definition window_bounds :: "string \<Rightarrow> (nat \<times> nat) option" where
  "window_bounds w =
     (if CHR ''-'' \<notin> set w then None
      else let start = takeWhile (\<lambda>c. c \<noteq> CHR ''-'') w in
           case (parse_minutes start, parse_minutes (drop (Suc (length start)) w)) of
             (Some s, Some e) \<Rightarrow> Some (s, e)
           | _ \<Rightarrow> None)"

definition is_time_window_match_utc :: "string \<Rightarrow> nat \<Rightarrow> nat \<Rightarrow> bool" where
  "is_time_window_match_utc window hour_utc minute_utc =
     (let normalized = to_lower (trim window); current = hour_utc * 60 + minute_utc in
      if normalized = [] \<or> normalized = ''any'' then True
      else case window_bounds normalized of
             None \<Rightarrow> False
           | Some (s, e) \<Rightarrow> if s \<le> e then s \<le> current \<and> current \<le> e else s \<le> current \<or> current \<le> e)"

subsection \<open>The state of the page\<close>

text \<open>\<open>Object.entries\<close>: the names that are array indices come first, in their order.\<close>

definition index_key :: "string \<Rightarrow> nat option" where
  "index_key k =
     (if k \<noteq> [] \<and> list_all is_digit k \<and> show_nat (digits_val k) = k \<and> digits_val k < 4294967295
      then Some (digits_val k) else None)"

definition entry_before :: "string \<times> 'v \<Rightarrow> string \<times> 'v \<Rightarrow> bool" where
  "entry_before a b =
     (case (index_key (fst a), index_key (fst b)) of
        (Some i, Some j) \<Rightarrow> i < j
      | (Some i, None) \<Rightarrow> True
      | _ \<Rightarrow> False)"

definition js_entries :: "(string \<times> 'v) list \<Rightarrow> (string \<times> 'v) list" where
  "js_entries kvs = sort_by entry_before kvs"

definition without_key :: "'k \<Rightarrow> ('k \<times> 'v) list \<Rightarrow> ('k \<times> 'v) list" where
  "without_key k kvs = filter (\<lambda>p. fst p \<noteq> k) kvs"

text \<open>A change that brings a value back to what it was is not pending.\<close>

definition put_pending :: "bool \<Rightarrow> 'k \<Rightarrow> 'v \<Rightarrow> ('k \<times> 'v) list \<Rightarrow> ('k \<times> 'v) list" where
  "put_pending same k v kvs = (if same then without_key k kvs else assoc_set k v kvs)"

type_synonym changes = "(string \<times> json) list"

datatype selection = Zone_selected string | Resource_selected json

record zones_page =
  zp_resources :: "json list"
  zp_policies :: "json list"
  zp_relays :: "json list"
  zp_routes :: "(string \<times> route_info) list"
  zp_policies_licensed :: bool
  zp_relays_licensed :: bool
  zp_new_zones :: "string list"
  zp_selected :: "selection option"
  zp_moves :: "(string \<times> string) list"
  zp_edits :: "(string \<times> changes) list"
  zp_drag :: json
  zp_drop_zone :: "string option"
  zp_creating :: bool
  zp_new_name :: string
  zp_saving :: bool
  zp_load_error :: string
  zp_report :: "(nat \<times> string list) option"

definition zoneOfResource :: "zones_page \<Rightarrow> json \<Rightarrow> string" where
  "zoneOfResource p resource =
     (case map_of (zp_moves p) (js_string (jget resource ''id'')) of
        Some z \<Rightarrow> z
      | None \<Rightarrow> zoneOf resource)"

definition policy_zone :: "json \<Rightarrow> string option" where
  "policy_zone policy =
     (if starts_with (text_or (jget policy ''name'') []) ''zone-''
      then Some (drop 5 (js_string (jget policy ''name''))) else None)"

definition zone_names :: "zones_page \<Rightarrow> string list" where
  "zone_names p =
     sort (uniq (zp_new_zones p @
       filter (\<lambda>z. z \<noteq> []) (map zoneOf (zp_resources p)) @
       filter (\<lambda>z. z \<noteq> []) (map snd (js_entries (zp_moves p))) @
       List.map_filter policy_zone (zp_policies p)))"

definition managedPolicy :: "zones_page \<Rightarrow> string \<Rightarrow> json option" where
  "managedPolicy p zone = find (\<lambda>q. jget q ''name'' = JStr (policyName zone)) (zp_policies p)"

definition otherPolicies :: "zones_page \<Rightarrow> string \<Rightarrow> json list" where
  "otherPolicies p zone =
     filter (\<lambda>q. jget q ''name'' \<noteq> JStr (policyName zone) \<and>
                 zoneTag zone \<in> set (map trim (split_on (CHR '','') (text_or (jget q ''resourceTagsCsv'') []))))
       (zp_policies p)"

definition membersOf :: "zones_page \<Rightarrow> string \<Rightarrow> json list" where
  "membersOf p zone = filter (\<lambda>r. zoneOfResource p r = zone) (zp_resources p)"

definition lower_or :: "json \<Rightarrow> string \<Rightarrow> json" where
  "lower_or v d = JStr (to_lower (text_or v d))"

definition rulesOf :: "json \<Rightarrow> changes" where
  "rulesOf policy =
     [(''approval'', JStr (if to_lower (text_or (jget policy ''approvalMode'') ''inherit'') = ''required''
                           then ''required'' else ''inherit'')),
      (''mfa'', lower_or (jget policy ''mfaRequirement'') ''any''),
      (''duration'', JNum (number_or (jget policy ''maxDurationSeconds'') 3600)),
      (''ticket'', JBool (flag policy ''ticketRequired'')),
      (''justification'', JBool (flag policy ''requireJustification'')),
      (''route'', lower_or (jget policy ''routingConstraint'') ''any''),
      (''window'', lower_or (jget policy ''timeWindow'') ''any'')]"

fun common :: "json list \<Rightarrow> json" where
  "common [] = JStr []"
| "common (v # vs) = (if list_all (\<lambda>w. w = v) vs then v else JStr MIXED)"

definition relay_value :: "zones_page \<Rightarrow> json \<Rightarrow> json" where
  "relay_value p resource =
     (case route_for (zp_routes p) resource of
        Some ro \<Rightarrow> if ro_route ro = ''relay'' then jor (ro_relay_id ro) (ro_relay ro) else JStr []
      | None \<Rightarrow> JStr [])"

definition policy_json :: "json option \<Rightarrow> json" where
  "policy_json q = (case q of None \<Rightarrow> JNull | Some v \<Rightarrow> v)"

definition baseOf :: "zones_page \<Rightarrow> string \<Rightarrow> changes" where
  "baseOf p zone =
     (let members = filter (\<lambda>r. zoneOf r = zone) (zp_resources p) in
      rulesOf (policy_json (managedPolicy p zone)) @
      [(''risk'', common (map (\<lambda>r. JStr (normalizeRiskLevel (jget r ''riskLevel''))) members)),
       (''guard'', common (map (\<lambda>r. JStr (if flag r ''enableCommandGuard'' then ''on'' else ''off'')) members)),
       (''relay'', if zp_relays_licensed p then common (map (relay_value p) members) else JStr [])])"

definition field_of :: "changes \<Rightarrow> string \<Rightarrow> json" where
  "field_of kvs k = (case map_of kvs k of Some v \<Rightarrow> v | None \<Rightarrow> JUndef)"

definition edits_of :: "zones_page \<Rightarrow> string \<Rightarrow> changes" where
  "edits_of p zone = (case map_of (zp_edits p) zone of Some c \<Rightarrow> c | None \<Rightarrow> [])"

definition valuesOf :: "zones_page \<Rightarrow> string \<Rightarrow> changes" where
  "valuesOf p zone = fold (\<lambda>(k, v). assoc_set k v) (edits_of p zone) (baseOf p zone)"

subsection \<open>Moves, edits, new zones\<close>

definition setEdit :: "string \<Rightarrow> string \<Rightarrow> json \<Rightarrow> zones_page \<Rightarrow> zones_page" where
  "setEdit zone key v p =
     (let changed = put_pending (strict_eq (field_of (baseOf p zone) key) v) key v (edits_of p zone) in
      p\<lparr>zp_edits := put_pending (changed = []) zone changed (zp_edits p)\<rparr>)"

definition moveResource :: "json \<Rightarrow> string \<Rightarrow> zones_page \<Rightarrow> zones_page" where
  "moveResource resource zone p =
     p\<lparr>zp_moves := put_pending (zoneOf resource = zone) (js_string (jget resource ''id'')) zone (zp_moves p)\<rparr>"

definition createZone :: "zones_page \<Rightarrow> zones_page" where
  "createZone p =
     (let zone = to_lower (trim (zp_new_name p)) in
      if \<not> ZONE_NAME zone \<or> zone \<in> set (zone_names p) then p
      else p\<lparr>zp_new_zones := zp_new_zones p @ [zone], zp_selected := Some (Zone_selected zone),
             zp_new_name := [], zp_creating := False\<rparr>)"

text \<open>\<open>data\<close> is the text the drag carries, empty when the browser gives none.\<close>

definition onDrop :: "string \<Rightarrow> string \<Rightarrow> zones_page \<Rightarrow> zones_page" where
  "onDrop zone data p =
     (let moved = js_number (if data = [] then zp_drag p else JStr data);
          p' = (case moved of
                  None \<Rightarrow> p
                | Some n \<Rightarrow> (case find (\<lambda>r. jget r ''id'' = JNum n) (zp_resources p) of
                               None \<Rightarrow> p
                             | Some r \<Rightarrow> moveResource r zone p)) in
      p'\<lparr>zp_drag := JNull, zp_drop_zone := None\<rparr>)"

definition reset_changes :: "zones_page \<Rightarrow> zones_page" where
  "reset_changes p = p\<lparr>zp_moves := [], zp_edits := [], zp_report := None\<rparr>"

definition policies_loaded :: "env \<Rightarrow> js_error + json \<Rightarrow> zones_page \<Rightarrow> zones_page" where
  "policies_loaded env reply p =
     (case reply of
        Inl e \<Rightarrow> p\<lparr>zp_load_error := shown env e (tx env ''zones.loadError'')\<rparr>
      | Inr data \<Rightarrow>
          if nullish data then p\<lparr>zp_load_error := shown env TypeError (tx env ''zones.loadError'')\<rparr>
          else p\<lparr>zp_policies := array_or_empty (jget data ''items'')\<rparr>)"

definition relays_loaded :: "js_error + json \<Rightarrow> zones_page \<Rightarrow> zones_page" where
  "relays_loaded reply p =
     (case reply of
        Inl e \<Rightarrow> p
      | Inr data \<Rightarrow> if nullish data then p else p\<lparr>zp_relays := array_or_empty (jget data ''items'')\<rparr>)"


subsection \<open>Save\<close>

definition resourcePayload :: "json \<Rightarrow> changes \<Rightarrow> json" where
  "resourcePayload resource changed =
     (let keep = (\<lambda>k. (k, jget resource k));
          text = (\<lambda>k d. (k, jor (jget resource k) d));
          bool = (\<lambda>k. (k, JBool (flag resource k))) in
      spread (JObj
        [keep ''name'', keep ''target'', keep ''protocol'', keep ''port'',
         text ''tunnelTicketRateLimitMaxAttempts'' (JNum 0),
         text ''description'' (JStr []), text ''imageUrl'' (JStr []), text ''imageData'' (JStr []),
         text ''tagsCsv'' (JStr []), text ''credentialSource'' (JStr ''vaulted''),
         text ''httpUsername'' (JStr []), text ''sshUsername'' (JStr []), text ''agentProtocol'' (JStr []),
         bool ''requireAccessJustification'', bool ''requireDualApproval'', bool ''enableCommandGuard'',
         bool ''adaptiveAccessPolicy'', text ''riskLevel'' (JStr ''low'')])
        (JObj changed))"

definition resource_with_key :: "zones_page \<Rightarrow> string \<Rightarrow> json option" where
  "resource_with_key p i = find (\<lambda>r. js_string (jget r ''id'') = i) (zp_resources p)"

text \<open>\<open>new Map()\<close> from the identifier of a resource to what changes on it.\<close>

definition add_move :: "zones_page \<Rightarrow> string \<times> string \<Rightarrow> (json \<times> changes) list \<Rightarrow> (json \<times> changes) list" where
  "add_move p move acc =
     (case resource_with_key p (fst move) of
        None \<Rightarrow> acc
      | Some r \<Rightarrow> assoc_set (jget r ''id'') [(''tagsCsv'', JStr (tagsWithZone (jget r ''tagsCsv'') (snd move)))] acc)"

definition add_rules :: "changes \<Rightarrow> json \<Rightarrow> (json \<times> changes) list \<Rightarrow> (json \<times> changes) list" where
  "add_rules edit resource acc =
     (let before = (case map_of acc (jget resource ''id'') of Some c \<Rightarrow> c | None \<Rightarrow> []);
          risk = (case map_of edit ''risk'' of Some v \<Rightarrow> assoc_set ''riskLevel'' v before | None \<Rightarrow> before);
          guard = (case map_of edit ''guard'' of
                     Some v \<Rightarrow> assoc_set ''enableCommandGuard'' (JBool (v = JStr ''on'')) risk | None \<Rightarrow> risk) in
      assoc_set (jget resource ''id'') guard acc)"

definition add_edit :: "zones_page \<Rightarrow> string \<times> changes \<Rightarrow> (json \<times> changes) list \<Rightarrow> (json \<times> changes) list" where
  "add_edit p edit acc =
     (if ''risk'' \<notin> fst ` set (snd edit) \<and> ''guard'' \<notin> fst ` set (snd edit) then acc
      else fold (add_rules (snd edit)) (membersOf p (fst edit)) acc)"

definition resourceChanges :: "zones_page \<Rightarrow> (json \<times> changes) list" where
  "resourceChanges p =
     fold (add_edit p) (js_entries (zp_edits p)) (fold (add_move p) (js_entries (zp_moves p)) [])"

text \<open>One request of a save, with what the report says of it when it fails.\<close>

record save_item =
  si_call :: api_call
  si_label :: string

definition resource_item :: "zones_page \<Rightarrow> json \<times> changes \<Rightarrow> save_item" where
  "resource_item p change =
     (let resource = (case find (\<lambda>r. jget r ''id'' = fst change) (zp_resources p) of Some r \<Rightarrow> r | None \<Rightarrow> JUndef) in
      \<lparr>si_call = updateResource (fst change) (resourcePayload resource (snd change)),
       si_label = js_string (jget resource ''name'')\<rparr>)"

definition rule_keys :: "string list" where
  "rule_keys = [''approval'', ''mfa'', ''duration'', ''ticket'', ''justification'', ''route'', ''window'']"

definition saved_window :: "json \<Rightarrow> json" where
  "saved_window v = (if truthy v \<and> TIME_WINDOW (js_string v) then v else JStr ''any'')"

definition policy_payload :: "env \<Rightarrow> zones_page \<Rightarrow> string \<Rightarrow> json" where
  "policy_payload env p zone =
     (let get = field_of (valuesOf p zone); existing = policy_json (managedPolicy p zone) in
      spread (if existing = JNull then JObj [] else existing) (JObj
        [(''name'', JStr (policyName zone)),
         (''description'', jor (jget existing ''description'')
                             (JStr (env_t env ''zones.policyDescription'' [(''zone'', JStr zone)]))),
         (''identityPattern'', jcoalesce (jget existing ''identityPattern'') (JStr ''*'')),
         (''resourceTagsCsv'', JStr (zoneTag zone)),
         (''riskLevel'', jor (jget existing ''riskLevel'') (JStr ''any'')),
         (''approvalMode'', get ''approval''),
         (''mfaRequirement'', get ''mfa''),
         (''maxDurationSeconds'', (case js_number (get ''duration'') of Some n \<Rightarrow> JNum n | None \<Rightarrow> JNull)),
         (''ticketRequired'', JBool (truthy (get ''ticket''))),
         (''requireJustification'', JBool (truthy (get ''justification''))),
         (''routingConstraint'', get ''route''),
         (''timeWindow'', saved_window (get ''window'')),
         (''enabled'', JBool (existing = JNull \<or> jget existing ''enabled'' \<noteq> JBool False))]))"

definition policy_item :: "env \<Rightarrow> zones_page \<Rightarrow> string \<Rightarrow> save_item" where
  "policy_item env p zone =
     \<lparr>si_call = (case managedPolicy p zone of
                  Some q \<Rightarrow> updateAccessPolicy (jget q ''id'') (policy_payload env p zone)
                | None \<Rightarrow> createAccessPolicy (policy_payload env p zone)),
      si_label = policyName zone\<rparr>"

definition policy_items :: "env \<Rightarrow> zones_page \<Rightarrow> save_item list" where
  "policy_items env p =
     map (\<lambda>e. policy_item env p (fst e))
       (filter (\<lambda>e. list_ex (\<lambda>k. k \<in> fst ` set (snd e)) rule_keys) (js_entries (zp_edits p)))"

definition relay_item :: "json \<Rightarrow> json \<Rightarrow> save_item" where
  "relay_item relay resource =
     \<lparr>si_call = (if truthy relay then assignRelayToResource (jget resource ''id'') relay
                 else clearRelayForResource (jget resource ''id'')),
      si_label = js_string (jget resource ''name'')\<rparr>"

definition relay_items :: "zones_page \<Rightarrow> save_item list" where
  "relay_items p =
     concat (map (\<lambda>e. case map_of (snd e) ''relay'' of
                        None \<Rightarrow> []
                      | Some v \<Rightarrow> if v = JStr MIXED then [] else map (relay_item v) (membersOf p (fst e)))
       (js_entries (zp_edits p)))"

definition save_items :: "env \<Rightarrow> zones_page \<Rightarrow> save_item list" where
  "save_items env p = map (resource_item p) (resourceChanges p) @ policy_items env p @ relay_items p"

text \<open>The requests go one after the other, the next one also when one failed.\<close>

fun run_items :: "env \<Rightarrow> (api_call \<Rightarrow> js_error + json) \<Rightarrow> save_item list \<Rightarrow> nat \<times> string list \<Rightarrow> nat \<times> string list" where
  "run_items env answer [] report = report"
| "run_items env answer (i # rest) (finished, failed) =
     run_items env answer rest
       (case answer (si_call i) of
          Inr _ \<Rightarrow> (Suc finished, failed)
        | Inl e \<Rightarrow> (finished, failed @ [si_label i @ '' : '' @ error_message env e]))"

definition save_start :: "zones_page \<Rightarrow> zones_page" where
  "save_start p = p\<lparr>zp_saving := True\<rparr>"

text \<open>The end of \<open>save\<close>, on the page as it is then: what was changed while it ran goes too.\<close>

definition save_end :: "nat \<times> string list \<Rightarrow> zones_page \<Rightarrow> zones_page" where
  "save_end report p =
     p\<lparr>zp_moves := [], zp_edits := [], zp_new_zones := [], zp_report := Some report, zp_saving := False\<rparr>"

definition save :: "env \<Rightarrow> (api_call \<Rightarrow> js_error + json) \<Rightarrow> zones_page \<Rightarrow> zones_page" where
  "save env answer p = save_end (run_items env answer (save_items env p) (0, [])) (save_start p)"

definition fmt :: "env \<Rightarrow> zones_page \<Rightarrow> string \<Rightarrow> json \<Rightarrow> string" where
  "fmt env p key v =
     (if v = JStr MIXED then tx env ''zones.mixed''
      else case v of
        JBool b \<Rightarrow> tx env (if b then ''zones.yes'' else ''zones.no'')
      | _ \<Rightarrow>
        if key \<in> set [''duration'', ''approval'', ''mfa'', ''route''] then
          tx env (''zones.'' @ (if key = ''duration'' then ''dur'' else key) @ ''.'' @ js_string v)
        else if key = ''window'' then (if v = JStr ''any'' then tx env ''zones.anyTime'' else js_string v @ '' UTC'')
        else if key = ''risk'' then tx env (''map.risk.'' @ js_string v)
        else if key = ''guard'' then tx env (if v = JStr ''on'' then ''zones.yes'' else ''zones.no'')
        else if key = ''relay'' then
          (if truthy v then
             (let label = (case find (\<lambda>r. strict_eq (jget r ''relayId'') v) (zp_relays p) of
                             Some r \<Rightarrow> jget r ''label'' | None \<Rightarrow> JUndef) in
              js_string (jor label v))
           else tx env ''map.direct'')
        else js_string v)"


text \<open>The list of what Save will do, shown before it: (label, from, to).\<close>

definition diffs :: "env \<Rightarrow> zones_page \<Rightarrow> (string \<times> string \<times> string) list" where
  "diffs env p =
     concat (map (\<lambda>m. case resource_with_key p (fst m) of
                        None \<Rightarrow> []
                      | Some r \<Rightarrow> [(js_string (jget r ''name''), str_or (zoneOf r) (tx env ''map.noZone''),
                                   str_or (snd m) (tx env ''map.noZone''))]) (js_entries (zp_moves p))) @
     concat (map (\<lambda>e. map (\<lambda>c. (fst e @ utf8 32 @ utf8 183 @ utf8 32 @ tx env (''zones.field.'' @ fst c),
                                fmt env p (fst c) (field_of (baseOf p (fst e)) (fst c)),
                                fmt env p (fst c) (snd c))) (snd e)) (js_entries (zp_edits p)))"

definition save_enabled :: "env \<Rightarrow> zones_page \<Rightarrow> bool" where
  "save_enabled env p = (diffs env p \<noteq> [] \<and> \<not> zp_saving p)"

subsection \<open>Tags\<close>

lemma set_dropWhile_sub: "set (dropWhile P s) \<subseteq> set s"
  by (meson set_dropWhileD subsetI)

lemma set_trim: "c \<in> set (trim s) \<Longrightarrow> c \<in> set s"
  using set_dropWhile_sub [of is_ws s] set_dropWhile_sub [of is_ws "rev (dropWhile is_ws s)"]
  by (auto simp: trim_def trim_start_def)

definition clean_tag :: "string \<Rightarrow> bool" where
  "clean_tag w = (w \<noteq> [] \<and> trim w = w \<and> CHR '','' \<notin> set w)"

definition is_zone_tag :: "string \<Rightarrow> bool" where
  "is_zone_tag w = starts_with (to_lower w) ''zone:''"

lemma csv_words_clean: "list_all clean_tag (split_csv_compact s)"
  using split_on_clean [of _ "CHR '',''" s]
  by (auto simp: split_csv_compact_def list_all_iff clean_tag_def dest!: set_trim)

lemma split_csv_join:
  assumes "list_all clean_tag ws"
  shows "split_csv_compact (join '','' ws) = ws"
proof (cases "ws = []")
  case True
  then show ?thesis by (simp add: split_csv_compact_def)
next
  case False
  then have "split_on (CHR '','') (join '','' ws) = ws"
    using assms by (intro split_on_join) (auto simp: clean_tag_def list_all_iff)
  moreover have "map trim ws = ws" and "filter (\<lambda>w. w \<noteq> []) ws = ws"
    using assms by (auto simp: clean_tag_def list_all_iff intro!: map_idI filter_True)
  ultimately show ?thesis
    by (simp add: split_csv_compact_def)
qed

lemma zone_char_facts:
  assumes "zone_char c"
  shows "\<not> is_ws c" and "c \<noteq> CHR '',''" and "lower_char c = c"
  using assms
  by (auto simp: zone_char_def zone_first_def is_lower_def is_digit_def is_ws_def lower_char_def is_upper_def code_def)

lemma ZONE_NAME_chars: "ZONE_NAME zone \<Longrightarrow> zone \<noteq> [] \<and> list_all zone_char zone"
  by (cases zone) (auto simp: zone_char_def)

lemma zoneTag_lower:
  assumes "list_all zone_char zone"
  shows "to_lower (zoneTag zone) = zoneTag zone"
proof -
  have "map lower_char zone = zone"
    using assms by (auto simp: list_all_iff zone_char_facts(3) intro!: map_idI)
  then show ?thesis
    by (simp add: zoneTag_def to_lower_def) (simp add: lower_char_def is_upper_def code_def)
qed

lemma zoneTag_clean:
  assumes "ZONE_NAME zone"
  shows "clean_tag (zoneTag zone)"
proof -
  have "zone \<noteq> []" and cs: "list_all zone_char zone"
    using ZONE_NAME_chars [OF assms] by auto
  then have "\<not> is_ws (last zone)" and "CHR '','' \<notin> set zone"
    by (auto simp: list_all_iff zone_char_facts dest: zone_char_facts(2))
  then show ?thesis
    using \<open>zone \<noteq> []\<close> by (auto simp: clean_tag_def zoneTag_def is_ws_def code_def intro!: trim_fix)
qed

lemma split_tagsWithZone:
  assumes "zone = [] \<or> ZONE_NAME zone"
  shows "split_csv_compact (tagsWithZone csv zone) =
    (if zone = [] then [] else [zoneTag zone]) @
    filter (\<lambda>w. \<not> is_zone_tag w) (split_csv_compact (text_or csv []))"
proof -
  let ?ws = "filter (\<lambda>w. \<not> is_zone_tag w) (split_csv_compact (text_or csv []))"
  have "tagsWithZone csv zone = join '','' (if zone = [] then ?ws else zoneTag zone # ?ws)"
    by (simp add: tagsWithZone_def split_csv_compact_def is_zone_tag_def Let_def)
  moreover have "list_all clean_tag ?ws"
    using csv_words_clean by (auto simp: list_all_iff)
  ultimately show ?thesis
    using assms zoneTag_clean split_csv_join by auto
qed

lemma find_compact:
  "\<not> P [] \<Longrightarrow> find P (map f (map trim xs)) = find P (map f (filter (\<lambda>w. w \<noteq> []) (map trim xs)))" if "f [] = []"
  using that by (induction xs) auto

lemma zoneOf_words:
  "zoneOf resource =
     (case find (\<lambda>w. starts_with w ''zone:'' \<and> 5 < length w)
             (map to_lower (split_csv_compact (text_or (jget resource ''tagsCsv'') []))) of
        Some tag \<Rightarrow> drop 5 tag
      | None \<Rightarrow> [])"
  unfolding zoneOf_def csv_tags_def split_csv_compact_def
  by (subst find_compact) (auto simp: to_lower_def)

lemma is_zone_tag_zoneTag: "list_all zone_char zone \<Longrightarrow> is_zone_tag (zoneTag zone)"
  by (simp add: is_zone_tag_def zoneTag_lower) (simp add: zoneTag_def starts_with_def)

lemma zoneTag_inject: "zoneTag a = zoneTag b \<longleftrightarrow> a = b"
  by (simp add: zoneTag_def)

lemma zoneOf_tagsWithZone:
  assumes "zone = [] \<or> ZONE_NAME zone" and "jget resource ''tagsCsv'' = JStr (tagsWithZone csv zone)"
  shows "zoneOf resource = zone"
proof -
  let ?rest = "filter (\<lambda>w. \<not> is_zone_tag w) (split_csv_compact (text_or csv []))"
  have "find (\<lambda>w. starts_with w ''zone:'' \<and> 5 < length w) (map to_lower ?rest) = None"
    by (auto simp: find_None_iff is_zone_tag_def)
  moreover have "list_all zone_char zone"
    using assms(1) ZONE_NAME_chars by auto
  moreover have "text_or (JStr (tagsWithZone csv zone)) [] = tagsWithZone csv zone"
    by simp
  ultimately show ?thesis
    using assms(2) zoneTag_lower [of zone] split_tagsWithZone [OF assms(1), of csv]
    by (simp add: zoneOf_words) (auto simp: zoneTag_def starts_with_def)
qed

text \<open>C17: Moving a resource to a zone and saving its tags puts it in that zone, on the page and on
  the bastion: the policy of a zone covers the resource exactly when it is the zone it was moved to,
  and every other tag of the resource is kept, in its order.\<close>

theorem moved_resource_is_in_its_zone:
  assumes "zone = [] \<or> ZONE_NAME zone" and "ZONE_NAME other"
    and "jget resource ''tagsCsv'' = JStr (tagsWithZone csv zone)"
  shows "zoneOf resource = zone \<and>
    csv_intersects (zoneTag other) (tagsWithZone csv zone) = (other = zone) \<and>
    filter (\<lambda>w. \<not> is_zone_tag w) (split_csv_compact (tagsWithZone csv zone)) =
    filter (\<lambda>w. \<not> is_zone_tag w) (split_csv_compact (text_or csv []))"
proof (intro conjI)
  let ?rest = "filter (\<lambda>w. \<not> is_zone_tag w) (split_csv_compact (text_or csv []))"
  have split: "split_csv_compact (tagsWithZone csv zone) = (if zone = [] then [] else [zoneTag zone]) @ ?rest"
    by (rule split_tagsWithZone) (rule assms(1))
  have zc: "list_all zone_char zone" and oc: "list_all zone_char other" and one: "other \<noteq> []"
    using assms(1,2) ZONE_NAME_chars by auto
  show "zoneOf resource = zone"
    by (rule zoneOf_tagsWithZone) (rule assms(1), rule assms(3))
  have "zoneTag other \<notin> to_lower ` set ?rest"
    using is_zone_tag_zoneTag [OF oc] zoneTag_lower [OF oc] by (auto simp: is_zone_tag_def)
  moreover have "split_csv_compact (zoneTag other) = [zoneTag other]"
    using split_csv_join [of "[zoneTag other]"] zoneTag_clean [OF assms(2)] by simp
  ultimately show "csv_intersects (zoneTag other) (tagsWithZone csv zone) = (other = zone)"
    using zoneTag_lower [OF oc] zoneTag_lower [OF zc] one
    by (auto simp: csv_intersects_def split zoneTag_inject)
  show "filter (\<lambda>w. \<not> is_zone_tag w) (split_csv_compact (tagsWithZone csv zone)) = ?rest"
    using is_zone_tag_zoneTag [OF zc] by (simp add: split)
qed

theorem moved_resource_is_in_its_zone_witness:
  "zoneOf (JObj [(''tagsCsv'', JStr ''zone:prod,linux'')]) = ''prod''"
proof -
  have "tagsWithZone (JStr ''linux, Zone:Old'') ''prod'' = ''zone:prod,linux''" and
    "ZONE_NAME ''prod''" and "ZONE_NAME ''lab''"
    by code_simp+
  then show ?thesis
    using moved_resource_is_in_its_zone [of "''prod''" "''lab''" "JObj [(''tagsCsv'', JStr ''zone:prod,linux'')]"
        "JStr ''linux, Zone:Old''"]
    by simp
qed

subsection \<open>Time windows\<close>

lemma char_code_iff:
  "c = CHR ''0'' \<longleftrightarrow> code c = 48" "c = CHR ''1'' \<longleftrightarrow> code c = 49" "c = CHR ''2'' \<longleftrightarrow> code c = 50"
  "c = CHR ''3'' \<longleftrightarrow> code c = 51" "c = CHR ''4'' \<longleftrightarrow> code c = 52" "c = CHR ''5'' \<longleftrightarrow> code c = 53"
  by (simp_all flip: code_inject) (simp_all add: code_def)

lemma two_digits: "digits_val [x, y] = 10 * (code x - 48) + (code y - 48)"
  by (simp add: digits_val_def digit_val_def)

lemma hours_iff:
  "is_digit a \<Longrightarrow> is_digit b \<Longrightarrow>
     digits_val [a, b] \<le> 23 \<longleftrightarrow> a \<in> set ''01'' \<or> a = CHR ''2'' \<and> b \<in> set ''0123''"
  by (simp only: two_digits is_digit_def char_code_iff list.set insert_iff empty_iff simp_thms) presburger

lemma minutes_iff:
  "is_digit a \<Longrightarrow> is_digit b \<Longrightarrow> digits_val [a, b] \<le> 59 \<longleftrightarrow> a \<in> set ''012345''"
  by (simp only: two_digits is_digit_def char_code_iff list.set insert_iff empty_iff simp_thms) presburger

lemma hour_digits:
  "hour_minute [a, b, c, d, e] \<longleftrightarrow>
     c = CHR '':'' \<and> is_digit a \<and> is_digit b \<and> is_digit d \<and> is_digit e \<and>
     digits_val [a, b] \<le> 23 \<and> digits_val [d, e] \<le> 59"
proof (cases "is_digit a \<and> is_digit b \<and> is_digit d \<and> is_digit e")
  case True
  then have "digits_val [a, b] \<le> 23 \<longleftrightarrow> a \<in> set ''01'' \<or> a = CHR ''2'' \<and> b \<in> set ''0123''"
    and "digits_val [d, e] \<le> 59 \<longleftrightarrow> d \<in> set ''012345''"
    using hours_iff minutes_iff by blast+
  with True show ?thesis
    by (simp only: hour_minute.simps) blast
next
  case False
  have "a \<in> set ''01'' \<or> a = CHR ''2'' \<Longrightarrow> is_digit a" and "b \<in> set ''0123'' \<Longrightarrow> is_digit b"
    and "d \<in> set ''012345'' \<Longrightarrow> is_digit d"
    by (auto simp: is_digit_def code_def)
  with False show ?thesis
    by (simp only: hour_minute.simps) blast
qed

lemma parse_minutes_iff: "parse_minutes w \<noteq> None \<longleftrightarrow> hour_minute w"
proof (cases w rule: parse_minutes.cases)
  case (1 a b c d e)
  then show ?thesis
    by (simp only: hour_digits) (auto simp: Let_def not_less)
qed auto

lemma hour_minute_chars: "hour_minute w \<Longrightarrow> c \<in> set w \<Longrightarrow> is_digit c \<or> c = CHR '':''"
  by (cases w rule: hour_minute.cases) (auto simp: hour_digits simp del: hour_minute.simps(1))

lemma hour_minute_length: "hour_minute w \<Longrightarrow> length w = 5"
  by (cases w rule: hour_minute.cases) auto

lemma hour_minute_no_dash: "hour_minute w \<Longrightarrow> CHR ''-'' \<notin> set w"
  using hour_minute_chars [of w "CHR ''-''"] by (auto simp: is_digit_def code_def)

lemma TIME_WINDOW_split:
  "TIME_WINDOW w \<longleftrightarrow> (\<exists>a b. w = a @ CHR ''-'' # b \<and> hour_minute a \<and> hour_minute b)"
proof
  assume w: "TIME_WINDOW w"
  then obtain b where b: "drop 5 w = CHR ''-'' # b"
    by (cases "drop 5 w") (auto simp: TIME_WINDOW_def)
  then have "drop 6 w = b"
    using drop_drop [of 1 5 w] by simp
  with b have "drop 5 w = CHR ''-'' # drop 6 w"
    by simp
  then have "w = take 5 w @ CHR ''-'' # drop 6 w"
    by (metis append_take_drop_id)
  with w show "\<exists>a b. w = a @ CHR ''-'' # b \<and> hour_minute a \<and> hour_minute b"
    unfolding TIME_WINDOW_def by blast
next
  assume "\<exists>a b. w = a @ CHR ''-'' # b \<and> hour_minute a \<and> hour_minute b"
  then obtain a b where w: "w = a @ CHR ''-'' # b" and "hour_minute a" "hour_minute b"
    by blast
  moreover from this have "length a = 5"
    using hour_minute_length by blast
  moreover from this have "take 5 w = a" and "drop 5 w = CHR ''-'' # b" and "drop 6 w = b"
    by (simp_all add: w)
  ultimately show "TIME_WINDOW w"
    by (simp add: TIME_WINDOW_def)
qed

lemma bounds_split:
  assumes "CHR ''-'' \<notin> set a"
  shows "window_bounds (a @ CHR ''-'' # b) =
    (case (parse_minutes a, parse_minutes b) of (Some s, Some e) \<Rightarrow> Some (s, e) | _ \<Rightarrow> None)"
proof -
  have "takeWhile (\<lambda>c. c \<noteq> CHR ''-'') (a @ CHR ''-'' # b) = a"
    using assms by (subst takeWhile_append2) auto
  moreover have "drop (Suc (length a)) (a @ CHR ''-'' # b) = b"
    by (induction a) auto
  ultimately show ?thesis
    by (simp add: window_bounds_def del: drop_append drop_Suc_Cons cong: option.case_cong)
qed

lemma first_dash_unique:
  assumes "a @ c # b = a' @ c # b'" and "c \<notin> set a" and "c \<notin> set a'"
  shows "a = a'"
  using assms by (induction a arbitrary: a') (auto simp: Cons_eq_append_conv)

lemma window_bounds_iff: "window_bounds w \<noteq> None \<longleftrightarrow> TIME_WINDOW w"
proof (cases "CHR ''-'' \<in> set w")
  case True
  then obtain a b where w: "w = a @ CHR ''-'' # b" and a: "CHR ''-'' \<notin> set a"
    by (meson split_list_first)
  have "window_bounds w \<noteq> None \<longleftrightarrow> hour_minute a \<and> hour_minute b"
    using parse_minutes_iff [of a] parse_minutes_iff [of b] by (auto simp: w bounds_split [OF a] split: option.splits)
  also have "\<dots> \<longleftrightarrow> TIME_WINDOW w"
  proof
    assume "TIME_WINDOW w"
    then obtain a' b' where "w = a' @ CHR ''-'' # b'" and h: "hour_minute a'" "hour_minute b'"
      by (auto simp: TIME_WINDOW_split)
    with w a hour_minute_no_dash [OF h(1)] have "a = a'"
      using first_dash_unique by metis
    with w \<open>w = a' @ CHR ''-'' # b'\<close> have "b' = b"
      by simp
    with \<open>a = a'\<close> h show "hour_minute a \<and> hour_minute b" by simp
  qed (auto simp: TIME_WINDOW_split w)
  finally show ?thesis .
next
  case False
  then show ?thesis
    by (auto simp: window_bounds_def TIME_WINDOW_split)
qed

lemma window_lower: "TIME_WINDOW w \<Longrightarrow> to_lower w = w"
proof -
  assume "TIME_WINDOW w"
  then have "is_digit c \<or> c = CHR '':'' \<or> c = CHR ''-''" if "c \<in> set w" for c
    using that by (auto simp: TIME_WINDOW_split dest: hour_minute_chars)
  then have "lower_char c = c" if "c \<in> set w" for c
    using that by (force simp: lower_char_def is_upper_def is_digit_def code_def)
  then show ?thesis
    by (simp add: to_lower_def map_idI)
qed

lemma window_trim: "TIME_WINDOW w \<Longrightarrow> trim w = w"
proof (rule trim_fix, rule disjI2)
  assume w: "TIME_WINDOW w"
  then have "w \<noteq> []" and "\<forall>c \<in> set w. is_digit c \<or> c = CHR '':'' \<or> c = CHR ''-''"
    by (auto simp: TIME_WINDOW_split dest: hour_minute_chars)
  then show "\<not> is_ws (hd w) \<and> \<not> is_ws (last w)"
    by (force simp: is_ws_def is_digit_def code_def dest: hd_in_set last_in_set)
qed

text \<open>The page accepts as hours exactly the texts whose bounds the bastion can read.\<close>

theorem page_and_bastion_read_the_same_windows:
  "TIME_WINDOW w = (\<exists>s e. window_bounds w = Some (s, e) \<and> s < 24 * 60 \<and> e < 24 * 60)"
proof -
  have range: "parse_minutes v = Some m \<Longrightarrow> m < 1440" for v m
    by (cases v rule: parse_minutes.cases) (auto simp: Let_def split: if_splits)
  have "window_bounds w = Some (s, e) \<Longrightarrow> s < 1440 \<and> e < 1440" for s e
    by (auto simp: window_bounds_def Let_def range split: if_splits option.splits)
  then show ?thesis
    using window_bounds_iff [of w] by auto
qed


text \<open>The bastion's reading of a window, and that hours it cannot read refuse every access.\<close>

definition in_window :: "nat \<times> nat \<Rightarrow> nat \<Rightarrow> bool" where
  "in_window b t = (if fst b \<le> snd b then fst b \<le> t \<and> t \<le> snd b else fst b \<le> t \<or> t \<le> snd b)"

lemma match_any: "is_time_window_match_utc ''any'' h m"
proof -
  have "to_lower (trim ''any'') = ''any''"
    by code_simp
  then show ?thesis
    by (simp add: is_time_window_match_utc_def)
qed

lemma match_window:
  assumes "TIME_WINDOW w"
  shows "is_time_window_match_utc w h m = (\<exists>b. window_bounds w = Some b \<and> in_window b (h * 60 + m))"
proof -
  have "to_lower (trim w) = w"
    using assms by (simp add: window_trim window_lower)
  moreover have "w \<noteq> [] \<and> w \<noteq> ''any''"
    using assms by (auto simp: TIME_WINDOW_def)
  ultimately show ?thesis
    by (auto simp: is_time_window_match_utc_def in_window_def Let_def split: option.splits)
qed

lemma map_of_assoc_fold:
  "map_of (fold (\<lambda>(k, v). assoc_set k v) b a) k = (case map_of (rev b) k of Some v \<Rightarrow> Some v | None \<Rightarrow> map_of a k)"
  by (induction b arbitrary: a) (auto simp: map_add_def split: option.splits)

lemma map_of_rev_distinct: "distinct (map fst b) \<Longrightarrow> map_of (rev b) = map_of b"
  by (subst map_of_inject_set) (simp_all add: rev_map [symmetric])

subsection \<open>What is pending\<close>

lemma map_of_without_key [simp]: "map_of (without_key k kvs) k' = (if k' = k then None else map_of kvs k')"
  by (induction kvs) (auto simp: without_key_def)

lemma distinct_without_key: "distinct (map fst kvs) \<Longrightarrow> distinct (map fst (without_key k kvs))"
  by (simp add: without_key_def distinct_map_filter)

lemma map_of_put_pending:
  "map_of (put_pending same k v kvs) k' = (if k' = k then (if same then None else Some v) else map_of kvs k')"
  by (simp add: put_pending_def)

lemma distinct_put_pending: "distinct (map fst kvs) \<Longrightarrow> distinct (map fst (put_pending same k v kvs))"
  by (simp add: put_pending_def distinct_without_key assoc_set_distinct)

lemma put_pending_all:
  "list_all P kvs \<Longrightarrow> (\<not> same \<Longrightarrow> P (k, v)) \<Longrightarrow> list_all P (put_pending same k v kvs)"
  using assoc_set_all [of P kvs k v] by (auto simp: put_pending_def without_key_def list_all_iff)

definition pending_ok :: "zones_page \<Rightarrow> bool" where
  "pending_ok p =
     (distinct (map fst (zp_moves p)) \<and> distinct (map fst (zp_edits p)) \<and>
      list_all (\<lambda>e. snd e \<noteq> [] \<and> distinct (map fst (snd e))) (zp_edits p))"

lemma edits_of_ok: "pending_ok p \<Longrightarrow> distinct (map fst (edits_of p zone))"
  by (auto simp: edits_of_def pending_ok_def list_all_iff dest!: map_of_SomeD split: option.splits)

lemma setEdit_pending: "pending_ok p \<Longrightarrow> pending_ok (setEdit zone key v p)"
  using edits_of_ok [of p zone]
  by (auto simp: setEdit_def pending_ok_def Let_def distinct_put_pending intro!: put_pending_all)

lemma moveResource_pending: "pending_ok p \<Longrightarrow> pending_ok (moveResource r zone p)"
  by (simp add: moveResource_def pending_ok_def distinct_put_pending)

lemma onDrop_pending: "pending_ok p \<Longrightarrow> pending_ok (onDrop zone data p)"
  using moveResource_pending [of p]
  by (auto simp: onDrop_def Let_def pending_ok_def split: option.splits)

text \<open>
  What happens to the page: the person's changes, and the answers of the server whenever they come.
\<close>

inductive zones_reach :: "env \<Rightarrow> zones_page \<Rightarrow> bool" for env where
  opened: "zp_moves p = [] \<Longrightarrow> zp_edits p = [] \<Longrightarrow> zones_reach env p"
| edited: "zones_reach env p \<Longrightarrow> zones_reach env (setEdit zone key v p)"
| moved: "zones_reach env p \<Longrightarrow> zones_reach env (moveResource r zone p)"
| dropped: "zones_reach env p \<Longrightarrow> zones_reach env (onDrop zone data p)"
| created: "zones_reach env p \<Longrightarrow> zones_reach env (createZone (p\<lparr>zp_new_name := name\<rparr>))"
| cancelled: "zones_reach env p \<Longrightarrow> zones_reach env (reset_changes p)"
| policies: "zones_reach env p \<Longrightarrow> zones_reach env (policies_loaded env reply p)"
| relays: "zones_reach env p \<Longrightarrow> zones_reach env (relays_loaded reply p)"
| reloaded: "zones_reach env p \<Longrightarrow> zones_reach env (p\<lparr>zp_resources := rs, zp_routes := ros\<rparr>)"
| saving: "zones_reach env p \<Longrightarrow> zones_reach env (save_start p)"
| saved: "zones_reach env p \<Longrightarrow> zones_reach env (save_end report p)"

lemma pending_ok_cong: "zp_moves p = zp_moves q \<Longrightarrow> zp_edits p = zp_edits q \<Longrightarrow> pending_ok p = pending_ok q"
  by (simp add: pending_ok_def)

lemma reach_pending: "zones_reach env p \<Longrightarrow> pending_ok p"
proof (induction rule: zones_reach.induct)
  case (created p name)
  then show ?case
    by (auto simp: createZone_def Let_def elim: pending_ok_cong [THEN iffD1, rotated 2])
next
  case (policies p reply)
  then show ?case
    by (auto simp: policies_loaded_def pending_ok_def split: sum.splits)
next
  case (relays p reply)
  then show ?case
    by (auto simp: relays_loaded_def pending_ok_def split: sum.splits)
qed (auto simp: setEdit_pending moveResource_pending onDrop_pending, auto simp: pending_ok_def reset_changes_def
    save_start_def save_end_def)


lemma jget_spread_distinct:
  assumes "distinct (map fst b)" and "map_of b k = Some x"
  shows "jget (spread v (JObj b)) k = x"
  using assms by (cases v) (auto simp: map_of_assoc_fold map_of_rev_distinct)

lemma field_values:
  assumes "pending_ok p"
  shows "field_of (valuesOf p zone) key =
    (case map_of (edits_of p zone) key of Some v \<Rightarrow> v | None \<Rightarrow> field_of (baseOf p zone) key)"
  using map_of_rev_distinct [OF edits_of_ok [OF assms]]
  by (auto simp: field_of_def valuesOf_def map_of_assoc_fold split: option.splits)

text \<open>C18: The hours a person types for a zone are enforced when the bastion can read them.  Otherwise,
  as written, the save replaces them by "any", and the zone is open at every hour, where the bastion
  itself refuses every access under a window it cannot read.\<close>

theorem unreadable_hours_open_the_zone:
  assumes "zones_reach env p" and "map_of (edits_of p zone) ''window'' = Some (JStr w)"
  shows "jget (policy_payload env p zone) ''timeWindow'' = JStr (if TIME_WINDOW w then w else ''any'') \<and>
    is_time_window_match_utc (if TIME_WINDOW w then w else ''any'') h m =
      (case window_bounds w of None \<Rightarrow> True | Some b \<Rightarrow> in_window b (h * 60 + m))"
proof
  have "field_of (valuesOf p zone) ''window'' = JStr w"
    using field_values [OF reach_pending [OF assms(1)]] assms(2) by simp
  moreover have "truthy (JStr w)" if "TIME_WINDOW w"
    using that by (cases w) (auto simp: TIME_WINDOW_def)
  ultimately show "jget (policy_payload env p zone) ''timeWindow'' = JStr (if TIME_WINDOW w then w else ''any'')"
    unfolding policy_payload_def Let_def by (subst jget_spread_distinct) (auto simp: saved_window_def)
  show "is_time_window_match_utc (if TIME_WINDOW w then w else ''any'') h m =
      (case window_bounds w of None \<Rightarrow> True | Some b \<Rightarrow> in_window b (h * 60 + m))"
    using match_window [of w h m] match_any window_bounds_iff [of w] by (auto split: option.splits)
qed

lemma unreadable_hours_refused:
  assumes "\<not> TIME_WINDOW (to_lower (trim w))" and "to_lower (trim w) \<noteq> []" and "to_lower (trim w) \<noteq> ''any''"
  shows "\<not> is_time_window_match_utc w h m"
  using assms window_bounds_iff [of "to_lower (trim w)"] by (auto simp: is_time_window_match_utc_def Let_def split: option.splits)

subsection \<open>The page shows the last change of each value\<close>

text \<open>
  The edits of the zones and the moves of the resources are both kept as differences with what the
  server has; to the person they are a table where the last value written to a place is the one shown.
\<close>

locale pending_view =
  fixes put :: "'k \<Rightarrow> 'v \<Rightarrow> 's \<Rightarrow> 's"
    and seen :: "'s \<Rightarrow> 'k \<Rightarrow> 'v"
    and ok :: "'s \<Rightarrow> bool"
    and known :: "'s \<Rightarrow> 'k \<Rightarrow> bool"
  assumes ok_put: "ok s \<Longrightarrow> ok (put k v s)"
    and known_put: "known (put k v s) k' = known s k'"
    and seen_put: "ok s \<Longrightarrow> known s k \<Longrightarrow> known s k' \<Longrightarrow> seen (put k v s) k' = (if k' = k then v else seen s k')"
begin

definition put_all :: "('k \<times> 'v) list \<Rightarrow> 's \<Rightarrow> 's" where
  "put_all cs s = fold (\<lambda>(k, v). put k v) cs s"

lemma put_all_seen:
  assumes "ok s" and "known s k" and "list_all (\<lambda>c. known s (fst c)) cs"
  shows "seen (put_all cs s) k = (case map_of (rev cs) k of Some v \<Rightarrow> v | None \<Rightarrow> seen s k)"
  using assms
proof (induction cs arbitrary: s)
  case Nil
  then show ?case by (simp add: put_all_def)
next
  case (Cons c cs)
  obtain j v where c: "c = (j, v)"
    by fastforce
  have "seen (put_all cs (put j v s)) k = (case map_of (rev cs) k of Some v \<Rightarrow> v | None \<Rightarrow> seen (put j v s) k)"
    by (rule Cons.IH) (use Cons.prems in \<open>auto simp: c ok_put known_put\<close>)
  then show ?case
    using Cons.prems seen_put [of s j k v]
    by (auto simp: c put_all_def map_add_def split: option.splits)
qed

end

lemma baseOf_setEdit: "baseOf (setEdit zone key v p) = baseOf p"
  by (simp add: fun_eq_iff baseOf_def setEdit_def managedPolicy_def relay_value_def Let_def cong: map_cong)

lemma edits_of_setEdit:
  "map_of (edits_of (setEdit zone key v p) z) k =
     (if z = zone \<and> k = key then (if strict_eq (field_of (baseOf p zone) key) v then None else Some v)
      else map_of (edits_of p z) k)"
proof -
  let ?c = "put_pending (strict_eq (field_of (baseOf p zone) key) v) key v (edits_of p zone)"
  have "map_of (edits_of (setEdit zone key v p) z) = (if z = zone then map_of ?c else map_of (edits_of p z))"
    by (simp add: setEdit_def Let_def edits_of_def map_of_put_pending)
  then show ?thesis
    by (simp add: map_of_put_pending)
qed

lemma values_setEdit:
  assumes "pending_ok p"
  shows "field_of (valuesOf (setEdit zone key v p) z) k =
    (if z = zone \<and> k = key then v else field_of (valuesOf p z) k)"
  using field_values [OF assms] field_values [OF setEdit_pending [OF assms], of zone key v]
  by (auto simp: edits_of_setEdit baseOf_setEdit dest: strict_eq_eq split: option.splits)

interpretation zone_edits: pending_view "\<lambda>zk. setEdit (fst zk) (snd zk)"
  "\<lambda>p zk. field_of (valuesOf p (fst zk)) (snd zk)" pending_ok "\<lambda>p zk. True"
  by unfold_locales (auto simp: setEdit_pending values_setEdit prod_eq_iff)

definition ids_distinct :: "zones_page \<Rightarrow> bool" where
  "ids_distinct p = distinct (map (\<lambda>r. js_string (jget r ''id'')) (zp_resources p))"

lemma same_id_same_resource:
  "ids_distinct p \<Longrightarrow> r \<in> set (zp_resources p) \<Longrightarrow> r' \<in> set (zp_resources p) \<Longrightarrow>
     js_string (jget r ''id'') = js_string (jget r' ''id'') \<Longrightarrow> r = r'"
  by (simp add: ids_distinct_def distinct_map inj_on_def)

lemma zone_moveResource:
  assumes "ids_distinct p" and "r \<in> set (zp_resources p)" and "r' \<in> set (zp_resources p)"
  shows "zoneOfResource (moveResource r zone p) r' = (if r' = r then zone else zoneOfResource p r')"
  using assms same_id_same_resource [OF assms]
  by (auto simp: zoneOfResource_def moveResource_def map_of_put_pending)

interpretation zone_moves: pending_view moveResource zoneOfResource ids_distinct
  "\<lambda>p r. r \<in> set (zp_resources p)"
  by unfold_locales (auto simp: zone_moveResource, auto simp: moveResource_def ids_distinct_def)

text \<open>C19: After any sequence of edits the page shows, for every rule of every zone, the value it was
  last set to, and the rule of the server where it was not set, also when a value was set back.\<close>

theorem last_edit_is_shown:
  assumes "zones_reach env p"
  shows "field_of (valuesOf (fold (\<lambda>((z, k), v). setEdit z k v) cs p) zone) key =
    (case map_of (rev cs) (zone, key) of Some v \<Rightarrow> v | None \<Rightarrow> field_of (valuesOf p zone) key)"
proof -
  have "fold (\<lambda>((z, k), v). setEdit z k v) cs p = zone_edits.put_all cs p"
    by (simp add: zone_edits.put_all_def case_prod_unfold)
  then show ?thesis
    using zone_edits.put_all_seen [OF reach_pending [OF assms], of cs "(zone, key)"]
    by (simp add: list_all_iff cong: option.case_cong)
qed

lemma last_move_is_shown:
  assumes "ids_distinct p" and "r \<in> set (zp_resources p)" and "list_all (\<lambda>c. fst c \<in> set (zp_resources p)) cs"
  shows "zoneOfResource (fold (\<lambda>(r, z). moveResource r z) cs p) r =
    (case map_of (rev cs) r of Some z \<Rightarrow> z | None \<Rightarrow> zoneOfResource p r)"
  using zone_moves.put_all_seen [OF assms] by (simp add: zone_moves.put_all_def)


subsection \<open>What a save sends\<close>

lemma fold_untouched:
  assumes "\<And>y acc. y \<in> set xs \<Longrightarrow> map_of (f y acc) k = map_of acc k"
  shows "map_of (fold f xs acc) k = map_of acc k"
  using assms by (induction xs arbitrary: acc) auto

lemma fold_touch:
  assumes "distinct xs" and "x \<in> set xs"
    and other: "\<And>y acc. y \<in> set xs \<Longrightarrow> y \<noteq> x \<Longrightarrow> map_of (f y acc) k = map_of acc k"
    and local: "\<And>acc acc'. map_of acc k = map_of acc' k \<Longrightarrow> map_of (f x acc) k = map_of (f x acc') k"
  shows "map_of (fold f xs acc) k = map_of (f x acc) k"
proof -
  obtain as bs where xs: "xs = as @ x # bs"
    using assms(2) by (meson split_list)
  then have "map_of (fold f as acc) k = map_of acc k"
    using assms(1) by (intro fold_untouched other) auto
  moreover have "map_of (fold f bs (f x (fold f as acc))) k = map_of (f x (fold f as acc)) k"
    using assms(1) xs by (intro fold_untouched other) auto
  ultimately show ?thesis
    using local [of "fold f as acc" acc] by (simp add: xs)
qed

lemma other_entry_other_key:
  assumes "distinct (map fst kvs)" and "map_of kvs k = Some v" and "e \<in> set kvs" and "e \<noteq> (k, v)"
  shows "fst e \<noteq> k"
  by (metis assms eq_key_imp_eq_value map_of_SomeD prod.collapse)

lemma no_entry: "map_of kvs k = None \<Longrightarrow> e \<in> set kvs \<Longrightarrow> fst e \<noteq> k"
  by (metis imageI map_of_eq_None_iff)

lemma set_js_entries [simp]: "set (js_entries kvs) = set kvs"
  by (simp add: js_entries_def)

lemma distinct_js_entries: "distinct (map fst kvs) \<Longrightarrow> distinct (js_entries kvs)"
  using distinct_sort_by [of fst entry_before kvs] distinct_map [of fst "js_entries kvs"]
  by (simp add: js_entries_def)

lemma resource_with_key_id: "resource_with_key p i = Some r \<Longrightarrow> js_string (jget r ''id'') = i \<and> r \<in> set (zp_resources p)"
  by (auto simp: resource_with_key_def find_Some_iff)

lemma resource_with_key_own:
  assumes "ids_distinct p" and "r \<in> set (zp_resources p)"
  shows "resource_with_key p (js_string (jget r ''id'')) = Some r"
proof (cases "resource_with_key p (js_string (jget r ''id''))")
  case None
  with assms(2) show ?thesis by (auto simp: resource_with_key_def find_None_iff)
next
  case (Some r')
  with resource_with_key_id [OF Some] same_id_same_resource [OF assms(1), of r' r] assms(2)
  show ?thesis by simp
qed

definition moved_changes :: "zones_page \<Rightarrow> json \<Rightarrow> changes option" where
  "moved_changes p r =
     map_option (\<lambda>z. [(''tagsCsv'', JStr (tagsWithZone (jget r ''tagsCsv'') z))])
       (map_of (zp_moves p) (js_string (jget r ''id'')))"

lemma moves_of_resource:
  assumes "pending_ok p" and "ids_distinct p" and "r \<in> set (zp_resources p)"
  shows "map_of (fold (add_move p) (js_entries (zp_moves p)) []) (jget r ''id'') = moved_changes p r"
proof (cases "map_of (zp_moves p) (js_string (jget r ''id''))")
  case None
  have "map_of (add_move p y acc) (jget r ''id'') = map_of acc (jget r ''id'')" if "y \<in> set (js_entries (zp_moves p))" for y acc
    using that None by (auto simp: add_move_def map_of_eq_None_iff dest!: resource_with_key_id split: option.splits)
  then have "map_of (fold (add_move p) (js_entries (zp_moves p)) []) (jget r ''id'') = None"
    by (subst fold_untouched) auto
  then show ?thesis
    using None by (simp add: moved_changes_def)
next
  case (Some z)
  have d: "distinct (map fst (zp_moves p))"
    using assms(1) by (simp add: pending_ok_def)
  have "map_of (fold (add_move p) (js_entries (zp_moves p)) []) (jget r ''id'') =
        map_of (add_move p (js_string (jget r ''id''), z) []) (jget r ''id'')"
  proof (rule fold_touch)
    show "distinct (js_entries (zp_moves p))" and "(js_string (jget r ''id''), z) \<in> set (js_entries (zp_moves p))"
      using d Some by (auto simp: distinct_js_entries dest: map_of_SomeD)
    show "map_of (add_move p y acc) (jget r ''id'') = map_of acc (jget r ''id'')"
      if "y \<in> set (js_entries (zp_moves p))" and "y \<noteq> (js_string (jget r ''id''), z)" for y acc
    proof -
      have "fst y \<noteq> js_string (jget r ''id'')"
        using other_entry_other_key [OF d Some] that by simp
      then show ?thesis
        by (auto simp: add_move_def dest!: resource_with_key_id split: option.splits)
    qed
  qed (auto simp: add_move_def split: option.splits)
  then show ?thesis
    using Some resource_with_key_own [OF assms(2,3)] by (simp add: add_move_def moved_changes_def)
qed

definition ruled_changes :: "changes \<Rightarrow> changes option \<Rightarrow> changes option" where
  "ruled_changes edit before =
     (if ''risk'' \<notin> fst ` set edit \<and> ''guard'' \<notin> fst ` set edit then before
      else let c = (case before of Some c \<Rightarrow> c | None \<Rightarrow> []);
               risk = (case map_of edit ''risk'' of Some v \<Rightarrow> assoc_set ''riskLevel'' v c | None \<Rightarrow> c) in
           Some (case map_of edit ''guard'' of
                   Some v \<Rightarrow> assoc_set ''enableCommandGuard'' (JBool (v = JStr ''on'')) risk | None \<Rightarrow> risk))"

lemma add_rules_other: "jget r' ''id'' \<noteq> k \<Longrightarrow> map_of (add_rules e r' acc) k = map_of acc k"
  by (simp add: add_rules_def Let_def)

lemma distinct_resources: "ids_distinct p \<Longrightarrow> distinct (zp_resources p)"
  by (auto simp: ids_distinct_def distinct_map)

lemma add_edit_other:
  assumes "ids_distinct p" and "r \<in> set (zp_resources p)" and "fst e \<noteq> zoneOfResource p r"
  shows "map_of (add_edit p e acc) (jget r ''id'') = map_of acc (jget r ''id'')"
proof -
  have "jget r' ''id'' \<noteq> jget r ''id''" if "r' \<in> set (membersOf p (fst e))" for r'
    using that assms same_id_same_resource [OF assms(1,2), of r'] by (auto simp: membersOf_def)
  then show ?thesis
    by (simp add: add_edit_def fold_untouched add_rules_other)
qed

lemma add_edit_own:
  assumes "ids_distinct p" and "r \<in> set (zp_resources p)" and "fst e = zoneOfResource p r"
  shows "map_of (add_edit p e acc) (jget r ''id'') = ruled_changes (snd e) (map_of acc (jget r ''id''))"
proof (cases "''risk'' \<notin> fst ` set (snd e) \<and> ''guard'' \<notin> fst ` set (snd e)")
  case True
  then show ?thesis by (simp add: add_edit_def ruled_changes_def)
next
  case False
  have "map_of (fold (add_rules (snd e)) (membersOf p (fst e)) acc) (jget r ''id'') =
        map_of (add_rules (snd e) r acc) (jget r ''id'')"
  proof (rule fold_touch)
    show "distinct (membersOf p (fst e))" and "r \<in> set (membersOf p (fst e))"
      using assms by (auto simp: membersOf_def distinct_resources)
    show "map_of (add_rules (snd e) r' acc) (jget r ''id'') = map_of acc (jget r ''id'')"
      if "r' \<in> set (membersOf p (fst e))" and "r' \<noteq> r" for r' acc
      using that same_id_same_resource [OF assms(1,2), of r'] by (intro add_rules_other) (auto simp: membersOf_def)
  qed (simp add: add_rules_def Let_def)
  with False show ?thesis
    unfolding add_edit_def ruled_changes_def by (auto simp: add_rules_def Let_def)
qed


lemma report_counts_every_request:
  "fst (run_items env answer items rep) + length (snd (run_items env answer items rep)) =
     fst rep + length (snd rep) + length items"
  by (induction env answer items rep rule: run_items.induct) (auto split: sum.splits)


subsection \<open>An example\<close>

definition sample_resource :: json where
  "sample_resource = JObj [(''id'', JNum 7), (''name'', JStr ''web-1''), (''tagsCsv'', JStr ''linux'')]"

definition sample_zones :: zones_page where
  "sample_zones = \<lparr>zp_resources = [sample_resource], zp_policies = [], zp_relays = [], zp_routes = [],
     zp_policies_licensed = True, zp_relays_licensed = False, zp_new_zones = [''prod''], zp_selected = None,
     zp_moves = [], zp_edits = [], zp_drag = JNull, zp_drop_zone = None, zp_creating = False, zp_new_name = [],
     zp_saving = False, zp_load_error = [], zp_report = None\<rparr>"

lemma sample_zones_opened: "zones_reach env sample_zones"
  by (rule zones_reach.opened) (simp_all add: sample_zones_def)

definition sample_hours :: zones_page where
  "sample_hours = setEdit ''prod'' ''window'' (JStr ''7-20'') sample_zones"

lemma sample_hours_facts:
  "zones_reach env sample_hours" "edits_of sample_hours ''prod'' = [(''window'', JStr ''7-20'')]"
  "\<not> TIME_WINDOW ''7-20''" "window_bounds ''7-20'' = None"
proof -
  show "zones_reach env sample_hours"
    unfolding sample_hours_def by (intro zones_reach.edited sample_zones_opened)
  show "edits_of sample_hours ''prod'' = [(''window'', JStr ''7-20'')]" "\<not> TIME_WINDOW ''7-20''"
    "window_bounds ''7-20'' = None"
    by code_simp+
qed

theorem unreadable_hours_open_the_zone_witness:
  "jget (policy_payload sample_env sample_hours ''prod'') ''timeWindow'' = JStr ''any'' \<and> is_time_window_match_utc ''any'' 3 0"
  using unreadable_hours_open_the_zone [of sample_env sample_hours "''prod''" "''7-20''" 3 0]
  by (simp add: sample_hours_facts)

theorem last_edit_is_shown_witness:
  "field_of (valuesOf (fold (\<lambda>((z, k), v). setEdit z k v)
      [((''prod'', ''mfa''), JStr ''totp''), ((''prod'', ''mfa''), JStr ''any'')] sample_zones) ''prod'') ''mfa'' = JStr ''any''"
  using last_edit_is_shown [OF sample_zones_opened,
      of "[((''prod'', ''mfa''), JStr ''totp''), ((''prod'', ''mfa''), JStr ''any'')]" "''prod''" "''mfa''"]
  by simp

definition sample_move :: zones_page where
  "sample_move = setEdit ''prod'' ''risk'' (JStr ''high'') (moveResource sample_resource ''prod'' sample_zones)"

lemma sample_move_facts:
  "zones_reach env sample_move" "ids_distinct sample_move" "sample_resource \<in> set (zp_resources sample_move)"
  "edits_of sample_move (zoneOfResource sample_move sample_resource) = [(''risk'', JStr ''high'')]"
  "moved_changes sample_move sample_resource = Some [(''tagsCsv'', JStr ''zone:prod,linux'')]"
proof -
  show "zones_reach env sample_move"
    unfolding sample_move_def by (intro zones_reach.edited zones_reach.moved sample_zones_opened)
  show "ids_distinct sample_move" "sample_resource \<in> set (zp_resources sample_move)"
    by (simp_all add: ids_distinct_def sample_move_def setEdit_def moveResource_def Let_def sample_zones_def)
  show "edits_of sample_move (zoneOfResource sample_move sample_resource) = [(''risk'', JStr ''high'')]"
    "moved_changes sample_move sample_resource = Some [(''tagsCsv'', JStr ''zone:prod,linux'')]"
    by code_simp+
qed


text \<open>What is changed while a save runs is dropped when it ends, as written.\<close>

lemma change_during_a_save_is_lost:
  "edits_of (save_end report (setEdit zone key v (save_start p))) zone = [] \<and>
   zoneOfResource (save_end report (moveResource r zone (save_start p))) r = zoneOf r"
  by (simp add: save_end_def edits_of_def zoneOfResource_def)


end
