(* ===== verification/SessionsView.thy ===== *)
theory SessionsView
  imports AccessMap
begin

section \<open>The page of the sessions (pages/SessionsPage.jsx)\<close>

text \<open>
  The page shows one thing at a time: the list, the tab of an active session, or the observed
  session.  The terminal belongs to App.jsx and is shared by the SSH tabs; \<open>sv_terminal\<close> is its session.
  What App.jsx passes changes by itself, and the effects of the page then run, in the order of the source,
  on the values of the render; \<open>commit\<close> runs them until nothing changes.
\<close>

subsection \<open>The state\<close>

datatype tab_view = All_sessions | Session_tab string | Shadow_tab

record sessions_view =
  sv_sessions :: "json list"
  sv_resources :: "json list"
  sv_user :: json
  sv_operates :: bool
  sv_views_audit :: bool
  sv_terminal :: json
  sv_status :: string
  sv_shadow :: json
  sv_view :: tab_view
  sv_mode :: string
  sv_query :: string
  sv_operator :: json
  sv_picked :: json
  sv_seen_terminal :: json
  sv_seen_shadow :: json

definition session_protocol :: "json \<Rightarrow> string" where
  "session_protocol session = to_lower (text_or (jget session ''protocol'') [])"

definition isWeb :: "json \<Rightarrow> bool" where
  "isWeb session = (session_protocol session \<in> {''http'', ''https''})"

definition is_active :: "json \<Rightarrow> bool" where
  "is_active session = (jget session ''status'' = JStr ''active'')"

definition operated_by :: "json \<Rightarrow> json \<Rightarrow> bool" where
  "operated_by person session = strict_eq (jget session ''operator'') person"

text \<open>\<open>Date.parse(a.k) - Date.parse(b.k)\<close> below zero; a difference that is NaN counts as zero.\<close>

definition earlier :: "(int \<Rightarrow> int) \<Rightarrow> string \<Rightarrow> json \<Rightarrow> json \<Rightarrow> bool" where
  "earlier zone k a b =
     (case (parse_of zone (jget a k), parse_of zone (jget b k)) of
        (Some x, Some y) \<Rightarrow> x < y
      | _ \<Rightarrow> False)"

subsection \<open>Tabs\<close>

definition same_id :: "json \<Rightarrow> json \<Rightarrow> bool" where
  "same_id a b = strict_eq (jget a ''id'') (jget b ''id'')"

definition my_sessions :: "(int \<Rightarrow> int) \<Rightarrow> sessions_view \<Rightarrow> json list" where
  "my_sessions zone p =
     (let own = filter (\<lambda>s. is_active s \<and> operated_by (sv_user p) s) (sv_sessions p);
          terminal = sv_terminal p;
          shown = (case find (\<lambda>s. same_id s terminal) (sv_sessions p) of Some s \<Rightarrow> s | None \<Rightarrow> terminal);
          all = (if truthy terminal \<and> \<not> list_ex (\<lambda>s. same_id s terminal) own \<and> is_active shown
                 then own @ [shown] else own) in
      sort_by (earlier zone ''createdAt'') all)"

definition tab_of :: "json \<Rightarrow> tab_view" where
  "tab_of session = Session_tab (js_string (jget session ''id''))"

definition current_session :: "sessions_view \<Rightarrow> json" where
  "current_session p =
     (case sv_view p of
        Session_tab i \<Rightarrow> find_or_null (\<lambda>s. js_string (jget s ''id'') = i) (sv_sessions p)
      | _ \<Rightarrow> JNull)"

definition currentIsTerminal :: "sessions_view \<Rightarrow> bool" where
  "currentIsTerminal p =
     (truthy (current_session p) \<and> session_protocol (current_session p) = ''ssh'' \<and> same_id (sv_terminal p) (current_session p))"

text \<open>The three effects of one render.  A terminal or an observed session that was replaced takes the
  view; a tab whose session ended or disappeared gives way to the list.\<close>

definition follow_terminal :: "sessions_view \<Rightarrow> sessions_view \<Rightarrow> sessions_view" where
  "follow_terminal render p =
     (if jget (sv_terminal render) ''id'' = sv_seen_terminal render \<or> \<not> truthy (sv_terminal render) then p
      else p\<lparr>sv_view := tab_of (sv_terminal render)\<rparr>)"

definition follow_shadow :: "sessions_view \<Rightarrow> sessions_view \<Rightarrow> sessions_view" where
  "follow_shadow render p =
     (if jget (sv_shadow render) ''id'' = sv_seen_shadow render then p
      else if truthy (sv_shadow render) then p\<lparr>sv_view := Shadow_tab\<rparr>
      else p\<lparr>sv_view := (if sv_view p = Shadow_tab then All_sessions else sv_view p)\<rparr>)"

definition leave_ended :: "sessions_view \<Rightarrow> sessions_view \<Rightarrow> sessions_view" where
  "leave_ended render p =
     (case sv_view render of
        Session_tab i \<Rightarrow>
          if truthy (current_session render) \<and> is_active (current_session render) then p
          else p\<lparr>sv_picked := (if truthy (current_session render) then jget (current_session render) ''id'' else sv_picked p),
                 sv_view := All_sessions\<rparr>
      | _ \<Rightarrow> p)"

definition run_effects :: "sessions_view \<Rightarrow> sessions_view" where
  "run_effects p =
     (leave_ended p (follow_shadow p (follow_terminal p p)))
       \<lparr>sv_seen_terminal := jget (sv_terminal p) ''id'', sv_seen_shadow := jget (sv_shadow p) ''id''\<rparr>"

definition commit :: "sessions_view \<Rightarrow> sessions_view" where
  "commit p = run_effects (run_effects p)"

definition openTab :: "json \<Rightarrow> sessions_view \<Rightarrow> sessions_view" where
  "openTab session p =
     (let p' = (if session_protocol session = ''ssh'' \<and> \<not> same_id (sv_terminal p) session
                then p\<lparr>sv_terminal := session\<rparr> else p) in
      p'\<lparr>sv_view := tab_of session\<rparr>)"

subsection \<open>The list\<close>

definition in_mode :: "sessions_view \<Rightarrow> json \<Rightarrow> bool" where
  "in_mode p session = (if sv_mode p = ''active'' then is_active session else \<not> is_active session)"

definition resource_by_number :: "sessions_view \<Rightarrow> json \<Rightarrow> json" where
  "resource_by_number p v =
     (case find (\<lambda>r. js_number (jget r ''id'') = js_number v) (rev (sv_resources p)) of Some r \<Rightarrow> r | None \<Rightarrow> JUndef)"

definition resourceOf :: "sessions_view \<Rightarrow> json \<Rightarrow> json" where
  "resourceOf p session =
     jor (resource_by_number p (jget session ''resourceId''))
       (find_or_null (\<lambda>r. strict_eq (jget r ''target'') (jget session ''target'') \<and>
                          same_number (jget r ''port'') (jget session ''port'')) (sv_resources p))"

definition nameOf :: "sessions_view \<Rightarrow> json \<Rightarrow> json" where
  "nameOf p session = jor (jget (resourceOf p session) ''name'') (jget session ''target'')"

definition activeCount :: "sessions_view \<Rightarrow> nat" where
  "activeCount p = length (filter is_active (sv_sessions p))"

definition count_operator :: "json \<Rightarrow> (json \<times> nat) list \<Rightarrow> (json \<times> nat) list" where
  "count_operator s counts =
     (let name = jget s ''operator'' in
      if truthy name
      then assoc_set name (Suc (case map_of counts name of Some n \<Rightarrow> n | None \<Rightarrow> 0)) counts
      else counts)"

definition name_operator :: "json \<Rightarrow> (json \<times> nat) list \<Rightarrow> (json \<times> nat) list" where
  "name_operator s counts =
     (let name = jget s ''operator'' in
      if truthy name \<and> map_of counts name = None then assoc_set name 0 counts else counts)"

definition operator_before :: "(string \<Rightarrow> string \<Rightarrow> bool) \<Rightarrow> json \<Rightarrow> json \<times> nat \<Rightarrow> json \<times> nat \<Rightarrow> bool" where
  "operator_before before person a b =
     (if strict_eq (fst a) person then True else if strict_eq (fst b) person then False
      else before (js_string (fst a)) (js_string (fst b)))"

definition operators :: "(string \<Rightarrow> string \<Rightarrow> bool) \<Rightarrow> sessions_view \<Rightarrow> (json \<times> nat) list" where
  "operators before p =
     sort_by (operator_before before (sv_user p))
       (fold name_operator (sv_sessions p)
          (fold count_operator (filter (in_mode p) (sv_sessions p)) []))"

definition manyOperators :: "(string \<Rightarrow> string \<Rightarrow> bool) \<Rightarrow> sessions_view \<Rightarrow> bool" where
  "manyOperators before p = (1 < length (operators before p))"

definition searched :: "sessions_view \<Rightarrow> json \<Rightarrow> json list" where
  "searched p s =
     [JStr (js_string (jget s ''id'')), jget s ''operator'', jget s ''user'', jget s ''target'',
      jget s ''protocol'', jget (resource_by_number p (jget s ''resourceId'')) ''name'']"

definition found :: "sessions_view \<Rightarrow> json \<Rightarrow> bool" where
  "found p s =
     (let q = to_lower (trim (sv_query p)) in
      q = [] \<or> list_ex (\<lambda>v. str_includes (to_lower (text_or v [])) q) (searched p s))"

definition listed :: "(int \<Rightarrow> int) \<Rightarrow> sessions_view \<Rightarrow> json list" where
  "listed zone p =
     sort_by (\<lambda>a b. earlier zone ''createdAt'' b a)
       (filter (found p)
         (filter (\<lambda>s. \<not> truthy (sv_operator p) \<or> operated_by (sv_operator p) s)
           (filter (in_mode p) (sv_sessions p))))"

subsection \<open>The tab in view and the terminal\<close>

text \<open>What App.jsx passes: session identifiers are whole numbers, each listed once.\<close>

definition numbered :: "json \<Rightarrow> bool" where
  "numbered s = (truthy s \<and> (\<exists>i. jget s ''id'' = JInt i))"

definition passed_ok :: "json list \<Rightarrow> json \<Rightarrow> json \<Rightarrow> bool" where
  "passed_ok sessions terminal shadow =
     (list_all numbered sessions \<and> distinct (map (\<lambda>s. jget s ''id'') sessions) \<and>
      (truthy terminal \<longrightarrow> numbered terminal) \<and> (truthy shadow \<longrightarrow> numbered shadow))"

definition same_protocols :: "json list \<Rightarrow> json list \<Rightarrow> bool" where
  "same_protocols old new =
     list_all (\<lambda>s. list_all (\<lambda>s'. jget s ''id'' = jget s' ''id'' \<longrightarrow> session_protocol s = session_protocol s') new) old"

definition page_opened :: "sessions_view \<Rightarrow> sessions_view" where
  "page_opened p =
     p\<lparr>sv_view := (if truthy (sv_terminal p) then tab_of (sv_terminal p) else All_sessions),
       sv_mode := ''active'', sv_query := [], sv_operator := JStr [], sv_picked := JNull,
       sv_seen_terminal := JArr [], sv_seen_shadow := JArr []\<rparr>"

inductive sv_reach :: "sessions_view \<Rightarrow> bool" where
  opened: "passed_ok (sv_sessions p) (sv_terminal p) (sv_shadow p) \<Longrightarrow> sv_reach (commit (page_opened p))"
| passed: "sv_reach p \<Longrightarrow> passed_ok ss tm sh \<Longrightarrow> same_protocols (sv_sessions p) ss \<Longrightarrow>
    sv_reach (commit (p\<lparr>sv_sessions := ss, sv_terminal := tm, sv_status := st, sv_shadow := sh\<rparr>))"
| tab: "sv_reach p \<Longrightarrow> s \<in> set (my_sessions zone p) \<or> s \<in> set (listed zone p) \<Longrightarrow> sv_reach (commit (openTab s p))"
| list_tab: "sv_reach p \<Longrightarrow> sv_reach (commit (p\<lparr>sv_view := All_sessions\<rparr>))"
| shadow_tab: "sv_reach p \<Longrightarrow> truthy (sv_shadow p) \<Longrightarrow> sv_reach (commit (p\<lparr>sv_view := Shadow_tab\<rparr>))"
| filters: "sv_reach p \<Longrightarrow>
    sv_reach (commit (p\<lparr>sv_mode := m, sv_query := q, sv_operator := w, sv_picked := i\<rparr>))"

text \<open>The invariant: the effects have run; a tab is that of an active session, and an SSH tab that of
  the terminal, if there is one.\<close>

definition tab_ok :: "sessions_view \<Rightarrow> bool" where
  "tab_ok p =
     (case sv_view p of
        All_sessions \<Rightarrow> True
      | Shadow_tab \<Rightarrow> truthy (sv_shadow p)
      | Session_tab i \<Rightarrow> truthy (current_session p) \<and> is_active (current_session p) \<and>
          (session_protocol (current_session p) = ''ssh'' \<and> truthy (sv_terminal p) \<longrightarrow>
             js_string (jget (sv_terminal p) ''id'') = i))"

definition settled :: "sessions_view \<Rightarrow> bool" where
  "settled p = (passed_ok (sv_sessions p) (sv_terminal p) (sv_shadow p) \<and> tab_ok p \<and>
     sv_seen_terminal p = jget (sv_terminal p) ''id'' \<and> sv_seen_shadow p = jget (sv_shadow p) ''id'')"

lemma jget_falsy: "\<not> truthy v \<Longrightarrow> jget v k = JUndef"
  by (cases v) auto

lemma numbered_id: "numbered s \<Longrightarrow> jget s ''id'' \<noteq> JUndef"
  by (auto simp: numbered_def)

lemma run_effects_fields [simp]:
  "sv_sessions (run_effects p) = sv_sessions p" "sv_terminal (run_effects p) = sv_terminal p"
  "sv_shadow (run_effects p) = sv_shadow p"
  "sv_seen_terminal (run_effects p) = jget (sv_terminal p) ''id''"
  "sv_seen_shadow (run_effects p) = jget (sv_shadow p) ''id''"
  by (simp_all add: run_effects_def leave_ended_def follow_shadow_def follow_terminal_def split: tab_view.split)

lemma commit_fields [simp]:
  "sv_sessions (commit p) = sv_sessions p" "sv_terminal (commit p) = sv_terminal p"
  "sv_shadow (commit p) = sv_shadow p"
  "sv_seen_terminal (commit p) = jget (sv_terminal p) ''id''"
  "sv_seen_shadow (commit p) = jget (sv_shadow p) ''id''"
  by (simp_all add: commit_def)

text \<open>What one run of the effects leaves in view.\<close>

lemma run_effects_view:
  "sv_view (run_effects p) =
     (if \<exists>i. sv_view p = Session_tab i \<and> \<not> (truthy (current_session p) \<and> is_active (current_session p)) then All_sessions
      else let v = (if jget (sv_terminal p) ''id'' \<noteq> sv_seen_terminal p \<and> truthy (sv_terminal p)
                    then tab_of (sv_terminal p) else sv_view p) in
           if jget (sv_shadow p) ''id'' = sv_seen_shadow p then v
           else if truthy (sv_shadow p) then Shadow_tab
           else if v = Shadow_tab then All_sessions else v)"
  by (auto simp: run_effects_def leave_ended_def follow_shadow_def follow_terminal_def Let_def split: tab_view.split)

lemma current_cong: "sv_view p = sv_view q \<Longrightarrow> sv_sessions p = sv_sessions q \<Longrightarrow> current_session p = current_session q"
  by (simp add: current_session_def split: tab_view.split)

lemma run_effects_settled:
  assumes "sv_seen_terminal p = jget (sv_terminal p) ''id''" and "sv_seen_shadow p = jget (sv_shadow p) ''id''"
  shows "sv_view (run_effects p) =
    (if \<exists>i. sv_view p = Session_tab i \<and> \<not> (truthy (current_session p) \<and> is_active (current_session p)) then All_sessions
     else sv_view p)"
  by (simp add: run_effects_view assms)

lemma commit_view:
  "sv_view (commit p) =
     (let q = run_effects p in
      if \<exists>i. sv_view q = Session_tab i \<and> \<not> (truthy (current_session q) \<and> is_active (current_session q)) then All_sessions
      else sv_view q)"
  by (simp add: commit_def run_effects_settled)

text \<open>Two runs are enough: a third changes nothing.\<close>

lemma effects_settle: "sv_view (run_effects (commit p)) = sv_view (commit p)"
proof -
  have "sv_view (run_effects (commit p)) =
    (if \<exists>i. sv_view (commit p) = Session_tab i \<and> \<not> (truthy (current_session (commit p)) \<and> is_active (current_session (commit p)))
     then All_sessions else sv_view (commit p))"
    by (rule run_effects_settled) simp_all
  moreover have "current_session (commit p) = current_session (run_effects p)" if "sv_view (commit p) = Session_tab i" for i
    using that by (intro current_cong) (auto simp: commit_view Let_def split: if_splits)
  ultimately show ?thesis
    by (auto simp: commit_view Let_def split: if_splits)
qed

lemma commit_tab_ok:
  assumes "\<And>i. sv_view (run_effects p) = Session_tab i \<Longrightarrow>
      session_protocol (current_session (run_effects p)) = ''ssh'' \<Longrightarrow> truthy (sv_terminal p) \<Longrightarrow>
      js_string (jget (sv_terminal p) ''id'') = i"
    and "sv_view (run_effects p) = Shadow_tab \<Longrightarrow> truthy (sv_shadow p)"
  shows "tab_ok (commit p)"
proof (cases "sv_view (commit p)")
  case (Session_tab j)
  then have v: "sv_view (run_effects p) = Session_tab j"
    and a: "truthy (current_session (run_effects p)) \<and> is_active (current_session (run_effects p))"
    by (auto simp: commit_view Let_def split: if_splits)
  moreover have "current_session (commit p) = current_session (run_effects p)"
    by (rule current_cong) (simp_all add: v Session_tab)
  ultimately show ?thesis
    using assms Session_tab by (simp add: tab_ok_def)
next
  case Shadow_tab
  then have "sv_view (run_effects p) = Shadow_tab"
    by (auto simp: commit_view Let_def split: if_splits)
  with assms(2) Shadow_tab show ?thesis by (simp add: tab_ok_def)
qed (simp add: tab_ok_def)


lemma settled_view_ssh:
  "settled p \<Longrightarrow> sv_view p = Session_tab i \<Longrightarrow> truthy (current_session p) \<and> is_active (current_session p) \<and>
     (session_protocol (current_session p) = ''ssh'' \<and> truthy (sv_terminal p) \<longrightarrow>
        js_string (jget (sv_terminal p) ''id'') = i)"
  by (simp add: settled_def tab_ok_def)

lemma current_found:
  assumes "truthy (current_session p)" and "sv_view p = Session_tab i"
  shows "current_session p \<in> set (sv_sessions p) \<and> js_string (jget (current_session p) ''id'') = i"
proof (cases "find (\<lambda>s. js_string (jget s ''id'') = i) (sv_sessions p)")
  case None
  with assms show ?thesis by (simp add: current_session_def find_or_null_def)
next
  case (Some s)
  with assms have "current_session p = s" by (simp add: current_session_def find_or_null_def)
  with Some show ?thesis by (auto simp: find_Some_iff)
qed

lemma numbered_same:
  "numbered s \<Longrightarrow> numbered s' \<Longrightarrow> js_string (jget s ''id'') = js_string (jget s' ''id'') \<longleftrightarrow> jget s ''id'' = jget s' ''id''"
  by (auto simp: numbered_def)

lemma passed_numbered: "passed_ok ss tm sh \<Longrightarrow> s \<in> set ss \<Longrightarrow> numbered s"
  by (auto simp: passed_ok_def list_all_iff)

lemma passed_inject:
  "passed_ok ss tm sh \<Longrightarrow> s \<in> set ss \<Longrightarrow> s' \<in> set ss \<Longrightarrow> jget s ''id'' = jget s' ''id'' \<Longrightarrow> s = s'"
  by (auto simp: passed_ok_def distinct_map inj_on_def)

lemma settled_seen:
  assumes "settled p"
  shows "jget (sv_shadow p) ''id'' = sv_seen_shadow p" "jget (sv_terminal p) ''id'' = sv_seen_terminal p"
  using assms by (simp_all add: settled_def)

text \<open>A change that leaves the terminal and the observed session alone only has its own view checked.\<close>

lemma commit_same_props:
  assumes "settled p" and "sv_sessions q = sv_sessions p" and "sv_terminal q = sv_terminal p"
    and "sv_shadow q = sv_shadow p" and "sv_seen_terminal q = sv_seen_terminal p"
    and "sv_seen_shadow q = sv_seen_shadow p" and "tab_ok q"
  shows "settled (commit q)"
proof -
  have e: "sv_view (run_effects q) = sv_view q"
    using assms(7) settled_seen [OF assms(1)] assms(2-6)
    by (subst run_effects_settled) (auto simp: tab_ok_def)
  have "current_session (run_effects q) = current_session q"
    by (rule current_cong) (simp_all add: e)
  then have "tab_ok (commit q)"
    using assms(7) by (intro commit_tab_ok) (auto simp: e tab_ok_def)
  then show ?thesis
    using assms(1-4) by (simp add: settled_def)
qed

lemma settled_passed:
  assumes p: "settled p" and ok: "passed_ok ss tm sh" and protocols: "same_protocols (sv_sessions p) ss"
  shows "settled (commit (p\<lparr>sv_sessions := ss, sv_terminal := tm, sv_status := st, sv_shadow := sh\<rparr>))" (is "settled (commit ?q)")
proof -
  have "tab_ok (commit ?q)"
  proof (rule commit_tab_ok)
    fix i
    assume v: "sv_view (run_effects ?q) = Session_tab i" and t: "truthy (sv_terminal ?q)"
      and ssh: "session_protocol (current_session (run_effects ?q)) = ''ssh''"
    show "js_string (jget (sv_terminal ?q) ''id'') = i"
    proof (cases "jget tm ''id'' = sv_seen_terminal p")
      case False
      with v t show ?thesis by (auto simp: run_effects_view tab_of_def Let_def split: if_splits)
    next
      case True
      with v have vp: "sv_view p = Session_tab i" and cur: "truthy (current_session ?q)"
        by (auto simp: run_effects_view Let_def split: if_splits)
      have "sv_view (run_effects ?q) = sv_view ?q"
        using v vp by simp
      then have "current_session (run_effects ?q) = current_session ?q"
        by (rule current_cong) simp
      with ssh have "session_protocol (current_session ?q) = ''ssh''" by simp
      have "jget tm ''id'' = jget (sv_terminal p) ''id''"
        using True p by (simp add: settled_def)
      then have tp: "truthy (sv_terminal p)"
        using t ok jget_falsy [of "sv_terminal p"] numbered_id [of tm] by (auto simp: passed_ok_def)
      have old: "current_session p \<in> set (sv_sessions p)" "js_string (jget (current_session p) ''id'') = i"
        and new: "current_session ?q \<in> set ss" "js_string (jget (current_session ?q) ''id'') = i"
        using current_found [of p i] current_found [of ?q i] settled_view_ssh [OF p vp] cur vp by auto
      then have "jget (current_session p) ''id'' = jget (current_session ?q) ''id''"
        using numbered_same passed_numbered [OF ok] p passed_numbered by (metis settled_def)
      then have "session_protocol (current_session p) = ''ssh''"
        using protocols old new \<open>session_protocol (current_session ?q) = ''ssh''\<close>
        by (auto simp: same_protocols_def list_all_iff)
      then show ?thesis
        using settled_view_ssh [OF p vp] tp \<open>jget tm ''id'' = jget (sv_terminal p) ''id''\<close> by simp
    qed
  next
    assume v: "sv_view (run_effects ?q) = Shadow_tab"
    show "truthy (sv_shadow ?q)"
    proof (rule ccontr)
      assume f: "\<not> truthy (sv_shadow ?q)"
      with v have s: "jget sh ''id'' = sv_seen_shadow p" and w: "sv_view p = Shadow_tab"
        by (auto simp: run_effects_view Let_def tab_of_def split: if_splits)
      then have "truthy (sv_shadow p)" and "jget (sv_shadow p) ''id'' = JUndef"
        using p jget_falsy f by (auto simp: settled_def tab_ok_def)
      with p show False
        by (auto simp: settled_def passed_ok_def dest: numbered_id)
    qed
  qed
  with ok show ?thesis by (simp add: settled_def)
qed

lemma settled_opened:
  assumes ok: "passed_ok (sv_sessions p) (sv_terminal p) (sv_shadow p)"
  shows "settled (commit (page_opened p))"
proof -
  let ?q = "page_opened p"
  have "jget (sv_terminal p) ''id'' \<noteq> JArr []" and "jget (sv_shadow p) ''id'' \<noteq> JArr []"
    using ok jget_falsy by (auto simp: passed_ok_def numbered_def)
  then have "tab_ok (commit ?q)"
    by (intro commit_tab_ok) (auto simp: run_effects_view page_opened_def tab_of_def Let_def split: if_splits)
  with ok show ?thesis
    by (simp add: settled_def page_opened_def)
qed

lemma tabs_from:
  assumes "s \<in> set (my_sessions zone p) \<or> s \<in> set (listed zone' p)"
  shows "s \<in> set (sv_sessions p) \<or> (s = sv_terminal p \<and> truthy s)"
  using assms by (auto simp: my_sessions_def listed_def Let_def find_Some_iff split: option.splits if_splits)

lemma settled_tab:
  assumes p: "settled p" and s: "s \<in> set (my_sessions zone p) \<or> s \<in> set (listed zone p)"
  shows "settled (commit (openTab s p))"
proof -
  let ?q = "openTab s p"
  have ok: "passed_ok (sv_sessions p) (sv_terminal p) (sv_shadow p)"
    using p by (simp add: settled_def)
  have num: "numbered s"
    using tabs_from [OF s] ok by (auto simp: passed_ok_def list_all_iff)
  have q: "sv_sessions ?q = sv_sessions p" "sv_shadow ?q = sv_shadow p" "sv_view ?q = tab_of s"
    "sv_seen_terminal ?q = sv_seen_terminal p" "sv_seen_shadow ?q = sv_seen_shadow p"
    "sv_terminal ?q = (if session_protocol s = ''ssh'' \<and> \<not> same_id (sv_terminal p) s then s else sv_terminal p)"
    by (simp_all add: openTab_def Let_def)
  have v: "sv_view (run_effects ?q) = tab_of s \<or> sv_view (run_effects ?q) = All_sessions"
    using settled_seen [OF p] by (auto simp: run_effects_view q Let_def tab_of_def split: if_splits)
  have "tab_ok (commit ?q)"
  proof (rule commit_tab_ok)
    fix i
    assume w: "sv_view (run_effects ?q) = Session_tab i" and t: "truthy (sv_terminal ?q)"
      and ssh: "session_protocol (current_session (run_effects ?q)) = ''ssh''"
    then have i: "i = js_string (jget s ''id'')" and wq: "sv_view ?q = Session_tab i"
      using v by (auto simp: tab_of_def q)
    have cur: "current_session (run_effects ?q) = current_session ?q"
      by (rule current_cong) (simp_all add: w wq)
    moreover have "truthy (current_session ?q)"
      using w wq by (auto simp: run_effects_view split: if_splits)
    ultimately have c: "current_session ?q \<in> set (sv_sessions p)" "js_string (jget (current_session ?q) ''id'') = i"
      using current_found [of ?q i] wq by (auto simp: q)
    show "js_string (jget (sv_terminal ?q) ''id'') = i"
    proof (cases "s \<in> set (sv_sessions p)")
      case True
      have "jget (current_session ?q) ''id'' = jget s ''id''"
        using c i numbered_same [OF passed_numbered [OF ok c(1)] num] by simp
      then have "session_protocol s = ''ssh''"
        using passed_inject [OF ok c(1) True] ssh cur by simp
      then show ?thesis
        using strict_eq_eq [of "jget (sv_terminal p) ''id''" "jget s ''id''"]
        by (cases "same_id (sv_terminal p) s") (simp_all add: q i same_id_def)
    next
      case False
      then have "sv_terminal ?q = s"
        using tabs_from [OF s] q(6) by metis
      then show ?thesis by (simp add: i)
    qed
  next
    assume "sv_view (run_effects ?q) = Shadow_tab"
    then show "truthy (sv_shadow ?q)"
      using v by (auto simp: tab_of_def)
  qed
  moreover have "passed_ok (sv_sessions ?q) (sv_terminal ?q) (sv_shadow ?q)"
    using ok num by (auto simp: q passed_ok_def)
  ultimately show ?thesis by (simp add: settled_def)
qed

lemma sv_reach_settled: "sv_reach p \<Longrightarrow> settled p"
proof (induction rule: sv_reach.induct)
  case (list_tab p)
  then show ?case
    by (intro commit_same_props [where p=p]) (simp_all add: tab_ok_def)
next
  case (shadow_tab p)
  then show ?case
    by (intro commit_same_props [where p=p]) (simp_all add: tab_ok_def)
next
  case (filters p i w q m)
  have "current_session (p\<lparr>sv_mode := m, sv_query := q, sv_operator := w, sv_picked := i\<rparr>) = current_session p"
    by (rule current_cong) simp_all
  with filters show ?case
    by (intro commit_same_props [where p=p]) (auto simp: settled_def tab_ok_def split: tab_view.split)
qed (auto intro: settled_opened settled_passed settled_tab)


text \<open>C21: In every order of clicks, reloads and changes from the rest of the application, the tab in view is
  that of an active session of the list, and an SSH tab in view while there is a terminal is the tab
  of that terminal: what is typed or run from a snippet never goes to the session of another tab.\<close>

theorem ssh_tab_shows_its_own_terminal:
  assumes "sv_reach p" and "sv_view p = Session_tab i"
  shows "current_session p \<in> set (sv_sessions p) \<and> js_string (jget (current_session p) ''id'') = i \<and>
    is_active (current_session p) \<and>
    (session_protocol (current_session p) = ''ssh'' \<and> truthy (sv_terminal p) \<longrightarrow> currentIsTerminal p)"
proof -
  have p: "settled p"
    by (rule sv_reach_settled) (rule assms(1))
  note ok = settled_view_ssh [OF p assms(2)]
  have c: "current_session p \<in> set (sv_sessions p)" "js_string (jget (current_session p) ''id'') = i"
    using current_found [of p i] ok assms(2) by auto
  have "same_id (sv_terminal p) (current_session p)"
    if "session_protocol (current_session p) = ''ssh''" and "truthy (sv_terminal p)"
  proof -
    have passed: "passed_ok (sv_sessions p) (sv_terminal p) (sv_shadow p)"
      using p by (simp add: settled_def)
    have "numbered (sv_terminal p)"
      using passed that(2) by (simp add: passed_ok_def)
    moreover have "numbered (current_session p)"
      by (rule passed_numbered [OF passed c(1)])
    moreover from calculation have "jget (sv_terminal p) ''id'' = jget (current_session p) ''id''"
      using ok that c(2) numbered_same by metis
    ultimately show ?thesis
      by (auto simp: same_id_def numbered_def)
  qed
  with ok c show ?thesis
    by (auto simp: currentIsTerminal_def)
qed

lemma shadow_view_observes: "sv_reach p \<Longrightarrow> sv_view p = Shadow_tab \<Longrightarrow> truthy (sv_shadow p)"
  using sv_reach_settled [of p] by (simp add: settled_def tab_ok_def)

subsection \<open>The list and its counts\<close>

lemma both_modes:
  assumes "sv_mode p = ''active''" and "sv_mode p' \<noteq> ''active''" and "sv_sessions p' = sv_sessions p"
    and "to_lower (trim (sv_query p)) = []" and "to_lower (trim (sv_query p')) = []"
    and "\<not> truthy (sv_operator p)" and "\<not> truthy (sv_operator p')"
  shows "mset (listed zone p) + mset (listed zone p') = mset (sv_sessions p)"
proof -
  have "found q = (\<lambda>s. True)" if "to_lower (trim (sv_query q)) = []" for q
    using that by (simp add: fun_eq_iff found_def Let_def)
  then show ?thesis
    using assms by (simp add: listed_def in_mode_def [abs_def] mset_filter)
qed


text \<open>How the counts of the operators are made, session by session.\<close>

lemma count_step:
  assumes "truthy name \<Longrightarrow> strict_eq name name"
  shows "map_of (count_operator s acc) name =
    (if truthy name \<and> operated_by name s then Some (Suc (case map_of acc name of Some m \<Rightarrow> m | None \<Rightarrow> 0))
     else map_of acc name)"
  using assms by (auto simp: count_operator_def operated_by_def Let_def dest: strict_eq_eq)

lemma count_fold:
  assumes "truthy name \<Longrightarrow> strict_eq name name"
  shows "map_of (fold count_operator xs acc) name =
     (let n = length (filter (operated_by name) xs) in
      if truthy name \<and> 0 < n then Some (n + (case map_of acc name of Some m \<Rightarrow> m | None \<Rightarrow> 0)) else map_of acc name)"
proof (induction xs arbitrary: acc)
  case (Cons s xs)
  show ?case
    by (auto simp: Cons.IH count_step [OF assms] Let_def split: if_splits)
qed simp

lemma name_fold:
  "map_of (fold name_operator xs acc) name =
     (if map_of acc name = None \<and> truthy name \<and> list_ex (\<lambda>s. jget s ''operator'' = name) xs then Some 0
      else map_of acc name)"
  by (induction xs arbitrary: acc) (auto simp: name_operator_def Let_def)

lemma distinct_counts:
  "distinct (map fst acc) \<Longrightarrow> distinct (map fst (fold count_operator xs acc))"
  "distinct (map fst acc) \<Longrightarrow> distinct (map fst (fold name_operator xs acc))"
  by (induction xs arbitrary: acc) (auto simp: count_operator_def name_operator_def Let_def assoc_set_distinct)

lemma distinct_operators: "distinct (map fst (operators before p))"
  by (simp add: operators_def distinct_sort_by distinct_counts)

text \<open>The number shown beside an operator is the number of sessions the list shows when that operator
  is chosen and nothing is searched for; every operator of a session has an entry, and only one.\<close>

theorem operator_counts_match_the_list:
  assumes "truthy name" and "strict_eq name name"
  shows "distinct (map fst (operators before p)) \<and>
    ((name, n) \<in> set (operators before p)) =
      (list_ex (\<lambda>s. jget s ''operator'' = name) (sv_sessions p) \<and>
       n = length (listed zone (p\<lparr>sv_operator := name, sv_query := []\<rparr>)))"
proof -
  let ?q = "p\<lparr>sv_operator := name, sv_query := []\<rparr>"
  let ?xs = "filter (in_mode p) (sv_sessions p)"
  let ?c = "fold name_operator (sv_sessions p) (fold count_operator ?xs [])"
  have eq: "operated_by name s \<longleftrightarrow> jget s ''operator'' = name" for s
    using assms(2) by (auto simp: operated_by_def dest: strict_eq_eq)
  have "found ?q = (\<lambda>s. True)"
    by (simp add: fun_eq_iff found_def to_lower_def)
  moreover have "in_mode ?q = in_mode p"
    by (simp add: fun_eq_iff in_mode_def)
  ultimately have len: "length (listed zone ?q) = length (filter (operated_by name) ?xs)"
    using assms(1) by (simp add: listed_def)
  have "(name, n) \<in> set (operators before p) \<longleftrightarrow> map_of ?c name = Some n"
    by (simp add: operators_def map_of_eq_Some_iff distinct_counts)
  also have "\<dots> \<longleftrightarrow> list_ex (\<lambda>s. jget s ''operator'' = name) (sv_sessions p) \<and> n = length (listed zone ?q)"
    using assms by (auto simp: name_fold count_fold len Let_def list_ex_iff eq length_greater_0_conv filter_empty_conv)
  finally show ?thesis
    by (simp add: distinct_operators)
qed


subsection \<open>What can be done with a session\<close>

definition canEnd :: "sessions_view \<Rightarrow> json \<Rightarrow> bool" where
  "canEnd p session = (sv_operates p \<or> operated_by (sv_user p) session)"

datatype row_action = Resume_row | Observe_row | End_row

definition row_actions :: "sessions_view \<Rightarrow> json \<Rightarrow> row_action list" where
  "row_actions p session =
     (let mine = operated_by (sv_user p) session in
      (if is_active session \<and> mine then [Resume_row] else []) @
      (if is_active session \<and> \<not> mine \<and> sv_views_audit p \<and> session_protocol session = ''ssh''
       then [Observe_row] else []) @
      (if is_active session \<and> canEnd p session then [End_row] else []))"

definition row_double_click :: "sessions_view \<Rightarrow> json \<Rightarrow> sessions_view" where
  "row_double_click p session =
     (if is_active session \<and> operated_by (sv_user p) session then openTab session p else p)"

definition detailSession :: "sessions_view \<Rightarrow> json" where
  "detailSession p =
     (case sv_view p of
        All_sessions \<Rightarrow> find_or_null (\<lambda>s. strict_eq (jget s ''id'') (sv_picked p)) (sv_sessions p)
      | Shadow_tab \<Rightarrow> sv_shadow p
      | Session_tab i \<Rightarrow> current_session p)"

datatype workspace = Terminal_host | Vnc_display | Web_browser | Tunnel_note

definition workspace_of :: "json \<Rightarrow> workspace" where
  "workspace_of session =
     (if session_protocol session = ''ssh'' then Terminal_host
      else if session_protocol session = ''vnc'' then Vnc_display
      else if isWeb session then Web_browser else Tunnel_note)"

definition showConnectBar :: "sessions_view \<Rightarrow> bool" where
  "showConnectBar p = (currentIsTerminal p \<and> sv_status p \<noteq> ''live'')"

definition snippets_enabled :: "sessions_view \<Rightarrow> bool" where
  "snippets_enabled p =
     (truthy (current_session p) \<and> session_protocol (current_session p) = ''ssh'' \<and> sv_status p = ''live'')"

text \<open>The file transfer is offered when the resource of the session allows a direction.\<close>

definition files_offered :: "sessions_view \<Rightarrow> bool" where
  "files_offered p =
     (truthy (current_session p) \<and> session_protocol (current_session p) = ''ssh'' \<and>
      operated_by (sv_user p) (current_session p) \<and>
      (case find (\<lambda>r. same_number (jget r ''id'') (jget (current_session p) ''resourceId'')) (sv_resources p) of
         None \<Rightarrow> False
       | Some r \<Rightarrow> truthy (jget r ''allowFileDownload'') \<or> truthy (jget r ''allowFileUpload'')))"

subsection \<open>The events of a session\<close>

record event_line =
  el_key :: string
  el_type :: json
  el_at :: json

definition event_of_session :: "json \<Rightarrow> json \<Rightarrow> bool" where
  "event_of_session i item =
     (truthy (jget item ''payloadIsJson'') \<and>
      (case json_parse (text_or (jget item ''payloadRaw'') ''{}'') of
         None \<Rightarrow> False
       | Some payload \<Rightarrow> \<not> nullish payload \<and> same_number (jget payload ''sessionId'') i))"

definition audit_line :: "json \<Rightarrow> event_line" where
  "audit_line item =
     \<lparr>el_key = ''a-'' @ js_string (jget item ''id''), el_type = jget item ''type'', el_at = jget item ''createdAt''\<rparr>"

definition earlier_line :: "(int \<Rightarrow> int) \<Rightarrow> event_line \<Rightarrow> event_line \<Rightarrow> bool" where
  "earlier_line zone a b =
     (case (parse_of zone (el_at a), parse_of zone (el_at b)) of (Some x, Some y) \<Rightarrow> x < y | _ \<Rightarrow> False)"

definition fromAudit :: "(int \<Rightarrow> int) \<Rightarrow> bool \<Rightarrow> json \<Rightarrow> json list \<Rightarrow> event_line list" where
  "fromAudit zone enabled i items =
     (if \<not> enabled \<or> \<not> truthy i then []
      else sort_by (earlier_line zone) (map audit_line (filter (event_of_session i) items)))"

definition chain_line :: "json \<Rightarrow> event_line" where
  "chain_line entry =
     \<lparr>el_key = ''d-'' @ js_string (jget entry ''id''), el_type = jget entry ''eventType'', el_at = jget entry ''createdAt''\<rparr>"

text \<open>The chain of the session as the server keeps it, when it was read and is not empty.  A reply that
  comes after another session was selected is dropped: the turn is that of the effect that asked.\<close>

record dna_state =
  dn_id :: json
  dn_on :: bool
  dn_data :: json
  dn_turn :: nat

definition dna_effect :: "json \<Rightarrow> bool \<Rightarrow> dna_state \<Rightarrow> dna_state \<times> api_call option" where
  "dna_effect i on d =
     (if dn_id d = i \<and> dn_on d = on then (d, None)
      else (\<lparr>dn_id = i, dn_on = on, dn_data = JNull, dn_turn = Suc (dn_turn d)\<rparr>,
            if on \<and> truthy i then Some (fetchSessionDna i) else None))"

definition dna_reply :: "nat \<Rightarrow> js_error + json \<Rightarrow> dna_state \<Rightarrow> dna_state" where
  "dna_reply asked reply d =
     (if asked \<noteq> dn_turn d then d
      else d\<lparr>dn_data := (case reply of Inr data \<Rightarrow> data | Inl e \<Rightarrow> JObj [(''failed'', JBool True)])\<rparr>)"

record shown_events =
  se_verified :: "bool option"
  se_items :: "event_line list"

definition useSessionEvents :: "(int \<Rightarrow> int) \<Rightarrow> bool \<Rightarrow> dna_state \<Rightarrow> json list \<Rightarrow> shown_events" where
  "useSessionEvents zone enabled d items =
     (let dna = dn_data d in
      if truthy dna \<and> \<not> truthy (jget dna ''failed'') \<and> array_or_empty (jget dna ''entries'') \<noteq> []
      then \<lparr>se_verified = Some (truthy (jget dna ''verified'')), se_items = map chain_line (array_or_empty (jget dna ''entries''))\<rparr>
      else \<lparr>se_verified = None, se_items = fromAudit zone enabled (dn_id d) items\<rparr>)"

definition eventTone :: "json \<Rightarrow> string" where
  "eventTone event_type =
     (let v = text_or event_type [] in
      if list_ex (str_includes v) [''block'', ''deny'', ''fail'', ''terminate''] then ''var(--ef-danger)''
      else if list_ex (str_includes v) [''elevation'', ''sudo''] then ''var(--ef-warn)''
      else if v = ''session.create'' then ''var(--ef-priv)'' else ''var(--ef-line-2)'')"

text \<open>Every order of selections and replies; \<open>answer\<close> is what the server says of a session.\<close>

inductive dna_run :: "(json \<Rightarrow> js_error + json) \<Rightarrow> dna_state \<Rightarrow> (nat \<times> json) list \<Rightarrow> bool" for answer where
  start: "dna_run answer \<lparr>dn_id = JUndef, dn_on = False, dn_data = JNull, dn_turn = 0\<rparr> []"
| select: "dna_run answer d asked \<Longrightarrow> dna_effect i on d = (d', call) \<Longrightarrow>
    dna_run answer d' (if call = None then asked else (dn_turn d', i) # asked)"
| reply: "dna_run answer d asked \<Longrightarrow> (n, i) \<in> set asked \<Longrightarrow> dna_run answer (dna_reply n (answer i) d) asked"

definition chain_known :: "(json \<Rightarrow> js_error + json) \<Rightarrow> dna_state \<Rightarrow> bool" where
  "chain_known answer d =
     (dn_data d = JNull \<or> dn_data d = JObj [(''failed'', JBool True)] \<or> answer (dn_id d) = Inr (dn_data d))"

lemma dna_run_facts:
  "dna_run answer d asked \<Longrightarrow>
     chain_known answer d \<and> list_all (\<lambda>(n, i). n \<le> dn_turn d \<and> (n = dn_turn d \<longrightarrow> i = dn_id d)) asked"
proof (induction rule: dna_run.induct)
  case start
  then show ?case by (simp add: chain_known_def)
next
  case (select d asked i on d' call)
  then show ?case
    by (auto simp: dna_effect_def chain_known_def list_all_iff split: if_splits prod.splits)
next
  case (reply d asked n i)
  then have "n = dn_turn d \<longrightarrow> i = dn_id d"
    by (auto simp: list_all_iff)
  with reply show ?case
    by (auto simp: dna_reply_def chain_known_def split: sum.splits)
qed

text \<open>The events shown for a session are its own: either the entries of the chain the server
  keeps for that very session, marked as verified exactly when the server says so, or, without a chain, the
  journal lines whose payload names the session, and nothing where the journal may not be read.\<close>

theorem events_are_of_the_session:
  assumes "dna_run answer d asked"
  shows "(\<exists>data. answer (dn_id d) = Inr data \<and>
            useSessionEvents zone enabled d items =
              \<lparr>se_verified = Some (truthy (jget data ''verified'')),
               se_items = map chain_line (array_or_empty (jget data ''entries''))\<rparr>) \<or>
         (se_verified (useSessionEvents zone enabled d items) = None \<and>
          mset (se_items (useSessionEvents zone enabled d items)) =
            (if enabled \<and> truthy (dn_id d)
             then image_mset audit_line (filter_mset (event_of_session (dn_id d)) (mset items)) else {#}))"
proof (cases "truthy (dn_data d) \<and> \<not> truthy (jget (dn_data d) ''failed'') \<and>
              array_or_empty (jget (dn_data d) ''entries'') \<noteq> []")
  case True
  then have "answer (dn_id d) = Inr (dn_data d)"
    using dna_run_facts [OF assms] by (auto simp: chain_known_def)
  with True show ?thesis
    by (auto simp: useSessionEvents_def Let_def)
next
  case False
  then show ?thesis
    by (auto simp: useSessionEvents_def fromAudit_def mset_filter Let_def)
qed

text \<open>An action offered on a row is one the rights of the person allow.\<close>

lemma row_actions_allowed:
  "Observe_row \<in> set (row_actions p s) \<longleftrightarrow>
     is_active s \<and> \<not> operated_by (sv_user p) s \<and> sv_views_audit p \<and> session_protocol s = ''ssh''"
  "End_row \<in> set (row_actions p s) \<longleftrightarrow> is_active s \<and> (sv_operates p \<or> operated_by (sv_user p) s)"
  "Resume_row \<in> set (row_actions p s) \<longleftrightarrow> is_active s \<and> operated_by (sv_user p) s"
  by (simp_all add: row_actions_def canEnd_def Let_def)


subsection \<open>An example\<close>

definition sample_row :: json where
  "sample_row = JObj [(''id'', JInt 4), (''status'', JStr ''active''), (''operator'', JStr ''ana''),
     (''protocol'', JStr ''ssh''), (''target'', JStr ''10.0.0.5''), (''createdAt'', JStr ''2024-05-01T10:00:00Z'')]"

definition sample_page_view :: sessions_view where
  "sample_page_view = \<lparr>sv_sessions = [sample_row], sv_resources = [], sv_user = JStr ''ana'', sv_operates = False,
     sv_views_audit = False, sv_terminal = JNull, sv_status = ''idle'', sv_shadow = JNull, sv_view = All_sessions,
     sv_mode = ''active'', sv_query = [], sv_operator = JStr [], sv_picked = JNull,
     sv_seen_terminal = JUndef, sv_seen_shadow = JUndef\<rparr>"

definition sample_tab :: sessions_view where
  "sample_tab = commit (openTab sample_row (commit (page_opened sample_page_view)))"

lemma sample_tab_reached: "sv_reach sample_tab"
proof -
  have "passed_ok (sv_sessions sample_page_view) (sv_terminal sample_page_view) (sv_shadow sample_page_view)"
    by (simp add: passed_ok_def numbered_def sample_page_view_def sample_row_def)
  then have "sv_reach (commit (page_opened sample_page_view))"
    by (rule sv_reach.opened)
  moreover have "my_sessions (\<lambda>x. x) (commit (page_opened sample_page_view)) = [sample_row]"
    by code_simp
  ultimately show ?thesis
    unfolding sample_tab_def by (intro sv_reach.tab [where zone = "\<lambda>x. x"]) simp_all
qed

theorem ssh_tab_shows_its_own_terminal_witness:
  "sv_view sample_tab = Session_tab ''4'' \<and> currentIsTerminal sample_tab"
proof -
  have "sv_view sample_tab = Session_tab ''4''" and "session_protocol (current_session sample_tab) = ''ssh''"
    and "truthy (sv_terminal sample_tab)"
    by code_simp+
  then show ?thesis
    using ssh_tab_shows_its_own_terminal [OF sample_tab_reached] by blast
qed

theorem operator_counts_match_the_list_witness:
  "(JStr ''ana'', 1) \<in> set (operators (\<lambda>a b. False) sample_page_view)"
proof -
  have "length (listed (\<lambda>x. x) (sample_page_view\<lparr>sv_operator := JStr ''ana'', sv_query := []\<rparr>)) = 1"
    by code_simp
  then show ?thesis
    using operator_counts_match_the_list [of "JStr ''ana''" "\<lambda>a b. False" sample_page_view 1 "\<lambda>x. x"]
    by (simp add: sample_page_view_def sample_row_def)
qed

definition sample_answer :: "json \<Rightarrow> js_error + json" where
  "sample_answer i = Inr (JObj [(''verified'', JBool True),
     (''entries'', JArr [JObj [(''id'', JInt 1), (''eventType'', JStr ''session.create'')]])])"

theorem events_are_of_the_session_witness:
  "\<exists>d. dna_run sample_answer d [(1, JInt 4)] \<and> dn_id d = JInt 4 \<and>
       se_verified (useSessionEvents (\<lambda>x. x) True d []) = Some True"
proof -
  let ?s = "\<lparr>dn_id = JUndef, dn_on = False, dn_data = JNull, dn_turn = 0\<rparr>"
  let ?d = "\<lparr>dn_id = JInt 4, dn_on = True, dn_data = JNull, dn_turn = 1\<rparr>"
  let ?e = "dna_reply 1 (sample_answer (JInt 4)) ?d"
  have "dna_effect (JInt 4) True ?s = (?d, Some (fetchSessionDna (JInt 4)))"
    by (simp add: dna_effect_def)
  then have "dna_run sample_answer ?d [(1, JInt 4)]"
    using dna_run.select [OF dna_run.start] by force
  then have r: "dna_run sample_answer ?e [(1, JInt 4)]"
    by (rule dna_run.reply) simp
  moreover have "dn_id ?e = JInt 4"
    by (simp add: dna_reply_def sample_answer_def)
  moreover have "se_verified (useSessionEvents (\<lambda>x. x) True ?e []) = Some True"
  proof -
    have "se_verified (useSessionEvents (\<lambda>x. x) True ?e []) \<noteq> None"
      by (simp add: useSessionEvents_def dna_reply_def sample_answer_def Let_def)
    then show ?thesis
      using events_are_of_the_session [OF r, of "\<lambda>x. x" True "[]"] by (auto simp: sample_answer_def)
  qed
  ultimately show ?thesis by blast
qed


end
