(* ===== verification/UsersPage.thy ===== *)
theory UsersPage
  imports AccessMap SessionStore
begin

section \<open>The page of the users (pages/admin/UsersAdmin.jsx)\<close>

text \<open>
  The list of the accounts with its filters, the panel of one account (create, edit, delete) and its
  access tab, where a click grants or revokes a resource at once.  A click is split where it waits for the
  server; the account and the scope a click was made with are arguments of what follows the reply.
  The users are those the server gave; the handlers of App.jsx that keep them are here too.
\<close>

subsection \<open>Accounts\<close>

definition users_roles :: "string list" where
  "users_roles = [''operator'', ''admin'', ''auditor'']"

definition mfaOf :: "env \<Rightarrow> json \<Rightarrow> string list" where
  "mfaOf env u =
     (if flag u ''totpEnabled'' then [''TOTP''] else []) @
     (if flag u ''webauthnEnabled''
      then [env_t env ''users.keys'' [(''count'', jor (jget u ''webauthnCredentialCount'') (JInt 1))]] else [])"

record users_page =
  up_users :: "json list"
  up_audit :: "json list"
  up_current :: json
  up_query :: string
  up_role :: string
  up_no_mfa :: bool
  up_selected :: json
  up_mode :: string
  up_tab :: string
  up_busy :: bool
  up_error :: string

definition name_sorted :: "(string \<Rightarrow> string \<Rightarrow> bool) \<Rightarrow> string \<Rightarrow> json \<Rightarrow> json \<Rightarrow> bool" where
  "name_sorted before k a b = before (js_string (jget a k)) (js_string (jget b k))"

definition users_listed :: "env \<Rightarrow> (string \<Rightarrow> string \<Rightarrow> bool) \<Rightarrow> users_page \<Rightarrow> json list" where
  "users_listed env before p =
     (let q = to_lower (trim (up_query p)) in
      sort_by (name_sorted before ''username'')
        (filter (\<lambda>u. \<not> up_no_mfa p \<or> (\<not> flag u ''serviceAccount'' \<and> mfaOf env u = []))
          (filter (\<lambda>u. up_role p = [] \<or> jget u ''role'' = JStr (up_role p))
            (filter (\<lambda>u. q = [] \<or> str_includes (to_lower (js_string (jget u ''username''))) q) (up_users p)))))"

definition selected_user :: "users_page \<Rightarrow> json" where
  "selected_user p =
     (case find (\<lambda>u. strict_eq (jget u ''id'') (up_selected p)) (up_users p) of Some u \<Rightarrow> u | None \<Rightarrow> JNull)"

definition is_admin :: "json \<Rightarrow> bool" where
  "is_admin u = (jget u ''role'' = JStr ''admin'' \<and> \<not> flag u ''serviceAccount'')"

definition admins :: "users_page \<Rightarrow> json list" where
  "admins p = filter is_admin (up_users p)"

definition adminsWithoutMfa :: "env \<Rightarrow> users_page \<Rightarrow> nat" where
  "adminsWithoutMfa env p = length (filter (\<lambda>u. mfaOf env u = []) (admins p))"

definition user_activity :: "users_page \<Rightarrow> json list" where
  "user_activity p =
     (let s = selected_user p in
      if truthy s then take 12 (filter (\<lambda>item. strict_eq (jget item ''actor'') (jget s ''username'')) (up_audit p)) else [])"

text \<open>Why the selected account cannot be deleted; the empty text is that it can.\<close>

definition deleteBlocked :: "env \<Rightarrow> users_page \<Rightarrow> json \<Rightarrow> string" where
  "deleteBlocked env p selected =
     (if strict_eq (jget selected ''username'') (up_current p) then tx env ''users.cannotDeleteSelf''
      else if is_admin selected \<and> length (admins p) \<le> 1 then tx env ''users.cannotDeleteLastAdmin'' else [])"

subsection \<open>Create, edit, delete\<close>

definition run_start :: "users_page \<Rightarrow> users_page" where
  "run_start p = p\<lparr>up_busy := True, up_error := []\<rparr>"

definition run_end :: "env \<Rightarrow> js_error + json \<Rightarrow> users_page \<Rightarrow> users_page" where
  "run_end env reply p =
     (case reply of
        Inl e \<Rightarrow> p\<lparr>up_busy := False, up_error := shown env e (tx env ''users.saveError'')\<rparr>
      | Inr v \<Rightarrow> p\<lparr>up_busy := False\<rparr>)"

definition EMPTY_FORM :: json where
  "EMPTY_FORM = JObj [(''username'', JStr []), (''password'', JStr []), (''role'', JStr ''operator''),
     (''forcePasswordRotation'', JBool True), (''serviceAccount'', JBool False)]"

definition edit_form :: "json \<Rightarrow> json" where
  "edit_form selected =
     JObj [(''username'', jget selected ''username''), (''password'', JStr []), (''role'', jget selected ''role''),
       (''forcePasswordRotation'', JBool (flag selected ''bootstrapPasswordChangeRequired'')),
       (''serviceAccount'', JBool (flag selected ''serviceAccount''))]"

definition create_call :: "json \<Rightarrow> api_call" where
  "create_call form = createUser (set_prop form ''username'' (JStr (trim (js_string (jget form ''username'')))))"

definition on_created :: "env \<Rightarrow> js_error + json \<Rightarrow> users_page \<Rightarrow> users_page" where
  "on_created env reply p =
     (let a = run_end env reply p in
      case reply of
        Inl e \<Rightarrow> a
      | Inr created \<Rightarrow>
          (let b = a\<lparr>up_users := up_users a @ [created]\<rparr> in
           if truthy created
           then b\<lparr>up_selected := jget created ''id'', up_mode := ''view'', up_tab := ''access''\<rparr> else b))"

definition update_body :: "json \<Rightarrow> json \<Rightarrow> json" where
  "update_body selected form =
     (if flag selected ''serviceAccount'' then JObj [(''role'', jget form ''role'')]
      else JObj [(''password'', jget form ''password''), (''role'', jget form ''role''),
             (''forcePasswordRotation'', JBool (flag form ''forcePasswordRotation''))])"

definition update_call :: "json \<Rightarrow> json \<Rightarrow> api_call" where
  "update_call selected form = updateUser (jget selected ''id'') (update_body selected form)"

definition on_updated :: "env \<Rightarrow> json \<Rightarrow> js_error + json \<Rightarrow> users_page \<Rightarrow> users_page" where
  "on_updated env i reply p =
     (let a = run_end env reply p in
      case reply of
        Inl e \<Rightarrow> a
      | Inr updated \<Rightarrow>
          (let b = a\<lparr>up_users := map (\<lambda>u. if strict_eq (jget u ''id'') i then updated else u) (up_users a)\<rparr> in
           if truthy updated then b\<lparr>up_mode := ''view''\<rparr> else b))"

definition on_deleted :: "env \<Rightarrow> json \<Rightarrow> js_error + json \<Rightarrow> users_page \<Rightarrow> users_page" where
  "on_deleted env i reply p =
     (let a = run_end env reply p in
      case reply of
        Inl e \<Rightarrow> a
      | Inr _ \<Rightarrow> a\<lparr>up_users := filter (\<lambda>u. \<not> strict_eq (jget u ''id'') i) (up_users a), up_selected := JNull\<rparr>)"

definition delete_enabled :: "env \<Rightarrow> users_page \<Rightarrow> json \<Rightarrow> bool" where
  "delete_enabled env p selected = (deleteBlocked env p selected = [] \<and> \<not> up_busy p)"

text \<open>What the bastion does with a deletion (routes.cc): the message of its refusal, or the accounts left.\<close>

definition count_admins_locked :: "json list \<Rightarrow> nat" where
  "count_admins_locked accounts = length (filter is_admin accounts)"

definition bastion_delete :: "json list \<Rightarrow> json \<Rightarrow> json \<Rightarrow> string + json list" where
  "bastion_delete accounts caller i =
     (case find (\<lambda>u. jget u ''id'' = i) accounts of
        None \<Rightarrow> Inl ''User not found''
      | Some u \<Rightarrow>
          if i = caller then Inl ''Cannot delete your own account''
          else if is_admin u \<and> count_admins_locked accounts \<le> 1 then Inl ''Cannot delete the last admin''
          else Inr (filter (\<lambda>u. jget u ''id'' \<noteq> i) accounts))"

subsection \<open>The access tab\<close>

record access_tab =
  ac_user :: json
  ac_turn :: nat
  ac_scope :: "json list"
  ac_profiles :: "json list"
  ac_loading :: bool
  ac_error :: string
  ac_query :: string

text \<open>Another account, or the licence of the profiles: the effect starts again, its replies are of a new turn.\<close>

definition access_effect :: "json \<Rightarrow> bool \<Rightarrow> access_tab \<Rightarrow> access_tab \<times> api_call list" where
  "access_effect u profiles t =
     (t\<lparr>ac_user := u, ac_turn := Suc (ac_turn t), ac_loading := True, ac_error := []\<rparr>,
      getUserResourcePermissions u # (if profiles then [getUserAccessProfiles u] else []))"

text \<open>\<open>Promise.all\<close> gives both replies, or the first failure.\<close>

definition ids_in :: "json \<Rightarrow> string \<Rightarrow> (js_error + json list)" where
  "ids_in reply k = (case jread reply k of None \<Rightarrow> Inl TypeError | Some v \<Rightarrow> Inr (array_or_empty v))"

definition on_scope_loaded :: "env \<Rightarrow> nat \<Rightarrow> js_error + (json \<times> json) \<Rightarrow> access_tab \<Rightarrow> access_tab" where
  "on_scope_loaded env turn reply t =
     (if turn \<noteq> ac_turn t then t
      else let failed = (\<lambda>e. t\<lparr>ac_error := shown env e (tx env ''users.scopeError''), ac_loading := False\<rparr>) in
        case reply of
          Inl e \<Rightarrow> failed e
        | Inr (res, prof) \<Rightarrow>
            (case ids_in res ''resourceIds'' of
               Inl e \<Rightarrow> failed e
             | Inr scope \<Rightarrow>
                 (case ids_in prof ''profileIds'' of
                    Inl e \<Rightarrow> (failed e)\<lparr>ac_scope := scope\<rparr>
                  | Inr ps \<Rightarrow> t\<lparr>ac_scope := scope, ac_profiles := ps, ac_loading := False\<rparr>)))"

definition toggle_call :: "json \<Rightarrow> json list \<Rightarrow> json \<Rightarrow> api_call" where
  "toggle_call u scope rid =
     (if rid \<in> set scope then revokeResourcePermission u rid else grantResourcePermission u rid)"

text \<open>\<open>has\<close> is what the click saw; the reply is applied to the tab as it is then.\<close>

definition on_toggled :: "env \<Rightarrow> bool \<Rightarrow> json \<Rightarrow> js_error + json \<Rightarrow> access_tab \<Rightarrow> access_tab" where
  "on_toggled env has rid reply t =
     (case reply of
        Inl e \<Rightarrow> t\<lparr>ac_error := shown env e (tx env ''users.scopeError'')\<rparr>
      | Inr _ \<Rightarrow> t\<lparr>ac_scope := (if has then filter (\<lambda>i. i \<noteq> rid) (ac_scope t) else ac_scope t @ [rid]), ac_error := []\<rparr>)"

definition toggleResource ::
    "env \<Rightarrow> (api_call \<Rightarrow> js_error + json) \<Rightarrow> json \<Rightarrow> json list \<Rightarrow> json \<Rightarrow> access_tab \<Rightarrow> access_tab" where
  "toggleResource env answer u scope rid t =
     on_toggled env (rid \<in> set scope) rid (answer (toggle_call u scope rid)) t"

text \<open>A whole zone: one resource after the other, those not yet as wanted, with the scope of the click.\<close>

definition zone_targets :: "json list \<Rightarrow> json list \<Rightarrow> bool \<Rightarrow> json list" where
  "zone_targets scope members allOn =
     filter (\<lambda>rid. allOn = (rid \<in> set scope)) (map (\<lambda>r. jget r ''id'') members)"

definition toggleZone ::
    "env \<Rightarrow> (api_call \<Rightarrow> js_error + json) \<Rightarrow> json \<Rightarrow> json list \<Rightarrow> json list \<Rightarrow> bool \<Rightarrow> access_tab \<Rightarrow> access_tab" where
  "toggleZone env answer u scope members allOn t =
     fold (toggleResource env answer u scope) (zone_targets scope members allOn) t"

definition zone_on :: "json list \<Rightarrow> json list \<Rightarrow> nat" where
  "zone_on scope members = length (filter (\<lambda>r. jget r ''id'' \<in> set scope) members)"

definition profile_call :: "json \<Rightarrow> json list \<Rightarrow> json \<Rightarrow> api_call" where
  "profile_call u profiles i =
     (if i \<in> set profiles then revokeAccessProfile u i else grantAccessProfile u i)"

text \<open>After a profile the scope of the account is read again.\<close>

definition on_profile_toggled :: "env \<Rightarrow> bool \<Rightarrow> json \<Rightarrow> json \<Rightarrow> js_error + json \<Rightarrow> access_tab \<Rightarrow> access_tab \<times> api_call option" where
  "on_profile_toggled env has u i reply t =
     (case reply of
        Inl e \<Rightarrow> (t\<lparr>ac_error := shown env e (tx env ''users.scopeError'')\<rparr>, None)
      | Inr _ \<Rightarrow> (t\<lparr>ac_profiles := (if has then filter (\<lambda>j. j \<noteq> i) (ac_profiles t) else ac_profiles t @ [i])\<rparr>,
                  Some (getUserResourcePermissions u)))"

definition on_scope_refreshed :: "env \<Rightarrow> js_error + json \<Rightarrow> access_tab \<Rightarrow> access_tab" where
  "on_scope_refreshed env reply t =
     (case (case reply of Inl e \<Rightarrow> Inl e | Inr data \<Rightarrow> ids_in data ''resourceIds'') of
        Inl e \<Rightarrow> t\<lparr>ac_error := shown env e (tx env ''users.scopeError'')\<rparr>
      | Inr scope \<Rightarrow> t\<lparr>ac_scope := scope\<rparr>)"

text \<open>The resources by zone, the ones without a zone last, zones in the order of \<open>before\<close>.\<close>

definition add_to_zone :: "json \<Rightarrow> (string \<times> json list) list \<Rightarrow> (string \<times> json list) list" where
  "add_to_zone r groups =
     (let z = zoneOf r in
      assoc_set z ((case map_of groups z of Some rs \<Rightarrow> rs | None \<Rightarrow> []) @ [r]) groups)"

definition zone_groups :: "(string \<Rightarrow> string \<Rightarrow> bool) \<Rightarrow> json list \<Rightarrow> (string \<times> json list) list" where
  "zone_groups before rs = sort_by (\<lambda>a b. zone_before before (fst a) (fst b)) (fold add_to_zone rs [])"

definition access_groups :: "(string \<Rightarrow> string \<Rightarrow> bool) \<Rightarrow> access_tab \<Rightarrow> json list \<Rightarrow> (string \<times> json list) list" where
  "access_groups before t resources =
     (let q = to_lower (trim (ac_query t)) in
      zone_groups before
        (filter (\<lambda>r. q = [] \<or> list_ex (\<lambda>k. str_includes (to_lower (text_or (jget r k) [])) q)
                        [''name'', ''target'', ''tagsCsv'']) resources))"

subsection \<open>Groups\<close>

lemma assoc_set_more:
  "map_of kvs k = Some zs \<Longrightarrow>
     mset (concat (map snd (assoc_set k (zs @ ys) kvs))) = mset (concat (map snd kvs)) + mset ys"
  by (induction kvs) (auto split: if_splits)

lemma assoc_set_new:
  "map_of kvs k = None \<Longrightarrow> mset (concat (map snd (assoc_set k ys kvs))) = mset (concat (map snd kvs)) + mset ys"
  by (induction kvs) (auto split: if_splits)

definition zoned :: "(string \<times> json list) list \<Rightarrow> bool" where
  "zoned gs = list_all (\<lambda>g. snd g \<noteq> [] \<and> list_all (\<lambda>r. zoneOf r = fst g) (snd g)) gs"

lemma add_to_zone_facts:
  assumes "distinct (map fst gs)" and "zoned gs"
  shows "distinct (map fst (add_to_zone r gs))" and "zoned (add_to_zone r gs)"
    and "mset (concat (map snd (add_to_zone r gs))) = add_mset r (mset (concat (map snd gs)))"
proof -
  show "distinct (map fst (add_to_zone r gs))"
    using assms(1) by (simp add: add_to_zone_def Let_def assoc_set_distinct)
  have "list_all (\<lambda>s. zoneOf s = zoneOf r) rs" if "map_of gs (zoneOf r) = Some rs" for rs
    using map_of_SomeD [OF that] assms(2) by (auto simp: zoned_def list_all_iff)
  then show "zoned (add_to_zone r gs)"
    using assms(2) unfolding zoned_def add_to_zone_def Let_def
    by (intro assoc_set_all) (auto split: option.split)
  show "mset (concat (map snd (add_to_zone r gs))) = add_mset r (mset (concat (map snd gs)))"
    by (cases "map_of gs (zoneOf r)") (simp_all add: add_to_zone_def Let_def assoc_set_more assoc_set_new)
qed

lemma zone_groups_fold:
  "distinct (map fst gs) \<Longrightarrow> zoned gs \<Longrightarrow>
     distinct (map fst (fold add_to_zone rs gs)) \<and> zoned (fold add_to_zone rs gs) \<and>
     mset (concat (map snd (fold add_to_zone rs gs))) = mset rs + mset (concat (map snd gs))"
proof (induction rs arbitrary: gs)
  case (Cons r rs)
  note facts = add_to_zone_facts [OF Cons.prems, of r]
  show ?case
    using Cons.IH [OF facts(1,2)] facts(3) by simp
qed simp

lemma mset_concat_sort: "mset (concat (map snd (sort_by lt gs))) = mset (concat (map snd gs))"
  by (simp add: mset_concat flip: sum_mset_sum_list)

text \<open>Every resource is in one group, that of its zone, and no group is empty or listed twice.\<close>

lemma zone_groups_partition:
  "mset (concat (map snd (zone_groups before rs))) = mset rs"
  "distinct (map fst (zone_groups before rs))" "zoned (zone_groups before rs)"
proof -
  note f = zone_groups_fold [of "[]" rs]
  show "mset (concat (map snd (zone_groups before rs))) = mset rs"
    using f unfolding zone_groups_def mset_concat_sort by (simp add: zoned_def)
  show "distinct (map fst (zone_groups before rs))"
    using f unfolding zone_groups_def distinct_sort_by by (simp add: zoned_def)
  show "zoned (zone_groups before rs)"
    using f unfolding zone_groups_def by (simp add: zoned_def list_all_iff)
qed

subsection \<open>What a click on the access tab does\<close>

lemma filter_all_length: "length (filter P xs) = length xs \<longleftrightarrow> (\<forall>x \<in> set xs. P x)"
  by (metis filter_True length_filter_less less_irrefl)

lemma toggle_refused:
  "answer (toggle_call u scope j) = Inl e \<Longrightarrow>
     j \<in> set (ac_scope (toggleResource env answer u scope i t)) \<longleftrightarrow> j \<in> set (ac_scope t)"
  by (cases "i = j") (auto simp: toggleResource_def on_toggled_def split: sum.split)

lemma toggle_all_done:
  assumes "\<And>c. \<exists>v. answer c = Inr v" and "list_all (\<lambda>i. has = (i \<in> set scope)) is"
  shows "set (ac_scope (fold (toggleResource env answer u scope) is t)) =
    (if has then set (ac_scope t) - set is else set (ac_scope t) \<union> set is)"
  using assms(2)
proof (induction "is" arbitrary: t)
  case (Cons i "is")
  obtain v where "answer (toggle_call u scope i) = Inr v"
    using assms(1) by blast
  with Cons show ?case
    by (cases has) (auto simp: toggleResource_def on_toggled_def)
qed simp


text \<open>As written, the failures of a click on a zone show only when the last call fails: any call that
  succeeds clears the message of the one before, and the resource that was refused stays as it was.\<close>

theorem zone_click_shows_only_the_last_failure:
  assumes "zone_targets scope members allOn = is @ [i]"
  shows "ac_error (toggleZone env answer u scope members allOn t) =
      (case answer (toggle_call u scope i) of
         Inl e \<Rightarrow> shown env e (tx env ''users.scopeError'') | Inr _ \<Rightarrow> []) \<and>
    (\<forall>j. (\<exists>e. answer (toggle_call u scope j) = Inl e) \<longrightarrow>
       (j \<in> set (ac_scope (toggleZone env answer u scope members allOn t))) = (j \<in> set (ac_scope t)))"
proof
  show "ac_error (toggleZone env answer u scope members allOn t) =
      (case answer (toggle_call u scope i) of
         Inl e \<Rightarrow> shown env e (tx env ''users.scopeError'') | Inr _ \<Rightarrow> [])"
    by (simp add: toggleZone_def assms toggleResource_def on_toggled_def split: sum.split)
  have "(j \<in> set (ac_scope (fold (toggleResource env answer u scope) ks t))) = (j \<in> set (ac_scope t))"
    if "answer (toggle_call u scope j) = Inl e" for j e ks
    by (induction ks arbitrary: t) (simp_all add: toggle_refused [of answer u scope j e, OF that])
  then show "\<forall>j. (\<exists>e. answer (toggle_call u scope j) = Inl e) \<longrightarrow>
       (j \<in> set (ac_scope (toggleZone env answer u scope members allOn t))) = (j \<in> set (ac_scope t))"
    unfolding toggleZone_def by blast
qed


text \<open>As written, the reply to a click made on the account that was shown before is added to the scope of
  the account shown now: a resource granted to one is shown as granted to the other, whatever
  the server says of that one, and a click on it then asks to revoke what was never given.\<close>

theorem late_grant_shows_on_the_other_account:
  assumes "rid \<notin> set scope" and "answer (grantResourcePermission u rid) = Inr v"
    and "access_effect u' profiles t = (t1, calls)"
    and "on_scope_loaded env (ac_turn t1) (Inr (res, prof)) t1 = t2"
    and "ids_in res ''resourceIds'' = Inr given" and "ids_in prof ''profileIds'' = Inr ps"
  shows "toggle_call u scope rid = grantResourcePermission u rid \<and>
    ac_user (toggleResource env answer u scope rid t2) = u' \<and>
    ac_scope (toggleResource env answer u scope rid t2) = given @ [rid] \<and>
    toggle_call u' (ac_scope (toggleResource env answer u scope rid t2)) rid = revokeResourcePermission u' rid"
proof -
  have t1: "ac_user t1 = u'"
    using assms(3) by (auto simp: access_effect_def)
  have "t2 = t1\<lparr>ac_scope := given, ac_profiles := ps, ac_loading := False\<rparr>"
    using assms(4-6) by (simp add: on_scope_loaded_def Let_def)
  then have "toggleResource env answer u scope rid t2 =
      t2\<lparr>ac_scope := given @ [rid], ac_error := []\<rparr>" and "ac_user t2 = u'"
    using assms(1,2) t1 by (simp_all add: toggleResource_def toggle_call_def on_toggled_def)
  with assms(1) show ?thesis
    by (simp add: toggle_call_def)
qed

subsection \<open>Deleting an account\<close>

text \<open>The button that deletes an account is refused by the page exactly when the bastion would refuse: the
  own account and the last administrator.  After a deletion the page shows what the bastion kept, and
  an administrator is left.\<close>

lemma delete_allowed_as_by_the_bastion:
  assumes "u \<in> set (up_users p)" and "distinct (map (\<lambda>u. jget u ''id'') (up_users p))"
    and "(jget u ''id'' = caller) = strict_eq (jget u ''username'') (up_current p)"
    and "tx env ''users.cannotDeleteSelf'' \<noteq> []" and "tx env ''users.cannotDeleteLastAdmin'' \<noteq> []"
    and "strict_eq (jget u ''id'') (jget u ''id'')"
  shows "(deleteBlocked env p u = []) = (\<exists>left. bastion_delete (up_users p) caller (jget u ''id'') = Inr left) \<and>
    (\<forall>left. bastion_delete (up_users p) caller (jget u ''id'') = Inr left \<longrightarrow>
       up_users (on_deleted env (jget u ''id'') (Inr JUndef) p) = left \<and>
       (admins p \<noteq> [] \<longrightarrow> filter is_admin left \<noteq> []))"
proof -
  have "find (\<lambda>w. jget w ''id'' = jget u ''id'') (up_users p) = Some u"
  proof (cases "find (\<lambda>w. jget w ''id'' = jget u ''id'') (up_users p)")
    case None
    with assms(1) show ?thesis by (auto simp: find_None_iff)
  next
    case (Some w)
    then have "w \<in> set (up_users p)" and "jget w ''id'' = jget u ''id''"
      by (auto simp: find_Some_iff)
    with assms(1,2) Some show ?thesis
      by (auto simp: distinct_map inj_on_def)
  qed
  then have del: "bastion_delete (up_users p) caller (jget u ''id'') =
    (if jget u ''id'' = caller then Inl ''Cannot delete your own account''
     else if is_admin u \<and> length (admins p) \<le> 1 then Inl ''Cannot delete the last admin''
     else Inr (filter (\<lambda>w. jget w ''id'' \<noteq> jget u ''id'') (up_users p)))"
    by (simp add: bastion_delete_def count_admins_locked_def admins_def)
  have same: "strict_eq (jget w ''id'') (jget u ''id'') = (jget w ''id'' = jget u ''id'')" for w
    using assms(6) strict_eq_eq by auto
  have remain: "filter is_admin (filter (\<lambda>w. jget w ''id'' \<noteq> jget u ''id'') (up_users p)) \<noteq> []"
    if "\<not> (is_admin u \<and> length (admins p) \<le> 1)" and "admins p \<noteq> []"
  proof
    assume none: "filter is_admin (filter (\<lambda>w. jget w ''id'' \<noteq> jget u ''id'') (up_users p)) = []"
    then have "w = u" if "w \<in> set (admins p)" for w
      using that assms(1,2) by (auto simp: admins_def filter_empty_conv distinct_map inj_on_def)
    then have "set (admins p) \<subseteq> {u}" by blast
    moreover have "distinct (admins p)"
      using assms(2) by (simp add: admins_def distinct_map)
    ultimately have "length (admins p) \<le> 1"
      using card_mono [of "{u}" "set (admins p)"] by (simp add: distinct_card)
    moreover have "is_admin u"
      using \<open>set (admins p) \<subseteq> {u}\<close> that(2) by (cases "admins p") (auto simp: admins_def filter_eq_Cons_iff)
    ultimately show False using that(1) by simp
  qed
  show ?thesis
    using assms(3-5) remain
    by (auto simp: del deleteBlocked_def on_deleted_def run_end_def same)
qed


subsection \<open>An example\<close>

definition sample_members :: "json list" where
  "sample_members = [JObj [(''id'', JInt 1), (''tagsCsv'', JStr ''zone:prod'')],
                     JObj [(''id'', JInt 2), (''tagsCsv'', JStr ''zone:prod'')]]"

definition sample_access :: access_tab where
  "sample_access = \<lparr>ac_user = JInt 9, ac_turn = 0, ac_scope = [JInt 1, JInt 5], ac_profiles = [],
     ac_loading = False, ac_error = [], ac_query = []\<rparr>"

definition refuse_first :: "api_call \<Rightarrow> js_error + json" where
  "refuse_first c = (if c = grantResourcePermission (JInt 9) (JInt 1) then Inl NetworkError else Inr JNull)"


theorem zone_click_shows_only_the_last_failure_witness:
  "ac_error (toggleZone sample_env refuse_first (JInt 9) [] sample_members False (sample_access\<lparr>ac_scope := []\<rparr>)) = []"
proof -
  have "zone_targets [] sample_members False = [JInt 1] @ [JInt 2]"
    by (simp add: zone_targets_def sample_members_def)
  moreover have "show_rat (of_int 2) \<noteq> show_rat (of_int 1)"
    by (simp only: show_rat_of_int show_int_inject)
  then have "refuse_first (toggle_call (JInt 9) [] (JInt 2)) = Inr JNull"
    by (simp add: refuse_first_def toggle_call_def grantResourcePermission_def plain_call_def show_int_def)
  ultimately show ?thesis
    using zone_click_shows_only_the_last_failure
      [of "[]" sample_members False "[JInt 1]" "JInt 2" sample_env refuse_first "JInt 9" "sample_access\<lparr>ac_scope := []\<rparr>"]
    by simp
qed

theorem late_grant_shows_on_the_other_account_witness:
  "ac_scope (toggleResource sample_env (\<lambda>c. Inr JNull) (JInt 9) [] (JInt 1)
     (on_scope_loaded sample_env 1 (Inr (JObj [(''resourceIds'', JArr [])], JObj [(''profileIds'', JArr [])]))
       (fst (access_effect (JInt 3) False sample_access)))) = [JInt 1]"
proof -
  obtain t1 calls where t: "access_effect (JInt 3) False sample_access = (t1, calls)"
    by fastforce
  then have "ac_turn t1 = 1"
    by (auto simp: access_effect_def sample_access_def)
  then show ?thesis
    using late_grant_shows_on_the_other_account
      [of "JInt 1" "[]" "\<lambda>c. Inr JNull" "JInt 9" JNull "JInt 3" False sample_access t1 calls sample_env
          "JObj [(''resourceIds'', JArr [])]" "JObj [(''profileIds'', JArr [])]" _ "[]" "[]", OF _ _ t refl]
    by (simp add: t [simplified] ids_in_def jread_def nullish_def)
qed

definition sample_users :: users_page where
  "sample_users = \<lparr>up_users = [JObj [(''id'', JInt 1), (''username'', JStr ''ana''), (''role'', JStr ''admin'')],
       JObj [(''id'', JInt 2), (''username'', JStr ''bob''), (''role'', JStr ''operator'')]],
     up_audit = [], up_current = JStr ''ana'', up_query = [], up_role = [], up_no_mfa = False, up_selected = JInt 2,
     up_mode = ''view'', up_tab = ''profile'', up_busy = False, up_error = []\<rparr>"

end
