(* ===== verification/ResourcesPage.thy ===== *)
theory ResourcesPage
  imports Zones UsersPage
begin

section \<open>The page of the resources (pages/admin/ResourcesAdmin.jsx)\<close>

text \<open>
  The list of the resources by zone and the form of one: what it starts from, how an input changes it,
  and the requests of a save.  The form is the object of its fields; texts are what an input holds.
  The form belongs to the editor, which keeps its state until it is closed: another resource in it is
  the effect \<open>editor_effect\<close>.  A reply of the server to a save is a record.  The lists are
  those of the page above; \<open>before\<close> is the order of \<open>localeCompare\<close>.
\<close>

subsection \<open>The form of a resource\<close>

definition PROTOCOLS :: "string list" where
  "PROTOCOLS = [''ssh'', ''rdp'', ''vnc'', ''http'', ''https'', ''agent'', ''k8s'', ''fileshare'', ''postgres'']"

definition DEFAULT_PORT :: "(string \<times> int) list" where
  "DEFAULT_PORT = [(''ssh'', 22), (''rdp'', 3389), (''vnc'', 5900), (''http'', 80), (''https'', 443),
     (''agent'', 22), (''k8s'', 443), (''fileshare'', 443), (''postgres'', 5432)]"

definition DB_TLS_MODES :: "string list" where
  "DB_TLS_MODES = [''prefer'', ''require'', ''verify-full'', ''disable'']"

definition RISKS :: "string list" where
  "RISKS = [''low'', ''medium'', ''high'', ''critical'']"

definition isWebProtocol :: "string \<Rightarrow> bool" where
  "isWebProtocol protocol = (protocol = ''http'' \<or> protocol = ''https'')"

definition splitTags :: "json \<Rightarrow> string list" where
  "splitTags csv = filter (\<lambda>tag. tag \<noteq> []) (map trim (split_on (CHR '','') (text_or csv [])))"

definition zone_tag :: "string \<Rightarrow> bool" where
  "zone_tag tag = starts_with (to_lower tag) ''zone:''"

type_synonym resource_form = "(string \<times> json) list"

definition formFrom :: "json \<Rightarrow> resource_form" where
  "formFrom r =
     (let text = (\<lambda>k d. jor (jget r k) (JStr d)); on = (\<lambda>k. JBool (flag r k)) in
     [(''name'', text ''name'' []),
      (''description'', text ''description'' []),
      (''zone'', JStr (if truthy r then zoneOf r else [])),
      (''otherTags'', JStr (join '', '' (filter (\<lambda>tag. \<not> zone_tag tag) (splitTags (jget r ''tagsCsv''))))),
      (''imageUrl'', text ''imageUrl'' []),
      (''imageData'', text ''imageData'' []),
      (''protocol'', JStr (to_lower (text_or (jget r ''protocol'') ''ssh''))),
      (''target'', text ''target'' []),
      (''port'', JStr (js_string (jcoalesce (jget r ''port'') (JInt 22)))),
      (''agentProtocol'', text ''agentProtocol'' ''tcp''),
      (''dbTlsMode'', text ''dbTlsMode'' ''prefer''),
      (''tunnelTicketRateLimitMaxAttempts'', JStr (show_rat (tunnel_limit r))),
      (''credentialSource'', text ''credentialSource'' ''vaulted''),
      (''sshUsername'', text ''sshUsername'' []),
      (''sshPassword'', JStr []),
      (''httpUsername'', text ''httpUsername'' []),
      (''httpPassword'', JStr []),
      (''k8sNamespace'', JStr ''default''),
      (''k8sKubeconfig'', JStr []),
      (''riskLevel'', JStr (normalizeRiskLevel (jor (jget r ''riskLevel'') (JStr ''low'')))),
      (''requireAccessJustification'', on ''requireAccessJustification''),
      (''requireDualApproval'', on ''requireDualApproval''),
      (''enableCommandGuard'', on ''enableCommandGuard''),
      (''adaptiveAccessPolicy'', on ''adaptiveAccessPolicy''),
      (''allowFileDownload'', on ''allowFileDownload''),
      (''allowFileUpload'', on ''allowFileUpload'')])"

text \<open>A new resource may start from a protocol.\<close>

definition port_text :: "string \<Rightarrow> string \<Rightarrow> string" where
  "port_text protocol d = (case map_of DEFAULT_PORT protocol of Some n \<Rightarrow> show_int n | None \<Rightarrow> d)"

definition ftext :: "resource_form \<Rightarrow> string \<Rightarrow> string" where
  "ftext f k = js_string (field_of f k)"

definition fflag :: "resource_form \<Rightarrow> string \<Rightarrow> bool" where
  "fflag f k = truthy (field_of f k)"

definition initialForm :: "json \<Rightarrow> string \<Rightarrow> resource_form" where
  "initialForm r initialProtocol =
     (let base = formFrom r in
      if truthy r \<or> initialProtocol = [] then base
      else assoc_set ''port'' (JStr (port_text initialProtocol (ftext base ''port'')))
             (assoc_set ''protocol'' (JStr initialProtocol) base))"

text \<open>An input changes its field; the port follows the protocol while it is the usual one.\<close>

definition set_field :: "string \<Rightarrow> json \<Rightarrow> resource_form \<Rightarrow> resource_form" where
  "set_field key v prev =
     (let f = assoc_set key v prev in
      if key = ''protocol'' \<and> ftext prev ''port'' = port_text (ftext prev ''protocol'') []
      then assoc_set ''port'' (JStr (port_text (js_string v) (ftext prev ''port''))) f else f)"

definition image_loaded :: "string \<Rightarrow> resource_form \<Rightarrow> resource_form" where
  "image_loaded data f = assoc_set ''imageUrl'' (JStr []) (assoc_set ''imageData'' (JStr data) f)"

definition remove_image :: "resource_form \<Rightarrow> resource_form" where
  "remove_image f = assoc_set ''imageData'' (JStr []) f"

definition preview :: "env \<Rightarrow> resource_form \<Rightarrow> string list" where
  "preview env f = uniq (describeAccessOutcome (env_t env) (JObj f) @ describeResourcePolicy (env_t env) (JObj f))"

text \<open>\<open>Number.parseInt(s, 10)\<close>: the digits the text begins with; \<open>None\<close> is NaN.\<close>

definition parseInt :: "string \<Rightarrow> int option" where
  "parseInt s =
     (let u = trim_start s; neg = (take 1 u = ''-'');
          ds = takeWhile is_digit (if neg \<or> take 1 u = ''+'' then drop 1 u else u) in
      if ds = [] then None else Some (if neg then - int (digits_val ds) else int (digits_val ds)))"

definition parsed_or :: "string \<Rightarrow> int \<Rightarrow> int" where
  "parsed_or s d = (case parseInt s of None \<Rightarrow> d | Some n \<Rightarrow> if n = 0 then d else n)"

definition form_tags :: "resource_form \<Rightarrow> string list" where
  "form_tags f =
     (let zone = to_lower (trim (ftext f ''zone'')) in
      (if zone = [] then [] else [''zone:'' @ zone]) @
      filter (\<lambda>tag. \<not> zone_tag tag) (splitTags (field_of f ''otherTags'')))"

text \<open>The body of the request; \<open>None\<close> where the name or the target is missing.\<close>

definition form_target :: "resource_form \<Rightarrow> string" where
  "form_target f = str_or (trim (ftext f ''target'')) (if ftext f ''protocol'' = ''fileshare'' then ''drive'' else [])"

definition payload_of :: "resource_form \<Rightarrow> json" where
  "payload_of f =
     (let protocol = ftext f ''protocol''; web = isWebProtocol protocol in
      JObj
       [(''name'', JStr (trim (ftext f ''name''))),
        (''target'', JStr (form_target f)),
        (''protocol'', field_of f ''protocol''),
        (''port'', JInt (parsed_or (ftext f ''port'')
                      (case map_of DEFAULT_PORT protocol of Some n \<Rightarrow> n | None \<Rightarrow> 22))),
        (''tunnelTicketRateLimitMaxAttempts'', JInt (max 0 (parsed_or (ftext f ''tunnelTicketRateLimitMaxAttempts'') 0))),
        (''description'', JStr (trim (ftext f ''description''))),
        (''imageUrl'', JStr (if fflag f ''imageData'' then [] else trim (ftext f ''imageUrl''))),
        (''imageData'', jor (field_of f ''imageData'') (JStr [])),
        (''tagsCsv'', JStr (join '','' (form_tags f))),
        (''credentialSource'', jor (field_of f ''credentialSource'') (JStr ''vaulted'')),
        (''httpUsername'', JStr (if web then trim (ftext f ''httpUsername'') else [])),
        (''httpPassword'', if web then field_of f ''httpPassword'' else JStr []),
        (''sshUsername'', JStr (trim (ftext f ''sshUsername''))),
        (''sshPassword'', field_of f ''sshPassword''),
        (''agentProtocol'', if protocol = ''agent'' then jor (field_of f ''agentProtocol'') (JStr ''tcp'') else JStr []),
        (''dbTlsMode'', if protocol = ''postgres'' then jor (field_of f ''dbTlsMode'') (JStr ''prefer'') else JStr []),
        (''requireAccessJustification'', JBool (fflag f ''requireAccessJustification'')),
        (''requireDualApproval'', JBool (fflag f ''requireDualApproval'')),
        (''enableCommandGuard'', JBool (fflag f ''enableCommandGuard'')),
        (''adaptiveAccessPolicy'', JBool (fflag f ''adaptiveAccessPolicy'')),
        (''allowFileDownload'', JBool (protocol = ''ssh'' \<and> fflag f ''allowFileDownload'')),
        (''allowFileUpload'', JBool (protocol = ''ssh'' \<and> fflag f ''allowFileUpload'')),
        (''riskLevel'', field_of f ''riskLevel'')])"

definition save_payload :: "resource_form \<Rightarrow> json option" where
  "save_payload f = (if trim (ftext f ''name'') = [] \<or> form_target f = [] then None else Some (payload_of f))"

subsection \<open>The editor and the list\<close>

record resource_editor =
  re_resource :: json
  re_form :: resource_form
  re_busy :: bool
  re_error :: string
  re_new_zone :: bool

record resources_page =
  rp_resources :: "json list"
  rp_query :: string
  rp_zone :: string
  rp_selected :: json
  rp_creating :: bool
  rp_notice :: string
  rp_protocol :: string
  rp_editor :: "resource_editor option"

definition selected_resource :: "resources_page \<Rightarrow> json" where
  "selected_resource p =
     (case find (\<lambda>r. strict_eq (jget r ''id'') (rp_selected p)) (rp_resources p) of Some r \<Rightarrow> r | None \<Rightarrow> JNull)"

definition editorOpen :: "resources_page \<Rightarrow> bool" where
  "editorOpen p = (rp_creating p \<or> truthy (selected_resource p))"

definition edited_resource :: "resources_page \<Rightarrow> json" where
  "edited_resource p = (if rp_creating p then JNull else selected_resource p)"

definition initial_protocol :: "resources_page \<Rightarrow> string" where
  "initial_protocol p = (if rp_creating p then rp_protocol p else [])"

text \<open>The effect on the identifier of the resource: the form starts again, and for a cluster its
  configuration is asked for.\<close>

definition cluster_request :: "json \<Rightarrow> api_call list" where
  "cluster_request r =
     (if truthy r \<and> to_lower (js_string (jget r ''protocol'')) = ''k8s'' then [fetchK8sResources] else [])"

definition opened_editor :: "json \<Rightarrow> string \<Rightarrow> resource_editor" where
  "opened_editor r protocol =
     \<lparr>re_resource = r, re_form = initialForm r protocol, re_busy = False, re_error = [], re_new_zone = False\<rparr>"

definition editor_effect :: "json \<Rightarrow> string \<Rightarrow> resource_editor option \<Rightarrow> resource_editor \<times> api_call list" where
  "editor_effect r protocol ed =
     (case ed of
        None \<Rightarrow> (opened_editor r protocol, cluster_request r)
      | Some e \<Rightarrow>
          if strict_eq (jget r ''id'') (jget (re_resource e) ''id'') then (e\<lparr>re_resource := r\<rparr>, [])
          else ((opened_editor r protocol)\<lparr>re_busy := re_busy e\<rparr>, cluster_request r))"

text \<open>What React does after a change of the page's state.\<close>

definition render_resources :: "resources_page \<Rightarrow> resources_page \<times> api_call list" where
  "render_resources p =
     (if editorOpen p
      then (let (e, calls) = editor_effect (edited_resource p) (initial_protocol p) (rp_editor p) in
            (p\<lparr>rp_editor := Some e\<rparr>, calls))
      else (p\<lparr>rp_editor := None\<rparr>, []))"

definition on_editor :: "(resource_editor \<Rightarrow> resource_editor) \<Rightarrow> resources_page \<Rightarrow> resources_page" where
  "on_editor f p = p\<lparr>rp_editor := map_option f (rp_editor p)\<rparr>"

text \<open>The configuration of the clusters arrived for the resource \<open>r\<close> it was asked for.\<close>

definition namespace_of :: "json \<Rightarrow> json \<Rightarrow> json" where
  "namespace_of r reply =
     (case find (\<lambda>c. strict_eq (jget c ''resourceId'') (jget r ''id'')) (array_or_empty (jor (jget reply ''items'') (JArr []))) of
        Some cfg \<Rightarrow> jget cfg ''namespace'' | None \<Rightarrow> JUndef)"

definition on_cluster_config :: "json \<Rightarrow> js_error + json \<Rightarrow> resources_page \<Rightarrow> resources_page" where
  "on_cluster_config r reply p =
     (case reply of
        Inl e \<Rightarrow> p
      | Inr v \<Rightarrow>
          (let ns = namespace_of r v in
           if truthy ns then on_editor (\<lambda>e. e\<lparr>re_form := assoc_set ''k8sNamespace'' ns (re_form e)\<rparr>) p else p))"

definition focus_resource :: "json \<Rightarrow> resources_page \<Rightarrow> resources_page" where
  "focus_resource focus p =
     (if \<not> truthy focus then p
      else if starts_with (js_string focus) ''new''
      then p\<lparr>rp_protocol := (case split_on (CHR '':'') (js_string focus) of _ # protocol # _ \<Rightarrow> protocol | _ \<Rightarrow> []),
             rp_selected := JNull, rp_creating := True\<rparr>
      else p\<lparr>rp_selected := focus, rp_creating := False\<rparr>)"

definition new_resource_click :: "resources_page \<Rightarrow> resources_page" where
  "new_resource_click p = p\<lparr>rp_protocol := [], rp_creating := True, rp_selected := JNull, rp_notice := []\<rparr>"

definition row_click :: "json \<Rightarrow> resources_page \<Rightarrow> resources_page" where
  "row_click r p = p\<lparr>rp_selected := jget r ''id'', rp_creating := False, rp_notice := []\<rparr>"

definition close_editor :: "resources_page \<Rightarrow> resources_page" where
  "close_editor p = p\<lparr>rp_creating := False, rp_selected := JNull\<rparr>"

definition zone_select :: "string \<Rightarrow> resource_editor \<Rightarrow> resource_editor" where
  "zone_select v e =
     (if v = ''__new__'' then e\<lparr>re_new_zone := True, re_form := assoc_set ''zone'' (JStr []) (re_form e)\<rparr>
      else e\<lparr>re_form := set_field ''zone'' (JStr v) (re_form e)\<rparr>)"

definition zone_names_of :: "json list \<Rightarrow> string list" where
  "zone_names_of rs = sort_by (<) (uniq (filter (\<lambda>z. z \<noteq> []) (map zoneOf rs)))"

definition listed_resources :: "(string \<Rightarrow> string \<Rightarrow> bool) \<Rightarrow> resources_page \<Rightarrow> json list" where
  "listed_resources before p =
     (let q = to_lower (trim (rp_query p)) in
      sort_by (name_sorted before ''name'')
        (filter (\<lambda>r. q = [] \<or> list_ex (\<lambda>k. str_includes (to_lower (text_or (jget r k) [])) q)
                        [''name'', ''target'', ''tagsCsv'', ''protocol'', ''description''])
          (filter (\<lambda>r. rp_zone p = ''all'' \<or> zoneOf r = rp_zone p) (rp_resources p))))"

definition resource_groups :: "(string \<Rightarrow> string \<Rightarrow> bool) \<Rightarrow> resources_page \<Rightarrow> (string \<times> json list) list" where
  "resource_groups before p = zone_groups before (listed_resources before p)"

definition no_value :: string where
  "no_value = [CHR 0xE2, CHR 0x80, CHR 0x94]"

definition credentialLabel :: "env \<Rightarrow> json \<Rightarrow> string" where
  "credentialLabel env r =
     (let protocol = to_lower (text_or (jget r ''protocol'') []) in
      if protocol = ''ssh''
      then if flag r ''hasCredentials'' then tx env (''resAdmin.modesShort.'' @ text_or (jget r ''credentialSource'') ''vaulted'')
           else tx env ''resAdmin.typedAtLogin''
      else if isWebProtocol protocol
      then if flag r ''httpUsername'' then tx env ''resAdmin.httpAccountShort'' else no_value
      else if protocol = ''k8s'' then ''kubeconfig''
      else if protocol = ''postgres''
      then if flag r ''sshUsername''
           then js_string (jget r ''sshUsername'') @ [CHR '' '', CHR 0xC2, CHR 0xB7, CHR '' ''] @ tx env ''resAdmin.modesShort.vaulted'' else no_value
      else no_value)"

definition resource_badges :: "env \<Rightarrow> json \<Rightarrow> string list" where
  "resource_badges env r =
     filter (\<lambda>s. s \<noteq> [])
      ((if flag r ''requireDualApproval'' then [tx env ''resAdmin.badgeApproval''] else []) @
       (if flag r ''requireAccessJustification'' then [tx env ''resAdmin.badgeReason''] else []) @
       (if flag r ''enableCommandGuard'' then [tx env ''resAdmin.badgeGuard''] else []) @
       (if flag r ''allowFileDownload'' \<or> flag r ''allowFileUpload'' then [tx env ''resAdmin.badgeFiles''] else []))"

subsection \<open>Save and delete\<close>

text \<open>A click on save: what it sends, and what it captured for the reply.\<close>

record saving =
  sv_new :: bool
  sv_form :: resource_form

definition save_click :: "env \<Rightarrow> resource_editor \<Rightarrow> resource_editor \<times> (saving \<times> api_call) option" where
  "save_click env e =
     (case save_payload (re_form e) of
        None \<Rightarrow> (e\<lparr>re_error := tx env ''resAdmin.required''\<rparr>, None)
      | Some payload \<Rightarrow>
          (e\<lparr>re_busy := True, re_error := []\<rparr>,
           Some (\<lparr>sv_new = \<not> truthy (re_resource e), sv_form = re_form e\<rparr>,
                 if truthy (re_resource e) then updateResource (jget (re_resource e) ''id'') payload
                 else createResource payload)))"

definition cluster_payload :: "resource_form \<Rightarrow> json" where
  "cluster_payload f =
     JObj [(''namespace'', JStr (trim (js_string (jor (field_of f ''k8sNamespace'') (JStr ''default''))))),
           (''kubeconfig'', jor (field_of f ''k8sKubeconfig'') (JStr []))]"

definition resource_saved :: "env \<Rightarrow> saving \<Rightarrow> json \<Rightarrow> resources_page \<Rightarrow> resources_page" where
  "resource_saved env sv saved p =
     on_editor (\<lambda>e. e\<lparr>re_busy := False\<rparr>)
      (fst (render_resources
        (p\<lparr>rp_resources := (if sv_new sv then rp_resources p @ [saved]
              else map (\<lambda>item. if strict_eq (jget item ''id'') (jget saved ''id'') then saved else item) (rp_resources p)),
           rp_creating := False, rp_selected := jget saved ''id'',
           rp_notice := env_t env (if sv_new sv then ''resAdmin.created'' else ''resAdmin.saved'') [(''name'', jget saved ''name'')]\<rparr>)))"

definition on_save_reply :: "env \<Rightarrow> saving \<Rightarrow> js_error + json \<Rightarrow> resources_page \<Rightarrow> resources_page \<times> api_call option" where
  "on_save_reply env sv reply p =
     (case reply of
        Inl e \<Rightarrow> (on_editor (\<lambda>d. d\<lparr>re_error := shown env e (tx env ''resAdmin.saveError''), re_busy := False\<rparr>) p, None)
      | Inr saved \<Rightarrow>
          if ftext (sv_form sv) ''protocol'' = ''k8s'' \<and> flag saved ''id''
          then (p, Some (configureK8sResource (jget saved ''id'') (cluster_payload (sv_form sv))))
          else (resource_saved env sv saved p, None))"

definition on_cluster_saved :: "env \<Rightarrow> saving \<Rightarrow> json \<Rightarrow> js_error + json \<Rightarrow> resources_page \<Rightarrow> resources_page" where
  "on_cluster_saved env sv saved reply p =
     (case reply of
        Inl e \<Rightarrow> resource_saved env sv saved
                  (on_editor (\<lambda>d. d\<lparr>re_error := shown env e (tx env ''resAdmin.k8sError'')\<rparr>) p)
      | Inr _ \<Rightarrow> resource_saved env sv saved p)"

definition on_resource_deleted :: "env \<Rightarrow> json \<Rightarrow> js_error + json \<Rightarrow> resources_page \<Rightarrow> resources_page" where
  "on_resource_deleted env i reply p =
     (case reply of
        Inl e \<Rightarrow> on_editor (\<lambda>d. d\<lparr>re_busy := False\<rparr>) p
      | Inr _ \<Rightarrow>
          (let name = (case find (\<lambda>r. strict_eq (jget r ''id'') i) (rp_resources p) of
                         Some r \<Rightarrow> jor (jget r ''name'') (JStr []) | None \<Rightarrow> JStr []) in
           on_editor (\<lambda>d. d\<lparr>re_busy := False\<rparr>)
            (fst (render_resources
              (p\<lparr>rp_resources := filter (\<lambda>item. \<not> strict_eq (jget item ''id'') i) (rp_resources p),
                 rp_selected := JNull, rp_notice := env_t env ''resAdmin.deleted'' [(''name'', name)]\<rparr>)))))"

subsection \<open>What a save sends\<close>

lemma splitTags_compact: "splitTags csv = split_csv_compact (text_or csv [])"
  by (simp add: splitTags_def split_csv_compact_def)

lemma zone_tag_is [simp]: "zone_tag = is_zone_tag"
  by (simp add: zone_tag_def is_zone_tag_def fun_eq_iff)

lemma form_tags_clean_others:
  "filter (\<lambda>w. \<not> is_zone_tag w) (form_tags f) = filter (\<lambda>w. \<not> is_zone_tag w) (splitTags (field_of f ''otherTags''))"
  by (simp add: form_tags_def is_zone_tag_def to_lower_def starts_with_def lower_char_def is_upper_def code_def)

lemma save_payload_sent: "(save_payload f \<noteq> None) = (trim (ftext f ''name'') \<noteq> [] \<and> form_target f \<noteq> [])"
  by (simp add: save_payload_def)

lemma payload_fields:
  shows "jget (payload_of f) ''name'' = JStr (trim (ftext f ''name''))"
    "jget (payload_of f) ''target'' = JStr (form_target f)"
    "jget (payload_of f) ''protocol'' = field_of f ''protocol''"
    "jget (payload_of f) ''port'' = JInt (parsed_or (ftext f ''port'') (case map_of DEFAULT_PORT (ftext f ''protocol'') of Some n \<Rightarrow> n | None \<Rightarrow> 22))"
    "jget (payload_of f) ''tunnelTicketRateLimitMaxAttempts'' = JInt (max 0 (parsed_or (ftext f ''tunnelTicketRateLimitMaxAttempts'') 0))"
    "jget (payload_of f) ''description'' = JStr (trim (ftext f ''description''))"
    "jget (payload_of f) ''imageUrl'' = JStr (if fflag f ''imageData'' then [] else trim (ftext f ''imageUrl''))"
    "jget (payload_of f) ''imageData'' = jor (field_of f ''imageData'') (JStr [])"
    "jget (payload_of f) ''tagsCsv'' = JStr (join '','' (form_tags f))"
    "jget (payload_of f) ''credentialSource'' = jor (field_of f ''credentialSource'') (JStr ''vaulted'')"
    "jget (payload_of f) ''httpUsername'' = JStr (if isWebProtocol (ftext f ''protocol'') then trim (ftext f ''httpUsername'') else [])"
    "jget (payload_of f) ''httpPassword'' = (if isWebProtocol (ftext f ''protocol'') then field_of f ''httpPassword'' else JStr [])"
    "jget (payload_of f) ''sshUsername'' = JStr (trim (ftext f ''sshUsername''))"
    "jget (payload_of f) ''sshPassword'' = field_of f ''sshPassword''"
    "jget (payload_of f) ''agentProtocol'' = (if ftext f ''protocol'' = ''agent'' then jor (field_of f ''agentProtocol'') (JStr ''tcp'') else JStr [])"
    "jget (payload_of f) ''dbTlsMode'' = (if ftext f ''protocol'' = ''postgres'' then jor (field_of f ''dbTlsMode'') (JStr ''prefer'') else JStr [])"
    "jget (payload_of f) ''riskLevel'' = field_of f ''riskLevel''"
    "jget (payload_of f) ''requireAccessJustification'' = JBool (fflag f ''requireAccessJustification'')"
    "jget (payload_of f) ''requireDualApproval'' = JBool (fflag f ''requireDualApproval'')"
    "jget (payload_of f) ''enableCommandGuard'' = JBool (fflag f ''enableCommandGuard'')"
    "jget (payload_of f) ''adaptiveAccessPolicy'' = JBool (fflag f ''adaptiveAccessPolicy'')"
    "jget (payload_of f) ''allowFileDownload'' = JBool (ftext f ''protocol'' = ''ssh'' \<and> fflag f ''allowFileDownload'')"
    "jget (payload_of f) ''allowFileUpload'' = JBool (ftext f ''protocol'' = ''ssh'' \<and> fflag f ''allowFileUpload'')"
  by (simp_all add: payload_of_def Let_def)

text \<open>What a save sends fits the protocol of the form: an HTTP account only for a web resource, a
  tunnelled protocol only for an agent, a TLS mode only for a database and file transfer only for SSH,
  whatever the hidden fields of the form still hold; a name and a target are there, the port is not 0
  and no limit is negative.\<close>

theorem payload_fits_the_protocol:
  assumes "save_payload f = Some b"
  shows "jget b ''name'' \<noteq> JStr [] \<and> jget b ''target'' \<noteq> JStr [] \<and>
    (\<not> isWebProtocol (ftext f ''protocol'') \<longrightarrow>
       jget b ''httpUsername'' = JStr [] \<and> jget b ''httpPassword'' = JStr []) \<and>
    (ftext f ''protocol'' \<noteq> ''agent'' \<longrightarrow> jget b ''agentProtocol'' = JStr []) \<and>
    (ftext f ''protocol'' \<noteq> ''postgres'' \<longrightarrow> jget b ''dbTlsMode'' = JStr []) \<and>
    (ftext f ''protocol'' \<noteq> ''ssh'' \<longrightarrow>
       \<not> flag b ''allowFileDownload'' \<and> \<not> flag b ''allowFileUpload'') \<and>
    jget b ''port'' \<noteq> JInt 0 \<and> (\<exists>n \<ge> 0. jget b ''tunnelTicketRateLimitMaxAttempts'' = JInt n)"
proof -
  have port: "parsed_or s (case map_of DEFAULT_PORT p of Some n \<Rightarrow> n | None \<Rightarrow> 22) \<noteq> 0" for s p
    by (simp add: parsed_or_def DEFAULT_PORT_def split: option.split)
  show ?thesis
    using assms port by (auto simp: save_payload_def payload_fields flag_def split: if_splits)
qed

subsection \<open>A form that was not changed\<close>

lemma trim_start_Cons: "is_ws c \<Longrightarrow> trim (c # s) = trim s"
  by (simp add: trim_def trim_start_def)

lemma split_csv_join_spaced:
  assumes "list_all clean_tag ws"
  shows "split_csv_compact (join '', '' ws) = ws"
proof -
  have "split_csv_compact (join '', '' (w # vs)) = w # vs" if "list_all clean_tag (w # vs)" for w vs
    using that
  proof (induction vs arbitrary: w)
    case Nil
    then show ?case using split_csv_join [of "[w]"] by simp
  next
    case (Cons v vs)
    have "split_csv_compact (w @ '', '' @ s) = w # split_csv_compact s" for s
    proof -
      have "split_on (CHR '','') (w @ '', '' @ s) = w # split_on (CHR '','') ('' '' @ s)"
        using Cons.prems split_on_append [of "CHR '',''" w "'' '' @ s"] by (simp add: clean_tag_def)
      moreover obtain u us where "split_on (CHR '','') s = u # us"
        by (metis split_on_nonempty neq_Nil_conv)
      ultimately show ?thesis
        using Cons.prems
        by (simp add: split_csv_compact_def clean_tag_def trim_start_Cons is_ws_def code_def)
    qed
    then show ?case using Cons by simp
  qed
  then show ?thesis
    using assms by (cases ws) (auto simp: split_csv_compact_def)
qed

lemma parseInt_show: "0 \<le> i \<Longrightarrow> parseInt (show_int i) = Some i"
proof -
  assume "0 \<le> i"
  then have s: "show_int i = show_nat (nat i)" by (simp add: show_int_def)
  let ?s = "show_nat (nat i)"
  have d: "\<And>c. c \<in> set ?s \<Longrightarrow> is_digit c" by (rule show_nat_digits)
  then have hd: "is_digit (hd ?s)" by simp
  have no: "\<not> is_digit (CHR ''-'')" "\<not> is_digit (CHR ''+'')" "\<And>c. is_digit c \<Longrightarrow> \<not> is_ws c"
    by (simp_all add: is_digit_def is_ws_def code_def)
  have "trim_start ?s = ?s"
    using hd no(3) by (cases ?s) (auto simp: trim_start_def)
  moreover have "take 1 ?s \<noteq> ''-''" "take 1 ?s \<noteq> ''+''"
    using hd no(1,2) by (cases ?s; auto)+
  moreover have tw: "takeWhile is_digit ?s = ?s"
    using d by (simp add: takeWhile_eq_all_conv)
  ultimately show ?thesis
    using \<open>0 \<le> i\<close> by (simp add: parseInt_def s Let_def tw)
qed

text \<open>What the bastion stores for a resource (routes.cc checks it when one is written), trimmed and with the fields of
  its protocol only.\<close>

fun stored_text :: "json \<Rightarrow> bool" where
  "stored_text (JStr s) = (trim s = s)"
| "stored_text _ = False"

definition stored_flag :: "json \<Rightarrow> bool" where
  "stored_flag v = (v = JBool True \<or> v = JBool False)"

definition stored_int :: "int \<Rightarrow> json \<Rightarrow> bool" where
  "stored_int low v = (case v of JNum n \<Rightarrow> n = of_int \<lfloor>n\<rfloor> \<and> low \<le> \<lfloor>n\<rfloor> | _ \<Rightarrow> False)"

definition texts_of_form :: "string list" where
  "texts_of_form = [''name'', ''target'', ''description'', ''imageUrl'', ''imageData'', ''tagsCsv'', ''credentialSource'',
     ''httpUsername'', ''sshUsername'', ''agentProtocol'', ''dbTlsMode'']"

definition flags_of_form :: "string list" where
  "flags_of_form = [''requireAccessJustification'', ''requireDualApproval'', ''enableCommandGuard'',
     ''adaptiveAccessPolicy'', ''allowFileDownload'', ''allowFileUpload'']"

definition stored_resource :: "json \<Rightarrow> bool" where
  "stored_resource r =
     (list_all (\<lambda>k. stored_text (jget r k)) texts_of_form \<and>
      list_all (\<lambda>k. stored_flag (jget r k)) flags_of_form \<and>
      list_all (\<lambda>k. jget r k \<noteq> JStr []) [''name'', ''target'', ''credentialSource''] \<and>
      jget r ''protocol'' \<in> JStr ` set PROTOCOLS \<and> jget r ''riskLevel'' \<in> JStr ` set RISKS \<and>
      stored_int 1 (jget r ''port'') \<and> stored_int 0 (jget r ''tunnelTicketRateLimitMaxAttempts'') \<and>
      (jget r ''imageData'' = JStr [] \<or> jget r ''imageUrl'' = JStr []) \<and>
      (jget r ''protocol'' \<in> {JStr ''http'', JStr ''https''} \<or> jget r ''httpUsername'' = JStr []) \<and>
      (jget r ''protocol'' = JStr ''agent'') = (jget r ''agentProtocol'' \<noteq> JStr []) \<and>
      (jget r ''protocol'' = JStr ''postgres'') = (jget r ''dbTlsMode'' \<noteq> JStr []) \<and>
      (jget r ''protocol'' = JStr ''ssh'' \<or> \<not> flag r ''allowFileDownload'' \<and> \<not> flag r ''allowFileUpload''))"

definition kept_fields :: "string list" where
  "kept_fields = [''name'', ''target'', ''protocol'', ''port'', ''tunnelTicketRateLimitMaxAttempts'', ''description'',
     ''imageUrl'', ''imageData'', ''credentialSource'', ''httpUsername'', ''sshUsername'', ''agentProtocol'', ''dbTlsMode'',
     ''riskLevel'', ''requireAccessJustification'', ''requireDualApproval'', ''enableCommandGuard'', ''adaptiveAccessPolicy'',
     ''allowFileDownload'', ''allowFileUpload'']"

lemma stored_textD: "stored_text v \<Longrightarrow> \<exists>s. v = JStr s \<and> trim s = s"
  by (cases v) simp_all

lemma stored_intD: "stored_int low v \<Longrightarrow> \<exists>i \<ge> low. v = JInt i"
  unfolding stored_int_def by (cases v) auto

lemma stored_flagD: "stored_flag v \<Longrightarrow> JBool (truthy v) = v"
  by (auto simp: stored_flag_def)

lemma jor_text: "stored_text v \<Longrightarrow> jor v (JStr []) = v"
  by (cases v) (auto simp: jor_def)

lemma parsed_port: "1 \<le> i \<Longrightarrow> parsed_or (js_string (jcoalesce (JInt i) (JInt 22))) d = i"
  using parseInt_show [of i] by (simp add: parsed_or_def jcoalesce_def nullish_def)

lemma parsed_limit:
  assumes "0 \<le> i" and "jget r ''tunnelTicketRateLimitMaxAttempts'' = JInt i"
  shows "max 0 (parsed_or (show_rat (tunnel_limit r)) 0) = i"
proof -
  have "tunnel_limit r = of_int i"
    using assms by (simp add: tunnel_limit_def number_or_def)
  then show ?thesis
    using parseInt_show [OF assms(1)] assms(1) by (simp add: parsed_or_def)
qed

lemma protocol_lower: "p \<in> set PROTOCOLS \<Longrightarrow> to_lower p = p \<and> p \<noteq> []"
  by (auto simp: PROTOCOLS_def to_lower_def lower_char_def is_upper_def code_def)

lemma zone_name_fixed:
  assumes "zone = [] \<or> ZONE_NAME zone"
  shows "to_lower (trim zone) = zone"
proof (cases "zone = []")
  case False
  then have "list_all zone_char zone"
    using assms ZONE_NAME_chars by blast
  then have "\<not> is_ws (hd zone)" "\<not> is_ws (last zone)" and "map lower_char zone = zone"
    using False by (auto simp: list_all_iff zone_char_facts intro!: map_idI)
  then show ?thesis
    using trim_fix False by (simp add: to_lower_def)
qed (simp add: to_lower_def)

lemma jor_JStr_same [simp]: "jor (JStr s) (JStr []) = JStr s"
  by (simp add: jor_def)

lemma form_fields:
  "field_of (formFrom r) ''name'' = jor (jget r ''name'') (JStr [])"
  "field_of (formFrom r) ''description'' = jor (jget r ''description'') (JStr [])"
  "field_of (formFrom r) ''imageUrl'' = jor (jget r ''imageUrl'') (JStr [])"
  "field_of (formFrom r) ''imageData'' = jor (jget r ''imageData'') (JStr [])"
  "field_of (formFrom r) ''protocol'' = JStr (to_lower (text_or (jget r ''protocol'') ''ssh''))"
  "field_of (formFrom r) ''target'' = jor (jget r ''target'') (JStr [])"
  "field_of (formFrom r) ''port'' = JStr (js_string (jcoalesce (jget r ''port'') (JInt 22)))"
  "field_of (formFrom r) ''agentProtocol'' = jor (jget r ''agentProtocol'') (JStr ''tcp'')"
  "field_of (formFrom r) ''dbTlsMode'' = jor (jget r ''dbTlsMode'') (JStr ''prefer'')"
  "field_of (formFrom r) ''tunnelTicketRateLimitMaxAttempts'' = JStr (show_rat (tunnel_limit r))"
  "field_of (formFrom r) ''credentialSource'' = jor (jget r ''credentialSource'') (JStr ''vaulted'')"
  "field_of (formFrom r) ''sshUsername'' = jor (jget r ''sshUsername'') (JStr [])"
  "field_of (formFrom r) ''sshPassword'' = JStr []"
  "field_of (formFrom r) ''httpUsername'' = jor (jget r ''httpUsername'') (JStr [])"
  "field_of (formFrom r) ''httpPassword'' = JStr []"
  "field_of (formFrom r) ''riskLevel'' = JStr (normalizeRiskLevel (jor (jget r ''riskLevel'') (JStr ''low'')))"
  by (simp_all add: field_of_def formFrom_def)

lemma ftext_other: "k' \<noteq> k \<Longrightarrow> ftext (assoc_set k v f) k' = ftext f k'"
  by (simp add: ftext_def field_of_def)

lemma form_flags:
  "fflag (formFrom r) ''requireAccessJustification'' = flag r ''requireAccessJustification''"
  "fflag (formFrom r) ''requireDualApproval'' = flag r ''requireDualApproval''"
  "fflag (formFrom r) ''enableCommandGuard'' = flag r ''enableCommandGuard''"
  "fflag (formFrom r) ''adaptiveAccessPolicy'' = flag r ''adaptiveAccessPolicy''"
  "fflag (formFrom r) ''allowFileDownload'' = flag r ''allowFileDownload''"
  "fflag (formFrom r) ''allowFileUpload'' = flag r ''allowFileUpload''"
  by (simp_all add: fflag_def field_of_def formFrom_def)

lemma form_tags_unchanged:
  assumes "truthy r" and "zoneOf r = [] \<or> ZONE_NAME (zoneOf r)"
  shows "join '','' (form_tags (formFrom r)) = tagsWithZone (jget r ''tagsCsv'') (zoneOf r)"
proof -
  let ?ws = "filter (\<lambda>w. \<not> is_zone_tag w) (split_csv_compact (text_or (jget r ''tagsCsv'') []))"
  have "list_all clean_tag ?ws"
    using csv_words_clean by (auto simp: list_all_iff)
  then have "splitTags (JStr (join '', '' ?ws)) = ?ws"
    by (simp add: splitTags_compact split_csv_join_spaced)
  moreover have "field_of (formFrom r) ''otherTags'' = JStr (join '', '' ?ws)"
    by (simp add: field_of_def formFrom_def splitTags_compact)
  moreover have "ftext (formFrom r) ''zone'' = zoneOf r"
    using assms(1) by (simp add: ftext_def field_of_def formFrom_def)
  moreover have "filter (\<lambda>w. \<not> is_zone_tag w) ?ws = ?ws"
    by simp
  ultimately have "form_tags (formFrom r) = (if zoneOf r = [] then ?ws else zoneTag (zoneOf r) # ?ws)"
    using zone_name_fixed [OF assms(2)] by (simp add: form_tags_def zoneTag_def)
  then show ?thesis
    by (simp add: tagsWithZone_def Let_def split_csv_compact_def is_zone_tag_def)
qed

lemma stored_texts:
  assumes "stored_resource r"
  shows "list_all (\<lambda>k. jget r k = JStr (js_string (jget r k)) \<and> trim (js_string (jget r k)) = js_string (jget r k)) texts_of_form"
proof -
  have "list_all (\<lambda>k. stored_text (jget r k)) texts_of_form"
    using assms by (simp only: stored_resource_def)
  then show ?thesis
    by (rule list.pred_mono_strong) (auto dest!: stored_textD)
qed

lemma stored_flags:
  assumes "stored_resource r"
  shows "list_all (\<lambda>k. jget r k = JBool (flag r k)) flags_of_form"
proof -
  have "list_all (\<lambda>k. stored_flag (jget r k)) flags_of_form"
    using assms by (simp only: stored_resource_def)
  then show ?thesis
    by (rule list.pred_mono_strong) (simp add: flag_def stored_flagD)
qed

lemma unchanged_choices:
  assumes "stored_resource r"
  shows "list_all (\<lambda>k. jget (payload_of (formFrom r)) k = jget r k)
    [''protocol'', ''port'', ''tunnelTicketRateLimitMaxAttempts'', ''riskLevel'']"
proof -
  have s: "jget r ''protocol'' \<in> JStr ` set PROTOCOLS" "jget r ''riskLevel'' \<in> JStr ` set RISKS"
    "stored_int 1 (jget r ''port'')" "stored_int 0 (jget r ''tunnelTicketRateLimitMaxAttempts'')"
    using assms by (simp_all only: stored_resource_def)
  obtain port limit where i: "jget r ''port'' = JInt port" "1 \<le> port"
      "jget r ''tunnelTicketRateLimitMaxAttempts'' = JInt limit" "0 \<le> limit"
    using stored_intD [OF s(3)] stored_intD [OF s(4)] by auto
  have "field_of (formFrom r) ''protocol'' = jget r ''protocol''"
    using s(1) protocol_lower by (auto simp: form_fields(5))
  moreover have "field_of (formFrom r) ''riskLevel'' = jget r ''riskLevel''"
    using s(2) by (auto simp: form_fields(16) jor_def RISKS_def risk_levels_def)
  ultimately show ?thesis
    using parsed_port [OF i(2)] parsed_limit [OF i(4,3)]
    by (simp add: payload_fields(3,4,5,17) ftext_def form_fields(7,10) i(1,3))
qed

lemma unchanged_texts:
  assumes "stored_resource r"
  shows "list_all (\<lambda>k. jget (payload_of (formFrom r)) k = jget r k)
    [''name'', ''target'', ''description'', ''imageUrl'', ''imageData'', ''credentialSource'', ''sshUsername'']"
    and "save_payload (formFrom r) = Some (payload_of (formFrom r))"
proof -
  define t where "t k = js_string (jget r k)" for k
  note T = stored_texts [OF assms, unfolded texts_of_form_def list.pred_inject, folded t_def]
  have s: "list_all (\<lambda>k. jget r k \<noteq> JStr []) [''name'', ''target'', ''credentialSource'']"
    "jget r ''imageData'' = JStr [] \<or> jget r ''imageUrl'' = JStr []"
    using assms by (simp_all only: stored_resource_def)
  have nonempty: "t ''name'' \<noteq> []" "t ''target'' \<noteq> []" "t ''credentialSource'' \<noteq> []"
    using s(1) T by auto
  have f: "ftext (formFrom r) ''name'' = t ''name''" "ftext (formFrom r) ''target'' = t ''target''"
    "ftext (formFrom r) ''description'' = t ''description''" "ftext (formFrom r) ''imageUrl'' = t ''imageUrl''"
    "ftext (formFrom r) ''sshUsername'' = t ''sshUsername''" "fflag (formFrom r) ''imageData'' = (t ''imageData'' \<noteq> [])"
    using T by (simp_all add: ftext_def fflag_def form_fields(1-4,6,12))
  show "save_payload (formFrom r) = Some (payload_of (formFrom r))"
    using nonempty T by (simp add: save_payload_def form_target_def str_or_def f)
  have "jget (payload_of (formFrom r)) ''imageUrl'' = jget r ''imageUrl''"
    using s(2) T by (auto simp: payload_fields(7) f)
  then show "list_all (\<lambda>k. jget (payload_of (formFrom r)) k = jget r k)
    [''name'', ''target'', ''description'', ''imageUrl'', ''imageData'', ''credentialSource'', ''sshUsername'']"
    using nonempty T
    by (simp add: payload_fields(1,2,6,8,10,13) form_fields(4,11) form_target_def str_or_def f jor_def)
qed

lemma unchanged_protocol_fields:
  assumes "stored_resource r"
  shows "list_all (\<lambda>k. jget (payload_of (formFrom r)) k = jget r k)
    (''httpUsername'' # ''agentProtocol'' # ''dbTlsMode'' # flags_of_form)"
proof -
  define t where "t k = js_string (jget r k)" for k
  note T = stored_texts [OF assms, unfolded texts_of_form_def list.pred_inject, folded t_def]
  note on = stored_flags [OF assms, unfolded flags_of_form_def list.pred_inject]
  have s: "jget r ''protocol'' \<in> JStr ` set PROTOCOLS"
    "jget r ''protocol'' \<in> {JStr ''http'', JStr ''https''} \<or> jget r ''httpUsername'' = JStr []"
    "(jget r ''protocol'' = JStr ''agent'') = (jget r ''agentProtocol'' \<noteq> JStr [])"
    "(jget r ''protocol'' = JStr ''postgres'') = (jget r ''dbTlsMode'' \<noteq> JStr [])"
    "jget r ''protocol'' = JStr ''ssh'' \<or> \<not> flag r ''allowFileDownload'' \<and> \<not> flag r ''allowFileUpload''"
    using assms by (simp_all only: stored_resource_def)
  obtain p where p: "jget r ''protocol'' = JStr p" and fp: "ftext (formFrom r) ''protocol'' = p"
    using s(1) protocol_lower by (auto simp: ftext_def form_fields(5))
  have user: "ftext (formFrom r) ''httpUsername'' = t ''httpUsername''"
    using T by (simp add: ftext_def form_fields(14))
  have "jget (payload_of (formFrom r)) ''httpUsername'' = jget r ''httpUsername''"
    using s(2) T by (auto simp: payload_fields(11) fp p user isWebProtocol_def)
  moreover have "jget (payload_of (formFrom r)) ''agentProtocol'' = jget r ''agentProtocol''"
    using s(3) T by (auto simp: payload_fields(15) fp p form_fields(8) jor_def)
  moreover have "jget (payload_of (formFrom r)) ''dbTlsMode'' = jget r ''dbTlsMode''"
    using s(4) T by (auto simp: payload_fields(16) fp p form_fields(9) jor_def)
  moreover have "list_all (\<lambda>k. jget (payload_of (formFrom r)) k = jget r k) flags_of_form"
    using s(5) on by (simp add: flags_of_form_def payload_fields(18-23) fp p form_flags) auto
  ultimately show ?thesis
    by simp
qed



subsection \<open>Clusters\<close>

text \<open>As written, the configuration of a cluster that arrives after another cluster was opened in
  the form is put into the form of that other one: saving it then asks the bastion to configure the
  other cluster with the namespace of the first.\<close>

theorem late_configuration_reaches_another_cluster:
  assumes "rp_editor p = Some e" and "truthy (re_resource e)"
    and "namespace_of first reply = JStr ns" and "ns \<noteq> []" and "ftext (re_form e) ''protocol'' = ''k8s''"
    and "rp_editor (on_cluster_config first (Inr reply) p) = Some d" and "save_click env d = (d', Some (sv, call))"
    and "flag saved ''id''"
  shows "(\<exists>b. call = updateResource (jget (re_resource e) ''id'') b) \<and>
    (\<exists>kubeconfig. snd (on_save_reply env sv (Inr saved) q) =
       Some (configureK8sResource (jget saved ''id'')
         (JObj [(''namespace'', JStr (trim ns)), (''kubeconfig'', kubeconfig)])))"
proof -
  have d: "d = e\<lparr>re_form := assoc_set ''k8sNamespace'' (JStr ns) (re_form e)\<rparr>"
    using assms(1,3,4,6) by (simp add: on_cluster_config_def on_editor_def Let_def)
  then have "sv_form sv = assoc_set ''k8sNamespace'' (JStr ns) (re_form e)"
    and call: "\<exists>b. call = updateResource (jget (re_resource e) ''id'') b"
    using assms(2,7) by (auto simp: save_click_def split: option.splits)
  then have "ftext (sv_form sv) ''protocol'' = ''k8s''" and "field_of (sv_form sv) ''k8sNamespace'' = JStr ns"
    using assms(5) by (simp_all add: ftext_def field_of_def)
  then show ?thesis
    using call assms(4,8) by (auto simp: on_save_reply_def cluster_payload_def jor_def)
qed

lemma find_last: "list_all (\<lambda>x. \<not> P x) xs \<Longrightarrow> P x \<Longrightarrow> find P (xs @ [x]) = Some x"
  by (induction xs) auto

text \<open>As written, a cluster that was created but could not be configured is announced as created
  and no error is shown: the form it was typed in becomes that of the new resource, and the error is
  cleared with it.\<close>

theorem failed_configuration_is_not_shown:
  assumes "rp_editor p = Some e" and "re_resource e = JNull" and "sv_new sv"
    and "truthy saved" and "flag saved ''id''"
    and "list_all (\<lambda>r. \<not> strict_eq (jget r ''id'') (jget saved ''id'')) (rp_resources p)"
    and "strict_eq (jget saved ''id'') (jget saved ''id'')"
  shows "let q = on_cluster_saved env sv saved (Inl failure) p in
    rp_notice q = env_t env ''resAdmin.created'' [(''name'', jget saved ''name'')] \<and>
    (\<exists>d. rp_editor q = Some d \<and> re_resource d = saved \<and> re_error d = [] \<and> re_form d = initialForm saved [])"
proof -
  have "find (\<lambda>r. strict_eq (jget r ''id'') (jget saved ''id'')) (rp_resources p @ [saved]) = Some saved"
    using assms(6,7) by (rule find_last)
  moreover have "\<not> strict_eq (jget saved ''id'') (jget JNull ''id'')"
    using assms(5) strict_eq_eq by (fastforce simp: flag_def)
  ultimately show ?thesis
    using assms(1-4)
    by (simp add: on_cluster_saved_def resource_saved_def on_editor_def render_resources_def editorOpen_def
          selected_resource_def edited_resource_def initial_protocol_def editor_effect_def opened_editor_def)
qed

subsection \<open>Examples\<close>

definition sample_stored :: json where
  "sample_stored = JObj [(''id'', JInt 4), (''name'', JStr ''db01''), (''target'', JStr ''10.0.0.4''),
     (''protocol'', JStr ''postgres''), (''port'', JInt 5432), (''tunnelTicketRateLimitMaxAttempts'', JInt 3),
     (''description'', JStr []), (''imageUrl'', JStr []), (''imageData'', JStr []),
     (''tagsCsv'', JStr ''linux,Zone:prod''), (''credentialSource'', JStr ''vaulted''), (''httpUsername'', JStr []),
     (''sshUsername'', JStr ''app''), (''agentProtocol'', JStr []), (''dbTlsMode'', JStr ''require''),
     (''requireAccessJustification'', JBool True), (''requireDualApproval'', JBool False),
     (''enableCommandGuard'', JBool True), (''adaptiveAccessPolicy'', JBool False),
     (''allowFileDownload'', JBool False), (''allowFileUpload'', JBool False), (''riskLevel'', JStr ''high'')]"

definition sample_cluster :: "int \<Rightarrow> json" where
  "sample_cluster i = JObj [(''id'', JInt i), (''name'', JStr ''k8s''), (''target'', JStr ''k8s.prod''), (''protocol'', JStr ''k8s'')]"

definition sample_clusters :: resources_page where
  "sample_clusters = \<lparr>rp_resources = [sample_cluster 1, sample_cluster 2], rp_query = [], rp_zone = ''all'',
     rp_selected = JNull, rp_creating = False, rp_notice = [], rp_protocol = [], rp_editor = None\<rparr>"

definition sample_rdp_form :: resource_form where
  "sample_rdp_form = [(''name'', JStr ''win''), (''target'', JStr ''10.0.0.9''), (''protocol'', JStr ''rdp''), (''port'', JStr ''3389''),
      (''httpPassword'', JStr ''secret'')]"

theorem payload_fits_the_protocol_witness:
  "jget (payload_of sample_rdp_form) ''httpPassword'' = JStr [] \<and> ftext sample_rdp_form ''httpPassword'' = ''secret''"
proof -
  have f: "ftext sample_rdp_form ''protocol'' = ''rdp''" "ftext sample_rdp_form ''httpPassword'' = ''secret''"
    "trim (ftext sample_rdp_form ''name'') \<noteq> []" "form_target sample_rdp_form \<noteq> []"
    by (simp_all add: sample_rdp_form_def ftext_def field_of_def form_target_def str_or_def trim_def trim_start_def is_ws_def code_def)
  then have "save_payload sample_rdp_form = Some (payload_of sample_rdp_form)"
    by (simp add: save_payload_def)
  from payload_fits_the_protocol [OF this] f show ?thesis
    by (simp add: isWebProtocol_def)
qed


definition clusters_opened :: resources_page where
  "clusters_opened = fst (render_resources (row_click (sample_cluster 2)
     (fst (render_resources (row_click (sample_cluster 1) sample_clusters)))))"

theorem late_configuration_reaches_another_cluster_witness:
  "\<exists>e sv call kubeconfig.
     rp_editor (on_cluster_config (sample_cluster 1)
       (Inr (JObj [(''items'', JArr [JObj [(''resourceId'', JInt 1), (''namespace'', JStr ''dev'')]])])) clusters_opened) = Some e \<and>
     snd (save_click sample_env e) = Some (sv, call) \<and>
     snd (on_save_reply sample_env sv (Inr (sample_cluster 2)) clusters_opened) =
       Some (configureK8sResource (JInt 2) (JObj [(''namespace'', JStr ''dev''), (''kubeconfig'', kubeconfig)]))"
proof -
  let ?reply = "JObj [(''items'', JArr [JObj [(''resourceId'', JInt 1), (''namespace'', JStr ''dev'')]])]"
  have e: "rp_editor clusters_opened = Some (opened_editor (sample_cluster 2) [])"
    by (simp add: clusters_opened_def render_resources_def editorOpen_def selected_resource_def row_click_def
          sample_clusters_def sample_cluster_def edited_resource_def initial_protocol_def editor_effect_def opened_editor_def)
  have ns: "namespace_of (sample_cluster 1) ?reply = JStr ''dev''"
    by (simp add: namespace_of_def sample_cluster_def jor_def)
  obtain d where d: "rp_editor (on_cluster_config (sample_cluster 1) (Inr ?reply) clusters_opened) = Some d"
    and dd: "d = (opened_editor (sample_cluster 2) [])\<lparr>re_form := assoc_set ''k8sNamespace'' (JStr ''dev'') (initialForm (sample_cluster 2) [])\<rparr>"
    using e ns by (simp add: on_cluster_config_def on_editor_def opened_editor_def)
  have k: "ftext (re_form (opened_editor (sample_cluster 2) [])) ''protocol'' = ''k8s''"
    "trim (ftext (re_form d) ''name'') \<noteq> []" "form_target (re_form d) \<noteq> []" "truthy (re_resource d)"
    by (simp_all add: dd opened_editor_def initialForm_def Let_def ftext_other form_target_def str_or_def sample_cluster_def
          ftext_def [of "formFrom _"] form_fields(1,5,6) text_or_def jor_def to_lower_def lower_char_def is_upper_def
          trim_def trim_start_def is_ws_def code_def)
  obtain d' sv call where s: "save_click sample_env d = (d', Some (sv, call))"
    using k(2-4) by (simp add: save_click_def save_payload_def)
  have "trim ''dev'' = ''dev''" and "jget (sample_cluster 2) ''id'' = JInt 2" and "flag (sample_cluster 2) ''id''"
    and "truthy (re_resource (opened_editor (sample_cluster 2) []))"
    by (simp_all add: trim_def trim_start_def is_ws_def code_def sample_cluster_def flag_def opened_editor_def)
  then show ?thesis
    using late_configuration_reaches_another_cluster
      [OF e _ ns _ k(1) d s, of "sample_cluster 2" clusters_opened] d s by auto
qed

theorem failed_configuration_is_not_shown_witness:
  "rp_notice (on_cluster_saved sample_env \<lparr>sv_new = True, sv_form = []\<rparr> (sample_cluster 3) (Inl NetworkError)
     (sample_clusters\<lparr>rp_creating := True, rp_editor := Some (opened_editor JNull ''k8s'')\<rparr>)) =
   env_t sample_env ''resAdmin.created'' [(''name'', JStr ''k8s'')]"
  using failed_configuration_is_not_shown
    [of "sample_clusters\<lparr>rp_creating := True, rp_editor := Some (opened_editor JNull ''k8s'')\<rparr>" "opened_editor JNull ''k8s''"
        "\<lparr>sv_new = True, sv_form = []\<rparr>" "sample_cluster 3" sample_env NetworkError]
  by (simp add: opened_editor_def sample_clusters_def sample_cluster_def flag_def Let_def)

end
