(* ===== verification/I18n.thy ===== *)
theory I18n
  imports FrMessages AccessPolicy
begin

section \<open>Looking up a text of the interface (i18n.jsx)\<close>

text \<open>
  The functions of i18n.jsx over any dictionary, an object of objects whose leaves are texts or lists
  of texts.  A placeholder is a name in braces.  \<open>same_texts\<close> compares two dictionaries; what it
  gives for a lookup is proved once here, and the sections of the dictionary are compared in the
  theories that hold them.  A path names keys of objects, never a property of a text or a name
  every object inherits.
\<close>

abbreviation hellip :: string where "hellip \<equiv> [CHR 0xE2, CHR 0x80, CHR 0xA6]"
abbreviation c_cedil :: string where "c_cedil \<equiv> [CHR 0xC3, CHR 0xA7]"
abbreviation i_circ :: string where "i_circ \<equiv> [CHR 0xC3, CHR 0xAE]"
abbreviation A_grave :: string where "A_grave \<equiv> [CHR 0xC3, CHR 0x80]"
abbreviation degree :: string where "degree \<equiv> [CHR 0xC2, CHR 0xB0]"
abbreviation mid_dot :: string where "mid_dot \<equiv> [CHR 0xC2, CHR 0xB7]"
abbreviation times_sign :: string where "times_sign \<equiv> [CHR 0xC3, CHR 0x97]"
abbreviation dash :: string where "dash \<equiv> [CHR 0xE2, CHR 0x80, CHR 0x94]"
abbreviation lquo :: string where "lquo \<equiv> [CHR 0xE2, CHR 0x80, CHR 0x9C]"
abbreviation rquo :: string where "rquo \<equiv> [CHR 0xE2, CHR 0x80, CHR 0x9D]"
abbreviation angle :: string where "angle \<equiv> [CHR 0xE2, CHR 0x80, CHR 0xBA]"
abbreviation right_arrow :: string where "right_arrow \<equiv> [CHR 0xE2, CHR 0x86, CHR 0x92]"

subsection \<open>Lookup and placeholders\<close>

definition getValue :: "json \<Rightarrow> string \<Rightarrow> json" where
  "getValue obj path = fold (\<lambda>key acc. if nullish acc then acc else jget acc key) (split_on (CHR ''.'') path) obj"

definition word_char :: "char \<Rightarrow> bool" where
  "word_char c = (is_alnum c \<or> c = CHR ''_'')"

text \<open>What follows an opening brace: a name and a closing brace, and the rest.\<close>

definition hole_at :: "string \<Rightarrow> (string \<times> string) option" where
  "hole_at s =
     (let w = takeWhile word_char s; r = drop (length w) s in
      if w \<noteq> [] \<and> take 1 r = ''}'' then Some (w, drop 1 r) else None)"

definition hole_text :: "(string \<times> json) list \<Rightarrow> string \<Rightarrow> string" where
  "hole_text ps w =
     (let v = (case map_of ps w of Some v \<Rightarrow> v | None \<Rightarrow> JUndef) in
      if nullish v then ''{'' @ w @ ''}'' else js_string v)"

lemma hole_at_shorter: "hole_at s = Some (w, r) \<Longrightarrow> length r < length s"
  by (cases s) (auto simp: hole_at_def Let_def split: if_splits)

function interpolate :: "(string \<times> json) list \<Rightarrow> string \<Rightarrow> string" where
  "interpolate ps [] = []"
| "interpolate ps (c # s) =
     (if c = CHR ''{''
      then (case hole_at s of Some (w, r) \<Rightarrow> hole_text ps w @ interpolate ps r | None \<Rightarrow> c # interpolate ps s)
      else c # interpolate ps s)"
  by pat_completeness auto
termination
  by (relation "measure (length \<circ> snd)") (auto dest: hole_at_shorter)

text \<open>The texts of one language, with the English ones and the key itself behind them.\<close>

definition entry_of :: "json \<Rightarrow> string \<Rightarrow> string \<Rightarrow> json" where
  "entry_of dictionary locale key =
     jcoalesce (getValue (jget dictionary locale) key) (jcoalesce (getValue (jget dictionary ''en'') key) (JStr key))"

definition translate_in :: "json \<Rightarrow> string \<Rightarrow> string \<Rightarrow> (string \<times> json) list \<Rightarrow> json" where
  "translate_in dictionary locale key ps =
     (let entry = entry_of dictionary locale key in
      if is_array entry then entry else JStr (interpolate ps (js_string entry)))"

definition raw_in :: "json \<Rightarrow> string \<Rightarrow> string \<Rightarrow> json" where
  "raw_in dictionary locale key =
     jcoalesce (getValue (jget dictionary locale) key) (getValue (jget dictionary ''en'') key)"

subsection \<open>The language of the page\<close>

definition DEFAULT_LOCALE :: string where
  "DEFAULT_LOCALE = ''fr''"

text \<open>\<open>saved\<close> is what the local storage holds, \<open>None\<close> where there is nothing or it cannot be
  read; \<open>language\<close> is that of the browser, \<open>None\<close> where there is no navigator.\<close>

definition resolveInitialLocale :: "string option \<Rightarrow> json option \<Rightarrow> string" where
  "resolveInitialLocale saved language =
     (if saved = Some ''fr'' then ''fr'' else if saved = Some ''en'' then ''en''
      else case language of
        None \<Rightarrow> DEFAULT_LOCALE
      | Some l \<Rightarrow>
          (let browserLocale = to_lower (text_or l []) in
           if starts_with browserLocale ''fr'' then ''fr''
           else if starts_with browserLocale ''en'' then ''en'' else DEFAULT_LOCALE))"

text \<open>The effect on the language keeps it, where the storage can be written.\<close>

definition locale_effect :: "bool \<Rightarrow> string \<Rightarrow> string option \<Rightarrow> string option" where
  "locale_effect writable l saved = (if writable then Some l else saved)"

lemma initial_locale: "resolveInitialLocale saved language \<in> {''en'', ''fr''}"
  by (auto simp: resolveInitialLocale_def DEFAULT_LOCALE_def Let_def split: option.split)

lemma language_kept:
  "l \<in> {''en'', ''fr''} \<Longrightarrow> resolveInitialLocale (locale_effect True l saved) language = l"
  by (auto simp: resolveInitialLocale_def locale_effect_def)

subsection \<open>A template as its parts\<close>

datatype part = Letter char | Hole string

function parts :: "string \<Rightarrow> part list" where
  "parts [] = []"
| "parts (c # s) =
     (if c = CHR ''{''
      then (case hole_at s of Some (w, r) \<Rightarrow> Hole w # parts r | None \<Rightarrow> Letter c # parts s)
      else Letter c # parts s)"
  by pat_completeness auto
termination
  by (relation "measure length") (auto dest: hole_at_shorter)

fun fill :: "(string \<times> json) list \<Rightarrow> part \<Rightarrow> string" where
  "fill ps (Letter c) = [c]"
| "fill ps (Hole w) = hole_text ps w"

definition holes :: "string \<Rightarrow> string list" where
  "holes s = concat (map (\<lambda>p. case p of Hole w \<Rightarrow> [w] | Letter c \<Rightarrow> []) (parts s))"

lemma interpolate_parts: "interpolate ps s = concat (map (fill ps) (parts s))"
  by (induction ps s rule: interpolate.induct) (auto split: option.split)

lemma holes_code:
  "holes [] = []"
  "holes (c # s) = (if c = CHR ''{'' then (case hole_at s of Some (w, r) \<Rightarrow> w # holes r | None \<Rightarrow> holes s) else holes s)"
  by (simp_all add: holes_def split: option.split)

subsection \<open>Two dictionaries with the same texts\<close>

fun take_key :: "string \<Rightarrow> (string \<times> json) list \<Rightarrow> (json \<times> (string \<times> json) list) option" where
  "take_key k [] = None"
| "take_key k ((k', v) # r) =
     (if k = k' then Some (v, r) else map_option (\<lambda>(w, r'). (w, (k', v) # r')) (take_key k r))"

fun same_texts :: "json \<Rightarrow> json \<Rightarrow> bool"
  and same_fields :: "(string \<times> json) list \<Rightarrow> (string \<times> json) list \<Rightarrow> bool" where
  "same_texts (JStr a) (JStr b) = (a \<noteq> [] \<and> b \<noteq> [] \<and> set (holes a) = set (holes b))"
| "same_texts (JArr a) (JArr b) = (length a = length b)"
| "same_texts (JObj a) (JObj b) = same_fields a b"
| "same_texts _ _ = False"
| "same_fields [] b = (b = [])"
| "same_fields ((k, v) # a) b =
     (case take_key k b of None \<Rightarrow> False | Some (w, b') \<Rightarrow> same_texts v w \<and> same_fields a b')"

lemma take_key_some:
  assumes "take_key k b = Some (w, b')"
  shows "map_of b k = Some w" and "k' \<noteq> k \<Longrightarrow> map_of b k' = map_of b' k'"
proof -
  have "map_of b k = Some w \<and> (k' \<noteq> k \<longrightarrow> map_of b k' = map_of b' k')"
    using assms by (induction b arbitrary: b') (auto split: if_splits)
  then show "map_of b k = Some w" and "k' \<noteq> k \<Longrightarrow> map_of b k' = map_of b' k'"
    by auto
qed

text \<open>What is found under a key in both: the same kind of thing, with the same placeholders, or nothing.\<close>

definition alike :: "json \<Rightarrow> json \<Rightarrow> bool" where
  "alike v w = (same_texts v w \<or> v = JUndef \<and> w = JUndef)"

lemma same_fields_lookup:
  "same_fields a b \<Longrightarrow>
     alike (case map_of a k of Some v \<Rightarrow> v | None \<Rightarrow> JUndef) (case map_of b k of Some w \<Rightarrow> w | None \<Rightarrow> JUndef)"
proof (induction a arbitrary: b)
  case (Cons kv a)
  obtain k0 v where kv: "kv = (k0, v)" by fastforce
  then obtain w b' where t: "take_key k0 b = Some (w, b')" and "same_texts v w" and "same_fields a b'"
    using Cons.prems by (auto split: option.splits)
  with Cons.IH [of b'] take_key_some(1) [OF t] take_key_some(2) [OF t, of k] kv show ?case
    by (cases "k = k0") (auto simp: alike_def)
qed (simp add: alike_def)

lemma alike_jget: "alike v w \<Longrightarrow> alike (jget v k) (jget w k)"
  by (cases v; cases w) (auto simp: alike_def same_fields_lookup [unfolded alike_def])

lemma alike_nullish: "alike v w \<Longrightarrow> nullish v = nullish w"
  by (cases v; cases w) (auto simp: alike_def nullish_def)

lemma alike_getValue: "alike v w \<Longrightarrow> alike (getValue v path) (getValue w path)"
proof -
  have "alike (fold (\<lambda>key acc. if nullish acc then acc else jget acc key) ks v)
      (fold (\<lambda>key acc. if nullish acc then acc else jget acc key) ks w)" if "alike v w" for ks
    using that alike_jget alike_nullish by (induction ks arbitrary: v w) auto
  then show "alike v w \<Longrightarrow> alike (getValue v path) (getValue w path)"
    by (simp add: getValue_def)
qed

lemma alike_text: "alike (JStr s) w \<Longrightarrow> \<exists>s'. w = JStr s' \<and> s \<noteq> [] \<and> s' \<noteq> [] \<and> set (holes s) = set (holes s')"
  by (cases w) (auto simp: alike_def)

lemma alike_sym_text: "alike v (JStr s) \<Longrightarrow> \<exists>s'. v = JStr s'"
  by (cases v) (auto simp: alike_def)

text \<open>Comparing two objects field by field.  A text is walked from the left, its rest left alone
  (\<open>holes_cong\<close>), so that a comparison is linear in its length.\<close>

lemma same_ConsI: "same_texts v w \<Longrightarrow> same_fields a b \<Longrightarrow> same_fields ((k, v) # a) ((k, w) # b)"
  by simp

lemma same_NilI: "same_fields [] []"
  by simp

lemma same_ObjI: "same_fields a b \<Longrightarrow> same_texts (JObj a) (JObj b)"
  by simp

lemma same_TextI: "a \<noteq> [] \<Longrightarrow> b \<noteq> [] \<Longrightarrow> set (holes a) = set (holes b) \<Longrightarrow> same_texts (JStr a) (JStr b)"
  by simp

definition holes_brace :: "string \<Rightarrow> string list" where
  "holes_brace s = (case hole_at s of Some (w, r) \<Rightarrow> w # holes r | None \<Rightarrow> holes s)"

lemma holes_cong: "holes s = holes s"
  by simp

lemma holes_walk:
  "holes [] = []" "holes (c # s) = (if c = CHR ''{'' then holes_brace s else holes s)"
  "holes ([] @ s) = holes s" "holes ((c # w) @ s) = (if c = CHR ''{'' then holes_brace (w @ s) else holes (w @ s))"
  by (simp_all add: holes_brace_def holes_code)

lemmas same_intros = same_ConsI same_NilI same_ObjI same_TextI

lemmas walk_simps = holes_walk holes_brace_def hole_at_def word_char_def is_alnum_def is_digit_def is_upper_def
  is_lower_def code_def Let_def

end
