(* ===== verification/TextsGeneral.thy ===== *)
theory TextsGeneral
  imports I18n
begin

section \<open>Texts of the interface (i18n.jsx): confirm, common, roles, policy, shell, req, relayLock, reports, journal\<close>

text \<open>
  The sections of the dictionary in the order of the source, English and French, with what compares
  them: the same keys and the same placeholders.
\<close>

subsection \<open>confirm\<close>

definition texts_en_confirm :: json where
  "texts_en_confirm = JObj [
      (''kicker'', JStr ''Confirmation''),
      (''busy'', JStr (''Working'' @ hellip)),
      (''failed'', JStr ''The action failed.''),
      (''typeToConfirm'', JStr ''Type {text} to confirm.''),
      (''endSession'', JStr ''End session #{id}?''),
      (''endSessionMsg'', JStr ''The connection is cut immediately.''),
      (''endSessionMsgUser'', JStr ''The connection of {user} on {target} is cut immediately.''),
      (''deleteResource'', JStr ''Delete the resource {name}?''),
      (''deleteResourceMsg'', JStr ''This cannot be undone. The journal keeps its history.''),
      (''deleteUser'', JStr ''Delete the user {name}?''),
      (''deleteUserMsg'',
        JStr ''The account can no longer sign in. This cannot be undone; the journal keeps its history.''),
      (''contain'', JStr ''Enable containment?''),
      (''deletePolicy'', JStr ''Delete the policy {name}?''),
      (''deletePolicyMsg'', JStr ''The resources it covers are no longer subject to its rules.''),
      (''deleteProfile'', JStr ''Delete the access profile {name}?''),
      (''deleteProfileMsg'', JStr ''This cannot be undone.''),
      (''disableTotp'', JStr ''Remove the authenticator app?''),
      (''disableTotpMsg'', JStr ''Its codes will no longer be accepted at sign-in.''),
      (''removeKey'', JStr ''Remove the security key {name}?''),
      (''removeKeyMsg'', JStr ''It can no longer be used to sign in.''),
      (''deactivateUser'', JStr ''Deactivate {name}?''),
      (''deactivateUserMsg'', JStr ''The account can no longer sign in until it is reactivated.''),
      (''removeNode'', JStr ''Remove the node {name} from the cluster?''),
      (''rotate'', JStr ''Change the password of {name} now?''),
      (''removeRule'', JStr ''Remove the rule {name}?''),
      (''removeRuleMsg'', JStr ''The command it matches is no longer blocked by this rule.'')]"

definition texts_fr_confirm :: json where
  "texts_fr_confirm = JObj [
      (''kicker'', JStr ''Confirmation''),
      (''busy'', JStr (''En cours'' @ hellip)),
      (''failed'', JStr (''L'' @ apos @ ''action a '' @ e_acute @ ''chou'' @ e_acute @ ''.'')),
      (''typeToConfirm'', JStr ''Tapez {text} pour confirmer.''),
      (''endSession'', JStr (''Terminer la session n'' @ degree @ '' {id} ?'')),
      (''endSessionMsg'', JStr (''La connexion est coup'' @ e_acute @ ''e imm'' @ e_acute @ ''diatement.'')),
      (''endSessionMsgUser'',
        JStr (''La connexion de {user} sur {target} est coup'' @ e_acute @ ''e imm'' @ e_acute @ ''diatement.'')),
      (''deleteResource'', JStr ''Supprimer la ressource {name} ?''),
      (''deleteResourceMsg'',
        JStr (''Cette action est d'' @ e_acute @ ''finitive. Le journal garde son historique.'')),
      (''deleteUser'', JStr (''Supprimer l'' @ apos @ ''utilisateur {name} ?'')),
      (''deleteUserMsg'',
        JStr (''Le compte ne pourra plus se connecter. Cette action est d'' @ e_acute @
              ''finitive ; le journal garde son historique.'')),
      (''contain'', JStr ''Activer le confinement ?''),
      (''deletePolicy'', JStr ''Supprimer la politique {name} ?''),
      (''deletePolicyMsg'',
        JStr (''Les ressources qu'' @ apos @ ''elle couvre ne sont plus soumises '' @ a_grave @ '' ses r'' @
              e_grave @ ''gles.'')),
      (''deleteProfile'', JStr (''Supprimer le profil d'' @ apos @ ''acc'' @ e_grave @ ''s {name} ?'')),
      (''deleteProfileMsg'', JStr (''Cette action est d'' @ e_acute @ ''finitive.'')),
      (''disableTotp'', JStr (''Retirer l'' @ apos @ ''application d'' @ apos @ ''authentification ?'')),
      (''disableTotpMsg'',
        JStr (''Ses codes ne seront plus accept'' @ e_acute @ ''s '' @ a_grave @ '' la connexion.'')),
      (''removeKey'', JStr (''Retirer la cl'' @ e_acute @ '' de s'' @ e_acute @ ''curit'' @ e_acute @ '' {name} ?'')),
      (''removeKeyMsg'', JStr (''Elle ne pourra plus servir '' @ a_grave @ '' se connecter.'')),
      (''deactivateUser'', JStr (''D'' @ e_acute @ ''sactiver {name} ?'')),
      (''deactivateUserMsg'',
        JStr (''Le compte ne pourra plus se connecter jusqu'' @ apos @ a_grave @ '' sa r'' @ e_acute @
              ''activation.'')),
      (''removeNode'', JStr (''Retirer le n'' @ oe_lig @ ''ud {name} du cluster ?'')),
      (''rotate'', JStr ''Changer maintenant le mot de passe de {name} ?''),
      (''removeRule'', JStr (''Supprimer la r'' @ e_grave @ ''gle {name} ?'')),
      (''removeRuleMsg'',
        JStr (''La commande qu'' @ apos @ ''elle vise n'' @ apos @ ''est plus bloqu'' @ e_acute @
              ''e par cette r'' @ e_grave @ ''gle.''))]"

lemma same_confirm: "same_texts texts_en_confirm texts_fr_confirm"
  unfolding texts_en_confirm_def texts_fr_confirm_def
  by (intro same_intros; simp add: walk_simps cong: holes_cong)

subsection \<open>common\<close>

definition texts_en_common :: json where
  "texts_en_common = JObj [
      (''language'', JStr ''Language''),
      (''french'', JStr (''Fran'' @ c_cedil @ ''ais'')),
      (''english'', JStr ''English''),
      (''back'', JStr ''Back''),
      (''close'', JStr ''Close''),
      (''cancel'', JStr ''Cancel''),
      (''create'', JStr ''Create''),
      (''update'', JStr ''Update''),
      (''delete'', JStr ''Delete''),
      (''edit'', JStr ''Edit''),
      (''save'', JStr ''Save''),
      (''refresh'', JStr ''Refresh''),
      (''loading'', JStr ''loading''),
      (''syncing'', JStr ''syncing''),
      (''enabled'', JStr ''enabled''),
      (''disabled'', JStr ''disabled''),
      (''required'', JStr ''Required''),
      (''optional'', JStr ''Optional''),
      (''direct'', JStr ''Direct''),
      (''relay'', JStr ''Relay''),
      (''agent'', JStr ''Agent''),
      (''notAvailable'', JStr ''n/a''),
      (''online'', JStr ''Online''),
      (''offline'', JStr ''Offline''),
      (''yes'', JStr ''Yes''),
      (''no'', JStr ''No'')]"

definition texts_fr_common :: json where
  "texts_fr_common = JObj [
      (''language'', JStr ''Langue''),
      (''french'', JStr (''Fran'' @ c_cedil @ ''ais'')),
      (''english'', JStr ''English''),
      (''back'', JStr ''Retour''),
      (''close'', JStr ''Fermer''),
      (''cancel'', JStr ''Annuler''),
      (''create'', JStr (''Cr'' @ e_acute @ ''er'')),
      (''update'', JStr (''Mettre '' @ a_grave @ '' jour'')),
      (''delete'', JStr ''Supprimer''),
      (''edit'', JStr ''Modifier''),
      (''save'', JStr ''Enregistrer''),
      (''refresh'', JStr (''Rafra'' @ i_circ @ ''chir'')),
      (''loading'', JStr ''chargement''),
      (''syncing'', JStr ''synchronisation''),
      (''enabled'', JStr (''activ'' @ e_acute)),
      (''disabled'', JStr (''d'' @ e_acute @ ''sactiv'' @ e_acute)),
      (''required'', JStr ''Obligatoire''),
      (''optional'', JStr ''Optionnel''),
      (''direct'', JStr ''Direct''),
      (''relay'', JStr ''Relais''),
      (''agent'', JStr ''Agent''),
      (''notAvailable'', JStr ''n/d''),
      (''online'', JStr ''En ligne''),
      (''offline'', JStr ''Hors ligne''),
      (''yes'', JStr ''Oui''),
      (''no'', JStr ''Non'')]"

lemma same_common: "same_texts texts_en_common texts_fr_common"
  unfolding texts_en_common_def texts_fr_common_def
  by (intro same_intros; simp add: walk_simps cong: holes_cong)

subsection \<open>roles\<close>

definition texts_en_roles :: json where
  "texts_en_roles = JObj [
      (''operator'',
        JObj [
          (''label'', JStr ''Session Operator''),
          (''description'', JStr ''Launch and manage remote sessions on authorized resources.''),
          (''permissions'',
            JArr [
              JStr ''Start and terminate sessions'',
              JStr ''Use SSH/web/agent access paths'',
              JStr ''View personal operations data''])]),
      (''admin'',
        JObj [
          (''label'', JStr ''Platform Admin''),
          (''description'', JStr ''Govern users, resources, and assignment policies.''),
          (''permissions'',
            JArr [
              JStr ''Create and edit users'',
              JStr ''Manage resources and credentials'',
              JStr ''Assign resource permissions''])]),
      (''auditor'',
        JObj [
          (''label'', JStr ''Security Auditor''),
          (''description'', JStr ''Monitor traceability and investigate security events.''),
          (''permissions'',
            JArr [
              JStr ''Read audit events'',
              JStr ''Replay session recordings'',
              JStr ''Access governance metrics''])])]"

definition texts_fr_roles :: json where
  "texts_fr_roles = JObj [
      (''operator'',
        JObj [
          (''label'', JStr (''Op'' @ e_acute @ ''rateur de session'')),
          (''description'',
            JStr (''Lance et g'' @ e_grave @ ''re des sessions distantes sur les ressources autoris'' @ e_acute @
                  ''es.'')),
          (''permissions'',
            JArr [
              JStr (''D'' @ e_acute @ ''marrer et terminer des sessions''),
              JStr (''Utiliser les acc'' @ e_grave @ ''s SSH/web/agent''),
              JStr (''Voir ses donn'' @ e_acute @ ''es d'' @ apos @ ''exploitation'')])]),
      (''admin'',
        JObj [
          (''label'', JStr ''Administrateur plateforme''),
          (''description'',
            JStr (''Gouverne les utilisateurs, les ressources et les politiques d'' @ apos @ ''attribution.'')),
          (''permissions'',
            JArr [
              JStr (''Cr'' @ e_acute @ ''er et modifier des utilisateurs''),
              JStr (''G'' @ e_acute @ ''rer les ressources et identifiants''),
              JStr ''Attribuer les permissions de ressources''])]),
      (''auditor'',
        JObj [
          (''label'', JStr (''Auditeur s'' @ e_acute @ ''curit'' @ e_acute)),
          (''description'',
            JStr (''Surveille la tra'' @ c_cedil @ ''abilit'' @ e_acute @ '' et enqu'' @ e_circ @
                  ''te sur les '' @ e_acute @ ''v'' @ e_acute @ ''nements de s'' @ e_acute @ ''curit'' @ e_acute @
                  ''.'')),
          (''permissions'',
            JArr [
              JStr (''Lire les '' @ e_acute @ ''v'' @ e_acute @ ''nements d'' @ apos @ ''audit''),
              JStr ''Relire les enregistrements de session'',
              JStr (''Acc'' @ e_acute @ ''der aux m'' @ e_acute @ ''triques de gouvernance'')])])]"

lemma same_roles: "same_texts texts_en_roles texts_fr_roles"
  unfolding texts_en_roles_def texts_fr_roles_def
  by (intro same_intros; simp add: walk_simps cong: holes_cong)

subsection \<open>policy\<close>

definition texts_en_policy :: json where
  "texts_en_policy = JObj [
      (''risk'', JStr ''Risk {level}''),
      (''reasonRequired'', JStr ''Reason required''),
      (''dualApproval'', JStr ''Dual approval''),
      (''adaptiveControls'', JStr ''Adaptive controls''),
      (''sshGuard'', JStr ''SSH guard''),
      (''tunnelLimit'', JStr ''Tunnel limit {limit}/min''),
      (''mfaSensitive'', JStr ''MFA-sensitive''),
      (''requestApproval'', JStr ''Request approval''),
      (''connectNow'', JStr ''Connect now''),
      (''ticketRequired'', JStr ''Ticket required''),
      (''mfaLevel'', JStr ''MFA: {value}''),
      (''viaRelay'', JStr ''Through a relay''),
      (''hours'', JStr ''Only {window} UTC''),
      (''maxDuration'', JStr ''{minutes} min maximum''),
      (''ticketOrPurposeLikely'', JStr ''Ticket or purpose likely''),
      (''purposeRequired'', JStr ''Purpose required'')]"

definition texts_fr_policy :: json where
  "texts_fr_policy = JObj [
      (''risk'', JStr ''Risque {level}''),
      (''reasonRequired'', JStr ''Justification requise''),
      (''dualApproval'', JStr ''Double approbation''),
      (''adaptiveControls'', JStr (''Contr'' @ o_circ @ ''les adaptatifs'')),
      (''sshGuard'', JStr ''Garde-fou SSH''),
      (''tunnelLimit'', JStr ''Limite tunnel {limit}/min''),
      (''mfaSensitive'', JStr ''Sensible MFA''),
      (''requestApproval'', JStr ''Demander une approbation''),
      (''connectNow'', JStr (''Connexion imm'' @ e_acute @ ''diate'')),
      (''ticketRequired'', JStr ''Ticket obligatoire''),
      (''mfaLevel'', JStr ''MFA : {value}''),
      (''viaRelay'', JStr ''Via un relais''),
      (''hours'', JStr ''Seulement {window} UTC''),
      (''maxDuration'', JStr ''{minutes} min maximum''),
      (''ticketOrPurposeLikely'', JStr ''Ticket ou objectif probable''),
      (''purposeRequired'', JStr ''Objectif requis'')]"

lemma same_policy: "same_texts texts_en_policy texts_fr_policy"
  unfolding texts_en_policy_def texts_fr_policy_def
  by (intro same_intros; simp add: walk_simps cong: holes_cong)

subsection \<open>shell\<close>

definition texts_en_shell :: json where
  "texts_en_shell = JObj [
      (''sections'', JStr ''Sections''),
      (''map'', JStr ''Map''),
      (''sessions'', JStr ''Sessions''),
      (''requests'', JStr ''Requests''),
      (''journal'', JStr ''Journal''),
      (''reports'', JStr ''Reports''),
      (''evidence'', JStr ''Evidence''),
      (''zones'', JStr ''Zones''),
      (''admin'', JStr ''Administration''),
      (''privilegeOn'', JStr ''Privileged access on''),
      (''expiresAt'', JStr ''expires at {time}''),
      (''otherPrivileges'', JStr ''+{count} other''),
      (''openSession'', JStr ''Open session''),
      (''endSession'', JStr ''End''),
      (''soonTitle'', JStr ''{section} is being redesigned''),
      (''soonText'',
        JStr ''This screen moves to the new interface in a later step. The current version stays available meanwhile.''),
      (''soonOpenLegacy'', JStr ''Open the current version'')]"

definition texts_fr_shell :: json where
  "texts_fr_shell = JObj [
      (''sections'', JStr ''Sections''),
      (''map'', JStr ''Carte''),
      (''sessions'', JStr ''Sessions''),
      (''requests'', JStr ''Demandes''),
      (''journal'', JStr ''Journal''),
      (''reports'', JStr ''Rapports''),
      (''evidence'', JStr ''Preuves''),
      (''zones'', JStr ''Zones''),
      (''admin'', JStr ''Administration''),
      (''privilegeOn'', JStr (''Acc'' @ e_grave @ ''s privil'' @ e_acute @ ''gi'' @ e_acute @ '' sur'')),
      (''expiresAt'', JStr (''expire '' @ a_grave @ '' {time}'')),
      (''otherPrivileges'', JStr ''+{count} autre(s)''),
      (''openSession'', JStr ''Ouvrir la session''),
      (''endSession'', JStr ''Terminer''),
      (''soonTitle'', JStr (''{section} : nouvelle interface en pr'' @ e_acute @ ''paration'')),
      (''soonText'',
        JStr (''Cet '' @ e_acute @ ''cran passe '' @ a_grave @ '' la nouvelle interface dans une prochaine '' @
              e_acute @ ''tape. La version actuelle reste disponible en attendant.'')),
      (''soonOpenLegacy'', JStr ''Ouvrir la version actuelle'')]"

lemma same_shell: "same_texts texts_en_shell texts_fr_shell"
  unfolding texts_en_shell_def texts_fr_shell_def
  by (intro same_intros; simp add: walk_simps cong: holes_cong)

subsection \<open>req\<close>

definition texts_en_req :: json where
  "texts_en_req = JObj [
      (''title'', JStr ''Access requests''),
      (''subtitleReviewer'',
        JStr (''Access to sensitive resources waits for an administrator'' @ apos @ ''s decision.'')),
      (''subtitleUser'', JStr ''Your requests for sensitive resources and their decision.''),
      (''toReview'', JStr ''To review''),
      (''mine'', JStr ''My requests''),
      (''history'', JStr ''History''),
      (''list'', JStr ''Requests''),
      (''detail'', JStr ''Request details''),
      (''nothingSelected'', JStr ''Select a request.''),
      (''asks'', JStr ''{user} requests''),
      (''requestNo'', JStr ''Request #{id}''),
      (''zone'', JStr ''zone {zone}''),
      (''resourceGone'', JStr ''Resource deleted''),
      (''rules'', JStr ''Rules applied''),
      (''requesterRole'', JStr ''Requester role''),
      (''waiting'', JStr ''Waiting since''),
      (''validUntil'', JStr ''Usable until''),
      (''timeline'', JStr ''History''),
      (''evCreated'', JStr ''Request created by {user}''),
      (''evApproved'', JStr ''Approved by {user}''),
      (''evDenied'', JStr ''Denied by {user}''),
      (''evSession'', JStr ''Session #{id} opened''),
      (''evExpired'', JStr ''Approval expired''),
      (''evWaiting'', JStr ''Waiting for an approver''),
      (''decisionHint'', JStr ''Once approved, the access can be used for 1 hour.''),
      (''deny'', JStr ''Deny''),
      (''approve'', JStr ''Approve''),
      (''approvedHint'', JStr ''Approved: you can connect until {time}.''),
      (''pendingHint'', JStr ''An administrator will review your request.''),
      (''askFromMap'', JStr ''Request access from the map''),
      (''locked'', JStr ''Access requests and approvals are part of the Pro edition.''),
      (''unlock'', JStr ''See editions''),
      (''status'',
        JObj [
          (''pending'', JStr ''Pending''),
          (''approved'', JStr ''Approved''),
          (''denied'', JStr ''Denied''),
          (''expired'', JStr ''Expired'')]),
      (''empty'',
        JObj [
          (''todo'', JStr ''Nothing to review.''),
          (''mine'', JStr ''You have not requested any access.''),
          (''done'', JStr ''No decided request yet.'')])]"

definition texts_fr_req :: json where
  "texts_fr_req = JObj [
      (''title'', JStr (''Demandes d'' @ apos @ ''acc'' @ e_grave @ ''s'')),
      (''subtitleReviewer'',
        JStr (''Les acc'' @ e_grave @ ''s aux ressources sensibles attendent la d'' @ e_acute @ ''cision d'' @
              apos @ ''un administrateur.'')),
      (''subtitleUser'',
        JStr (''Vos demandes d'' @ apos @ ''acc'' @ e_grave @ ''s aux ressources sensibles et leur d'' @ e_acute @
              ''cision.'')),
      (''toReview'', JStr (A_grave @ '' valider'')),
      (''mine'', JStr ''Mes demandes''),
      (''history'', JStr ''Historique''),
      (''list'', JStr ''Demandes''),
      (''detail'', JStr (''D'' @ e_acute @ ''tail de la demande'')),
      (''nothingSelected'', JStr (''S'' @ e_acute @ ''lectionnez une demande.'')),
      (''asks'', JStr ''{user} demande''),
      (''requestNo'', JStr ''Demande #{id}''),
      (''zone'', JStr ''zone {zone}''),
      (''resourceGone'', JStr (''Ressource supprim'' @ e_acute @ ''e'')),
      (''rules'', JStr (''R'' @ e_grave @ ''gles appliqu'' @ e_acute @ ''es'')),
      (''requesterRole'', JStr (''R'' @ o_circ @ ''le du demandeur'')),
      (''waiting'', JStr ''En attente depuis''),
      (''validUntil'', JStr (''Utilisable jusqu'' @ apos @ a_grave)),
      (''timeline'', JStr ''Historique''),
      (''evCreated'', JStr (''Demande cr'' @ e_acute @ e_acute @ ''e par {user}'')),
      (''evApproved'', JStr (''Approuv'' @ e_acute @ ''e par {user}'')),
      (''evDenied'', JStr (''Refus'' @ e_acute @ ''e par {user}'')),
      (''evSession'', JStr ''Session #{id} ouverte''),
      (''evExpired'', JStr (''Approbation expir'' @ e_acute @ ''e'')),
      (''evWaiting'', JStr (''En attente d'' @ apos @ ''un approbateur'')),
      (''decisionHint'',
        JStr (''Une fois approuv'' @ e_acute @ '', l'' @ apos @ ''acc'' @ e_grave @
              ''s est utilisable pendant 1 heure.'')),
      (''deny'', JStr ''Refuser''),
      (''approve'', JStr ''Approuver''),
      (''approvedHint'',
        JStr (''Approuv'' @ e_acute @ ''e : vous pouvez vous connecter jusqu'' @ apos @ a_grave @ '' {time}.'')),
      (''pendingHint'', JStr ''Un administrateur va examiner votre demande.''),
      (''askFromMap'', JStr (''Demander un acc'' @ e_grave @ ''s depuis la carte'')),
      (''locked'',
        JStr (''Les demandes et approbations d'' @ apos @ ''acc'' @ e_grave @ ''s font partie de l'' @ apos @
              e_acute @ ''dition Pro.'')),
      (''unlock'', JStr (''Voir les '' @ e_acute @ ''ditions'')),
      (''status'',
        JObj [
          (''pending'', JStr ''En attente''),
          (''approved'', JStr (''Approuv'' @ e_acute @ ''e'')),
          (''denied'', JStr (''Refus'' @ e_acute @ ''e'')),
          (''expired'', JStr (''Expir'' @ e_acute @ ''e''))]),
      (''empty'',
        JObj [
          (''todo'', JStr (''Rien '' @ a_grave @ '' valider.'')),
          (''mine'', JStr (''Vous n'' @ apos @ ''avez demand'' @ e_acute @ '' aucun acc'' @ e_grave @ ''s.'')),
          (''done'', JStr (''Aucune demande trait'' @ e_acute @ ''e.''))])]"

lemma same_req: "same_texts texts_en_req texts_fr_req"
  unfolding texts_en_req_def texts_fr_req_def
  by (intro same_intros; simp add: walk_simps cong: holes_cong)

subsection \<open>relayLock\<close>

definition texts_en_relayLock :: json where
  "texts_en_relayLock = JObj [
      (''label'', JStr ''Relays''),
      (''hint'', JStr ''Relay routing is not included in your edition. Click to see editions.'')]"

definition texts_fr_relayLock :: json where
  "texts_fr_relayLock = JObj [
      (''label'', JStr ''Relais''),
      (''hint'',
        JStr (''Le routage par relais n'' @ apos @ ''est pas inclus dans votre '' @ e_acute @
              ''dition. Cliquez pour voir les '' @ e_acute @ ''ditions.''))]"

lemma same_relayLock: "same_texts texts_en_relayLock texts_fr_relayLock"
  unfolding texts_en_relayLock_def texts_fr_relayLock_def
  by (intro same_intros; simp add: walk_simps cong: holes_cong)

subsection \<open>reports\<close>

definition texts_en_reports :: json where
  "texts_en_reports = JObj [
      (''title'', JStr ''Reports''),
      (''subtitle'', JStr ''Statistics over a day, a month, a quarter or a year, built from the audit log.''),
      (''period'', JStr ''Period''),
      (''period_day'', JStr ''Daily''),
      (''period_month'', JStr ''Monthly''),
      (''period_quarter'', JStr ''Quarterly''),
      (''period_year'', JStr ''Annual''),
      (''periodDate'', JStr ''Period covered''),
      (''previous'', JStr ''Previous period''),
      (''next'', JStr ''Next period''),
      (''now'', JStr ''Current''),
      (''coverage'', JStr ''{label}, compared with {previous}''),
      (''export'', JStr ''Export CSV''),
      (''loadError'', JStr ''Could not build the report.''),
      (''exportError'', JStr ''Could not export the report.''),
      (''empty'', JStr ''No event recorded over {label}.''),
      (''truncated'',
        JStr ''The audit log is too large to read whole: these figures cover only its most recent part.''),
      (''trendFlat'', JStr ''unchanged''),
      (''trendNew'', JStr ''new''),
      (''kpiEvents'', JStr ''Events''),
      (''kpiSessions'', JStr ''Sessions opened''),
      (''kpiSignIns'', JStr ''Sign-ins''),
      (''kpiFailures'', JStr ''Failures''),
      (''kpiAdmin'', JStr ''Administration''),
      (''kpiActors'', JStr ''Active users''),
      (''timeline_hour'', JStr ''By hour''),
      (''timeline_day'', JStr ''By day''),
      (''timeline_month'', JStr ''By month''),
      (''timelineLegend'', JStr ''events, failures in red''),
      (''timelineAlt'', JStr ''Events over the {count} slots of the period, up to {peak} in the busiest one''),
      (''bucketTitle'', JStr (''{label} '' @ dash @ '' {events} events, {sessions} sessions, {failures} failures'')),
      (''scanned'', JStr ''{lines} log lines read across {files} files''),
      (''detailTitle'', JStr ''Figures of the period''),
      (''figure'', JStr ''Figure''),
      (''share'', JStr ''Share''),
      (''rowSessionsOpened'', JStr ''Sessions opened''),
      (''rowSessionsClosed'', JStr ''Sessions closed''),
      (''rowSessionsBlocked'', JStr ''Accesses refused''),
      (''rowSignIns'', JStr ''Successful sign-ins''),
      (''rowSignInFailures'', JStr ''Failed sign-ins''),
      (''rowAccessRequests'', JStr ''Access requests''),
      (''rowAccessApproved'', JStr ''Requests approved''),
      (''rowAccessDenied'', JStr ''Requests denied''),
      (''rowCommandBlocks'', JStr ''Commands blocked''),
      (''rowIncidents'', JStr ''Incidents opened''),
      (''rowAdminActions'', JStr ''Administration changes''),
      (''rowFailures'', JStr ''Failures and refusals''),
      (''rowActors'', JStr ''Active users''),
      (''rowTargets'', JStr ''Distinct targets''),
      (''topActors'', JStr ''Busiest users''),
      (''topTargets'', JStr ''Most frequent targets''),
      (''topEvents'', JStr ''Most frequent events''),
      (''noneYet'', JStr ''Nothing over this period.'')]"

definition texts_fr_reports :: json where
  "texts_fr_reports = JObj [
      (''title'', JStr ''Rapports''),
      (''subtitle'',
        JStr (''Statistiques sur un jour, un mois, un trimestre ou une ann'' @ e_acute @ ''e, '' @ e_acute @
              ''tablies '' @ a_grave @ '' partir du journal d'' @ apos @ ''audit.'')),
      (''period'', JStr (''P'' @ e_acute @ ''riode'')),
      (''period_day'', JStr ''Journalier''),
      (''period_month'', JStr ''Mensuel''),
      (''period_quarter'', JStr ''Trimestriel''),
      (''period_year'', JStr ''Annuel''),
      (''periodDate'', JStr (''P'' @ e_acute @ ''riode couverte'')),
      (''previous'', JStr (''P'' @ e_acute @ ''riode pr'' @ e_acute @ ''c'' @ e_acute @ ''dente'')),
      (''next'', JStr (''P'' @ e_acute @ ''riode suivante'')),
      (''now'', JStr ''En cours''),
      (''coverage'', JStr (''{label}, compar'' @ e_acute @ '' '' @ a_grave @ '' {previous}'')),
      (''export'', JStr ''Exporter en CSV''),
      (''loadError'', JStr (''Impossible d'' @ apos @ e_acute @ ''tablir le rapport.'')),
      (''exportError'', JStr (''Impossible d'' @ apos @ ''exporter le rapport.'')),
      (''empty'', JStr (''Aucun '' @ e_acute @ ''v'' @ e_acute @ ''nement enregistr'' @ e_acute @ '' sur {label}.'')),
      (''truncated'',
        JStr (''Le journal d'' @ apos @ ''audit est trop volumineux pour '' @ e_circ @
              ''tre lu en entier : ces chiffres ne couvrent que sa partie la plus r'' @ e_acute @ ''cente.'')),
      (''trendFlat'', JStr ''stable''),
      (''trendNew'', JStr ''nouveau''),
      (''kpiEvents'', JStr (E_acute @ ''v'' @ e_acute @ ''nements'')),
      (''kpiSessions'', JStr ''Sessions ouvertes''),
      (''kpiSignIns'', JStr ''Connexions''),
      (''kpiFailures'', JStr (E_acute @ ''checs'')),
      (''kpiAdmin'', JStr ''Administration''),
      (''kpiActors'', JStr ''Utilisateurs actifs''),
      (''timeline_hour'', JStr ''Par heure''),
      (''timeline_day'', JStr ''Par jour''),
      (''timeline_month'', JStr ''Par mois''),
      (''timelineLegend'', JStr (e_acute @ ''v'' @ e_acute @ ''nements, '' @ e_acute @ ''checs en rouge'')),
      (''timelineAlt'',
        JStr (E_acute @ ''v'' @ e_acute @ ''nements sur les {count} tranches de la p'' @ e_acute @
              ''riode, jusqu'' @ apos @ a_grave @ '' {peak} dans la plus charg'' @ e_acute @ ''e'')),
      (''bucketTitle'',
        JStr (''{label} '' @ dash @ '' {events} '' @ e_acute @ ''v'' @ e_acute @
              ''nements, {sessions} sessions, {failures} '' @ e_acute @ ''checs'')),
      (''scanned'', JStr ''{lines} lignes de journal lues dans {files} fichiers''),
      (''detailTitle'', JStr (''Chiffres de la p'' @ e_acute @ ''riode'')),
      (''figure'', JStr ''Indicateur''),
      (''share'', JStr ''Part''),
      (''rowSessionsOpened'', JStr ''Sessions ouvertes''),
      (''rowSessionsClosed'', JStr (''Sessions ferm'' @ e_acute @ ''es'')),
      (''rowSessionsBlocked'', JStr (''Acc'' @ e_grave @ ''s refus'' @ e_acute @ ''s'')),
      (''rowSignIns'', JStr (''Connexions r'' @ e_acute @ ''ussies'')),
      (''rowSignInFailures'', JStr (''Connexions en '' @ e_acute @ ''chec'')),
      (''rowAccessRequests'', JStr (''Demandes d'' @ apos @ ''acc'' @ e_grave @ ''s'')),
      (''rowAccessApproved'', JStr (''Demandes approuv'' @ e_acute @ ''es'')),
      (''rowAccessDenied'', JStr (''Demandes refus'' @ e_acute @ ''es'')),
      (''rowCommandBlocks'', JStr (''Commandes bloqu'' @ e_acute @ ''es'')),
      (''rowIncidents'', JStr ''Incidents ouverts''),
      (''rowAdminActions'', JStr (''Changements d'' @ apos @ ''administration'')),
      (''rowFailures'', JStr (E_acute @ ''checs et refus'')),
      (''rowActors'', JStr ''Utilisateurs actifs''),
      (''rowTargets'', JStr ''Cibles distinctes''),
      (''topActors'', JStr ''Utilisateurs les plus actifs''),
      (''topTargets'', JStr (''Cibles les plus fr'' @ e_acute @ ''quentes'')),
      (''topEvents'', JStr (E_acute @ ''v'' @ e_acute @ ''nements les plus fr'' @ e_acute @ ''quents'')),
      (''noneYet'', JStr (''Rien sur cette p'' @ e_acute @ ''riode.''))]"

lemma same_reports: "same_texts texts_en_reports texts_fr_reports"
  unfolding texts_en_reports_def texts_fr_reports_def
  by (intro same_intros; simp add: walk_simps cong: holes_cong)

subsection \<open>journal\<close>

definition texts_en_journal :: json where
  "texts_en_journal = JObj [
      (''title'', JStr ''Journal''),
      (''subtitle'', JStr ''Sign-ins, sessions and configuration changes. Entries cannot be modified.''),
      (''export'', JStr ''Export CSV''),
      (''searchPlaceholder'', JStr (''Text, IP, #session'' @ hellip)),
      (''type'', JStr ''Type''),
      (''allTypes'', JStr ''All types''),
      (''actor'', JStr ''User''),
      (''allActors'', JStr ''All users''),
      (''quick'', JStr ''Quick filter''),
      (''quickAll'', JStr ''All''),
      (''quickFail'', JStr ''Failures''),
      (''quickAdmin'', JStr ''Administration''),
      (''quickCritical'', JStr ''Critical resources''),
      (''details'', JStr ''Details''),
      (''time'', JStr ''Time''),
      (''event'', JStr ''Event''),
      (''target'', JStr ''Target''),
      (''detail'', JStr ''Detail''),
      (''origin'', JStr ''Origin''),
      (''sessionNo'', JStr ''Session #{id}''),
      (''requestNo'', JStr ''Request #{id}''),
      (''clearSession'', JStr ''Show all sessions''),
      (''goFurther'', JStr ''Go further''),
      (''eventId'', JStr ''Event''),
      (''role'', JStr ''Role''),
      (''allOfActor'', JStr ''All events from {actor}''),
      (''allOfSession'', JStr ''All events of session #{id}''),
      (''recordingsOf'', JStr ''Recordings of session #{id}''),
      (''noMatch'', JStr ''No event matches these filters.''),
      (''empty'', JStr ''No event recorded yet.''),
      (''reset'', JStr ''Clear filters''),
      (''count'', JStr ''{shown} of {total} events''),
      (''countAll'', JStr ''{count} events''),
      (''countMore'', JStr ''{count} most recent events shown''),
      (''loadMore'', JStr ''Load {count} more''),
      (''loadError'', JStr ''Could not search the audit log.''),
      (''from'', JStr ''From''),
      (''to'', JStr ''To''),
      (''integrity'',
        JObj [
          (''checking'', JStr (''Checking the audit log'' @ hellip)),
          (''intact'', JStr ''Audit log intact''),
          (''emptyLog'', JStr ''Audit log empty: nothing to check yet''),
          (''checked'', JStr ''{count} chained lines checked''),
          (''legacy'', JStr ''{count} older lines from before the chain (not verifiable)''),
          (''keyed'', JStr ''HMAC seal''),
          (''unkeyed'', JStr ''SHA-256 chain (no HMAC key)''),
          (''broken'', JStr ''Tampering detected at line {line} of the audit log''),
          (''brokenHelp'',
            JStr ''From this line on, entries no longer match their hash. Keep a copy of audit-log.jsonl and open an incident.''),
          (''error'', JStr ''Could not check the audit log''),
          (''at'', JStr ''checked at {time}''),
          (''verify'', JStr ''Check'')]),
      (''limitNote'', JStr ''Search covers the whole log, archives included.'')]"

definition texts_fr_journal :: json where
  "texts_fr_journal = JObj [
      (''title'', JStr ''Journal''),
      (''subtitle'',
        JStr (''Connexions, sessions et changements de configuration. Les entr'' @ e_acute @
              ''es ne peuvent pas '' @ e_circ @ ''tre modifi'' @ e_acute @ ''es.'')),
      (''export'', JStr ''Exporter en CSV''),
      (''searchPlaceholder'', JStr (''Texte, IP, #session'' @ hellip)),
      (''type'', JStr ''Type''),
      (''allTypes'', JStr ''Tous les types''),
      (''actor'', JStr ''Utilisateur''),
      (''allActors'', JStr ''Tous les utilisateurs''),
      (''quick'', JStr ''Filtre rapide''),
      (''quickAll'', JStr ''Tout''),
      (''quickFail'', JStr (E_acute @ ''checs'')),
      (''quickAdmin'', JStr ''Administration''),
      (''quickCritical'', JStr ''Ressources critiques''),
      (''details'', JStr (''D'' @ e_acute @ ''tails'')),
      (''time'', JStr ''Heure''),
      (''event'', JStr (E_acute @ ''v'' @ e_acute @ ''nement'')),
      (''target'', JStr ''Cible''),
      (''detail'', JStr (''D'' @ e_acute @ ''tail'')),
      (''origin'', JStr ''Origine''),
      (''sessionNo'', JStr ''Session #{id}''),
      (''requestNo'', JStr ''Demande #{id}''),
      (''clearSession'', JStr ''Afficher toutes les sessions''),
      (''goFurther'', JStr ''Aller plus loin''),
      (''eventId'', JStr (E_acute @ ''v'' @ e_acute @ ''nement'')),
      (''role'', JStr (''R'' @ o_circ @ ''le'')),
      (''allOfActor'', JStr (''Tous les '' @ e_acute @ ''v'' @ e_acute @ ''nements de {actor}'')),
      (''allOfSession'', JStr (''Tous les '' @ e_acute @ ''v'' @ e_acute @ ''nements de la session #{id}'')),
      (''recordingsOf'', JStr ''Enregistrements de la session #{id}''),
      (''noMatch'',
        JStr (''Aucun '' @ e_acute @ ''v'' @ e_acute @ ''nement ne correspond '' @ a_grave @ '' ces filtres.'')),
      (''empty'',
        JStr (''Aucun '' @ e_acute @ ''v'' @ e_acute @ ''nement enregistr'' @ e_acute @ '' pour l'' @ apos @
              ''instant.'')),
      (''reset'', JStr ''Effacer les filtres''),
      (''count'', JStr (''{shown} sur {total} '' @ e_acute @ ''v'' @ e_acute @ ''nements'')),
      (''countAll'', JStr (''{count} '' @ e_acute @ ''v'' @ e_acute @ ''nements'')),
      (''countMore'',
        JStr (''{count} '' @ e_acute @ ''v'' @ e_acute @ ''nements les plus r'' @ e_acute @ ''cents affich'' @
              e_acute @ ''s'')),
      (''loadMore'', JStr ''Charger les {count} suivants''),
      (''loadError'', JStr (''Impossible de rechercher dans le journal d'' @ apos @ ''audit.'')),
      (''from'', JStr ''Du''),
      (''to'', JStr ''Au''),
      (''integrity'',
        JObj [
          (''checking'', JStr (''V'' @ e_acute @ ''rification du journal d'' @ apos @ ''audit'' @ hellip)),
          (''intact'', JStr (''Journal d'' @ apos @ ''audit int'' @ e_grave @ ''gre'')),
          (''emptyLog'',
            JStr (''Journal d'' @ apos @ ''audit vide : rien '' @ a_grave @ '' v'' @ e_acute @ ''rifier pour l'' @
                  apos @ ''instant'')),
          (''checked'',
            JStr (''{count} lignes cha'' @ i_circ @ ''n'' @ e_acute @ ''es v'' @ e_acute @ ''rifi'' @ e_acute @
                  ''es'')),
          (''legacy'',
            JStr (''{count} lignes ant'' @ e_acute @ ''rieures '' @ a_grave @ '' la cha'' @ i_circ @
                  ''ne (non v'' @ e_acute @ ''rifiables)'')),
          (''keyed'', JStr (''scell'' @ e_acute @ '' HMAC'')),
          (''unkeyed'', JStr (''cha'' @ i_circ @ ''ne SHA-256 (sans cl'' @ e_acute @ '' HMAC)'')),
          (''broken'',
            JStr (''Alt'' @ e_acute @ ''ration d'' @ e_acute @ ''tect'' @ e_acute @ ''e '' @ a_grave @
                  '' la ligne {line} du journal d'' @ apos @ ''audit'')),
          (''brokenHelp'',
            JStr (A_grave @ '' partir de cette ligne, les entr'' @ e_acute @ ''es ne correspondent plus '' @
                  a_grave @ '' leur empreinte. Conservez une copie de audit-log.jsonl et ouvrez un incident.'')),
          (''error'', JStr (''Impossible de v'' @ e_acute @ ''rifier le journal d'' @ apos @ ''audit'')),
          (''at'', JStr (''v'' @ e_acute @ ''rifi'' @ e_acute @ '' '' @ a_grave @ '' {time}'')),
          (''verify'', JStr (''V'' @ e_acute @ ''rifier''))]),
      (''limitNote'', JStr ''La recherche porte sur tout le journal, archives comprises.'')]"

lemma same_journal: "same_texts texts_en_journal texts_fr_journal"
  unfolding texts_en_journal_def texts_fr_journal_def
  by (intro same_intros; simp add: walk_simps cong: holes_cong)

end
