(* ===== verification/TextsPages.thy ===== *)
theory TextsPages
  imports I18n
begin

section \<open>Texts of the interface (i18n.jsx): evidence, zones, adminE, users, files, sshTransfer\<close>

text \<open>
  The sections of the dictionary in the order of the source, English and French, with what compares
  them: the same keys and the same placeholders.
\<close>

subsection \<open>evidence\<close>

definition texts_en_evidence :: json where
  "texts_en_evidence = JObj [
      (''locked'',
        JStr ''Session recordings, replay and signed evidence are part of the Pro and Enterprise editions.''),
      (''ended'', JStr ''Ended sessions''),
      (''search'', JStr (''Session, user, resource'' @ hellip)),
      (''session'', JStr ''Session''),
      (''end'', JStr ''Ended''),
      (''chain'', JStr ''Chain''),
      (''valid'', JStr ''Valid''),
      (''broken'', JStr ''Broken''),
      (''hasRecording'', JStr ''Recording available''),
      (''noEnded'', JStr ''No ended session yet.''),
      (''chainHint'', JStr ''The chain column fills in as each evidence pack is opened.''),
      (''pick'', JStr ''Select an ended session.''),
      (''sessionTitle'', JStr (''Session #{id} '' @ mid_dot @ '' {user} on'')),
      (''endedAt'', JStr ''ended {when}''),
      (''replay'', JStr ''Replay''),
      (''replayRbi'', JStr ''Replay (browser)''),
      (''exportJson'', JStr ''Export JSON''),
      (''print'', JStr ''Print''),
      (''packTitle'', JStr ''Signed evidence''),
      (''packLocked'',
        JStr ''The signed evidence pack and the Session DNA chain are part of the Enterprise edition.''),
      (''packError'', JStr ''Could not load the evidence pack.''),
      (''listError'', JStr ''Could not load recordings.''),
      (''noChain'', JStr ''No DNA entry for this session''),
      (''noChainText'', JStr ''The session closed before any event was chained.''),
      (''noCrypto'', JStr ''Chain not recomputed''),
      (''noCryptoText'', JStr ''The browser only allows hashing over HTTPS (or localhost).''),
      (''checking'', JStr (''Checking the chain'' @ hellip)),
      (''okTitle'', JStr ''Chain intact''),
      (''okText'', JStr ''Verified by the server and recomputed in your browser: {n} links out of {n}.''),
      (''brokenTitle'', JStr ''Chain broken at link {n}''),
      (''brokenHash'', JStr ''The hash of link {n} does not match its content: the event may have been altered.''),
      (''brokenLink'',
        JStr ''Link {n} points to {prev} but the previous link is {expected}: an event may have been removed.''),
      (''digest'', JStr ''Digest''),
      (''signature'', JStr ''Signature''),
      (''signedAt'', JStr ''Signed''),
      (''grant'', JStr ''Grant''),
      (''grantNo'', JStr ''#{id}''),
      (''noGrant'', JStr ''None, direct access''),
      (''approvedBy'', JStr ''request #{id} approved by {user}''),
      (''signatureNote'',
        JStr ''The signature uses a key that stays on the server: it can be checked by the server, not by your browser.''),
      (''dnaTitle'', JStr ''Session DNA chain''),
      (''state'', JStr ''State''),
      (''recomputeNote'',
        JStr ''Recomputed in your browser: sha256(prevHash | eventType | payloadHash | createdAt), starting from GENESIS.''),
      (''breadcrumb'', JStr ''Breadcrumb''),
      (''seeProof'', JStr ''See the evidence''),
      (''downloadCast'', JStr ''Download (.cast)''),
      (''onResource'', JStr ''{user} on''),
      (''moments'', JStr ''Key moments''),
      (''noMoments'', JStr ''No chained event for this session.''),
      (''momentsLocked'', JStr ''Key moments come from the DNA chain (Enterprise edition).''),
      (''approvedByLabel'', JStr ''Approved by''),
      (''recording'', JStr ''Recording''),
      (''castError'', JStr ''Could not load the recording.''),
      (''play'', JStr ''Play''),
      (''pause'', JStr ''Pause''),
      (''position'', JStr ''Position''),
      (''speed'', JStr ''Speed''),
      (''skipIdle'', JStr ''Skip idle time'')]"

definition texts_fr_evidence :: json where
  "texts_fr_evidence = JObj [
      (''locked'',
        JStr (''Les enregistrements, le rejeu et les preuves sign'' @ e_acute @ ''es font partie des '' @
              e_acute @ ''ditions Pro et Enterprise.'')),
      (''ended'', JStr (''Sessions termin'' @ e_acute @ ''es'')),
      (''search'', JStr (''Session, utilisateur, ressource'' @ hellip)),
      (''session'', JStr ''Session''),
      (''end'', JStr ''Fin''),
      (''chain'', JStr (''Cha'' @ i_circ @ ''ne'')),
      (''valid'', JStr ''Valide''),
      (''broken'', JStr ''Rompue''),
      (''hasRecording'', JStr ''Enregistrement disponible''),
      (''noEnded'', JStr (''Aucune session termin'' @ e_acute @ ''e pour l'' @ apos @ ''instant.'')),
      (''chainHint'',
        JStr (''La colonne Cha'' @ i_circ @ ''ne se remplit '' @ a_grave @
              '' mesure que vous ouvrez les preuves.'')),
      (''pick'', JStr (''S'' @ e_acute @ ''lectionnez une session termin'' @ e_acute @ ''e.'')),
      (''sessionTitle'', JStr (''Session #{id} '' @ mid_dot @ '' {user} sur'')),
      (''endedAt'', JStr (''termin'' @ e_acute @ ''e {when}'')),
      (''replay'', JStr ''Rejouer''),
      (''replayRbi'', JStr ''Rejouer (navigateur)''),
      (''exportJson'', JStr ''Exporter JSON''),
      (''print'', JStr ''Imprimer''),
      (''packTitle'', JStr (''Preuve sign'' @ e_acute @ ''e'')),
      (''packLocked'',
        JStr (''La preuve sign'' @ e_acute @ ''e et la cha'' @ i_circ @ ''ne Session DNA font partie de l'' @
              apos @ e_acute @ ''dition Enterprise.'')),
      (''packError'', JStr ''Impossible de charger la preuve.''),
      (''listError'', JStr ''Impossible de charger les enregistrements.''),
      (''noChain'', JStr ''Aucun maillon DNA pour cette session''),
      (''noChainText'',
        JStr (''La session s'' @ apos @ ''est ferm'' @ e_acute @ ''e avant qu'' @ apos @ ''un '' @ e_acute @
              ''v'' @ e_acute @ ''nement soit cha'' @ i_circ @ ''n'' @ e_acute @ ''.'')),
      (''noCrypto'', JStr (''Cha'' @ i_circ @ ''ne non recalcul'' @ e_acute @ ''e'')),
      (''noCryptoText'',
        JStr (''Le navigateur n'' @ apos @ ''autorise le calcul d'' @ apos @ ''empreintes qu'' @ apos @
              ''en HTTPS (ou sur localhost).'')),
      (''checking'', JStr (''V'' @ e_acute @ ''rification de la cha'' @ i_circ @ ''ne'' @ hellip)),
      (''okTitle'', JStr (''Cha'' @ i_circ @ ''ne int'' @ e_grave @ ''gre'')),
      (''okText'',
        JStr (''V'' @ e_acute @ ''rifi'' @ e_acute @ ''e par le serveur et recalcul'' @ e_acute @
              ''e dans votre navigateur : {n} maillons sur {n}.'')),
      (''brokenTitle'', JStr (''Cha'' @ i_circ @ ''ne rompue au maillon {n}'')),
      (''brokenHash'',
        JStr (''L'' @ apos @ ''empreinte du maillon {n} ne correspond pas '' @ a_grave @ '' son contenu : l'' @
              apos @ e_acute @ ''v'' @ e_acute @ ''nement a pu '' @ e_circ @ ''tre modifi'' @ e_acute @ ''.'')),
      (''brokenLink'',
        JStr (''Le maillon {n} pointe vers {prev} alors que le maillon pr'' @ e_acute @ ''c'' @ e_acute @
              ''dent est {expected} : un '' @ e_acute @ ''v'' @ e_acute @ ''nement a pu '' @ e_circ @
              ''tre retir'' @ e_acute @ ''.'')),
      (''digest'', JStr ''Digest''),
      (''signature'', JStr ''Signature''),
      (''signedAt'', JStr (''Sign'' @ e_acute @ ''e'')),
      (''grant'', JStr ''Grant''),
      (''grantNo'', JStr ''#{id}''),
      (''noGrant'', JStr (''Aucun, acc'' @ e_grave @ ''s direct'')),
      (''approvedBy'', JStr (''demande #{id} approuv'' @ e_acute @ ''e par {user}'')),
      (''signatureNote'',
        JStr (''La signature utilise une cl'' @ e_acute @ '' qui reste sur le serveur : elle se v'' @ e_acute @
              ''rifie c'' @ o_circ @ ''t'' @ e_acute @ '' serveur, pas dans votre navigateur.'')),
      (''dnaTitle'', JStr (''Cha'' @ i_circ @ ''ne Session DNA'')),
      (''state'', JStr (E_acute @ ''tat'')),
      (''recomputeNote'',
        JStr (''Recalcul'' @ e_acute @
              ''e dans votre navigateur : sha256(prevHash | eventType | payloadHash | createdAt), '' @ a_grave @
              '' partir de GENESIS.'')),
      (''breadcrumb'', JStr (''Fil d'' @ apos @ ''Ariane'')),
      (''seeProof'', JStr ''Voir la preuve''),
      (''downloadCast'', JStr (''T'' @ e_acute @ ''l'' @ e_acute @ ''charger (.cast)'')),
      (''onResource'', JStr ''{user} sur''),
      (''moments'', JStr (''Moments cl'' @ e_acute @ ''s'')),
      (''noMoments'',
        JStr (''Aucun '' @ e_acute @ ''v'' @ e_acute @ ''nement cha'' @ i_circ @ ''n'' @ e_acute @
              '' pour cette session.'')),
      (''momentsLocked'',
        JStr (''Les moments cl'' @ e_acute @ ''s viennent de la cha'' @ i_circ @ ''ne DNA ('' @ e_acute @
              ''dition Enterprise).'')),
      (''approvedByLabel'', JStr (''Approuv'' @ e_acute @ ''e par'')),
      (''recording'', JStr ''Enregistrement''),
      (''castError'', JStr (''Impossible de charger l'' @ apos @ ''enregistrement.'')),
      (''play'', JStr ''Lecture''),
      (''pause'', JStr ''Pause''),
      (''position'', JStr ''Position''),
      (''speed'', JStr ''Vitesse''),
      (''skipIdle'', JStr ''Sauter les temps morts'')]"

lemma same_evidence: "same_texts texts_en_evidence texts_fr_evidence"
  unfolding texts_en_evidence_def texts_fr_evidence_def
  by (intro same_intros; simp add: walk_simps cong: holes_cong)

subsection \<open>zones\<close>

definition texts_en_zones :: json where
  "texts_en_zones = JObj [
      (''title'', JStr ''Zones''),
      (''subtitle'', JStr ''Select a zone to set its access rules. Drag a resource to move it to another zone.''),
      (''newZone'', JStr ''New zone''),
      (''newName'', JStr ''Zone name''),
      (''create'', JStr ''Create''),
      (''settings'', JStr ''Settings''),
      (''zone'', JStr ''Zone''),
      (''zoneLabel'', JStr ''Zone {zone}''),
      (''dragHint'', JStr ''Drag to another zone''),
      (''dropHere'', JStr ''Drop a resource here''),
      (''selectHint'', JStr ''Select a zone or a resource.''),
      (''policyIs'', JStr ''policy {name}''),
      (''noPolicy'', JStr ''no zone policy yet''),
      (''access'', JStr ''Access conditions''),
      (''network'', JStr ''Network''),
      (''perResource'', JStr ''Applied to each resource''),
      (''rulesLocked'', JStr ''Zone rules use JIT policies (Pro edition).''),
      (''timeWindowWarning'',
        JStr ''Access is only allowed during {window} (UTC). Outside it, access is refused and a security alert is raised.''),
      (''otherPolicies'', JStr ''Other policies also target this zone: {names}.''),
      (''relayNeeded'', JStr ''Access will be refused until each resource of the zone has a relay.''),
      (''anyTime'', JStr ''At any time''),
      (''onlyHours'', JStr ''Only during''),
      (''windowInvalid'', JStr ''Write the window as HH:MM-HH:MM (UTC), for example 07:00-20:00.''),
      (''tags'', JStr ''Tags''),
      (''resourceHint'', JStr ''Rules come from the zone. Settings specific to this resource stay on its page.''),
      (''openResource'', JStr ''Open resource page''),
      (''footnote'',
        JStr ''A zone is the zone:* tag of resources. Its rules are saved in the JIT policy zone-* that targets this tag; a policy only adds constraints to the resource settings.''),
      (''pending'', JStr ''{count} pending change(s)''),
      (''noPendingTitle'', JStr ''Changes''),
      (''noPending'', JStr ''No pending change.''),
      (''saving'', JStr (''Saving'' @ hellip)),
      (''saved'', JStr ''{count} change(s) saved.''),
      (''skipped'', JStr ''Not changed (web resources with an HTTP account): {names}.''),
      (''mixed'', JStr ''Mixed''),
      (''yes'', JStr ''Yes''),
      (''no'', JStr ''No''),
      (''policyDescription'', JStr ''Rules of zone {zone} (managed from the Zones page).''),
      (''loadError'', JStr ''Could not load policies.''),
      (''badgeApproval'', JStr ''approval''),
      (''badgeMfa'', JStr ''MFA''),
      (''badgeTicket'', JStr ''ticket''),
      (''badgeRelay'', JStr ''relay''),
      (''field'',
        JObj [
          (''approval'', JStr ''Approval''),
          (''mfa'', JStr ''MFA''),
          (''duration'', JStr ''Max duration''),
          (''ticket'', JStr ''Ticket required''),
          (''justification'', JStr ''Reason required''),
          (''route'', JStr ''Path''),
          (''relay'', JStr ''Relay''),
          (''risk'', JStr ''Risk level''),
          (''guard'', JStr ''SSH guard''),
          (''window'', JStr ''Hours'')]),
      (''approval'',
        JObj [
          (''inherit'', JStr ''Per resource''),
          (''required'', JStr ''Required'')]),
      (''mfa'',
        JObj [
          (''any'', JStr ''Per user''),
          (''required'', JStr ''Required''),
          (''totp'', JStr ''TOTP''),
          (''webauthn'', JStr ''Security key'')]),
      (''route'',
        JObj [
          (''any'', JStr ''Any''),
          (''direct'', JStr ''Direct''),
          (''relay'', JStr ''Through a relay'')]),
      (''dur'',
        JObj [
          (''1800'', JStr ''30 minutes''),
          (''3600'', JStr ''1 hour''),
          (''7200'', JStr ''2 hours''),
          (''14400'', JStr ''4 hours''),
          (''28800'', JStr ''8 hours'')])]"

definition texts_fr_zones :: json where
  "texts_fr_zones = JObj [
      (''title'', JStr ''Zones''),
      (''subtitle'',
        JStr (''S'' @ e_acute @ ''lectionnez une zone pour r'' @ e_acute @ ''gler ses acc'' @ e_grave @
              ''s. Glissez une ressource pour la changer de zone.'')),
      (''newZone'', JStr ''Nouvelle zone''),
      (''newName'', JStr ''Nom de la zone''),
      (''create'', JStr (''Cr'' @ e_acute @ ''er'')),
      (''settings'', JStr (''R'' @ e_acute @ ''glages'')),
      (''zone'', JStr ''Zone''),
      (''zoneLabel'', JStr ''Zone {zone}''),
      (''dragHint'', JStr ''Glisser vers une autre zone''),
      (''dropHere'', JStr (''D'' @ e_acute @ ''posez une ressource ici'')),
      (''selectHint'', JStr (''S'' @ e_acute @ ''lectionnez une zone ou une ressource.'')),
      (''policyIs'', JStr ''politique {name}''),
      (''noPolicy'', JStr ''pas encore de politique de zone''),
      (''access'', JStr (''Conditions d'' @ apos @ ''acc'' @ e_grave @ ''s'')),
      (''network'', JStr (''R'' @ e_acute @ ''seau'')),
      (''perResource'', JStr (''Appliqu'' @ e_acute @ '' '' @ a_grave @ '' chaque ressource'')),
      (''rulesLocked'',
        JStr (''Les r'' @ e_grave @ ''gles de zone utilisent les politiques JIT ('' @ e_acute @ ''dition Pro).'')),
      (''timeWindowWarning'',
        JStr (''Acc'' @ e_grave @ ''s autoris'' @ e_acute @ '' seulement de {window} (UTC). En dehors, l'' @
              apos @ ''acc'' @ e_grave @ ''s est refus'' @ e_acute @ '' et une alerte de s'' @ e_acute @
              ''curit'' @ e_acute @ '' est lev'' @ e_acute @ ''e.'')),
      (''otherPolicies'', JStr (''D'' @ apos @ ''autres politiques ciblent aussi cette zone : {names}.'')),
      (''relayNeeded'',
        JStr (''L'' @ apos @ ''acc'' @ e_grave @ ''s sera refus'' @ e_acute @
              '' tant que chaque ressource de la zone n'' @ apos @ ''a pas de relais.'')),
      (''anyTime'', JStr (A_grave @ '' toute heure'')),
      (''onlyHours'', JStr ''Seulement de''),
      (''windowInvalid'', JStr (E_acute @ ''crivez la plage au format HH:MM-HH:MM (UTC), par exemple 07:00-20:00.'')),
      (''tags'', JStr ''Tags''),
      (''resourceHint'',
        JStr (''Les r'' @ e_grave @ ''gles viennent de la zone. Les r'' @ e_acute @ ''glages propres '' @
              a_grave @ '' cette ressource restent dans sa fiche.'')),
      (''openResource'', JStr ''Ouvrir la fiche''),
      (''footnote'',
        JStr (''Une zone correspond au tag zone:* des ressources. Ses r'' @ e_grave @ ''gles sont enregistr'' @
              e_acute @ ''es dans la politique JIT zone-* qui cible ce tag ; une politique ne fait qu'' @ apos @
              ''ajouter des contraintes aux r'' @ e_acute @ ''glages de la ressource.'')),
      (''pending'', JStr ''{count} modification(s) en attente''),
      (''noPendingTitle'', JStr ''Modifications''),
      (''noPending'', JStr ''Aucune modification en attente.''),
      (''saving'', JStr (''Enregistrement'' @ hellip)),
      (''saved'', JStr (''{count} modification(s) enregistr'' @ e_acute @ ''e(s).'')),
      (''skipped'', JStr (''Non modifi'' @ e_acute @ ''es (ressources web avec compte HTTP) : {names}.'')),
      (''mixed'', JStr ''Variable''),
      (''yes'', JStr ''Oui''),
      (''no'', JStr ''Non''),
      (''policyDescription'',
        JStr (''R'' @ e_grave @ ''gles de la zone {zone} (g'' @ e_acute @ ''r'' @ e_acute @
              ''es depuis la page Zones).'')),
      (''loadError'', JStr ''Impossible de charger les politiques.''),
      (''badgeApproval'', JStr ''approbation''),
      (''badgeMfa'', JStr ''MFA''),
      (''badgeTicket'', JStr ''ticket''),
      (''badgeRelay'', JStr ''relais''),
      (''field'',
        JObj [
          (''approval'', JStr ''Approbation''),
          (''mfa'', JStr ''MFA''),
          (''duration'', JStr (''Dur'' @ e_acute @ ''e maximale'')),
          (''ticket'', JStr ''Ticket obligatoire''),
          (''justification'', JStr ''Motif obligatoire''),
          (''route'', JStr ''Chemin''),
          (''relay'', JStr ''Relais''),
          (''risk'', JStr ''Niveau de risque''),
          (''guard'', JStr ''SSH guard''),
          (''window'', JStr ''Horaires'')]),
      (''approval'',
        JObj [
          (''inherit'', JStr ''Selon la ressource''),
          (''required'', JStr ''Requise'')]),
      (''mfa'',
        JObj [
          (''any'', JStr (''Selon l'' @ apos @ ''utilisateur'')),
          (''required'', JStr ''Requise''),
          (''totp'', JStr ''TOTP''),
          (''webauthn'', JStr (''Cl'' @ e_acute @ '' de s'' @ e_acute @ ''curit'' @ e_acute))]),
      (''route'',
        JObj [
          (''any'', JStr (''Indiff'' @ e_acute @ ''rent'')),
          (''direct'', JStr ''Direct''),
          (''relay'', JStr ''Via un relais'')]),
      (''dur'',
        JObj [
          (''1800'', JStr ''30 minutes''),
          (''3600'', JStr ''1 heure''),
          (''7200'', JStr ''2 heures''),
          (''14400'', JStr ''4 heures''),
          (''28800'', JStr ''8 heures'')])]"

lemma same_zones: "same_texts texts_en_zones texts_fr_zones"
  unfolding texts_en_zones_def texts_fr_zones_def
  by (intro same_intros; simp add: walk_simps cong: holes_cong)

subsection \<open>adminE\<close>

definition texts_en_adminE :: json where
  "texts_en_adminE = JObj [
      (''locked'', JStr ''Not included in your edition. Click to see editions.''),
      (''menu'', JStr ''Administration menu''),
      (''nav'',
        JObj [
          (''resources'', JStr ''Resources''),
          (''users'', JStr ''Users''),
          (''jit'', JStr ''JIT policies''),
          (''routing'', JStr ''Relays & agents''),
          (''vault'', JStr ''Vault''),
          (''security'', JStr ''Security''),
          (''itdr'', JStr ''Threat detection''),
          (''enterprise'', JStr ''Integrations''),
          (''k8s'', JStr ''Kubernetes''),
          (''appearance'', JStr ''Appearance''),
          (''license'', JStr ''License'')])]"

definition texts_fr_adminE :: json where
  "texts_fr_adminE = JObj [
      (''locked'',
        JStr (''Non inclus dans votre '' @ e_acute @ ''dition. Cliquez pour voir les '' @ e_acute @ ''ditions.'')),
      (''menu'', JStr (''Menu d'' @ apos @ ''administration'')),
      (''nav'',
        JObj [
          (''resources'', JStr ''Ressources''),
          (''users'', JStr ''Utilisateurs''),
          (''jit'', JStr ''Politiques JIT''),
          (''routing'', JStr ''Relais et agents''),
          (''vault'', JStr ''Coffre-fort''),
          (''security'', JStr (''S'' @ e_acute @ ''curit'' @ e_acute)),
          (''itdr'', JStr (''D'' @ e_acute @ ''tection des menaces'')),
          (''enterprise'', JStr (''Int'' @ e_acute @ ''grations'')),
          (''k8s'', JStr ''Kubernetes''),
          (''appearance'', JStr ''Apparence''),
          (''license'', JStr ''Licence'')])]"

lemma same_adminE: "same_texts texts_en_adminE texts_fr_adminE"
  unfolding texts_en_adminE_def texts_fr_adminE_def
  by (intro same_intros; simp add: walk_simps cong: holes_cong)

subsection \<open>users\<close>

definition texts_en_users :: json where
  "texts_en_users = JObj [
      (''serviceAccount'', JStr ''Service account (automation, no sign-in)''),
      (''serviceAccountHint'',
        JStr (''Cannot sign in: it acts only through API tokens an administrator creates for it from Account '' @
              right_arrow @ '' API tokens.'')),
      (''serviceBadge'', JStr ''service account''),
      (''type'', JStr ''Type''),
      (''title'', JStr ''Users''),
      (''subtitle'', JStr ''{count} accounts, {admins} administrator(s)''),
      (''adminsWithoutMfa'', JStr ''{count} administrator(s) without MFA''),
      (''newUser'', JStr ''New user''),
      (''create'', JStr ''Create''),
      (''edit'', JStr ''Edit''),
      (''username'', JStr ''Username''),
      (''password'', JStr ''Password''),
      (''newPassword'', JStr ''New password''),
      (''passwordRequiredHint'', JStr ''The server asks for a new password with every change, even a role change.''),
      (''forceRotation'', JStr ''Must change password at next sign-in''),
      (''adminMfaHint'', JStr ''Administrators must set up MFA before using the platform.''),
      (''role'', JStr ''Role''),
      (''allRoles'', JStr ''All roles''),
      (''user'', JStr ''User''),
      (''mfa'', JStr ''MFA''),
      (''noMfa'', JStr ''none''),
      (''keys'', JStr ''{count} key(s)''),
      (''noMfaOnly'', JStr ''Without MFA only''),
      (''mustChange'', JStr ''to change''),
      (''ok'', JStr ''set''),
      (''created'', JStr ''Created''),
      (''updated'', JStr ''Updated''),
      (''you'', JStr ''you''),
      (''searchPlaceholder'', JStr ''Username''),
      (''selectHint'', JStr ''Select a user.''),
      (''empty'', JStr ''No user matches.''),
      (''sections'', JStr ''User sections''),
      (''tab'',
        JObj [
          (''profile'', JStr ''Profile''),
          (''access'', JStr ''Access''),
          (''activity'', JStr ''Activity'')]),
      (''scopeError'', JStr ''Could not load or change access.''),
      (''adminSeesAll'',
        JStr ''Administrators see every resource; the selection below only matters if the role changes.''),
      (''scopeHint'',
        JStr ''This person sees {count} resource(s): the ones ticked below, plus those of their access profiles.''),
      (''profiles'', JStr ''Access profiles''),
      (''rolePermissions'', JStr ''Permissions of the {role} role''),
      (''noOverrides'', JStr ''Permissions come from the role; the server has no per-person exceptions.''),
      (''noActivity'', JStr ''No recent event for this person in the journal.''),
      (''fullJournal'', JStr ''Open their journal''),
      (''confirmDelete'', JStr ''Confirm deletion''),
      (''cannotDeleteSelf'', JStr ''You cannot delete your own account.''),
      (''cannotDeleteLastAdmin'', JStr ''This is the last administrator.''),
      (''saveError'', JStr ''Could not save.''),
      (''roles'',
        JObj [
          (''operator'', JStr ''Operator''),
          (''admin'', JStr ''Administrator''),
          (''auditor'', JStr ''Auditor'')])]"

definition texts_fr_users :: json where
  "texts_fr_users = JObj [
      (''serviceAccount'', JStr ''Compte de service (automatisation, sans connexion)''),
      (''serviceAccountHint'',
        JStr (''Ne peut pas se connecter : il agit uniquement via des jetons d'' @ squote @ ''API qu'' @ squote @
              ''un administrateur cr'' @ e_acute @ ''e pour lui depuis Compte '' @ right_arrow @ '' Jetons d'' @
              squote @ ''API.'')),
      (''serviceBadge'', JStr ''compte de service''),
      (''type'', JStr ''Type''),
      (''title'', JStr ''Utilisateurs''),
      (''subtitle'', JStr ''{count} comptes, dont {admins} administrateur(s)''),
      (''adminsWithoutMfa'', JStr ''{count} administrateur(s) sans MFA''),
      (''newUser'', JStr ''Nouvel utilisateur''),
      (''create'', JStr (''Cr'' @ e_acute @ ''er'')),
      (''edit'', JStr ''Modifier''),
      (''username'', JStr ''Identifiant''),
      (''password'', JStr ''Mot de passe''),
      (''newPassword'', JStr ''Nouveau mot de passe''),
      (''passwordRequiredHint'',
        JStr (''Le serveur demande un nouveau mot de passe '' @ a_grave @ '' chaque modification, m'' @ e_circ @
              ''me pour changer le r'' @ o_circ @ ''le.'')),
      (''forceRotation'', JStr (''Doit changer son mot de passe '' @ a_grave @ '' la prochaine connexion'')),
      (''adminMfaHint'',
        JStr (''Un administrateur doit configurer la MFA avant d'' @ apos @ ''utiliser la plateforme.'')),
      (''role'', JStr (''R'' @ o_circ @ ''le'')),
      (''allRoles'', JStr (''Tous les r'' @ o_circ @ ''les'')),
      (''user'', JStr ''Utilisateur''),
      (''mfa'', JStr ''MFA''),
      (''noMfa'', JStr ''aucune''),
      (''keys'', JStr (''{count} cl'' @ e_acute @ ''(s)'')),
      (''noMfaOnly'', JStr ''Sans MFA uniquement''),
      (''mustChange'', JStr (a_grave @ '' changer'')),
      (''ok'', JStr (''d'' @ e_acute @ ''fini'')),
      (''created'', JStr (''Cr'' @ e_acute @ e_acute @ '' le'')),
      (''updated'', JStr (''Modifi'' @ e_acute @ '' le'')),
      (''you'', JStr ''vous''),
      (''searchPlaceholder'', JStr ''Identifiant''),
      (''selectHint'', JStr (''S'' @ e_acute @ ''lectionnez un utilisateur.'')),
      (''empty'', JStr ''Aucun utilisateur ne correspond.''),
      (''sections'', JStr (''Sections de l'' @ apos @ ''utilisateur'')),
      (''tab'',
        JObj [
          (''profile'', JStr ''Profil''),
          (''access'', JStr (''Acc'' @ e_grave @ ''s'')),
          (''activity'', JStr (''Activit'' @ e_acute))]),
      (''scopeError'', JStr (''Impossible de charger ou modifier les acc'' @ e_grave @ ''s.'')),
      (''adminSeesAll'',
        JStr (''Un administrateur voit toutes les ressources ; la s'' @ e_acute @
              ''lection ci-dessous ne compte que si son r'' @ o_circ @ ''le change.'')),
      (''scopeHint'',
        JStr (''Cette personne voit {count} ressource(s) : celles coch'' @ e_acute @
              ''es ci-dessous, plus celles de ses profils d'' @ apos @ ''acc'' @ e_grave @ ''s.'')),
      (''profiles'', JStr (''Profils d'' @ apos @ ''acc'' @ e_grave @ ''s'')),
      (''rolePermissions'', JStr (''Droits du r'' @ o_circ @ ''le {role}'')),
      (''noOverrides'',
        JStr (''Les droits viennent du r'' @ o_circ @ ''le ; le serveur ne g'' @ e_grave @ ''re pas d'' @ apos @
              ''exception par personne.'')),
      (''noActivity'',
        JStr (''Aucun '' @ e_acute @ ''v'' @ e_acute @ ''nement r'' @ e_acute @
              ''cent pour cette personne dans le journal.'')),
      (''fullJournal'', JStr ''Ouvrir son journal''),
      (''confirmDelete'', JStr ''Confirmer la suppression''),
      (''cannotDeleteSelf'', JStr ''Vous ne pouvez pas supprimer votre propre compte.''),
      (''cannotDeleteLastAdmin'', JStr (''C'' @ apos @ ''est le dernier administrateur.'')),
      (''saveError'', JStr ''Enregistrement impossible.''),
      (''roles'',
        JObj [
          (''operator'', JStr (''Op'' @ e_acute @ ''rateur'')),
          (''admin'', JStr ''Administrateur''),
          (''auditor'', JStr ''Auditeur'')])]"

lemma same_users: "same_texts texts_en_users texts_fr_users"
  unfolding texts_en_users_def texts_fr_users_def
  by (intro same_intros; simp add: walk_simps cong: holes_cong)

subsection \<open>files\<close>

definition texts_en_files :: json where
  "texts_en_files = JObj [
      (''opening'', JStr (''Opening the drive'' @ hellip)),
      (''endedTitle'', JStr ''Drive closed''),
      (''endedText'', JStr ''The session on this drive has ended. Open the resource again from the bastion.''),
      (''errorTitle'', JStr ''The drive could not be opened''),
      (''signedAs'', JStr ''Signed in as {user}''),
      (''isolated'', JStr ''Isolated service''),
      (''isolatedHint'',
        JStr ''Files are stored and served by a separate service, outside the bastion. Every action is journaled.''),
      (''close'', JStr ''Close the drive''),
      (''navigation'', JStr ''Drive navigation''),
      (''myDrive'', JStr ''My drive''),
      (''myShares'', JStr ''My shares''),
      (''sharedWithMe'', JStr ''Shared with me''),
      (''noIncoming'', JStr ''Nothing shared with you yet.''),
      (''sharedBy'', JStr ''Shared by {owner}''),
      (''modeRo'', JStr ''Read only''),
      (''modeRw'', JStr ''Read & write''),
      (''quota'', JStr ''{used} of {total} used''),
      (''used'', JStr ''{used} used''),
      (''newFolder'', JStr ''New folder''),
      (''upload'', JStr ''Upload''),
      (''exists'', JStr ''already exists''),
      (''replace'', JStr ''Replace''),
      (''name'', JStr ''Name''),
      (''size'', JStr ''Size''),
      (''modified'', JStr ''Modified''),
      (''actions'', JStr ''Actions''),
      (''empty'', JStr ''This folder is empty.''),
      (''emptyWritable'', JStr ''This folder is empty. Drop files here or use Upload.''),
      (''download'', JStr ''Download''),
      (''downloadZip'', JStr ''Downloaded as a .zip archive''),
      (''share'', JStr ''Share''),
      (''rename'', JStr ''Rename''),
      (''deleteTitle'', JStr ''Delete {name}?''),
      (''deleteFolderMsg'', JStr ''The folder, everything in it and its shares are deleted. This cannot be undone.''),
      (''deleteFileMsg'', JStr ''The file and its shares are deleted. This cannot be undone.''),
      (''dropHint'', JStr ''Tip: drag and drop files onto this page to upload them.''),
      (''folderName'', JStr ''Folder name''),
      (''renameTitle'', JStr ''Rename {name}''),
      (''newName'', JStr ''New name''),
      (''shareSub'', JStr ''Only people who may open this drive on the bastion can be chosen.''),
      (''person'', JStr ''Person''),
      (''personPlaceholder'', JStr ''Bastion username''),
      (''unknownPerson'',
        JStr ''Choose someone from the list: only people with access to this drive can receive a share.''),
      (''access'', JStr ''Access''),
      (''expires'', JStr ''Expires''),
      (''never'', JStr ''Never''),
      (''inDays'', JStr ''In {count} day(s)''),
      (''fileReadOnly'', JStr ''A single file is always shared read-only.''),
      (''sharedWith'', JStr ''Already shared with''),
      (''until'', JStr ''until {date}''),
      (''noExpiry'', JStr ''no expiry''),
      (''revoke'', JStr ''Revoke''),
      (''revokeTitle'', JStr ''Revoke the access of {person}?''),
      (''revokeMsg'', JStr ''They can no longer open this item.''),
      (''item'', JStr ''Item''),
      (''noOutgoing'', JStr ''You have not shared anything.''),
      (''expired'', JStr ''Expired'')]"

definition texts_fr_files :: json where
  "texts_fr_files = JObj [
      (''opening'', JStr (''Ouverture du drive'' @ hellip)),
      (''endedTitle'', JStr (''Drive ferm'' @ e_acute)),
      (''endedText'',
        JStr (''La session sur ce drive est termin'' @ e_acute @ ''e. Rouvrez la ressource depuis le bastion.'')),
      (''errorTitle'', JStr (''Le drive n'' @ apos @ ''a pas pu '' @ e_circ @ ''tre ouvert'')),
      (''signedAs'', JStr (''Connect'' @ e_acute @ '' en tant que {user}'')),
      (''isolated'', JStr (''Service isol'' @ e_acute)),
      (''isolatedHint'',
        JStr (''Les fichiers sont stock'' @ e_acute @ ''s et servis par un service s'' @ e_acute @ ''par'' @
              e_acute @ '', hors du bastion. Chaque action est journalis'' @ e_acute @ ''e.'')),
      (''close'', JStr ''Fermer le drive''),
      (''navigation'', JStr ''Navigation du drive''),
      (''myDrive'', JStr ''Mon drive''),
      (''myShares'', JStr ''Mes partages''),
      (''sharedWithMe'', JStr (''Partag'' @ e_acute @ ''s avec moi'')),
      (''noIncoming'', JStr (''Rien ne vous a encore '' @ e_acute @ ''t'' @ e_acute @ '' partag'' @ e_acute @ ''.'')),
      (''sharedBy'', JStr (''Partag'' @ e_acute @ '' par {owner}'')),
      (''modeRo'', JStr ''Lecture seule''),
      (''modeRw'', JStr (''Lecture et '' @ e_acute @ ''criture'')),
      (''quota'', JStr (''{used} utilis'' @ e_acute @ ''s sur {total}'')),
      (''used'', JStr (''{used} utilis'' @ e_acute @ ''s'')),
      (''newFolder'', JStr ''Nouveau dossier''),
      (''upload'', JStr (''T'' @ e_acute @ ''l'' @ e_acute @ ''verser'')),
      (''exists'', JStr (''existe d'' @ e_acute @ ''j'' @ a_grave)),
      (''replace'', JStr ''Remplacer''),
      (''name'', JStr ''Nom''),
      (''size'', JStr ''Taille''),
      (''modified'', JStr (''Modifi'' @ e_acute)),
      (''actions'', JStr ''Actions''),
      (''empty'', JStr ''Ce dossier est vide.''),
      (''emptyWritable'',
        JStr (''Ce dossier est vide. D'' @ e_acute @ ''posez des fichiers ici ou utilisez T'' @ e_acute @ ''l'' @
              e_acute @ ''verser.'')),
      (''download'', JStr (''T'' @ e_acute @ ''l'' @ e_acute @ ''charger'')),
      (''downloadZip'',
        JStr (''T'' @ e_acute @ ''l'' @ e_acute @ ''charg'' @ e_acute @ '' sous forme d'' @ apos @
              ''archive .zip'')),
      (''share'', JStr ''Partager''),
      (''rename'', JStr ''Renommer''),
      (''deleteTitle'', JStr ''Supprimer {name} ?''),
      (''deleteFolderMsg'',
        JStr (''Le dossier, tout son contenu et ses partages sont supprim'' @ e_acute @ ''s. Action irr'' @
              e_acute @ ''versible.'')),
      (''deleteFileMsg'',
        JStr (''Le fichier et ses partages sont supprim'' @ e_acute @ ''s. Action irr'' @ e_acute @
              ''versible.'')),
      (''dropHint'',
        JStr (''Astuce : glissez-d'' @ e_acute @ ''posez des fichiers sur cette page pour les t'' @ e_acute @
              ''l'' @ e_acute @ ''verser.'')),
      (''folderName'', JStr ''Nom du dossier''),
      (''renameTitle'', JStr ''Renommer {name}''),
      (''newName'', JStr ''Nouveau nom''),
      (''shareSub'',
        JStr (''Seules les personnes autoris'' @ e_acute @ ''es '' @ a_grave @
              '' ouvrir ce drive sur le bastion peuvent '' @ e_circ @ ''tre choisies.'')),
      (''person'', JStr ''Personne''),
      (''personPlaceholder'', JStr ''Identifiant bastion''),
      (''unknownPerson'',
        JStr (''Choisissez une personne dans la liste : seules celles qui ont acc'' @ e_grave @ ''s '' @ a_grave @
              '' ce drive peuvent recevoir un partage.'')),
      (''access'', JStr (''Acc'' @ e_grave @ ''s'')),
      (''expires'', JStr ''Expiration''),
      (''never'', JStr ''Jamais''),
      (''inDays'', JStr ''Dans {count} jour(s)''),
      (''fileReadOnly'', JStr (''Un fichier seul est toujours partag'' @ e_acute @ '' en lecture seule.'')),
      (''sharedWith'', JStr (''D'' @ e_acute @ ''j'' @ a_grave @ '' partag'' @ e_acute @ '' avec'')),
      (''until'', JStr (''jusqu'' @ apos @ ''au {date}'')),
      (''noExpiry'', JStr ''sans expiration''),
      (''revoke'', JStr ''Retirer''),
      (''revokeTitle'', JStr (''Retirer l'' @ apos @ ''acc'' @ e_grave @ ''s de {person} ?'')),
      (''revokeMsg'', JStr (''Cette personne ne pourra plus ouvrir cet '' @ e_acute @ ''l'' @ e_acute @ ''ment.'')),
      (''item'', JStr (E_acute @ ''l'' @ e_acute @ ''ment'')),
      (''noOutgoing'', JStr (''Vous n'' @ apos @ ''avez rien partag'' @ e_acute @ ''.'')),
      (''expired'', JStr (''Expir'' @ e_acute))]"

lemma same_files: "same_texts texts_en_files texts_fr_files"
  unfolding texts_en_files_def texts_fr_files_def
  by (intro same_intros; simp add: walk_simps cong: holes_cong)

subsection \<open>sshTransfer\<close>

definition texts_en_sshTransfer :: json where
  "texts_en_sshTransfer = JObj [
      (''settingsTitle'', JStr ''SSH file transfer''),
      (''settingsHint'',
        JStr (''Applies to every SSH resource on which an administrator allowed file transfer (Resources '' @
              angle @ '' Access rules).'')),
      (''loadError'', JStr ''Could not load the transfer settings.''),
      (''open'', JStr ''Files''),
      (''title'', JStr ''Files on {target}''),
      (''up'', JStr ''Parent folder''),
      (''refresh'', JStr ''Refresh''),
      (''goTo'', JStr ''Go''),
      (''pathLabel'', JStr ''Path''),
      (''empty'', JStr ''This folder is empty.''),
      (''truncated'', JStr ''Only the first {count} entries are shown.''),
      (''scpOnly'',
        JStr ''This target has no SFTP: folders cannot be listed. Type the full path of a file to download, or of the destination to send to.''),
      (''download'', JStr ''Download''),
      (''downloadPath'', JStr ''Download this path''),
      (''upload'', JStr ''Send a file here''),
      (''uploading'', JStr (''Sending {name}'' @ hellip @ '' {percent}%'')),
      (''uploaded'', JStr ''{name} sent ({size}).''),
      (''exists'', JStr ''{name} already exists here. Replace it?''),
      (''tooLarge'', JStr ''{name} is larger than the {max} MB allowed.''),
      (''noDownload'', JStr ''Downloading is disabled for this resource.''),
      (''noUpload'', JStr ''Sending is disabled for this resource.''),
      (''maxUpload'', JStr ''Max {max} MB per file''),
      (''colName'', JStr ''Name''),
      (''colSize'', JStr ''Size''),
      (''colDate'', JStr ''Modified''),
      (''close'', JStr ''Close'')]"

definition texts_fr_sshTransfer :: json where
  "texts_fr_sshTransfer = JObj [
      (''settingsTitle'', JStr ''Transfert de fichiers SSH''),
      (''settingsHint'',
        JStr (''S'' @ apos @ ''applique '' @ a_grave @
              '' toutes les ressources SSH sur lesquelles un administrateur a autoris'' @ e_acute @
              '' le transfert (Ressources '' @ angle @ '' R'' @ e_grave @ ''gles d'' @ apos @ ''acc'' @ e_grave @
              ''s).'')),
      (''loadError'', JStr (''Impossible de charger les param'' @ e_grave @ ''tres de transfert.'')),
      (''open'', JStr ''Fichiers''),
      (''title'', JStr ''Fichiers sur {target}''),
      (''up'', JStr ''Dossier parent''),
      (''refresh'', JStr ''Actualiser''),
      (''goTo'', JStr ''Aller''),
      (''pathLabel'', JStr ''Chemin''),
      (''empty'', JStr ''Ce dossier est vide.''),
      (''truncated'',
        JStr (''Seules les {count} premi'' @ e_grave @ ''res entr'' @ e_acute @ ''es sont affich'' @ e_acute @
              ''es.'')),
      (''scpOnly'',
        JStr (''Cette cible n'' @ apos @
              ''a pas de SFTP : impossible de lister les dossiers. Saisissez le chemin complet du fichier '' @
              a_grave @ '' t'' @ e_acute @ ''l'' @ e_acute @ ''charger, ou de la destination de l'' @ apos @
              ''envoi.'')),
      (''download'', JStr (''T'' @ e_acute @ ''l'' @ e_acute @ ''charger'')),
      (''downloadPath'', JStr (''T'' @ e_acute @ ''l'' @ e_acute @ ''charger ce chemin'')),
      (''upload'', JStr ''Envoyer un fichier ici''),
      (''uploading'', JStr (''Envoi de {name}'' @ hellip @ '' {percent} %'')),
      (''uploaded'', JStr (''{name} envoy'' @ e_acute @ '' ({size}).'')),
      (''exists'', JStr (''{name} existe d'' @ e_acute @ ''j'' @ a_grave @ '' ici. Le remplacer ?'')),
      (''tooLarge'', JStr (''{name} d'' @ e_acute @ ''passe la taille autoris'' @ e_acute @ ''e de {max} Mo.'')),
      (''noDownload'',
        JStr (''Le t'' @ e_acute @ ''l'' @ e_acute @ ''chargement est d'' @ e_acute @ ''sactiv'' @ e_acute @
              '' pour cette ressource.'')),
      (''noUpload'',
        JStr (''L'' @ apos @ ''envoi est d'' @ e_acute @ ''sactiv'' @ e_acute @ '' pour cette ressource.'')),
      (''maxUpload'', JStr ''{max} Mo max par fichier''),
      (''colName'', JStr ''Nom''),
      (''colSize'', JStr ''Taille''),
      (''colDate'', JStr (''Modifi'' @ e_acute)),
      (''close'', JStr ''Fermer'')]"

lemma same_sshTransfer: "same_texts texts_en_sshTransfer texts_fr_sshTransfer"
  unfolding texts_en_sshTransfer_def texts_fr_sshTransfer_def
  by (intro same_intros; simp add: walk_simps cong: holes_cong)

end
