(* ===== verification/TextsResources.thy ===== *)
theory TextsResources
  imports I18n
begin

section \<open>Texts of the interface (i18n.jsx): resAdmin, jit, relays, vault, sec\<close>

text \<open>
  The sections of the dictionary in the order of the source, English and French, with what compares
  them: the same keys and the same placeholders.
\<close>

subsection \<open>resAdmin\<close>

definition texts_en_resAdmin :: json where
  "texts_en_resAdmin = JObj [
      (''title'', JStr ''Resources''),
      (''subtitle'', JStr ''{count} resources in {zones} zone(s)''),
      (''seeMap'', JStr ''See on the map''),
      (''newResource'', JStr ''New resource''),
      (''create'', JStr ''Create''),
      (''identity'', JStr ''Identity''),
      (''name'', JStr ''Name''),
      (''description'', JStr ''Description''),
      (''otherTags'', JStr ''Other tags''),
      (''tagsHint'', JStr ''Comma-separated. The zone is set above.''),
      (''newZoneOption'', JStr (''New zone'' @ hellip)),
      (''image'', JStr ''Picture''),
      (''upload'', JStr (''Upload'' @ hellip)),
      (''removeImage'', JStr ''Remove picture''),
      (''connection'', JStr ''Connection''),
      (''port'', JStr ''Port''),
      (''clusterLabel'', JStr ''Cluster label''),
      (''k8sTargetHint'', JStr ''The cluster is reached through the kubeconfig; this is only a label.''),
      (''driveLabel'', JStr ''Drive label''),
      (''fileshareHint'', JStr ''Files are stored by the separate file share service; this is only a label.''),
      (''tunneled'', JStr ''Tunneled protocol''),
      (''agentUser'', JStr ''User (optional)''),
      (''ticketLimit'', JStr ''Tunnel tickets per minute''),
      (''ticketLimitHint'', JStr ''0 = unlimited, per user and resource.''),
      (''credentials'', JStr ''Credentials''),
      (''credentialMode'', JStr ''How the secret is used''),
      (''account'', JStr ''Account''),
      (''secret'', JStr ''Password''),
      (''keepSecret'', JStr ''Leave empty to keep the stored password.''),
      (''httpAccount'', JStr ''HTTP account''),
      (''httpPassword'', JStr ''HTTP password''),
      (''namespace'', JStr ''Namespace''),
      (''kubeHint'', JStr ''Stored encrypted.''),
      (''kubeKeep'', JStr ''Leave empty to keep the current kubeconfig.''),
      (''rules'', JStr ''Access rules''),
      (''justification'', JStr ''Reason required''),
      (''dualApproval'', JStr ''Approval by a second administrator''),
      (''commandGuard'', JStr ''SSH guard (blocks dangerous commands)''),
      (''sqlGuard'', JStr (''SQL guard (refuses DROP, DELETE without WHERE'' @ hellip @ '')'')),
      (''dbTls'', JStr ''TLS to the database''),
      (''dbTlsModes'',
        JObj [
          (''prefer'', JStr ''Prefer''),
          (''require'', JStr ''Require (unverified)''),
          (''verify-full'', JStr ''Verify (CA and host name)''),
          (''disable'', JStr ''Disable'')]),
      (''dbTlsHint'',
        JObj [
          (''prefer'', JStr ''Encrypts when the server offers TLS, falls back to plain otherwise.''),
          (''require'', JStr ''Encrypted, but the server certificate is not checked.''),
          (''verify-full'',
            JStr ''Certificate checked against the system CAs (or ENDORIUMFORT_DB_CA_FILE) and the address.''),
          (''disable'', JStr ''No encryption between the bastion and the database.'')]),
      (''dbAccount'', JStr ''Database account''),
      (''dbAccountHint'',
        JStr ''The proxy logs in with it; operators never see its password. Every query is journaled.''),
      (''adaptive'', JStr ''Adaptive policy (ticket required when risk is high)''),
      (''fileTransfer'', JStr ''File transfer (SFTP / SCP)''),
      (''allowFileDownload'', JStr ''Allow downloading files from the target''),
      (''allowFileUpload'', JStr ''Allow sending files to the target''),
      (''preview'', JStr ''What users will have to do''),
      (''zoneRulesToo'', JStr ''The rules of zone {zone} also apply.''),
      (''rulesShort'', JStr ''Rules''),
      (''direct'', JStr ''direct access''),
      (''typedAtLogin'', JStr ''typed at login''),
      (''httpAccountShort'', JStr ''HTTP account''),
      (''badgeApproval'', JStr ''approval''),
      (''badgeReason'', JStr ''reason''),
      (''badgeGuard'', JStr ''SSH guard''),
      (''badgeFiles'', JStr ''files''),
      (''required'', JStr ''Name and address are required.''),
      (''saveError'', JStr ''Could not save.''),
      (''k8sError'', JStr ''Saved, but the kubeconfig could not be stored.''),
      (''confirmDelete'', JStr ''Confirm deletion''),
      (''created'', JStr ''{name} created.''),
      (''saved'', JStr ''{name} saved.''),
      (''deleted'', JStr ''{name} deleted.''),
      (''empty'', JStr ''No resource matches.''),
      (''protocols'',
        JObj [
          (''ssh'', JStr ''SSH''),
          (''rdp'', JStr ''RDP (agent)''),
          (''vnc'', JStr ''VNC''),
          (''http'', JStr ''HTTP''),
          (''https'', JStr ''HTTPS''),
          (''agent'', JStr ''Agent tunnel''),
          (''k8s'', JStr ''Kubernetes''),
          (''fileshare'', JStr ''File share''),
          (''postgres'', JStr ''PostgreSQL (database proxy)'')]),
      (''modes'',
        JObj [
          (''vaulted'', JStr ''Vault: injected at connection''),
          (''brokered'', JStr ''Broker: the secret never leaves the bastion''),
          (''ephemeral_account'', JStr ''Temporary account created per session'')]),
      (''modesShort'',
        JObj [
          (''vaulted'', JStr ''vault''),
          (''brokered'', JStr ''broker''),
          (''ephemeral_account'', JStr ''temporary account'')])]"

definition texts_fr_resAdmin :: json where
  "texts_fr_resAdmin = JObj [
      (''title'', JStr ''Ressources''),
      (''subtitle'', JStr ''{count} ressources dans {zones} zone(s)''),
      (''seeMap'', JStr ''Voir sur la carte''),
      (''newResource'', JStr ''Nouvelle ressource''),
      (''create'', JStr (''Cr'' @ e_acute @ ''er'')),
      (''identity'', JStr (''Identit'' @ e_acute)),
      (''name'', JStr ''Nom''),
      (''description'', JStr ''Description''),
      (''otherTags'', JStr ''Autres tags''),
      (''tagsHint'',
        JStr (''S'' @ e_acute @ ''par'' @ e_acute @ ''s par des virgules. La zone se choisit au-dessus.'')),
      (''newZoneOption'', JStr (''Nouvelle zone'' @ hellip)),
      (''image'', JStr ''Image''),
      (''upload'', JStr (''Choisir'' @ hellip)),
      (''removeImage'', JStr (''Retirer l'' @ apos @ ''image'')),
      (''connection'', JStr ''Connexion''),
      (''port'', JStr ''Port''),
      (''clusterLabel'', JStr ''Nom du cluster''),
      (''k8sTargetHint'',
        JStr (''Le cluster est joint via le kubeconfig ; ce champ n'' @ apos @ ''est qu'' @ apos @ ''un libell'' @
              e_acute @ ''.'')),
      (''driveLabel'', JStr (''Libell'' @ e_acute @ '' du drive'')),
      (''fileshareHint'',
        JStr (''Les fichiers sont stock'' @ e_acute @ ''s par le service de partage s'' @ e_acute @ ''par'' @
              e_acute @ '' ; ce champ n'' @ apos @ ''est qu'' @ apos @ ''un libell'' @ e_acute @ ''.'')),
      (''tunneled'', JStr (''Protocole tunnel'' @ e_acute)),
      (''agentUser'', JStr ''Utilisateur (facultatif)''),
      (''ticketLimit'', JStr ''Tickets de tunnel par minute''),
      (''ticketLimitHint'', JStr (''0 = illimit'' @ e_acute @ '', par utilisateur et par ressource.'')),
      (''credentials'', JStr ''Identifiants''),
      (''credentialMode'', JStr ''Utilisation du secret''),
      (''account'', JStr ''Compte''),
      (''secret'', JStr ''Mot de passe''),
      (''keepSecret'', JStr (''Laisser vide pour conserver le mot de passe enregistr'' @ e_acute @ ''.'')),
      (''httpAccount'', JStr ''Compte HTTP''),
      (''httpPassword'', JStr ''Mot de passe HTTP''),
      (''namespace'', JStr ''Namespace''),
      (''kubeHint'', JStr (''Stock'' @ e_acute @ '' chiffr'' @ e_acute @ ''.'')),
      (''kubeKeep'', JStr ''Laisser vide pour conserver le kubeconfig actuel.''),
      (''rules'', JStr (''R'' @ e_grave @ ''gles d'' @ apos @ ''acc'' @ e_grave @ ''s'')),
      (''justification'', JStr ''Motif obligatoire''),
      (''dualApproval'', JStr ''Approbation par un second administrateur''),
      (''commandGuard'', JStr ''SSH guard (bloque les commandes dangereuses)''),
      (''sqlGuard'', JStr (''Garde-fou SQL (refuse DROP, DELETE sans WHERE'' @ hellip @ '')'')),
      (''dbTls'', JStr ''TLS vers la base''),
      (''dbTlsModes'',
        JObj [
          (''prefer'', JStr (''Pr'' @ e_acute @ ''f'' @ e_acute @ ''rer'')),
          (''require'', JStr (''Exiger (non v'' @ e_acute @ ''rifi'' @ e_acute @ '')'')),
          (''verify-full'', JStr (''V'' @ e_acute @ ''rifier (CA et nom d'' @ squote @ ''h'' @ o_circ @ ''te)'')),
          (''disable'', JStr (''D'' @ e_acute @ ''sactiver''))]),
      (''dbTlsHint'',
        JObj [
          (''prefer'', JStr ''Chiffre si le serveur propose TLS, sinon repasse en clair.''),
          (''require'',
            JStr (''Chiffr'' @ e_acute @ '', mais le certificat du serveur n'' @ squote @ ''est pas v'' @
                  e_acute @ ''rifi'' @ e_acute @ ''.'')),
          (''verify-full'',
            JStr (''Certificat v'' @ e_acute @ ''rifi'' @ e_acute @ '' par les CA syst'' @ e_grave @
                  ''me (ou ENDORIUMFORT_DB_CA_FILE) et l'' @ squote @ ''adresse.'')),
          (''disable'', JStr ''Aucun chiffrement entre le bastion et la base.'')]),
      (''dbAccount'', JStr ''Compte de la base''),
      (''dbAccountHint'',
        JStr (''Le proxy se connecte avec ; les op'' @ e_acute @ ''rateurs n'' @ squote @
              ''en voient jamais le mot de passe. Chaque requ'' @ e_circ @ ''te est journalis'' @ e_acute @
              ''e.'')),
      (''adaptive'',
        JStr (''Politique adaptative (ticket exig'' @ e_acute @ '' si le risque est '' @ e_acute @ ''lev'' @
              e_acute @ '')'')),
      (''fileTransfer'', JStr ''Transfert de fichiers (SFTP / SCP)''),
      (''allowFileDownload'',
        JStr (''Autoriser le t'' @ e_acute @ ''l'' @ e_acute @ ''chargement de fichiers depuis la cible'')),
      (''allowFileUpload'', JStr (''Autoriser l'' @ apos @ ''envoi de fichiers vers la cible'')),
      (''preview'', JStr ''Ce que les utilisateurs devront faire''),
      (''zoneRulesToo'', JStr (''Les r'' @ e_grave @ ''gles de la zone {zone} s'' @ apos @ ''appliquent aussi.'')),
      (''rulesShort'', JStr (''R'' @ e_grave @ ''gles'')),
      (''direct'', JStr (''acc'' @ e_grave @ ''s direct'')),
      (''typedAtLogin'', JStr (''saisi '' @ a_grave @ '' la connexion'')),
      (''httpAccountShort'', JStr ''compte HTTP''),
      (''badgeApproval'', JStr ''approbation''),
      (''badgeReason'', JStr ''motif''),
      (''badgeGuard'', JStr ''SSH guard''),
      (''badgeFiles'', JStr ''fichiers''),
      (''required'', JStr (''Le nom et l'' @ apos @ ''adresse sont obligatoires.'')),
      (''saveError'', JStr ''Enregistrement impossible.''),
      (''k8sError'',
        JStr (''Enregistr'' @ e_acute @ ''e, mais le kubeconfig n'' @ apos @ ''a pas pu '' @ e_circ @
              ''tre stock'' @ e_acute @ ''.'')),
      (''confirmDelete'', JStr ''Confirmer la suppression''),
      (''created'', JStr (''{name} cr'' @ e_acute @ e_acute @ ''e.'')),
      (''saved'', JStr (''{name} enregistr'' @ e_acute @ ''e.'')),
      (''deleted'', JStr (''{name} supprim'' @ e_acute @ ''e.'')),
      (''empty'', JStr ''Aucune ressource ne correspond.''),
      (''protocols'',
        JObj [
          (''ssh'', JStr ''SSH''),
          (''rdp'', JStr ''RDP (agent)''),
          (''vnc'', JStr ''VNC''),
          (''http'', JStr ''HTTP''),
          (''https'', JStr ''HTTPS''),
          (''agent'', JStr ''Tunnel agent''),
          (''k8s'', JStr ''Kubernetes''),
          (''fileshare'', JStr ''Partage de fichiers''),
          (''postgres'', JStr ''PostgreSQL (proxy de base)'')]),
      (''modes'',
        JObj [
          (''vaulted'', JStr (''Coffre : inject'' @ e_acute @ '' '' @ a_grave @ '' la connexion'')),
          (''brokered'', JStr ''Courtier : le secret ne quitte pas le bastion''),
          (''ephemeral_account'',
            JStr (''Compte temporaire cr'' @ e_acute @ e_acute @ '' '' @ a_grave @ '' chaque session''))]),
      (''modesShort'',
        JObj [
          (''vaulted'', JStr ''coffre''),
          (''brokered'', JStr ''courtier''),
          (''ephemeral_account'', JStr ''compte temporaire'')])]"

lemma same_resAdmin: "same_texts texts_en_resAdmin texts_fr_resAdmin"
  unfolding texts_en_resAdmin_def texts_fr_resAdmin_def
  by (intro same_intros; simp add: walk_simps cong: holes_cong)

subsection \<open>jit\<close>

definition texts_en_jit :: json where
  "texts_en_jit = JObj [
      (''title'', JStr ''JIT policies''),
      (''subtitle'',
        JStr ''Nobody has standing access: each access is granted for a limited time, under these rules.''),
      (''tabPolicies'', JStr ''Policies''),
      (''tabProfiles'', JStr ''Access profiles''),
      (''tabGrants'', JStr ''Live access''),
      (''newPolicy'', JStr ''New policy''),
      (''newProfile'', JStr ''New profile''),
      (''policy'', JStr ''Policy''),
      (''profile'', JStr ''Profile''),
      (''identity'', JStr ''Identity''),
      (''state'', JStr ''State''),
      (''enabled'', JStr ''Active''),
      (''appliesTo'', JStr ''Applies to''),
      (''user'', JStr ''User''),
      (''userHint'', JStr ''An exact username, or * for everyone (no wildcards like ext-*).''),
      (''anyRole'', JStr ''Any role''),
      (''tags'', JStr ''Resource tags''),
      (''tagsHint'', JStr ''Applies if the resource has one of these tags. Empty = every resource.''),
      (''riskFilter'', JStr ''Only at risk level''),
      (''anyRisk'', JStr ''Any level''),
      (''window'', JStr ''Time window (UTC)''),
      (''windowHint'', JStr ''HH:MM-HH:MM or any.''),
      (''windowInvalid'', JStr ''Time window must be HH:MM-HH:MM or any.''),
      (''nameRequired'', JStr ''A name is required.''),
      (''saveError'', JStr ''Could not save.''),
      (''confirmDelete'', JStr ''Confirm deletion''),
      (''targets'', JStr ''Targets''),
      (''who'', JStr ''Who''),
      (''conditions'', JStr ''Conditions''),
      (''active'', JStr ''Active''),
      (''everyone'', JStr ''everyone''),
      (''allResources'', JStr ''all resources''),
      (''managedInZones'', JStr ''managed from Zones''),
      (''linkedPolicy'', JStr ''Linked policy''),
      (''linkedPolicyHint'', JStr ''Applied to members of the profile on its resources.''),
      (''noPolicy'', JStr ''None''),
      (''profileTagsHint'', JStr ''Resources with one of these tags are included.''),
      (''profileResources'', JStr ''Resources included ({count} picked)''),
      (''assignHint'', JStr ''Members are added from Administration > Users > Access.''),
      (''grant'', JStr ''Grant''),
      (''grantedBy'', JStr ''Granted by''),
      (''remaining'', JStr ''Time left''),
      (''byPolicy'', JStr ''policy {name}''),
      (''direct'', JStr ''direct''),
      (''endSession'', JStr ''End session''),
      (''howPolicies'',
        JStr ''A policy applies when the user, role, risk level and tags match, or through an access profile. All matching policies add up: the strictest rule wins, and the shortest duration.''),
      (''howProfiles'', JStr ''A profile gives its members access to a set of resources and can carry a policy.''),
      (''goUsers'', JStr ''Assign profiles in Users''),
      (''howGrants'', JStr ''Grants of the sessions open right now, nearest expiry first.''),
      (''empty'',
        JObj [
          (''policies'', JStr ''No policy yet.''),
          (''profiles'', JStr ''No access profile yet.''),
          (''grants'', JStr ''No live access right now.'')]),
      (''dur'',
        JObj [
          (''900'', JStr ''15 minutes''),
          (''1800'', JStr ''30 minutes''),
          (''3600'', JStr ''1 hour''),
          (''7200'', JStr ''2 hours''),
          (''14400'', JStr ''4 hours''),
          (''28800'', JStr ''8 hours''),
          (''86400'', JStr ''24 hours'')])]"

definition texts_fr_jit :: json where
  "texts_fr_jit = JObj [
      (''title'', JStr ''Politiques JIT''),
      (''subtitle'',
        JStr (''Personne n'' @ apos @ ''a d'' @ apos @ ''acc'' @ e_grave @ ''s permanent : chaque acc'' @
              e_grave @ ''s est accord'' @ e_acute @ '' pour une dur'' @ e_acute @ ''e limit'' @ e_acute @
              ''e, selon ces r'' @ e_grave @ ''gles.'')),
      (''tabPolicies'', JStr ''Politiques''),
      (''tabProfiles'', JStr (''Profils d'' @ apos @ ''acc'' @ e_grave @ ''s'')),
      (''tabGrants'', JStr (''Acc'' @ e_grave @ ''s en cours'')),
      (''newPolicy'', JStr ''Nouvelle politique''),
      (''newProfile'', JStr ''Nouveau profil''),
      (''policy'', JStr ''Politique''),
      (''profile'', JStr ''Profil''),
      (''identity'', JStr (''Identit'' @ e_acute)),
      (''state'', JStr (E_acute @ ''tat'')),
      (''enabled'', JStr ''Active''),
      (''appliesTo'', JStr (''S'' @ apos @ ''applique '' @ a_grave)),
      (''user'', JStr ''Utilisateur''),
      (''userHint'', JStr ''Un identifiant exact, ou * pour tout le monde (pas de joker du type ext-*).''),
      (''anyRole'', JStr (''Tous les r'' @ o_circ @ ''les'')),
      (''tags'', JStr ''Tags de ressource''),
      (''tagsHint'',
        JStr (''S'' @ apos @ ''applique si la ressource porte l'' @ apos @
              ''un de ces tags. Vide = toutes les ressources.'')),
      (''riskFilter'', JStr ''Seulement au niveau de risque''),
      (''anyRisk'', JStr ''Tous les niveaux''),
      (''window'', JStr ''Plage horaire (UTC)''),
      (''windowHint'', JStr ''HH:MM-HH:MM ou any.''),
      (''windowInvalid'', JStr (''La plage horaire doit '' @ e_circ @ ''tre au format HH:MM-HH:MM ou any.'')),
      (''nameRequired'', JStr ''Un nom est obligatoire.''),
      (''saveError'', JStr ''Enregistrement impossible.''),
      (''confirmDelete'', JStr ''Confirmer la suppression''),
      (''targets'', JStr ''Cible''),
      (''who'', JStr ''Qui''),
      (''conditions'', JStr ''Conditions''),
      (''active'', JStr ''Active''),
      (''everyone'', JStr ''tout le monde''),
      (''allResources'', JStr ''toutes les ressources''),
      (''managedInZones'', JStr (''g'' @ e_acute @ ''r'' @ e_acute @ ''e depuis Zones'')),
      (''linkedPolicy'', JStr (''Politique li'' @ e_acute @ ''e'')),
      (''linkedPolicyHint'', JStr (''Appliqu'' @ e_acute @ ''e aux membres du profil sur ses ressources.'')),
      (''noPolicy'', JStr ''Aucune''),
      (''profileTagsHint'', JStr (''Les ressources portant l'' @ apos @ ''un de ces tags sont incluses.'')),
      (''profileResources'', JStr ''Ressources incluses ({count} choisies)''),
      (''assignHint'',
        JStr (''Les membres s'' @ apos @ ''ajoutent depuis Administration > Utilisateurs > Acc'' @ e_grave @
              ''s.'')),
      (''grant'', JStr ''Grant''),
      (''grantedBy'', JStr (''Accord'' @ e_acute @ '' par'')),
      (''remaining'', JStr ''Temps restant''),
      (''byPolicy'', JStr ''politique {name}''),
      (''direct'', JStr ''direct''),
      (''endSession'', JStr ''Terminer la session''),
      (''howPolicies'',
        JStr (''Une politique s'' @ apos @ ''applique quand l'' @ apos @ ''utilisateur, le r'' @ o_circ @
              ''le, le niveau de risque et les tags correspondent, ou via un profil d'' @ apos @ ''acc'' @
              e_grave @ ''s. Toutes les politiques qui s'' @ apos @ ''appliquent se cumulent : la r'' @ e_grave @
              ''gle la plus stricte et la dur'' @ e_acute @ ''e la plus courte l'' @ apos @ ''emportent.'')),
      (''howProfiles'',
        JStr (''Un profil donne '' @ a_grave @ '' ses membres l'' @ apos @ ''acc'' @ e_grave @ ''s '' @ a_grave @
              '' un ensemble de ressources et peut porter une politique.'')),
      (''goUsers'', JStr ''Attribuer les profils dans Utilisateurs''),
      (''howGrants'',
        JStr (''Acc'' @ e_grave @ ''s des sessions ouvertes en ce moment, les plus proches de l'' @ apos @
              ''expiration en premier.'')),
      (''empty'',
        JObj [
          (''policies'', JStr (''Aucune politique pour l'' @ apos @ ''instant.'')),
          (''profiles'', JStr (''Aucun profil d'' @ apos @ ''acc'' @ e_grave @ ''s pour l'' @ apos @ ''instant.'')),
          (''grants'', JStr (''Aucun acc'' @ e_grave @ ''s en cours.''))]),
      (''dur'',
        JObj [
          (''900'', JStr ''15 minutes''),
          (''1800'', JStr ''30 minutes''),
          (''3600'', JStr ''1 heure''),
          (''7200'', JStr ''2 heures''),
          (''14400'', JStr ''4 heures''),
          (''28800'', JStr ''8 heures''),
          (''86400'', JStr ''24 heures'')])]"

lemma same_jit: "same_texts texts_en_jit texts_fr_jit"
  unfolding texts_en_jit_def texts_fr_jit_def
  by (intro same_intros; simp add: walk_simps cong: holes_cong)

subsection \<open>relays\<close>

definition texts_en_relays :: json where
  "texts_en_relays = JObj [
      (''title'', JStr ''Relays & agents''),
      (''subtitle'',
        JStr (''Relays are the entry point to remote zones. Agents open tunnels from users'' @ apos @
              '' computers.'')),
      (''installAgent'', JStr ''Install an agent''),
      (''enroll'', JStr ''Enroll a relay''),
      (''newRelay'', JStr ''New relay''),
      (''enrollDisabled'',
        JStr ''Enrollment is disabled: the bastion has no relay enrollment secret configured (ENDORIUMFORT_RELAY_ENROLL_SECRET).''),
      (''relayId'', JStr ''Relay ID''),
      (''label'', JStr ''Label''),
      (''servesZone'', JStr ''Serves zone''),
      (''listen'', JStr ''Listen address''),
      (''listenHint'', JStr ''Private address the bastion will connect to.''),
      (''targets'', JStr ''Allowed targets''),
      (''targetsHint'', JStr ''One IP:port per line, filled from the zone. The relay rejects host names.''),
      (''badTargets'', JStr ''Not IP:port, so refused by the relay: {list}. Use the IP address.''),
      (''tlsFiles'', JStr ''TLS files on the relay''),
      (''tlsHint'',
        JStr ''The relay requires its server certificate, its key and the CA of bastion clients. They are not distributed by the bastion.''),
      (''tokenHint'', JStr ''The token works once and expires after {minutes} min.''),
      (''generate'', JStr ''Generate the command''),
      (''runThis'', JStr ''Run this on the relay machine before {when}.''),
      (''copy'', JStr ''Copy''),
      (''copied'', JStr ''Copied''),
      (''copyFailed'', JStr ''Copy failed''),
      (''issueError'', JStr ''Could not issue the token.''),
      (''agentStep1'', JStr ''1. Install the agent ({platform}):''),
      (''agentStep2'', JStr (''2. Sign in from the user'' @ apos @ ''s computer:'')),
      (''agentStep3'', JStr ''3. Connections to agent resources then open locally from the map.''),
      (''downAlert'', JStr ''{relay} has not sent a signal since {when}; {count} resource(s) go through it.''),
      (''downZones'', JStr ''Zones: {zones}.''),
      (''never'', JStr ''ever''),
      (''relays'', JStr ''Relays''),
      (''enrolled'', JStr ''{count} enrolled''),
      (''relay'', JStr ''Relay''),
      (''state'', JStr ''State''),
      (''lastSignal'', JStr ''Last signal''),
      (''version'', JStr ''Version''),
      (''zones'', JStr ''Zones served''),
      (''resources'', JStr ''Resources''),
      (''online'', JStr ''Online''),
      (''stale'', JStr ''No signal''),
      (''offline'', JStr ''Offline''),
      (''outdated'', JStr ''older''),
      (''noRelay'', JStr ''No relay enrolled yet.''),
      (''routing'', JStr ''Path of each resource''),
      (''routingHint'', JStr ''Direct, or through a relay. Zones can set it for a whole zone.''),
      (''assignError'', JStr ''Could not change the path.''),
      (''agents'', JStr ''Agents''),
      (''agentCount'', JStr ''{count} seen, {online} connected''),
      (''filterAgents'', JStr ''Filter''),
      (''origin'', JStr ''Origin''),
      (''system'', JStr ''System''),
      (''tunnels'', JStr ''Tunnels''),
      (''lastSeen'', JStr ''Last seen''),
      (''update'', JStr ''update''),
      (''connected'', JStr ''Connected''),
      (''noAgent'', JStr ''No agent has connected yet.''),
      (''httpWarning'',
        JStr ''The bastion is served over plain HTTP: --allow-http was added. Use HTTPS outside a lab.''),
      (''loadError'', JStr ''Could not load relays.'')]"

definition texts_fr_relays :: json where
  "texts_fr_relays = JObj [
      (''title'', JStr ''Relais et agents''),
      (''subtitle'',
        JStr (''Les relais servent de porte d'' @ apos @ ''entr'' @ e_acute @
              ''e aux zones distantes. Les agents ouvrent des tunnels depuis le poste des utilisateurs.'')),
      (''installAgent'', JStr ''Installer un agent''),
      (''enroll'', JStr (''Enr'' @ o_circ @ ''ler un relais'')),
      (''newRelay'', JStr ''Nouveau relais''),
      (''enrollDisabled'',
        JStr (''L'' @ apos @ ''enr'' @ o_circ @ ''lement est d'' @ e_acute @ ''sactiv'' @ e_acute @
              '' : aucun secret d'' @ apos @ ''enr'' @ o_circ @ ''lement de relais n'' @ apos @ ''est configur'' @
              e_acute @ '' sur le bastion (ENDORIUMFORT_RELAY_ENROLL_SECRET).'')),
      (''relayId'', JStr ''Identifiant du relais''),
      (''label'', JStr (''Libell'' @ e_acute)),
      (''servesZone'', JStr ''Zone desservie''),
      (''listen'', JStr (''Adresse d'' @ apos @ e_acute @ ''coute'')),
      (''listenHint'', JStr (''Adresse priv'' @ e_acute @ ''e sur laquelle le bastion se connectera.'')),
      (''targets'', JStr (''Cibles autoris'' @ e_acute @ ''es'')),
      (''targetsHint'',
        JStr (''Une IP:port par ligne, pr'' @ e_acute @ ''-remplie depuis la zone. Le relais refuse les noms d'' @
              apos @ ''h'' @ o_circ @ ''te.'')),
      (''badTargets'',
        JStr (''Pas au format IP:port, donc refus'' @ e_acute @ '' par le relais : {list}. Utilisez l'' @ apos @
              ''adresse IP.'')),
      (''tlsFiles'', JStr ''Fichiers TLS sur le relais''),
      (''tlsHint'',
        JStr (''Le relais exige son certificat serveur, sa cl'' @ e_acute @
              '' et la CA des clients du bastion. Ils ne sont pas distribu'' @ e_acute @ ''s par le bastion.'')),
      (''tokenHint'',
        JStr (''Le jeton ne sert qu'' @ apos @ ''une fois et expire apr'' @ e_grave @ ''s {minutes} min.'')),
      (''generate'', JStr (''G'' @ e_acute @ ''n'' @ e_acute @ ''rer la commande'')),
      (''runThis'', JStr ''Lancez ceci sur la machine du relais avant {when}.''),
      (''copy'', JStr ''Copier''),
      (''copied'', JStr (''Copi'' @ e_acute)),
      (''copyFailed'', JStr ''Copie impossible''),
      (''issueError'', JStr (''Impossible de cr'' @ e_acute @ ''er le jeton.'')),
      (''agentStep1'', JStr (''1. Installez l'' @ apos @ ''agent ({platform}) :'')),
      (''agentStep2'', JStr (''2. Connectez-vous depuis le poste de l'' @ apos @ ''utilisateur :'')),
      (''agentStep3'',
        JStr (''3. Les connexions aux ressources '' @ laquo @ '' agent '' @ raquo @ '' s'' @ apos @
              ''ouvrent ensuite en local depuis la carte.'')),
      (''downAlert'',
        JStr (''{relay} n'' @ apos @ ''a pas envoy'' @ e_acute @
              '' de signal depuis {when} ; {count} ressource(s) passent par lui.'')),
      (''downZones'', JStr ''Zones : {zones}.''),
      (''never'', JStr ''toujours''),
      (''relays'', JStr ''Relais''),
      (''enrolled'', JStr (''{count} enr'' @ o_circ @ ''l'' @ e_acute @ ''(s)'')),
      (''relay'', JStr ''Relais''),
      (''state'', JStr (E_acute @ ''tat'')),
      (''lastSignal'', JStr ''Dernier signal''),
      (''version'', JStr ''Version''),
      (''zones'', JStr ''Zones desservies''),
      (''resources'', JStr ''Ressources''),
      (''online'', JStr ''En ligne''),
      (''stale'', JStr ''Sans signal''),
      (''offline'', JStr ''Hors ligne''),
      (''outdated'', JStr ''ancienne''),
      (''noRelay'', JStr (''Aucun relais enr'' @ o_circ @ ''l'' @ e_acute @ '' pour l'' @ apos @ ''instant.'')),
      (''routing'', JStr ''Chemin de chaque ressource''),
      (''routingHint'',
        JStr (''Direct, ou via un relais. La page Zones le r'' @ e_grave @ ''gle pour toute une zone.'')),
      (''assignError'', JStr ''Impossible de changer le chemin.''),
      (''agents'', JStr ''Agents''),
      (''agentCount'', JStr (''{count} vus, {online} connect'' @ e_acute @ ''s'')),
      (''filterAgents'', JStr ''Filtrer''),
      (''origin'', JStr ''Origine''),
      (''system'', JStr (''Syst'' @ e_grave @ ''me'')),
      (''tunnels'', JStr ''Tunnels''),
      (''lastSeen'', JStr (''Vu pour la derni'' @ e_grave @ ''re fois'')),
      (''update'', JStr (a_grave @ '' mettre '' @ a_grave @ '' jour'')),
      (''connected'', JStr (''Connect'' @ e_acute)),
      (''noAgent'', JStr (''Aucun agent ne s'' @ apos @ ''est encore connect'' @ e_acute @ ''.'')),
      (''httpWarning'',
        JStr (''Le bastion est servi en HTTP simple : --allow-http a '' @ e_acute @ ''t'' @ e_acute @ '' ajout'' @
              e_acute @ ''. Utilisez HTTPS hors d'' @ apos @ ''un labo.'')),
      (''loadError'', JStr ''Impossible de charger les relais.'')]"

lemma same_relays: "same_texts texts_en_relays texts_fr_relays"
  unfolding texts_en_relays_def texts_fr_relays_def
  by (intro same_intros; simp add: walk_simps cong: holes_cong)

subsection \<open>vault\<close>

definition texts_en_vault :: json where
  "texts_en_vault = JObj [
      (''title'', JStr ''Vault''),
      (''subtitle'',
        JStr ''Resource credentials are stored encrypted, injected at connection and changed on a schedule.''),
      (''statStored'', JStr ''Credentials stored''),
      (''statWeek'', JStr ''Changed in the last 7 days''),
      (''statFailed'', JStr ''Failed rotations''),
      (''statTemporary'', JStr ''Active temporary accounts''),
      (''credentials'', JStr ''Credentials''),
      (''filter'', JStr ''Resource or account''),
      (''frequency'', JStr ''Frequency''),
      (''last'', JStr ''Last rotation''),
      (''next'', JStr ''Next''),
      (''manual'', JStr ''Manual''),
      (''notStored'', JStr ''no stored secret''),
      (''failedShort'', JStr ''Failed''),
      (''failed'', JStr ''Failed''),
      (''noSsh'', JStr ''No SSH resource.''),
      (''sshOnly'', JStr ''Rotation and temporary accounts work on Linux SSH resources.''),
      (''rotation'', JStr ''Password rotation''),
      (''noSecret'', JStr ''This resource has no stored password: there is nothing to rotate yet.''),
      (''automatic'', JStr ''Automatic rotation''),
      (''enabled'', JStr ''Enabled''),
      (''result'', JStr ''Result''),
      (''retry'', JStr ''Retry now''),
      (''rotateNow'', JStr ''Change now''),
      (''rotateHint'',
        JStr ''Changing the password updates it on the server and in the vault. Open sessions are not affected.''),
      (''temporary'', JStr ''Temporary accounts''),
      (''temporaryHint'',
        JStr ''A throwaway Linux account is created when a session starts and deleted when it ends, using a management account.''),
      (''temporaryOn'', JStr ''Create a temporary account for each session''),
      (''mgmtUser'', JStr ''Management account''),
      (''mgmtSecret'', JStr ''Management password''),
      (''secretKept'', JStr ''Stored. Leave empty to keep it.''),
      (''secretMissing'', JStr ''Not stored yet.''),
      (''lifetime'', JStr ''Account lifetime''),
      (''shell'', JStr ''Login shell''),
      (''sudo'', JStr ''Grant sudo to the temporary account''),
      (''sudoWarning'', JStr ''With sudo, the temporary account can do anything on the server.''),
      (''needSecret'', JStr ''Enter the management password to enable temporary accounts.''),
      (''activeAccounts'', JStr ''Active temporary accounts''),
      (''expires'', JStr ''Expires''),
      (''noActive'', JStr ''No temporary account right now.''),
      (''saved'', JStr ''Settings of {name} saved.''),
      (''rotated'', JStr ''Password of {name} changed.''),
      (''loadError'', JStr ''Could not load the vault.''),
      (''every'',
        JObj [
          (''3600'', JStr ''Every hour''),
          (''86400'', JStr ''Every day''),
          (''604800'', JStr ''Every week''),
          (''2592000'', JStr ''Every month'')])]"

definition texts_fr_vault :: json where
  "texts_fr_vault = JObj [
      (''title'', JStr ''Coffre-fort''),
      (''subtitle'',
        JStr (''Les identifiants des ressources sont chiffr'' @ e_acute @ ''s, inject'' @ e_acute @ ''s '' @
              a_grave @ '' la connexion et chang'' @ e_acute @ ''s r'' @ e_acute @ ''guli'' @ e_grave @
              ''rement.'')),
      (''statStored'', JStr (''Identifiants stock'' @ e_acute @ ''s'')),
      (''statWeek'', JStr (''Chang'' @ e_acute @ ''s ces 7 jours'')),
      (''statFailed'', JStr (''Rotations en '' @ e_acute @ ''chec'')),
      (''statTemporary'', JStr ''Comptes temporaires actifs''),
      (''credentials'', JStr ''Identifiants''),
      (''filter'', JStr ''Ressource ou compte''),
      (''frequency'', JStr (''Fr'' @ e_acute @ ''quence'')),
      (''last'', JStr (''Derni'' @ e_grave @ ''re rotation'')),
      (''next'', JStr ''Prochaine''),
      (''manual'', JStr ''Manuelle''),
      (''notStored'', JStr (''aucun secret stock'' @ e_acute)),
      (''failedShort'', JStr (E_acute @ ''chec'')),
      (''failed'', JStr (E_acute @ ''chec'')),
      (''noSsh'', JStr ''Aucune ressource SSH.''),
      (''sshOnly'', JStr ''La rotation et les comptes temporaires fonctionnent sur les ressources SSH Linux.''),
      (''rotation'', JStr ''Rotation du mot de passe''),
      (''noSecret'',
        JStr (''Cette ressource n'' @ apos @ ''a pas de mot de passe stock'' @ e_acute @ '' : il n'' @ apos @
              ''y a encore rien '' @ a_grave @ '' changer.'')),
      (''automatic'', JStr ''Rotation automatique''),
      (''enabled'', JStr (''Activ'' @ e_acute @ ''e'')),
      (''result'', JStr (''R'' @ e_acute @ ''sultat'')),
      (''retry'', JStr (''R'' @ e_acute @ ''essayer maintenant'')),
      (''rotateNow'', JStr ''Changer maintenant''),
      (''rotateHint'',
        JStr (''Le changement met '' @ a_grave @
              '' jour le mot de passe sur le serveur et dans le coffre. Les sessions ouvertes ne sont pas coup'' @
              e_acute @ ''es.'')),
      (''temporary'', JStr ''Comptes temporaires''),
      (''temporaryHint'',
        JStr (''Un compte Linux jetable est cr'' @ e_acute @ e_acute @ '' '' @ a_grave @ '' l'' @ apos @
              ''ouverture de la session et supprim'' @ e_acute @ '' '' @ a_grave @ '' sa fin, gr'' @ a_circ @
              ''ce '' @ a_grave @ '' un compte de gestion.'')),
      (''temporaryOn'', JStr (''Cr'' @ e_acute @ ''er un compte temporaire '' @ a_grave @ '' chaque session'')),
      (''mgmtUser'', JStr ''Compte de gestion''),
      (''mgmtSecret'', JStr ''Mot de passe de gestion''),
      (''secretKept'', JStr (''Enregistr'' @ e_acute @ ''. Laisser vide pour le conserver.'')),
      (''secretMissing'', JStr (''Pas encore enregistr'' @ e_acute @ ''.'')),
      (''lifetime'', JStr (''Dur'' @ e_acute @ ''e de vie du compte'')),
      (''shell'', JStr ''Shell de connexion''),
      (''sudo'', JStr ''Accorder sudo au compte temporaire''),
      (''sudoWarning'', JStr ''Avec sudo, le compte temporaire peut tout faire sur le serveur.''),
      (''needSecret'', JStr ''Saisissez le mot de passe de gestion pour activer les comptes temporaires.''),
      (''activeAccounts'', JStr ''Comptes temporaires actifs''),
      (''expires'', JStr ''Expire''),
      (''noActive'', JStr ''Aucun compte temporaire en ce moment.''),
      (''saved'', JStr (''R'' @ e_acute @ ''glages de {name} enregistr'' @ e_acute @ ''s.'')),
      (''rotated'', JStr (''Mot de passe de {name} chang'' @ e_acute @ ''.'')),
      (''loadError'', JStr ''Impossible de charger le coffre.''),
      (''every'',
        JObj [
          (''3600'', JStr ''Toutes les heures''),
          (''86400'', JStr ''Chaque jour''),
          (''604800'', JStr ''Chaque semaine''),
          (''2592000'', JStr ''Chaque mois'')])]"

lemma same_vault: "same_texts texts_en_vault texts_fr_vault"
  unfolding texts_en_vault_def texts_fr_vault_def
  by (intro same_intros; simp add: walk_simps cong: holes_cong)

subsection \<open>sec\<close>

definition texts_en_sec :: json where
  "texts_en_sec = JObj [
      (''title'', JStr ''Security''),
      (''subtitle'', JStr ''What needs fixing, what is in order, and containment.''),
      (''containTitle'', JStr ''Containment''),
      (''containOn'', JStr ''Containment is on''),
      (''containText'',
        JStr ''While containment is on, every new session must give a reason. Open sessions are not cut.''),
      (''containSince'', JStr ''Enabled by {who}, {when}''),
      (''containStart'', JStr ''Enable containment''),
      (''containStop'', JStr ''Disable containment''),
      (''containLocked'', JStr ''Containment (Enterprise)''),
      (''manualReason'', JStr ''Enabled manually from Security''),
      (''toFix'', JStr ''To fix''),
      (''points'', JStr ''{count} point(s)''),
      (''nothing'', JStr ''Nothing to fix right now.''),
      (''inOrder'', JStr ''In order''),
      (''adminsNoMfa'', JStr ''{count} administrator(s) without MFA''),
      (''okMfa'', JStr ''Every administrator has MFA''),
      (''adminsPw'', JStr ''{count} administrator(s) still on their initial password''),
      (''okPasswords'', JStr ''No administrator on an initial password''),
      (''criticalNoApproval'', JStr ''{count} critical resource(s) without second approval''),
      (''okCritical'', JStr ''Every critical resource needs a second approval''),
      (''noGuard'', JStr ''{count} high-risk SSH resource(s) without SSH guard''),
      (''okGuard'', JStr ''High-risk SSH resources have SSH guard''),
      (''longSessions'', JStr ''{count} session(s) open for more than 8 h''),
      (''okLong'', JStr ''No session open for more than 8 h''),
      (''oldRequests'', JStr ''{count} access request(s) waiting for more than 1 h''),
      (''okRequests'', JStr ''No access request waiting for long''),
      (''rotationFailed'', JStr ''{count} failed password rotation(s)''),
      (''okRotation'', JStr ''Password rotations succeed''),
      (''relaysDown'', JStr ''{count} relay(s) without signal''),
      (''okRelays'', JStr ''Every relay is online''),
      (''webauthnBad'', JStr ''Security keys are misconfigured (RP ID or origin)''),
      (''okWebauthn'', JStr ''Security key settings are valid''),
      (''licenseSoon'', JStr ''The license expires in {days} day(s)''),
      (''okLicense'', JStr ''The license is valid for more than 30 days''),
      (''openUsers'', JStr ''Open Users''),
      (''openResources'', JStr ''Open Resources''),
      (''openSessions'', JStr ''Open Sessions''),
      (''openRequests'', JStr ''Open Requests''),
      (''openVault'', JStr ''Open Vault''),
      (''openRelays'', JStr ''Open Relays''),
      (''openLicense'', JStr ''Open License''),
      (''howComputed'',
        JStr ''Checks are computed in your browser from the accounts, resources, sessions and settings visible to you.'')]"

definition texts_fr_sec :: json where
  "texts_fr_sec = JObj [
      (''title'', JStr (''S'' @ e_acute @ ''curit'' @ e_acute)),
      (''subtitle'', JStr (''Ce qui est '' @ a_grave @ '' corriger, ce qui est en ordre, et le confinement.'')),
      (''containTitle'', JStr ''Confinement''),
      (''containOn'', JStr ''Le confinement est actif''),
      (''containText'',
        JStr (''Pendant le confinement, toute nouvelle session doit donner un motif. Les sessions ouvertes ne sont pas coup'' @
              e_acute @ ''es.'')),
      (''containSince'', JStr (''Activ'' @ e_acute @ '' par {who}, {when}'')),
      (''containStart'', JStr ''Activer le confinement''),
      (''containStop'', JStr (''D'' @ e_acute @ ''sactiver le confinement'')),
      (''containLocked'', JStr ''Confinement (Enterprise)''),
      (''manualReason'', JStr (''Activ'' @ e_acute @ '' manuellement depuis S'' @ e_acute @ ''curit'' @ e_acute)),
      (''toFix'', JStr (A_grave @ '' corriger'')),
      (''points'', JStr ''{count} point(s)''),
      (''nothing'', JStr (''Rien '' @ a_grave @ '' corriger pour l'' @ apos @ ''instant.'')),
      (''inOrder'', JStr ''En ordre''),
      (''adminsNoMfa'', JStr ''{count} administrateur(s) sans MFA''),
      (''okMfa'', JStr ''Tous les administrateurs ont la MFA''),
      (''adminsPw'', JStr ''{count} administrateur(s) encore sur leur mot de passe initial''),
      (''okPasswords'', JStr ''Aucun administrateur sur un mot de passe initial''),
      (''criticalNoApproval'', JStr ''{count} ressource(s) critique(s) sans seconde approbation''),
      (''okCritical'', JStr ''Toutes les ressources critiques exigent une seconde approbation''),
      (''noGuard'',
        JStr (''{count} ressource(s) SSH '' @ a_grave @ '' risque '' @ e_acute @ ''lev'' @ e_acute @
              '' sans SSH guard'')),
      (''okGuard'',
        JStr (''Les ressources SSH '' @ a_grave @ '' risque '' @ e_acute @ ''lev'' @ e_acute @
              '' ont le SSH guard'')),
      (''longSessions'', JStr ''{count} session(s) ouverte(s) depuis plus de 8 h''),
      (''okLong'', JStr ''Aucune session ouverte depuis plus de 8 h''),
      (''oldRequests'',
        JStr (''{count} demande(s) d'' @ apos @ ''acc'' @ e_grave @ ''s en attente depuis plus d'' @ apos @
              ''1 h'')),
      (''okRequests'', JStr (''Aucune demande d'' @ apos @ ''acc'' @ e_grave @ ''s en attente depuis longtemps'')),
      (''rotationFailed'', JStr (''{count} rotation(s) de mot de passe en '' @ e_acute @ ''chec'')),
      (''okRotation'', JStr (''Les rotations de mot de passe r'' @ e_acute @ ''ussissent'')),
      (''relaysDown'', JStr ''{count} relais sans signal''),
      (''okRelays'', JStr ''Tous les relais sont en ligne''),
      (''webauthnBad'',
        JStr (''Les cl'' @ e_acute @ ''s de s'' @ e_acute @ ''curit'' @ e_acute @ '' sont mal configur'' @
              e_acute @ ''es (RP ID ou origine)'')),
      (''okWebauthn'',
        JStr (''Les r'' @ e_acute @ ''glages des cl'' @ e_acute @ ''s de s'' @ e_acute @ ''curit'' @ e_acute @
              '' sont valides'')),
      (''licenseSoon'', JStr ''La licence expire dans {days} jour(s)''),
      (''okLicense'', JStr ''La licence est valable plus de 30 jours''),
      (''openUsers'', JStr ''Ouvrir Utilisateurs''),
      (''openResources'', JStr ''Ouvrir Ressources''),
      (''openSessions'', JStr ''Ouvrir Sessions''),
      (''openRequests'', JStr ''Ouvrir Demandes''),
      (''openVault'', JStr ''Ouvrir le coffre''),
      (''openRelays'', JStr ''Ouvrir Relais''),
      (''openLicense'', JStr ''Ouvrir Licence''),
      (''howComputed'',
        JStr (''Les v'' @ e_acute @ ''rifications sont calcul'' @ e_acute @ ''es dans votre navigateur '' @
              a_grave @ '' partir des comptes, ressources, sessions et r'' @ e_acute @ ''glages visibles.''))]"

lemma same_sec: "same_texts texts_en_sec texts_fr_sec"
  unfolding texts_en_sec_def texts_fr_sec_def
  by (intro same_intros; simp add: walk_simps cong: holes_cong)

end
