(* ===== verification/TextsSecurity.thy ===== *)
theory TextsSecurity
  imports I18n
begin

section \<open>Texts of the interface (i18n.jsx): sshGuard, dbGuard, threats, apiTokens, mfa, settings, integrations, k8s\<close>

text \<open>
  The sections of the dictionary in the order of the source, English and French, with what compares
  them: the same keys and the same placeholders.
\<close>

subsection \<open>sshGuard\<close>

definition texts_en_sshGuard :: json where
  "texts_en_sshGuard = JObj [
      (''title'', JStr ''SSH command guard''),
      (''intro'',
        JStr ''Commands blocked before they reach the remote shell, on resources with the SSH guard enabled. Built-in rules can be switched off but not removed.''),
      (''rule'', JStr ''Rule''),
      (''command'', JStr ''Command''),
      (''actions'', JStr ''Actions''),
      (''add'', JStr ''Add''),
      (''remove'', JStr ''Remove''),
      (''builtinTag'', JStr ''Built in''),
      (''builtinPattern'', JStr ''built-in pattern''),
      (''namePlaceholder'', JStr ''rule name''),
      (''commandPlaceholder'', JStr ''e.g. curl, rm -rf /, systemctl stop''),
      (''hint'',
        JStr (''A command matches at the start of the input or just after ;, & or |, with or without sudo, ignoring case. It will not fire on a longer word: '' @
              [dquote] @ ''shutdown'' @ [dquote] @ '' does not match '' @ [dquote] @ ''shutdownctl'' @ [dquote] @
              ''.'')),
      (''badName'',
        JStr ''The name may only contain letters, digits, hyphens and underscores (1 to 48 characters).''),
      (''badCommand'', JStr ''Enter the command to block.''),
      (''loadError'', JStr ''Could not load the SSH guard rules.''),
      (''saveError'', JStr ''Could not save the rule.''),
      (''builtin'',
        JObj [
          (''wipe_root'', JStr ''Wipe the root filesystem''),
          (''fork_bomb'', JStr ''Fork bomb''),
          (''disk_format'', JStr ''Format a filesystem''),
          (''raw_disk_dd'', JStr ''Raw write to a block device''),
          (''power_command'', JStr ''Shut down or reboot the host'')])]"

definition texts_fr_sshGuard :: json where
  "texts_fr_sshGuard = JObj [
      (''title'', JStr ''Garde-fou SSH''),
      (''intro'',
        JStr (''Commandes bloqu'' @ e_acute @ ''es avant d'' @ squote @
              ''atteindre le shell distant, sur les ressources dont le garde-fou SSH est activ'' @ e_acute @
              ''. Les r'' @ e_grave @ ''gles int'' @ e_acute @ ''gr'' @ e_acute @ ''es se d'' @ e_acute @
              ''sactivent mais ne se suppriment pas.'')),
      (''rule'', JStr (''R'' @ e_grave @ ''gle'')),
      (''command'', JStr ''Commande''),
      (''actions'', JStr ''Actions''),
      (''add'', JStr ''Ajouter''),
      (''remove'', JStr ''Supprimer''),
      (''builtinTag'', JStr (''Int'' @ e_acute @ ''gr'' @ e_acute @ ''e'')),
      (''builtinPattern'', JStr (''motif int'' @ e_acute @ ''gr'' @ e_acute)),
      (''namePlaceholder'', JStr (''nom de la r'' @ e_grave @ ''gle'')),
      (''commandPlaceholder'', JStr ''ex. curl, rm -rf /, systemctl stop''),
      (''hint'',
        JStr (''Une commande correspond en d'' @ e_acute @ ''but de saisie ou juste apr'' @ e_grave @
              ''s ;, & ou |, avec ou sans sudo, sans tenir compte de la casse. Elle ne se d'' @ e_acute @
              ''clenche pas sur un mot plus long : '' @ laquo @ '' shutdown '' @ raquo @ '' ne vise pas '' @
              laquo @ '' shutdownctl '' @ raquo @ ''.'')),
      (''badCommand'', JStr (''Saisissez la commande '' @ a_grave @ '' bloquer.'')),
      (''badName'',
        JStr (''Le nom ne peut contenir que lettres, chiffres, tirets et tirets bas (1 '' @ a_grave @
              '' 48 caract'' @ e_grave @ ''res).'')),
      (''loadError'', JStr (''Impossible de charger les r'' @ e_grave @ ''gles du garde-fou SSH.'')),
      (''saveError'', JStr (''Impossible d'' @ squote @ ''enregistrer la r'' @ e_grave @ ''gle.'')),
      (''builtin'',
        JObj [
          (''wipe_root'', JStr ''Effacement de la racine''),
          (''fork_bomb'', JStr (''Bombe '' @ a_grave @ '' fork'')),
          (''disk_format'', JStr (''Formatage d'' @ squote @ ''un syst'' @ e_grave @ ''me de fichiers'')),
          (''raw_disk_dd'',
            JStr (E_acute @ ''criture brute sur un p'' @ e_acute @ ''riph'' @ e_acute @ ''rique bloc'')),
          (''power_command'',
            JStr (''Arr'' @ e_circ @ ''t ou red'' @ e_acute @ ''marrage de l'' @ squote @ ''h'' @ o_circ @
                  ''te''))])]"

lemma same_sshGuard: "same_texts texts_en_sshGuard texts_fr_sshGuard"
  unfolding texts_en_sshGuard_def texts_fr_sshGuard_def
  by (intro same_intros; simp add: walk_simps cong: holes_cong)

subsection \<open>dbGuard\<close>

definition texts_en_dbGuard :: json where
  "texts_en_dbGuard = JObj [
      (''title'', JStr ''SQL guard (database proxy)''),
      (''intro'',
        JStr ''Statements refused before they reach the database, on PostgreSQL resources with the SQL guard enabled. The client gets a normal PostgreSQL error and the session carries on. Built-in rules can be switched off but not removed.''),
      (''rule'', JStr ''Rule''),
      (''match'', JStr ''Matches''),
      (''kind'', JStr ''Kind''),
      (''actions'', JStr ''Actions''),
      (''add'', JStr ''Add''),
      (''remove'', JStr ''Remove''),
      (''builtinTag'', JStr ''Built in''),
      (''namePlaceholder'', JStr ''rule name''),
      (''hint'',
        JStr ''A statement rule matches statements that start with those words (EXPLAIN ANALYZE is looked through), ignoring case. A schema rule matches any schema-qualified name (payroll.salaries) and SET search_path to it. Comments and string literals are ignored. Code run indirectly (function bodies, EXECUTE) is not visible: keep database privileges tight.''),
      (''badName'',
        JStr ''The name may only contain letters, digits, hyphens and underscores (1 to 48 characters).''),
      (''badValue'', JStr ''Enter the statement words or the schema name.''),
      (''loadError'', JStr ''Could not load the SQL guard rules.''),
      (''saveError'', JStr ''Could not save the rule.''),
      (''kinds'',
        JObj [
          (''statement'', JStr ''Statement''),
          (''schema'', JStr ''Schema'')]),
      (''builtin'',
        JObj [
          (''drop'', JStr ''DROP''),
          (''truncate'', JStr ''TRUNCATE''),
          (''delete_without_where'', JStr ''DELETE without WHERE''),
          (''update_without_where'', JStr ''UPDATE without WHERE''),
          (''role_change'', JStr ''Role and privilege changes''),
          (''alter_system'', JStr ''ALTER SYSTEM''),
          (''copy_program'', JStr (''COPY '' @ hellip @ '' PROGRAM'')),
          (''do_block'', JStr ''Anonymous DO blocks'')]),
      (''builtinHelp'',
        JObj [
          (''drop'', JStr (''Any DROP statement (table, schema, database, role'' @ hellip @ '').'')),
          (''truncate'', JStr ''TRUNCATE of any table.''),
          (''delete_without_where'', JStr ''DELETE FROM with no WHERE, also inside a CTE or EXPLAIN ANALYZE.''),
          (''update_without_where'', JStr (''UPDATE '' @ hellip @ '' SET with no WHERE.'')),
          (''role_change'',
            JStr ''CREATE/ALTER/DROP ROLE or USER, GRANT, REVOKE, SET ROLE, SET SESSION AUTHORIZATION.''),
          (''alter_system'', JStr ''Server configuration changes.''),
          (''copy_program'', JStr ''COPY to or from a shell command on the database server.''),
          (''do_block'', JStr (''DO $$ '' @ hellip @ '' $$: its body would run unseen by the other rules.''))])]"

definition texts_fr_dbGuard :: json where
  "texts_fr_dbGuard = JObj [
      (''title'', JStr (''Garde-fou SQL (proxy de bases de donn'' @ e_acute @ ''es)'')),
      (''intro'',
        JStr (''Instructions refus'' @ e_acute @ ''es avant d'' @ squote @
              ''atteindre la base, sur les ressources PostgreSQL dont le garde-fou SQL est activ'' @ e_acute @
              ''. Le client re'' @ c_cedil @ ''oit une erreur PostgreSQL normale et la session continue. Les r'' @
              e_grave @ ''gles int'' @ e_acute @ ''gr'' @ e_acute @ ''es peuvent '' @ e_circ @ ''tre d'' @
              e_acute @ ''sactiv'' @ e_acute @ ''es, pas supprim'' @ e_acute @ ''es.'')),
      (''rule'', JStr (''R'' @ e_grave @ ''gle'')),
      (''match'', JStr (''Correspond '' @ a_grave)),
      (''kind'', JStr ''Type''),
      (''actions'', JStr ''Actions''),
      (''add'', JStr ''Ajouter''),
      (''remove'', JStr ''Supprimer''),
      (''builtinTag'', JStr (''Int'' @ e_acute @ ''gr'' @ e_acute @ ''e'')),
      (''namePlaceholder'', JStr (''nom de la r'' @ e_grave @ ''gle'')),
      (''hint'',
        JStr (''Une r'' @ e_grave @ ''gle d'' @ squote @
              ''instruction vise les instructions qui commencent par ces mots (EXPLAIN ANALYZE est travers'' @
              e_acute @ ''), sans tenir compte de la casse. Une r'' @ e_grave @ ''gle de sch'' @ e_acute @
              ''ma vise tout nom qualifi'' @ e_acute @ '' par ce sch'' @ e_acute @
              ''ma (payroll.salaries) et SET search_path vers lui. Commentaires et cha'' @ i_circ @
              ''nes sont ignor'' @ e_acute @ ''s. Le code ex'' @ e_acute @ ''cut'' @ e_acute @
              '' indirectement (corps de fonctions, EXECUTE) n'' @ squote @
              ''est pas visible : gardez des privil'' @ e_grave @ ''ges de base stricts.'')),
      (''badName'',
        JStr (''Le nom ne peut contenir que des lettres, chiffres, tirets et soulign'' @ e_acute @ ''s (1 '' @
              a_grave @ '' 48 caract'' @ e_grave @ ''res).'')),
      (''badValue'',
        JStr (''Saisissez les mots de l'' @ squote @ ''instruction ou le nom du sch'' @ e_acute @ ''ma.'')),
      (''loadError'', JStr (''Impossible de charger les r'' @ e_grave @ ''gles du garde-fou SQL.'')),
      (''saveError'', JStr (''Impossible d'' @ squote @ ''enregistrer la r'' @ e_grave @ ''gle.'')),
      (''kinds'',
        JObj [
          (''statement'', JStr ''Instruction''),
          (''schema'', JStr (''Sch'' @ e_acute @ ''ma''))]),
      (''builtin'',
        JObj [
          (''drop'', JStr ''DROP''),
          (''truncate'', JStr ''TRUNCATE''),
          (''delete_without_where'', JStr ''DELETE sans WHERE''),
          (''update_without_where'', JStr ''UPDATE sans WHERE''),
          (''role_change'', JStr (''Changements de r'' @ o_circ @ ''les et de privil'' @ e_grave @ ''ges'')),
          (''alter_system'', JStr ''ALTER SYSTEM''),
          (''copy_program'', JStr (''COPY '' @ hellip @ '' PROGRAM'')),
          (''do_block'', JStr ''Blocs DO anonymes'')]),
      (''builtinHelp'',
        JObj [
          (''drop'',
            JStr (''Toute instruction DROP (table, sch'' @ e_acute @ ''ma, base, r'' @ o_circ @ ''le'' @ hellip @
                  '').'')),
          (''truncate'', JStr (''TRUNCATE de n'' @ squote @ ''importe quelle table.'')),
          (''delete_without_where'', JStr ''DELETE FROM sans WHERE, y compris dans une CTE ou un EXPLAIN ANALYZE.''),
          (''update_without_where'', JStr (''UPDATE '' @ hellip @ '' SET sans WHERE.'')),
          (''role_change'',
            JStr ''CREATE/ALTER/DROP ROLE ou USER, GRANT, REVOKE, SET ROLE, SET SESSION AUTHORIZATION.''),
          (''alter_system'', JStr ''Modifications de la configuration du serveur.''),
          (''copy_program'', JStr ''COPY vers ou depuis une commande shell du serveur de base.''),
          (''do_block'',
            JStr (''DO $$ '' @ hellip @ '' $$ : son corps '' @ e_acute @ ''chapperait aux autres r'' @ e_grave @
                  ''gles.''))])]"

lemma same_dbGuard: "same_texts texts_en_dbGuard texts_fr_dbGuard"
  unfolding texts_en_dbGuard_def texts_fr_dbGuard_def
  by (intro same_intros; simp add: walk_simps cong: holes_cong)

subsection \<open>threats\<close>

definition texts_en_threats :: json where
  "texts_en_threats = JObj [
      (''title'', JStr ''Threat detection''),
      (''subtitle'',
        JStr ''The bastion watches sign-ins and sessions for suspicious behaviour and can respond on its own.''),
      (''tabDetections'', JStr ''Detections''),
      (''tabRules'', JStr ''Rules''),
      (''openOnly'', JStr ''Not acknowledged only''),
      (''severity'', JStr ''Severity''),
      (''detection'', JStr ''Detection''),
      (''account'', JStr ''Account''),
      (''response'', JStr ''Automatic response''),
      (''rule'', JStr ''Rule''),
      (''threshold'', JStr ''Threshold''),
      (''within'', JStr ''within''),
      (''window'', JStr ''Window''),
      (''ack'', JStr ''Acknowledge''),
      (''acked'', JStr ''Acknowledged''),
      (''noOpen'', JStr ''No detection to review.''),
      (''none'', JStr ''No detection yet.''),
      (''loadError'', JStr ''Could not load detections.''),
      (''saveError'', JStr ''Could not save.''),
      (''rulesHint'',
        JStr ''Rules are evaluated every few minutes on the recent journal. A detection is recorded once per account and rule, then the response is applied.''),
      (''sev'',
        JObj [
          (''critical'', JStr ''critical''),
          (''high'', JStr ''high''),
          (''medium'', JStr ''medium''),
          (''low'', JStr ''low'')]),
      (''actions'',
        JObj [
          (''detect'', JStr ''Alert only''),
          (''step_up'', JStr ''Sign the user out''),
          (''kill'', JStr ''End their sessions''),
          (''contain'', JStr ''Sign out, end sessions and open an incident'')]),
      (''actionHints'',
        JObj [
          (''detect'', JStr ''Records the detection, nothing else.''),
          (''step_up'', JStr (''Revokes the user'' @ apos @ ''s tokens: they must sign in again, with MFA.'')),
          (''kill'', JStr ''Ends every session this user has open.''),
          (''contain'', JStr ''Signs the user out, ends their sessions and opens a security incident.'')]),
      (''rules'',
        JObj [
          (''auth_failure_burst'',
            JObj [
              (''name'', JStr ''Burst of failed sign-ins''),
              (''what'', JStr ''Repeated failed or rate-limited sign-ins for the same account.'')]),
          (''command_spike'',
            JObj [
              (''name'', JStr ''Command spike''),
              (''what'', JStr ''Abnormal volume of commands, reported when a session ends.'')]),
          (''impossible_travel'',
            JObj [
              (''name'', JStr ''Impossible travel''),
              (''what'', JStr ''Two successful sign-ins too far apart for the time between them.''),
              (''fixed'', JStr ''computed from distance and time'')]),
          (''off_hours_access'',
            JObj [
              (''name'', JStr ''Off-hours access''),
              (''what'', JStr ''Session started before 07:00 or after 20:00 UTC.''),
              (''fixed'', JStr ''fixed: 07:00-20:00 UTC'')])])]"

definition texts_fr_threats :: json where
  "texts_fr_threats = JObj [
      (''title'', JStr (''D'' @ e_acute @ ''tection des menaces'')),
      (''subtitle'',
        JStr (''Le bastion surveille les connexions et les sessions pour rep'' @ e_acute @
              ''rer les comportements suspects, et peut r'' @ e_acute @ ''agir seul.'')),
      (''tabDetections'', JStr (''D'' @ e_acute @ ''tections'')),
      (''tabRules'', JStr (''R'' @ e_grave @ ''gles'')),
      (''openOnly'', JStr (''Non acquitt'' @ e_acute @ ''es uniquement'')),
      (''severity'', JStr (''Gravit'' @ e_acute)),
      (''detection'', JStr (''D'' @ e_acute @ ''tection'')),
      (''account'', JStr ''Compte''),
      (''response'', JStr (''R'' @ e_acute @ ''ponse automatique'')),
      (''rule'', JStr (''R'' @ e_grave @ ''gle'')),
      (''threshold'', JStr ''Seuil''),
      (''within'', JStr ''en''),
      (''window'', JStr (''Fen'' @ e_circ @ ''tre'')),
      (''ack'', JStr ''Acquitter''),
      (''acked'', JStr (''Acquitt'' @ e_acute @ ''e'')),
      (''noOpen'', JStr (''Aucune d'' @ e_acute @ ''tection '' @ a_grave @ '' examiner.'')),
      (''none'', JStr (''Aucune d'' @ e_acute @ ''tection pour l'' @ apos @ ''instant.'')),
      (''loadError'', JStr (''Impossible de charger les d'' @ e_acute @ ''tections.'')),
      (''saveError'', JStr ''Enregistrement impossible.''),
      (''rulesHint'',
        JStr (''Les r'' @ e_grave @ ''gles sont '' @ e_acute @ ''valu'' @ e_acute @
              ''es toutes les quelques minutes sur le journal r'' @ e_acute @ ''cent. Une d'' @ e_acute @
              ''tection est enregistr'' @ e_acute @ ''e une fois par compte et par r'' @ e_grave @
              ''gle, puis la r'' @ e_acute @ ''ponse est appliqu'' @ e_acute @ ''e.'')),
      (''sev'',
        JObj [
          (''critical'', JStr ''critique''),
          (''high'', JStr (e_acute @ ''lev'' @ e_acute @ ''e'')),
          (''medium'', JStr ''moyenne''),
          (''low'', JStr ''faible'')]),
      (''actions'',
        JObj [
          (''detect'', JStr ''Alerter seulement''),
          (''step_up'', JStr (''D'' @ e_acute @ ''connecter l'' @ apos @ ''utilisateur'')),
          (''kill'', JStr ''Couper ses sessions''),
          (''contain'', JStr (''D'' @ e_acute @ ''connecter, couper et ouvrir un incident''))]),
      (''actionHints'',
        JObj [
          (''detect'', JStr (''Enregistre la d'' @ e_acute @ ''tection, rien d'' @ apos @ ''autre.'')),
          (''step_up'', JStr (''R'' @ e_acute @ ''voque ses jetons : il doit se reconnecter, avec sa MFA.'')),
          (''kill'', JStr ''Coupe toutes les sessions ouvertes par cet utilisateur.''),
          (''contain'',
            JStr (''D'' @ e_acute @ ''connecte l'' @ apos @
                  ''utilisateur, coupe ses sessions et ouvre un incident de s'' @ e_acute @ ''curit'' @ e_acute @
                  ''.''))]),
      (''rules'',
        JObj [
          (''auth_failure_burst'',
            JObj [
              (''name'', JStr (''Rafale d'' @ apos @ e_acute @ ''checs de connexion'')),
              (''what'',
                JStr (E_acute @ ''checs ou limitations de connexion r'' @ e_acute @ ''p'' @ e_acute @ ''t'' @
                      e_acute @ ''s pour un m'' @ e_circ @ ''me compte.''))]),
          (''command_spike'',
            JObj [
              (''name'', JStr ''Pic de commandes''),
              (''what'',
                JStr (''Volume de commandes anormal, signal'' @ e_acute @ '' '' @ a_grave @ '' la fin d'' @ apos @
                      ''une session.''))]),
          (''impossible_travel'',
            JObj [
              (''name'', JStr ''Voyage impossible''),
              (''what'',
                JStr (''Deux connexions r'' @ e_acute @ ''ussies trop '' @ e_acute @ ''loign'' @ e_acute @
                      ''es pour le temps '' @ e_acute @ ''coul'' @ e_acute @ ''.'')),
              (''fixed'',
                JStr (''calcul'' @ e_acute @ '' d'' @ apos @ ''apr'' @ e_grave @ ''s la distance et le temps''))]),
          (''off_hours_access'',
            JObj [
              (''name'', JStr (''Acc'' @ e_grave @ ''s hors horaires'')),
              (''what'', JStr (''Session ouverte avant 07:00 ou apr'' @ e_grave @ ''s 20:00 UTC.'')),
              (''fixed'', JStr ''fixe : 07:00-20:00 UTC'')])])]"

lemma same_threats: "same_texts texts_en_threats texts_fr_threats"
  unfolding texts_en_threats_def texts_fr_threats_def
  by (intro same_intros; simp add: walk_simps cong: holes_cong)

subsection \<open>apiTokens\<close>

definition texts_en_apiTokens :: json where
  "texts_en_apiTokens = JObj [
      (''title'', JStr ''API tokens''),
      (''subtitle'', JStr ''for scripts, CI and Terraform''),
      (''intro'',
        JStr ''A token acts on your behalf from the API only, within the scopes you pick and never beyond your own rights. It cannot open sessions, approve requests or change your security settings.''),
      (''none'', JStr ''No token yet.''),
      (''showAll'', JStr (''All users'' @ squote @ '' tokens'')),
      (''name'', JStr ''Name''),
      (''namePlaceholder'', JStr ''e.g. terraform-prod''),
      (''scopes'', JStr ''Scopes''),
      (''lifetime'', JStr ''Valid for''),
      (''days'', JStr ''{count} days''),
      (''cidrs'', JStr ''Allowed addresses''),
      (''cidrsPlaceholder'', JStr ''optional: 10.0.0.0/8, 192.0.2.10''),
      (''create'', JStr ''Create token''),
      (''creating'', JStr (''Creating'' @ hellip)),
      (''createdTitle'', JStr ''Token created: copy it now''),
      (''createdText'', JStr ''It will not be shown again. Send it as the header Authorization: Bearer <token>.''),
      (''copy'', JStr ''Copy token''),
      (''dismiss'', JStr ''Done''),
      (''expires'', JStr ''expires {when}''),
      (''lastUsed'', JStr ''used {when} from {ip}''),
      (''neverUsed'', JStr ''never used''),
      (''owner'', JStr ''owner {name}''),
      (''revoke'', JStr ''Revoke''),
      (''revokeTitle'', JStr ''Revoke the token {name}?''),
      (''revokeMsg'', JStr ''Any script using it stops working immediately. This cannot be undone.''),
      (''statusActive'', JStr ''active''),
      (''statusExpired'', JStr ''expired''),
      (''statusRevoked'', JStr ''revoked''),
      (''noScopes'', JStr ''Your role holds no permission that can be given to a token.''),
      (''holder'', JStr ''Holder''),
      (''holderSelf'', JStr ''Me ({name})'')]"

definition texts_fr_apiTokens :: json where
  "texts_fr_apiTokens = JObj [
      (''title'', JStr (''Jetons d'' @ squote @ ''API'')),
      (''subtitle'', JStr ''pour les scripts, la CI et Terraform''),
      (''intro'',
        JStr (''Un jeton agit en votre nom, uniquement via l'' @ squote @
              ''API, dans les droits que vous choisissez et jamais au-del'' @ a_grave @ '' des v'' @ o_circ @
              ''tres. Il ne peut ni ouvrir de session, ni approuver une demande, ni modifier vos param'' @
              e_grave @ ''tres de s'' @ e_acute @ ''curit'' @ e_acute @ ''.'')),
      (''none'', JStr (''Aucun jeton pour l'' @ squote @ ''instant.'')),
      (''showAll'', JStr ''Jetons de tous les utilisateurs''),
      (''name'', JStr ''Nom''),
      (''namePlaceholder'', JStr ''ex. terraform-prod''),
      (''scopes'', JStr ''Droits''),
      (''lifetime'', JStr (''Validit'' @ e_acute)),
      (''days'', JStr ''{count} jours''),
      (''cidrs'', JStr (''Adresses autoris'' @ e_acute @ ''es'')),
      (''cidrsPlaceholder'', JStr ''facultatif : 10.0.0.0/8, 192.0.2.10''),
      (''create'', JStr (''Cr'' @ e_acute @ ''er le jeton'')),
      (''creating'', JStr (''Cr'' @ e_acute @ ''ation'' @ hellip)),
      (''createdTitle'', JStr (''Jeton cr'' @ e_acute @ e_acute @ '' : copiez-le maintenant'')),
      (''createdText'',
        JStr (''Il ne sera plus affich'' @ e_acute @ ''. Envoyez-le dans l'' @ squote @ ''en-t'' @ e_circ @
              ''te Authorization: Bearer <jeton>.'')),
      (''copy'', JStr ''Copier le jeton''),
      (''dismiss'', JStr (''Termin'' @ e_acute)),
      (''expires'', JStr ''expire {when}''),
      (''lastUsed'', JStr (''utilis'' @ e_acute @ '' {when} depuis {ip}'')),
      (''neverUsed'', JStr (''jamais utilis'' @ e_acute)),
      (''owner'', JStr (''propri'' @ e_acute @ ''taire {name}'')),
      (''revoke'', JStr (''R'' @ e_acute @ ''voquer'')),
      (''revokeTitle'', JStr (''R'' @ e_acute @ ''voquer le jeton {name} ?'')),
      (''revokeMsg'',
        JStr (''Les scripts qui l'' @ squote @ ''utilisent cessent imm'' @ e_acute @
              ''diatement de fonctionner. Action irr'' @ e_acute @ ''versible.'')),
      (''statusActive'', JStr ''actif''),
      (''statusExpired'', JStr (''expir'' @ e_acute)),
      (''statusRevoked'', JStr (''r'' @ e_acute @ ''voqu'' @ e_acute)),
      (''noScopes'',
        JStr (''Votre r'' @ o_circ @ ''le ne d'' @ e_acute @ ''tient aucun droit d'' @ e_acute @ ''l'' @ e_acute @
              ''gable '' @ a_grave @ '' un jeton.'')),
      (''holder'', JStr ''Titulaire''),
      (''holderSelf'', JStr ''Moi ({name})'')]"

lemma same_apiTokens: "same_texts texts_en_apiTokens texts_fr_apiTokens"
  unfolding texts_en_apiTokens_def texts_fr_apiTokens_def
  by (intro same_intros; simp add: walk_simps cong: holes_cong)

subsection \<open>mfa\<close>

definition texts_en_mfa :: json where
  "texts_en_mfa = JObj [
      (''title'', JStr ''Two-factor authentication''),
      (''yourAccount'', JStr ''your own account''),
      (''on'', JStr ''On: {what}''),
      (''off'', JStr ''Off''),
      (''app'', JStr ''app''),
      (''keyCount'', JStr ''{count} key(s)''),
      (''appTitle'', JStr ''Authenticator app''),
      (''appText'',
        JStr ''A 6-digit code from an app such as Google Authenticator, Microsoft Authenticator or 1Password.''),
      (''appOn'', JStr ''Configured''),
      (''currentCode'', JStr ''Current code''),
      (''disableApp'', JStr ''Remove the app''),
      (''confirmDisable'', JStr ''Confirm removal''),
      (''disableHint'', JStr ''Type a current code from the app to remove it.''),
      (''addKeyFirst'',
        JStr ''Add a security key before removing the app: an administrator must keep a second factor.''),
      (''setupApp'', JStr ''Set up an app''),
      (''step1'', JStr ''Scan this QR code with the app.''),
      (''qrAlt'', JStr ''QR code to add EndoriumFort to the app''),
      (''manual'', JStr (''Can'' @ apos @ ''t scan? Enter the secret by hand'')),
      (''copySecret'', JStr ''Copy the secret''),
      (''copyUri'', JStr ''Copy the link''),
      (''step2'', JStr ''Type the 6-digit code shown by the app.''),
      (''code'', JStr ''Code''),
      (''verify'', JStr ''Verify and enable''),
      (''keysTitle'', JStr ''Security keys''),
      (''keysText'',
        JStr (''A physical key (YubiKey'' @ hellip @ '') or the computer'' @ apos @
              ''s built-in authenticator (Windows Hello, Touch ID).'')),
      (''key'', JStr ''Security key''),
      (''added'', JStr ''added {when}''),
      (''used'', JStr ''used {when}''),
      (''remove'', JStr ''Remove''),
      (''confirmRemove'', JStr ''Confirm removal''),
      (''keepOne'',
        JStr ''Set up the app before removing your last key: an administrator must keep a second factor.''),
      (''keyName'', JStr ''Key name''),
      (''keyNamePlaceholder'', JStr ''Name, e.g. Office YubiKey''),
      (''addKey'', JStr ''Add a key''),
      (''waitingKey'', JStr (''Touch your key'' @ hellip)),
      (''unsupported'', JStr ''This browser cannot use security keys.''),
      (''prefTitle'', JStr ''Preferred method at sign-in''),
      (''prefText'', JStr ''What the sign-in page asks for first.''),
      (''prefAny'', JStr ''Either''),
      (''prefApp'', JStr ''App''),
      (''prefKey'', JStr ''Key'')]"

definition texts_fr_mfa :: json where
  "texts_fr_mfa = JObj [
      (''title'', JStr ''Double authentification''),
      (''yourAccount'', JStr ''votre propre compte''),
      (''on'', JStr ''Active : {what}''),
      (''off'', JStr (''D'' @ e_acute @ ''sactiv'' @ e_acute @ ''e'')),
      (''app'', JStr ''application''),
      (''keyCount'', JStr (''{count} cl'' @ e_acute @ ''(s)'')),
      (''appTitle'', JStr (''Application d'' @ apos @ ''authentification'')),
      (''appText'',
        JStr (''Un code '' @ a_grave @
              '' 6 chiffres depuis une application comme Google Authenticator, Microsoft Authenticator ou 1Password.'')),
      (''appOn'', JStr (''Configur'' @ e_acute @ ''e'')),
      (''currentCode'', JStr ''Code actuel''),
      (''disableApp'', JStr (''Retirer l'' @ apos @ ''application'')),
      (''confirmDisable'', JStr ''Confirmer le retrait''),
      (''disableHint'', JStr (''Saisissez un code actuel de l'' @ apos @ ''application pour la retirer.'')),
      (''addKeyFirst'',
        JStr (''Ajoutez une cl'' @ e_acute @ '' de s'' @ e_acute @ ''curit'' @ e_acute @ '' avant de retirer l'' @
              apos @ ''application : un administrateur doit garder un second facteur.'')),
      (''setupApp'', JStr ''Configurer une application''),
      (''step1'', JStr (''Scannez ce QR code avec l'' @ apos @ ''application.'')),
      (''qrAlt'', JStr (''QR code pour ajouter EndoriumFort dans l'' @ apos @ ''application'')),
      (''manual'', JStr (''Impossible de scanner ? Saisissez le secret '' @ a_grave @ '' la main'')),
      (''copySecret'', JStr ''Copier le secret''),
      (''copyUri'', JStr ''Copier le lien''),
      (''step2'',
        JStr (''Saisissez le code '' @ a_grave @ '' 6 chiffres affich'' @ e_acute @ '' par l'' @ apos @
              ''application.'')),
      (''code'', JStr ''Code''),
      (''verify'', JStr (''V'' @ e_acute @ ''rifier et activer'')),
      (''keysTitle'', JStr (''Cl'' @ e_acute @ ''s de s'' @ e_acute @ ''curit'' @ e_acute)),
      (''keysText'',
        JStr (''Une cl'' @ e_acute @ '' physique (YubiKey'' @ hellip @ '') ou l'' @ apos @
              ''authentificateur int'' @ e_acute @ ''gr'' @ e_acute @ '' '' @ a_grave @ '' l'' @ apos @
              ''ordinateur (Windows Hello, Touch ID).'')),
      (''key'', JStr (''Cl'' @ e_acute @ '' de s'' @ e_acute @ ''curit'' @ e_acute)),
      (''added'', JStr (''ajout'' @ e_acute @ ''e {when}'')),
      (''used'', JStr (''utilis'' @ e_acute @ ''e {when}'')),
      (''remove'', JStr ''Retirer''),
      (''confirmRemove'', JStr ''Confirmer le retrait''),
      (''keepOne'',
        JStr (''Configurez l'' @ apos @ ''application avant de retirer votre derni'' @ e_grave @ ''re cl'' @
              e_acute @ '' : un administrateur doit garder un second facteur.'')),
      (''keyName'', JStr (''Nom de la cl'' @ e_acute)),
      (''keyNamePlaceholder'', JStr ''Nom, par ex. YubiKey bureau''),
      (''addKey'', JStr (''Ajouter une cl'' @ e_acute)),
      (''waitingKey'', JStr (''Touchez votre cl'' @ e_acute @ hellip)),
      (''unsupported'',
        JStr (''Ce navigateur ne peut pas utiliser de cl'' @ e_acute @ '' de s'' @ e_acute @ ''curit'' @ e_acute @
              ''.'')),
      (''prefTitle'',
        JStr (''M'' @ e_acute @ ''thode pr'' @ e_acute @ ''f'' @ e_acute @ ''r'' @ e_acute @ ''e '' @ a_grave @
              '' la connexion'')),
      (''prefText'', JStr ''Ce que la page de connexion propose en premier.''),
      (''prefAny'', JStr ''Au choix''),
      (''prefApp'', JStr ''Application''),
      (''prefKey'', JStr (''Cl'' @ e_acute))]"

lemma same_mfa: "same_texts texts_en_mfa texts_fr_mfa"
  unfolding texts_en_mfa_def texts_fr_mfa_def
  by (intro same_intros; simp add: walk_simps cong: holes_cong)

subsection \<open>settings\<close>

definition texts_en_settings :: json where
  "texts_en_settings = JObj [
      (''intro'',
        JStr ''Values saved here are stored on the server and take effect at once. They override the matching environment variable; clear one to fall back to it.''),
      (''configure'', JStr ''Configure''),
      (''close'', JStr ''Close''),
      (''unavailable'',
        JStr ''Integration configuration is unavailable: {reason}. It needs the settings.manage permission and a backend that serves /api/settings/integrations.''),
      (''save'', JStr ''Save''),
      (''saveCount'', JStr ''Save {count} change(s)''),
      (''discard'', JStr ''Discard''),
      (''saved'', JStr ''{count} setting(s) saved''),
      (''saveError'', JStr ''Could not save''),
      (''rejected'', JStr ''Some values were refused''),
      (''revert'', JStr ''Revert to environment''),
      (''fromStore'', JStr ''set here''),
      (''fromEnv'', JStr ''from environment''),
      (''shadowsEnv'', JStr ''overrides the environment''),
      (''secretSet'', JStr (''stored '' @ dash @ '' type to replace'')),
      (''secretUnset'', JStr ''not set''),
      (''unset'', JStr (dash @ '' not set '' @ dash)),
      (''on'', JStr ''On''),
      (''off'', JStr ''Off'')]"

definition texts_fr_settings :: json where
  "texts_fr_settings = JObj [
      (''intro'',
        JStr (''Les valeurs enregistr'' @ e_acute @ ''es ici sont stock'' @ e_acute @ ''es sur le serveur et s'' @
              apos @ ''appliquent imm'' @ e_acute @ ''diatement. Elles ont la priorit'' @ e_acute @
              '' sur la variable d'' @ apos @ ''environnement correspondante ; videz-en une pour y revenir.'')),
      (''configure'', JStr ''Configurer''),
      (''close'', JStr ''Fermer''),
      (''unavailable'',
        JStr (''La configuration des int'' @ e_acute @
              ''grations est indisponible : {reason}. Elle requiert la permission settings.manage et un backend qui expose /api/settings/integrations.'')),
      (''save'', JStr ''Enregistrer''),
      (''saveCount'', JStr ''Enregistrer {count} modification(s)''),
      (''discard'', JStr ''Annuler''),
      (''saved'', JStr (''{count} r'' @ e_acute @ ''glage(s) enregistr'' @ e_acute @ ''(s)'')),
      (''saveError'', JStr ''Enregistrement impossible''),
      (''rejected'', JStr (''Certaines valeurs ont '' @ e_acute @ ''t'' @ e_acute @ '' refus'' @ e_acute @ ''es'')),
      (''revert'', JStr (''Revenir '' @ a_grave @ '' l'' @ apos @ ''environnement'')),
      (''fromStore'', JStr (''d'' @ e_acute @ ''fini ici'')),
      (''fromEnv'', JStr (''depuis l'' @ apos @ ''environnement'')),
      (''shadowsEnv'', JStr (''remplace l'' @ apos @ ''environnement'')),
      (''secretSet'', JStr (''enregistr'' @ e_acute @ '' '' @ dash @ '' saisir pour remplacer'')),
      (''secretUnset'', JStr (''non d'' @ e_acute @ ''fini'')),
      (''unset'', JStr (dash @ '' non d'' @ e_acute @ ''fini '' @ dash)),
      (''on'', JStr (''Activ'' @ e_acute)),
      (''off'', JStr (''D'' @ e_acute @ ''sactiv'' @ e_acute))]"

lemma same_settings: "same_texts texts_en_settings texts_fr_settings"
  unfolding texts_en_settings_def texts_fr_settings_def
  by (intro same_intros; simp add: walk_simps cong: holes_cong)

subsection \<open>integrations\<close>

definition texts_en_integrations :: json where
  "texts_en_integrations = JObj [
      (''title'', JStr ''Integrations''),
      (''subtitle'',
        JStr ''Directory, single sign-on, provisioning, tickets, external logging and high availability.''),
      (''ldap'', JStr ''LDAP / Active Directory directory''),
      (''ldapText'', JStr ''Sign in with directory accounts.''),
      (''sso'', JStr ''Single sign-on (OIDC)''),
      (''ssoText'', JStr ''Sign in with the company identity provider.''),
      (''scim'', JStr ''SCIM provisioning''),
      (''scimText'', JStr ''Accounts created and removed by the identity provider.''),
      (''itsm'', JStr ''Ticket check (ITSM)''),
      (''itsmText'', JStr ''Checks the ticket quoted in an access request.''),
      (''siem'', JStr ''Forwarding to a SIEM''),
      (''siemText'', JStr ''Sends journal events to an external system.''),
      (''cluster'', JStr ''High-availability cluster''),
      (''clusterText'', JStr ''Several bastion nodes that take over from each other.''),
      (''server'', JStr ''Server''),
      (''base'', JStr ''Base''),
      (''providers'', JStr ''Providers''),
      (''default'', JStr ''Default''),
      (''usersGroups'', JStr ''Users / groups''),
      (''patch'', JStr ''Changes allowed''),
      (''tool'', JStr ''Tool''),
      (''check'', JStr ''Check''),
      (''channels'', JStr ''Channels''),
      (''ifDown'', JStr ''If unreachable''),
      (''thisNode'', JStr ''This node''),
      (''nodes'', JStr ''Nodes online''),
      (''enabled'', JStr ''Enabled''),
      (''notConfigured'', JStr ''Not configured''),
      (''noAccount'', JStr ''No account''),
      (''off'', JStr ''off''),
      (''yes'', JStr ''yes''),
      (''no'', JStr ''no''),
      (''providerCount'', JStr ''{count} provider(s)''),
      (''standalone'', JStr ''Single node''),
      (''nodeCount'', JStr ''{count} node(s)''),
      (''nodesDown'', JStr ''{count} node(s) down''),
      (''failOpen'', JStr ''let through''),
      (''failClosed'', JStr ''block''),
      (''test'', JStr ''Test''),
      (''runTest'', JStr ''Test the connection''),
      (''explore'', JStr ''Explore''),
      (''checkTicket'', JStr ''Check a ticket''),
      (''sendTest'', JStr ''Send a test''),
      (''manageNodes'', JStr ''Manage nodes''),
      (''details'', JStr ''Details''),
      (''failed'', JStr ''The test failed''),
      (''loadError'', JStr ''Could not load integrations.''),
      (''ldapTestHint'', JStr ''Signs in to the directory with this account, without opening a bastion session.''),
      (''ldapOk'', JStr ''The directory accepted the account''),
      (''ldapKo'', JStr ''The directory refused the account''),
      (''ldapRole'', JStr ''Role given on sign-in: {role}''),
      (''authMode'', JStr ''Mode''),
      (''defaultRole'', JStr ''Default role''),
      (''roleMapping'', JStr (''Group '' @ right_arrow @ '' role mapping'')),
      (''rules'', JStr ''{count} rule(s)''),
      (''ssoTestHint'',
        JStr (''Opens the provider'' @ apos @ ''s sign-in page. You come back here once signed in.'')),
      (''ssoGo'', JStr ''Sign in with this provider''),
      (''callback'', JStr ''Return address''),
      (''filter'', JStr ''SCIM filter''),
      (''search'', JStr ''Search''),
      (''groups'', JStr ''Groups''),
      (''noScimUser'', JStr ''No SCIM account matches.''),
      (''scimError'', JStr ''Could not query SCIM.''),
      (''deactivate'', JStr ''Deactivate''),
      (''confirmDeactivate'', JStr ''Confirm deactivation''),
      (''reactivate'', JStr ''Reactivate''),
      (''itsmHint'',
        JStr ''The ticket is looked up in the tool. When a session is opened with a ticket, the bastion checks it the same way and refuses unknown or closed tickets.''),
      (''ticketOpenInTool'', JStr ''ticket open in the tool''),
      (''urlMissing'', JStr ''Address missing''),
      (''ticketOpen'', JStr ''Ticket open {state}''),
      (''ticketClosed'', JStr ''Ticket closed {state}''),
      (''ticketUnknown'', JStr ''Unknown ticket''),
      (''itsmUnreachable'', JStr ''The tool could not be reached''),
      (''sentFailed'', JStr ''Sent / failed''),
      (''sendErrors'', JStr ''Send errors''),
      (''streaming'', JStr ''Sending''),
      (''channelStats'', JStr ''{sent} sent, {failed} failed''),
      (''channelRetried'', JStr ''{count} retried''),
      (''queue'', JStr ''Queue''),
      (''queueStats'', JStr ''{queued} waiting, {dropped} dropped''),
      (''destination'', JStr ''Destination''),
      (''heartbeat'', JStr ''Heartbeat''),
      (''heartbeatEvery'', JStr ''every {seconds}s, last at {at}''),
      (''heartbeatNever'', JStr ''every {seconds}s, none sent yet''),
      (''heartbeatOff'', JStr ''disabled''),
      (''notSupported'', JStr ''not supported yet''),
      (''itsmOk'', JStr ''Well-formed number''),
      (''itsmKo'', JStr ''Not a ticket number''),
      (''itsmOff'', JStr ''This tool is not enabled on the server''),
      (''itsmDecision'', JStr ''Access would be {decision}.''),
      (''allowed'', JStr ''allowed''),
      (''refused'', JStr ''refused''),
      (''siemHint'',
        JStr ''Every journal event is sent as it happens, over syslog (RFC 5424, UDP/TCP/TLS), a JSON webhook or Splunk HEC. A failed send is retried before the event is dropped. The test below sends one event now.''),
      (''siemOk'', JStr ''Event received by the SIEM''),
      (''siemKo'', JStr ''Not sent: the SIEM refused or could not be reached''),
      (''siemOff'', JStr ''Not sent: this channel is not enabled or has no address''),
      (''node'', JStr ''Node''),
      (''confirmRemoveNode'', JStr ''Confirm removal''),
      (''nodeRemoved'', JStr ''{node} removed from the cluster.''),
      (''removeNodeHint'',
        JStr ''Removing a node only forgets it here; a node still running will reappear with its next heartbeat.''),
      (''configHint'',
        JStr ''These integrations are configured on the server (environment variables); this page shows their state and lets you test them.'')]"

definition texts_fr_integrations :: json where
  "texts_fr_integrations = JObj [
      (''title'', JStr (''Int'' @ e_acute @ ''grations'')),
      (''subtitle'',
        JStr (''Annuaire, authentification unique, provisionnement, tickets, journalisation externe et haute disponibilit'' @
              e_acute @ ''.'')),
      (''ldap'', JStr ''Annuaire LDAP / Active Directory''),
      (''ldapText'', JStr (''Connexion avec les comptes de l'' @ apos @ ''annuaire.'')),
      (''sso'', JStr ''Authentification unique (OIDC)''),
      (''ssoText'',
        JStr (''Connexion avec le fournisseur d'' @ apos @ ''identit'' @ e_acute @ '' de l'' @ apos @
              ''entreprise.'')),
      (''scim'', JStr ''Provisionnement SCIM''),
      (''scimText'',
        JStr (''Comptes cr'' @ e_acute @ e_acute @ ''s et supprim'' @ e_acute @ ''s par le fournisseur d'' @
              apos @ ''identit'' @ e_acute @ ''.'')),
      (''itsm'', JStr (''V'' @ e_acute @ ''rification des tickets (ITSM)'')),
      (''itsmText'',
        JStr (''Contr'' @ o_circ @ ''le le ticket cit'' @ e_acute @ '' dans une demande d'' @ apos @ ''acc'' @
              e_grave @ ''s.'')),
      (''siem'', JStr ''Envoi au SIEM''),
      (''siemText'',
        JStr (''Transmet les '' @ e_acute @ ''v'' @ e_acute @ ''nements du journal '' @ a_grave @
              '' un outil externe.'')),
      (''cluster'', JStr (''Cluster haute disponibilit'' @ e_acute)),
      (''clusterText'', JStr (''Plusieurs n'' @ oe_lig @ ''uds de bastion qui se relaient.'')),
      (''server'', JStr ''Serveur''),
      (''base'', JStr ''Base''),
      (''providers'', JStr ''Fournisseurs''),
      (''default'', JStr (''Par d'' @ e_acute @ ''faut'')),
      (''usersGroups'', JStr ''Utilisateurs / groupes''),
      (''patch'', JStr ''Modifications''),
      (''tool'', JStr ''Outil''),
      (''check'', JStr (''V'' @ e_acute @ ''rifier'')),
      (''channels'', JStr ''Canaux''),
      (''ifDown'', JStr ''Si injoignable''),
      (''thisNode'', JStr (''Ce n'' @ oe_lig @ ''ud'')),
      (''nodes'', JStr (''N'' @ oe_lig @ ''uds en ligne'')),
      (''enabled'', JStr (''Activ'' @ e_acute)),
      (''notConfigured'', JStr (''Non configur'' @ e_acute)),
      (''noAccount'', JStr ''Aucun compte''),
      (''off'', JStr (''d'' @ e_acute @ ''sactiv'' @ e_acute)),
      (''yes'', JStr ''oui''),
      (''no'', JStr ''non''),
      (''providerCount'', JStr ''{count} fournisseur(s)''),
      (''standalone'', JStr (''N'' @ oe_lig @ ''ud unique'')),
      (''nodeCount'', JStr (''{count} n'' @ oe_lig @ ''ud(s)'')),
      (''nodesDown'', JStr (''{count} n'' @ oe_lig @ ''ud(s) hors ligne'')),
      (''failOpen'', JStr ''laisser passer''),
      (''failClosed'', JStr ''bloquer''),
      (''test'', JStr ''Tester''),
      (''runTest'', JStr ''Tester la connexion''),
      (''explore'', JStr ''Explorer''),
      (''checkTicket'', JStr (''V'' @ e_acute @ ''rifier un ticket'')),
      (''sendTest'', JStr ''Envoyer un test''),
      (''manageNodes'', JStr (''G'' @ e_acute @ ''rer les n'' @ oe_lig @ ''uds'')),
      (''details'', JStr (''D'' @ e_acute @ ''tails'')),
      (''failed'', JStr (''Le test a '' @ e_acute @ ''chou'' @ e_acute)),
      (''loadError'', JStr (''Impossible de charger les int'' @ e_acute @ ''grations.'')),
      (''ldapTestHint'',
        JStr (''Se connecte '' @ a_grave @ '' l'' @ apos @
              ''annuaire avec ce compte, sans ouvrir de session sur le bastion.'')),
      (''ldapOk'', JStr (''L'' @ apos @ ''annuaire a accept'' @ e_acute @ '' le compte'')),
      (''ldapKo'', JStr (''L'' @ apos @ ''annuaire a refus'' @ e_acute @ '' le compte'')),
      (''ldapRole'', JStr (''R'' @ o_circ @ ''le attribu'' @ e_acute @ '' '' @ a_grave @ '' la connexion : {role}'')),
      (''authMode'', JStr ''Mode''),
      (''defaultRole'', JStr (''R'' @ o_circ @ ''le par d'' @ e_acute @ ''faut'')),
      (''roleMapping'', JStr (''Groupe '' @ right_arrow @ '' r'' @ o_circ @ ''le'')),
      (''rules'', JStr (''{count} r'' @ e_grave @ ''gle(s)'')),
      (''ssoTestHint'',
        JStr (''Ouvre la page de connexion du fournisseur. Vous revenez ici une fois connect'' @ e_acute @ ''.'')),
      (''ssoGo'', JStr ''Se connecter avec ce fournisseur''),
      (''callback'', JStr ''Adresse de retour''),
      (''filter'', JStr ''Filtre SCIM''),
      (''search'', JStr ''Rechercher''),
      (''groups'', JStr ''Groupes''),
      (''noScimUser'', JStr ''Aucun compte SCIM ne correspond.''),
      (''scimError'', JStr (''Impossible d'' @ apos @ ''interroger SCIM.'')),
      (''deactivate'', JStr (''D'' @ e_acute @ ''sactiver'')),
      (''confirmDeactivate'', JStr (''Confirmer la d'' @ e_acute @ ''sactivation'')),
      (''reactivate'', JStr (''R'' @ e_acute @ ''activer'')),
      (''itsmHint'',
        JStr (''Le ticket est recherch'' @ e_acute @ '' dans l'' @ apos @ ''outil. '' @ A_grave @ '' l'' @ apos @
              ''ouverture d'' @ apos @ ''une session avec un ticket, le bastion le v'' @ e_acute @
              ''rifie de la m'' @ e_circ @ ''me fa'' @ c_cedil @ ''on et refuse les tickets inconnus ou ferm'' @
              e_acute @ ''s.'')),
      (''ticketOpenInTool'', JStr (''ticket ouvert dans l'' @ apos @ ''outil'')),
      (''urlMissing'', JStr ''Adresse manquante''),
      (''ticketOpen'', JStr ''Ticket ouvert {state}''),
      (''ticketClosed'', JStr (''Ticket ferm'' @ e_acute @ '' {state}'')),
      (''ticketUnknown'', JStr ''Ticket inconnu''),
      (''itsmUnreachable'', JStr (''L'' @ apos @ ''outil n'' @ apos @ ''a pas pu '' @ e_circ @ ''tre joint'')),
      (''sentFailed'', JStr (''Envoy'' @ e_acute @ ''s / en '' @ e_acute @ ''chec'')),
      (''sendErrors'', JStr (''Erreurs d'' @ apos @ ''envoi'')),
      (''streaming'', JStr ''Envoi en cours''),
      (''channelStats'', JStr (''{sent} envoy'' @ e_acute @ ''s, {failed} en '' @ e_acute @ ''chec'')),
      (''channelRetried'', JStr (''{count} r'' @ e_acute @ ''essais'')),
      (''queue'', JStr (''File d'' @ apos @ ''attente'')),
      (''queueStats'', JStr ''{queued} en attente, {dropped} perdus''),
      (''destination'', JStr ''Destination''),
      (''heartbeat'', JStr ''Battement''),
      (''heartbeatEvery'', JStr (''toutes les {seconds}s, dernier '' @ a_grave @ '' {at}'')),
      (''heartbeatNever'',
        JStr (''toutes les {seconds}s, aucun envoy'' @ e_acute @ '' pour l'' @ apos @ ''instant'')),
      (''heartbeatOff'', JStr (''d'' @ e_acute @ ''sactiv'' @ e_acute)),
      (''notSupported'', JStr ''pas encore pris en charge''),
      (''itsmOk'', JStr (''Num'' @ e_acute @ ''ro bien form'' @ e_acute)),
      (''itsmKo'', JStr (''Ce n'' @ apos @ ''est pas un num'' @ e_acute @ ''ro de ticket'')),
      (''itsmOff'', JStr (''Cet outil n'' @ apos @ ''est pas activ'' @ e_acute @ '' sur le serveur'')),
      (''itsmDecision'', JStr (''L'' @ apos @ ''acc'' @ e_grave @ ''s serait {decision}.'')),
      (''allowed'', JStr (''autoris'' @ e_acute)),
      (''refused'', JStr (''refus'' @ e_acute)),
      (''siemHint'',
        JStr (''Chaque '' @ e_acute @ ''v'' @ e_acute @ ''nement du journal est envoy'' @ e_acute @
              '' au fil de l'' @ apos @
              ''eau, en syslog (RFC 5424, UDP/TCP/TLS), par webhook JSON ou vers Splunk HEC. Un envoi en '' @
              e_acute @ ''chec est r'' @ e_acute @ ''essay'' @ e_acute @ '' avant que l'' @ apos @ e_acute @
              ''v'' @ e_acute @ ''nement ne soit abandonn'' @ e_acute @
              ''. Le test ci-dessous en envoie un tout de suite.'')),
      (''siemOk'', JStr (E_acute @ ''v'' @ e_acute @ ''nement re'' @ c_cedil @ ''u par le SIEM'')),
      (''siemKo'',
        JStr (''Non envoy'' @ e_acute @ '' : le SIEM a refus'' @ e_acute @ '' ou n'' @ apos @ ''a pas pu '' @
              e_circ @ ''tre joint'')),
      (''siemOff'',
        JStr (''Non envoy'' @ e_acute @ '' : ce canal n'' @ apos @ ''est pas activ'' @ e_acute @ '' ou n'' @
              apos @ ''a pas d'' @ apos @ ''adresse'')),
      (''node'', JStr (''N'' @ oe_lig @ ''ud'')),
      (''confirmRemoveNode'', JStr ''Confirmer le retrait''),
      (''nodeRemoved'', JStr (''{node} retir'' @ e_acute @ '' du cluster.'')),
      (''removeNodeHint'',
        JStr (''Retirer un n'' @ oe_lig @ ''ud l'' @ apos @ ''oublie seulement ici ; s'' @ apos @
              ''il tourne encore, il r'' @ e_acute @ ''appara'' @ i_circ @ ''tra '' @ a_grave @
              '' son prochain signal.'')),
      (''configHint'',
        JStr (''Ces int'' @ e_acute @ ''grations se configurent sur le serveur (variables d'' @ apos @
              ''environnement) ; cette page montre leur '' @ e_acute @ ''tat et permet de les tester.''))]"

lemma same_integrations: "same_texts texts_en_integrations texts_fr_integrations"
  unfolding texts_en_integrations_def texts_fr_integrations_def
  by (intro same_intros; simp add: walk_simps cong: holes_cong)

subsection \<open>k8s\<close>

definition texts_en_k8s :: json where
  "texts_en_k8s = JObj [
      (''title'', JStr ''Kubernetes''),
      (''subtitle'', JStr ''Open a shell in a pod. Each shell is a recorded session that appears in the journal.''),
      (''addCluster'', JStr ''Add a cluster''),
      (''clusters'', JStr ''Clusters''),
      (''namespace'', JStr ''namespace''),
      (''noKubeconfig'', JStr ''kubeconfig missing''),
      (''editCluster'', JStr ''Edit the cluster''),
      (''noCluster'', JStr ''No Kubernetes cluster yet. Add a resource of type Kubernetes with its kubeconfig.''),
      (''needKubeconfig'',
        JStr ''This cluster has no kubeconfig yet: add it on the resource page, then come back here.''),
      (''listPods'', JStr ''List pods''),
      (''refreshPods'', JStr ''Refresh pods''),
      (''filterPods'', JStr ''Filter pods''),
      (''phase'', JStr ''State''),
      (''containers'', JStr ''Containers''),
      (''noPod'', JStr ''No pod.''),
      (''container'', JStr ''Container''),
      (''defaultContainer'', JStr ''Default container''),
      (''reasonPlaceholder'', JStr ''Why you need this shell (required during containment)''),
      (''recorded'', JStr ''The shell is recorded and its commands are kept in the journal.''),
      (''openShell'', JStr ''Open a shell in {pod}''),
      (''close'', JStr ''Close the shell''),
      (''sessionNote'', JStr ''Recorded session #{id}''),
      (''state'',
        JObj [
          (''connecting'', JStr (''Connecting'' @ hellip)),
          (''live'', JStr ''Connected''),
          (''closed'', JStr ''Closed'')]),
      (''loadError'', JStr ''Could not load clusters.''),
      (''podsError'', JStr ''Could not list pods.''),
      (''shellError'', JStr ''Could not open the shell.''),
      (''socketError'', JStr ''Connection to the shell lost.'')]"

definition texts_fr_k8s :: json where
  "texts_fr_k8s = JObj [
      (''title'', JStr ''Kubernetes''),
      (''subtitle'',
        JStr (''Ouvrez un shell dans un pod. Chaque shell est une session enregistr'' @ e_acute @
              ''e qui appara'' @ i_circ @ ''t dans le journal.'')),
      (''addCluster'', JStr ''Ajouter un cluster''),
      (''clusters'', JStr ''Clusters''),
      (''namespace'', JStr ''namespace''),
      (''noKubeconfig'', JStr ''kubeconfig manquant''),
      (''editCluster'', JStr ''Modifier le cluster''),
      (''noCluster'',
        JStr (''Aucun cluster Kubernetes pour l'' @ apos @
              ''instant. Ajoutez une ressource de type Kubernetes avec son kubeconfig.'')),
      (''needKubeconfig'',
        JStr (''Ce cluster n'' @ apos @
              ''a pas encore de kubeconfig : ajoutez-le dans la fiche de la ressource, puis revenez ici.'')),
      (''listPods'', JStr ''Lister les pods''),
      (''refreshPods'', JStr ''Actualiser les pods''),
      (''filterPods'', JStr ''Filtrer les pods''),
      (''phase'', JStr (E_acute @ ''tat'')),
      (''containers'', JStr ''Conteneurs''),
      (''noPod'', JStr ''Aucun pod.''),
      (''container'', JStr ''Conteneur''),
      (''defaultContainer'', JStr (''Conteneur par d'' @ e_acute @ ''faut'')),
      (''reasonPlaceholder'', JStr ''Pourquoi ce shell (obligatoire pendant un confinement)''),
      (''recorded'',
        JStr (''Le shell est enregistr'' @ e_acute @ '' et ses commandes sont conserv'' @ e_acute @
              ''es dans le journal.'')),
      (''openShell'', JStr ''Ouvrir un shell dans {pod}''),
      (''close'', JStr ''Fermer le shell''),
      (''sessionNote'', JStr (''Session enregistr'' @ e_acute @ ''e #{id}'')),
      (''state'',
        JObj [
          (''connecting'', JStr (''Connexion'' @ hellip)),
          (''live'', JStr (''Connect'' @ e_acute)),
          (''closed'', JStr (''Ferm'' @ e_acute))]),
      (''loadError'', JStr ''Impossible de charger les clusters.''),
      (''podsError'', JStr ''Impossible de lister les pods.''),
      (''shellError'', JStr (''Impossible d'' @ apos @ ''ouvrir le shell.'')),
      (''socketError'', JStr ''Connexion au shell perdue.'')]"

lemma same_k8s: "same_texts texts_en_k8s texts_fr_k8s"
  unfolding texts_en_k8s_def texts_fr_k8s_def
  by (intro same_intros; simp add: walk_simps cong: holes_cong)

end
