(* ===== verification/TextsDialogs.thy ===== *)
theory TextsDialogs
  imports I18n
begin

section \<open>Texts of the interface (i18n.jsx): license, account, dlg, live, agentDlg, viewer, start, appearance, about, sess, map, nav\<close>

text \<open>
  The sections of the dictionary in the order of the source, English and French, with what compares
  them: the same keys and the same placeholders.
\<close>

subsection \<open>license\<close>

definition texts_en_license :: json where
  "texts_en_license = JObj [
      (''title'', JStr ''License''),
      (''subtitle'', JStr ''The license is checked offline, without any connection to the internet.''),
      (''expiresIn'', JStr ''The license expires in {days} day(s), on {date}.''),
      (''expired'', JStr ''The license has expired: premium modules are locked.''),
      (''revoked'', JStr ''The license was revoked: premium modules are locked.''),
      (''none'', JStr ''No license loaded: Community features only.''),
      (''editionBuild'', JStr ''{edition} build''),
      (''customer'', JStr ''Customer''),
      (''id'', JStr ''License ID''),
      (''kind'', JStr ''Type''),
      (''validUntil'', JStr ''Valid until''),
      (''daysLeft'', JStr ''{days} day(s) left''),
      (''nodes'', JStr ''Bastion nodes''),
      (''upTo'', JStr ''up to {count}''),
      (''unlimited'', JStr ''unlimited''),
      (''seats'', JStr ''Users''),
      (''seatsUsed'', JStr ''{used} of {max}''),
      (''seatsUnlimited'', JStr ''{used}, no limit''),
      (''overSeats'', JStr ''over the limit''),
      (''modules'', JStr ''Included modules''),
      (''extraFeatures'', JStr ''Extra features: {list}.''),
      (''import'', JStr ''Import a license''),
      (''dropHere'', JStr ''Drop the license file here, or''),
      (''chooseFile'', JStr ''Choose a file''),
      (''pasteInstead'', JStr ''Or paste its content''),
      (''ready'', JStr ''License ready to apply ({size} characters).''),
      (''apply'', JStr ''Apply the license''),
      (''reload'', JStr ''Reload from disk''),
      (''importHint'',
        JStr ''The new license replaces the current one as soon as its signature is verified. The change is recorded in the journal.''),
      (''tiers'',
        JObj [
          (''free'', JStr ''Community''),
          (''pro'', JStr ''Pro''),
          (''enterprise'', JStr ''Enterprise'')]),
      (''states'',
        JObj [
          (''valid'', JStr ''Valid''),
          (''expired'', JStr ''Expired''),
          (''revoked'', JStr ''Revoked''),
          (''none'', JStr ''None''),
          (''invalid'', JStr ''Invalid'')]),
      (''mods'',
        JObj [
          (''recording'', JStr ''Session recording and replay''),
          (''jit'', JStr ''JIT access, requests and approvals''),
          (''relays'', JStr ''Relays and agents''),
          (''k8s'', JStr ''Kubernetes shells''),
          (''appearance'', JStr ''Appearance: tab and login page''),
          (''evidence'', JStr ''Signed evidence and Session DNA''),
          (''vault'', JStr ''Vault: rotation and temporary accounts''),
          (''integrations'', JStr ''LDAP, OIDC, SCIM, ITSM, SIEM''),
          (''itdr'', JStr ''Threat detection (ITDR)''),
          (''securityCenter'', JStr ''Security center and containment''),
          (''cluster'', JStr ''High-availability cluster'')])]"

definition texts_fr_license :: json where
  "texts_fr_license = JObj [
      (''title'', JStr ''Licence''),
      (''subtitle'',
        JStr (''La licence est v'' @ e_acute @ ''rifi'' @ e_acute @ ''e hors ligne, sans connexion '' @ a_grave @
              '' internet.'')),
      (''expiresIn'', JStr ''La licence expire dans {days} jour(s), le {date}.''),
      (''expired'',
        JStr (''La licence a expir'' @ e_acute @ '' : les modules premium sont verrouill'' @ e_acute @ ''s.'')),
      (''revoked'',
        JStr (''La licence a '' @ e_acute @ ''t'' @ e_acute @ '' r'' @ e_acute @ ''voqu'' @ e_acute @
              ''e : les modules premium sont verrouill'' @ e_acute @ ''s.'')),
      (''none'', JStr (''Aucune licence charg'' @ e_acute @ ''e : fonctions Community uniquement.'')),
      (''editionBuild'', JStr (E_acute @ ''dition {edition}'')),
      (''customer'', JStr ''Client''),
      (''id'', JStr ''Identifiant''),
      (''kind'', JStr ''Type''),
      (''validUntil'', JStr (''Valable jusqu'' @ apos @ ''au'')),
      (''daysLeft'', JStr ''encore {days} jour(s)''),
      (''nodes'', JStr (''N'' @ oe_lig @ ''uds de bastion'')),
      (''upTo'', JStr (''jusqu'' @ apos @ a_grave @ '' {count}'')),
      (''unlimited'', JStr (''illimit'' @ e_acute)),
      (''seats'', JStr ''Utilisateurs''),
      (''seatsUsed'', JStr ''{used} sur {max}''),
      (''seatsUnlimited'', JStr ''{used}, sans limite''),
      (''overSeats'', JStr (''au-del'' @ a_grave @ '' de la limite'')),
      (''modules'', JStr ''Modules inclus''),
      (''extraFeatures'', JStr (''Fonctions suppl'' @ e_acute @ ''mentaires : {list}.'')),
      (''import'', JStr ''Importer une licence''),
      (''dropHere'', JStr (''D'' @ e_acute @ ''posez le fichier de licence ici, ou'')),
      (''chooseFile'', JStr ''Choisir un fichier''),
      (''pasteInstead'', JStr ''Ou collez son contenu''),
      (''ready'',
        JStr (''Licence pr'' @ e_circ @ ''te '' @ a_grave @ '' appliquer ({size} caract'' @ e_grave @ ''res).'')),
      (''apply'', JStr ''Appliquer la licence''),
      (''reload'', JStr ''Recharger depuis le disque''),
      (''importHint'',
        JStr (''La nouvelle licence remplace l'' @ apos @ ''actuelle d'' @ e_grave @
              ''s que sa signature est v'' @ e_acute @ ''rifi'' @ e_acute @ ''e. L'' @ apos @ ''op'' @ e_acute @
              ''ration est inscrite au journal.'')),
      (''tiers'',
        JObj [
          (''free'', JStr ''Community''),
          (''pro'', JStr ''Pro''),
          (''enterprise'', JStr ''Enterprise'')]),
      (''states'',
        JObj [
          (''valid'', JStr ''Valide''),
          (''expired'', JStr (''Expir'' @ e_acute @ ''e'')),
          (''revoked'', JStr (''R'' @ e_acute @ ''voqu'' @ e_acute @ ''e'')),
          (''none'', JStr ''Aucune''),
          (''invalid'', JStr ''Invalide'')]),
      (''mods'',
        JObj [
          (''recording'', JStr ''Enregistrement et rejeu des sessions''),
          (''jit'', JStr (''Acc'' @ e_grave @ ''s JIT, demandes et approbations'')),
          (''relays'', JStr ''Relais et agents''),
          (''k8s'', JStr ''Shells Kubernetes''),
          (''appearance'', JStr ''Apparence : onglet et page de connexion''),
          (''evidence'', JStr (''Preuves sign'' @ e_acute @ ''es et Session DNA'')),
          (''vault'', JStr ''Coffre-fort : rotation et comptes temporaires''),
          (''integrations'', JStr ''LDAP, OIDC, SCIM, ITSM, SIEM''),
          (''itdr'', JStr (''D'' @ e_acute @ ''tection des menaces (ITDR)'')),
          (''securityCenter'', JStr (''Centre de s'' @ e_acute @ ''curit'' @ e_acute @ '' et confinement'')),
          (''cluster'', JStr (''Cluster haute disponibilit'' @ e_acute))])]"

lemma same_license: "same_texts texts_en_license texts_fr_license"
  unfolding texts_en_license_def texts_fr_license_def
  by (intro same_intros; simp add: walk_simps cong: holes_cong)

subsection \<open>account\<close>

definition texts_en_account :: json where
  "texts_en_account = JObj [
      (''title'', JStr ''My account''),
      (''signedIn'', JStr ''signed in {when}''),
      (''from'', JStr ''from {ip}''),
      (''preferences'', JStr ''Preferences''),
      (''mapView'', JStr ''Default map view''),
      (''theme'', JStr ''Theme''),
      (''light'', JStr ''Light''),
      (''dark'', JStr ''Dark''),
      (''alerts'', JStr ''On-screen alerts''),
      (''alertsFew'', JStr ''Fewer''),
      (''alertsNormal'', JStr ''Normal''),
      (''alertsMany'', JStr ''More''),
      (''alertsHint'', JStr ''How many security alerts can pop up at once, and how often they repeat.''),
      (''prefsHint'', JStr ''Preferences are kept in this browser.''),
      (''password'', JStr ''Password''),
      (''mismatch'', JStr ''The two passwords differ.''),
      (''update'', JStr ''Update''),
      (''passwordHint'', JStr ''Other sessions stay signed in.'')]"

definition texts_fr_account :: json where
  "texts_fr_account = JObj [
      (''title'', JStr ''Mon compte''),
      (''signedIn'', JStr (''connect'' @ e_acute @ '' {when}'')),
      (''from'', JStr ''depuis {ip}''),
      (''preferences'', JStr (''Pr'' @ e_acute @ ''f'' @ e_acute @ ''rences'')),
      (''mapView'', JStr (''Vue par d'' @ e_acute @ ''faut de la carte'')),
      (''theme'', JStr (''Th'' @ e_grave @ ''me'')),
      (''light'', JStr ''Clair''),
      (''dark'', JStr ''Sombre''),
      (''alerts'', JStr (''Alertes '' @ a_grave @ '' l'' @ apos @ e_acute @ ''cran'')),
      (''alertsFew'', JStr ''Moins''),
      (''alertsNormal'', JStr ''Normal''),
      (''alertsMany'', JStr ''Plus''),
      (''alertsHint'',
        JStr (''Nombre d'' @ apos @ ''alertes de s'' @ e_acute @ ''curit'' @ e_acute @ '' affich'' @ e_acute @
              ''es en m'' @ e_circ @ ''me temps, et fr'' @ e_acute @ ''quence de r'' @ e_acute @ ''p'' @ e_acute @
              ''tition.'')),
      (''prefsHint'',
        JStr (''Les pr'' @ e_acute @ ''f'' @ e_acute @ ''rences sont conserv'' @ e_acute @
              ''es dans ce navigateur.'')),
      (''password'', JStr ''Mot de passe''),
      (''mismatch'', JStr (''Les deux mots de passe sont diff'' @ e_acute @ ''rents.'')),
      (''update'', JStr (''Mettre '' @ a_grave @ '' jour'')),
      (''passwordHint'', JStr ''Les autres connexions restent ouvertes.'')]"

lemma same_account: "same_texts texts_en_account texts_fr_account"
  unfolding texts_en_account_def texts_fr_account_def
  by (intro same_intros; simp add: walk_simps cong: holes_cong)

subsection \<open>dlg\<close>

definition texts_en_dlg :: json where
  "texts_en_dlg = JObj [
      (''first'',
        JObj [
          (''kicker'', JStr (''First sign-in '' @ mid_dot @ '' {user}'')),
          (''title'', JStr ''Secure your account''),
          (''intro'', JStr ''Replace the password you were given with one only you know.''),
          (''introMfa'',
            JStr ''Before using the bastion, replace the initial password and add a second factor to this account.''),
          (''stepPassword'', JStr ''Choose your password''),
          (''stepMfa'', JStr ''Add a second factor''),
          (''done'', JStr ''Done''),
          (''now'', JStr ''Now''),
          (''later'', JStr ''Next''),
          (''current'', JStr ''Current password''),
          (''currentHint'', JStr ''The one you received with the account.''),
          (''newPassword'', JStr ''New password''),
          (''rule'', JStr ''At least 8 characters with an uppercase letter, a lowercase letter and a digit.''),
          (''confirm'', JStr ''Confirm the new password''),
          (''savePassword'', JStr ''Save the password''),
          (''appTitle'', JStr ''Authenticator app''),
          (''appText'',
            JStr (''A 6-digit code from Google Authenticator, Microsoft Authenticator, 1Password'' @ hellip)),
          (''keyTitle'', JStr ''Security key''),
          (''keyText'',
            JStr (''A physical key (YubiKey'' @ hellip @ '') or the computer'' @ apos @
                  ''s authenticator (Windows Hello, Touch ID).'')),
          (''keyBusy'', JStr (''Waiting for the key'' @ hellip)),
          (''keyUnsupported'', JStr ''Needs a compatible browser over HTTPS or localhost.''),
          (''keyName'', JStr ''Key of {user}''),
          (''logout'', JStr ''Sign out'')]),
      (''access'',
        JObj [
          (''kicker'', JStr (''Connection '' @ mid_dot @ '' {protocol}'')),
          (''kickerRequest'', JStr (''Access request '' @ mid_dot @ '' {protocol}'')),
          (''title'', JStr ''Connect to {name}''),
          (''titleRequest'', JStr ''Request access to {name}''),
          (''intro'',
            JStr ''This resource asks for a few details before the session opens. They are recorded in the journal.''),
          (''introRequest'',
            JStr ''An administrator must approve this access. Your request and its reason are recorded in the journal.''),
          (''risk'', JStr ''Risk {level}''),
          (''containment'', JStr ''Containment is active: every new session needs a reason.''),
          (''containmentWhy'', JStr ''Reason: {reason}.''),
          (''policyTitle'', JStr ''Access rules for you''),
          (''policyLoading'', JStr (''Checking the rules'' @ hellip)),
          (''score'', JStr ''Risk score {score} ({level})''),
          (''nothingMore'', JStr ''nothing more to provide''),
          (''needReason'', JStr ''reason required''),
          (''needTicket'', JStr ''ticket required''),
          (''needPurpose'', JStr ''purpose required''),
          (''needApproval'', JStr ''approval required''),
          (''needMfa'', JStr ''MFA: {value}''),
          (''needRelay'', JStr ''through a relay''),
          (''maxDuration'', JStr ''{minutes} min max''),
          (''factors'', JStr ''Calculation details''),
          (''required'', JStr ''required''),
          (''optional'', JStr ''optional''),
          (''reason'', JStr ''Reason''),
          (''reasonPlaceholder'', JStr ''Why do you need this access?''),
          (''ticket'', JStr ''Ticket''),
          (''purpose'', JStr ''Session purpose''),
          (''purposePlaceholder'', JStr (''Maintenance, incident response, onboarding'' @ hellip)),
          (''purposeHint'', JStr ''High-risk resources require a purpose.''),
          (''evidence'', JStr ''Purpose evidence''),
          (''evidencePlaceholder'', JStr ''Change request, procedure, ticket notes''),
          (''connect'', JStr ''Connect''),
          (''sendRequest'', JStr ''Send the request''),
          (''memoSave'', JStr ''Remember these answers for this resource''),
          (''memoSaved'', JStr ''Answers remembered on {when}.''),
          (''memoApply'', JStr ''Reuse''),
          (''memoUpdate'', JStr ''Replace with these''),
          (''memoForget'', JStr ''Forget''),
          (''approved'', JStr ''Your request #{id} was approved: complete the details below to open the session.'')]),
      (''upsell'',
        JObj [
          (''title'', JStr ''Not included in your edition''),
          (''thisFeature'', JStr ''This feature''),
          (''body'', JStr ''{feature} is part of the {tier} edition.''),
          (''community'', JStr ''This Community version does not contain it.''),
          (''admin'', JStr ''Load a license that includes it to use it.''),
          (''askAdmin'', JStr ''Ask an administrator to load a license that includes it.''),
          (''openLicense'', JStr ''Open the license'')])]"

definition texts_fr_dlg :: json where
  "texts_fr_dlg = JObj [
      (''first'',
        JObj [
          (''kicker'', JStr (''Premi'' @ e_grave @ ''re connexion '' @ mid_dot @ '' {user}'')),
          (''title'', JStr (''S'' @ e_acute @ ''curisez votre compte'')),
          (''intro'',
            JStr (''Remplacez le mot de passe qui vous a '' @ e_acute @ ''t'' @ e_acute @
                  '' remis par un mot de passe connu de vous seul.'')),
          (''introMfa'',
            JStr (''Avant d'' @ apos @
                  ''utiliser le bastion, remplacez le mot de passe initial et ajoutez un second facteur '' @
                  a_grave @ '' ce compte.'')),
          (''stepPassword'', JStr ''Choisir votre mot de passe''),
          (''stepMfa'', JStr ''Ajouter un second facteur''),
          (''done'', JStr ''Fait''),
          (''now'', JStr ''Maintenant''),
          (''later'', JStr ''Ensuite''),
          (''current'', JStr ''Mot de passe actuel''),
          (''currentHint'', JStr (''Celui re'' @ c_cedil @ ''u avec le compte.'')),
          (''newPassword'', JStr ''Nouveau mot de passe''),
          (''rule'',
            JStr (''Au moins 8 caract'' @ e_grave @ ''res, avec une majuscule, une minuscule et un chiffre.'')),
          (''confirm'', JStr ''Confirmer le nouveau mot de passe''),
          (''savePassword'', JStr ''Enregistrer le mot de passe''),
          (''appTitle'', JStr (''Application d'' @ apos @ ''authentification'')),
          (''appText'',
            JStr (''Un code '' @ a_grave @
                  '' 6 chiffres de Google Authenticator, Microsoft Authenticator, 1Password'' @ hellip)),
          (''keyTitle'', JStr (''Cl'' @ e_acute @ '' de s'' @ e_acute @ ''curit'' @ e_acute)),
          (''keyText'',
            JStr (''Une cl'' @ e_acute @ '' physique (YubiKey'' @ hellip @ '') ou l'' @ apos @
                  ''authentificateur de l'' @ apos @ ''ordinateur (Windows Hello, Touch ID).'')),
          (''keyBusy'', JStr (''En attente de la cl'' @ e_acute @ hellip)),
          (''keyUnsupported'',
            JStr (''N'' @ e_acute @ ''cessite un navigateur compatible en HTTPS ou sur localhost.'')),
          (''keyName'', JStr (''Cl'' @ e_acute @ '' de {user}'')),
          (''logout'', JStr (''Se d'' @ e_acute @ ''connecter''))]),
      (''access'',
        JObj [
          (''kicker'', JStr (''Connexion '' @ mid_dot @ '' {protocol}'')),
          (''kickerRequest'', JStr (''Demande d'' @ apos @ ''acc'' @ e_grave @ ''s '' @ mid_dot @ '' {protocol}'')),
          (''title'', JStr (''Se connecter '' @ a_grave @ '' {name}'')),
          (''titleRequest'', JStr (''Demander l'' @ apos @ ''acc'' @ e_grave @ ''s '' @ a_grave @ '' {name}'')),
          (''intro'',
            JStr (''Cette ressource demande quelques informations avant d'' @ apos @
                  ''ouvrir la session. Elles sont inscrites au journal.'')),
          (''introRequest'',
            JStr (''Un administrateur doit approuver cet acc'' @ e_grave @
                  ''s. Votre demande et son motif sont inscrits au journal.'')),
          (''risk'', JStr ''Risque {level}''),
          (''containment'', JStr ''Le confinement est actif : toute nouvelle session doit avoir un motif.''),
          (''containmentWhy'', JStr ''Raison : {reason}.''),
          (''policyTitle'', JStr (''R'' @ e_grave @ ''gles d'' @ apos @ ''acc'' @ e_grave @ ''s pour vous'')),
          (''policyLoading'', JStr (''V'' @ e_acute @ ''rification des r'' @ e_grave @ ''gles'' @ hellip)),
          (''score'', JStr ''Score de risque {score} ({level})''),
          (''nothingMore'', JStr (''rien de plus '' @ a_grave @ '' fournir'')),
          (''needReason'', JStr (''motif exig'' @ e_acute)),
          (''needTicket'', JStr (''ticket exig'' @ e_acute)),
          (''needPurpose'', JStr (''objectif exig'' @ e_acute)),
          (''needApproval'', JStr (''approbation exig'' @ e_acute @ ''e'')),
          (''needMfa'', JStr ''MFA : {value}''),
          (''needRelay'', JStr ''via un relais''),
          (''maxDuration'', JStr ''{minutes} min maximum''),
          (''factors'', JStr (''D'' @ e_acute @ ''tail du calcul'')),
          (''required'', JStr ''obligatoire''),
          (''optional'', JStr ''facultatif''),
          (''reason'', JStr ''Motif''),
          (''reasonPlaceholder'', JStr (''Pourquoi avez-vous besoin de cet acc'' @ e_grave @ ''s ?'')),
          (''ticket'', JStr ''Ticket''),
          (''purpose'', JStr ''Objectif de la session''),
          (''purposePlaceholder'',
            JStr (''Maintenance, r'' @ e_acute @ ''ponse '' @ a_grave @ '' incident, onboarding'' @ hellip)),
          (''purposeHint'',
            JStr (''Les ressources '' @ a_grave @ '' risque '' @ e_acute @ ''lev'' @ e_acute @
                  '' exigent un objectif.'')),
          (''evidence'', JStr (''Justificatif de l'' @ apos @ ''objectif'')),
          (''evidencePlaceholder'', JStr (''Demande de changement, proc'' @ e_acute @ ''dure, notes du ticket'')),
          (''connect'', JStr ''Se connecter''),
          (''sendRequest'', JStr ''Envoyer la demande''),
          (''memoSave'', JStr (''M'' @ e_acute @ ''moriser ces r'' @ e_acute @ ''ponses pour cette ressource'')),
          (''memoSaved'', JStr (''R'' @ e_acute @ ''ponses m'' @ e_acute @ ''moris'' @ e_acute @ ''es le {when}.'')),
          (''memoApply'', JStr (''R'' @ e_acute @ ''utiliser'')),
          (''memoUpdate'', JStr ''Remplacer par celles-ci''),
          (''memoForget'', JStr ''Oublier''),
          (''approved'',
            JStr (''Votre demande n'' @ degree @ '' {id} a '' @ e_acute @ ''t'' @ e_acute @ '' approuv'' @
                  e_acute @ ''e : compl'' @ e_acute @
                  ''tez les informations ci-dessous pour ouvrir la session.''))]),
      (''upsell'',
        JObj [
          (''title'', JStr (''Non inclus dans votre '' @ e_acute @ ''dition'')),
          (''thisFeature'', JStr ''Cette fonction''),
          (''body'', JStr (''{feature} fait partie de l'' @ apos @ e_acute @ ''dition {tier}.'')),
          (''community'', JStr ''Cette version Community ne la contient pas.''),
          (''admin'', JStr (''Chargez une licence qui l'' @ apos @ ''inclut pour l'' @ apos @ ''utiliser.'')),
          (''askAdmin'',
            JStr (''Demandez '' @ a_grave @ '' un administrateur de charger une licence qui l'' @ apos @
                  ''inclut.'')),
          (''openLicense'', JStr ''Ouvrir la licence'')])]"

lemma same_dlg: "same_texts texts_en_dlg texts_fr_dlg"
  unfolding texts_en_dlg_def texts_fr_dlg_def
  by (intro same_intros; simp add: walk_simps cong: holes_cong)

subsection \<open>live\<close>

definition texts_en_live :: json where
  "texts_en_live = JObj [
      (''severity'',
        JObj [
          (''critical'', JStr ''Critical''),
          (''warning'', JStr ''Warning''),
          (''ok'', JStr ''Information'')]),
      (''openJournal'', JStr ''Open the journal''),
      (''openSession'', JStr ''Session #{id} in the journal''),
      (''kinds'',
        JObj [
          (''incidentOpened'',
            JObj [
              (''title'', JStr ''Incident case opened''),
              (''hint'', JStr ''A security incident has been declared to coordinate the response.'')]),
          (''incidentClosed'',
            JObj [
              (''title'', JStr ''Incident case closed''),
              (''hint'', JStr ''The security incident has been closed.'')]),
          (''containmentOn'',
            JObj [
              (''title'', JStr ''Containment enabled''),
              (''hint'', JStr ''Every new session now needs a reason.'')]),
          (''authAnomaly'',
            JObj [
              (''title'', JStr ''Sign-in failures''),
              (''hint'', JStr ''Repeated failed sign-ins or throttled attempts.'')]),
          (''bruteForce'',
            JObj [
              (''title'', JStr ''Possible brute-force attack''),
              (''hint'', JStr ''Failed sign-ins are well above the usual level.'')]),
          (''staleSession'',
            JObj [
              (''title'', JStr ''Session open for too long''),
              (''hint'', JStr ''An active session exceeds its expected duration.'')]),
          (''anomaly'',
            JObj [
              (''title'', JStr ''Unusual activity''),
              (''hint'', JStr ''A session behaves differently from usual.'')]),
          (''outsideHours'',
            JObj [
              (''title'', JStr ''Access outside allowed hours''),
              (''hint'', JStr ''Someone tried to open a session outside the hours of an access rule.'')]),
          (''unjustified'',
            JObj [
              (''title'', JStr ''Session opened without a reason''),
              (''hint'', JStr ''A session was opened without giving a reason.'')]),
          (''dnaMismatch'',
            JObj [
              (''title'', JStr ''Session DNA mismatch''),
              (''hint'', JStr ''The integrity check of a session record failed.'')]),
          (''grouped'',
            JObj [
              (''title'', JStr ''{count} similar signals grouped''),
              (''hint'', JStr ''Repeated low-priority signals are folded so the important ones stay visible.'')])]),
      (''incident'',
        JObj [
          (''title'', JStr ''Possible security incident''),
          (''signals'', JStr ''{count} critical signals in 5 min''),
          (''hint'',
            JStr ''Several critical signals arrived close together. Check the journal and the sessions involved.''),
          (''case'', JStr ''Case #{id} open''),
          (''containmentOn'', JStr ''Containment active''),
          (''suspect'', JStr (''Session #{id} '' @ mid_dot @ '' score {score}'')),
          (''ended'', JStr ''ended''),
          (''investigate'', JStr ''Investigate''),
          (''terminate'', JStr ''End {count} suspect session(s)''),
          (''openCase'', JStr ''Open a case''),
          (''closeCase'', JStr ''Close the case''),
          (''containmentStart'', JStr ''Enable containment''),
          (''containmentStop'', JStr ''Disable containment''),
          (''strict'', JStr ''Show every alert''),
          (''dismiss'', JStr ''Hide'')]),
      (''confirm'',
        JObj [
          (''title'', JStr ''End {count} suspect session(s)?''),
          (''action'', JStr ''End {count} session(s)''),
          (''busy'', JStr (''Ending'' @ hellip))]),
      (''license'',
        JObj [
          (''expired'', JStr ''The license has expired: premium features are turned off.''),
          (''revoked'', JStr ''The license has been revoked: premium features are turned off.''),
          (''soon'', JStr ''The license expires in {days} days.''),
          (''soonOne'', JStr ''The license expires within a day.''),
          (''none'',
            JStr ''No license is loaded: the bastion runs in the free tier and premium features are locked.''),
          (''invalid'',
            JStr ''The license was refused ({reason}): the bastion runs in the free tier and premium features are locked.''),
          (''invalidUnknown'', JStr ''verification failed''),
          (''open'', JStr ''Open the license''),
          (''dismiss'', JStr ''Hide'')])]"

definition texts_fr_live :: json where
  "texts_fr_live = JObj [
      (''severity'',
        JObj [
          (''critical'', JStr ''Critique''),
          (''warning'', JStr ''Attention''),
          (''ok'', JStr ''Information'')]),
      (''openJournal'', JStr ''Voir au journal''),
      (''openSession'', JStr (''Session n'' @ degree @ '' {id} au journal'')),
      (''kinds'',
        JObj [
          (''incidentOpened'',
            JObj [
              (''title'', JStr (''Dossier d'' @ apos @ ''incident ouvert'')),
              (''hint'',
                JStr (''Un incident de s'' @ e_acute @ ''curit'' @ e_acute @ '' a '' @ e_acute @ ''t'' @ e_acute @
                      '' d'' @ e_acute @ ''clar'' @ e_acute @ '' pour coordonner la r'' @ e_acute @ ''ponse.''))]),
          (''incidentClosed'',
            JObj [
              (''title'', JStr (''Dossier d'' @ apos @ ''incident clos'')),
              (''hint'',
                JStr (''L'' @ apos @ ''incident de s'' @ e_acute @ ''curit'' @ e_acute @ '' a '' @ e_acute @
                      ''t'' @ e_acute @ '' clos.''))]),
          (''containmentOn'',
            JObj [
              (''title'', JStr (''Confinement activ'' @ e_acute)),
              (''hint'', JStr (''Toute nouvelle session doit d'' @ e_acute @ ''sormais avoir un motif.''))]),
          (''authAnomaly'',
            JObj [
              (''title'', JStr (E_acute @ ''checs de connexion'')),
              (''hint'',
                JStr (''Connexions '' @ e_acute @ ''chou'' @ e_acute @ ''es r'' @ e_acute @ ''p'' @ e_acute @
                      ''t'' @ e_acute @ ''es ou tentatives ralenties.''))]),
          (''bruteForce'',
            JObj [
              (''title'', JStr ''Attaque par force brute possible''),
              (''hint'',
                JStr (''Les '' @ e_acute @ ''checs de connexion d'' @ e_acute @
                      ''passent nettement le niveau habituel.''))]),
          (''staleSession'',
            JObj [
              (''title'', JStr ''Session ouverte trop longtemps''),
              (''hint'',
                JStr (''Une session active d'' @ e_acute @ ''passe sa dur'' @ e_acute @ ''e pr'' @ e_acute @
                      ''vue.''))]),
          (''anomaly'',
            JObj [
              (''title'', JStr (''Activit'' @ e_acute @ '' inhabituelle'')),
              (''hint'', JStr (''Une session se comporte diff'' @ e_acute @ ''remment de d'' @ apos @ ''habitude.''))]),
          (''outsideHours'',
            JObj [
              (''title'', JStr (''Acc'' @ e_grave @ ''s hors des horaires autoris'' @ e_acute @ ''s'')),
              (''hint'',
                JStr (''Quelqu'' @ apos @ ''un a tent'' @ e_acute @ '' d'' @ apos @
                      ''ouvrir une session en dehors des horaires d'' @ apos @ ''une r'' @ e_grave @ ''gle d'' @
                      apos @ ''acc'' @ e_grave @ ''s.''))]),
          (''unjustified'',
            JObj [
              (''title'', JStr ''Session ouverte sans motif''),
              (''hint'', JStr (''Une session a '' @ e_acute @ ''t'' @ e_acute @ '' ouverte sans donner de motif.''))]),
          (''dnaMismatch'',
            JObj [
              (''title'', JStr (''Session DNA incoh'' @ e_acute @ ''rente'')),
              (''hint'',
                JStr (''Le contr'' @ o_circ @ ''le d'' @ apos @ ''int'' @ e_acute @ ''grit'' @ e_acute @ '' d'' @
                      apos @ ''un enregistrement de session a '' @ e_acute @ ''chou'' @ e_acute @ ''.''))]),
          (''grouped'',
            JObj [
              (''title'', JStr (''{count} signaux similaires regroup'' @ e_acute @ ''s'')),
              (''hint'',
                JStr (''Les signaux r'' @ e_acute @ ''p'' @ e_acute @ ''titifs peu prioritaires sont regroup'' @
                      e_acute @ ''s pour laisser voir les plus importants.''))])]),
      (''incident'',
        JObj [
          (''title'', JStr (''Incident de s'' @ e_acute @ ''curit'' @ e_acute @ '' possible'')),
          (''signals'', JStr ''{count} signaux critiques en 5 min''),
          (''hint'',
            JStr (''Plusieurs signaux critiques sont arriv'' @ e_acute @ ''s coup sur coup. V'' @ e_acute @
                  ''rifiez le journal et les sessions concern'' @ e_acute @ ''es.'')),
          (''case'', JStr (''Dossier n'' @ degree @ '' {id} ouvert'')),
          (''containmentOn'', JStr ''Confinement actif''),
          (''suspect'', JStr (''Session n'' @ degree @ '' {id} '' @ mid_dot @ '' score {score}'')),
          (''ended'', JStr (''termin'' @ e_acute @ ''e'')),
          (''investigate'', JStr ''Examiner''),
          (''terminate'', JStr ''Couper {count} session(s) suspecte(s)''),
          (''openCase'', JStr ''Ouvrir un dossier''),
          (''closeCase'', JStr ''Clore le dossier''),
          (''containmentStart'', JStr ''Activer le confinement''),
          (''containmentStop'', JStr ''Lever le confinement''),
          (''strict'', JStr ''Afficher toutes les alertes''),
          (''dismiss'', JStr ''Masquer'')]),
      (''confirm'',
        JObj [
          (''title'', JStr ''Couper {count} session(s) suspecte(s) ?''),
          (''action'', JStr ''Couper {count} session(s)''),
          (''busy'', JStr (''Coupure'' @ hellip))]),
      (''license'',
        JObj [
          (''expired'',
            JStr (''La licence a expir'' @ e_acute @ '' : les fonctions premium sont d'' @ e_acute @ ''sactiv'' @
                  e_acute @ ''es.'')),
          (''revoked'',
            JStr (''La licence a '' @ e_acute @ ''t'' @ e_acute @ '' r'' @ e_acute @ ''voqu'' @ e_acute @
                  ''e : les fonctions premium sont d'' @ e_acute @ ''sactiv'' @ e_acute @ ''es.'')),
          (''soon'', JStr ''La licence expire dans {days} jours.''),
          (''soonOne'', JStr (''La licence expire dans moins d'' @ apos @ ''un jour.'')),
          (''none'',
            JStr (''Aucune licence n'' @ apos @ ''est charg'' @ e_acute @
                  ''e : le bastion fonctionne en version gratuite et les fonctions premium sont verrouill'' @
                  e_acute @ ''es.'')),
          (''invalid'',
            JStr (''La licence a '' @ e_acute @ ''t'' @ e_acute @ '' refus'' @ e_acute @
                  ''e ({reason}) : le bastion fonctionne en version gratuite et les fonctions premium sont verrouill'' @
                  e_acute @ ''es.'')),
          (''invalidUnknown'', JStr (''v'' @ e_acute @ ''rification impossible'')),
          (''open'', JStr ''Ouvrir la licence''),
          (''dismiss'', JStr ''Masquer'')])]"

lemma same_live: "same_texts texts_en_live texts_fr_live"
  unfolding texts_en_live_def texts_fr_live_def
  by (intro same_intros; simp add: walk_simps cong: holes_cong)

subsection \<open>agentDlg\<close>

definition texts_en_agentDlg :: json where
  "texts_en_agentDlg = JObj [
      (''kicker'', JStr (''Agent tunnel '' @ mid_dot @ '' {protocol}'')),
      (''title'', JStr ''Open {name} with the agent''),
      (''local'', JStr ''Local port''),
      (''then'', JStr ''Then''),
      (''thenBrowser'', JStr ''the page opens at''),
      (''thenClient'', JStr ''your {protocol} client connects to {endpoint}.''),
      (''dbHint'',
        JStr ''Any user name and no password: the bastion logs in to the database for you and journals every query.''),
      (''open'', JStr ''Open with the agent''),
      (''opening'', JStr (''Opening'' @ hellip)),
      (''opened'', JStr ''The agent has taken over. You can close this window.''),
      (''noAgent'',
        JStr ''The agent did not respond: it is probably not installed on this computer. Install it for {platform}:''),
      (''newPort'', JStr ''Use another port''),
      (''manual'', JStr ''Start the tunnel by hand''),
      (''manualHint'', JStr ''Command to run in a terminal (the token is valid for a short time):''),
      (''linkHint'', JStr ''Link to open with the agent:''),
      (''copy'', JStr ''Copy'')]"

definition texts_fr_agentDlg :: json where
  "texts_fr_agentDlg = JObj [
      (''kicker'', JStr (''Tunnel agent '' @ mid_dot @ '' {protocol}'')),
      (''title'', JStr (''Ouvrir {name} avec l'' @ apos @ ''agent'')),
      (''local'', JStr ''Port local''),
      (''then'', JStr ''Ensuite''),
      (''thenBrowser'', JStr (''la page s'' @ apos @ ''ouvre '' @ a_grave @ '' l'' @ apos @ ''adresse'')),
      (''thenClient'', JStr (''votre client {protocol} se connecte '' @ a_grave @ '' {endpoint}.'')),
      (''dbHint'',
        JStr (''N'' @ squote @ ''importe quel nom d'' @ squote @
              ''utilisateur, sans mot de passe : le bastion se connecte '' @ a_grave @
              '' la base pour vous et journalise chaque requ'' @ e_circ @ ''te.'')),
      (''open'', JStr (''Ouvrir avec l'' @ apos @ ''agent'')),
      (''opening'', JStr (''Ouverture'' @ hellip)),
      (''opened'',
        JStr (''L'' @ apos @ ''agent a pris le relais. Vous pouvez fermer cette fen'' @ e_circ @ ''tre.'')),
      (''noAgent'',
        JStr (''L'' @ apos @ ''agent n'' @ apos @ ''a pas r'' @ e_acute @ ''pondu : il n'' @ apos @
              ''est sans doute pas install'' @ e_acute @ '' sur cet ordinateur. Installez-le pour {platform} :'')),
      (''newPort'', JStr ''Changer de port''),
      (''manual'', JStr (''Lancer le tunnel '' @ a_grave @ '' la main'')),
      (''manualHint'',
        JStr (''Commande '' @ a_grave @ '' lancer dans un terminal (le jeton est valable peu de temps) :'')),
      (''linkHint'', JStr (''Lien '' @ a_grave @ '' ouvrir avec l'' @ apos @ ''agent :'')),
      (''copy'', JStr ''Copier'')]"

lemma same_agentDlg: "same_texts texts_en_agentDlg texts_fr_agentDlg"
  unfolding texts_en_agentDlg_def texts_fr_agentDlg_def
  by (intro same_intros; simp add: walk_simps cong: holes_cong)

subsection \<open>viewer\<close>

definition texts_en_viewer :: json where
  "texts_en_viewer = JObj [
      (''fullscreen'', JStr ''Full screen''),
      (''connecting'', JStr ''Connecting''),
      (''connected'', JStr ''Connected''),
      (''disconnected'', JStr ''Disconnected''),
      (''error'', JStr ''Error''),
      (''ready'', JStr ''Ready''),
      (''empty'', JStr ''Empty''),
      (''emptyHint'', JStr ''This recording contains no image.''),
      (''vncKicker'', JStr (''VNC '' @ mid_dot @ '' session #{id}'')),
      (''rbiKicker'', JStr (''Isolated browser '' @ mid_dot @ '' session #{id}'')),
      (''rbiTitle'', JStr ''Isolated browser''),
      (''replayKicker'', JStr ''Isolated browser replay''),
      (''replayTitle'', JStr ''Recording #{id}''),
      (''position'', JStr ''Position in the recording''),
      (''uploading'', JStr ''Sending {name}''),
      (''downloading'', JStr ''Receiving {name}''),
      (''msg'',
        JObj [
          (''browserClosed'', JStr ''The isolated browser has stopped on the server.''),
          (''capacity'', JStr ''The server is running as many isolated browsers as it can. Try again in a moment.''),
          (''sessionNotFound'', JStr ''This session no longer exists.''),
          (''forbidden'', JStr ''You are not allowed to view this session.''),
          (''httpOnly'', JStr ''The isolated browser only opens web resources (HTTP or HTTPS).''),
          (''downloadBlocked'', JStr ''Download blocked by the access rules.''),
          (''uploadBlocked'', JStr ''Upload blocked by the access rules.''),
          (''pasteBlocked'', JStr ''Paste blocked by the access rules.''),
          (''uploadTooBig'', JStr ''The file is larger than the allowed size.''),
          (''uploadEngine'', JStr ''Sending files is not available with this display engine.''),
          (''uploadDone'', JStr ''File sent.'')])]"

definition texts_fr_viewer :: json where
  "texts_fr_viewer = JObj [
      (''fullscreen'', JStr (''Plein '' @ e_acute @ ''cran'')),
      (''connecting'', JStr ''Connexion''),
      (''connected'', JStr (''Connect'' @ e_acute)),
      (''disconnected'', JStr (''D'' @ e_acute @ ''connect'' @ e_acute)),
      (''error'', JStr ''Erreur''),
      (''ready'', JStr (''Pr'' @ e_circ @ ''t'')),
      (''empty'', JStr ''Vide''),
      (''emptyHint'', JStr ''Cet enregistrement ne contient aucune image.''),
      (''vncKicker'', JStr (''VNC '' @ mid_dot @ '' session n'' @ degree @ '' {id}'')),
      (''rbiKicker'', JStr (''Navigateur isol'' @ e_acute @ '' '' @ mid_dot @ '' session n'' @ degree @ '' {id}'')),
      (''rbiTitle'', JStr (''Navigateur isol'' @ e_acute)),
      (''replayKicker'', JStr (''Rejeu du navigateur isol'' @ e_acute)),
      (''replayTitle'', JStr (''Enregistrement n'' @ degree @ '' {id}'')),
      (''position'', JStr (''Position dans l'' @ apos @ ''enregistrement'')),
      (''uploading'', JStr ''Envoi de {name}''),
      (''downloading'', JStr (''R'' @ e_acute @ ''ception de {name}'')),
      (''msg'',
        JObj [
          (''browserClosed'',
            JStr (''Le navigateur isol'' @ e_acute @ '' s'' @ apos @ ''est arr'' @ e_circ @ ''t'' @ e_acute @
                  '' sur le serveur.'')),
          (''capacity'',
            JStr (''Le serveur fait d'' @ e_acute @ ''j'' @ a_grave @ '' tourner autant de navigateurs isol'' @
                  e_acute @ ''s qu'' @ apos @ ''il peut. R'' @ e_acute @ ''essayez dans un instant.'')),
          (''sessionNotFound'', JStr (''Cette session n'' @ apos @ ''existe plus.'')),
          (''forbidden'', JStr (''Vous n'' @ apos @ ''avez pas le droit de voir cette session.'')),
          (''httpOnly'',
            JStr (''Le navigateur isol'' @ e_acute @ '' n'' @ apos @
                  ''ouvre que des ressources web (HTTP ou HTTPS).'')),
          (''downloadBlocked'',
            JStr (''T'' @ e_acute @ ''l'' @ e_acute @ ''chargement bloqu'' @ e_acute @ '' par les r'' @ e_grave @
                  ''gles d'' @ apos @ ''acc'' @ e_grave @ ''s.'')),
          (''uploadBlocked'',
            JStr (''Envoi de fichier bloqu'' @ e_acute @ '' par les r'' @ e_grave @ ''gles d'' @ apos @ ''acc'' @
                  e_grave @ ''s.'')),
          (''pasteBlocked'',
            JStr (''Collage bloqu'' @ e_acute @ '' par les r'' @ e_grave @ ''gles d'' @ apos @ ''acc'' @ e_grave @
                  ''s.'')),
          (''uploadTooBig'', JStr (''Le fichier d'' @ e_acute @ ''passe la taille autoris'' @ e_acute @ ''e.'')),
          (''uploadEngine'',
            JStr (''L'' @ apos @ ''envoi de fichiers n'' @ apos @ ''est pas disponible avec ce moteur d'' @ apos @
                  ''affichage.'')),
          (''uploadDone'', JStr (''Fichier envoy'' @ e_acute @ ''.''))])]"

lemma same_viewer: "same_texts texts_en_viewer texts_fr_viewer"
  unfolding texts_en_viewer_def texts_fr_viewer_def
  by (intro same_intros; simp add: walk_simps cong: holes_cong)

subsection \<open>start\<close>

definition texts_en_start :: json where
  "texts_en_start = JObj [
      (''title'', JStr ''Get your bastion ready''),
      (''subtitle'', JStr ''A few steps before handing access to your team. Each one ticks itself off.''),
      (''progress'', JStr ''{done} of {total} done''),
      (''hide'', JStr ''Hide''),
      (''optional'', JStr ''Optional''),
      (''steps'',
        JObj [
          (''resource'',
            JObj [
              (''title'', JStr ''Add a first resource''),
              (''todo'', JStr ''A server, a web application or a database your team needs to reach.''),
              (''done'', JStr ''Resources are on the map.''),
              (''action'', JStr ''Add a resource'')]),
          (''mfa'',
            JObj [
              (''title'', JStr ''Turn on two-factor sign-in for administrators''),
              (''todo'', JStr ''Some administrators still sign in with a password only.''),
              (''done'', JStr ''Every administrator uses two-factor sign-in.''),
              (''action'', JStr ''Open Security'')]),
          (''operator'',
            JObj [
              (''title'', JStr ''Create an operator''),
              (''todo'', JStr ''Give your team their own accounts rather than sharing an administrator.''),
              (''done'', JStr ''Operators have their own accounts.''),
              (''action'', JStr ''Add a user'')]),
          (''license'',
            JObj [
              (''title'', JStr ''Import the license''),
              (''todo'', JStr ''Premium features stay locked until a valid license is loaded.''),
              (''todoOptional'',
                JStr ''Not needed in the Community edition: a license is how you move to a paid edition.''),
              (''done'', JStr ''The license is valid.''),
              (''action'', JStr ''Open License'')])])]"

definition texts_fr_start :: json where
  "texts_fr_start = JObj [
      (''title'', JStr (''Pr'' @ e_acute @ ''parez votre bastion'')),
      (''subtitle'',
        JStr (''Quelques '' @ e_acute @ ''tapes avant d'' @ apos @ ''ouvrir les acc'' @ e_grave @ ''s '' @
              a_grave @ '' votre '' @ e_acute @ ''quipe. Chacune se coche toute seule.'')),
      (''progress'', JStr ''{done} sur {total} faites''),
      (''hide'', JStr ''Masquer''),
      (''optional'', JStr ''Facultatif''),
      (''steps'',
        JObj [
          (''resource'',
            JObj [
              (''title'', JStr (''Ajouter une premi'' @ e_grave @ ''re ressource'')),
              (''todo'',
                JStr (''Un serveur, une application web ou une base de donn'' @ e_acute @ ''es que votre '' @
                      e_acute @ ''quipe doit joindre.'')),
              (''done'', JStr ''Des ressources sont sur la carte.''),
              (''action'', JStr ''Ajouter une ressource'')]),
          (''mfa'',
            JObj [
              (''title'', JStr ''Activer la double authentification des administrateurs''),
              (''todo'', JStr ''Des administrateurs se connectent encore avec un simple mot de passe.''),
              (''done'', JStr ''Tous les administrateurs utilisent la double authentification.''),
              (''action'', JStr (''Ouvrir S'' @ e_acute @ ''curit'' @ e_acute))]),
          (''operator'',
            JObj [
              (''title'', JStr (''Cr'' @ e_acute @ ''er un op'' @ e_acute @ ''rateur'')),
              (''todo'',
                JStr (''Donnez '' @ a_grave @ '' votre '' @ e_acute @ ''quipe ses propres comptes plut'' @
                      o_circ @ ''t qu'' @ apos @ ''un compte administrateur partag'' @ e_acute @ ''.'')),
              (''done'', JStr (''Les op'' @ e_acute @ ''rateurs ont leurs propres comptes.'')),
              (''action'', JStr ''Ajouter un utilisateur'')]),
          (''license'',
            JObj [
              (''title'', JStr ''Importer la licence''),
              (''todo'', JStr (''Les fonctions premium restent verrouill'' @ e_acute @ ''es sans licence valide.'')),
              (''todoOptional'',
                JStr (''Pas n'' @ e_acute @ ''cessaire en '' @ e_acute @
                      ''dition Community : une licence sert '' @ a_grave @ '' passer '' @ a_grave @ '' une '' @
                      e_acute @ ''dition payante.'')),
              (''done'', JStr ''La licence est valide.''),
              (''action'', JStr ''Ouvrir Licence'')])])]"

lemma same_start: "same_texts texts_en_start texts_fr_start"
  unfolding texts_en_start_def texts_fr_start_def
  by (intro same_intros; simp add: walk_simps cong: holes_cong)

subsection \<open>appearance\<close>

definition texts_en_appearance :: json where
  "texts_en_appearance = JObj [
      (''hint'', JStr ''Tab title, login page''),
      (''title'', JStr ''Appearance''),
      (''subtitle'', JStr ''Customise the browser tab and the login page. Applies to every user.''),
      (''unsaved'', JStr ''Unsaved changes''),
      (''save'', JStr ''Save''),
      (''saving'', JStr (''Saving'' @ hellip)),
      (''saved'', JStr ''Appearance saved. Users will see it the next time they load the page.''),
      (''saveError'', JStr ''Could not save the appearance.''),
      (''tabSection'', JStr ''Browser tab''),
      (''tabTitle'', JStr ''Tab title''),
      (''tabTitleHint'', JStr (''{max} characters maximum. Default: '' @ lquo @ ''{title}'' @ rquo @ ''.'')),
      (''favicon'', JStr ''Tab icon''),
      (''currentIcon'', JStr ''Current icon''),
      (''replace'', JStr (''Replace'' @ hellip)),
      (''defaultIcon'', JStr ''Restore the default icon''),
      (''faviconHint'', JStr (''Square PNG, ICO or WebP, 64 '' @ times_sign @ '' 64 px minimum, 256 KB maximum.'')),
      (''faviconType'', JStr ''The icon must be a PNG, ICO or WebP image.''),
      (''backgroundType'', JStr ''The background must be a JPG, PNG or WebP image.''),
      (''tooLarge'', JStr ''This image is too large ({max} maximum).''),
      (''preview'', JStr ''Preview''),
      (''newTab'', JStr ''New tab''),
      (''loginSection'', JStr ''Login page''),
      (''background'', JStr ''Background image''),
      (''currentImage'', JStr ''Current image''),
      (''chooseImage'', JStr ''Choose an image''),
      (''orDrop'', JStr ''or drop it here''),
      (''remove'', JStr ''Remove''),
      (''backgroundHint'',
        JStr (''JPG, PNG or WebP, 5 MB maximum. Recommended: 1920 '' @ times_sign @
              '' 1080 px. Without an image, the plain default background is used.'')),
      (''blur'', JStr ''Image blur''),
      (''blurNone'', JStr ''none''),
      (''sharp'', JStr ''Sharp''),
      (''veryBlurred'', JStr ''Very blurred''),
      (''dim'', JStr ''Slightly darken the image''),
      (''dimHint'', JStr ''Keeps the form readable on a light photo.''),
      (''logo'', JStr ''Logo''),
      (''currentLogo'', JStr ''Current logo''),
      (''defaultLogo'', JStr ''Restore the default logo''),
      (''logoHint'',
        JStr ''Shown above the sign-in form. PNG, JPG or WebP, 512 KB maximum; a transparent background looks best.''),
      (''logoType'', JStr ''The logo must be a PNG, JPG or WebP image.''),
      (''message'', JStr ''Message shown before sign-in''),
      (''messagePlaceholder'', JStr ''Access restricted to authorised staff. Every session is recorded.''),
      (''messageHint'',
        JStr ''Under the sign-in form, for everyone: a welcome note or a legal notice. Leave empty to show nothing.'')]"

definition texts_fr_appearance :: json where
  "texts_fr_appearance = JObj [
      (''hint'', JStr (''Titre de l'' @ apos @ ''onglet, page de connexion'')),
      (''title'', JStr ''Apparence''),
      (''subtitle'',
        JStr (''Personnalisez l'' @ apos @ ''onglet du navigateur et la page de connexion. S'' @ apos @
              ''applique '' @ a_grave @ '' tous les utilisateurs.'')),
      (''unsaved'', JStr (''Modifications non enregistr'' @ e_acute @ ''es'')),
      (''save'', JStr ''Enregistrer''),
      (''saving'', JStr (''Enregistrement'' @ hellip)),
      (''saved'',
        JStr (''Apparence enregistr'' @ e_acute @
              ''e. Les utilisateurs la verront au prochain chargement de la page.'')),
      (''saveError'', JStr (''Impossible d'' @ apos @ ''enregistrer l'' @ apos @ ''apparence.'')),
      (''tabSection'', JStr ''Onglet du navigateur''),
      (''tabTitle'', JStr (''Titre de l'' @ apos @ ''onglet'')),
      (''tabTitleHint'',
        JStr (''{max} caract'' @ e_grave @ ''res maximum. Par d'' @ e_acute @ ''faut : '' @ laquo @
              '' {title} '' @ raquo @ ''.'')),
      (''favicon'', JStr (''Ic'' @ o_circ @ ''ne de l'' @ apos @ ''onglet'')),
      (''currentIcon'', JStr (''Ic'' @ o_circ @ ''ne actuelle'')),
      (''replace'', JStr (''Remplacer'' @ hellip)),
      (''defaultIcon'',
        JStr (''R'' @ e_acute @ ''tablir l'' @ apos @ ''ic'' @ o_circ @ ''ne par d'' @ e_acute @ ''faut'')),
      (''faviconHint'',
        JStr (''PNG, ICO ou WebP carr'' @ e_acute @ '', 64 '' @ times_sign @ '' 64 px minimum, 256 Ko maximum.'')),
      (''faviconType'',
        JStr (''L'' @ apos @ ''ic'' @ o_circ @ ''ne doit '' @ e_circ @ ''tre une image PNG, ICO ou WebP.'')),
      (''backgroundType'', JStr (''Le fond doit '' @ e_circ @ ''tre une image JPG, PNG ou WebP.'')),
      (''tooLarge'', JStr ''Cette image est trop lourde ({max} maximum).''),
      (''preview'', JStr (''Aper'' @ c_cedil @ ''u'')),
      (''newTab'', JStr ''Nouvel onglet''),
      (''loginSection'', JStr ''Page de connexion''),
      (''background'', JStr ''Image de fond''),
      (''currentImage'', JStr ''Image actuelle''),
      (''chooseImage'', JStr ''Choisir une image''),
      (''orDrop'', JStr (''ou la d'' @ e_acute @ ''poser ici'')),
      (''remove'', JStr ''Retirer''),
      (''backgroundHint'',
        JStr (''JPG, PNG ou WebP, 5 Mo maximum. Conseill'' @ e_acute @ '' : 1920 '' @ times_sign @
              '' 1080 px. Sans image, le fond uni par d'' @ e_acute @ ''faut est utilis'' @ e_acute @ ''.'')),
      (''blur'', JStr (''Flou de l'' @ apos @ ''image'')),
      (''blurNone'', JStr ''aucun''),
      (''sharp'', JStr ''Net''),
      (''veryBlurred'', JStr (''Tr'' @ e_grave @ ''s flou'')),
      (''dim'', JStr (''Assombrir l'' @ e_acute @ ''g'' @ e_grave @ ''rement l'' @ apos @ ''image'')),
      (''dimHint'', JStr ''Garde le formulaire lisible sur une photo claire.''),
      (''logo'', JStr ''Logo''),
      (''currentLogo'', JStr ''Logo actuel''),
      (''defaultLogo'', JStr (''R'' @ e_acute @ ''tablir le logo par d'' @ e_acute @ ''faut'')),
      (''logoHint'',
        JStr (''Affich'' @ e_acute @
              '' au-dessus du formulaire de connexion. PNG, JPG ou WebP, 512 Ko maximum ; un fond transparent rend mieux.'')),
      (''logoType'', JStr (''Le logo doit '' @ e_circ @ ''tre une image PNG, JPG ou WebP.'')),
      (''message'', JStr (''Message affich'' @ e_acute @ '' avant la connexion'')),
      (''messagePlaceholder'',
        JStr (''Acc'' @ e_grave @ ''s r'' @ e_acute @ ''serv'' @ e_acute @ '' au personnel autoris'' @ e_acute @
              ''. Toutes les sessions sont enregistr'' @ e_acute @ ''es.'')),
      (''messageHint'',
        JStr (''Sous le formulaire de connexion, visible de tous : un mot d'' @ apos @
              ''accueil ou un avertissement l'' @ e_acute @ ''gal. Laissez vide pour ne rien afficher.''))]"

lemma same_appearance: "same_texts texts_en_appearance texts_fr_appearance"
  unfolding texts_en_appearance_def texts_fr_appearance_def
  by (intro same_intros; simp add: walk_simps cong: holes_cong)

subsection \<open>about\<close>

definition texts_en_about :: json where
  "texts_en_about = JObj [
      (''version'', JStr ''Bastion version''),
      (''bastionVersion'', JStr ''EndoriumFort {version}''),
      (''uiDiffers'', JStr ''(interface {version})'')]"

definition texts_fr_about :: json where
  "texts_fr_about = JObj [
      (''version'', JStr ''Version du bastion''),
      (''bastionVersion'', JStr ''EndoriumFort {version}''),
      (''uiDiffers'', JStr ''(interface {version})'')]"

lemma same_about: "same_texts texts_en_about texts_fr_about"
  unfolding texts_en_about_def texts_fr_about_def
  by (intro same_intros; simp add: walk_simps cong: holes_cong)

subsection \<open>sess\<close>

definition texts_en_sess :: json where
  "texts_en_sess = JObj [
      (''details'', JStr ''Session details''),
      (''selectHint'', JStr ''Select a session to see its details.''),
      (''sessionNo'', JStr ''Session #{id}''),
      (''openedAt'', JStr ''opened {time}''),
      (''account'', JStr ''Account''),
      (''protocol'', JStr ''Protocol''),
      (''viaRelay'', JStr ''via {relay}''),
      (''reason'', JStr ''Reason''),
      (''ticket'', JStr ''Ticket''),
      (''approval'', JStr ''Approval''),
      (''requestNo'', JStr ''request #{id}''),
      (''accessEnds'', JStr ''Access ends''),
      (''inTime'', JStr ''in {time}''),
      (''closedAt'', JStr ''Closed''),
      (''openJournal'', JStr ''Journal''),
      (''recordings'', JStr ''Recordings''),
      (''end'', JStr ''End''),
      (''events'', JStr ''Events''),
      (''chainOk'', JStr ''DNA chain verified''),
      (''chainBroken'', JStr ''DNA chain broken''),
      (''noEvents'', JStr ''No events yet.''),
      (''snippets'', JStr ''Snippets''),
      (''snippetsNeedLive'', JStr ''Connect the terminal to use snippets.''),
      (''insert'', JStr ''Insert''),
      (''insertHint'', JStr ''Type without running''),
      (''run'', JStr ''Run''),
      (''snippetName'', JStr ''Name''),
      (''snippetCommand'', JStr ''Command''),
      (''addSnippet'', JStr ''Save snippet''),
      (''filter'', JStr ''Sessions shown''),
      (''active'', JStr ''Active''),
      (''history'', JStr ''History''),
      (''searchPlaceholder'', JStr (''Session, user, resource'' @ hellip)),
      (''mineOnly'', JStr ''My sessions only''),
      (''allOperators'', JStr ''All operators''),
      (''operatorMe'', JStr ''{name} (me)''),
      (''onlyOperator'', JStr (''Show only {name}'' @ squote @ ''s sessions'')),
      (''noActiveFor'', JStr ''No active session for {name}.''),
      (''noHistoryFor'', JStr ''No closed session for {name}.''),
      (''operator'', JStr ''User''),
      (''opened'', JStr ''Opened''),
      (''remaining'', JStr ''Time left''),
      (''duration'', JStr ''Duration''),
      (''actions'', JStr ''Actions''),
      (''relay'', JStr ''relay''),
      (''noLimit'', JStr ''no limit''),
      (''noActive'', JStr ''No active session.''),
      (''noHistory'', JStr ''No closed session.''),
      (''openFromMap'', JStr ''Open a resource from the map''),
      (''observe'', JStr ''Observe''),
      (''asAccount'', JStr ''as''),
      (''vncTitle'', JStr ''Remote desktop (VNC)''),
      (''vncText'', JStr ''The display opens in a viewer over the page.''),
      (''openDisplay'', JStr ''Open display''),
      (''webTitle'', JStr ''Isolated browser''),
      (''webText'',
        JStr ''The site runs on the bastion and is streamed to a separate tab. Closing that tab ends the session.''),
      (''openBrowser'', JStr ''Open in a tab''),
      (''tunnelTitle'', JStr ''Local tunnel''),
      (''tunnelText'',
        JStr ''This session goes through the EndoriumFort agent on your computer; use your usual client.''),
      (''openSessions'', JStr ''Open sessions''),
      (''allSessions'', JStr ''All sessions''),
      (''newSession'', JStr ''Open another resource''),
      (''fullscreen'', JStr ''Full screen''),
      (''observing'', JStr ''Read-only view of''),
      (''stopObserving'', JStr ''Stop observing''),
      (''connectHint'', JStr ''Enter the account password to open the terminal.''),
      (''sshPassword'', JStr ''Account password''),
      (''connect'', JStr ''Connect''),
      (''reconnect'', JStr ''Reconnect''),
      (''statusLive'', JStr ''Connected''),
      (''statusConnecting'', JStr (''Connecting'' @ hellip)),
      (''statusClosed'', JStr ''Disconnected''),
      (''statusError'', JStr ''Error''),
      (''statusIdle'', JStr ''Not connected''),
      (''endsAt'', JStr ''access ends at {time} ({left})'')]"

definition texts_fr_sess :: json where
  "texts_fr_sess = JObj [
      (''details'', JStr (''D'' @ e_acute @ ''tails de la session'')),
      (''selectHint'', JStr (''S'' @ e_acute @ ''lectionnez une session pour voir ses d'' @ e_acute @ ''tails.'')),
      (''sessionNo'', JStr ''Session #{id}''),
      (''openedAt'', JStr ''ouverte {time}''),
      (''account'', JStr ''Compte''),
      (''protocol'', JStr ''Protocole''),
      (''viaRelay'', JStr ''via {relay}''),
      (''reason'', JStr ''Motif''),
      (''ticket'', JStr ''Ticket''),
      (''approval'', JStr ''Approbation''),
      (''requestNo'', JStr ''demande #{id}''),
      (''accessEnds'', JStr (''Fin d'' @ apos @ ''acc'' @ e_grave @ ''s'')),
      (''inTime'', JStr ''dans {time}''),
      (''closedAt'', JStr (''Ferm'' @ e_acute @ ''e'')),
      (''openJournal'', JStr ''Journal''),
      (''recordings'', JStr ''Enregistrements''),
      (''end'', JStr ''Terminer''),
      (''events'', JStr (E_acute @ ''v'' @ e_acute @ ''nements'')),
      (''chainOk'', JStr (''cha'' @ i_circ @ ''ne DNA v'' @ e_acute @ ''rifi'' @ e_acute @ ''e'')),
      (''chainBroken'', JStr (''cha'' @ i_circ @ ''ne DNA rompue'')),
      (''noEvents'', JStr (''Aucun '' @ e_acute @ ''v'' @ e_acute @ ''nement pour l'' @ apos @ ''instant.'')),
      (''snippets'', JStr ''Snippets''),
      (''snippetsNeedLive'', JStr ''Connectez le terminal pour utiliser les snippets.''),
      (''insert'', JStr (''Ins'' @ e_acute @ ''rer'')),
      (''insertHint'', JStr (''Taper sans ex'' @ e_acute @ ''cuter'')),
      (''run'', JStr (''Ex'' @ e_acute @ ''cuter'')),
      (''snippetName'', JStr ''Nom''),
      (''snippetCommand'', JStr ''Commande''),
      (''addSnippet'', JStr ''Enregistrer''),
      (''filter'', JStr (''Sessions affich'' @ e_acute @ ''es'')),
      (''active'', JStr ''Actives''),
      (''history'', JStr ''Historique''),
      (''searchPlaceholder'', JStr (''Session, utilisateur, ressource'' @ hellip)),
      (''mineOnly'', JStr ''Mes sessions uniquement''),
      (''allOperators'', JStr (''Tous les op'' @ e_acute @ ''rateurs'')),
      (''operatorMe'', JStr ''{name} (moi)''),
      (''onlyOperator'', JStr ''Afficher seulement les sessions de {name}''),
      (''noActiveFor'', JStr ''Aucune session active pour {name}.''),
      (''noHistoryFor'', JStr (''Aucune session ferm'' @ e_acute @ ''e pour {name}.'')),
      (''operator'', JStr ''Utilisateur''),
      (''opened'', JStr ''Ouverte''),
      (''remaining'', JStr ''Reste''),
      (''duration'', JStr (''Dur'' @ e_acute @ ''e'')),
      (''actions'', JStr ''Actions''),
      (''relay'', JStr ''relais''),
      (''noLimit'', JStr ''sans limite''),
      (''noActive'', JStr ''Aucune session active.''),
      (''noHistory'', JStr (''Aucune session ferm'' @ e_acute @ ''e.'')),
      (''openFromMap'', JStr ''Ouvrir une ressource depuis la carte''),
      (''observe'', JStr ''Observer''),
      (''asAccount'', JStr ''en tant que''),
      (''vncTitle'', JStr (''Bureau '' @ a_grave @ '' distance (VNC)'')),
      (''vncText'',
        JStr (''L'' @ apos @ ''affichage s'' @ apos @ ''ouvre dans une visionneuse par-dessus la page.'')),
      (''openDisplay'', JStr (''Ouvrir l'' @ apos @ ''affichage'')),
      (''webTitle'', JStr (''Navigateur isol'' @ e_acute)),
      (''webText'',
        JStr (''Le site tourne sur le bastion et s'' @ apos @ ''affiche dans un onglet s'' @ e_acute @ ''par'' @
              e_acute @ ''. Fermer cet onglet termine la session.'')),
      (''openBrowser'', JStr ''Ouvrir dans un onglet''),
      (''tunnelTitle'', JStr ''Tunnel local''),
      (''tunnelText'',
        JStr (''Cette session passe par l'' @ apos @
              ''agent EndoriumFort de votre poste ; utilisez votre client habituel.'')),
      (''openSessions'', JStr ''Sessions ouvertes''),
      (''allSessions'', JStr ''Toutes les sessions''),
      (''newSession'', JStr ''Ouvrir une autre ressource''),
      (''fullscreen'', JStr (''Plein '' @ e_acute @ ''cran'')),
      (''observing'', JStr ''Lecture seule de''),
      (''stopObserving'', JStr (''Arr'' @ e_circ @ ''ter d'' @ apos @ ''observer'')),
      (''connectHint'', JStr ''Saisissez le mot de passe du compte pour ouvrir le terminal.''),
      (''sshPassword'', JStr ''Mot de passe du compte''),
      (''connect'', JStr ''Se connecter''),
      (''reconnect'', JStr ''Reconnecter''),
      (''statusLive'', JStr (''Connect'' @ e_acute)),
      (''statusConnecting'', JStr (''Connexion'' @ hellip)),
      (''statusClosed'', JStr (''D'' @ e_acute @ ''connect'' @ e_acute)),
      (''statusError'', JStr ''Erreur''),
      (''statusIdle'', JStr (''Non connect'' @ e_acute)),
      (''endsAt'', JStr (''fin d'' @ apos @ ''acc'' @ e_grave @ ''s '' @ a_grave @ '' {time} ({left})''))]"

lemma same_sess: "same_texts texts_en_sess texts_fr_sess"
  unfolding texts_en_sess_def texts_fr_sess_def
  by (intro same_intros; simp add: walk_simps cong: holes_cong)

subsection \<open>map\<close>

definition texts_en_map :: json where
  "texts_en_map = JObj [
      (''accessOpen'', JStr ''open''),
      (''accessDirect'', JStr ''direct access''),
      (''noSession'', JStr ''no session''),
      (''direct'', JStr ''direct''),
      (''inUse'', JStr ''in use''),
      (''resume'', JStr ''Resume session''),
      (''requestAccess'', JStr ''Request access''),
      (''connect'', JStr ''Connect''),
      (''noZone'', JStr ''No zone''),
      (''selectHint'', JStr ''Select a resource to see its details and access conditions.''),
      (''doubleClickHint'', JStr ''Double-click a resource to connect.''),
      (''resource'', JStr ''Resource''),
      (''yourSessionOpen'', JStr ''Your session is open''),
      (''inUseBy'', JStr ''In use by {users}''),
      (''free'', JStr ''Free''),
      (''information'', JStr ''Information''),
      (''address'', JStr ''Address''),
      (''zone'', JStr ''Zone''),
      (''route'', JStr ''Route''),
      (''riskLabel'', JStr ''Risk''),
      (''credentials'', JStr ''Credentials''),
      (''vaulted'', JStr ''stored in the vault''),
      (''typedAtLogin'', JStr ''typed at login''),
      (''conditions'', JStr ''Access conditions''),
      (''whoIsIn'', JStr ''Who is in''),
      (''bastion'', JStr ''bastion''),
      (''activeSessions'', JStr ''{count} active session(s)''),
      (''resourceCount'', JStr ''{count} resource(s)''),
      (''type'', JStr ''Type''),
      (''access'', JStr ''Access''),
      (''sessionCol'', JStr ''Session''),
      (''view'', JStr ''View''),
      (''viewMap'', JStr ''Map''),
      (''viewList'', JStr ''List''),
      (''searchPlaceholder'', JStr ''Name, address or tag''),
      (''search'', JStr ''Search resources''),
      (''lensLabel'', JStr ''Display''),
      (''allZones'', JStr ''All zones''),
      (''mineOnly'', JStr ''My open access''),
      (''emptyTitle'', JStr ''No resources yet''),
      (''emptyAdmin'', JStr ''Add a first resource to see it on the map.''),
      (''emptyUser'', JStr ''No resource is assigned to you yet. Ask an administrator.''),
      (''addResource'', JStr ''Add a resource''),
      (''zoneHint'', JStr ''Resources without a zone: add a zone:<name> tag in Administration to group them.''),
      (''today'', JStr ''Today''),
      (''todayHint'', JStr ''click a line to see it on the map''),
      (''showAll'', JStr ''Show all''),
      (''details'', JStr ''Details''),
      (''risk'',
        JObj [
          (''low'', JStr ''low''),
          (''medium'', JStr ''medium''),
          (''high'', JStr ''high''),
          (''critical'', JStr ''critical'')]),
      (''lens'',
        JObj [
          (''access'', JStr ''My access''),
          (''sessions'', JStr ''Sessions''),
          (''risk'', JStr ''Risk''),
          (''network'', JStr ''Network'')])]"

definition texts_fr_map :: json where
  "texts_fr_map = JObj [
      (''accessOpen'', JStr ''ouvert''),
      (''accessDirect'', JStr (''acc'' @ e_grave @ ''s direct'')),
      (''noSession'', JStr ''aucune session''),
      (''direct'', JStr ''direct''),
      (''inUse'', JStr (''en cours d'' @ apos @ ''utilisation'')),
      (''resume'', JStr ''Reprendre la session''),
      (''requestAccess'', JStr (''Demander l'' @ apos @ ''acc'' @ e_grave @ ''s'')),
      (''connect'', JStr ''Se connecter''),
      (''noZone'', JStr ''Sans zone''),
      (''selectHint'',
        JStr (''S'' @ e_acute @ ''lectionnez une ressource pour voir ses d'' @ e_acute @
              ''tails et ses conditions d'' @ apos @ ''acc'' @ e_grave @ ''s.'')),
      (''doubleClickHint'', JStr ''Double-cliquez sur une ressource pour vous connecter.''),
      (''resource'', JStr ''Ressource''),
      (''yourSessionOpen'', JStr ''Votre session est ouverte''),
      (''inUseBy'', JStr (''Utilis'' @ e_acute @ ''e par {users}'')),
      (''free'', JStr ''Libre''),
      (''information'', JStr ''Informations''),
      (''address'', JStr ''Adresse''),
      (''zone'', JStr ''Zone''),
      (''route'', JStr ''Chemin''),
      (''riskLabel'', JStr ''Risque''),
      (''credentials'', JStr ''Identifiants''),
      (''vaulted'', JStr (''stock'' @ e_acute @ ''s dans le coffre'')),
      (''typedAtLogin'', JStr (''saisis '' @ a_grave @ '' la connexion'')),
      (''conditions'', JStr (''Conditions d'' @ apos @ ''acc'' @ e_grave @ ''s'')),
      (''whoIsIn'', JStr (''Qui est connect'' @ e_acute)),
      (''bastion'', JStr ''bastion''),
      (''activeSessions'', JStr ''{count} session(s) active(s)''),
      (''resourceCount'', JStr ''{count} ressource(s)''),
      (''type'', JStr ''Type''),
      (''access'', JStr (''Acc'' @ e_grave @ ''s'')),
      (''sessionCol'', JStr ''Session''),
      (''view'', JStr ''Vue''),
      (''viewMap'', JStr ''Carte''),
      (''viewList'', JStr ''Liste''),
      (''searchPlaceholder'', JStr ''Nom, adresse ou tag''),
      (''search'', JStr ''Rechercher une ressource''),
      (''lensLabel'', JStr ''Affichage''),
      (''allZones'', JStr ''Toutes les zones''),
      (''mineOnly'', JStr (''Mes acc'' @ e_grave @ ''s ouverts'')),
      (''emptyTitle'', JStr ''Aucune ressource pour le moment''),
      (''emptyAdmin'', JStr (''Ajoutez une premi'' @ e_grave @ ''re ressource pour la voir sur la carte.'')),
      (''emptyUser'',
        JStr (''Aucune ressource ne vous est encore attribu'' @ e_acute @ ''e. Demandez '' @ a_grave @
              '' un administrateur.'')),
      (''addResource'', JStr ''Ajouter une ressource''),
      (''zoneHint'',
        JStr ''Ressources sans zone : ajoutez un tag zone:<nom> dans Administration pour les regrouper.''),
      (''today'', JStr (''Aujourd'' @ apos @ ''hui'')),
      (''todayHint'', JStr ''cliquez une ligne pour la voir sur la carte''),
      (''showAll'', JStr ''Tout afficher''),
      (''details'', JStr (''D'' @ e_acute @ ''tails'')),
      (''risk'',
        JObj [
          (''low'', JStr ''faible''),
          (''medium'', JStr ''moyen''),
          (''high'', JStr (e_acute @ ''lev'' @ e_acute)),
          (''critical'', JStr ''critique'')]),
      (''lens'',
        JObj [
          (''access'', JStr (''Mes acc'' @ e_grave @ ''s'')),
          (''sessions'', JStr ''Sessions''),
          (''risk'', JStr ''Risque''),
          (''network'', JStr (''R'' @ e_acute @ ''seau''))])]"

lemma same_map: "same_texts texts_en_map texts_fr_map"
  unfolding texts_en_map_def texts_fr_map_def
  by (intro same_intros; simp add: walk_simps cong: holes_cong)

subsection \<open>nav\<close>

definition texts_en_nav :: json where
  "texts_en_nav = JObj [
      (''adminSections'', JStr ''Admin sections''),
      (''missionBoard'', JStr ''Mission board navigation''),
      (''alertNoiseFilter'', JStr ''Alert noise filter''),
      (''liveAlertFilterMode'', JStr ''Live alert filter mode'')]"

definition texts_fr_nav :: json where
  "texts_fr_nav = JObj [
      (''adminSections'', JStr (''Sections d'' @ apos @ ''administration'')),
      (''missionBoard'', JStr ''Navigation du tableau de bord''),
      (''alertNoiseFilter'', JStr ''Filtre de bruit des alertes''),
      (''liveAlertFilterMode'', JStr ''Mode de filtrage des alertes en direct'')]"

lemma same_nav: "same_texts texts_en_nav texts_fr_nav"
  unfolding texts_en_nav_def texts_fr_nav_def
  by (intro same_intros; simp add: walk_simps cong: holes_cong)

end
