(* ===== verification/TextsApp.thy ===== *)
theory TextsApp
  imports I18n
begin

section \<open>Texts of the interface (i18n.jsx): auth, bootstrap, admin, app, feedback, recordings, webproxy, time\<close>

text \<open>
  The sections of the dictionary in the order of the source, English and French, with what compares
  them: the same keys and the same placeholders.
\<close>

subsection \<open>auth\<close>

definition texts_en_auth :: json where
  "texts_en_auth = JObj [
      (''signIn'', JStr ''Sign in''),
      (''signOut'', JStr ''Sign out''),
      (''user'', JStr ''User''),
      (''username'', JStr ''Username''),
      (''password'', JStr ''Password''),
      (''currentPassword'', JStr ''Current password''),
      (''newPassword'', JStr ''New password''),
      (''confirmNewPassword'', JStr ''Confirm new password''),
      (''verifyAndSignIn'', JStr ''Verify & Sign in''),
      (''authenticatorCode'', JStr ''Authenticator code''),
      (''authenticatorCode6Digits'', JStr ''Authenticator Code (6 digits)''),
      (''usePasskey'', JStr ''Use passkey / security key''),
      (''waitingForSecurityKey'', JStr ''Waiting for security key...''),
      (''accessConsole'', JStr ''Access the WebBastion console to launch remote sessions.''),
      (''or'', JStr ''or''),
      (''ssoSignIn'', JStr ''Single sign-on (SSO)''),
      (''stepTwoOfTwo'', JStr ''Step 2 of 2''),
      (''verification'', JStr ''Verification''),
      (''enterTotpHint'', JStr ''Enter the 6-digit code from your authenticator app.''),
      (''usePasskeyHint'', JStr ''Confirm with your security key or passkey.''),
      (''lightMode'', JStr ''Light mode''),
      (''darkMode'', JStr ''Dark mode''),
      (''changePassword'', JStr ''Change password''),
      (''change'', JStr ''Change''),
      (''saveNewPassword'', JStr ''Save new password''),
      (''passwordPlaceholder'', JStr ''Min 8 chars, upper + lower + digit''),
      (''backToConsole'', JStr ''Back to console''),
      (''sessionExpired'', JStr ''Session expired. Please login again.''),
      (''expiresSoon'', JStr ''Your session ends in {time}. Sign in again now to keep going from this page.''),
      (''reconnectNow'', JStr ''Sign in again''),
      (''loginFailed'', JStr ''Login failed''),
      (''noPasskeyChallenge'', JStr ''No passkey challenge is available for this login.''),
      (''passkeyStillRequired'', JStr ''Passkey verification is still required.''),
      (''passkeySignInFailed'', JStr ''Passkey sign-in failed''),
      (''noSessionSelected'', JStr ''No session selected''),
      (''enterSshPassword'', JStr ''Enter SSH password''),
      (''connect'', JStr ''Connect'')]"

definition texts_fr_auth :: json where
  "texts_fr_auth = JObj [
      (''signIn'', JStr ''Connexion''),
      (''signOut'', JStr (''D'' @ e_acute @ ''connexion'')),
      (''user'', JStr ''Utilisateur''),
      (''username'', JStr (''Nom d'' @ apos @ ''utilisateur'')),
      (''password'', JStr ''Mot de passe''),
      (''currentPassword'', JStr ''Mot de passe actuel''),
      (''newPassword'', JStr ''Nouveau mot de passe''),
      (''confirmNewPassword'', JStr ''Confirmer le nouveau mot de passe''),
      (''verifyAndSignIn'', JStr (''V'' @ e_acute @ ''rifier et se connecter'')),
      (''authenticatorCode'', JStr ''Code authenticator''),
      (''authenticatorCode6Digits'', JStr ''Code authenticator (6 chiffres)''),
      (''usePasskey'', JStr (''Utiliser une passkey / cl'' @ e_acute @ '' de s'' @ e_acute @ ''curit'' @ e_acute)),
      (''waitingForSecurityKey'',
        JStr (''En attente de la cl'' @ e_acute @ '' de s'' @ e_acute @ ''curit'' @ e_acute @ ''...'')),
      (''accessConsole'',
        JStr (''Acc'' @ e_acute @ ''dez '' @ a_grave @
              '' la console WebBastion pour lancer des sessions distantes.'')),
      (''or'', JStr ''ou''),
      (''ssoSignIn'', JStr ''Authentification unique (SSO)''),
      (''stepTwoOfTwo'', JStr (E_acute @ ''tape 2 sur 2'')),
      (''verification'', JStr (''V'' @ e_acute @ ''rification'')),
      (''enterTotpHint'',
        JStr (''Saisissez le code '' @ a_grave @ '' 6 chiffres de votre application d'' @ apos @
              ''authentification.'')),
      (''usePasskeyHint'',
        JStr (''Confirmez avec votre cl'' @ e_acute @ '' de s'' @ e_acute @ ''curit'' @ e_acute @
              '' ou votre cl'' @ e_acute @ '' d'' @ apos @ ''acc'' @ e_grave @ ''s.'')),
      (''lightMode'', JStr ''Mode clair''),
      (''darkMode'', JStr ''Mode sombre''),
      (''changePassword'', JStr ''Changer le mot de passe''),
      (''change'', JStr ''Changer''),
      (''saveNewPassword'', JStr ''Enregistrer le nouveau mot de passe''),
      (''passwordPlaceholder'', JStr (''Min 8 caract'' @ e_grave @ ''res, maj + min + chiffre'')),
      (''backToConsole'', JStr (''Retour '' @ a_grave @ '' la console'')),
      (''sessionExpired'', JStr (''Session expir'' @ e_acute @ ''e. Veuillez vous reconnecter.'')),
      (''expiresSoon'',
        JStr ''Votre session se termine dans {time}. Reconnectez-vous maintenant pour reprendre sur cette page.''),
      (''reconnectNow'', JStr ''Se reconnecter''),
      (''loginFailed'', JStr (E_acute @ ''chec de connexion'')),
      (''noPasskeyChallenge'',
        JStr (''Aucun challenge passkey n'' @ apos @ ''est disponible pour cette connexion.'')),
      (''passkeyStillRequired'', JStr (''La v'' @ e_acute @ ''rification passkey est toujours requise.'')),
      (''passkeySignInFailed'', JStr (E_acute @ ''chec de connexion par passkey'')),
      (''noSessionSelected'', JStr (''Aucune session s'' @ e_acute @ ''lectionn'' @ e_acute @ ''e'')),
      (''enterSshPassword'', JStr ''Saisir le mot de passe SSH''),
      (''connect'', JStr ''Connexion'')]"

lemma same_auth: "same_texts texts_en_auth texts_fr_auth"
  unfolding texts_en_auth_def texts_fr_auth_def
  by (intro same_intros; simp add: walk_simps cong: holes_cong)

subsection \<open>bootstrap\<close>

definition texts_en_bootstrap :: json where
  "texts_en_bootstrap = JObj [
      (''title'', JStr ''Initial Security Setup''),
      (''heading'', JStr ''Secure the default admin account''),
      (''body'',
        JStr ''This first-run checkpoint is mandatory before using the platform. We need a private admin password and at least one MFA factor bound to the account: TOTP or a passkey.''),
      (''changeDefaultPassword'', JStr ''Change the default admin password''),
      (''enableMfa'', JStr ''Enable MFA for the admin account''),
      (''step1'', JStr ''Change the default password''),
      (''step2'', JStr ''Enable MFA with TOTP or passkey''),
      (''requiredNow'', JStr ''Required now''),
      (''done'', JStr ''Done''),
      (''pending'', JStr ''Pending''),
      (''currentStep'', JStr ''Current step: {step}''),
      (''newAdminPassword'', JStr ''New admin password''),
      (''finishHardening'',
        JStr ''Finish admin hardening with either a TOTP authenticator or a WebAuthn passkey such as a physical security key.''),
      (''startMfaSetup'', JStr ''Start MFA setup''),
      (''passkeyBrowserHint'',
        JStr ''Passkeys require a compatible browser in a secure context (HTTPS or localhost).''),
      (''totpHelp'',
        JStr ''Use the secret below in your authenticator app or OATH-TOTP hardware token, or copy the full `otpauth://` enrollment URI for compatible devices.''),
      (''qrAlt'', JStr ''Local TOTP QR Code''),
      (''manualSecret'', JStr ''Manual secret''),
      (''copySecret'', JStr ''Copy secret''),
      (''copyUri'', JStr ''Copy URI''),
      (''enrollmentUri'', JStr ''Enrollment URI''),
      (''verifyAndEnableMfa'', JStr ''Verify and enable MFA''),
      (''mfaEnabled'', JStr ''MFA enabled. The admin account is now secured.'')]"

definition texts_fr_bootstrap :: json where
  "texts_fr_bootstrap = JObj [
      (''title'', JStr (''Configuration initiale de s'' @ e_acute @ ''curit'' @ e_acute)),
      (''heading'', JStr (''S'' @ e_acute @ ''curiser le compte admin par d'' @ e_acute @ ''faut'')),
      (''body'',
        JStr (''Ce contr'' @ o_circ @ ''le au premier lancement est obligatoire avant d'' @ apos @
              ''utiliser la plateforme. Nous avons besoin d'' @ apos @ ''un mot de passe admin priv'' @ e_acute @
              '' et d'' @ apos @ ''au moins un facteur MFA li'' @ e_acute @ '' au compte : TOTP ou passkey.'')),
      (''changeDefaultPassword'', JStr (''Changer le mot de passe admin par d'' @ e_acute @ ''faut'')),
      (''enableMfa'', JStr ''Activer la MFA pour le compte admin''),
      (''step1'', JStr (''Changer le mot de passe par d'' @ e_acute @ ''faut'')),
      (''step2'', JStr ''Activer la MFA avec TOTP ou passkey''),
      (''requiredNow'', JStr ''Obligatoire maintenant''),
      (''done'', JStr (''Termin'' @ e_acute)),
      (''pending'', JStr ''En attente''),
      (''currentStep'', JStr (E_acute @ ''tape en cours : {step}'')),
      (''newAdminPassword'', JStr ''Nouveau mot de passe admin''),
      (''finishHardening'',
        JStr (''Terminez le durcissement admin avec un authenticator TOTP ou une passkey WebAuthn comme une cl'' @
              e_acute @ '' physique.'')),
      (''startMfaSetup'', JStr (''D'' @ e_acute @ ''marrer la configuration MFA'')),
      (''passkeyBrowserHint'',
        JStr (''Les passkeys n'' @ e_acute @ ''cessitent un navigateur compatible dans un contexte s'' @ e_acute @
              ''curis'' @ e_acute @ '' (HTTPS ou localhost).'')),
      (''totpHelp'',
        JStr (''Utilisez le secret ci-dessous dans votre application d'' @ apos @
              ''authentification ou votre token mat'' @ e_acute @ ''riel OATH-TOTP, ou copiez l'' @ apos @
              ''URI d'' @ apos @ ''enr'' @ o_circ @
              ''lement `otpauth://` complet pour les appareils compatibles.'')),
      (''qrAlt'', JStr ''QR code TOTP local''),
      (''manualSecret'', JStr ''Secret manuel''),
      (''copySecret'', JStr ''Copier le secret''),
      (''copyUri'', JStr (''Copier l'' @ apos @ ''URI'')),
      (''enrollmentUri'', JStr (''URI d'' @ apos @ ''enr'' @ o_circ @ ''lement'')),
      (''verifyAndEnableMfa'', JStr (''V'' @ e_acute @ ''rifier et activer la MFA'')),
      (''mfaEnabled'',
        JStr (''MFA activ'' @ e_acute @ ''e. Le compte admin est maintenant s'' @ e_acute @ ''curis'' @ e_acute @
              ''.''))]"

lemma same_bootstrap: "same_texts texts_en_bootstrap texts_fr_bootstrap"
  unfolding texts_en_bootstrap_def texts_fr_bootstrap_def
  by (intro same_intros; simp add: walk_simps cong: holes_cong)

subsection \<open>admin\<close>

definition texts_en_admin :: json where
  "texts_en_admin = JObj [
      (''console'', JStr ''Admin Console''),
      (''requiredTitle'', JStr ''Platform admin access required''),
      (''requiredMessage'',
        JStr ''Sign in with a platform admin account to manage users, resources, routing, and security.''),
      (''resources'', JStr ''Resources''),
      (''users'', JStr ''Users''),
      (''routing'', JStr ''Routing''),
      (''security'', JStr ''Security''),
      (''inventoryAndPolicies'', JStr ''Inventory and policies''),
      (''accountsAndAccessScope'', JStr ''Accounts and access scope''),
      (''relaysAndApprovals'', JStr ''Relays and approvals''),
      (''mfaAndPosture'', JStr ''MFA and posture''),
      (''pendingCount'', JStr ''{count} pending''),
      (''onlineCount'', JStr ''{count} online''),
      (''riskCount'', JStr ''{count} risk''),
      (''healthy'', JStr ''healthy''),
      (''newResource'', JStr ''New resource''),
      (''editResource'', JStr ''Edit resource''),
      (''identity'', JStr ''Identity''),
      (''name'', JStr ''Name''),
      (''description'', JStr ''Description''),
      (''imageUrl'', JStr ''Image URL''),
      (''visualUpload'', JStr ''Visual upload''),
      (''remove'', JStr ''Remove''),
      (''connectivity'', JStr ''Connectivity''),
      (''target'', JStr ''Target''),
      (''protocol'', JStr ''Protocol''),
      (''port'', JStr ''Port''),
      (''tunnelLimitPerMinute'', JStr ''Tunnel ticket limit / min''),
      (''unlimitedHint'', JStr ''0 = unlimited. Applied per user and per resource.''),
      (''httpUsernameOptional'', JStr ''HTTP Username (optional)''),
      (''httpPasswordOptional'', JStr ''HTTP Password (optional)''),
      (''sshUsernameVault'', JStr ''SSH Username (vault)''),
      (''sshPasswordVault'', JStr ''SSH Password (vault)''),
      (''leaveEmptyKeepCurrent'', JStr ''Leave empty to keep current''),
      (''storedSecurely'', JStr ''Stored securely, injected on connect''),
      (''accessPolicy'', JStr ''Access Policy''),
      (''justification'', JStr ''Justification''),
      (''justificationHint'', JStr ''Prompt for access reason before connect.''),
      (''enabledLabel'', JStr ''Enabled''),
      (''dualApprovalHint'', JStr ''Require review before session start.''),
      (''commandGuard'', JStr ''SSH command guard''),
      (''commandGuardHint'', JStr ''Block dangerous commands server-side.''),
      (''protected'', JStr ''Protected''),
      (''notEnforced'', JStr ''Not enforced''),
      (''adaptiveControlsHint'', JStr ''Raise requirements automatically based on risk.''),
      (''dynamic'', JStr ''Dynamic''),
      (''static'', JStr ''Static''),
      (''riskLevel'', JStr ''Risk level''),
      (''routingTitle'', JStr ''Routing''),
      (''directHint'', JStr ''Backend to target.''),
      (''relayHint'', JStr ''Through assigned relay.''),
      (''agentHint'', JStr ''Local tunnel path.''),
      (''creating'', JStr ''Creating...''),
      (''updating'', JStr ''Updating...''),
      (''createResource'', JStr ''Create resource''),
      (''updateResource'', JStr ''Update resource''),
      (''configuredTiles'', JStr ''{count} configured tiles''),
      (''noResources'', JStr ''No resources created yet.''),
      (''noUsers'', JStr ''No users created yet.''),
      (''relayFabric'', JStr ''Relay Fabric''),
      (''totalRelays'', JStr ''Total relays''),
      (''enrollment'', JStr ''Enrollment''),
      (''relayBootstrap'', JStr ''Relay Bootstrap''),
      (''installHelper'', JStr ''Install helper ({platform})''),
      (''hideAdvancedBootstrap'', JStr ''Hide advanced bootstrap''),
      (''showAdvancedBootstrap'', JStr ''Show advanced bootstrap''),
      (''manual'', JStr ''Manual''),
      (''generatingCertificate'', JStr ''Generating certificate...''),
      (''generateRelayCertificate'', JStr ''Generate relay certificate''),
      (''copyCertificate'', JStr ''Copy certificate''),
      (''generatingToken'', JStr ''Generating token...''),
      (''generateEnrollmentToken'', JStr ''Generate enrollment token''),
      (''copyToken'', JStr ''Copy token''),
      (''certificateId'', JStr ''Certificate ID''),
      (''certificate'', JStr ''Certificate''),
      (''token'', JStr ''Token''),
      (''expiresAt'', JStr ''Expires at: {value}''),
      (''enrollmentSecretMissing'', JStr ''Enrollment secret missing on backend.''),
      (''managedResources'', JStr ''Managed resources: {count}''),
      (''noRelayEnrolled'', JStr ''No relay enrolled yet.''),
      (''resourceRoutingAssignments'', JStr ''Resource Routing Assignments''),
      (''onlineRelaysOnly'', JStr ''Online relays only''),
      (''directNoRelay'', JStr ''direct (no relay)''),
      (''createResourcesBeforeAssigning'', JStr ''Create resources before assigning relay routes.''),
      (''accessRequests'', JStr ''Access Requests''),
      (''ticket'', JStr ''Ticket: {id}''),
      (''approve'', JStr ''Approve''),
      (''deny'', JStr ''Deny''),
      (''noAccessRequests'', JStr ''No access requests yet.''),
      (''newUser'', JStr ''New user''),
      (''editUser'', JStr ''Edit user''),
      (''role'', JStr ''Role''),
      (''requirePasswordRotation'', JStr ''Require password rotation on next sign-in''),
      (''createUser'', JStr ''Create user''),
      (''updateUser'', JStr ''Update user''),
      (''roleLabel'', JStr ''Role: {role}''),
      (''passwordRotationRequired'', JStr ''Password rotation required at next sign-in.''),
      (''mfaState'', JStr ''MFA {state}.''),
      (''mfaRequiredBeforePlatformUse'', JStr ''required before platform use''),
      (''accessScope'', JStr ''Access Scope''),
      (''noUserSelected'', JStr ''No user selected yet.''),
      (''loadingAccessScope'', JStr ''Loading access scope...''),
      (''resourceScope'', JStr ''Resource Scope''),
      (''noResourcesYet'', JStr ''No resources yet.''),
      (''rolePolicy'', JStr ''Role Policy''),
      (''grantedByRole'', JStr ''Granted by role: {role}''),
      (''securityPosture'', JStr ''Security Posture''),
      (''webauthnReady'', JStr ''WebAuthn ready''),
      (''webauthnNeedsAttention'', JStr ''WebAuthn needs attention''),
      (''actionNeeded'', JStr ''Action needed''),
      (''cleared'', JStr ''Cleared''),
      (''bootstrapPending'', JStr ''Bootstrap pending''),
      (''rpIdValid'', JStr ''RP ID valid''),
      (''rpIdInvalid'', JStr ''RP ID invalid''),
      (''originValid'', JStr ''Origin valid''),
      (''originInvalid'', JStr ''Origin invalid''),
      (''relayEnrollmentOn'', JStr ''Relay enrollment on''),
      (''relayEnrollmentOff'', JStr ''Relay enrollment off''),
      (''twoFactorAuthentication'', JStr ''Two-Factor Authentication''),
      (''flexible'', JStr ''Flexible''),
      (''preferTotp'', JStr ''Prefer TOTP''),
      (''preferPasskey'', JStr ''Prefer Passkey''),
      (''setupTotpMfa'', JStr ''Setup TOTP MFA''),
      (''enterCodeFromAuthenticator'', JStr ''Enter code from your authenticator or hardware token''),
      (''verifyAndEnable'', JStr ''Verify & Enable''),
      (''passkeyLabel'', JStr ''Passkey label''),
      (''registerPasskey'', JStr ''Register passkey''),
      (''registering'', JStr ''Registering...''),
      (''webauthnUnavailable'', JStr ''WebAuthn unavailable in this browser.''),
      (''passkey'', JStr ''Passkey''),
      (''addedAt'', JStr ''Added {value}''),
      (''usedAt'', JStr ''used {value}''),
      (''addAnotherFactor'', JStr ''Add another factor before removing the last passkey.''),
      (''currentTotpCode'', JStr ''Current TOTP code''),
      (''disable2fa'', JStr ''Disable 2FA''),
      (''registerPasskeyBeforeDisablingTotp'', JStr ''Register a passkey before disabling TOTP.'')]"

definition texts_fr_admin :: json where
  "texts_fr_admin = JObj [
      (''console'', JStr (''Console d'' @ apos @ ''administration'')),
      (''requiredTitle'', JStr (''Acc'' @ e_grave @ ''s administrateur requis'')),
      (''requiredMessage'',
        JStr (''Connectez-vous avec un compte administrateur plateforme pour g'' @ e_acute @
              ''rer les utilisateurs, ressources, routes et param'' @ e_grave @ ''tres de s'' @ e_acute @
              ''curit'' @ e_acute @ ''.'')),
      (''resources'', JStr ''Ressources''),
      (''users'', JStr ''Utilisateurs''),
      (''routing'', JStr ''Routage''),
      (''security'', JStr (''S'' @ e_acute @ ''curit'' @ e_acute)),
      (''inventoryAndPolicies'', JStr ''Inventaire et politiques''),
      (''accountsAndAccessScope'',
        JStr (''Comptes et p'' @ e_acute @ ''rim'' @ e_grave @ ''tres d'' @ apos @ ''acc'' @ e_grave @ ''s'')),
      (''relaysAndApprovals'', JStr ''Relais et approbations''),
      (''mfaAndPosture'', JStr ''MFA et posture''),
      (''pendingCount'', JStr ''{count} en attente''),
      (''onlineCount'', JStr ''{count} en ligne''),
      (''riskCount'', JStr (''{count} '' @ a_grave @ '' risque'')),
      (''healthy'', JStr ''sain''),
      (''newResource'', JStr ''Nouvelle ressource''),
      (''editResource'', JStr ''Modifier la ressource''),
      (''identity'', JStr (''Identit'' @ e_acute)),
      (''name'', JStr ''Nom''),
      (''description'', JStr ''Description''),
      (''imageUrl'', JStr (''URL de l'' @ apos @ ''image'')),
      (''visualUpload'', JStr ''Import visuel''),
      (''remove'', JStr ''Retirer''),
      (''connectivity'', JStr (''Connectivit'' @ e_acute)),
      (''target'', JStr ''Cible''),
      (''protocol'', JStr ''Protocole''),
      (''port'', JStr ''Port''),
      (''tunnelLimitPerMinute'', JStr ''Limite de tickets tunnel / min''),
      (''unlimitedHint'',
        JStr (''0 = illimit'' @ e_acute @ ''. Appliqu'' @ e_acute @ '' par utilisateur et par ressource.'')),
      (''httpUsernameOptional'', JStr (''Nom d'' @ apos @ ''utilisateur HTTP (optionnel)'')),
      (''httpPasswordOptional'', JStr ''Mot de passe HTTP (optionnel)''),
      (''sshUsernameVault'', JStr (''Nom d'' @ apos @ ''utilisateur SSH (vault)'')),
      (''sshPasswordVault'', JStr ''Mot de passe SSH (vault)''),
      (''leaveEmptyKeepCurrent'', JStr (''Laisser vide pour conserver l'' @ apos @ ''actuel'')),
      (''storedSecurely'',
        JStr (''Stock'' @ e_acute @ '' de fa'' @ c_cedil @ ''on s'' @ e_acute @ ''curis'' @ e_acute @
              ''e, inject'' @ e_acute @ '' '' @ a_grave @ '' la connexion'')),
      (''accessPolicy'', JStr (''Politique d'' @ apos @ ''acc'' @ e_grave @ ''s'')),
      (''justification'', JStr ''Justification''),
      (''justificationHint'', JStr (''Demander la raison d'' @ apos @ ''acc'' @ e_grave @ ''s avant connexion.'')),
      (''enabledLabel'', JStr (''Activ'' @ e_acute)),
      (''dualApprovalHint'', JStr (''Exiger une revue avant le d'' @ e_acute @ ''marrage de session.'')),
      (''commandGuard'', JStr ''Garde-fou des commandes SSH''),
      (''commandGuardHint'',
        JStr (''Bloquer les commandes dangereuses c'' @ o_circ @ ''t'' @ e_acute @ '' serveur.'')),
      (''protected'', JStr (''Prot'' @ e_acute @ ''g'' @ e_acute)),
      (''notEnforced'', JStr (''Non appliqu'' @ e_acute)),
      (''adaptiveControlsHint'', JStr ''Renforcer automatiquement les exigences selon le risque.''),
      (''dynamic'', JStr ''Dynamique''),
      (''static'', JStr ''Statique''),
      (''riskLevel'', JStr ''Niveau de risque''),
      (''routingTitle'', JStr ''Routage''),
      (''directHint'', JStr ''Backend vers la cible.''),
      (''relayHint'', JStr (''Via le relais assign'' @ e_acute @ ''.'')),
      (''agentHint'', JStr ''Chemin tunnel local.''),
      (''creating'', JStr (''Cr'' @ e_acute @ ''ation...'')),
      (''updating'', JStr (''Mise '' @ a_grave @ '' jour...'')),
      (''createResource'', JStr (''Cr'' @ e_acute @ ''er la ressource'')),
      (''updateResource'', JStr (''Mettre '' @ a_grave @ '' jour la ressource'')),
      (''configuredTiles'', JStr (''{count} tuiles configur'' @ e_acute @ ''es'')),
      (''noResources'', JStr (''Aucune ressource cr'' @ e_acute @ e_acute @ ''e pour le moment.'')),
      (''noUsers'', JStr (''Aucun utilisateur cr'' @ e_acute @ e_acute @ '' pour le moment.'')),
      (''relayFabric'', JStr ''Fabric des relais''),
      (''totalRelays'', JStr ''Total des relais''),
      (''enrollment'', JStr (''Enr'' @ o_circ @ ''lement'')),
      (''relayBootstrap'', JStr ''Bootstrap relais''),
      (''installHelper'', JStr (''Installer l'' @ apos @ ''assistant ({platform})'')),
      (''hideAdvancedBootstrap'', JStr (''Masquer le bootstrap avanc'' @ e_acute)),
      (''showAdvancedBootstrap'', JStr (''Afficher le bootstrap avanc'' @ e_acute)),
      (''manual'', JStr ''Manuel''),
      (''generatingCertificate'', JStr (''G'' @ e_acute @ ''n'' @ e_acute @ ''ration du certificat...'')),
      (''generateRelayCertificate'', JStr (''G'' @ e_acute @ ''n'' @ e_acute @ ''rer le certificat relais'')),
      (''copyCertificate'', JStr ''Copier le certificat''),
      (''generatingToken'', JStr (''G'' @ e_acute @ ''n'' @ e_acute @ ''ration du token...'')),
      (''generateEnrollmentToken'',
        JStr (''G'' @ e_acute @ ''n'' @ e_acute @ ''rer le token d'' @ apos @ ''enr'' @ o_circ @ ''lement'')),
      (''copyToken'', JStr ''Copier le token''),
      (''certificateId'', JStr ''ID du certificat''),
      (''certificate'', JStr ''Certificat''),
      (''token'', JStr ''Token''),
      (''expiresAt'', JStr ''Expire le : {value}''),
      (''enrollmentSecretMissing'',
        JStr (''Secret d'' @ apos @ ''enr'' @ o_circ @ ''lement manquant c'' @ o_circ @ ''t'' @ e_acute @
              '' backend.'')),
      (''managedResources'', JStr (''Ressources g'' @ e_acute @ ''r'' @ e_acute @ ''es : {count}'')),
      (''noRelayEnrolled'', JStr (''Aucun relais enr'' @ o_circ @ ''l'' @ e_acute @ '' pour le moment.'')),
      (''resourceRoutingAssignments'', JStr ''Affectations de routage des ressources''),
      (''onlineRelaysOnly'', JStr ''Relais en ligne uniquement''),
      (''directNoRelay'', JStr ''direct (sans relais)''),
      (''createResourcesBeforeAssigning'',
        JStr (''Cr'' @ e_acute @ ''ez des ressources avant d'' @ apos @ ''assigner des routes via relais.'')),
      (''accessRequests'', JStr (''Demandes d'' @ apos @ ''acc'' @ e_grave @ ''s'')),
      (''ticket'', JStr ''Ticket : {id}''),
      (''approve'', JStr ''Approuver''),
      (''deny'', JStr ''Refuser''),
      (''noAccessRequests'', JStr (''Aucune demande d'' @ apos @ ''acc'' @ e_grave @ ''s pour le moment.'')),
      (''newUser'', JStr ''Nouvel utilisateur''),
      (''editUser'', JStr (''Modifier l'' @ apos @ ''utilisateur'')),
      (''role'', JStr (''R'' @ o_circ @ ''le'')),
      (''requirePasswordRotation'',
        JStr (''Exiger un changement de mot de passe '' @ a_grave @ '' la prochaine connexion'')),
      (''createUser'', JStr (''Cr'' @ e_acute @ ''er l'' @ apos @ ''utilisateur'')),
      (''updateUser'', JStr (''Mettre '' @ a_grave @ '' jour l'' @ apos @ ''utilisateur'')),
      (''roleLabel'', JStr (''R'' @ o_circ @ ''le : {role}'')),
      (''passwordRotationRequired'',
        JStr (''Changement de mot de passe requis '' @ a_grave @ '' la prochaine connexion.'')),
      (''mfaState'', JStr ''MFA {state}.''),
      (''mfaRequiredBeforePlatformUse'', JStr ''requise avant utilisation de la plateforme''),
      (''accessScope'', JStr (''P'' @ e_acute @ ''rim'' @ e_grave @ ''tre d'' @ apos @ ''acc'' @ e_grave @ ''s'')),
      (''noUserSelected'', JStr (''Aucun utilisateur s'' @ e_acute @ ''lectionn'' @ e_acute @ '' pour le moment.'')),
      (''loadingAccessScope'',
        JStr (''Chargement du p'' @ e_acute @ ''rim'' @ e_grave @ ''tre d'' @ apos @ ''acc'' @ e_grave @
              ''s...'')),
      (''resourceScope'', JStr (''P'' @ e_acute @ ''rim'' @ e_grave @ ''tre des ressources'')),
      (''noResourcesYet'', JStr ''Aucune ressource pour le moment.''),
      (''rolePolicy'', JStr (''Politique de r'' @ o_circ @ ''le'')),
      (''grantedByRole'', JStr (''Accord'' @ e_acute @ '' par le r'' @ o_circ @ ''le : {role}'')),
      (''securityPosture'', JStr (''Posture de s'' @ e_acute @ ''curit'' @ e_acute)),
      (''webauthnReady'', JStr (''WebAuthn pr'' @ e_circ @ ''t'')),
      (''webauthnNeedsAttention'', JStr ''WebAuthn requiert une action''),
      (''actionNeeded'', JStr ''Action requise''),
      (''cleared'', JStr ''OK''),
      (''bootstrapPending'', JStr ''Bootstrap en attente''),
      (''rpIdValid'', JStr ''RP ID valide''),
      (''rpIdInvalid'', JStr ''RP ID invalide''),
      (''originValid'', JStr ''Origin valide''),
      (''originInvalid'', JStr ''Origin invalide''),
      (''relayEnrollmentOn'', JStr (''Enr'' @ o_circ @ ''lement relais activ'' @ e_acute)),
      (''relayEnrollmentOff'', JStr (''Enr'' @ o_circ @ ''lement relais d'' @ e_acute @ ''sactiv'' @ e_acute)),
      (''twoFactorAuthentication'', JStr (''Authentification '' @ a_grave @ '' deux facteurs'')),
      (''flexible'', JStr ''Flexible''),
      (''preferTotp'', JStr (''Pr'' @ e_acute @ ''f'' @ e_acute @ ''rer TOTP'')),
      (''preferPasskey'', JStr (''Pr'' @ e_acute @ ''f'' @ e_acute @ ''rer Passkey'')),
      (''setupTotpMfa'', JStr ''Configurer TOTP MFA''),
      (''enterCodeFromAuthenticator'',
        JStr (''Entrer le code de votre application d'' @ apos @ ''authentification ou token mat'' @ e_acute @
              ''riel'')),
      (''verifyAndEnable'', JStr (''V'' @ e_acute @ ''rifier et activer'')),
      (''passkeyLabel'', JStr (''Libell'' @ e_acute @ '' de passkey'')),
      (''registerPasskey'', JStr ''Enregistrer la passkey''),
      (''registering'', JStr ''Enregistrement...''),
      (''webauthnUnavailable'', JStr ''WebAuthn indisponible dans ce navigateur.''),
      (''passkey'', JStr ''Passkey''),
      (''addedAt'', JStr (''Ajout'' @ e_acute @ ''e {value}'')),
      (''usedAt'', JStr (''utilis'' @ e_acute @ ''e {value}'')),
      (''addAnotherFactor'',
        JStr (''Ajoutez un autre facteur avant de supprimer la derni'' @ e_grave @ ''re passkey.'')),
      (''currentTotpCode'', JStr ''Code TOTP actuel''),
      (''disable2fa'', JStr (''D'' @ e_acute @ ''sactiver la 2FA'')),
      (''registerPasskeyBeforeDisablingTotp'',
        JStr (''Enregistrez une passkey avant de d'' @ e_acute @ ''sactiver TOTP.''))]"

lemma same_admin: "same_texts texts_en_admin texts_fr_admin"
  unfolding texts_en_admin_def texts_fr_admin_def
  by (intro same_intros; simp add: walk_simps cong: holes_cong)

subsection \<open>app\<close>

definition texts_en_app_1 :: "(string \<times> json) list" where
  "texts_en_app_1 = [
      (''title'', JStr ''WebBastion Console''),
      (''subtitle'', JStr ''Minimal access console for SSH sessions and live supervision.''),
      (''admin'', JStr ''Admin''),
      (''accessWorkspace'', JStr ''Access Workspace''),
      (''chooseResource'', JStr ''Choose a resource and act''),
      (''chooseResourceHint'', JStr ''Risk, requirements, and launch path are visible before you connect.''),
      (''refreshData'', JStr ''Refresh data''),
      (''refreshing'', JStr ''Refreshing...''),
      (''overview'', JStr ''Overview''),
      (''overviewHint'', JStr ''Fast health and posture checks.''),
      (''overviewFocus'', JStr ''Review posture and recent sessions.''),
      (''sessions'', JStr ''Sessions''),
      (''sessionsHint'', JStr ''Operate live access.''),
      (''sessionsFocus'', JStr ''Start, monitor, and terminate active sessions.''),
      (''audit'', JStr ''Audit''),
      (''auditHint'', JStr ''Investigate events.''),
      (''auditFocus'', JStr ''Filter and inspect traceability records.''),
      (''recordings'', JStr ''Recordings''),
      (''recordingsHint'', JStr ''Replay captured evidence.''),
      (''recordingsFocus'', JStr ''Open SSH cast files and inspect timelines.''),
      (''operate'', JStr ''Operate''),
      (''trace'', JStr ''Trace''),
      (''evidence'', JStr ''Evidence''),
      (''liveAccess'', JStr ''Live Access''),
      (''investigation'', JStr ''Investigation''),
      (''replayVault'', JStr ''Replay Vault''),
      (''openAndSupervise'', JStr ''Open and supervise sessions.''),
      (''reviewEvents'', JStr ''Review events and trails.''),
      (''replayRecordedSsh'', JStr ''Replay recorded SSH sessions.''),
      (''alertNoiseFilter'', JStr ''Alert Noise Filter''),
      (''alertNoiseHint'', JStr ''Adjust how aggressively live alerts are surfaced while you work.''),
      (''resources'', JStr ''Resources''),
      (''totalSessions'', JStr ''Total sessions''),
      (''activeTokens'', JStr ''Active tokens''),
      (''resourcesHint'', JStr ''Open a tile to see what the session will require.''),
      (''tilesCount'', JStr ''{count} tiles''),
      (''vaultStored'', JStr ''Credentials stored in vault''),
      (''vault'', JStr ''vault''),
      (''launch'', JStr ''launch''),
      (''connectLower'', JStr ''connect''),
      (''noResourcesYet'', JStr ''No resources yet''),
      (''noResourcesMessage'', JStr ''Ask an admin to add a target or assign a resource to your scope.''),
      (''shownCount'', JStr ''{count} shown''),
      (''sessionPanelTitle'', JStr ''Sessions''),
      (''sessionPanelHint'', JStr ''Start, supervise, and terminate SSH access.''),
      (''activeCount'', JStr ''{count} active''),
      (''pendingApprovals'', JStr ''Pending Approvals''),
      (''pendingApprovalsHint'', JStr ''Latest dual-control requests awaiting admin action.''),
      (''noPendingApprovals'', JStr ''No pending approvals.''),
      (''completionRate'', JStr ''Completion rate''),
      (''terminatedSessionsTotal'', JStr ''Terminated sessions / total sessions''),
      (''averageDuration'', JStr ''Average duration''),
      (''basedOnClosedHistory'', JStr ''Based on closed session history''),
      (''staleActiveSessions'', JStr ''Stale active sessions''),
      (''activeOverHours'', JStr ''Active over 4 hours''),
      (''criticalSessionWatchlist'', JStr ''Critical Session Watchlist''),
      (''watchlistHint'', JStr ''Pin sessions to monitor status changes faster.''),
      (''watchedCount'', JStr ''{count} watched''),
      (''noWatchedSessions'', JStr ''No watched sessions yet. Use Pin on any session card.''),
      (''pinned'', JStr ''Pinned''),
      (''pin'', JStr ''Pin''),
      (''to'', JStr ''to''),
      (''viaRelay'', JStr ''via relay''),
      (''directRoute'', JStr ''direct route''),
      (''openedAt'', JStr ''Opened: {value}''),
      (''closedAt'', JStr ''Closed: {value}''),
      (''terminate'', JStr ''Terminate''),
      (''openAudit'', JStr ''Open audit''),
      (''sessionDna'', JStr ''Session DNA''),
      (''openLive'', JStr ''Open live''),
      (''shadowTitle'', JStr ''Shadow''),
      (''shadowObserve'', JStr ''Observe this session in real-time (read-only)''),
      (''auditLog'', JStr ''Audit log''),
      (''auditLogHint'', JStr ''Recent audit events and session actions.''),
      (''eventsCount'', JStr ''{count} events''),
      (''exportCsv'', JStr ''Export CSV''),
      (''clearFilter'', JStr ''Clear filter''),
      (''clearView'', JStr ''Clear view''),
      (''searchEvents'', JStr ''Search events...''),
      (''allTypes'', JStr ''All types''),
      (''login'', JStr ''Login''),
      (''logout'', JStr ''Logout''),
      (''loginFailure'', JStr ''Login Failure''),
      (''sessionCreate'', JStr ''Session Create''),
      (''sessionTerminate'', JStr ''Session Terminate''),
      (''sessionClose'', JStr ''Session Close''),
      (''resource'', JStr ''Resource''),
      (''credential'', JStr ''Credential''),
      (''tunnel'', JStr ''Tunnel''),
      (''auditorRoleHint'', JStr ''Sign in with Security Auditor or Platform Admin role.''),
      (''noSessionData'', JStr ''No session data''),
      (''noAuditEvents'', JStr ''No audit events available.''),
      (''loadingRecordingsView'', JStr ''Loading recordings view...''),
      (''preparingReplayWorkspace'', JStr ''Preparing the replay workspace.''),
      (''liveSshConsole'', JStr ''Live SSH console''),
      (''liveSshConsoleHint'', JStr ''Connect to the selected session with on-demand credentials.'')]"

definition texts_en_app_2 :: "(string \<times> json) list" where
  "texts_en_app_2 = [
      (''sshPassword'', JStr ''SSH password''),
      (''sshSnippetsStudio'', JStr ''SSH Snippets Studio''),
      (''sshSnippetsHint'', JStr ''Inject or execute repeatable operational commands without retyping.''),
      (''inject'', JStr ''Inject''),
      (''run'', JStr ''Run''),
      (''snippetLabel'', JStr ''Snippet label''),
      (''command'', JStr ''Command''),
      (''saveSnippet'', JStr ''Save snippet''),
      (''embeddedWebAccess'', JStr ''Embedded Web Access''),
      (''readOnlyObservation'', JStr ''Read-only observation of''),
      (''approvalRequestRequired'', JStr ''Approval Request Required''),
      (''connectionJustificationRequired'', JStr ''Connection Justification Required''),
      (''approvalWorkflowRequired'', JStr ''{name} requires an approval workflow before session start.''),
      (''containmentReasonRequired'', JStr ''{name} requires an access reason because containment mode is active.''),
      (''accessReasonRequired'', JStr ''{name} requires an access reason before opening the session.''),
      (''containmentContext'', JStr ''Containment context: {value}''),
      (''riskPreview'', JStr ''Risk Preview''),
      (''calculatingRiskScore'', JStr ''Calculating risk score...''),
      (''score'', JStr ''Score: {value}/100 ({risk})''),
      (''noFactors'', JStr ''No factors''),
      (''accessPlaybook'', JStr ''Access Playbook''),
      (''playbookSavedAt'', JStr ''Saved for this resource ({value}).''),
      (''noPlaybookYet'', JStr ''No playbook yet for this resource.''),
      (''apply'', JStr ''Apply''),
      (''accessReason'', JStr ''Access reason''),
      (''accessReasonPlaceholder'', JStr ''Describe why you need this access''),
      (''ticketChangeId'', JStr ''Ticket / Change ID (optional)''),
      (''ticketChangePlaceholder'', JStr ''INC-1234 / CHG-5678''),
      (''sessionPurpose'', JStr ''Session purpose''),
      (''requiredForHighRisk'', JStr ''(required for high-risk)''),
      (''optionalLabel'', JStr ''(optional)''),
      (''sessionPurposePlaceholder'', JStr ''Maintenance, incident response, onboarding...''),
      (''purposeEvidence'', JStr ''Purpose evidence (optional)''),
      (''purposeEvidencePlaceholder'', JStr ''Change request, SOP ref, ticket notes''),
      (''submitRequest'', JStr ''Submit request''),
      (''continue'', JStr ''Continue''),
      (''loadingChain'', JStr ''Loading chain...''),
      (''integrity'', JStr ''Integrity: {value}''),
      (''verified'', JStr ''verified''),
      (''mismatchDetected'', JStr ''mismatch detected''),
      (''noDnaEntries'', JStr ''No DNA entries for this session.''),
      (''agentTunnel'', JStr ''Agent Tunnel''),
      (''agentLocalConnection'', JStr ''Connection through the local EndoriumFort agent''),
      (''resourceLabel'', JStr ''Resource''),
      (''targetLabel'', JStr ''Target''),
      (''localPort'', JStr ''Local port''),
      (''fallbackCommand'', JStr ''Fallback command (if the protocol is not registered):''),
      (''deepLink'', JStr ''Deep-link:''),
      (''copied'', JStr ''Copied''),
      (''copyFailed'', JStr ''Failed''),
      (''copy'', JStr ''Copy''),
      (''copyLink'', JStr ''Copy link''),
      (''agentOpenBrowserTip'', JStr ''Once the tunnel is active, the agent automatically redirects to {value}.''),
      (''agentClientTip'', JStr ''Once the tunnel is active, connect your {protocol} client to {value}.''),
      (''openingAgentApp'', JStr ''Opening the agent application...''),
      (''missingProtocolHandler'',
        JStr ''The agent application does not appear to be registered as the protocol handler.''),
      (''quickInstall'', JStr ''Quick install ({platform}):''),
      (''copyInstall'', JStr ''Copy install''),
      (''openWithAgent'', JStr ''Open with agent''),
      (''newPort'', JStr ''New port''),
      (''closeLabel'', JStr ''Close''),
      (''vncViewer'', JStr ''VNC Viewer''),
      (''vncStatusConnecting'', JStr ''connecting''),
      (''vncStatusConnected'', JStr ''connected''),
      (''vncStatusDisconnected'', JStr ''disconnected''),
      (''vncStatusError'', JStr ''error''),
      (''vncLaunching'', JStr ''Initializing VNC session...''),
      (''vncDisconnectedClean'', JStr ''VNC session closed cleanly.''),
      (''vncDisconnectedUnclean'', JStr ''VNC stream interrupted. Check target reachability and retry.''),
      (''vncSecurityFailure'', JStr ''VNC security handshake failed.''),
      (''vncCredentialsRequired'',
        JStr ''The VNC server requested credentials that are not provisioned in browser mode.''),
      (''confirmSessionTermination'', JStr ''Confirm Session Termination''),
      (''confirmTerminateBody'',
        JStr ''You are about to terminate {count} active correlated suspect session(s). This action is immediate.''),
      (''terminating'', JStr ''Terminating...''),
      (''confirmTerminate'', JStr ''Confirm terminate''),
      (''escalationTriggered'', JStr ''Escalation Triggered''),
      (''criticalSignalsWindow'', JStr ''{count} critical signals in the last 5 minutes, triggered {value}''),
      (''containmentActive'', JStr ''Containment active''),
      (''byUser'', JStr ''by {value}''),
      (''activeCase'', JStr ''Active case #{id}''),
      (''openedBy'', JStr ''opened by {value}''),
      (''correlatedSessions'', JStr ''Correlated sessions (highest risk first):''),
      (''sessionScoreStatus'', JStr (''Session #{id} '' @ mid_dot @ '' score {score} '' @ mid_dot @ '' {status}'')),
      (''investigateNow'', JStr ''Investigate now''),
      (''switchToStrict'', JStr ''Switch to strict''),
      (''openingIncident'', JStr ''Opening incident...''),
      (''openIncidentCase'', JStr ''Open incident case''),
      (''closingIncident'', JStr ''Closing incident...''),
      (''closeIncidentCase'', JStr ''Close incident case''),
      (''enablingContainment'', JStr ''Enabling containment...''),
      (''enableContainment'', JStr ''Enable containment''),
      (''updatingContainment'', JStr ''Updating containment...''),
      (''disableContainment'', JStr ''Disable containment''),
      (''terminateActiveSuspects'', JStr ''Terminate active suspects ({count})''),
      (''dismiss'', JStr ''Dismiss''),
      (''healthApiReachable'', JStr ''API reachable''),
      (''healthStartBackend'', JStr ''Start the backend to enable health checks.'')]"

definition texts_en_app :: json where
  "texts_en_app = JObj (texts_en_app_1 @ texts_en_app_2)"

definition texts_fr_app_1 :: "(string \<times> json) list" where
  "texts_fr_app_1 = [
      (''title'', JStr ''Console WebBastion''),
      (''subtitle'',
        JStr (''Console d'' @ apos @ ''acc'' @ e_grave @
              ''s minimale pour sessions SSH et supervision en direct.'')),
      (''admin'', JStr ''Admin''),
      (''accessWorkspace'', JStr (''Espace d'' @ apos @ ''acc'' @ e_grave @ ''s'')),
      (''chooseResource'', JStr ''Choisir une ressource et agir''),
      (''chooseResourceHint'',
        JStr ''Le risque, les exigences et le chemin de lancement sont visibles avant connexion.''),
      (''refreshData'', JStr (''Rafra'' @ i_circ @ ''chir les donn'' @ e_acute @ ''es'')),
      (''refreshing'', JStr (''Rafra'' @ i_circ @ ''chissement...'')),
      (''overview'', JStr (''Vue d'' @ apos @ ''ensemble'')),
      (''overviewHint'', JStr (''V'' @ e_acute @ ''rifications rapides de sant'' @ e_acute @ '' et de posture.'')),
      (''overviewFocus'', JStr (''Revoir la posture et les sessions r'' @ e_acute @ ''centes.'')),
      (''sessions'', JStr ''Sessions''),
      (''sessionsHint'', JStr (''Op'' @ e_acute @ ''rer les acc'' @ e_grave @ ''s en direct.'')),
      (''sessionsFocus'', JStr (''D'' @ e_acute @ ''marrer, surveiller et terminer les sessions actives.'')),
      (''audit'', JStr ''Audit''),
      (''auditHint'', JStr (''Enqu'' @ e_circ @ ''ter sur les '' @ e_acute @ ''v'' @ e_acute @ ''nements.'')),
      (''auditFocus'',
        JStr (''Filtrer et inspecter les enregistrements de tra'' @ c_cedil @ ''abilit'' @ e_acute @ ''.'')),
      (''recordings'', JStr ''Enregistrements''),
      (''recordingsHint'', JStr (''Relire les preuves captur'' @ e_acute @ ''es.'')),
      (''recordingsFocus'', JStr ''Ouvrir les casts SSH et inspecter les timelines.''),
      (''operate'', JStr (''Op'' @ e_acute @ ''rer'')),
      (''trace'', JStr ''Tracer''),
      (''evidence'', JStr ''Preuve''),
      (''liveAccess'', JStr (''Acc'' @ e_grave @ ''s en direct'')),
      (''investigation'', JStr ''Investigation''),
      (''replayVault'', JStr ''Coffre de relecture''),
      (''openAndSupervise'', JStr ''Ouvrir et superviser les sessions.''),
      (''reviewEvents'', JStr (''Revoir les '' @ e_acute @ ''v'' @ e_acute @ ''nements et traces.'')),
      (''replayRecordedSsh'', JStr (''Relire les sessions SSH enregistr'' @ e_acute @ ''es.'')),
      (''alertNoiseFilter'', JStr ''Filtre de bruit des alertes''),
      (''alertNoiseHint'',
        JStr (''Ajustez l'' @ apos @ ''agressivit'' @ e_acute @ '' d'' @ apos @
              ''affichage des alertes en direct pendant le travail.'')),
      (''resources'', JStr ''Ressources''),
      (''totalSessions'', JStr ''Sessions totales''),
      (''activeTokens'', JStr ''Tokens actifs''),
      (''resourcesHint'', JStr ''Ouvrez une tuile pour voir ce que la session demandera.''),
      (''tilesCount'', JStr ''{count} tuiles''),
      (''vaultStored'', JStr (''Identifiants stock'' @ e_acute @ ''s dans le vault'')),
      (''vault'', JStr ''vault''),
      (''launch'', JStr ''launch''),
      (''connectLower'', JStr ''connexion''),
      (''noResourcesYet'', JStr ''Aucune ressource pour le moment''),
      (''noResourcesMessage'',
        JStr (''Demandez '' @ a_grave @ '' un admin d'' @ apos @
              ''ajouter une cible ou de vous attribuer une ressource.'')),
      (''shownCount'', JStr (''{count} affich'' @ e_acute @ ''es'')),
      (''sessionPanelTitle'', JStr ''Sessions''),
      (''sessionPanelHint'',
        JStr (''D'' @ e_acute @ ''marrer, superviser et terminer les acc'' @ e_grave @ ''s SSH.'')),
      (''activeCount'', JStr ''{count} actives''),
      (''pendingApprovals'', JStr ''Approbations en attente''),
      (''pendingApprovalsHint'',
        JStr (''Derni'' @ e_grave @ ''res demandes '' @ a_grave @ '' double contr'' @ o_circ @
              ''le en attente d'' @ apos @ ''action admin.'')),
      (''noPendingApprovals'', JStr ''Aucune approbation en attente.''),
      (''completionRate'', JStr (''Taux de compl'' @ e_acute @ ''tion'')),
      (''terminatedSessionsTotal'', JStr (''Sessions termin'' @ e_acute @ ''es / total des sessions'')),
      (''averageDuration'', JStr (''Dur'' @ e_acute @ ''e moyenne'')),
      (''basedOnClosedHistory'', JStr (''Bas'' @ e_acute @ '' sur l'' @ apos @ ''historique des sessions closes'')),
      (''staleActiveSessions'', JStr ''Sessions actives anciennes''),
      (''activeOverHours'', JStr ''Actives depuis plus de 4 heures''),
      (''criticalSessionWatchlist'', JStr ''Watchlist des sessions critiques''),
      (''watchlistHint'', JStr (E_acute @ ''pinglez des sessions pour suivre plus vite les changements de statut.'')),
      (''watchedCount'', JStr ''{count} suivies''),
      (''noWatchedSessions'',
        JStr (''Aucune session suivie pour le moment. Utilisez '' @ E_acute @
              ''pingler sur une carte de session.'')),
      (''pinned'', JStr (E_acute @ ''pingl'' @ e_acute @ ''e'')),
      (''pin'', JStr (E_acute @ ''pingler'')),
      (''to'', JStr ''vers''),
      (''viaRelay'', JStr ''via relais''),
      (''directRoute'', JStr ''route directe''),
      (''openedAt'', JStr ''Ouverte : {value}''),
      (''closedAt'', JStr (''Ferm'' @ e_acute @ ''e : {value}'')),
      (''terminate'', JStr ''Terminer''),
      (''openAudit'', JStr (''Ouvrir l'' @ apos @ ''audit'')),
      (''sessionDna'', JStr ''ADN de session''),
      (''openLive'', JStr ''Ouvrir en direct''),
      (''shadowTitle'', JStr ''Shadow''),
      (''shadowObserve'', JStr (''Observer cette session en temps r'' @ e_acute @ ''el (lecture seule)'')),
      (''auditLog'', JStr (''Journal d'' @ apos @ ''audit'')),
      (''auditLogHint'',
        JStr (E_acute @ ''v'' @ e_acute @ ''nements d'' @ apos @ ''audit r'' @ e_acute @
              ''cents et actions de session.'')),
      (''eventsCount'', JStr (''{count} '' @ e_acute @ ''v'' @ e_acute @ ''nements'')),
      (''exportCsv'', JStr ''Exporter CSV''),
      (''clearFilter'', JStr ''Effacer le filtre''),
      (''clearView'', JStr (''R'' @ e_acute @ ''initialiser la vue'')),
      (''searchEvents'', JStr (''Rechercher des '' @ e_acute @ ''v'' @ e_acute @ ''nements...'')),
      (''allTypes'', JStr ''Tous les types''),
      (''login'', JStr ''Connexion''),
      (''logout'', JStr (''D'' @ e_acute @ ''connexion'')),
      (''loginFailure'', JStr (E_acute @ ''chec de connexion'')),
      (''sessionCreate'', JStr (''Cr'' @ e_acute @ ''ation de session'')),
      (''sessionTerminate'', JStr ''Fin de session''),
      (''sessionClose'', JStr (''Cl'' @ o_circ @ ''ture de session'')),
      (''resource'', JStr ''Ressource''),
      (''credential'', JStr ''Identifiant''),
      (''tunnel'', JStr ''Tunnel''),
      (''auditorRoleHint'',
        JStr (''Connectez-vous avec le r'' @ o_circ @ ''le Auditeur s'' @ e_acute @ ''curit'' @ e_acute @
              '' ou Admin plateforme.'')),
      (''noSessionData'', JStr (''Aucune donn'' @ e_acute @ ''e de session'')),
      (''noAuditEvents'',
        JStr (''Aucun '' @ e_acute @ ''v'' @ e_acute @ ''nement d'' @ apos @ ''audit disponible.'')),
      (''loadingRecordingsView'', JStr ''Chargement de la vue des enregistrements...''),
      (''preparingReplayWorkspace'', JStr (''Pr'' @ e_acute @ ''paration de l'' @ apos @ ''espace de relecture.'')),
      (''liveSshConsole'', JStr ''Console SSH en direct''),
      (''liveSshConsoleHint'',
        JStr (''Connectez-vous '' @ a_grave @ '' la session s'' @ e_acute @ ''lectionn'' @ e_acute @
              ''e avec des identifiants '' @ a_grave @ '' la demande.''))]"

definition texts_fr_app_2 :: "(string \<times> json) list" where
  "texts_fr_app_2 = [
      (''sshPassword'', JStr ''Mot de passe SSH''),
      (''sshSnippetsStudio'', JStr ''Studio de snippets SSH''),
      (''sshSnippetsHint'',
        JStr (''Injectez ou ex'' @ e_acute @ ''cutez des commandes op'' @ e_acute @ ''rationnelles r'' @ e_acute @
              ''p'' @ e_acute @ ''tables sans retaper.'')),
      (''inject'', JStr ''Injecter''),
      (''run'', JStr (''Ex'' @ e_acute @ ''cuter'')),
      (''snippetLabel'', JStr (''Libell'' @ e_acute @ '' du snippet'')),
      (''command'', JStr ''Commande''),
      (''saveSnippet'', JStr ''Enregistrer le snippet''),
      (''embeddedWebAccess'', JStr (''Acc'' @ e_grave @ ''s web embarqu'' @ e_acute)),
      (''readOnlyObservation'', JStr ''Observation en lecture seule de''),
      (''approvalRequestRequired'', JStr (''Demande d'' @ apos @ ''approbation requise'')),
      (''connectionJustificationRequired'', JStr ''Justification de connexion requise''),
      (''approvalWorkflowRequired'',
        JStr (''{name} exige un workflow d'' @ apos @ ''approbation avant le d'' @ e_acute @
              ''marrage de session.'')),
      (''containmentReasonRequired'',
        JStr (''{name} exige une raison d'' @ apos @ ''acc'' @ e_grave @
              ''s car le mode confinement est actif.'')),
      (''accessReasonRequired'',
        JStr (''{name} exige une raison d'' @ apos @ ''acc'' @ e_grave @ ''s avant l'' @ apos @
              ''ouverture de la session.'')),
      (''containmentContext'', JStr ''Contexte de confinement : {value}''),
      (''riskPreview'', JStr (''Aper'' @ c_cedil @ ''u du risque'')),
      (''calculatingRiskScore'', JStr ''Calcul du score de risque...''),
      (''score'', JStr ''Score : {value}/100 ({risk})''),
      (''noFactors'', JStr ''Aucun facteur''),
      (''accessPlaybook'', JStr (''Playbook d'' @ apos @ ''acc'' @ e_grave @ ''s'')),
      (''playbookSavedAt'', JStr (''Enregistr'' @ e_acute @ '' pour cette ressource ({value}).'')),
      (''noPlaybookYet'', JStr ''Aucun playbook pour cette ressource.''),
      (''apply'', JStr ''Appliquer''),
      (''accessReason'', JStr (''Raison d'' @ apos @ ''acc'' @ e_grave @ ''s'')),
      (''accessReasonPlaceholder'',
        JStr (''D'' @ e_acute @ ''crivez pourquoi vous avez besoin de cet acc'' @ e_grave @ ''s'')),
      (''ticketChangeId'', JStr ''Ticket / ID de changement (optionnel)''),
      (''ticketChangePlaceholder'', JStr ''INC-1234 / CHG-5678''),
      (''sessionPurpose'', JStr ''Objectif de session''),
      (''requiredForHighRisk'', JStr ''(requis pour haut risque)''),
      (''optionalLabel'', JStr ''(optionnel)''),
      (''sessionPurposePlaceholder'',
        JStr (''Maintenance, r'' @ e_acute @ ''ponse '' @ a_grave @ '' incident, onboarding...'')),
      (''purposeEvidence'', JStr (''Preuve de l'' @ apos @ ''objectif (optionnel)'')),
      (''purposeEvidencePlaceholder'', JStr ''Change request, ref SOP, notes ticket''),
      (''submitRequest'', JStr ''Soumettre la demande''),
      (''continue'', JStr ''Continuer''),
      (''loadingChain'', JStr (''Chargement de la cha'' @ i_circ @ ''ne...'')),
      (''integrity'', JStr (''Int'' @ e_acute @ ''grit'' @ e_acute @ '' : {value}'')),
      (''verified'', JStr (''v'' @ e_acute @ ''rifi'' @ e_acute @ ''e'')),
      (''mismatchDetected'', JStr (e_acute @ ''cart d'' @ e_acute @ ''tect'' @ e_acute)),
      (''noDnaEntries'', JStr (''Aucune entr'' @ e_acute @ ''e ADN pour cette session.'')),
      (''agentTunnel'', JStr ''Tunnel agent''),
      (''agentLocalConnection'', JStr (''Connexion via l'' @ apos @ ''agent local EndoriumFort'')),
      (''resourceLabel'', JStr ''Ressource''),
      (''targetLabel'', JStr ''Cible''),
      (''localPort'', JStr ''Port local''),
      (''fallbackCommand'',
        JStr (''Commande de secours (si le protocole n'' @ apos @ ''est pas enregistr'' @ e_acute @ '') :'')),
      (''deepLink'', JStr ''Lien deep-link :''),
      (''copied'', JStr (''Copi'' @ e_acute)),
      (''copyFailed'', JStr (E_acute @ ''chec'')),
      (''copy'', JStr ''Copier''),
      (''copyLink'', JStr ''Copier le lien''),
      (''agentOpenBrowserTip'',
        JStr (''Une fois le tunnel actif, l'' @ apos @ ''agent redirige automatiquement vers {value}.'')),
      (''agentClientTip'', JStr ''Une fois le tunnel actif, connectez votre client {protocol} sur {value}.''),
      (''openingAgentApp'', JStr (''Ouverture de l'' @ apos @ ''application agent en cours...'')),
      (''missingProtocolHandler'',
        JStr (''L'' @ apos @ ''application agent ne semble pas enregistr'' @ e_acute @
              ''e comme handler du protocole.'')),
      (''quickInstall'', JStr ''Installation rapide ({platform}) :''),
      (''copyInstall'', JStr ''Copier install''),
      (''openWithAgent'', JStr (''Ouvrir avec l'' @ apos @ ''agent'')),
      (''newPort'', JStr ''Nouveau port''),
      (''closeLabel'', JStr ''Fermer''),
      (''vncViewer'', JStr ''Visionneuse VNC''),
      (''vncStatusConnecting'', JStr ''connexion''),
      (''vncStatusConnected'', JStr ''connectee''),
      (''vncStatusDisconnected'', JStr ''deconnectee''),
      (''vncStatusError'', JStr ''erreur''),
      (''vncLaunching'', JStr ''Initialisation de la session VNC...''),
      (''vncDisconnectedClean'', JStr ''Session VNC fermee proprement.''),
      (''vncDisconnectedUnclean'', JStr ''Flux VNC interrompu. Verifiez la cible puis reessayez.''),
      (''vncSecurityFailure'', JStr ''Echec du handshake de securite VNC.''),
      (''vncCredentialsRequired'',
        JStr ''Le serveur VNC a demande des identifiants non provisionnes en mode navigateur.''),
      (''confirmSessionTermination'', JStr ''Confirmer la terminaison de session''),
      (''confirmTerminateBody'',
        JStr (''Vous '' @ e_circ @ ''tes sur le point de terminer {count} session(s) suspecte(s) corr'' @
              e_acute @ ''l'' @ e_acute @ ''e(s) active(s). Cette action est imm'' @ e_acute @ ''diate.'')),
      (''terminating'', JStr (''Arr'' @ e_circ @ ''t...'')),
      (''confirmTerminate'', JStr ''Confirmer la terminaison''),
      (''escalationTriggered'', JStr (''Escalade d'' @ e_acute @ ''clench'' @ e_acute @ ''e'')),
      (''criticalSignalsWindow'',
        JStr (''{count} signaux critiques sur les 5 derni'' @ e_grave @ ''res minutes, d'' @ e_acute @
              ''clench'' @ e_acute @ '' {value}'')),
      (''containmentActive'', JStr ''Confinement actif''),
      (''byUser'', JStr ''par {value}''),
      (''activeCase'', JStr ''Cas actif #{id}''),
      (''openedBy'', JStr ''ouvert par {value}''),
      (''correlatedSessions'',
        JStr (''Sessions corr'' @ e_acute @ ''l'' @ e_acute @ ''es (plus haut risque en premier) :'')),
      (''sessionScoreStatus'', JStr (''Session #{id} '' @ mid_dot @ '' score {score} '' @ mid_dot @ '' {status}'')),
      (''investigateNow'', JStr (''Enqu'' @ e_circ @ ''ter maintenant'')),
      (''switchToStrict'', JStr ''Passer en strict''),
      (''openingIncident'', JStr (''Ouverture de l'' @ apos @ ''incident...'')),
      (''openIncidentCase'', JStr ''Ouvrir un incident''),
      (''closingIncident'', JStr (''Cl'' @ o_circ @ ''ture de l'' @ apos @ ''incident...'')),
      (''closeIncidentCase'', JStr (''Clore l'' @ apos @ ''incident'')),
      (''enablingContainment'', JStr ''Activation du confinement...''),
      (''enableContainment'', JStr ''Activer le confinement''),
      (''updatingContainment'', JStr (''Mise '' @ a_grave @ '' jour du confinement...'')),
      (''disableContainment'', JStr (''D'' @ e_acute @ ''sactiver le confinement'')),
      (''terminateActiveSuspects'', JStr ''Terminer les suspects actifs ({count})''),
      (''dismiss'', JStr ''Ignorer''),
      (''healthApiReachable'', JStr ''API joignable''),
      (''healthStartBackend'',
        JStr (''D'' @ e_acute @ ''marrez le backend pour activer les contr'' @ o_circ @ ''les de sant'' @
              e_acute @ ''.''))]"

definition texts_fr_app :: json where
  "texts_fr_app = JObj (texts_fr_app_1 @ texts_fr_app_2)"

lemma same_app: "same_texts texts_en_app texts_fr_app"
  unfolding texts_en_app_1_def texts_en_app_2_def texts_en_app_def texts_fr_app_1_def texts_fr_app_2_def texts_fr_app_def append.simps
  by (intro same_intros; simp add: walk_simps cong: holes_cong)

subsection \<open>feedback\<close>

definition texts_en_feedback :: json where
  "texts_en_feedback = JObj [
      (''unableRefreshData'', JStr ''Unable to refresh data''),
      (''unableTerminateSession'', JStr ''Unable to terminate session''),
      (''unableLoadAudit'', JStr ''Unable to load audit log''),
      (''manualPasswordRequired'', JStr ''Manual password required for this session.''),
      (''autoReconnectAttempt'', JStr ''Attempting automatic reconnect with vault credentials...''),
      (''sessionResuming'', JStr (''Resuming your session'' @ hellip)),
      (''sessionResumed'', JStr ''Session resumed: the shell kept running while the page reloaded.''),
      (''vaultCredentialsLoaded'', JStr ''Vault credentials loaded. Reconnecting...''),
      (''vaultInjected'', JStr ''Connecting with the vaulted account: the bastion injects its password.''),
      (''automaticCredentialRecoveryFailed'',
        JStr ''Automatic credential recovery failed. Enter password manually.''),
      (''pickSessionToConnect'', JStr ''Pick a session to connect.''),
      (''sshPasswordRequired'', JStr ''SSH password is required.''),
      (''signInFirst'', JStr ''Sign in first.''),
      (''agentTokenUnavailable'', JStr ''Could not prepare the agent link. Try again.''),
      (''terminalInitializing'', JStr ''Terminal is initializing... retrying.''),
      (''sshError'', JStr ''SSH error''),
      (''sshHostUnknown'', JStr ''Unknown address: the bastion cannot find this server.''),
      (''sshUnreachable'', JStr ''The server does not answer on this port (down, firewall or wrong port).''),
      (''sshHandshake'', JStr ''The server refused the SSH negotiation.''),
      (''sshAuthFailed'', JStr ''Account or password refused by the server.''),
      (''sshNoCredential'', JStr ''No password available for this session.''),
      (''sshRejected'', JStr ''SSH live connection rejected. Session may be expired; re-login and retry.''),
      (''sshInterrupted'', JStr ''SSH live connection interrupted (auth or proxy). Re-login and retry.''),
      (''websocketTransportError'',
        JStr ''WebSocket transport error. Check reverse proxy routing and session authentication.''),
      (''connectTerminalBeforeSnippets'', JStr ''Connect the SSH terminal before sending snippets.''),
      (''snippetExecuted'', JStr ''Snippet executed: {label}''),
      (''snippetInjected'', JStr ''Snippet injected (press Enter to run): {label}''),
      (''snippetRequired'', JStr ''Snippet label and command are required.''),
      (''snippetSaved'', JStr ''Snippet saved: {label}''),
      (''unableSaveResource'', JStr ''Unable to save resource''),
      (''unableDeleteResource'', JStr ''Unable to delete resource''),
      (''unableSaveUser'', JStr ''Unable to save user''),
      (''unableDeleteUser'', JStr ''Unable to delete user''),
      (''unableLoadAccessScope'', JStr ''Unable to load access scope''),
      (''unableModifyResourceScope'', JStr ''Unable to modify resource scope''),
      (''unableUpdateRelayAssignment'', JStr ''Unable to update relay assignment''),
      (''unableIssueRelayToken'', JStr ''Unable to issue relay enrollment token''),
      (''unableIssueRelayCertificate'', JStr ''Unable to issue relay certificate''),
      (''certificateCopied'', JStr ''Certificate copied''),
      (''tokenCopied'', JStr ''Token copied''),
      (''copyFailed'', JStr ''Copy failed''),
      (''failedSetup2fa'', JStr ''Failed to setup 2FA''),
      (''invalidCode'', JStr ''Invalid code''),
      (''copiedLabel'', JStr ''{label} copied''),
      (''unableCopyLabel'', JStr ''Unable to copy {label}''),
      (''failedRegisterPasskey'', JStr ''Failed to register passkey''),
      (''currentOrigin'', JStr ''Current origin: {value}''),
      (''failedRemovePasskey'', JStr ''Failed to remove passkey''),
      (''failedSaveMfaPreference'', JStr ''Failed to save MFA preference''),
      (''unableResolveRelayBindings'', JStr ''Unable to resolve current relay bindings''),
      (''unableLoadRecordings'', JStr ''Unable to load recordings''),
      (''unableLoadRecording'', JStr ''Unable to load recording''),
      (''shadowConnected'', JStr ''[SHADOW MODE] Connected to session #{id} - Read-only observation''),
      (''shadowInfo'', JStr ''[INFO] {message}''),
      (''passwordsDoNotMatch'', JStr ''New passwords do not match''),
      (''passwordUpdatedContinueMfa'',
        JStr ''Password updated. Let us finish MFA setup to secure the admin account.''),
      (''passwordChanged'', JStr ''Password changed successfully''),
      (''failedChangePassword'', JStr ''Failed to change password''),
      (''sessionStatusChanged'', JStr ''Session #{id} status changed: {from} -> {to}'')]"

definition texts_fr_feedback :: json where
  "texts_fr_feedback = JObj [
      (''unableRefreshData'', JStr (''Impossible de rafra'' @ i_circ @ ''chir les donn'' @ e_acute @ ''es'')),
      (''unableTerminateSession'', JStr ''Impossible de terminer la session''),
      (''unableLoadAudit'', JStr (''Impossible de charger le journal d'' @ apos @ ''audit'')),
      (''manualPasswordRequired'', JStr ''Mot de passe manuel requis pour cette session.''),
      (''autoReconnectAttempt'', JStr ''Tentative de reconnexion automatique avec les identifiants du vault...''),
      (''sessionResuming'', JStr (''Reprise de votre session'' @ hellip)),
      (''sessionResumed'',
        JStr (''Session reprise : le shell a continu'' @ e_acute @
              '' de tourner pendant le rechargement de la page.'')),
      (''vaultCredentialsLoaded'', JStr (''Identifiants du vault charg'' @ e_acute @ ''s. Reconnexion...'')),
      (''vaultInjected'', JStr ''Connexion avec le compte du coffre : le bastion injecte son mot de passe.''),
      (''automaticCredentialRecoveryFailed'',
        JStr (''La r'' @ e_acute @ ''cup'' @ e_acute @ ''ration automatique des identifiants a '' @ e_acute @
              ''chou'' @ e_acute @ ''. Saisissez le mot de passe manuellement.'')),
      (''pickSessionToConnect'', JStr (''Choisissez une session '' @ a_grave @ '' connecter.'')),
      (''sshPasswordRequired'', JStr ''Le mot de passe SSH est requis.''),
      (''signInFirst'', JStr (''Connectez-vous d'' @ apos @ ''abord.'')),
      (''agentTokenUnavailable'',
        JStr (''Impossible de pr'' @ e_acute @ ''parer le lien de l'' @ apos @ ''agent. R'' @ e_acute @
              ''essayez.'')),
      (''terminalInitializing'', JStr (''Le terminal s'' @ apos @ ''initialise... nouvelle tentative.'')),
      (''sshError'', JStr ''Erreur SSH''),
      (''sshHostUnknown'', JStr ''Adresse inconnue : le bastion ne trouve pas ce serveur.''),
      (''sshUnreachable'',
        JStr (''Le serveur ne r'' @ e_acute @ ''pond pas sur ce port ('' @ e_acute @
              ''teint, pare-feu ou mauvais port).'')),
      (''sshHandshake'', JStr (''Le serveur a refus'' @ e_acute @ '' la n'' @ e_acute @ ''gociation SSH.'')),
      (''sshAuthFailed'', JStr (''Compte ou mot de passe refus'' @ e_acute @ '' par le serveur.'')),
      (''sshNoCredential'', JStr ''Aucun mot de passe disponible pour cette session.''),
      (''sshRejected'',
        JStr (''La connexion SSH en direct a '' @ e_acute @ ''t'' @ e_acute @ '' refus'' @ e_acute @
              ''e. La session est peut-'' @ e_circ @ ''tre expir'' @ e_acute @ ''e ; reconnectez-vous puis r'' @
              e_acute @ ''essayez.'')),
      (''sshInterrupted'',
        JStr (''La connexion SSH en direct a '' @ e_acute @ ''t'' @ e_acute @
              '' interrompue (auth ou proxy). Reconnectez-vous puis r'' @ e_acute @ ''essayez.'')),
      (''websocketTransportError'',
        JStr (''Erreur de transport WebSocket. V'' @ e_acute @ ''rifiez le reverse proxy et l'' @ apos @
              ''authentification de session.'')),
      (''connectTerminalBeforeSnippets'',
        JStr (''Connectez le terminal SSH avant d'' @ apos @ ''envoyer des snippets.'')),
      (''snippetExecuted'', JStr (''Snippet ex'' @ e_acute @ ''cut'' @ e_acute @ '' : {label}'')),
      (''snippetInjected'',
        JStr (''Snippet inject'' @ e_acute @ '' (appuyez sur Entr'' @ e_acute @ ''e pour l'' @ apos @ ''ex'' @
              e_acute @ ''cuter) : {label}'')),
      (''snippetRequired'', JStr (''Le libell'' @ e_acute @ '' et la commande du snippet sont requis.'')),
      (''snippetSaved'', JStr (''Snippet enregistr'' @ e_acute @ '' : {label}'')),
      (''unableSaveResource'', JStr (''Impossible d'' @ apos @ ''enregistrer la ressource'')),
      (''unableDeleteResource'', JStr ''Impossible de supprimer la ressource''),
      (''unableSaveUser'', JStr (''Impossible d'' @ apos @ ''enregistrer l'' @ apos @ ''utilisateur'')),
      (''unableDeleteUser'', JStr (''Impossible de supprimer l'' @ apos @ ''utilisateur'')),
      (''unableLoadAccessScope'',
        JStr (''Impossible de charger le p'' @ e_acute @ ''rim'' @ e_grave @ ''tre d'' @ apos @ ''acc'' @
              e_grave @ ''s'')),
      (''unableModifyResourceScope'',
        JStr (''Impossible de modifier le p'' @ e_acute @ ''rim'' @ e_grave @ ''tre des ressources'')),
      (''unableUpdateRelayAssignment'',
        JStr (''Impossible de mettre '' @ a_grave @ '' jour l'' @ apos @ ''affectation du relais'')),
      (''unableIssueRelayToken'',
        JStr (''Impossible d'' @ apos @ e_acute @ ''mettre le token d'' @ apos @ ''enr'' @ o_circ @
              ''lement du relais'')),
      (''unableIssueRelayCertificate'',
        JStr (''Impossible d'' @ apos @ e_acute @ ''mettre le certificat du relais'')),
      (''certificateCopied'', JStr (''Certificat copi'' @ e_acute)),
      (''tokenCopied'', JStr (''Token copi'' @ e_acute)),
      (''copyFailed'', JStr (E_acute @ ''chec de copie'')),
      (''failedSetup2fa'', JStr ''Impossible de configurer la 2FA''),
      (''invalidCode'', JStr ''Code invalide''),
      (''copiedLabel'', JStr (''{label} copi'' @ e_acute)),
      (''unableCopyLabel'', JStr ''Impossible de copier {label}''),
      (''failedRegisterPasskey'', JStr (''Impossible d'' @ apos @ ''enregistrer la passkey'')),
      (''currentOrigin'', JStr ''Origine actuelle : {value}''),
      (''failedRemovePasskey'', JStr ''Impossible de supprimer la passkey''),
      (''failedSaveMfaPreference'',
        JStr (''Impossible d'' @ apos @ ''enregistrer la pr'' @ e_acute @ ''f'' @ e_acute @ ''rence MFA'')),
      (''unableResolveRelayBindings'',
        JStr (''Impossible de r'' @ e_acute @ ''soudre les affectations de relais actuelles'')),
      (''unableLoadRecordings'', JStr ''Impossible de charger les enregistrements''),
      (''unableLoadRecording'', JStr (''Impossible de charger l'' @ apos @ ''enregistrement'')),
      (''shadowConnected'',
        JStr (''[MODE SHADOW] Connect'' @ e_acute @ '' '' @ a_grave @
              '' la session #{id} - Observation en lecture seule'')),
      (''shadowInfo'', JStr ''[INFO] {message}''),
      (''passwordsDoNotMatch'', JStr ''Les nouveaux mots de passe ne correspondent pas''),
      (''passwordUpdatedContinueMfa'',
        JStr (''Mot de passe mis '' @ a_grave @ '' jour. Terminons maintenant la configuration MFA pour s'' @
              e_acute @ ''curiser le compte admin.'')),
      (''passwordChanged'', JStr (''Mot de passe modifi'' @ e_acute @ '' avec succ'' @ e_grave @ ''s'')),
      (''failedChangePassword'', JStr ''Impossible de changer le mot de passe''),
      (''sessionStatusChanged'', JStr (''Le statut de la session #{id} a chang'' @ e_acute @ '' : {from} -> {to}''))]"

lemma same_feedback: "same_texts texts_en_feedback texts_fr_feedback"
  unfolding texts_en_feedback_def texts_fr_feedback_def
  by (intro same_intros; simp add: walk_simps cong: holes_cong)

subsection \<open>recordings\<close>

definition texts_en_recordings :: json where
  "texts_en_recordings = JObj [
      (''title'', JStr ''Session Recordings''),
      (''subtitle'', JStr ''Replay SSH sessions and inspect recorded evidence.''),
      (''recordingsCount'', JStr ''{count} recordings''),
      (''resetPlayer'', JStr ''Reset player''),
      (''recordingLabel'', JStr ''Recording #{id} - Session #{sessionId}''),
      (''duration'', JStr ''Duration: {value}''),
      (''inProgress'', JStr ''in progress''),
      (''size'', JStr ''Size: {value}''),
      (''play'', JStr ''Play''),
      (''playing'', JStr ''Playing''),
      (''emptyTitle'', JStr ''No recordings available''),
      (''emptyMessage'', JStr ''Replay data will appear here after SSH sessions are captured.''),
      (''replayTitle'', JStr ''Replay - Recording #{id}''),
      (''pause'', JStr ''Pause''),
      (''eventsCount'', JStr ''{index}/{total} events''),
      (''animatedReplay'', JStr ''Animated replay powered by xterm.js.'')]"

definition texts_fr_recordings :: json where
  "texts_fr_recordings = JObj [
      (''title'', JStr ''Enregistrements de session''),
      (''subtitle'', JStr (''Relire les sessions SSH et inspecter les preuves enregistr'' @ e_acute @ ''es.'')),
      (''recordingsCount'', JStr ''{count} enregistrements''),
      (''resetPlayer'', JStr (''R'' @ e_acute @ ''initialiser le lecteur'')),
      (''recordingLabel'', JStr ''Enregistrement #{id} - Session #{sessionId}''),
      (''duration'', JStr (''Dur'' @ e_acute @ ''e : {value}'')),
      (''inProgress'', JStr ''en cours''),
      (''size'', JStr ''Taille : {value}''),
      (''play'', JStr ''Lire''),
      (''playing'', JStr ''Lecture''),
      (''emptyTitle'', JStr ''Aucun enregistrement disponible''),
      (''emptyMessage'',
        JStr (''Les donn'' @ e_acute @ ''es de relecture appara'' @ i_circ @ ''tront ici apr'' @ e_grave @
              ''s capture des sessions SSH.'')),
      (''replayTitle'', JStr ''Relecture - Enregistrement #{id}''),
      (''pause'', JStr ''Pause''),
      (''eventsCount'', JStr (''{index}/{total} '' @ e_acute @ ''v'' @ e_acute @ ''nements'')),
      (''animatedReplay'', JStr (''Relecture anim'' @ e_acute @ ''e propuls'' @ e_acute @ ''e par xterm.js.''))]"

lemma same_recordings: "same_texts texts_en_recordings texts_fr_recordings"
  unfolding texts_en_recordings_def texts_fr_recordings_def
  by (intro same_intros; simp add: walk_simps cong: holes_cong)

subsection \<open>webproxy\<close>

definition texts_en_webproxy :: json where
  "texts_en_webproxy = JObj [
      (''dashboard'', JStr ''Back to dashboard''),
      (''back'', JStr ''Back''),
      (''secureAccess'', JStr ''Secure access through the bastion''),
      (''newTab'', JStr ''New tab''),
      (''newTabTitle'', JStr ''Open in a new tab for HTTP authentication''),
      (''loading'', JStr ''Loading content...''),
      (''resourceTitle'', JStr ''Resource #{id}''),
      (''iframeTitle'', JStr ''Proxy for {name}'')]"

definition texts_fr_webproxy :: json where
  "texts_fr_webproxy = JObj [
      (''dashboard'', JStr ''Retour au tableau de bord''),
      (''back'', JStr ''Retour''),
      (''secureAccess'', JStr (''Acc'' @ e_grave @ ''s s'' @ e_acute @ ''curis'' @ e_acute @ '' via le bastion'')),
      (''newTab'', JStr ''Nouvel onglet''),
      (''newTabTitle'', JStr (''Ouvrir dans un nouvel onglet pour l'' @ apos @ ''authentification HTTP'')),
      (''loading'', JStr ''Chargement du contenu...''),
      (''resourceTitle'', JStr ''Ressource #{id}''),
      (''iframeTitle'', JStr ''Proxy pour {name}'')]"

lemma same_webproxy: "same_texts texts_en_webproxy texts_fr_webproxy"
  unfolding texts_en_webproxy_def texts_fr_webproxy_def
  by (intro same_intros; simp add: walk_simps cong: holes_cong)

subsection \<open>time\<close>

definition texts_en_time :: json where
  "texts_en_time = JObj [
      (''justNow'', JStr ''just now''),
      (''minutesAgo'', JStr ''{count}m ago''),
      (''hoursAgo'', JStr ''{count}h ago''),
      (''daysAgo'', JStr ''{count}d ago'')]"

definition texts_fr_time :: json where
  "texts_fr_time = JObj [
      (''justNow'', JStr (a_grave @ '' l'' @ apos @ ''instant'')),
      (''minutesAgo'', JStr ''il y a {count} min''),
      (''hoursAgo'', JStr ''il y a {count} h''),
      (''daysAgo'', JStr ''il y a {count} j'')]"

lemma same_time: "same_texts texts_en_time texts_fr_time"
  unfolding texts_en_time_def texts_fr_time_def
  by (intro same_intros; simp add: walk_simps cong: holes_cong)

end
