(* ===== verification/Translations.thy ===== *)
theory Translations
  imports TextsGeneral TextsPages TextsResources TextsSecurity TextsDialogs TextsApp
begin

section \<open>The dictionary (i18n.jsx)\<close>

text \<open>
  The dictionary put together from its sections, and the functions the provider hands to
  the page.  \<open>t\<close> is the translation the other theories take as a parameter.
\<close>

definition texts_en :: json where
  "texts_en = JObj [
      (''confirm'', texts_en_confirm),
      (''common'', texts_en_common),
      (''roles'', texts_en_roles),
      (''policy'', texts_en_policy),
      (''shell'', texts_en_shell),
      (''req'', texts_en_req),
      (''relayLock'', texts_en_relayLock),
      (''reports'', texts_en_reports),
      (''journal'', texts_en_journal),
      (''evidence'', texts_en_evidence),
      (''zones'', texts_en_zones),
      (''adminE'', texts_en_adminE),
      (''users'', texts_en_users),
      (''files'', texts_en_files),
      (''sshTransfer'', texts_en_sshTransfer),
      (''resAdmin'', texts_en_resAdmin),
      (''jit'', texts_en_jit),
      (''relays'', texts_en_relays),
      (''vault'', texts_en_vault),
      (''sec'', texts_en_sec),
      (''sshGuard'', texts_en_sshGuard),
      (''dbGuard'', texts_en_dbGuard),
      (''threats'', texts_en_threats),
      (''apiTokens'', texts_en_apiTokens),
      (''mfa'', texts_en_mfa),
      (''settings'', texts_en_settings),
      (''integrations'', texts_en_integrations),
      (''k8s'', texts_en_k8s),
      (''license'', texts_en_license),
      (''account'', texts_en_account),
      (''dlg'', texts_en_dlg),
      (''live'', texts_en_live),
      (''agentDlg'', texts_en_agentDlg),
      (''viewer'', texts_en_viewer),
      (''start'', texts_en_start),
      (''appearance'', texts_en_appearance),
      (''about'', texts_en_about),
      (''sess'', texts_en_sess),
      (''map'', texts_en_map),
      (''nav'', texts_en_nav),
      (''auth'', texts_en_auth),
      (''bootstrap'', texts_en_bootstrap),
      (''admin'', texts_en_admin),
      (''app'', texts_en_app),
      (''feedback'', texts_en_feedback),
      (''recordings'', texts_en_recordings),
      (''webproxy'', texts_en_webproxy),
      (''time'', texts_en_time)]"

definition texts_fr :: json where
  "texts_fr = JObj [
      (''confirm'', texts_fr_confirm),
      (''common'', texts_fr_common),
      (''roles'', texts_fr_roles),
      (''policy'', texts_fr_policy),
      (''shell'', texts_fr_shell),
      (''req'', texts_fr_req),
      (''relayLock'', texts_fr_relayLock),
      (''reports'', texts_fr_reports),
      (''journal'', texts_fr_journal),
      (''evidence'', texts_fr_evidence),
      (''zones'', texts_fr_zones),
      (''adminE'', texts_fr_adminE),
      (''users'', texts_fr_users),
      (''files'', texts_fr_files),
      (''sshTransfer'', texts_fr_sshTransfer),
      (''resAdmin'', texts_fr_resAdmin),
      (''jit'', texts_fr_jit),
      (''relays'', texts_fr_relays),
      (''vault'', texts_fr_vault),
      (''sec'', texts_fr_sec),
      (''sshGuard'', texts_fr_sshGuard),
      (''dbGuard'', texts_fr_dbGuard),
      (''threats'', texts_fr_threats),
      (''apiTokens'', texts_fr_apiTokens),
      (''mfa'', texts_fr_mfa),
      (''settings'', texts_fr_settings),
      (''integrations'', texts_fr_integrations),
      (''k8s'', texts_fr_k8s),
      (''license'', texts_fr_license),
      (''account'', texts_fr_account),
      (''dlg'', texts_fr_dlg),
      (''live'', texts_fr_live),
      (''agentDlg'', texts_fr_agentDlg),
      (''viewer'', texts_fr_viewer),
      (''start'', texts_fr_start),
      (''appearance'', texts_fr_appearance),
      (''about'', texts_fr_about),
      (''sess'', texts_fr_sess),
      (''map'', texts_fr_map),
      (''nav'', texts_fr_nav),
      (''auth'', texts_fr_auth),
      (''bootstrap'', texts_fr_bootstrap),
      (''admin'', texts_fr_admin),
      (''app'', texts_fr_app),
      (''feedback'', texts_fr_feedback),
      (''recordings'', texts_fr_recordings),
      (''webproxy'', texts_fr_webproxy),
      (''time'', texts_fr_time)]"

definition all_texts :: json where
  "all_texts = JObj [(''en'', texts_en), (''fr'', texts_fr)]"

definition t :: "string \<Rightarrow> string \<Rightarrow> (string \<times> json) list \<Rightarrow> json" where
  "t locale key ps = translate_in all_texts locale key ps"

definition raw :: "string \<Rightarrow> string \<Rightarrow> json" where
  "raw locale key = raw_in all_texts locale key"


lemma languages_alike: "alike texts_en texts_fr"
proof -
  have "same_texts texts_en texts_fr"
    unfolding texts_en_def texts_fr_def
    by (intro same_ObjI same_ConsI same_NilI same_confirm same_common same_roles same_policy same_shell same_req
        same_relayLock same_reports same_journal same_evidence same_zones same_adminE same_users same_files same_sshTransfer
        same_resAdmin same_jit same_relays same_vault same_sec same_sshGuard same_dbGuard same_threats same_apiTokens
        same_mfa same_settings same_integrations same_k8s same_license same_account same_dlg same_live same_agentDlg
        same_viewer same_start same_appearance same_about same_sess same_map same_nav same_auth same_bootstrap same_admin
        same_app same_feedback same_recordings same_webproxy same_time)
  then show ?thesis by (simp add: alike_def)
qed

lemma text_of_language: "l \<in> {''en'', ''fr''} \<Longrightarrow> jget all_texts l = (if l = ''en'' then texts_en else texts_fr)"
  by (auto simp: all_texts_def)

lemma entry_found:
  "v = getValue (jget all_texts l) key \<Longrightarrow> \<not> nullish v \<Longrightarrow> entry_of all_texts l key = v"
  by (simp add: entry_of_def jcoalesce_def)

text \<open>C25: English and French have the same texts: a key has a text in one language exactly when it
  has one in the other, neither is empty, and both have the same placeholders, so the page never
  falls back to English or to the bare key in one language only.\<close>

theorem languages_have_the_same_texts:
  "(\<exists>s. getValue texts_en key = JStr s) = (\<exists>s. getValue texts_fr key = JStr s) \<and>
   (case (getValue texts_en key, getValue texts_fr key) of
      (JStr a, JStr b) \<Rightarrow> a \<noteq> [] \<and> b \<noteq> [] \<and> set (holes a) = set (holes b)
    | _ \<Rightarrow> True)"
  using alike_getValue [OF languages_alike, of key] alike_text alike_sym_text
  by (fastforce simp: alike_def split: json.split)

text \<open>In either language of the page, a text whose placeholders the caller gives is the text of
  that language with every placeholder replaced by the value given; the placeholders to give are
  those of the English text.\<close>

theorem text_is_filled_in:
  assumes "l = resolveInitialLocale saved language" and "getValue texts_en key = JStr s"
    and "\<forall>w \<in> set (holes s). \<exists>v. map_of ps w = Some v \<and> \<not> nullish v"
  shows "\<exists>template. getValue (jget all_texts l) key = JStr template \<and>
    t l key ps = JStr (concat (map (\<lambda>p. case p of Letter c \<Rightarrow> [c] | Hole w \<Rightarrow> js_string (the (map_of ps w))) (parts template)))"
proof -
  have l: "l \<in> {''en'', ''fr''}"
    using assms(1) initial_locale by simp
  obtain b where b: "getValue texts_fr key = JStr b" "set (holes b) = set (holes s)"
    using alike_getValue [OF languages_alike, of key] alike_text [of s] assms(2) by metis
  define template where "template = (if l = ''en'' then s else b)"
  have v: "getValue (jget all_texts l) key = JStr template" and h: "set (holes template) = set (holes s)"
    using l b assms(2) text_of_language [OF l] by (auto simp: template_def)
  have "fill ps p = (case p of Letter c \<Rightarrow> [c] | Hole w \<Rightarrow> js_string (the (map_of ps w)))" if "p \<in> set (parts template)" for p
  proof (cases p)
    case (Hole w)
    then have "w \<in> set (holes s)"
      using that h by (force simp: holes_def)
    then show ?thesis
      using assms(3) Hole by (fastforce simp: hole_text_def)
  qed simp
  then have "interpolate ps template =
      concat (map (\<lambda>p. case p of Letter c \<Rightarrow> [c] | Hole w \<Rightarrow> js_string (the (map_of ps w))) (parts template))"
    by (simp add: interpolate_parts cong: map_cong)
  moreover have "entry_of all_texts l key = JStr template"
    using entry_found [of "JStr template" l key] v by (simp add: nullish_def)
  ultimately show ?thesis
    using v by (simp add: t_def translate_in_def)
qed


theorem text_is_filled_in_witness:
  "\<exists>template. getValue (jget all_texts ''fr'') ''confirm.endSession'' = JStr template \<and>
    t ''fr'' ''confirm.endSession'' [(''id'', JInt 7)] =
      JStr (concat (map (\<lambda>p. case p of Letter c \<Rightarrow> [c]
                              | Hole w \<Rightarrow> js_string (the (map_of [(''id'', JInt 7)] w))) (parts template)))"
proof -
  have "''fr'' = resolveInitialLocale (Some ''fr'') None"
    by (simp add: resolveInitialLocale_def)
  moreover have "getValue texts_en ''confirm.endSession'' = JStr ''End session #{id}?''"
    by (simp add: getValue_def texts_en_def texts_en_confirm_def nullish_def)
  moreover have "\<forall>w \<in> set (holes ''End session #{id}?''). \<exists>v. map_of [(''id'', JInt 7)] w = Some v \<and> \<not> nullish v"
    by (simp add: walk_simps nullish_def cong: holes_cong)
  ultimately show ?thesis
    by (rule text_is_filled_in)
qed

end
