(* ===== verification/PageTexts.thy ===== *)
theory PageTexts
  imports Translations UsersPage
begin

section \<open>The pages with their texts\<close>

text \<open>
  The other theories take the translation as a parameter of the environment.  Here it is that of
  i18n.jsx: \<open>with_texts l\<close> is the environment of a page in the language \<open>l\<close>, and what a page
  decides by a text being empty is stated for the texts it really shows.
\<close>

definition with_texts :: "string \<Rightarrow> env \<Rightarrow> env" where
  "with_texts l env = env\<lparr>env_t := (\<lambda>key ps. js_string (t l key ps))\<rparr>"

lemma no_holes_letters: "holes s = [] \<Longrightarrow> interpolate ps s = s"
  by (induction ps s rule: interpolate.induct) (auto simp: holes_code split: option.splits if_splits)

text \<open>A text without placeholders is shown as it stands in the dictionary, and is not empty.\<close>

lemma plain_text_shown:
  assumes "l \<in> {''en'', ''fr''}" and "getValue texts_en key = JStr s" and "holes s = []"
  shows "tx (with_texts l env) key \<noteq> []"
proof -
  obtain b where b: "getValue texts_fr key = JStr b" "s \<noteq> []" "b \<noteq> []" "set (holes b) = set (holes s)"
    using alike_getValue [OF languages_alike, of key] alike_text [of s] assms(2) by metis
  define template where "template = (if l = ''en'' then s else b)"
  have v: "getValue (jget all_texts l) key = JStr template" and ne: "template \<noteq> []" and "holes template = []"
    using b assms text_of_language [OF assms(1)] by (auto simp: template_def)
  then have "interpolate [] template = template"
    by (simp add: no_holes_letters)
  moreover have "entry_of all_texts l key = JStr template"
    using entry_found [of "JStr template" l key] v by (simp add: nullish_def)
  ultimately show ?thesis
    using ne by (simp add: tx_def with_texts_def t_def translate_in_def)
qed

lemma delete_texts:
  "getValue texts_en ''users.cannotDeleteSelf'' = JStr ''You cannot delete your own account.''"
  "getValue texts_en ''users.cannotDeleteLastAdmin'' = JStr ''This is the last administrator.''"
  by (simp_all add: getValue_def texts_en_def texts_en_users_def nullish_def)

text \<open>C23: With the texts the page shows, in either language, its button that deletes an account is
  refused exactly when the bastion would refuse: for the own account and for the last administrator.
  After a deletion the page shows what the bastion kept, and an administrator is left.\<close>

theorem delete_offered_as_by_the_bastion:
  assumes "u \<in> set (up_users p)" and "distinct (map (\<lambda>u. jget u ''id'') (up_users p))"
    and "(jget u ''id'' = caller) = strict_eq (jget u ''username'') (up_current p)"
    and "strict_eq (jget u ''id'') (jget u ''id'')" and "l = resolveInitialLocale saved language"
  shows "(deleteBlocked (with_texts l env) p u = []) = (\<exists>left. bastion_delete (up_users p) caller (jget u ''id'') = Inr left) \<and>
    (\<forall>left. bastion_delete (up_users p) caller (jget u ''id'') = Inr left \<longrightarrow>
       up_users (on_deleted (with_texts l env) (jget u ''id'') (Inr JUndef) p) = left \<and>
       (admins p \<noteq> [] \<longrightarrow> filter is_admin left \<noteq> []))"
proof -
  have l: "l \<in> {''en'', ''fr''}"
    using assms(5) initial_locale by simp
  have "holes ''You cannot delete your own account.'' = []" and "holes ''This is the last administrator.'' = []"
    by (simp_all add: walk_simps cong: holes_cong)
  with plain_text_shown [OF l delete_texts(1)] plain_text_shown [OF l delete_texts(2)]
  have "tx (with_texts l env) ''users.cannotDeleteSelf'' \<noteq> []" and "tx (with_texts l env) ''users.cannotDeleteLastAdmin'' \<noteq> []"
    by simp_all
  from delete_allowed_as_by_the_bastion [OF assms(1-3) this assms(4)] show ?thesis .
qed

theorem delete_offered_as_by_the_bastion_witness:
  "deleteBlocked (with_texts ''en'' sample_env) sample_users
     (JObj [(''id'', JInt 2), (''username'', JStr ''bob''), (''role'', JStr ''operator'')]) = []"
proof -
  have "bastion_delete (up_users sample_users) (JInt 1) (JInt 2) =
      Inr [JObj [(''id'', JInt 1), (''username'', JStr ''ana''), (''role'', JStr ''admin'')]]"
    by (simp add: bastion_delete_def sample_users_def is_admin_def)
  moreover have "''en'' = resolveInitialLocale (Some ''en'') None"
    by (simp add: resolveInitialLocale_def)
  ultimately show ?thesis
    using delete_offered_as_by_the_bastion
      [of "JObj [(''id'', JInt 2), (''username'', JStr ''bob''), (''role'', JStr ''operator'')]" sample_users "JInt 1"
          "''en''" "Some ''en''" None sample_env]
    by (simp add: sample_users_def)
qed

end
