(* ===== verification/JournalPage.thy ===== *)
theory JournalPage
  imports AccessMap
begin

section \<open>The journal (pages/JournalPage.jsx, ui/AuditIntegrity.jsx)\<close>

text \<open>
  The page searches the audit log on the server and shows it page by page: a change of the filters
  starts a new search, the button below the list asks for the page after the last one.  A reply is
  applied only while its search is the last one started; \<open>jo_turn\<close> is the number of that search.
  A page the server sends is an object.  The rows, their export as CSV and the strip that checks the log are functions of the state.
\<close>

subsection \<open>The lines\<close>

definition PAGE_SIZE :: int where
  "PAGE_SIZE = 100"

fun is_object :: "json \<Rightarrow> bool" where
  "is_object (JObj kvs) = True"
| "is_object (JArr xs) = True"
| "is_object _ = False"

definition parsePayload :: "json \<Rightarrow> json" where
  "parsePayload item =
     (if \<not> truthy (jget item ''payloadIsJson'') then JNull
      else case json_parse (text_or (jget item ''payloadRaw'') ''{}'') of
        None \<Rightarrow> JNull
      | Some v \<Rightarrow> if is_object v then v else JNull)"

definition FAILURE :: "string \<Rightarrow> bool" where
  "FAILURE ty = list_ex (str_includes ty)
     [''fail'', ''denied'', ''deny'', ''block'', ''reject'', ''rate_limited'', ''error'', ''unjustified'', ''anomaly'',
      ''incident'', ''detection'', ''containment'']"

definition ADMIN :: "string \<Rightarrow> bool" where
  "ADMIN ty =
     (list_ex (starts_with ty)
        [''resource.'', ''user.'', ''access_policy.'', ''access_profile.'', ''relay.'', ''license.'', ''integration.'',
         ''cluster.'', ''itdr.rule.'', ''automation.'', ''credential.rotat''] \<or>
      ty \<in> {''access_request.approve'', ''access_request.deny''})"

definition toneOf :: "string \<Rightarrow> string" where
  "toneOf ty =
     (if FAILURE ty then ''var(--ef-danger)''
      else if ty = ''session.create'' then ''var(--ef-priv)''
      else if list_ex (str_includes ty) [''grant.issued'', ''approve'', ''success''] then ''var(--ef-ok)''
      else if ADMIN ty then ''var(--ef-warn)'' else ''var(--ef-line-2)'')"

record journal_row =
  jr_item :: json
  jr_payload :: json
  jr_type :: string
  jr_resource :: json
  jr_target :: json
  jr_detail :: string
  jr_origin :: json
  jr_session :: rat

definition detail_keys :: "string list" where
  "detail_keys = [''command'', ''rule'', ''reason'', ''message'', ''method'', ''justification'', ''purpose'']"

fun text_value :: "json \<Rightarrow> bool" where
  "text_value (JStr s) = True"
| "text_value _ = False"

definition middle_dot_sep :: string where
  "middle_dot_sep = [CHR '' '', CHR 0xC2, CHR 0xB7, CHR '' '']"

definition detail_bits :: "env \<Rightarrow> json \<Rightarrow> json \<Rightarrow> string \<Rightarrow> string list" where
  "detail_bits env item payload ty =
     (if truthy (jget payload ''sessionId'')
      then [env_t env ''journal.sessionNo'' [(''id'', jget payload ''sessionId'')]] else []) @
     (if starts_with ty ''access_request'' \<and> truthy (jget payload ''id'')
      then [env_t env ''journal.requestNo'' [(''id'', jget payload ''id'')]] else []) @
     (if truthy (jget payload ''ticketId'') then [js_string (jget payload ''ticketId'')] else []) @
     map (\<lambda>k. js_string (jget payload k))
       (filter (\<lambda>k. truthy (jget payload k) \<and> text_value (jget payload k)) detail_keys) @
     (if \<not> truthy (jget item ''payloadIsJson'') \<and> truthy (jget item ''payloadRaw'')
      then [js_string (jget item ''payloadRaw'')] else [])"

definition number_of_map :: "json list \<Rightarrow> json \<Rightarrow> json" where
  "number_of_map resources v =
     (case find (\<lambda>r. js_number (jget r ''id'') = js_number v) (rev resources) of Some r \<Rightarrow> r | None \<Rightarrow> JNull)"

definition row_of :: "env \<Rightarrow> json list \<Rightarrow> json \<Rightarrow> journal_row" where
  "row_of env resources item =
     (let payload = jor (parsePayload item) (JObj []);
          ty = text_or (jget item ''type'') [];
          resource = number_of_map resources (jget payload ''resourceId'') in
      \<lparr>jr_item = item, jr_payload = payload, jr_type = ty, jr_resource = resource,
        jr_target = jor (jget resource ''name'') (jor (jget payload ''resourceName'') (jor (jget payload ''target'')
          (jor (jget payload ''subject'') (jor (jget payload ''requester'') (jor (jget payload ''username'') (JStr [])))))),
        jr_detail = join middle_dot_sep (detail_bits env item payload ty),
        jr_origin = jor (jget payload ''sourceIp'') (jor (jget payload ''ip'') (jor (jget payload ''clientIp'') (JStr []))),
        jr_session = number_or (jget payload ''sessionId'') 0\<rparr>)"

definition row_time :: "env \<Rightarrow> journal_row \<Rightarrow> int" where
  "row_time env r = (case parse_of (env_zone env) (jget (jr_item r) ''createdAt'') of Some x \<Rightarrow> x | None \<Rightarrow> 0)"

definition journal_rows :: "env \<Rightarrow> json list \<Rightarrow> json list \<Rightarrow> journal_row list" where
  "journal_rows env resources items =
     sort_by (\<lambda>a b. row_time env b < row_time env a) (map (row_of env resources) items)"

definition has_origin :: "journal_row list \<Rightarrow> bool" where
  "has_origin rows = list_ex (\<lambda>r. truthy (jr_origin r)) rows"

definition filtered_rows :: "string \<Rightarrow> journal_row list \<Rightarrow> journal_row list" where
  "filtered_rows quick rows =
     (if quick = ''critical''
      then filter (\<lambda>r. normalizeRiskLevel (jget (jr_resource r) ''riskLevel'') = ''critical'') rows else rows)"

subsection \<open>The export\<close>

definition formula_start :: "char \<Rightarrow> bool" where
  "formula_start c = (c \<in> set ''=+-@'' \<or> c = CHR 0x09 \<or> c = CHR 0x0D)"

definition guarded :: "json \<Rightarrow> string" where
  "guarded v =
     (let raw = js_string (jcoalesce v (JStr [])) in
      if raw \<noteq> [] \<and> formula_start (hd raw) then CHR 0x27 # raw else raw)"

definition double_quotes :: "string \<Rightarrow> string" where
  "double_quotes s = concat (map (\<lambda>c. if c = dquote then [dquote, dquote] else [c]) s)"

definition csvCell :: "json \<Rightarrow> string" where
  "csvCell v = [dquote] @ double_quotes (guarded v) @ [dquote]"

definition csv_header :: "json list" where
  "csv_header = map JStr [''id'', ''createdAt'', ''type'', ''actor'', ''role'', ''target'', ''detail'', ''origin'', ''payload'']"

definition csv_line_of :: "journal_row \<Rightarrow> json list" where
  "csv_line_of r =
     [jget (jr_item r) ''id'', jget (jr_item r) ''createdAt'', JStr (jr_type r), jget (jr_item r) ''actor'', jget (jr_item r) ''role'',
      jr_target r, JStr (jr_detail r), jr_origin r, jget (jr_item r) ''payloadRaw'']"

definition byte_order :: string where
  "byte_order = [CHR 0xEF, CHR 0xBB, CHR 0xBF]"

definition exportCsv :: "journal_row list \<Rightarrow> string" where
  "exportCsv rows =
     byte_order @ join [CHR 0x0A] (map (\<lambda>line. join '','' (map csvCell line)) (csv_header # map csv_line_of rows))"

subsection \<open>Search and pages\<close>

record journal =
  jo_query :: string
  jo_text :: string
  jo_actor :: string
  jo_family :: string
  jo_quick :: string
  jo_from :: string
  jo_to :: string
  jo_session :: json
  jo_open :: json
  jo_turn :: nat
  jo_items :: "json list"
  jo_next :: string
  jo_loading :: bool
  jo_more :: bool
  jo_error :: string
  jo_actors :: "json list"
  jo_families :: "json list"

text \<open>300 ms after the last key, the text the server is asked for.\<close>

definition search_text :: "string \<Rightarrow> string" where
  "search_text q = (let s = trim q in if take 1 s = ''#'' then drop 1 s else s)"

definition query_settled :: "journal \<Rightarrow> journal" where
  "query_settled j = j\<lparr>jo_text := search_text (jo_query j)\<rparr>"

definition filters_of :: "journal \<Rightarrow> (string \<times> json) list" where
  "filters_of j =
     [(''actor'', JStr (jo_actor j)), (''family'', JStr (jo_family j)),
      (''category'', JStr (if jo_quick j = ''fail'' then ''failure'' else if jo_quick j = ''admin'' then ''admin'' else [])),
      (''from'', JStr (jo_from j)), (''to'', JStr (jo_to j)), (''q'', JStr (jo_text j)),
      (''session'', jor (jo_session j) (JStr []))]"

text \<open>The effect on the filters: a new search.\<close>

definition first_params :: "(string \<times> json) list \<Rightarrow> (string \<times> json) list" where
  "first_params fs = fs @ [(''limit'', JInt PAGE_SIZE), (''facets'', JBool True)]"

definition more_params :: "(string \<times> json) list \<Rightarrow> string \<Rightarrow> (string \<times> json) list" where
  "more_params fs cursor = fs @ [(''limit'', JInt PAGE_SIZE), (''cursor'', JStr cursor)]"

definition start_search :: "journal \<Rightarrow> journal \<times> api_call" where
  "start_search j =
     (j\<lparr>jo_turn := Suc (jo_turn j), jo_loading := True, jo_error := []\<rparr>, audit_call (first_params (filters_of j)))"

definition page_items :: "json \<Rightarrow> json list" where
  "page_items pg = array_or_empty (jor (jget pg ''items'') (JArr []))"

definition page_next :: "json \<Rightarrow> string" where
  "page_next pg = text_or (jget pg ''next'') []"

definition set_facets :: "json \<Rightarrow> journal \<Rightarrow> journal" where
  "set_facets pg j =
     (let fc = jget pg ''facets'' in
      if truthy fc
      then j\<lparr>jo_actors := array_or_empty (jor (jget fc ''actors'') (JArr [])),
             jo_families := array_or_empty (jor (jget fc ''families'') (JArr []))\<rparr>
      else j)"

definition on_first_page :: "env \<Rightarrow> nat \<Rightarrow> js_error + json \<Rightarrow> journal \<Rightarrow> journal" where
  "on_first_page env turn reply j =
     (if turn \<noteq> jo_turn j then j
      else case reply of
        Inr pg \<Rightarrow> set_facets pg
          (j\<lparr>jo_items := page_items pg, jo_next := page_next pg, jo_loading := False, jo_more := False, jo_error := []\<rparr>)
      | Inl e \<Rightarrow> j\<lparr>jo_items := [], jo_next := [], jo_loading := False, jo_more := False,
                    jo_error := shown env e (tx env ''journal.loadError'')\<rparr>)"

definition more_offered :: "journal \<Rightarrow> bool" where
  "more_offered j = (jo_next j \<noteq> [] \<and> \<not> jo_more j \<and> \<not> jo_loading j)"

definition loadMore :: "journal \<Rightarrow> journal \<times> api_call" where
  "loadMore j = (j\<lparr>jo_more := True\<rparr>, audit_call (more_params (filters_of j) (jo_next j)))"

text \<open>The flag says that the archive of the page was purged: the search starts again.\<close>

definition on_more_page :: "env \<Rightarrow> nat \<Rightarrow> (js_error + json) \<times> bool \<Rightarrow> journal \<Rightarrow> journal \<times> api_call list" where
  "on_more_page env turn reply j =
     (if turn \<noteq> jo_turn j then (j, [])
      else case reply of
        (Inr pg, _) \<Rightarrow>
          (j\<lparr>jo_items := jo_items j @ page_items pg, jo_next := page_next pg, jo_more := False\<rparr>, [])
      | (Inl e, True) \<Rightarrow> (let (k, c) = start_search j in (k, [c]))
      | (Inl e, False) \<Rightarrow> (j\<lparr>jo_more := False, jo_error := shown env e (tx env ''journal.loadError'')\<rparr>, []))"

definition journal_actors :: "journal \<Rightarrow> json list" where
  "journal_actors j =
     (if jo_actor j = [] \<or> JStr (jo_actor j) \<in> set (jo_actors j) then jo_actors j else jo_actors j @ [JStr (jo_actor j)])"

definition reset_filters :: "journal \<Rightarrow> journal" where
  "reset_filters j =
     j\<lparr>jo_query := [], jo_family := [], jo_actor := [], jo_quick := ''all'', jo_from := [], jo_to := [],
       jo_session := JNull\<rparr>"

definition filters_active :: "journal \<Rightarrow> bool" where
  "filters_active j =
     (jo_query j \<noteq> [] \<or> jo_family j \<noteq> [] \<or> jo_actor j \<noteq> [] \<or> jo_quick j \<noteq> ''all'' \<or> truthy (jo_session j) \<or>
      jo_from j \<noteq> [] \<or> jo_to j \<noteq> [])"

definition row_key :: "journal_row \<Rightarrow> json" where
  "row_key r = jor (jget (jr_item r) ''key'') (jget (jr_item r) ''id'')"

definition toggle_row :: "json \<Rightarrow> journal \<Rightarrow> journal" where
  "toggle_row i j = j\<lparr>jo_open := (if strict_eq (jo_open j) i then JNull else i)\<rparr>"

subsection \<open>Is the log the one the bastion wrote\<close>

record integrity =
  ig_status :: string
  ig_result :: json
  ig_message :: json
  ig_at :: "int option"

definition verify_start :: "integrity \<Rightarrow> integrity \<times> api_call" where
  "verify_start g = (g\<lparr>ig_status := ''checking''\<rparr>, verifyAuditChain)"

text \<open>A reply that is not an object raises inside the \<open>try\<close>.\<close>

definition on_verified :: "env \<Rightarrow> js_error + json \<Rightarrow> integrity \<Rightarrow> integrity" where
  "on_verified env reply g =
     (case (case reply of Inl e \<Rightarrow> Inl e | Inr v \<Rightarrow> if nullish v then Inl TypeError else Inr v) of
        Inl e \<Rightarrow> \<lparr>ig_status = ''error'', ig_result = JUndef, ig_message = JStr (error_message env e), ig_at = None\<rparr>
      | Inr v \<Rightarrow> \<lparr>ig_status = (if truthy (jget v ''intact'') then ''intact'' else ''broken''), ig_result = v,
                   ig_message = JUndef, ig_at = Some (env_now env)\<rparr>)"

definition checked_lines :: "integrity \<Rightarrow> rat" where
  "checked_lines g = max 0 (number_or (jget (ig_result g) ''lines'') 0 - number_or (jget (ig_result g) ''legacyLines'') 0)"

definition integrity_text :: "env \<Rightarrow> integrity \<Rightarrow> string list" where
  "integrity_text env g =
     (let total_lines = number_or (jget (ig_result g) ''lines'') 0; legacy = number_or (jget (ig_result g) ''legacyLines'') 0;
          seal = tx env (if truthy (jget (ig_result g) ''keyed'') then ''journal.integrity.keyed'' else ''journal.integrity.unkeyed'') in
      if ig_status g = ''checking'' then [tx env ''journal.integrity.checking'']
      else if ig_status g = ''error'' then [tx env ''journal.integrity.error'', js_string (ig_message g)]
      else if ig_status g = ''intact''
      then tx env (if total_lines \<noteq> 0 then ''journal.integrity.intact'' else ''journal.integrity.emptyLog'') #
        (if 0 < total_lines
         then [env_t env ''journal.integrity.checked'' [(''count'', JNum (checked_lines g))] @
               (if 0 < legacy then middle_dot_sep @ env_t env ''journal.integrity.legacy'' [(''count'', JNum legacy)] else []) @
               middle_dot_sep @ seal]
         else [])
      else if ig_status g = ''broken''
      then [env_t env ''journal.integrity.broken'' [(''line'', jget (ig_result g) ''firstBrokenLine'')],
            tx env ''journal.integrity.brokenHelp'']
      else [])"

subsection \<open>The list is the pages of its filters\<close>

text \<open>What the pages of one search are: \<open>answer\<close> is what the server says of a request.\<close>

type_synonym audit_answer = "api_call \<Rightarrow> (js_error + json) \<times> bool"

inductive pages :: "audit_answer \<Rightarrow> (string \<times> json) list \<Rightarrow> json list \<Rightarrow> string \<Rightarrow> bool" for answer fs where
  first: "fst (answer (audit_call (first_params fs))) = Inr pg \<Longrightarrow> pages answer fs (page_items pg) (page_next pg)"
| more: "pages answer fs rows cursor \<Longrightarrow> cursor \<noteq> [] \<Longrightarrow>
    fst (answer (audit_call (more_params fs cursor))) = Inr pg \<Longrightarrow>
    pages answer fs (rows @ page_items pg) (page_next pg)"

datatype asked = First_page nat api_call | More_page nat api_call

fun asked_turn :: "asked \<Rightarrow> nat" where
  "asked_turn (First_page n c) = n"
| "asked_turn (More_page n c) = n"

text \<open>Every order of changes, clicks and replies: the requests under way are answered in any order.\<close>

definition searched_again :: "journal \<Rightarrow> journal \<times> asked" where
  "searched_again j = (let (k, c) = start_search j in (k, First_page (jo_turn k) c))"

inductive journal_run :: "env \<Rightarrow> audit_answer \<Rightarrow> journal \<Rightarrow> asked list \<Rightarrow> bool" for env answer where
  opened: "searched_again j = (k, a) \<Longrightarrow> journal_run env answer k [a]"
| changed: "journal_run env answer j ps \<Longrightarrow>
    searched_again (j\<lparr>jo_query := q, jo_text := tt, jo_actor := w, jo_family := f, jo_quick := u, jo_from := d, jo_to := e,
      jo_session := s\<rparr>) = (k, a) \<Longrightarrow> journal_run env answer k (a # ps)"
| shown: "journal_run env answer j ps \<Longrightarrow> journal_run env answer (j\<lparr>jo_query := q, jo_open := i\<rparr>) ps"
| asked_more: "journal_run env answer j ps \<Longrightarrow> more_offered j \<Longrightarrow> loadMore j = (k, c) \<Longrightarrow>
    journal_run env answer k (More_page (jo_turn j) c # ps)"
| first_reply: "journal_run env answer j (ps @ First_page n c # qs) \<Longrightarrow>
    journal_run env answer (on_first_page env n (fst (answer c)) j) (ps @ qs)"
| more_reply: "journal_run env answer j (ps @ More_page n c # qs) \<Longrightarrow> on_more_page env n (answer c) j = (k, cs) \<Longrightarrow>
    journal_run env answer k (map (First_page (jo_turn k)) cs @ ps @ qs)"

definition asked_ok :: "journal \<Rightarrow> asked \<Rightarrow> bool" where
  "asked_ok j a =
     (asked_turn a \<le> jo_turn j \<and>
      (asked_turn a = jo_turn j \<longrightarrow>
        (case a of
           First_page n c \<Rightarrow> jo_loading j \<and> c = audit_call (first_params (filters_of j))
         | More_page n c \<Rightarrow> \<not> jo_loading j \<and> jo_more j \<and> jo_next j \<noteq> [] \<and>
                             c = audit_call (more_params (filters_of j) (jo_next j)))))"

definition journal_ok :: "audit_answer \<Rightarrow> journal \<Rightarrow> asked list \<Rightarrow> bool" where
  "journal_ok answer j ps =
     (list_all (asked_ok j) ps \<and> length (filter (\<lambda>a. asked_turn a = jo_turn j) ps) \<le> 1 \<and>
      (\<not> jo_loading j \<longrightarrow>
         pages answer (filters_of j) (jo_items j) (jo_next j) \<or> jo_items j = [] \<and> jo_next j = []))"

lemma older_pending:
  "list_all (asked_ok j) ps \<Longrightarrow> jo_turn j < jo_turn k \<Longrightarrow>
     list_all (asked_ok k) ps \<and> filter (\<lambda>a. asked_turn a = jo_turn k) ps = []"
  by (induction ps) (auto simp: asked_ok_def)

lemma older_kept:
  "list_all (\<lambda>b. asked_turn b < n) ps \<Longrightarrow> n \<le> jo_turn k \<Longrightarrow>
     list_all (asked_ok k) ps \<and> filter (\<lambda>a. asked_turn a = jo_turn k) ps = []"
  by (induction ps) (auto simp: asked_ok_def)

lemma journal_ok_search:
  assumes "journal_ok answer j ps" and "searched_again j' = (k, a)" and "jo_turn j' = jo_turn j"
  shows "journal_ok answer k (a # ps)"
proof -
  have k: "jo_turn k = Suc (jo_turn j)" "jo_loading k" "filters_of k = filters_of j'"
    and a: "a = First_page (jo_turn k) (audit_call (first_params (filters_of k)))"
    using assms(2,3) by (auto simp: searched_again_def start_search_def filters_of_def)
  then show ?thesis
    using assms(1) older_pending [of j ps k]
    by (auto simp: journal_ok_def asked_ok_def)
qed

lemma pending_drop:
  "list_all (asked_ok j) (ps @ a # qs) \<Longrightarrow> length (filter (\<lambda>b. asked_turn b = jo_turn j) (ps @ a # qs)) \<le> 1 \<Longrightarrow>
     asked_ok j a \<and> list_all (asked_ok j) (ps @ qs) \<and> length (filter (\<lambda>b. asked_turn b = jo_turn j) (ps @ qs)) \<le> 1 \<and>
     (asked_turn a = jo_turn j \<longrightarrow> list_all (\<lambda>b. asked_turn b < jo_turn j) (ps @ qs))"
  by (auto simp: list_all_iff asked_ok_def filter_empty_conv le_less Suc_le_eq split: if_splits)


lemma journal_ok_first:
  assumes "journal_ok answer j (ps @ First_page n c # qs)"
  shows "journal_ok answer (on_first_page env n (fst (answer c)) j) (ps @ qs)"
proof -
  note d = pending_drop [of j ps "First_page n c" qs]
  show ?thesis
  proof (cases "n = jo_turn j")
    case False
    then show ?thesis using assms d by (simp add: journal_ok_def on_first_page_def)
  next
    case True
    then have c: "c = audit_call (first_params (filters_of j))" and old: "list_all (\<lambda>b. asked_turn b < jo_turn j) (ps @ qs)"
      using assms d by (auto simp: journal_ok_def asked_ok_def)
    let ?k = "on_first_page env n (fst (answer c)) j"
    have k: "jo_turn ?k = jo_turn j" "filters_of ?k = filters_of j"
      using True by (auto simp: on_first_page_def set_facets_def filters_of_def Let_def split: sum.split)
    have "list_all (asked_ok ?k) (ps @ qs) \<and> filter (\<lambda>a. asked_turn a = jo_turn ?k) (ps @ qs) = []"
      using older_kept [OF old, of ?k] k by simp
    moreover have "pages answer (filters_of ?k) (jo_items ?k) (jo_next ?k) \<or> jo_items ?k = [] \<and> jo_next ?k = []"
    proof (cases "fst (answer c)")
      case (Inr pg)
      then have "jo_items ?k = page_items pg" "jo_next ?k = page_next pg"
        using True by (simp_all add: on_first_page_def set_facets_def Let_def)
      then show ?thesis
        using pages.first [of answer "filters_of j" pg] Inr c k by simp
    qed (simp add: on_first_page_def True)
    ultimately show ?thesis by (simp add: journal_ok_def)
  qed
qed

lemma journal_ok_more:
  assumes "journal_ok answer j (ps @ More_page n c # qs)" and "on_more_page env n (answer c) j = (k, cs)"
  shows "journal_ok answer k (map (First_page (jo_turn k)) cs @ ps @ qs)"
proof -
  note d = pending_drop [of j ps "More_page n c" qs]
  show ?thesis
  proof (cases "n = jo_turn j")
    case False
    then show ?thesis using assms d by (auto simp: journal_ok_def on_more_page_def)
  next
    case True
    then have j: "\<not> jo_loading j" "jo_next j \<noteq> []" and c: "c = audit_call (more_params (filters_of j) (jo_next j))"
      and old: "list_all (\<lambda>b. asked_turn b < jo_turn j) (ps @ qs)"
      and chain: "pages answer (filters_of j) (jo_items j) (jo_next j)"
      using assms(1) d by (auto simp: journal_ok_def asked_ok_def)
    have keeps: "list_all (asked_ok k') (ps @ qs) \<and> filter (\<lambda>a. asked_turn a = jo_turn k') (ps @ qs) = []"
      if "jo_turn j \<le> jo_turn k'" for k'
      by (rule older_kept [OF old that])
    consider (page) pg x where "answer c = (Inr pg, x)" | (purged) e where "answer c = (Inl e, True)"
      | (failed) e where "answer c = (Inl e, False)"
      by (cases "answer c"; cases "fst (answer c)"; cases "snd (answer c)") auto
    then show ?thesis
    proof cases
      case page
      then have k: "cs = []" "jo_turn k = jo_turn j" "filters_of k = filters_of j" "jo_loading k = jo_loading j"
          "jo_items k = jo_items j @ page_items pg" "jo_next k = page_next pg"
        using assms(2) True by (auto simp: on_more_page_def filters_of_def)
      have "pages answer (filters_of j) (jo_items j @ page_items pg) (page_next pg)"
        using pages.more [OF chain j(2), of pg] page c by simp
      then show ?thesis
        using keeps [of k] k by (simp add: journal_ok_def)
    next
      case purged
      then obtain c' where "start_search j = (k, c')" "cs = [c']"
        using assms(2) True by (auto simp: on_more_page_def Let_def split: prod.splits)
      then have k: "jo_turn k = Suc (jo_turn j)" "jo_loading k" and cs: "cs = [audit_call (first_params (filters_of k))]"
        by (auto simp: start_search_def filters_of_def)
      then show ?thesis
        using keeps [of k] by (simp add: journal_ok_def asked_ok_def)
    next
      case failed
      then have k: "cs = []" "jo_turn k = jo_turn j" "filters_of k = filters_of j"
          "jo_items k = jo_items j" "jo_next k = jo_next j"
        using assms(2) True by (auto simp: on_more_page_def filters_of_def)
      then show ?thesis
        using keeps [of k] chain by (simp add: journal_ok_def)
    qed
  qed
qed

lemma idle_pending:
  assumes "\<not> jo_more j" and "\<not> jo_loading j" and "asked_ok j a"
  shows "asked_turn a < jo_turn j"
  using assms by (cases a) (auto simp: asked_ok_def le_less)

lemma journal_run_ok: "journal_run env answer j ps \<Longrightarrow> journal_ok answer j ps"
proof (induction rule: journal_run.induct)
  case (opened j k a)
  then show ?case
    by (auto simp: searched_again_def start_search_def journal_ok_def asked_ok_def filters_of_def)
next
  case (changed j ps q tt w f u d e s k a)
  show ?case by (rule journal_ok_search [OF changed.IH changed.hyps(2)]) simp
next
  case (shown j ps i q)
  have f: "filters_of (j\<lparr>jo_query := q, jo_open := i\<rparr>) = filters_of j"
    by (simp add: filters_of_def)
  have "asked_ok (j\<lparr>jo_query := q, jo_open := i\<rparr>) = asked_ok j"
    by (rule ext) (simp add: asked_ok_def filters_of_def split: asked.split)
  then show ?case
    using shown.IH by (simp add: journal_ok_def f)
next
  case (asked_more j ps k c)
  have j: "jo_next j \<noteq> []" "\<not> jo_more j" "\<not> jo_loading j"
    using asked_more.hyps(2) by (auto simp: more_offered_def)
  have k: "k = j\<lparr>jo_more := True\<rparr>" and c: "c = audit_call (more_params (filters_of j) (jo_next j))"
    using asked_more.hyps(3) by (auto simp: loadMore_def)
  have old: "list_all (\<lambda>a. asked_turn a < jo_turn j) ps"
    using asked_more.IH idle_pending [OF j(2,3)] by (auto simp: journal_ok_def list_all_iff)
  have f: "filters_of k = filters_of j" "jo_turn k = jo_turn j" "jo_items k = jo_items j" "jo_next k = jo_next j"
      "jo_loading k = jo_loading j" "jo_more k"
    by (simp_all add: k filters_of_def)
  have "list_all (asked_ok k) ps" "filter (\<lambda>a. asked_turn a = jo_turn j) ps = []"
    using older_kept [OF old, of k] by (simp_all add: f)
  then show ?case
    using asked_more.IH j by (simp add: journal_ok_def asked_ok_def f c)
next
  case (first_reply j ps n c qs)
  then show ?case by (blast intro: journal_ok_first)
next
  case (more_reply j ps n c qs k cs)
  then show ?case by (blast intro: journal_ok_more)
qed


definition sample_journal :: journal where
  "sample_journal =
     \<lparr>jo_query = [], jo_text = [], jo_actor = ''alice'', jo_family = [], jo_quick = ''fail'', jo_from = [], jo_to = [],
      jo_session = JNull, jo_open = JNull, jo_turn = 0, jo_items = [], jo_next = [], jo_loading = True, jo_more = False,
      jo_error = [], jo_actors = [], jo_families = []\<rparr>"

definition sample_audit_page :: json where
  "sample_audit_page = JObj [(''items'', JArr [JObj [(''id'', JInt 7)], JObj [(''id'', JInt 5)]]), (''next'', JStr ''c2'')]"

definition sample_shown :: journal where
  "sample_shown = on_first_page sample_env 1 (Inr sample_audit_page) (fst (searched_again sample_journal))"




subsection \<open>Reading the export back\<close>

text \<open>A reader of CSV (RFC 4180) for cells in quotes: a quote inside a cell is written twice.\<close>

fun quoted :: "string \<Rightarrow> string \<times> string" where
  "quoted [] = ([], [])"
| "quoted [c] = (if c = dquote then [] else [c], [])"
| "quoted (c # d # s) =
     (if c \<noteq> dquote then (let (a, r) = quoted (d # s) in (c # a, r))
      else if d = dquote then (let (a, r) = quoted s in (dquote # a, r)) else ([], d # s))"

lemma quoted_shorter: "length (snd (quoted s)) \<le> length s"
  by (induction s rule: quoted.induct) (auto simp: Let_def split: prod.splits)

function read_cells :: "string \<Rightarrow> string list \<times> string" where
  "read_cells s =
     (if s = [] \<or> hd s \<noteq> dquote then ([], s)
      else (let (w, r) = quoted (tl s) in
        if r \<noteq> [] \<and> hd r = CHR '','' then (let (ws, q) = read_cells (tl r) in (w # ws, q)) else ([w], r)))"
  by pat_completeness auto
termination
proof (relation "measure length")
  fix s :: string and x w r
  assume "\<not> (s = [] \<or> hd s \<noteq> dquote)" and "x = quoted (tl s)" and "(w, r) = x" and "r \<noteq> [] \<and> hd r = CHR '',''"
  then show "(tl r, s) \<in> measure length"
    using quoted_shorter [of "tl s"] by (cases s; cases r) (auto simp: prod_eq_iff)
qed simp

declare read_cells.simps [simp del]

lemma read_cells_shorter: "length (snd (read_cells s)) \<le> length s"
proof (induction s rule: read_cells.induct)
  case (1 s)
  show ?case
  proof (cases "s = [] \<or> hd s \<noteq> dquote")
    case False
    then obtain t where s: "s = dquote # t"
      by (cases s) auto
    obtain w r where q: "quoted t = (w, r)"
      by fastforce
    have "length r \<le> length t"
      using quoted_shorter [of t] q by simp
    moreover have "length (snd (read_cells (tl r))) \<le> length (tl r)" if more: "r \<noteq> [] \<and> hd r = CHR '',''"
    proof (rule 1 [OF False _ _ more])
      show "quoted t = quoted (tl s)"
        unfolding s by simp
      show "(w, r) = quoted t"
        by (rule q [symmetric])
    qed
    moreover have "read_cells s =
        (if r \<noteq> [] \<and> hd r = CHR '','' then (let (ws, q) = read_cells (tl r) in (w # ws, q)) else ([w], r))"
      unfolding s by (simp add: read_cells.simps [of "dquote # t"] q)
    ultimately show ?thesis
      using s by (cases "read_cells (tl r)") auto
  qed (simp add: read_cells.simps)
qed

function read_lines :: "string \<Rightarrow> string list list" where
  "read_lines s =
     (let (ws, r) = read_cells s in ws # (if r \<noteq> [] \<and> hd r = CHR 0x0A then read_lines (tl r) else []))"
  by pat_completeness auto
termination
proof (relation "measure length")
  fix s :: string and x ws r
  assume "x = read_cells s" and "(ws, r) = x" and "r \<noteq> [] \<and> hd r = CHR 0x0A"
  moreover from this have "length r \<le> length s"
    using read_cells_shorter [of s] by (metis snd_conv)
  ultimately show "(tl r, s) \<in> measure length"
    by (cases r) auto
qed simp

declare read_lines.simps [simp del]

lemma quoted_cell:
  "r = [] \<or> hd r \<noteq> dquote \<Longrightarrow> quoted (double_quotes s @ dquote # r) = (s, r)"
proof (induction s)
  case Nil
  then show ?case by (cases r) (auto simp: double_quotes_def)
next
  case (Cons c s)
  show ?case
  proof (cases "c = dquote")
    case True
    then show ?thesis using Cons by (simp add: double_quotes_def)
  next
    case False
    then have "quoted (c # (double_quotes s @ dquote # r)) =
        (let (a, q) = quoted (double_quotes s @ dquote # r) in (c # a, q))"
      by (cases "double_quotes s @ dquote # r") auto
    then show ?thesis
      using False Cons by (simp add: double_quotes_def)
  qed
qed

lemma read_cell:
  assumes "r = [] \<or> hd r \<noteq> dquote"
  shows "read_cells (csvCell v @ r) =
    (if r \<noteq> [] \<and> hd r = CHR '','' then (let (ws, q) = read_cells (tl r) in (guarded v # ws, q)) else ([guarded v], r))"
  using quoted_cell [OF assms, of "guarded v"]
  by (simp add: csvCell_def read_cells.simps [of "dquote # double_quotes (guarded v) @ dquote # r"])

lemma read_line:
  "vs \<noteq> [] \<Longrightarrow> r = [] \<or> hd r = CHR 0x0A \<Longrightarrow>
     read_cells (join '','' (map csvCell vs) @ r) = (map guarded vs, r)"
proof (induction vs)
  case (Cons v vs)
  show ?case
  proof (cases vs)
    case Nil
    with Cons.prems read_cell [of r v] show ?thesis
      by (auto simp: dquote_def)
  next
    case (Cons w ws)
    let ?rest = "join '','' (map csvCell vs) @ r"
    have "read_cells ?rest = (map guarded vs, r)"
      using Cons.IH Cons Cons.prems by simp
    with read_cell [of "CHR '','' # ?rest" v] Cons show ?thesis
      by (simp add: dquote_def)
  qed
qed simp

lemma read_export:
  "list_all (\<lambda>vs. vs \<noteq> []) rows \<Longrightarrow> rows \<noteq> [] \<Longrightarrow>
     read_lines (join [CHR 0x0A] (map (\<lambda>line. join '','' (map csvCell line)) rows)) = map (map guarded) rows"
proof (induction rows)
  case (Cons vs rows)
  show ?case
  proof (cases rows)
    case Nil
    with Cons.prems read_line [of vs "[]"] show ?thesis by (simp add: read_lines.simps)
  next
    case (Cons ws rest)
    with Cons.prems read_line [of vs "CHR 0x0A # join [CHR 0x0A] (map (\<lambda>line. join '','' (map csvCell line)) rows)"] Cons.IH
    show ?thesis by (simp add: read_lines.simps [of "_ @ _"])
  qed
qed simp

text \<open>What a spreadsheet shows as it is.\<close>

fun shown_as_text :: "string \<Rightarrow> bool" where
  "shown_as_text [] = True"
| "shown_as_text (c # _) = (\<not> formula_start c)"

lemma guarded_shown_as_text: "shown_as_text (guarded v)"
  by (cases "guarded v") (auto simp: guarded_def Let_def formula_start_def split: if_splits)

text \<open>C27: The file of an export, read as CSV, is the header and one line for each event shown, in their order, cell by
  cell as the page has them whatever quotes, commas and line breaks they hold, but for a quote put before
  what a spreadsheet would take for a formula; and no cell of it begins like one.\<close>

theorem export_read_back:
  "\<exists>text. exportCsv rows = byte_order @ text \<and>
    read_lines text = map (map guarded) (csv_header # map csv_line_of rows) \<and>
    list_all (list_all shown_as_text) (read_lines text)"
proof -
  let ?lines = "csv_header # map csv_line_of rows"
  have "list_all (\<lambda>vs. vs \<noteq> []) ?lines"
    by (auto simp: csv_header_def csv_line_of_def list_all_iff)
  then have r: "read_lines (join [CHR 0x0A] (map (\<lambda>line. join '','' (map csvCell line)) ?lines)) = map (map guarded) ?lines"
    by (intro read_export) simp_all
  have "list_all (list_all shown_as_text) (map (map guarded) ?lines)"
    by (simp only: list.pred_map list.pred_True o_def guarded_shown_as_text)
  then show ?thesis
    using r by (intro exI [of _ "join [CHR 0x0A] (map (\<lambda>line. join '','' (map csvCell line)) ?lines)"])
      (simp add: exportCsv_def)
qed

end
