(* ===== verification/Calendar.thy ===== *)
theory Calendar
  imports Clock
begin

section \<open>The calendar: dates written and read back\<close>

text \<open>
  Lemmas of the dates of \<open>Clock\<close>: the day number and the civil date determine each other, and the
  text of \<open>toISOString\<close> is read by \<open>Date.parse\<close> as the time it was written for.  The pages that put
  times into requests, links and lists rest on them.
\<close>

subsection \<open>The year of an era\<close>

text \<open>Day \<open>doy\<close> of the year \<open>yoe\<close> of 400, both from March on.\<close>

definition era_day :: "int \<Rightarrow> int \<Rightarrow> int" where
  "era_day yoe doy = yoe * 365 + yoe div 4 - yoe div 100 + doy"

definition long_year :: "int \<Rightarrow> bool" where
  "long_year yoe = (yoe mod 4 = 3 \<and> (yoe mod 100 \<noteq> 99 \<or> yoe = 399))"

definition year_of_era :: "int \<Rightarrow> int" where
  "year_of_era doe = (doe - doe div 1460 + doe div 36524 - doe div 146096) div 365"

lemma long_year_iff:
  assumes "0 \<le> c" "c < 4" "0 \<le> q" "q < 25" "0 \<le> r" "r < (4 :: int)"
  shows "long_year (100 * c + 4 * q + r) = (r = 3 \<and> (q \<noteq> 24 \<or> c = 3))"
proof -
  have "(4 * (25 * c + q) + r) mod 4 = r"
    by (subst mod_mult_self4) (simp add: assms)
  then have four: "(100 * c + 4 * q + r) mod 4 = r"
    by (simp add: algebra_simps)
  have "(c * 100 + (4 * q + r)) mod 100 = 4 * q + r"
    by (subst mod_mult_self3) (use assms in simp)
  then have hundred: "(100 * c + 4 * q + r) mod 100 = 4 * q + r"
    by (simp add: algebra_simps)
  show ?thesis
    unfolding long_year_def four hundred using assms by (cases "r = 3"; cases "c = 3"; cases "q = 24"; simp)
qed

lemma year_parts:
  assumes "0 \<le> yoe" and "yoe < (400 :: int)"
  obtains c q r where "yoe = 100 * c + 4 * q + r" "0 \<le> c" "c < 4" "0 \<le> q" "q < 25" "0 \<le> r" "r < 4"
    "yoe div 4 = 25 * c + q" "yoe div 100 = c" "long_year yoe = (r = 3 \<and> (q \<noteq> 24 \<or> c = 3))"
proof -
  define c q r where "c = yoe div 100" and "q = yoe mod 100 div 4" and "r = yoe mod 4"
  have r: "r = yoe mod 100 mod 4"
    using mod_mod_cancel [of 4 100 yoe] by (simp add: r_def)
  have m: "yoe mod 100 = 4 * q + r"
    unfolding q_def r by simp
  then have y: "yoe = 100 * c + 4 * q + r"
    using mult_div_mod_eq [of 100 yoe] by (simp add: c_def)
  have "0 \<le> c" "c < 4" "0 \<le> q"
    using assms by (auto simp: c_def q_def)
  moreover have "yoe mod 100 < 100" "0 \<le> r" "r < 4"
    by (simp_all add: r_def)
  then have "q < 25" "0 \<le> r" "r < 4"
    using m by simp_all
  ultimately have b: "0 \<le> c" "c < 4" "0 \<le> q" "q < 25" "0 \<le> r" "r < 4"
    by blast+
  have four: "yoe div 4 = 25 * c + q"
    using y b by (intro int_div_pos_eq [of _ _ _ r]) simp_all
  have long: "long_year yoe = (r = 3 \<and> (q \<noteq> 24 \<or> c = 3))"
    unfolding y by (rule long_year_iff [OF b])
  show ?thesis
    by (rule that [OF y b four c_def [symmetric] long])
qed

lemma era_day_year:
  assumes "0 \<le> yoe" and "yoe < 400" and "0 \<le> doy" and "doy \<le> 365" and "doy = 365 \<longrightarrow> long_year yoe"
  shows "year_of_era (era_day yoe doy) = yoe" and "0 \<le> era_day yoe doy" and "era_day yoe doy < 146097"
proof -
  obtain c q r where p: "yoe = 100 * c + 4 * q + r" "0 \<le> c" "c < 4" "0 \<le> q" "q < 25" "0 \<le> r" "r < 4"
    "yoe div 4 = 25 * c + q" "yoe div 100 = c" "long_year yoe = (r = 3 \<and> (q \<noteq> 24 \<or> c = 3))"
    using year_parts [OF assms(1,2)] by blast
  define doe where "doe = era_day yoe doy"
  have doe: "doe = 36524 * c + 1461 * q + 365 * r + doy"
    unfolding doe_def era_day_def p(8,9) using p(1) by simp
  have short: "doy \<le> 364 \<or> r = 3 \<and> (q \<noteq> 24 \<or> c = 3)"
    using assms(3-5) p(10) by auto
  have bounds: "0 \<le> doe" "doe < 146097"
    using doe p assms(3,4) short by auto
  then show "0 \<le> era_day yoe doy" "era_day yoe doy < 146097"
    by (simp_all add: doe_def)
  have big: "doe div 36524 - doe div 146096 = c"
  proof (cases "doe = 146096")
    case True
    then have "c = 3" using doe p assms(3,4) short by auto
    with True show ?thesis by simp
  next
    case False
    then have "1461 * q + 365 * r + doy < 36524"
      using doe p assms(3,4) short bounds by auto
    then have "doe div 36524 = c"
      using doe p(4,6) assms(3) by (simp add: int_div_pos_eq)
    moreover have "doe div 146096 = 0"
      using False bounds by simp
    ultimately show ?thesis by simp
  qed
  define e where "e = doe div 1460 - (25 * c + q)"
  have rest: "doe = 1460 * (25 * c + q) + (24 * c + q + 365 * r + doy)"
    using doe by simp
  then have e: "e = (24 * c + q + 365 * r + doy) div 1460"
    unfolding e_def by simp
  have "e = 0 \<and> doy \<le> 364 \<or> e = 1 \<and> 1 \<le> doy"
  proof (cases "24 * c + q + 365 * r + doy < 1460")
    case True
    then have "e = 0"
      using e p(2,4,6) assms(3) by simp
    moreover have "doy \<le> 364"
      using True short p(2,4,5) by auto
    ultimately show ?thesis by simp
  next
    case False
    moreover have "24 * c + q + 365 * r + doy < 2920"
      using p(3,5,7) assms(4) by simp
    ultimately have "e = 1"
      using e by (simp add: int_div_pos_eq)
    moreover have "1 \<le> doy"
      using False p(3,5,7) by simp
    ultimately show ?thesis by simp
  qed
  moreover have "doe - doe div 1460 + doe div 36524 - doe div 146096 = 365 * yoe + (doy - e)"
    using big doe p(1) unfolding e_def by simp
  ultimately have "year_of_era doe = yoe"
    using assms(3,4) by (auto simp: year_of_era_def)
  then show "year_of_era (era_day yoe doy) = yoe"
    by (simp add: doe_def)
qed

lemma era_day_exists:
  assumes "0 \<le> doe" and "doe < (146097 :: int)"
  obtains yoe doy where "doe = era_day yoe doy" "0 \<le> yoe" "yoe < 400" "0 \<le> doy" "doy \<le> 365"
    "doy = 365 \<longrightarrow> long_year yoe"
proof -
  define c where "c = min 3 (doe div 36524)"
  define s where "s = doe - 36524 * c"
  define q where "q = s div 1461"
  define u where "u = s - 1461 * q"
  define r where "r = min 3 (u div 365)"
  define doy where "doy = u - 365 * r"
  have c: "0 \<le> c" "c < 4" using assms by (auto simp: c_def)
  have s: "0 \<le> s \<and> s \<le> 36524 \<and> (s = 36524 \<longrightarrow> c = 3)"
  proof (cases "doe = 146096")
    case False
    then have "doe div 36524 \<le> 3"
      using assms zdiv_mono1 [of doe 146095 36524] by simp
    then have "s = doe mod 36524"
      by (simp add: s_def c_def minus_mult_div_eq_mod)
    then show ?thesis
      by (simp add: order_less_imp_le less_imp_neq)
  qed (simp add: s_def c_def)
  have q: "0 \<le> q" "q < 25" using s by (auto simp: q_def)
  have "u = s mod 1461"
    by (simp add: u_def q_def minus_mult_div_eq_mod)
  then have u: "0 \<le> u" "u \<le> 1460" by simp_all
  have r: "0 \<le> r" "r < 4" using u by (auto simp: r_def)
  have doy: "0 \<le> doy \<and> doy \<le> 365 \<and> (doy = 365 \<longrightarrow> r = 3)"
  proof (cases "u = 1460")
    case False
    then have "u div 365 \<le> 3"
      using u zdiv_mono1 [of u 1459 365] by simp
    then have "doy = u mod 365"
      by (simp add: doy_def r_def minus_mult_div_eq_mod)
    then show ?thesis
      by (simp add: order_less_imp_le less_imp_neq)
  qed (simp add: doy_def r_def)
  let ?y = "100 * c + 4 * q + r"
  have y: "?y div 4 = 25 * c + q" "?y div 100 = c" "0 \<le> ?y" "?y < 400"
    using c q r by (auto simp: int_div_pos_eq)
  have "doe = 36524 * c + 1461 * q + 365 * r + doy"
    by (simp add: doy_def u_def s_def)
  then have "doe = era_day ?y doy"
    unfolding era_day_def y(1,2) by simp
  moreover have "long_year ?y" if d: "doy = 365"
  proof -
    have "r = 3" using d doy by simp
    moreover have "q \<noteq> 24 \<or> c = 3"
      using d calculation s u_def doy_def by auto
    ultimately show ?thesis
      using long_year_iff [of c q r] c q r by simp
  qed
  ultimately show ?thesis
    using that [of ?y doy] y doy by blast
qed

subsection \<open>The months of a year\<close>

definition month_start :: "int \<Rightarrow> int" where
  "month_start mp = (153 * mp + 2) div 5"

definition month_number :: "int \<Rightarrow> int" where
  "month_number mp = (if mp < 10 then mp + 3 else mp - 9)"

definition march_month :: "int \<Rightarrow> int" where
  "march_month m = m + (if 2 < m then - 3 else 9)"

lemma div_iff:
  assumes "0 < (b :: int)"
  shows "a div b = q \<longleftrightarrow> b * q \<le> a \<and> a < b * q + b"
proof
  assume "a div b = q"
  then have "b * q + a mod b = a"
    using mult_div_mod_eq [of b a] by blast
  then show "b * q \<le> a \<and> a < b * q + b"
    using pos_mod_bound [OF assms, of a] pos_mod_sign [OF assms, of a] by linarith
next
  assume "b * q \<le> a \<and> a < b * q + b"
  then show "a div b = q"
    by (intro int_div_pos_eq [of _ _ _ "a - b * q"]) simp_all
qed

lemma succ_mod_zero:
  assumes "0 < (k :: int)"
  shows "(n + 1) mod k = 0 \<longleftrightarrow> n mod k = k - 1"
proof -
  have r: "(n + 1) mod k = (n mod k + 1) mod k"
    by (simp add: mod_add_left_eq)
  show ?thesis
  proof (cases "n mod k = k - 1")
    case False
    then have "n mod k + 1 < k" "0 \<le> n mod k"
      using pos_mod_bound [OF assms, of n] pos_mod_sign [OF assms, of n] by linarith+
    then show ?thesis using False r by simp
  qed (simp add: r)
qed

lemma month_of_day: "(5 * doy + 2) div 153 = mp \<longleftrightarrow> month_start mp \<le> doy \<and> doy < month_start (mp + 1)"
proof -
  define s u where "s = month_start mp" and "u = month_start (mp + 1)"
  have b: "5 * s \<le> 153 * mp + 2" "153 * mp + 2 < 5 * s + 5"
      "5 * u \<le> 153 * mp + 155" "153 * mp + 155 < 5 * u + 5"
    unfolding s_def u_def month_start_def by simp_all
  have "(5 * doy + 2) div 153 = mp \<longleftrightarrow> 153 * mp \<le> 5 * doy + 2 \<and> 5 * doy + 2 < 153 * mp + 153"
    by (simp add: div_iff)
  also have "\<dots> \<longleftrightarrow> s \<le> doy \<and> doy < u"
    using b by arith
  finally show ?thesis
    by (simp add: s_def u_def)
qed

lemma month_cases:
  assumes "1 \<le> m" and "m \<le> (12 :: int)"
  shows "m \<in> {1, 2, 3, 4, 5, 6, 7, 8, 9, 10, 11, 12}"
proof -
  have "m \<in> set [1..12]"
    using assms by (simp only: set_upto) simp
  moreover have "[1..12 :: int] = [1, 2, 3, 4, 5, 6, 7, 8, 9, 10, 11, 12]"
    by (simp add: upto_rec1 [of 1])
  ultimately show ?thesis
    by (simp only: list.set)
qed

lemma month_length:
  assumes "1 \<le> m" and "m \<le> 12" and "m \<noteq> 2"
  shows "month_start (march_month m + 1) = month_start (march_month m) + days_in_month y m"
  using month_cases [OF assms(1,2)] assms(3)
  by (auto simp: month_start_def march_month_def days_in_month_def)

lemma march_month_inverse: "1 \<le> m \<Longrightarrow> m \<le> 12 \<Longrightarrow> month_number (march_month m) = m"
  by (auto simp: month_number_def march_month_def)

lemma month_number_inverse:
  "0 \<le> mp \<Longrightarrow> mp \<le> 11 \<Longrightarrow> march_month (month_number mp) = mp \<and> 1 \<le> month_number mp \<and> month_number mp \<le> 12"
  by (auto simp: month_number_def march_month_def)

lemma leap_long:
  assumes "0 \<le> yoe" and "yoe < 400"
  shows "leap_year (era * 400 + yoe + 1) = long_year yoe"
proof -
  have "(4 * (100 * era) + (yoe + 1)) mod 4 = (yoe + 1) mod 4" "(100 * (4 * era) + (yoe + 1)) mod 100 = (yoe + 1) mod 100"
      "(400 * era + (yoe + 1)) mod 400 = (yoe + 1) mod 400"
    by (rule mod_mult_self4)+
  moreover have "yoe mod 400 = yoe"
    using assms by simp
  ultimately show ?thesis
    by (simp add: leap_year_def long_year_def succ_mod_zero add.assoc mult.commute)
qed


subsection \<open>Days and civil dates\<close>

definition civil_ok :: "int \<Rightarrow> int \<Rightarrow> int \<Rightarrow> bool" where
  "civil_ok y m d = (1 \<le> m \<and> m \<le> 12 \<and> 1 \<le> d \<and> d \<le> days_in_month y m)"

text \<open>A date is the era, the year in it and the day of that year, both from March on.\<close>

lemma civil_by_era:
  "civil_from_days n =
    (let doe = (n + 719468) mod 146097; yoe = year_of_era doe; doy = doe - (365 * yoe + yoe div 4 - yoe div 100);
         mp = (5 * doy + 2) div 153; m = month_number mp in
      (yoe + (n + 719468) div 146097 * 400 + (if m \<le> 2 then 1 else 0), m, doy - month_start mp + 1))"
  unfolding civil_from_days_def Let_def year_of_era_def month_number_def month_start_def minus_div_mult_eq_mod
  by (rule refl)

lemma civil_of_era:
  assumes "0 \<le> yoe" "yoe < 400" "0 \<le> doy" "doy \<le> 365" "doy = 365 \<longrightarrow> long_year yoe"
  shows "civil_from_days (era * 146097 + era_day yoe doy - 719468) =
    (let mp = (5 * doy + 2) div 153; m = month_number mp in
      (yoe + era * 400 + (if m \<le> 2 then 1 else 0), m, doy - month_start mp + 1))"
proof -
  note y = era_day_year [OF assms]
  have z: "era * 146097 + era_day yoe doy - 719468 + 719468 = era * 146097 + era_day yoe doy"
    by simp
  have e: "(era * 146097 + era_day yoe doy) div 146097 = era"
    using y(2,3) by (intro int_div_pos_eq [of _ _ _ "era_day yoe doy"]) simp_all
  have r: "(era * 146097 + era_day yoe doy) mod 146097 = era_day yoe doy"
    using y(2,3) by simp
  have d: "era_day yoe doy - (365 * yoe + yoe div 4 - yoe div 100) = doy"
    by (simp add: era_day_def)
  show ?thesis
    unfolding civil_by_era Let_def z e r y(1) d by (rule refl)
qed

lemma days_of_era:
  "days_from_civil y m d =
    (let y' = if m \<le> 2 then y - 1 else y in
      y' div 400 * 146097 + era_day (y' mod 400) (month_start (march_month m) + d - 1) - 719468)"
  unfolding days_from_civil_def Let_def era_day_def month_start_def march_month_def minus_div_mult_eq_mod
  by simp

lemma year_parts_leap:
  "leap_year (y' + 1) = long_year (y' mod 400)"
  using leap_long [of "y' mod 400" "y' div 400"] by (simp add: mult.commute)

theorem civil_from_days_inverse:
  assumes "civil_ok y m d"
  shows "civil_from_days (days_from_civil y m d) = (y, m, d)"
proof -
  define y' where "y' = (if m \<le> 2 then y - 1 else y)"
  define mp where "mp = march_month m"
  define doy where "doy = month_start mp + d - 1"
  have m: "1 \<le> m" "m \<le> 12" "1 \<le> d" "d \<le> days_in_month y m"
    using assms by (auto simp: civil_ok_def)
  have mp: "0 \<le> mp" "mp \<le> 11"
    using m by (auto simp: mp_def march_month_def)
  have start: "0 \<le> month_start mp"
    using mp by (simp add: month_start_def)
  have lower: "month_start mp \<le> doy"
    using m by (simp add: doy_def)
  have upper: "doy < month_start (mp + 1) \<and> doy \<le> 365 \<and> (doy = 365 \<longrightarrow> long_year (y' mod 400))"
  proof (cases "m = 2")
    case True
    then have "doy = 336 + d" "mp = 11" "y' = y - 1"
      by (simp_all add: doy_def mp_def march_month_def month_start_def y'_def)
    moreover have "d \<le> 29" "d = 29 \<longrightarrow> leap_year y"
      using m True by (auto simp: days_in_month_def split: if_splits)
    ultimately show ?thesis
      using year_parts_leap [of y'] by (auto simp: month_start_def)
  next
    case False
    then have "month_start (mp + 1) = month_start mp + days_in_month y m"
      unfolding mp_def by (rule month_length [OF m(1,2)])
    moreover have "mp \<le> 10"
      using m False by (auto simp: mp_def march_month_def)
    then have "month_start (mp + 1) \<le> 337"
      unfolding month_start_def using zdiv_mono1 [of "153 * (mp + 1) + 2" 1685 5] by simp
    ultimately show ?thesis
      using m by (auto simp: doy_def)
  qed
  have "(5 * doy + 2) div 153 = mp"
    using lower upper by (simp add: month_of_day)
  moreover have "days_from_civil y m d = y' div 400 * 146097 + era_day (y' mod 400) doy - 719468"
    by (simp add: days_of_era y'_def doy_def mp_def Let_def)
  moreover have "month_number mp = m"
    using march_month_inverse m by (simp add: mp_def)
  moreover have "y' mod 400 + y' div 400 * 400 + (if m \<le> 2 then 1 else 0) = y"
    by (simp add: mod_div_mult_eq y'_def)
  ultimately show ?thesis
    using civil_of_era [of "y' mod 400" doy "y' div 400"] lower upper start m by (simp add: Let_def doy_def)
qed

theorem days_from_civil_inverse:
  obtains y m d where "civil_from_days n = (y, m, d)" "civil_ok y m d" "days_from_civil y m d = n"
proof -
  define era doe where "era = (n + 719468) div 146097" and "doe = (n + 719468) mod 146097"
  have "0 \<le> doe" "doe < 146097"
    by (simp_all add: doe_def)
  then obtain yoe doy where e: "doe = era_day yoe doy" "0 \<le> yoe" "yoe < 400" "0 \<le> doy" "doy \<le> 365"
    "doy = 365 \<longrightarrow> long_year yoe"
    by (rule era_day_exists)
  have n: "n = era * 146097 + era_day yoe doy - 719468"
    unfolding e(1) [symmetric] era_def doe_def by simp
  define mp where "mp = (5 * doy + 2) div 153"
  have mp: "0 \<le> mp" "mp \<le> 11"
    using e(4,5) zdiv_mono1 [of "5 * doy + 2" 1827 153] by (auto simp: mp_def)
  have s: "month_start mp \<le> doy" "doy < month_start (mp + 1)"
    using month_of_day [of doy mp] by (simp_all add: mp_def)
  define m where "m = month_number mp"
  have m: "march_month m = mp" "1 \<le> m" "m \<le> 12"
    using month_number_inverse [OF mp] by (simp_all add: m_def)
  define y where "y = yoe + era * 400 + (if m \<le> 2 then 1 else 0)"
  define d where "d = doy - month_start mp + 1"
  have civil: "civil_from_days n = (y, m, d)"
    using civil_of_era [OF e(2-6)] by (simp add: n y_def d_def m_def mp_def Let_def)
  have "d \<le> days_in_month y m"
  proof (cases "m = 2")
    case True
    then have "mp = 11" "y = era * 400 + yoe + 1"
      using m by (auto simp: march_month_def y_def)
    then show ?thesis
      using True e leap_long [of yoe era] by (auto simp: d_def month_start_def days_in_month_def)
  next
    case False
    then show ?thesis
      using month_length [OF m(2,3) False, of y] m(1) s by (simp add: d_def)
  qed
  then have "civil_ok y m d"
    using m s by (simp add: civil_ok_def d_def)
  moreover have "(if m \<le> 2 then y - 1 else y) = era * 400 + yoe"
    by (simp add: y_def)
  moreover have "(era * 400 + yoe) div 400 = era" "(era * 400 + yoe) mod 400 = yoe"
    using e by simp_all
  ultimately have "days_from_civil y m d = n"
    using n m(1) by (simp add: days_of_era d_def Let_def)
  with civil \<open>civil_ok y m d\<close> show ?thesis
    by (rule that)
qed


subsection \<open>Digits\<close>

lemma digits_val_zeros: "digits_val (replicate k (CHR ''0'') @ s) = digits_val s"
  by (induction k) (simp_all add: digits_val_def digit_val_def code_def)

lemma length_show_nat: "i < 10 ^ n \<Longrightarrow> 0 < n \<Longrightarrow> length (show_nat i) \<le> n"
proof (induction n arbitrary: i)
  case (Suc n)
  show ?case
  proof (cases "i < 10")
    case True
    then show ?thesis by (simp add: show_nat.simps [of i])
  next
    case False
    then have "0 < n"
      using Suc.prems by (cases n) auto
    moreover have "i div 10 < 10 ^ n"
      using Suc.prems by (simp add: less_mult_imp_div_less mult.commute)
    ultimately have "length (show_nat (i div 10)) \<le> n"
      using Suc.IH by blast
    with False show ?thesis by (simp add: show_nat.simps [of i])
  qed
qed simp

lemma padded_digits:
  assumes "0 \<le> i" and "i < 10 ^ n" and "0 < n"
  shows "length (padded n i) = n" and "list_all is_digit (padded n i)" and "int (digits_val (padded n i)) = i"
proof -
  have p: "padded n i = replicate (n - length (show_nat (nat i))) (CHR ''0'') @ show_nat (nat i)"
    using assms(1) by (simp add: padded_def pad_left_def show_int_def)
  have "nat i < 10 ^ n"
    using assms by (simp add: nat_less_iff)
  then show "length (padded n i) = n"
    using length_show_nat [of "nat i" n] assms(3) by (simp add: p)
  show "list_all is_digit (padded n i)"
    using show_nat_digits by (auto simp: p list_all_iff is_digit_def code_def)
  show "int (digits_val (padded n i)) = i"
    using assms(1) by (simp add: p digits_val_zeros)
qed

lemma take_digits_padded:
  assumes "0 \<le> i" and "i < 10 ^ n" and "0 < n"
  shows "take_digits n (padded n i @ s) = Some (i, s)"
  using padded_digits [OF assms] by (simp add: take_digits_def)

lemma opt_part_padded:
  assumes "0 \<le> i" and "i < 10 ^ n" and "0 < n"
  shows "opt_part c n k (c # padded n i @ s) = Some (i, s)"
  using take_digits_padded [OF assms] by (simp add: opt_part_def)

subsection \<open>A date as text\<close>

definition date_text :: "int \<Rightarrow> int \<Rightarrow> int \<Rightarrow> string" where
  "date_text y m d = padded 4 y @ ''-'' @ padded 2 m @ ''-'' @ padded 2 d"

definition clock_text :: "int \<Rightarrow> string" where
  "clock_text sec = padded 2 (sec div 3600) @ '':'' @ padded 2 (sec div 60 mod 60) @ '':'' @ padded 2 (sec mod 60)"

lemma days_in_month_le: "days_in_month y m \<le> 31"
  by (simp add: days_in_month_def)

lemma parse_day_text:
  assumes "civil_ok y m d" and "0 \<le> y" and "y \<le> 9999"
  shows "parse_day (date_text y m d @ s) = Some (days_from_civil y m d, s)"
proof -
  have b: "1 \<le> m" "m \<le> 12" "1 \<le> d" "d \<le> days_in_month y m" "d \<le> 31"
    using assms(1) days_in_month_le [of y m] by (auto simp: civil_ok_def)
  have "take_digits 4 (padded 4 y @ r) = Some (y, r)" for r
    using assms by (intro take_digits_padded) simp_all
  moreover have "opt_part (CHR ''-'') 2 1 (CHR ''-'' # padded 2 m @ r) = Some (m, r)" for r
    using b by (intro opt_part_padded) simp_all
  moreover have "opt_part (CHR ''-'') 2 1 (CHR ''-'' # padded 2 d @ r) = Some (d, r)" for r
    using b by (intro opt_part_padded) simp_all
  moreover have "CHR ''-'' # padded 2 m @ r \<noteq> r" for r
    by (metis append_Cons append_self_conv2 list.distinct(1))
  ultimately show ?thesis
    using b by (simp add: date_text_def parse_day_def)
qed

lemma clock_bounds:
  assumes "0 \<le> sec" and "sec < (86400 :: int)"
  shows "sec div 3600 < 24" and "(sec div 3600 * 60 + sec div 60 mod 60) * 60 + sec mod 60 = sec"
proof -
  show "sec div 3600 < 24"
    using assms zdiv_mono1 [of sec 86399 3600] by simp
  have h: "sec div 3600 = sec div 60 div 60"
    by (simp add: zdiv_zmult2_eq)
  show "(sec div 3600 * 60 + sec div 60 mod 60) * 60 + sec mod 60 = sec"
    unfolding h div_mult_mod_eq by simp
qed

lemma parse_clock_text:
  assumes "0 \<le> sec" and "sec < 86400"
  shows "parse_clock (clock_text sec @ CHR ''Z'' # s) = Some (sec * 1000, CHR ''Z'' # s)"
    and "0 \<le> ms \<Longrightarrow> ms < 1000 \<Longrightarrow>
      parse_clock (clock_text sec @ CHR ''.'' # padded 3 ms @ CHR ''Z'' # s) = Some (sec * 1000 + ms, CHR ''Z'' # s)"
proof -
  note b = clock_bounds [OF assms]
  have hh: "take_digits 2 (padded 2 (sec div 3600) @ r) = Some (sec div 3600, r)" for r
    using assms b by (intro take_digits_padded) simp_all
  have mm: "take_digits 2 (padded 2 (sec div 60 mod 60) @ r) = Some (sec div 60 mod 60, r)" for r
    by (intro take_digits_padded) simp_all
  have ss: "opt_part (CHR '':'') 2 0 (CHR '':'' # padded 2 (sec mod 60) @ r) = Some (sec mod 60, r)" for r
    by (intro opt_part_padded) simp_all
  have ne: "CHR '':'' # padded 2 (sec mod 60) @ r \<noteq> r" for r
    by (metis append_Cons append_self_conv2 list.distinct(1))
  have low: "sec div 60 mod 60 < 60" "sec mod 60 < 60"
    by simp_all
  show "parse_clock (clock_text sec @ CHR ''Z'' # s) = Some (sec * 1000, CHR ''Z'' # s)"
    using b low by (simp add: parse_clock_def clock_text_def hh mm ss ne parse_millis_def)
  assume m: "0 \<le> ms" "ms < 1000"
  have "list_all is_digit (padded 3 ms)" "length (padded 3 ms) = 3" "int (digits_val (padded 3 ms)) = ms"
    using padded_digits [of ms 3] m by simp_all
  moreover have "\<not> is_digit (CHR ''Z'')" by (simp add: is_digit_def code_def)
  ultimately have "parse_millis (CHR ''.'' # padded 3 ms @ CHR ''Z'' # s) = Some (ms, CHR ''Z'' # s)"
    by (auto simp: parse_millis_def takeWhile_append dropWhile_append list_all_iff Let_def)
  then show "parse_clock (clock_text sec @ CHR ''.'' # padded 3 ms @ CHR ''Z'' # s) = Some (sec * 1000 + ms, CHR ''Z'' # s)"
    using b low by (simp add: parse_clock_def clock_text_def hh mm ss ne)
qed

subsection \<open>Times since 1970 are read back\<close>

definition last_ms :: int where
  "last_ms = 253402300800000"

lemma year_in_range:
  assumes "0 \<le> n" and "n < 2932897" and "civil_from_days n = (y, m, d)"
  shows "1600 \<le> y" and "y \<le> 9999"
proof -
  define era doe where "era = (n + 719468) div 146097" and "doe = (n + 719468) mod 146097"
  have "0 \<le> doe" "doe < 146097"
    by (simp_all add: doe_def)
  then obtain yoe doy where e: "doe = era_day yoe doy" "0 \<le> yoe" "yoe < 400" "0 \<le> doy" "doy \<le> 365"
    "doy = 365 \<longrightarrow> long_year yoe"
    by (rule era_day_exists)
  have n: "n = era * 146097 + era_day yoe doy - 719468"
    unfolding e(1) [symmetric] era_def doe_def by simp
  have m: "m = month_number ((5 * doy + 2) div 153)" and y: "y = yoe + era * 400 + (if m \<le> 2 then 1 else 0)"
    using civil_of_era [OF e(2-6), of era] assms(3) by (auto simp: n Let_def)
  have era: "4 \<le> era" "era \<le> 24"
    using assms zdiv_mono1 [of 719468 "n + 719468" 146097] zdiv_mono1 [of "n + 719468" 3652364 146097]
    by (simp_all add: era_def)
  then show "1600 \<le> y"
    using e y by auto
  show "y \<le> 9999"
  proof (cases "era = 24 \<and> yoe = 399")
    case True
    then have "doy < 306"
      using n assms(2) by (simp add: era_day_def)
    then have "(5 * doy + 2) div 153 < 10" "0 \<le> (5 * doy + 2) div 153"
      using e(4) zdiv_mono1 [of "5 * doy + 2" 1527 153] by simp_all
    then have "\<not> m \<le> 2"
      by (simp add: m month_number_def)
    then show ?thesis using True y by simp
  next
    case False
    then show ?thesis using era e(3) y by auto
  qed
qed

lemma split_ms:
  assumes "0 \<le> (t :: int)"
  shows "t = t div 86400000 * 86400000 + (t mod 86400000 div 1000 * 1000 + t mod 1000)"
    and "0 \<le> t mod 86400000 div 1000" and "t mod 86400000 div 1000 < 86400"
proof -
  have "t mod 86400000 mod 1000 = t mod 1000"
    by (rule mod_mod_cancel) simp
  then show "t = t div 86400000 * 86400000 + (t mod 86400000 div 1000 * 1000 + t mod 1000)"
    using div_mult_mod_eq [of "t mod 86400000" 1000] div_mult_mod_eq [of t 86400000] by simp
  show "0 \<le> t mod 86400000 div 1000"
    by (simp add: pos_imp_zdiv_nonneg_iff)
  have "t mod 86400000 \<le> 86399999"
    using pos_mod_bound [of 86400000 t] by linarith
  then show "t mod 86400000 div 1000 < 86400"
    using zdiv_mono1 [of "t mod 86400000" 86399999 1000] by simp
qed

theorem iso_of_ms_read_back:
  assumes "0 \<le> t" and "t < last_ms"
  shows "date_parse zone (iso_of_ms t) = Some t"
proof -
  let ?sec = "t mod 86400000 div 1000"
  obtain y m d where c: "civil_from_days (t div 86400000) = (y, m, d)" "civil_ok y m d"
      "days_from_civil y m d = t div 86400000"
    by (rule days_from_civil_inverse)
  have "0 \<le> t div 86400000" "t div 86400000 < 2932897"
    using assms zdiv_mono1 [of t 253402300799999 86400000] by (simp_all add: last_ms_def pos_imp_zdiv_nonneg_iff)
  then have y: "0 \<le> y" "y \<le> 9999"
    using year_in_range [OF _ _ c(1)] by simp_all
  have "t mod 86400000 mod 1000 = t mod 1000"
    by (rule mod_mod_cancel) simp
  then have "iso_of_ms t =
      date_text y m d @ CHR ''T'' # clock_text ?sec @ CHR ''.'' # padded 3 (t mod 1000) @ CHR ''Z'' # []"
    by (simp add: iso_of_ms_def c(1) Let_def date_text_def clock_text_def)
  moreover have "t mod 1000 < 1000" "0 \<le> t mod 1000"
    by simp_all
  ultimately show ?thesis
    using parse_day_text [OF c(2) y] parse_clock_text(2) [OF split_ms(2,3) [OF assms(1)], of "t mod 1000" "[]"]
      split_ms(1) [OF assms(1)]
    by (simp add: date_parse_def parse_offset_def c(3))
qed


end
