(* ===== verification/RequestsPage.thy ===== *)
theory RequestsPage
  imports SessionsView Connect Calendar
begin

section \<open>The requests for access (pages/RequestsPage.jsx)\<close>

text \<open>
  The page lists the requests for approval with the status they have now: an approval is over an hour
  after the decision, whatever the list says.  The bastion keeps the same hour when a session is opened
  with the number of a request (\<open>routes.cc\<close>); both sides are modelled, so that what the page shows and
  offers can be compared with what the bastion accepts.
\<close>

subsection \<open>The hour of an approval, on the page\<close>

definition APPROVAL_TTL_MS :: int where
  "APPROVAL_TTL_MS = 3600 * 1000"

definition statusOf :: "(int \<Rightarrow> int) \<Rightarrow> json \<Rightarrow> int \<Rightarrow> string" where
  "statusOf zone request now =
     (let status = to_lower (text_or (jget request ''status'') ''pending'') in
      if status = ''approved''
      then (case parse_of zone (jor (jget request ''reviewedAt'') (JStr [])) of
              Some reviewed \<Rightarrow> if APPROVAL_TTL_MS < now - reviewed then ''expired'' else status
            | None \<Rightarrow> status)
      else status)"

subsection \<open>The page\<close>

record requests_page =
  rq_requests :: "json list"
  rq_resources :: "json list"
  rq_sessions :: "json list"
  rq_user :: json
  rq_review :: bool
  rq_tab :: string
  rq_selected :: json
  rq_busy :: json
  rq_now :: int

definition own_request :: "requests_page \<Rightarrow> json \<Rightarrow> bool" where
  "own_request p request = strict_eq (jget request ''requester'') (rq_user p)"

definition newest_first :: "(int \<Rightarrow> int) \<Rightarrow> json list \<Rightarrow> json list" where
  "newest_first zone requests = sort_by (\<lambda>a b. earlier zone ''createdAt'' b a) requests"

definition group_todo :: "(int \<Rightarrow> int) \<Rightarrow> requests_page \<Rightarrow> json list" where
  "group_todo zone p =
     (if rq_review p
      then filter (\<lambda>r. statusOf zone r (rq_now p) = ''pending'') (newest_first zone (rq_requests p)) else [])"

definition group_mine :: "(int \<Rightarrow> int) \<Rightarrow> requests_page \<Rightarrow> json list" where
  "group_mine zone p = filter (own_request p) (newest_first zone (rq_requests p))"

definition group_done :: "(int \<Rightarrow> int) \<Rightarrow> requests_page \<Rightarrow> json list" where
  "group_done zone p =
     filter (\<lambda>r. statusOf zone r (rq_now p) \<noteq> ''pending'' \<and> (rq_review p \<or> own_request p r))
       (newest_first zone (rq_requests p))"

definition request_tabs :: "requests_page \<Rightarrow> string list" where
  "request_tabs p = (if rq_review p then [''todo''] else []) @ [''mine'', ''done'']"

definition first_tab :: "bool \<Rightarrow> string" where
  "first_tab review = (if review then ''todo'' else ''mine'')"

definition request_list :: "(int \<Rightarrow> int) \<Rightarrow> requests_page \<Rightarrow> json list" where
  "request_list zone p =
     (if rq_tab p = ''todo'' then group_todo zone p else if rq_tab p = ''mine'' then group_mine zone p
      else if rq_tab p = ''done'' then group_done zone p else [])"

definition selected_request :: "(int \<Rightarrow> int) \<Rightarrow> requests_page \<Rightarrow> json" where
  "selected_request zone p =
     (let list = request_list zone p in
      case find (\<lambda>r. strict_eq (jget r ''id'') (rq_selected p)) list of
        Some r \<Rightarrow> r
      | None \<Rightarrow> (case list of [] \<Rightarrow> JNull | r # rs \<Rightarrow> r))"

definition choose_tab :: "string \<Rightarrow> requests_page \<Rightarrow> requests_page" where
  "choose_tab tab p = p\<lparr>rq_tab := tab, rq_selected := JNull\<rparr>"

definition choose_request :: "json \<Rightarrow> requests_page \<Rightarrow> requests_page" where
  "choose_request request p = p\<lparr>rq_selected := jget request ''id''\<rparr>"

definition request_resource :: "requests_page \<Rightarrow> json \<Rightarrow> json" where
  "request_resource p request =
     (case find (\<lambda>r. js_number (jget r ''id'') = js_number (jget request ''resourceId'')) (rev (rq_resources p)) of
        Some r \<Rightarrow> r | None \<Rightarrow> JNull)"

subsection \<open>What can be done with a request\<close>

datatype request_action = Deny_it | Approve_it | Connect_with json

definition request_actions :: "(int \<Rightarrow> int) \<Rightarrow> requests_page \<Rightarrow> json \<Rightarrow> request_action list" where
  "request_actions zone p request =
     (let status = statusOf zone request (rq_now p); resource = request_resource p request in
      (if status = ''pending'' \<and> rq_review p \<and> \<not> strict_eq (rq_busy p) (jget request ''id'')
       then [Deny_it, Approve_it] else []) @
      (if status = ''approved'' \<and> own_request p request \<and> truthy resource then [Connect_with resource] else []))"

text \<open>A decision: the buttons wait for the answer.  What the list becomes is \<open>Connect.onApproveAccessRequest\<close> and
  \<open>Connect.onDenyAccessRequest\<close>.\<close>

definition decide :: "bool \<Rightarrow> json \<Rightarrow> requests_page \<Rightarrow> requests_page \<times> api_call" where
  "decide approve request p =
     (p\<lparr>rq_busy := jget request ''id''\<rparr>,
      if approve then approveAccessRequest (jget request ''id'') else denyAccessRequest (jget request ''id''))"

definition decided :: "requests_page \<Rightarrow> requests_page" where
  "decided p = p\<lparr>rq_busy := JNum 0\<rparr>"

subsection \<open>The selected request\<close>

definition approved_until :: "(int \<Rightarrow> int) \<Rightarrow> json \<Rightarrow> int \<Rightarrow> int option" where
  "approved_until zone request now =
     (if statusOf zone request now = ''approved''
      then map_option (\<lambda>x. x + APPROVAL_TTL_MS) (parse_of zone (jget request ''reviewedAt'')) else None)"

definition request_rules :: "env \<Rightarrow> json \<Rightarrow> string list" where
  "request_rules env resource =
     (if \<not> truthy resource then []
      else filter (\<lambda>item. item \<noteq> env_t env ''policy.risk'' [(''level'', JStr (normalizeRiskLevel (jget resource ''riskLevel'')))])
        (uniq (describeAccessOutcome (env_t env) (set_prop resource ''requireDualApproval'' (JBool True)) @
               describeResourcePolicy (env_t env) resource)))"

record request_event =
  re_at :: json
  re_text :: string
  re_tone :: string
  re_session :: json

definition request_event_before :: "(int \<Rightarrow> int) \<Rightarrow> request_event \<Rightarrow> request_event \<Rightarrow> bool" where
  "request_event_before zone a b =
     (case (parse_of zone (re_at a), parse_of zone (re_at b)) of (Some x, Some y) \<Rightarrow> x < y | _ \<Rightarrow> False)"

definition review_events :: "env \<Rightarrow> json \<Rightarrow> string \<Rightarrow> request_event list" where
  "review_events env request status =
     (if truthy (jget request ''reviewedAt'') \<and> status \<noteq> ''pending''
      then (let denied = (to_lower (js_string (jget request ''status'')) = ''denied'') in
        [\<lparr>re_at = jget request ''reviewedAt'',
          re_text = env_t env (if denied then ''req.evDenied'' else ''req.evApproved'')
            [(''user'', jor (jget request ''reviewedBy'') (JStr ''?''))],
          re_tone = (if denied then ''var(--ef-danger)'' else ''var(--ef-ok)''), re_session = JUndef\<rparr>])
      else [])"

definition session_events :: "env \<Rightarrow> requests_page \<Rightarrow> json \<Rightarrow> request_event list" where
  "session_events env p request =
     map (\<lambda>s. \<lparr>re_at = jget s ''createdAt'', re_text = env_t env ''req.evSession'' [(''id'', jget s ''id'')],
               re_tone = ''var(--ef-priv)'', re_session = s\<rparr>)
       (filter (\<lambda>s. text_or (jget (jget s ''grant'') ''approvalRef'') [] = js_string (jget request ''id'')) (rq_sessions p))"

text \<open>\<open>None\<close>: an approval over for the list but without a readable date raises a \<open>RangeError\<close>.\<close>

definition expiry_events :: "env \<Rightarrow> json \<Rightarrow> string \<Rightarrow> request_event list option" where
  "expiry_events env request status =
     (if status = ''expired''
      then map_option (\<lambda>x. [\<lparr>re_at = JStr (iso_of_ms (x + APPROVAL_TTL_MS)), re_text = tx env ''req.evExpired'',
                              re_tone = ''var(--ef-muted)'', re_session = JUndef\<rparr>])
             (parse_of (env_zone env) (jget request ''reviewedAt''))
      else Some [])"

definition renderTimeline :: "env \<Rightarrow> requests_page \<Rightarrow> json \<Rightarrow> string \<Rightarrow> request_event list option" where
  "renderTimeline env p request status =
     map_option (\<lambda>over.
         sort_by (request_event_before (env_zone env))
           (\<lparr>re_at = jget request ''createdAt'', re_text = env_t env ''req.evCreated'' [(''user'', jget request ''requester'')],
             re_tone = ''var(--ef-line-2)'', re_session = JUndef\<rparr> #
            review_events env request status @ session_events env p request @ over) @
         (if status = ''pending''
          then [\<lparr>re_at = JNull, re_text = tx env ''req.evWaiting'', re_tone = ''var(--ef-priv)'', re_session = JUndef\<rparr>]
          else []))
       (expiry_events env request status)"

subsection \<open>The bastion: a session opened with the number of a request\<close>

record access_request =
  ar_id :: int
  ar_resourceId :: int
  ar_resourceName :: string
  ar_requester :: string
  ar_requesterRole :: string
  ar_status :: string
  ar_justification :: string
  ar_ticketId :: string
  ar_createdAt :: string
  ar_reviewedAt :: string
  ar_reviewedBy :: string

definition access_request_to_json :: "access_request \<Rightarrow> json" where
  "access_request_to_json r =
     JObj [(''id'', JInt (ar_id r)), (''resourceId'', JInt (ar_resourceId r)), (''resourceName'', JStr (ar_resourceName r)),
           (''requester'', JStr (ar_requester r)), (''requesterRole'', JStr (ar_requesterRole r)),
           (''status'', JStr (ar_status r)), (''justification'', JStr (ar_justification r)),
           (''ticketId'', JStr (ar_ticketId r)), (''createdAt'', JStr (ar_createdAt r)),
           (''reviewedAt'', JStr (ar_reviewedAt r)), (''reviewedBy'', JStr (ar_reviewedBy r))]"

text \<open>The text of a second, and the second of a text: the reader of the bastion on the texts it writes.\<close>

definition now_utc :: "int \<Rightarrow> string" where
  "now_utc s =
     (let (y, m, d) = civil_from_days (s div 86400) in date_text y m d @ ''T'' @ clock_text (s mod 86400) @ ''Z'')"

definition parse_utc_epoch_seconds :: "string \<Rightarrow> int option" where
  "parse_utc_epoch_seconds s =
     (case date_parse (\<lambda>_. 0) s of Some t \<Rightarrow> if t < 0 then None else Some (t div 1000) | None \<Rightarrow> None)"

definition kApprovedAccessTtlSeconds :: int where
  "kApprovedAccessTtlSeconds = 3600"

definition expire_request :: "int \<Rightarrow> access_request \<Rightarrow> access_request" where
  "expire_request now r =
     (if ar_status r = ''approved''
      then (case parse_utc_epoch_seconds (ar_reviewedAt r) of
              Some a \<Rightarrow> if kApprovedAccessTtlSeconds < now - a then r\<lparr>ar_status := ''expired''\<rparr> else r
            | None \<Rightarrow> r)
      else r)"

definition check_access_request ::
    "int \<Rightarrow> string \<Rightarrow> int \<Rightarrow> int \<Rightarrow> (int \<rightharpoonup> access_request) \<Rightarrow> (int \<rightharpoonup> access_request) \<times> (nat \<times> string) option" where
  "check_access_request now person resource i requests =
     (if i \<le> 0
      then (requests, Some (400, ''This resource requires dual approval: provide an approved accessRequestId''))
      else case requests i of
        None \<Rightarrow> (requests, Some (404, ''Access request not found''))
      | Some req \<Rightarrow>
          (let r = expire_request now req in
            (requests(i \<mapsto> r),
             if ar_status r \<noteq> ''approved'' then Some (403, ''Access request is not approved'')
             else if ar_requester r \<noteq> person \<or> ar_resourceId r \<noteq> resource
             then Some (403, ''Access request does not match requester/resource'')
             else None)))"

subsection \<open>What the page shows is what the bastion keeps\<close>

lemma now_utc_read_back:
  assumes "0 \<le> s" and "1000 * s < last_ms"
  shows "date_parse zone (now_utc s) = Some (1000 * s)"
proof -
  obtain y m d where c: "civil_from_days (s div 86400) = (y, m, d)" "civil_ok y m d" "days_from_civil y m d = s div 86400"
    by (rule days_from_civil_inverse)
  have "0 \<le> s div 86400" "s div 86400 < 2932897"
    using assms zdiv_mono1 [of s 253402300799 86400] by (simp_all add: last_ms_def pos_imp_zdiv_nonneg_iff)
  then have y: "0 \<le> y" "y \<le> 9999"
    using year_in_range [OF _ _ c(1)] by simp_all
  have "0 \<le> s mod 86400" "s mod 86400 < 86400"
    by simp_all
  moreover have "s div 86400 * 86400000 + s mod 86400 * 1000 = 1000 * s"
    using div_mult_mod_eq [of s 86400] by linarith
  ultimately show ?thesis
    using parse_day_text [OF c(2) y] parse_clock_text(1) [of "s mod 86400" "[]"]
    by (simp add: now_utc_def c(1,3) date_parse_def parse_offset_def)
qed

lemma reviewed_epoch:
  assumes "0 \<le> a" and "1000 * a < last_ms"
  shows "parse_utc_epoch_seconds (now_utc a) = Some a"
  using now_utc_read_back [OF assms, of "\<lambda>_. 0"] assms by (simp add: parse_utc_epoch_seconds_def)

lemma now_utc_not_empty: "now_utc s \<noteq> []"
  by (simp add: now_utc_def split: prod.split)

definition request_states :: "string list" where
  "request_states = [''pending'', ''approved'', ''denied'', ''expired'']"

lemma lower_states: "st \<in> set request_states \<Longrightarrow> to_lower (str_or st ''pending'') = st \<and> st \<noteq> []"
  by (auto simp: request_states_def) code_simp+

lemma statusOf_sent:
  assumes "ar_status r \<in> set request_states" and "ar_reviewedAt r = now_utc a" and "0 \<le> a" and "1000 * a < last_ms"
  shows "statusOf zone (access_request_to_json r) now =
    (if ar_status r = ''approved'' \<and> APPROVAL_TTL_MS < now - 1000 * a then ''expired'' else ar_status r)"
proof -
  have "text_or (jget (access_request_to_json r) ''status'') ''pending'' = str_or (ar_status r) ''pending''"
    by (simp add: access_request_to_json_def str_or_def)
  moreover have "parse_of zone (jor (jget (access_request_to_json r) ''reviewedAt'') (JStr [])) = Some (1000 * a)"
    using now_utc_read_back [OF assms(3,4), of zone] assms(2) now_utc_not_empty
    by (simp add: access_request_to_json_def parse_of_def)
  ultimately show ?thesis
    using lower_states [OF assms(1)] by (simp add: statusOf_def Let_def)
qed

lemma check_of_own_request:
  assumes "ar_reviewedAt r = now_utc a" and "0 \<le> a" and "1000 * a < last_ms" and "0 < i" and "requests i = Some r"
  shows "snd (check_access_request s (ar_requester r) (ar_resourceId r) i requests) =
    (if ar_status r = ''approved'' \<and> s - a \<le> 3600 then None else Some (403, ''Access request is not approved''))"
  using reviewed_epoch [OF assms(2,3)] assms
  by (simp add: check_access_request_def expire_request_def kApprovedAccessTtlSeconds_def Let_def)



definition sample_approved :: "int \<Rightarrow> int \<Rightarrow> access_request" where
  "sample_approved i a =
     \<lparr>ar_id = i, ar_resourceId = 4, ar_resourceName = ''db'', ar_requester = ''ana'', ar_requesterRole = ''user'',
      ar_status = ''approved'', ar_justification = ''night'', ar_ticketId = [], ar_createdAt = [],
      ar_reviewedAt = now_utc a, ar_reviewedBy = ''bob''\<rparr>"


subsection \<open>Which approval a connection uses\<close>

lemma approved_for_sent:
  assumes "v_user v = JStr (ar_requester r)" and "jget resource ''id'' = JInt (ar_resourceId r)" and "ar_status r = ''approved''"
  shows "approved_for v resource (access_request_to_json r)"
  using assms by (simp add: approved_for_def access_request_to_json_def)

lemma approved_payload:
  "\<exists>payload. session_payload resource account (approved_meta (access_request_to_json r)) = Some payload \<and>
     (ar_id r \<noteq> 0 \<longrightarrow> jget payload ''accessRequestId'' = JInt (ar_id r))"
  by (simp add: session_payload_def approved_meta_def access_request_to_json_def trimmed_def jor_def)



definition sample_requests_page :: requests_page where
  "sample_requests_page =
     \<lparr>rq_requests = map access_request_to_json [sample_approved 7 1700000000, sample_approved 9 1700005000],
      rq_resources = [JObj [(''id'', JInt 4)]], rq_sessions = [], rq_user = JStr ''ana'', rq_review = False, rq_tab = ''mine'',
      rq_selected = JNull, rq_busy = JNum 0, rq_now = 1000 * 1700006000\<rparr>"



end
