(* ===== verification/LatestReply.thy ===== *)
theory LatestReply
  imports Prelude
begin

section \<open>Only the reply of the last request counts\<close>

text \<open>
  A page that asks the server again whenever its choices change numbers its requests and drops the reply of an
  earlier one.  The locale is that contract: \<open>call\<close> is the request the choices of a state stand for, \<open>ask\<close>
  sends it under a new number, \<open>receive\<close> takes a reply with the number it was asked under.  A client
  shows with \<open>latest_ask\<close>, \<open>latest_receive\<close> and \<open>latest_kept\<close> that each of its events keeps the
  invariant, from which \<open>latest_shows\<close> follows: once nothing is awaited, what is shown is the
  answer to the choices made now.
\<close>

locale latest_reply =
  fixes turn :: "'s \<Rightarrow> nat" and awaited :: "'s \<Rightarrow> bool" and call :: "'s \<Rightarrow> 'q"
    and ask :: "'s \<Rightarrow> 's \<times> 'q" and receive :: "nat \<Rightarrow> 'r \<Rightarrow> 's \<Rightarrow> 's" and presents :: "'s \<Rightarrow> 'r \<Rightarrow> bool"
  assumes ask_numbered: "ask s = (t, q) \<Longrightarrow> turn t = Suc (turn s) \<and> awaited t \<and> call t = call s \<and> q = call s"
    and stale_dropped: "n \<noteq> turn s \<Longrightarrow> receive n r s = s"
    and fresh_taken: "turn (receive (turn s) r s) = turn s \<and> \<not> awaited (receive (turn s) r s) \<and>
      call (receive (turn s) r s) = call s \<and> presents (receive (turn s) r s) r"
begin

definition pending :: "'s \<Rightarrow> nat \<times> 'q \<Rightarrow> bool" where
  "pending s a = (fst a \<le> turn s \<and> (fst a = turn s \<longrightarrow> snd a = call s))"

definition settled_on :: "('q \<Rightarrow> 'r) \<Rightarrow> 's \<Rightarrow> (nat \<times> 'q) list \<Rightarrow> bool" where
  "settled_on answer s ps = (list_all (pending s) ps \<and> (\<not> awaited s \<longrightarrow> presents s (answer (call s))))"

lemma pending_ask: "ask s = (t, q) \<Longrightarrow> turn s' = turn s \<Longrightarrow> pending s' a \<Longrightarrow> pending t a"
  using ask_numbered [of s t q] by (auto simp: pending_def)

lemma latest_ask:
  assumes "settled_on answer s ps" and "turn s' = turn s" and "ask s' = (t, q)"
  shows "settled_on answer t ((turn t, q) # ps)"
  using assms ask_numbered [OF assms(3)] by (auto simp: settled_on_def pending_def list_all_iff)

lemma latest_receive:
  assumes "settled_on answer s (ps @ (n, q) # qs)"
  shows "settled_on answer (receive n (answer q) s) (ps @ qs)"
proof (cases "n = turn s")
  case True
  then have "q = call s"
    using assms by (simp add: settled_on_def pending_def)
  then show ?thesis
    using assms fresh_taken [of s "answer q"] True by (auto simp: settled_on_def pending_def list_all_iff)
next
  case False
  then show ?thesis
    using assms by (simp add: settled_on_def stale_dropped)
qed

lemma latest_kept:
  assumes "settled_on answer s ps" and "turn s' = turn s" and "awaited s' = awaited s" and "call s' = call s"
    and "\<And>r. presents s r \<Longrightarrow> presents s' r"
  shows "settled_on answer s' ps"
proof -
  have "pending s' = pending s"
    using assms(2,4) by (auto simp: pending_def)
  then show ?thesis
    using assms by (simp add: settled_on_def)
qed

lemma latest_start: "ask s = (t, q) \<Longrightarrow> settled_on answer t [(turn t, q)]"
  using ask_numbered [of s t q] by (simp add: settled_on_def pending_def)

lemma latest_shows: "settled_on answer s ps \<Longrightarrow> \<not> awaited s \<Longrightarrow> presents s (answer (call s))"
  by (simp add: settled_on_def)

end

end
