(* ===== verification/ReportsPage.thy ===== *)
theory ReportsPage
  imports AccessMap Calendar LatestReply
begin

section \<open>The activity reports (pages/ReportsPage.jsx)\<close>

text \<open>
  A report covers one period: the day, month, quarter or year that holds the anchor, a date kept as the text
  \<open>YYYY-MM-DD\<close>.  The arrows move the anchor, the picker shows and sets it, and each change asks the server
  again; the reply of an earlier choice is dropped.
\<close>

subsection \<open>The anchor\<close>

datatype report_period = Day | Month | Quarter | Year

definition PERIODS :: "report_period list" where
  "PERIODS = [Day, Month, Quarter, Year]"

fun period_text :: "report_period \<Rightarrow> string" where
  "period_text Day = ''day''"
| "period_text Month = ''month''"
| "period_text Quarter = ''quarter''"
| "period_text Year = ''year''"

definition pickerOf :: "report_period \<Rightarrow> string \<Rightarrow> string \<times> string" where
  "pickerOf period anchor =
     (if period = Day then (''date'', anchor)
      else if period = Month \<or> period = Quarter then (''month'', take 7 anchor)
      else (''number'', take 4 anchor))"

text \<open>\<open>/^\d{n}-.../\<close>: groups of digits of these lengths, with a dash between.\<close>

fun digit_groups :: "nat list \<Rightarrow> string \<Rightarrow> bool" where
  "digit_groups [] s = False"
| "digit_groups [n] s = (length s = n \<and> list_all is_digit s)"
| "digit_groups (n # k # ns) s =
     (list_all is_digit (take n s) \<and> length (take n s) = n \<and> drop n s \<noteq> [] \<and> hd (drop n s) = CHR ''-'' \<and>
      digit_groups (k # ns) (drop (Suc n) s))"

definition anchorOf :: "report_period \<Rightarrow> string \<Rightarrow> string" where
  "anchorOf period raw =
     (if period = Day then (if digit_groups [4, 2, 2] raw then raw else [])
      else if period = Month \<or> period = Quarter then (if digit_groups [4, 2] raw then raw @ ''-01'' else [])
      else (if digit_groups [4] raw then raw @ ''-01-01'' else []))"

definition todayAnchor :: "int \<Rightarrow> string" where
  "todayAnchor now = take 10 (iso_of_ms now)"

text \<open>\<open>Date.UTC(y, m, d)\<close> of whole numbers: a year from 0 to 99 means the twentieth century, a month outside of 0
  to 11 or a day outside of its month carries over.\<close>

definition date_utc :: "int \<Rightarrow> int \<Rightarrow> int \<Rightarrow> int" where
  "date_utc y m d =
     (let year = (if 0 \<le> y \<and> y \<le> 99 then 1900 + y else y) in
      (days_from_civil (year + m div 12) (m mod 12 + 1) 1 + d - 1) * 86400000)"

definition anchor_numbers :: "string \<Rightarrow> int list" where
  "anchor_numbers anchor = map (\<lambda>part. int (digits_val part)) (split_on (CHR ''-'') anchor)"

definition shiftAnchor :: "report_period \<Rightarrow> string \<Rightarrow> int \<Rightarrow> string" where
  "shiftAnchor period anchor step =
     (let ps = anchor_numbers anchor; y = ps ! 0; m = ps ! 1; d = ps ! 2 in
      if period = Day then take 10 (iso_of_ms (date_utc y (m - 1) (d + step)))
      else (let months = (if period = Month then 1 else if period = Quarter then 3 else 12) in
        take 10 (iso_of_ms (date_utc y (m - 1 + months * step) 1))))"

subsection \<open>The figures\<close>

definition pct :: "rat \<Rightarrow> rat \<Rightarrow> int" where
  "pct value whole = (if 0 < whole then js_round (value / whole * 100) else 0)"

datatype trend = No_trend | New_figure | Flat | Up int | Down int

definition Trend :: "rat \<Rightarrow> rat \<Rightarrow> trend" where
  "Trend value previous =
     (if previous = 0 \<and> value = 0 then No_trend
      else if previous = 0 then New_figure
      else (let change = js_round ((value - previous) / previous * 100) in
        if change = 0 then Flat else if 0 < change then Up \<bar>change\<bar> else Down \<bar>change\<bar>))"

definition peak_of :: "int list \<Rightarrow> int" where
  "peak_of events = fold max events 1"

subsection \<open>The page\<close>

record reports_page =
  rp_period :: report_period
  rp_anchor :: string
  rp_report :: json
  rp_loading :: bool
  rp_error :: string
  rp_exporting :: bool
  rp_turn :: nat

definition report_query :: "reports_page \<Rightarrow> (string \<times> json) list" where
  "report_query p = [(''period'', JStr (period_text (rp_period p))), (''date'', JStr (rp_anchor p)), (''top'', JInt 10)]"

text \<open>The effect on the period, the anchor and "refresh": the turn is the run of the effect a reply belongs to.\<close>

definition ask_report :: "reports_page \<Rightarrow> reports_page \<times> api_call" where
  "ask_report p = (p\<lparr>rp_turn := Suc (rp_turn p), rp_loading := True, rp_error := []\<rparr>, fetchReport (report_query p))"

definition on_report :: "env \<Rightarrow> nat \<Rightarrow> js_error + json \<Rightarrow> reports_page \<Rightarrow> reports_page" where
  "on_report env turn reply p =
     (if turn \<noteq> rp_turn p then p
      else case reply of
        Inr data \<Rightarrow> p\<lparr>rp_report := data, rp_loading := False\<rparr>
      | Inl e \<Rightarrow> p\<lparr>rp_error := shown env e (tx env ''reports.loadError''), rp_loading := False\<rparr>)"

definition choose_period :: "report_period \<Rightarrow> reports_page \<Rightarrow> reports_page" where
  "choose_period period p = p\<lparr>rp_period := period\<rparr>"

definition pick_date :: "string \<Rightarrow> reports_page \<Rightarrow> reports_page" where
  "pick_date raw p = (let anchor = anchorOf (rp_period p) raw in if anchor \<noteq> [] then p\<lparr>rp_anchor := anchor\<rparr> else p)"

definition atLatest :: "int \<Rightarrow> reports_page \<Rightarrow> bool" where
  "atLatest now p =
     ord_class.lexordp (map code (todayAnchor now)) (map code (shiftAnchor (rp_period p) (rp_anchor p) 1))"

definition previous_period :: "reports_page \<Rightarrow> reports_page" where
  "previous_period p = p\<lparr>rp_anchor := shiftAnchor (rp_period p) (rp_anchor p) (- 1)\<rparr>"

definition next_period :: "int \<Rightarrow> reports_page \<Rightarrow> reports_page" where
  "next_period now p =
     (if atLatest now p then p else p\<lparr>rp_anchor := shiftAnchor (rp_period p) (rp_anchor p) 1\<rparr>)"

definition this_period :: "int \<Rightarrow> reports_page \<Rightarrow> reports_page" where
  "this_period now p = (if atLatest now p then p else p\<lparr>rp_anchor := todayAnchor now\<rparr>)"

definition report_export :: "reports_page \<Rightarrow> reports_page \<times> api_call" where
  "report_export p = (p\<lparr>rp_exporting := True\<rparr>, reportCsvCall (report_query p))"

definition on_export :: "env \<Rightarrow> js_error + json \<Rightarrow> reports_page \<Rightarrow> reports_page" where
  "on_export env reply p =
     (case reply of
        Inr v \<Rightarrow> p\<lparr>rp_exporting := False\<rparr>
      | Inl e \<Rightarrow> p\<lparr>rp_error := shown env e (tx env ''reports.exportError''), rp_exporting := False\<rparr>)"

definition periodLabel :: "reports_page \<Rightarrow> json" where
  "periodLabel p = jor (jget (jget (rp_report p) ''window'') ''label'') (JStr (rp_anchor p))"

definition report_figures :: "string list" where
  "report_figures = [''sessionsOpened'', ''sessionsClosed'', ''sessionsBlocked'', ''signIns'', ''signInFailures'', ''accessRequests'',
     ''accessApproved'', ''accessDenied'', ''commandBlocks'', ''incidents'', ''adminActions'', ''failures'', ''uniqueActors'',
     ''uniqueTargets'']"

definition report_rows :: "reports_page \<Rightarrow> (string \<times> json \<times> json \<times> int) list" where
  "report_rows p =
     (let totals = jor (jget (rp_report p) ''totals'') (JObj []); before = jor (jget (rp_report p) ''previousTotals'') (JObj []) in
      map (\<lambda>field. (field, jcoalesce (jget totals field) (JNum 0), jcoalesce (jget before field) (JNum 0),
             pct (number_or (jget totals field) 0) (number_or (jget totals ''events'') 0))) report_figures)"

subsection \<open>Where the arrows lead\<close>

text \<open>The number of the period a date is in.\<close>

fun period_index :: "report_period \<Rightarrow> int \<Rightarrow> int \<Rightarrow> int \<Rightarrow> int" where
  "period_index Day y m d = days_from_civil y m d"
| "period_index Month y m d = 12 * y + m - 1"
| "period_index Quarter y m d = (12 * y + m - 1) div 3"
| "period_index Year y m d = y"

lemma days_from_first: "days_from_civil y m d = days_from_civil y m 1 + d - 1"
  by (simp add: days_of_era era_day_def Let_def)

lemma padded_no_dash: "0 \<le> i \<Longrightarrow> i < 10 ^ n \<Longrightarrow> 0 < n \<Longrightarrow> CHR ''-'' \<notin> set (padded n i)"
  using padded_digits(2) [of i n] by (auto simp: list_all_iff is_digit_def code_def)

lemma small_parts:
  assumes "civil_ok y m d"
  shows "0 \<le> m" "m < 10 ^ 2" "0 \<le> d" "d < 10 ^ 2" "1 \<le> m" "m \<le> 12" "1 \<le> d"
  using assms days_in_month_le [of y m] by (auto simp: civil_ok_def)

lemma anchor_numbers_text:
  assumes "civil_ok y m d" and "0 \<le> y" and "y \<le> 9999"
  shows "anchor_numbers (date_text y m d) = [y, m, d]"
proof -
  note b = small_parts [OF assms(1)]
  have "split_on (CHR ''-'') (date_text y m d) = [padded 4 y, padded 2 m, padded 2 d]"
    using padded_no_dash [of y 4] padded_no_dash [of m 2] padded_no_dash [of d 2] b assms(2,3)
    by (simp add: date_text_def split_on_append split_on_none)
  then show ?thesis
    using padded_digits(3) [of y 4] padded_digits(3) [of m 2] padded_digits(3) [of d 2] b assms(2,3)
    by (simp add: anchor_numbers_def)
qed

lemma date_text_length:
  assumes "civil_ok y m d" and "0 \<le> y" and "y \<le> 9999"
  shows "length (date_text y m d) = 10"
  using padded_digits(1) [of y 4] padded_digits(1) [of m 2] padded_digits(1) [of d 2] small_parts [OF assms(1)] assms(2,3)
  by (simp add: date_text_def)

lemma day_text:
  assumes "civil_ok y m d" and "0 \<le> y" and "y \<le> 9999"
  shows "take 10 (iso_of_ms (days_from_civil y m d * 86400000)) = date_text y m d"
proof -
  have "\<exists>rest. iso_of_ms (days_from_civil y m d * 86400000) = date_text y m d @ rest"
    by (simp add: iso_of_ms_def civil_from_days_inverse [OF assms(1)] Let_def date_text_def)
  then show ?thesis
    using date_text_length [OF assms] by auto
qed

lemma date_utc_month:
  "100 \<le> y \<Longrightarrow> date_utc y m d = (days_from_civil (y + m div 12) (m mod 12 + 1) 1 + d - 1) * 86400000"
  by (simp add: date_utc_def)

definition months_of :: "report_period \<Rightarrow> int" where
  "months_of period = (if period = Month then 1 else if period = Quarter then 3 else 12)"

lemma shift_day:
  assumes "civil_ok y m d" and "100 \<le> y" and "y \<le> 9999" and "days_from_civil y m d + k = days_from_civil y' m' d'"
    and "civil_ok y' m' d'" and "0 \<le> y'" and "y' \<le> 9999"
  shows "shiftAnchor Day (date_text y m d) k = date_text y' m' d'"
proof -
  have "date_utc y (m - 1) (d + k) = days_from_civil y' m' d' * 86400000"
    using small_parts(5,6) [OF assms(1)] assms(2,4) days_from_first [of y m d] by (simp add: date_utc_month)
  then show ?thesis
    using anchor_numbers_text [OF assms(1) _ assms(3)] assms(2) day_text [OF assms(5-7)]
    by (simp add: shiftAnchor_def Let_def)
qed

lemma shift_months:
  assumes "civil_ok y m d" and "100 \<le> y" and "y \<le> 9999" and "period \<noteq> Day"
    and i: "i = 12 * y + m - 1 + months_of period * k" "0 \<le> i div 12" "i div 12 \<le> 9999"
  shows "shiftAnchor period (date_text y m d) k = date_text (i div 12) (i mod 12 + 1) 1"
proof -
  have i': "i = 12 * y + (m - 1 + months_of period * k)"
    using i(1) by simp
  have "date_utc y (m - 1 + months_of period * k) 1 = days_from_civil (i div 12) (i mod 12 + 1) 1 * 86400000"
    unfolding date_utc_month [OF assms(2)] i' by simp
  moreover have "civil_ok (i div 12) (i mod 12 + 1) 1"
    by (auto simp: civil_ok_def days_in_month_def order_less_imp_le)
  ultimately show ?thesis
    using anchor_numbers_text [OF assms(1) _ assms(3)] assms(2,4) day_text [OF _ i(2,3)]
    by (simp add: shiftAnchor_def months_of_def Let_def)
qed


lemma period_index_months:
  assumes "period \<noteq> Day" and "i = 12 * y + m - 1 + months_of period * k" and "1 \<le> m" and "m \<le> 12"
  shows "period_index period (i div 12) (i mod 12 + 1) 1 = period_index period y m d + k"
proof -
  have j: "12 * (i div 12) + (i mod 12 + 1) - 1 = i"
    by simp
  have y: "(12 * y + m - 1) div 12 = y"
    using assms(3,4) by (simp add: div_iff)
  show ?thesis
  proof (cases period)
    case Year
    have "i = 12 * k + (12 * y + m - 1)"
      using assms(2) Year by (simp add: months_of_def)
    then have "i div 12 = k + (12 * y + m - 1) div 12"
      by (simp only: div_mult_self4)
    then show ?thesis using Year y by simp
  next
    case Quarter
    have "i = 3 * k + (12 * y + m - 1)"
      using assms(2) Quarter by (simp add: months_of_def)
    then have "i div 3 = k + (12 * y + m - 1) div 3"
      by (simp only: div_mult_self4)
    then show ?thesis using Quarter j by simp
  qed (use assms(1,2) j in \<open>simp_all add: months_of_def\<close>)
qed

lemma index_year:
  assumes "1 \<le> m" and "m \<le> 12" and "i = 12 * y + m - 1 + months_of period * k" and "period \<noteq> Day"
    and "period_index period 1970 1 1 \<le> period_index period y m d + k"
    and "period_index period y m d + k \<le> period_index period 9999 12 31"
  shows "1970 \<le> i div 12" and "i div 12 \<le> 9999"
proof -
  have "period_index period (i div 12) (i mod 12 + 1) 1 = period_index period y m d + k"
    by (rule period_index_months [OF assms(4,3,1,2)])
  then have "period_index period 1970 1 1 \<le> period_index period (i div 12) (i mod 12 + 1) 1"
      "period_index period (i div 12) (i mod 12 + 1) 1 \<le> period_index period 9999 12 31"
    using assms(5,6) by simp_all
  moreover have "0 \<le> i mod 12" "i mod 12 < 12"
    by simp_all
  ultimately show "1970 \<le> i div 12" "i div 12 \<le> 9999"
    using assms(4) by (cases period; simp)+
qed

text \<open>The value of the picker, picked again.\<close>

lemma picked_again:
  assumes "civil_ok y m d" and "0 \<le> y" and "y \<le> 9999"
  shows "anchorOf period (snd (pickerOf period (date_text y m d))) =
    (case period of Day \<Rightarrow> date_text y m d | Year \<Rightarrow> date_text y 1 1 | _ \<Rightarrow> date_text y m 1)"
proof -
  note b = small_parts [OF assms(1)]
  have p: "length (padded 4 y) = 4" "list_all is_digit (padded 4 y)" "length (padded 2 m) = 2" "list_all is_digit (padded 2 m)"
      "length (padded 2 d) = 2" "list_all is_digit (padded 2 d)"
    using padded_digits [of y 4] padded_digits [of m 2] padded_digits [of d 2] b assms(2,3) by simp_all
  have one: "padded 2 1 = ''01''"
    by code_simp
  have t: "take 7 (date_text y m d) = padded 4 y @ ''-'' @ padded 2 m" "take 4 (date_text y m d) = padded 4 y"
    using p by (simp_all add: date_text_def)
  have g: "digit_groups [4] (padded 4 y)" "digit_groups [4, 2] (padded 4 y @ ''-'' @ padded 2 m)"
      "digit_groups [4, 2, 2] (date_text y m d)"
    using p by (simp_all add: date_text_def)
  show ?thesis
    using g t by (cases period) (simp_all add: pickerOf_def anchorOf_def date_text_def one)
qed

lemma picked_index:
  assumes "civil_ok y m d"
  shows "(case period of Day \<Rightarrow> period_index period y m d | Year \<Rightarrow> period_index period y 1 1 | _ \<Rightarrow> period_index period y m 1) =
    period_index period y m d"
  by (cases period) simp_all

text \<open>C36: From any date of the years 1970 to 9999 an arrow of the page leads exactly one period on or back, and in general
  a step of k to the period k further: a real date of the day, month, quarter or year with that number, so that
  none is skipped or repeated; for a day the step back leads to the same date.  The date the picker shows is in the
  same period when it is picked again.\<close>

theorem arrows_move_by_whole_periods:
  assumes "civil_ok y m d" and "1970 \<le> y" and "y \<le> 9999"
    and "period_index period 1970 1 1 \<le> period_index period y m d + k"
    and "period_index period y m d + k \<le> period_index period 9999 12 31"
  shows "\<exists>y' m' d'. shiftAnchor period (date_text y m d) k = date_text y' m' d' \<and> civil_ok y' m' d' \<and>
    1600 \<le> y' \<and> y' \<le> 9999 \<and> period_index period y' m' d' = period_index period y m d + k \<and>
    (period = Day \<longrightarrow> shiftAnchor period (date_text y' m' d') (- k) = date_text y m d) \<and>
    (\<exists>m'' d''. anchorOf period (snd (pickerOf period (date_text y' m' d'))) = date_text y' m'' d'' \<and> civil_ok y' m'' d'' \<and>
       period_index period y' m'' d'' = period_index period y' m' d')"
proof -
  have again: "\<exists>m'' d''. anchorOf period (snd (pickerOf period (date_text y' m' d'))) = date_text y' m'' d'' \<and>
      civil_ok y' m'' d'' \<and> period_index period y' m'' d'' = period_index period y' m' d'"
    if "civil_ok y' m' d'" "0 \<le> y'" "y' \<le> 9999" for y' m' d'
  proof -
    have "civil_ok y' m' 1" "civil_ok y' 1 1"
      using that(1) by (auto simp: civil_ok_def days_in_month_def)
    then show ?thesis
      unfolding picked_again [OF that] using that(1) by (cases period) auto
  qed
  show ?thesis
  proof (cases "period = Day")
    case True
    define n where "n = days_from_civil y m d + k"
    have "days_from_civil 1970 1 1 = 0" "days_from_civil 9999 12 31 = 2932896"
      by code_simp+
    then have n: "0 \<le> n" "n < 2932897"
      using assms(4,5) True by (simp_all add: n_def)
    obtain y' m' d' where c: "civil_from_days n = (y', m', d')" "civil_ok y' m' d'" "days_from_civil y' m' d' = n"
      by (rule days_from_civil_inverse)
    have y': "1600 \<le> y'" "y' \<le> 9999"
      using year_in_range [OF n c(1)] by simp_all
    have "shiftAnchor Day (date_text y m d) k = date_text y' m' d'"
      using assms(2,3) c y' by (intro shift_day [OF assms(1)]) (simp_all add: n_def)
    moreover have "shiftAnchor Day (date_text y' m' d') (- k) = date_text y m d"
      using assms(1-3) c y' by (intro shift_day [OF c(2)]) (simp_all add: n_def)
    ultimately show ?thesis
      using True c y' again [OF c(2)] by (intro exI [of _ y'] exI [of _ m'] exI [of _ d']) (simp add: n_def)
  next
    case False
    define i where "i = 12 * y + m - 1 + months_of period * k"
    note b = small_parts(5,6) [OF assms(1)]
    have y': "1970 \<le> i div 12" "i div 12 \<le> 9999"
      using index_year [OF b i_def False assms(4,5)] .
    have "shiftAnchor period (date_text y m d) k = date_text (i div 12) (i mod 12 + 1) 1"
      using assms(2) y' by (intro shift_months [OF assms(1) _ assms(3) False i_def]) simp_all
    moreover have "civil_ok (i div 12) (i mod 12 + 1) 1"
      by (auto simp: civil_ok_def days_in_month_def order_less_imp_le)
    ultimately show ?thesis
      using False y' again [of "i div 12" "i mod 12 + 1" 1] period_index_months [OF False i_def b, of d]
      by (intro exI [of _ "i div 12"] exI [of _ "i mod 12 + 1"] exI [of _ 1]) simp
  qed
qed

lemma arrows_move_by_whole_periods_witness:
  "shiftAnchor Quarter (date_text 2024 11 30) 1 = ''2025-02-01'' \<and>
   (\<exists>y' m' d'. shiftAnchor Day (date_text 2024 2 29) 1 = date_text y' m' d' \<and>
      shiftAnchor Day (date_text y' m' d') (- 1) = date_text 2024 2 29)"
proof -
  have "civil_ok 2024 2 29" "period_index Day 1970 1 1 \<le> period_index Day 2024 2 29 + 1"
      "period_index Day 2024 2 29 + 1 \<le> period_index Day 9999 12 31"
    by code_simp+
  from arrows_move_by_whole_periods [OF this(1) _ _ this(2,3)]
  have "\<exists>y' m' d'. shiftAnchor Day (date_text 2024 2 29) 1 = date_text y' m' d' \<and>
      shiftAnchor Day (date_text y' m' d') (- 1) = date_text 2024 2 29"
    by auto
  moreover have "shiftAnchor Quarter (date_text 2024 11 30) 1 = ''2025-02-01''"
    by code_simp
  ultimately show ?thesis
    by blast
qed


subsection \<open>The report is of the period shown\<close>

definition report_call :: "reports_page \<Rightarrow> api_call" where
  "report_call p = fetchReport (report_query p)"

text \<open>A report that could not be loaded leaves the one before on the page, with its own label.\<close>

definition report_presents :: "reports_page \<Rightarrow> js_error + json \<Rightarrow> bool" where
  "report_presents p reply = (case reply of Inr data \<Rightarrow> rp_report p = data | Inl e \<Rightarrow> True)"

interpretation reports: latest_reply rp_turn rp_loading report_call ask_report "on_report env" report_presents
  for env
  by unfold_locales
    (auto simp: ask_report_def on_report_def report_call_def report_query_def report_presents_def split: sum.split)

definition asked_again :: "reports_page \<Rightarrow> reports_page \<times> (nat \<times> api_call)" where
  "asked_again p = (let (q, c) = ask_report p in (q, (rp_turn q, c)))"

text \<open>Every order of choices, exports and replies; a choice that changes something is followed by its effect.\<close>

datatype report_choice = Choose report_period | Pick string | Previous | Next_period int | Today int | Refresh

fun chosen :: "report_choice \<Rightarrow> reports_page \<Rightarrow> reports_page" where
  "chosen (Choose period) p = choose_period period p"
| "chosen (Pick raw) p = pick_date raw p"
| "chosen Previous p = previous_period p"
| "chosen (Next_period now) p = next_period now p"
| "chosen (Today now) p = this_period now p"
| "chosen Refresh p = p"

inductive reports_run :: "env \<Rightarrow> (api_call \<Rightarrow> js_error + json) \<Rightarrow> reports_page \<Rightarrow> (nat \<times> api_call) list \<Rightarrow> bool" for env answer where
  opened: "asked_again p = (q, a) \<Longrightarrow> reports_run env answer q [a]"
| choice: "reports_run env answer p ps \<Longrightarrow> chosen c p \<noteq> p \<or> c = Refresh \<Longrightarrow> asked_again (chosen c p) = (q, a) \<Longrightarrow> reports_run env answer q (a # ps)"
| exporting: "reports_run env answer p ps \<Longrightarrow> reports_run env answer (fst (report_export p)) ps"
| exported: "reports_run env answer p ps \<Longrightarrow> reports_run env answer (on_export env reply p) ps"
| reply: "reports_run env answer p (ps @ (n, c) # qs) \<Longrightarrow> reports_run env answer (on_report env n (answer c) p) (ps @ qs)"

lemma asked_again_ask: "asked_again p = (q, a) \<longleftrightarrow> (\<exists>c. ask_report p = (q, c) \<and> a = (rp_turn q, c))"
  by (auto simp: asked_again_def split: prod.split)

lemma chosen_turn: "rp_turn (chosen c p) = rp_turn p"
  by (cases c) (simp_all add: choose_period_def pick_date_def previous_period_def next_period_def this_period_def Let_def)

lemma reports_settled: "reports_run env answer p ps \<Longrightarrow> reports.settled_on answer p ps"
proof (induction rule: reports_run.induct)
  case (opened p q a)
  then show ?case by (auto simp: asked_again_ask intro: reports.latest_start)
next
  case (choice p ps c q a)
  then show ?case
    using reports.latest_ask [OF choice.IH chosen_turn] by (auto simp: asked_again_ask)
next
  case (exporting p ps)
  show ?case
    by (rule reports.latest_kept [OF exporting.IH])
      (simp_all add: report_export_def report_call_def report_query_def report_presents_def split: sum.splits)
next
  case (exported p ps reply)
  show ?case
    by (rule reports.latest_kept [OF exported.IH])
      (auto simp: on_export_def report_call_def report_query_def report_presents_def split: sum.splits)
next
  case (reply p ps n c qs)
  then show ?case by (blast intro: reports.latest_receive)
qed

text \<open>In every order of choices, exports and replies, once the page is not loading the report it shows is the answer of the
  server for the period and the date chosen now, whatever replies of earlier choices came late.\<close>

theorem report_is_of_the_period_shown:
  assumes "reports_run env answer p ps" and "\<not> rp_loading p" and "answer (fetchReport (report_query p)) = Inr data"
  shows "rp_report p = data"
  using reports.latest_shows [OF reports_settled [OF assms(1)] assms(2)] assms(3)
  by (simp add: report_call_def report_presents_def)

definition sample_reports :: reports_page where
  "sample_reports =
     \<lparr>rp_period = Day, rp_anchor = ''2024-02-29'', rp_report = JNull, rp_loading = True, rp_error = [], rp_exporting = False,
      rp_turn = 0\<rparr>"

lemma report_is_of_the_period_shown_witness:
  "\<exists>p. reports_run sample_env (\<lambda>c. Inr (JStr (api_url c))) p [] \<and> rp_period p = Month \<and>
     rp_report p = JStr (api_url (fetchReport (report_query p)))"
proof -
  let ?answer = "\<lambda>c. Inr (JStr (api_url c))"
  obtain q a where q: "asked_again sample_reports = (q, (1, a))"
    by (simp add: asked_again_def ask_report_def sample_reports_def)
  obtain r b where r: "asked_again (chosen (Choose Month) q) = (r, (2, b))"
    using q by (auto simp: asked_again_def ask_report_def sample_reports_def choose_period_def)
  have run: "reports_run sample_env ?answer r [(2, b), (1, a)]"
    using reports_run.choice [OF reports_run.opened [OF q] _ r] q
    by (auto simp: asked_again_def ask_report_def sample_reports_def choose_period_def)
  let ?p = "on_report sample_env 1 (?answer a) (on_report sample_env 2 (?answer b) r)"
  have run': "reports_run sample_env ?answer ?p []"
    using reports_run.reply [of sample_env ?answer "on_report sample_env 2 (?answer b) r" "[]" 1 a "[]"]
      reports_run.reply [of sample_env ?answer r "[]" 2 b "[(1, a)]"] run by simp
  have "rp_turn r = 2" "rp_period r = Month"
    using q r by (auto simp: asked_again_def ask_report_def sample_reports_def choose_period_def)
  then have p: "\<not> rp_loading ?p" "rp_period ?p = Month"
    by (simp_all add: on_report_def)
  show ?thesis
    using report_is_of_the_period_shown [OF run' p(1)] run' p(2) by blast
qed


end
