(* ===== verification/SshGuard.thy ===== *)
theory SshGuard
  imports Terminal
begin

section \<open>The SSH command guard (SshGuardRules.jsx, ssh_guard.cc, ssh.cc)\<close>

text \<open>
  The page edits the list of blocked commands, the bastion keeps the list and reads the input of a guarded
  terminal against it.  Both ends are modelled: the form, the store behind the three requests of the page, and the
  copy of the line the user is typing that the bastion judges when the line is submitted.  The time of the last change of a rule, which the page does not use, is left out.  Whether a text
  matches the list is a parameter, the regular expressions being those of the C++ library.
\<close>

subsection \<open>The list on the bastion\<close>

record guard_rule =
  gr_command :: string
  gr_enabled :: bool
  gr_builtin :: bool

type_synonym guard_store = "(string \<times> guard_rule) list"

definition kMaxNameChars :: nat where
  "kMaxNameChars = 48"

definition kMaxCommandChars :: nat where
  "kMaxCommandChars = 200"

definition builtins :: "string list" where
  "builtins = [''wipe_root'', ''fork_bomb'', ''disk_format'', ''raw_disk_dd'', ''power_command'']"

definition seed_rule :: "string \<Rightarrow> guard_store \<Rightarrow> guard_store" where
  "seed_rule name s =
     (if map_of s name = None then s @ [(name, \<lparr>gr_command = [], gr_enabled = True, gr_builtin = True\<rparr>)] else s)"

definition guard_init :: "guard_store \<Rightarrow> guard_store" where
  "guard_init s = fold seed_rule builtins s"

text \<open>\<open>trim\<close> of the bastion: spaces, tabs and line ends.\<close>

definition c_blank :: "char \<Rightarrow> bool" where
  "c_blank c = (c = CHR '' '' \<or> c = CHR 0x09 \<or> c = CHR 0x0D \<or> c = CHR 0x0A)"

definition c_trim :: "string \<Rightarrow> string" where
  "c_trim s = rev (dropWhile c_blank (rev (dropWhile c_blank s)))"

definition name_char :: "char \<Rightarrow> bool" where
  "name_char c = (is_alnum c \<or> c = CHR ''_'' \<or> c = CHR ''-'')"

text \<open>\<open>command_to_pattern\<close> is empty for a command without a word.\<close>

definition has_word :: "string \<Rightarrow> bool" where
  "has_word command = list_ex (\<lambda>c. \<not> is_ws c) command"

definition guard_upsert :: "string \<Rightarrow> string \<Rightarrow> bool \<Rightarrow> guard_store \<Rightarrow> guard_store" where
  "guard_upsert name command enabled s =
     assoc_set name
       (case map_of s name of
          Some r \<Rightarrow> r\<lparr>gr_command := command, gr_enabled := enabled\<rparr>
        | None \<Rightarrow> \<lparr>gr_command = command, gr_enabled = enabled, gr_builtin = (name \<in> set builtins)\<rparr>) s"

definition guard_save :: "string \<Rightarrow> string \<Rightarrow> bool \<Rightarrow> guard_store \<Rightarrow> string + guard_store" where
  "guard_save name command enabled s =
     (let clean_name = c_trim name; clean_command = c_trim command in
      if clean_name = [] \<or> kMaxNameChars < length clean_name then Inl ''name must be 1 to 48 characters''
      else if \<not> list_all name_char clean_name
      then Inl (''name may only contain letters, digits, '' @ [CHR 0x27] @ ''_'' @ [CHR 0x27] @ '' and '' @ [CHR 0x27] @ ''-'' @ [CHR 0x27])
      else if clean_name \<in> set builtins then Inr (guard_upsert clean_name [] enabled s)
      else if clean_command = [] then Inl ''command must not be empty''
      else if kMaxCommandChars < length clean_command then Inl ''command must be at most 200 characters''
      else if \<not> has_word clean_command then Inl ''command must contain at least one word''
      else Inr (guard_upsert clean_name clean_command enabled s))"

definition guard_remove :: "string \<Rightarrow> guard_store \<Rightarrow> string + guard_store" where
  "guard_remove name s =
     (if name \<in> set builtins then Inl ''built-in rules can be disabled but not removed''
      else if map_of s name = None then Inl ''no such rule''
      else Inr (filter (\<lambda>e. fst e \<noteq> name) s))"

definition name_before :: "string \<Rightarrow> string \<Rightarrow> bool" where
  "name_before a b = ord_class.lexordp (map code a) (map code b)"

definition row_before :: "string \<times> guard_rule \<Rightarrow> string \<times> guard_rule \<Rightarrow> bool" where
  "row_before a b =
     (if gr_builtin (snd a) \<noteq> gr_builtin (snd b) then gr_builtin (snd a) else name_before (fst a) (fst b))"

definition guard_list :: "guard_store \<Rightarrow> guard_store" where
  "guard_list s = sort_by row_before s"

definition rule_to_json :: "string \<times> guard_rule \<Rightarrow> json" where
  "rule_to_json e =
     JObj [(''name'', JStr (fst e)), (''command'', JStr (gr_command (snd e))), (''enabled'', JBool (gr_enabled (snd e))),
           (''builtin'', JBool (gr_builtin (snd e)))]"

text \<open>The three routes, for an administrator; a body that is not of the types the page sends is not modelled.\<close>

datatype guard_request = Get_rules | Put_rule string json | Delete_rule string

fun guard_call :: "guard_request \<Rightarrow> api_call" where
  "guard_call Get_rules = fetchSshGuardRules"
| "guard_call (Put_rule name body) = saveSshGuardRule (JStr name) body"
| "guard_call (Delete_rule name) = deleteSshGuardRule (JStr name)"

definition status_ok :: json where
  "status_ok = JObj [(''status'', JStr ''ok'')]"

fun command_field :: "json \<Rightarrow> string" where
  "command_field (JStr s) = s"
| "command_field _ = []"

definition guard_written :: "string + guard_store \<Rightarrow> guard_store \<Rightarrow> guard_store \<times> (string + json)" where
  "guard_written outcome s = (case outcome of Inl e \<Rightarrow> (s, Inl e) | Inr s' \<Rightarrow> (s', Inr status_ok))"

fun guard_serve :: "guard_request \<Rightarrow> guard_store \<Rightarrow> guard_store \<times> (string + json)" where
  "guard_serve Get_rules s = (s, Inr (JObj [(''items'', JArr (map rule_to_json (guard_list s)))]))"
| "guard_serve (Put_rule name body) s =
     guard_written
       (guard_save name (command_field (jget body ''command''))
          (if jget body ''enabled'' = JUndef then True else jget body ''enabled'' = JBool True) s) s"
| "guard_serve (Delete_rule name) s = guard_written (guard_remove name s) s"

subsection \<open>The page\<close>

record guard_page =
  gp_rules :: "json list"
  gp_busy :: json
  gp_error :: string
  gp_name :: string
  gp_command :: string

definition NAME_RE :: "string \<Rightarrow> bool" where
  "NAME_RE s = (1 \<le> length s \<and> length s \<le> 48 \<and> list_all name_char s)"

definition guard_load :: "env \<Rightarrow> js_error + json \<Rightarrow> guard_page \<Rightarrow> guard_page" where
  "guard_load env reply p =
     (case reply of
        Inr data \<Rightarrow> p\<lparr>gp_rules := array_or_empty (jget data ''items''), gp_error := []\<rparr>
      | Inl e \<Rightarrow> p\<lparr>gp_error := shown env e (tx env ''sshGuard.loadError'')\<rparr>)"

text \<open>What is sent for a change of a rule: its command and flag, with the change on top.\<close>

definition save_rule :: "json \<Rightarrow> json \<Rightarrow> guard_page \<Rightarrow> guard_page \<times> guard_request" where
  "save_rule rule patch p =
     (p\<lparr>gp_busy := jget rule ''name''\<rparr>,
      Put_rule (js_string (jget rule ''name''))
        (spread (JObj [(''command'', jget rule ''command''), (''enabled'', jget rule ''enabled'')]) patch))"

definition remove_rule :: "json \<Rightarrow> guard_page \<Rightarrow> guard_page \<times> guard_request" where
  "remove_rule rule p = (p\<lparr>gp_busy := jget rule ''name''\<rparr>, Delete_rule (js_string (jget rule ''name'')))"

definition add_rule :: "env \<Rightarrow> guard_page \<Rightarrow> guard_page \<times> guard_request option" where
  "add_rule env p =
     (let cleanName = trim (gp_name p); cleanCommand = trim (gp_command p) in
      if \<not> NAME_RE cleanName then (p\<lparr>gp_error := tx env ''sshGuard.badName''\<rparr>, None)
      else if cleanCommand = [] then (p\<lparr>gp_error := tx env ''sshGuard.badCommand''\<rparr>, None)
      else (p\<lparr>gp_busy := JStr cleanName\<rparr>,
            Some (Put_rule cleanName (JObj [(''command'', JStr cleanCommand), (''enabled'', JBool True)]))))"

text \<open>The second halves: after a write that succeeded the list is loaded again.\<close>

definition write_failed :: "env \<Rightarrow> js_error \<Rightarrow> guard_page \<Rightarrow> guard_page" where
  "write_failed env e p = p\<lparr>gp_error := shown env e (tx env ''sshGuard.saveError'')\<rparr>"

definition form_cleared :: "guard_page \<Rightarrow> guard_page" where
  "form_cleared p = p\<lparr>gp_name := [], gp_command := []\<rparr>"

definition settled_page :: "guard_page \<Rightarrow> guard_page" where
  "settled_page p = p\<lparr>gp_busy := JStr []\<rparr>"

definition builtinLabel :: "env \<Rightarrow> string \<Rightarrow> string" where
  "builtinLabel env i =
     (let key = ''sshGuard.builtin.'' @ i in if tx env key = key then i else tx env key)"

definition guard_active :: "guard_page \<Rightarrow> nat" where
  "guard_active p = length (filter (\<lambda>r. truthy (jget r ''enabled'')) (gp_rules p))"

definition removable :: "json \<Rightarrow> bool" where
  "removable rule = (\<not> truthy (jget rule ''builtin''))"

subsection \<open>A change from the click to the list shown\<close>

text \<open>\<open>refusal\<close> is the error the API client makes of a refusal of the bastion.\<close>

definition client_reply :: "(string \<Rightarrow> js_error) \<Rightarrow> string + json \<Rightarrow> js_error + json" where
  "client_reply refusal r = (case r of Inl text \<Rightarrow> Inl (refusal text) | Inr v \<Rightarrow> Inr v)"

definition write_and_load ::
    "env \<Rightarrow> (string \<Rightarrow> js_error) \<Rightarrow> (guard_page \<Rightarrow> guard_page) \<Rightarrow> guard_page \<times> guard_request \<Rightarrow> guard_store \<Rightarrow> guard_page \<times> guard_store" where
  "write_and_load env refusal on_ok start s =
     (let (p, request) = start; (s', reply) = guard_serve request s in
      case client_reply refusal reply of
        Inl e \<Rightarrow> (settled_page (write_failed env e p), s')
      | Inr v \<Rightarrow> (settled_page (guard_load env (client_reply refusal (snd (guard_serve Get_rules s'))) (on_ok p)), s'))"

definition submit_form :: "env \<Rightarrow> (string \<Rightarrow> js_error) \<Rightarrow> guard_page \<Rightarrow> guard_store \<Rightarrow> guard_page \<times> guard_store" where
  "submit_form env refusal p s =
     (case add_rule env p of
        (p', None) \<Rightarrow> (p', s)
      | (p', Some request) \<Rightarrow> write_and_load env refusal form_cleared (p', request) s)"

definition toggle_rule :: "env \<Rightarrow> (string \<Rightarrow> js_error) \<Rightarrow> json \<Rightarrow> bool \<Rightarrow> guard_page \<Rightarrow> guard_store \<Rightarrow> guard_page \<times> guard_store" where
  "toggle_rule env refusal rule checked p s =
     write_and_load env refusal id (save_rule rule (JObj [(''enabled'', JBool checked)]) p) s"

definition delete_rule :: "env \<Rightarrow> (string \<Rightarrow> js_error) \<Rightarrow> json \<Rightarrow> guard_page \<Rightarrow> guard_store \<Rightarrow> guard_page \<times> guard_store" where
  "delete_rule env refusal rule p s = write_and_load env refusal id (remove_rule rule p) s"

subsection \<open>What the store always holds\<close>

definition rule_ok :: "string \<times> guard_rule \<Rightarrow> bool" where
  "rule_ok e =
     (NAME_RE (fst e) \<and>
      (if fst e \<in> set builtins then gr_command (snd e) = [] \<and> gr_builtin (snd e)
       else \<not> gr_builtin (snd e) \<and> c_trim (gr_command (snd e)) = gr_command (snd e) \<and> gr_command (snd e) \<noteq> [] \<and>
            length (gr_command (snd e)) \<le> 200 \<and> has_word (gr_command (snd e))))"

definition guard_ok :: "guard_store \<Rightarrow> bool" where
  "guard_ok s = (distinct (map fst s) \<and> list_all rule_ok s \<and> set builtins \<subseteq> fst ` set s)"

inductive guard_reach :: "guard_store \<Rightarrow> bool" where
  started: "guard_reach (guard_init [])"
| served: "guard_reach s \<Longrightarrow> guard_reach (fst (guard_serve request s))"

lemma c_trim_fix:
  assumes "s = [] \<or> (\<not> is_ws (hd s) \<and> \<not> is_ws (last s))"
  shows "c_trim s = s"
proof -
  have ws: "c_blank c \<Longrightarrow> is_ws c" for c
    by (auto simp: c_blank_def is_ws_def code_def)
  have "dropWhile c_blank s = s" and "dropWhile c_blank (rev s) = rev s"
    using assms ws by (auto simp: dropWhile_eq_self_iff hd_rev)
  then show ?thesis by (simp add: c_trim_def)
qed

lemma c_trim_trim [simp]: "c_trim (trim s) = trim s"
  by (rule c_trim_fix) (use trim_hd trim_last in blast)

lemma name_not_blank: "name_char c \<Longrightarrow> \<not> is_ws c"
  by (auto simp: name_char_def is_alnum_def is_digit_def is_upper_def is_lower_def is_ws_def code_def)

lemma c_trim_name: "NAME_RE s \<Longrightarrow> c_trim s = s"
  by (intro c_trim_fix) (auto simp: NAME_RE_def list_all_iff name_not_blank)

lemma c_trim_idem [simp]: "c_trim (c_trim s) = c_trim s"
proof -
  have "dropWhile c_blank (c_trim s) = c_trim s"
  proof (cases "c_trim s = []")
    case False
    obtain v where v: "dropWhile c_blank s = c_trim s @ v"
      by (metis c_trim_def rev_append rev_rev_ident takeWhile_dropWhile_id)
    then have "hd (dropWhile c_blank s) = hd (c_trim s)" "dropWhile c_blank s \<noteq> []"
      using False by auto
    then show ?thesis
      using hd_dropWhile [of c_blank s] by (simp add: dropWhile_eq_self_iff)
  qed simp
  moreover have "dropWhile c_blank (rev (c_trim s)) = rev (c_trim s)"
    by (simp add: c_trim_def dropWhile_idem)
  ultimately show ?thesis
    by (simp add: c_trim_def [of "c_trim s"])
qed

lemma upsert_ok:
  assumes "guard_ok s" and "NAME_RE name"
    and "if name \<in> set builtins then command = []
         else c_trim command = command \<and> command \<noteq> [] \<and> length command \<le> 200 \<and> has_word command"
  shows "guard_ok (guard_upsert name command enabled s)"
proof -
  have "gr_builtin r = (name \<in> set builtins)" if "map_of s name = Some r" for r
    using that assms(1) map_of_SomeD [OF that] by (auto simp: guard_ok_def list_all_iff rule_ok_def split: if_splits)
  then have "rule_ok (name, case map_of s name of Some r \<Rightarrow> r\<lparr>gr_command := command, gr_enabled := enabled\<rparr>
      | None \<Rightarrow> \<lparr>gr_command = command, gr_enabled = enabled, gr_builtin = (name \<in> set builtins)\<rparr>)"
    using assms(2,3) by (auto simp: rule_ok_def split: option.split)
  then show ?thesis
    using assms(1) unfolding guard_ok_def guard_upsert_def
    by (auto intro: assoc_set_distinct assoc_set_all simp: assoc_set_keys)
qed

lemma save_ok:
  assumes "guard_ok s" and "guard_save name command enabled s = Inr s'"
  shows "guard_ok s'"
  using assms(2) upsert_ok [OF assms(1), of "c_trim name" _ enabled]
  by (auto simp: guard_save_def Let_def NAME_RE_def kMaxNameChars_def kMaxCommandChars_def Suc_le_eq split: if_splits)

lemma keys_without: "fst ` {e \<in> set s. fst e \<noteq> name} = fst ` set s - {name}"
  by auto

lemma remove_ok: "guard_ok s \<Longrightarrow> guard_remove name s = Inr s' \<Longrightarrow> guard_ok s'"
  by (auto simp: guard_remove_def guard_ok_def list_all_iff distinct_map_filter keys_without split: if_splits)

lemma serve_ok: "guard_ok s \<Longrightarrow> guard_ok (fst (guard_serve request s))"
  by (cases "(request, s)" rule: guard_serve.cases) (auto simp: guard_written_def dest: save_ok remove_ok split: sum.split)

lemma guard_reach_ok: "guard_reach s \<Longrightarrow> guard_ok s"
proof (induction rule: guard_reach.induct)
  case started
  show ?case by code_simp
qed (rule serve_ok)

lemma guard_list_set [simp]: "set (guard_list s) = set s"
  by (simp add: guard_list_def)

lemma save_same:
  assumes "rule_ok (name, r)"
  shows "guard_save name (gr_command r) enabled s = Inr (guard_upsert name (gr_command r) enabled s)"
proof -
  have "NAME_RE name" "c_trim name = name"
    using assms c_trim_name by (auto simp: rule_ok_def)
  then show ?thesis
    using assms by (cases "name \<in> set builtins") (auto simp: rule_ok_def guard_save_def NAME_RE_def kMaxNameChars_def kMaxCommandChars_def Let_def)
qed

lemma upsert_same:
  assumes "guard_ok s" and "rule_ok (name, r)"
  shows "guard_ok (guard_upsert name (gr_command r) enabled s)"
  using save_ok [OF assms(1) save_same [OF assms(2)]] .

text \<open>C30: In every state the list of the bastion reaches, switching a rule of the page on or off stores the same
  rule with only the flag changed and touches no other, the page then shows the list of the bastion without an error, and
  the five built-in rules are still in it: no sequence of requests loses one, and removing one is refused.\<close>

theorem toggle_changes_only_the_flag:
  assumes "guard_reach s" and "(name, r) \<in> set s"
    and "toggle_rule env refusal (rule_to_json (name, r)) checked p s = (p', s')"
  shows "(\<forall>n. map_of s' n = (if n = name then Some (r\<lparr>gr_enabled := checked\<rparr>) else map_of s n)) \<and>
         gp_rules p' = map rule_to_json (guard_list s') \<and> gp_error p' = [] \<and> guard_reach s' \<and>
         (\<forall>b \<in> set builtins. \<exists>flag. map_of s' b = Some \<lparr>gr_command = [], gr_enabled = flag, gr_builtin = True\<rparr> \<and>
            snd (delete_rule env refusal (rule_to_json (b, \<lparr>gr_command = [], gr_enabled = flag, gr_builtin = True\<rparr>)) p' s') = s')"
proof -
  have ok: "guard_ok s"
    using assms(1) by (rule guard_reach_ok)
  have row: "map_of s name = Some r" "rule_ok (name, r)"
    using ok assms(2) by (auto simp: guard_ok_def list_all_iff)
  let ?s = "guard_upsert name (gr_command r) checked s"
  have saved: "guard_save name (gr_command r) checked s = Inr ?s"
    by (rule save_same [OF row(2)])
  have request: "save_rule (rule_to_json (name, r)) (JObj [(''enabled'', JBool checked)]) p =
      (p\<lparr>gp_busy := JStr name\<rparr>, Put_rule name (JObj [(''command'', JStr (gr_command r)), (''enabled'', JBool checked)]))"
    by (simp add: save_rule_def rule_to_json_def)
  have done_ok: "p' = settled_page (guard_load env (Inr (JObj [(''items'', JArr (map rule_to_json (guard_list ?s)))])) (p\<lparr>gp_busy := JStr name\<rparr>))"
      "s' = ?s"
    using assms(3) by (auto simp: toggle_rule_def write_and_load_def request saved guard_written_def client_reply_def)
  have s': "guard_ok s'" "guard_reach s'"
    using upsert_same [OF ok row(2)] guard_reach.served [OF assms(1), of "snd (save_rule (rule_to_json (name, r)) (JObj [(''enabled'', JBool checked)]) p)"]
    by (simp_all add: done_ok(2) request saved guard_written_def)
  have "\<exists>flag. map_of s' b = Some \<lparr>gr_command = [], gr_enabled = flag, gr_builtin = True\<rparr>" if b: "b \<in> set builtins" for b
  proof -
    obtain q where "map_of s' b = Some q" "rule_ok (b, q)"
      using s'(1) b by (fastforce simp: guard_ok_def list_all_iff)
    then show ?thesis
      using b by (cases q) (simp add: rule_ok_def)
  qed
  moreover have "snd (delete_rule env refusal (rule_to_json (b, q)) p' s') = s'" if "b \<in> set builtins" for b q
    using that by (simp add: delete_rule_def remove_rule_def write_and_load_def rule_to_json_def guard_remove_def guard_written_def client_reply_def)
  moreover have "gp_rules p' = map rule_to_json (guard_list s')" "gp_error p' = []"
    by (simp_all add: done_ok settled_page_def guard_load_def)
  moreover have "map_of s' n = (if n = name then Some (r\<lparr>gr_enabled := checked\<rparr>) else map_of s n)" for n
    by (simp add: done_ok(2) guard_upsert_def row(1))
  ultimately show ?thesis
    using s'(2) by blast
qed


lemma toggle_changes_only_the_flag_witness:
  "\<exists>p' s'. toggle_rule sample_env PlainError (rule_to_json (''fork_bomb'', \<lparr>gr_command = [], gr_enabled = True, gr_builtin = True\<rparr>)) False
     \<lparr>gp_rules = [], gp_busy = JStr [], gp_error = [], gp_name = [], gp_command = []\<rparr> (guard_init []) = (p', s') \<and>
   map_of s' ''fork_bomb'' = Some \<lparr>gr_command = [], gr_enabled = False, gr_builtin = True\<rparr> \<and> gp_error p' = []"
proof -
  let ?r = "\<lparr>gr_command = [], gr_enabled = True, gr_builtin = True\<rparr>"
  let ?p = "\<lparr>gp_rules = [], gp_busy = JStr [], gp_error = [], gp_name = [], gp_command = []\<rparr>"
  obtain p' s' where t: "toggle_rule sample_env PlainError (rule_to_json (''fork_bomb'', ?r)) False ?p (guard_init []) = (p', s')"
    by (metis surj_pair)
  have "(''fork_bomb'', ?r) \<in> set (guard_init [])"
    by code_simp
  from toggle_changes_only_the_flag [OF guard_reach.started this t] t show ?thesis
    by auto
qed

subsection \<open>The form\<close>

lemma name_re_clean: "NAME_RE n \<Longrightarrow> n \<noteq> [] \<and> length n \<le> kMaxNameChars \<and> list_all name_char n \<and> c_trim n = n"
  by (auto simp: NAME_RE_def kMaxNameChars_def c_trim_name)

lemma trim_has_word: "trim s \<noteq> [] \<Longrightarrow> has_word (trim s)"
  using trim_hd [of s] by (cases "trim s") (auto simp: has_word_def)

lemma submit_saved:
  assumes "add_rule env p = (p', Some (Put_rule n body))"
    and "guard_save n (command_field (jget body ''command'')) (jget body ''enabled'' = JBool True) s = Inr s'"
    and "jget body ''enabled'' \<noteq> JUndef"
  shows "submit_form env refusal p s =
    (settled_page (guard_load env (Inr (JObj [(''items'', JArr (map rule_to_json (guard_list s')))])) (form_cleared p')), s')"
  using assms by (simp add: submit_form_def write_and_load_def guard_written_def client_reply_def)

text \<open>C31: The form, on every branch: a name or a command the page refuses sends nothing; otherwise the bastion stores exactly the
  name and command typed, switched on, beside the rules it had, and the page shows its list with the fields
  empty; a command over 200 bytes is refused by the bastion, whose refusal is shown with the fields kept.  As
  written, the name of a built-in rule is taken too: the rule is switched on, the command typed is dropped, and the page
  shows no error.\<close>

theorem form_adds_the_rule_typed:
  assumes "submit_form env refusal p s = (p', s')" and "n = trim (gp_name p)" and "c = trim (gp_command p)"
  shows "(\<not> NAME_RE n \<or> c = [] \<longrightarrow>
            s' = s \<and> gp_name p' = gp_name p \<and> gp_command p' = gp_command p \<and>
            gp_error p' = tx env (if NAME_RE n then ''sshGuard.badCommand'' else ''sshGuard.badName'')) \<and>
         (NAME_RE n \<and> c \<noteq> [] \<and> n \<notin> set builtins \<and> length c \<le> 200 \<longrightarrow>
            (\<forall>k. k \<noteq> n \<longrightarrow> map_of s' k = map_of s k) \<and>
            (\<exists>r. map_of s' n = Some r \<and> gr_command r = c \<and> gr_enabled r) \<and>
            gp_rules p' = map rule_to_json (guard_list s') \<and> gp_error p' = [] \<and> gp_name p' = [] \<and> gp_command p' = []) \<and>
         (NAME_RE n \<and> c \<noteq> [] \<and> n \<notin> set builtins \<and> 200 < length c \<longrightarrow>
            s' = s \<and> gp_error p' = shown env (refusal ''command must be at most 200 characters'') (tx env ''sshGuard.saveError'') \<and>
            gp_name p' = gp_name p \<and> gp_command p' = gp_command p) \<and>
         (NAME_RE n \<and> c \<noteq> [] \<and> n \<in> set builtins \<longrightarrow>
            (\<exists>r. map_of s' n = Some r \<and> gr_command r = [] \<and> gr_enabled r) \<and>
            gp_error p' = [] \<and> gp_name p' = [] \<and> gp_command p' = [])"
proof (cases "NAME_RE n \<and> c \<noteq> []")
  case False
  then show ?thesis
    using assms by (auto simp: submit_form_def add_rule_def Let_def split: if_splits)
next
  case True
  let ?body = "JObj [(''command'', JStr c), (''enabled'', JBool True)]"
  have add: "add_rule env p = (p\<lparr>gp_busy := JStr n\<rparr>, Some (Put_rule n ?body))"
    using True assms(2,3) by (simp add: add_rule_def Let_def)
  have clean: "n \<noteq> []" "length n \<le> kMaxNameChars" "list_all name_char n" "c_trim n = n" "c_trim c = c" "has_word c"
    using True assms(3) name_re_clean [of n] trim_has_word by auto
  show ?thesis
  proof (cases "n \<in> set builtins \<or> length c \<le> 200")
    case ok: True
    let ?cmd = "if n \<in> set builtins then [] else c"
    have "guard_save n c True s = Inr (guard_upsert n ?cmd True s)"
      using True clean ok by (auto simp: guard_save_def Let_def kMaxCommandChars_def)
    then have p': "p' = settled_page (guard_load env (Inr (JObj [(''items'', JArr (map rule_to_json (guard_list s')))])) (form_cleared (p\<lparr>gp_busy := JStr n\<rparr>)))"
        and s': "s' = guard_upsert n ?cmd True s"
      using submit_saved [OF add, of s "guard_upsert n ?cmd True s" refusal] assms(1) by simp_all
    have "\<exists>r. map_of s' n = Some r \<and> gr_command r = ?cmd \<and> gr_enabled r" "\<And>k. k \<noteq> n \<Longrightarrow> map_of s' k = map_of s k"
      by (simp_all add: s' guard_upsert_def split: option.split)
    then show ?thesis
      using True ok by (auto simp: p' settled_page_def guard_load_def form_cleared_def)
  next
    case long: False
    then have "guard_save n c True s = Inl ''command must be at most 200 characters''"
      using True clean by (auto simp: guard_save_def Let_def kMaxCommandChars_def)
    then show ?thesis
      using assms(1) add True long
      by (auto simp: submit_form_def write_and_load_def guard_written_def client_reply_def settled_page_def write_failed_def)
  qed
qed

lemma form_adds_the_rule_typed_witness:
  "\<exists>p' s'. submit_form sample_env PlainError
      \<lparr>gp_rules = [], gp_busy = JStr [], gp_error = [], gp_name = '' no_reboot '', gp_command = ''init 6''\<rparr> (guard_init []) = (p', s') \<and>
     (\<exists>r. map_of s' ''no_reboot'' = Some r \<and> gr_command r = ''init 6'' \<and> gr_enabled r) \<and> gp_command p' = []"
proof -
  let ?p = "\<lparr>gp_rules = [], gp_busy = JStr [], gp_error = [], gp_name = '' no_reboot '', gp_command = ''init 6''\<rparr>"
  obtain p' s' where f: "submit_form sample_env PlainError ?p (guard_init []) = (p', s')"
    by (metis surj_pair)
  have "NAME_RE ''no_reboot''" "''no_reboot'' \<notin> set builtins" "''no_reboot'' = trim (gp_name ?p)" "''init 6'' = trim (gp_command ?p)"
    by code_simp+
  with form_adds_the_rule_typed [OF f, of "''no_reboot''" "''init 6''"] f show ?thesis
    by auto
qed


subsection \<open>The line a guarded terminal is typing\<close>

definition kMaxTrackedLine :: nat where
  "kMaxTrackedLine = 4096"

definition is_enter :: "char \<Rightarrow> bool" where
  "is_enter c = (c = CHR 0x0D \<or> c = CHR 0x0A)"

definition kill_word :: "string \<Rightarrow> string" where
  "kill_word line = rev (dropWhile (\<lambda>c. c \<noteq> CHR '' '') (dropWhile (\<lambda>c. c = CHR '' '') (rev line)))"

fun track_line :: "string \<Rightarrow> string \<Rightarrow> bool \<times> string" where
  "track_line [] line = (False, line)"
| "track_line (c # cs) line =
     (if is_enter c then (True, line)
      else if c = CHR 0x08 \<or> c = CHR 0x7F then track_line cs (butlast line)
      else if c = CHR 0x03 \<or> c = CHR 0x15 then track_line cs []
      else if c = CHR 0x1B then (False, [])
      else if c = CHR 0x17 then track_line cs (kill_word line)
      else if 32 \<le> code c \<and> length line < kMaxTrackedLine then track_line cs (line @ [c])
      else track_line cs line)"

text \<open>What a guarded session does with an input message of the terminal.  \<open>hit\<close>: a rule of the list matches the
  text, as written or without its quotes.\<close>

definition allowed_char :: "char \<Rightarrow> bool" where
  "allowed_char c =
     (is_alnum c \<or> is_ws c \<or> c \<in> set ''_./:-|&;<>=()[]{}*+?,@!%#~$'' \<or> c = CHR 0x27 \<or> c = CHR 0x22 \<or> c = CHR 0x60 \<or> c = CHR 0x5C)"

definition safe_chars :: "string \<Rightarrow> bool" where
  "safe_chars input = (list_all allowed_char input \<or> list_ex (\<lambda>c. code c < 32 \<or> code c = 127) input)"

definition guard_input :: "(string \<Rightarrow> bool) \<Rightarrow> string \<Rightarrow> string \<Rightarrow> string \<times> string" where
  "guard_input hit input line =
     (if \<not> safe_chars input then (line, [])
      else if hit input then ([], [])
      else (let (submitted, now) = track_line input line in
        if \<not> submitted then (now, input)
        else if hit now then ([], [CHR 0x15])
        else ([], input)))"

text \<open>The messages of a session in their order: the copy of the line, and all the remote was sent.\<close>

definition guard_session :: "(string \<Rightarrow> bool) \<Rightarrow> string list \<Rightarrow> string \<times> string" where
  "guard_session hit inputs =
     fold (\<lambda>input (line, sent). let (l, out) = guard_input hit input line in (l, sent @ out)) inputs ([], [])"

subsection \<open>The remote: a line editor\<close>

text \<open>A reference: the line held, and the lines executed so far.  Typing at the end of the line, deleting a
  character, a word or the line, and submitting are what a shell does with these bytes; cursor keys, history and
  completion are outside of it.\<close>

fun edit :: "char \<Rightarrow> string \<times> string list \<Rightarrow> string \<times> string list" where
  "edit c (line, runs) =
     (if is_enter c then ([], runs @ [line])
      else if c = CHR 0x08 \<or> c = CHR 0x7F then (butlast line, runs)
      else if c = CHR 0x03 \<or> c = CHR 0x15 then ([], runs)
      else if c = CHR 0x17 then (kill_word line, runs)
      else if 32 \<le> code c then (line @ [c], runs)
      else (line, runs))"

definition remote :: "string \<Rightarrow> string \<times> string list" where
  "remote bytes = fold edit bytes ([], [])"

definition editing_key :: "char \<Rightarrow> bool" where
  "editing_key c = (32 \<le> code c \<or> c = CHR 0x08 \<or> c = CHR 0x03 \<or> c = CHR 0x15 \<or> c = CHR 0x17)"

text \<open>A message of the typing kind: a key or a pasted text on one line, or one that ends with Enter.\<close>

definition typed_message :: "string \<Rightarrow> bool" where
  "typed_message input =
     (list_all editing_key input \<or> (input \<noteq> [] \<and> list_all editing_key (butlast input) \<and> is_enter (last input)))"

lemma kill_word_length: "length (kill_word line) \<le> length line"
  unfolding kill_word_def length_rev
  by (rule order_trans [OF length_dropWhile_le]) (rule order_trans [OF length_dropWhile_le], simp)

lemma track_key:
  assumes "editing_key c" and "length line < kMaxTrackedLine"
  shows "track_line (c # cs) line = track_line cs (fst (edit c (line, runs)))" and "snd (edit c (line, runs)) = runs"
    and "length (fst (edit c (line, runs))) \<le> Suc (length line)"
proof -
  have "\<not> is_enter c" "c \<noteq> CHR 0x1B"
    using assms(1) by (auto simp: editing_key_def is_enter_def code_def)
  then show "track_line (c # cs) line = track_line cs (fst (edit c (line, runs)))" "snd (edit c (line, runs)) = runs"
    using assms(2) by simp_all
  show "length (fst (edit c (line, runs))) \<le> Suc (length line)"
    using \<open>\<not> is_enter c\<close> kill_word_length [of line] by auto
qed

lemma track_keys:
  "list_all editing_key ks \<Longrightarrow> length line + length ks \<le> kMaxTrackedLine \<Longrightarrow>
     track_line (ks @ cs) line = track_line cs (fst (fold edit ks (line, runs))) \<and> snd (fold edit ks (line, runs)) = runs"
proof (induction ks arbitrary: line)
  case (Cons c ks)
  define l where "l = fst (edit c (line, runs))"
  have step: "track_line (c # ks @ cs) line = track_line (ks @ cs) l" "edit c (line, runs) = (l, runs)"
      "length l \<le> Suc (length line)"
    using track_key(1) [of c line "ks @ cs" runs] track_key(2,3) [of c line runs] Cons.prems
    by (simp_all add: l_def prod_eq_iff del: edit.simps track_line.simps)
  then show ?case
    using Cons.IH [of l] Cons.prems by (simp del: edit.simps track_line.simps)
qed simp

lemma remote_snoc: "remote (bytes @ added) = fold edit added (remote bytes)"
  by (simp add: remote_def)

lemma guard_session_snoc:
  "guard_session hit (inputs @ [input]) =
    (let (line, sent) = guard_session hit inputs; (l, out) = guard_input hit input line in (l, sent @ out))"
  by (simp add: guard_session_def split: prod.split)

lemma guard_input_tracks:
  assumes "typed_message input" and "length line + length input \<le> kMaxTrackedLine" and "hit input \<longrightarrow> line = []"
    and "remote sent = (line, runs)" and "guard_input hit input line = (l, out)"
  shows "\<exists>added. remote (sent @ out) = (l, runs @ added) \<and> (\<forall>cmd \<in> set added. \<not> hit cmd)"
proof (cases "safe_chars input \<and> \<not> hit input")
  case False
  then show ?thesis
    using assms(3-5) by (auto simp: guard_input_def split: if_splits)
next
  case True
  show ?thesis
  proof (cases "list_all editing_key input")
    case keys: True
    define k where "k = fst (fold edit input (line, runs))"
    have k: "track_line input line = (False, k)" "fold edit input (line, runs) = (k, runs)"
      using track_keys [OF keys assms(2), of "[]" runs] by (auto simp: k_def prod_eq_iff)
    then have "(l, out) = (k, input)"
      using True assms(5) by (simp add: guard_input_def)
    then show ?thesis
      using k(2) assms(4) by (intro exI [of _ "[]"]) (simp add: remote_snoc)
  next
    case False
    then obtain ks e where input: "input = ks @ [e]" "list_all editing_key ks" "is_enter e"
      using assms(1) by (cases input rule: rev_cases) (auto simp: typed_message_def)
    define k where "k = fst (fold edit ks (line, runs))"
    have k: "track_line input line = (True, k)" "fold edit ks (line, runs) = (k, runs)"
      using track_keys [OF input(2), of line "[e]" runs] assms(2) input by (auto simp: k_def prod_eq_iff)
    show ?thesis
    proof (cases "hit k")
      case hit: True
      then have "(l, out) = ([], [CHR 0x15])"
        using True assms(5) k(1) by (simp add: guard_input_def)
      then show ?thesis
        using assms(4) by (intro exI [of _ "[]"]) (simp add: remote_snoc is_enter_def)
    next
      case miss: False
      then have "(l, out) = ([], input)"
        using True assms(5) k(1) by (simp add: guard_input_def)
      then show ?thesis
        using miss k(2) assms(4) input by (intro exI [of _ "[k]"]) (simp add: remote_snoc)
    qed
  qed
qed


definition matches_reboot :: "string \<Rightarrow> bool" where
  "matches_reboot line = starts_with line ''reboot''"

lemmas guard_example = guard_session_def guard_input_def remote_def safe_chars_def allowed_char_def is_enter_def
  kMaxTrackedLine_def matches_reboot_def starts_with_def js_eval


text \<open>Plain characters of a command: what the page can send as a whole.\<close>

definition plain_text :: "string \<Rightarrow> bool" where
  "plain_text s = list_all (\<lambda>c. allowed_char c \<and> 32 \<le> code c \<and> c \<noteq> CHR 0x7F) s"

lemma edit_plain_key:
  assumes "32 \<le> code c" and "c \<noteq> CHR 0x7F"
  shows "edit c (line, runs) = (line @ [c], runs)"
proof -
  have "code (CHR 0x0D) = 13" "code (CHR 0x0A) = 10" "code (CHR 0x08) = 8" "code (CHR 0x03) = 3" "code (CHR 0x15) = 21"
      "code (CHR 0x17) = 23"
    by (simp_all add: code_def)
  then have "c \<notin> {CHR 0x0D, CHR 0x0A, CHR 0x08, CHR 0x03, CHR 0x15, CHR 0x17}"
    using assms(1) by auto
  then show ?thesis
    using assms by (simp add: is_enter_def)
qed

lemma edit_plain: "plain_text s \<Longrightarrow> fold edit s (line, runs) = (line @ s, runs)"
  by (induction s arbitrary: line) (simp_all add: plain_text_def edit_plain_key del: edit.simps)

lemma track_plain:
  assumes "plain_text s" and "length line + length s \<le> kMaxTrackedLine"
  shows "track_line (s @ cs) line = track_line cs (line @ s)"
proof -
  have "list_all editing_key s"
    using assms(1) by (auto simp: plain_text_def editing_key_def list_all_iff)
  then show ?thesis
    using track_keys [of s line cs "[]"] assms edit_plain [of s line "[]"] by simp
qed

lemma plain_safe: "plain_text s \<Longrightarrow> safe_chars s"
  by (auto simp: plain_text_def safe_chars_def list_all_iff)

text \<open>C33: As written, what follows a line end inside one message is not copied: a paste of a harmless line and the
  beginning of a command, with its end typed afterwards, runs the command although it matches the list, as soon as the
  pieces alone do not match.\<close>

theorem text_after_a_pasted_line_is_not_judged:
  assumes "plain_text w" "plain_text a" "plain_text b"
    and "length w + length a + length b < kMaxTrackedLine"
    and "\<not> hit (w @ [CHR 0x0D] @ a)" "\<not> hit w" "\<not> hit b" "\<not> hit [CHR 0x0D]" "hit (a @ b)"
  shows "snd (remote (snd (guard_session hit [w @ [CHR 0x0D] @ a, b, [CHR 0x0D]]))) = [w, a @ b]"
proof -
  have e: "is_enter (CHR 0x0D)" "safe_chars (w @ CHR 0x0D # a)" "safe_chars [CHR 0x0D]"
    by (auto simp: is_enter_def safe_chars_def code_def)
  have "track_line (w @ [CHR 0x0D] @ a) [] = (True, w)"
    using track_plain [of w "[]" "CHR 0x0D # a"] assms e(1) by simp
  moreover have "track_line b [] = (False, b)"
    using track_plain [of b "[]" "[]"] assms by simp
  moreover have "track_line [CHR 0x0D] b = (True, b)"
    using e(1) by simp
  ultimately have "guard_session hit [w @ [CHR 0x0D] @ a, b, [CHR 0x0D]] = ([], w @ CHR 0x0D # a @ b @ [CHR 0x0D])"
    using assms e plain_safe by (simp add: guard_session_def guard_input_def)
  moreover have "remote (w @ CHR 0x0D # a @ b @ [CHR 0x0D]) = ([], [w, a @ b])"
    using edit_plain assms(1-3) e(1) by (simp add: remote_def)
  ultimately show ?thesis
    by simp
qed

lemma text_after_a_pasted_line_is_not_judged_witness:
  "snd (remote (snd (guard_session matches_reboot [''x'' @ [CHR 0x0D] @ ''reb'', ''oot'', [CHR 0x0D]]))) = [''x'', ''reboot''] \<and>
   matches_reboot ''reboot''"
proof -
  have short: "length ''x'' + length ''reb'' + length ''oot'' < kMaxTrackedLine"
    by (simp add: kMaxTrackedLine_def)
  have texts: "plain_text ''x''" "plain_text ''reb''" "plain_text ''oot''" "\<not> matches_reboot (''x'' @ [CHR 0x0D] @ ''reb'')" "\<not> matches_reboot ''x''" "\<not> matches_reboot ''oot''" "\<not> matches_reboot [CHR 0x0D]"
    "matches_reboot (''reb'' @ ''oot'')"
    by code_simp+
  from text_after_a_pasted_line_is_not_judged [OF texts(1-3) short texts(4-8)] texts(8) show ?thesis
    by simp
qed


end
