(* ===== verification/ConfirmDialog.thy ===== *)
theory ConfirmDialog
  imports AuthFlow
begin

section \<open>Confirmation of an action (ui/ConfirmButton.jsx, ui/Dialog.jsx)\<close>

text \<open>
  The button of a sensitive action opens a dialog, and only the dialog's own button (or Enter in the field
  where a text has to be typed) runs the action.  The state is that of the component, an event is what
  the user does or the end of the action; an event on a control that is not there, or is disabled, does nothing.
  \<open>required\<close> is the text to type, empty when there is none.
\<close>

record confirm_state =
  cf_open :: bool
  cf_busy :: bool
  cf_error :: string
  cf_typed :: string
  cf_opened_at :: int
  cf_runs :: nat

datatype confirm_event =
    Open_click int
  | Cancel_click
  | Close_click
  | Escape_key bool
  | Backdrop_press int
  | Text_typed string
  | Enter_key
  | Confirm_click
  | Action_done
  | Action_failed js_error

definition confirm_closed :: confirm_state where
  "confirm_closed = \<lparr>cf_open = False, cf_busy = False, cf_error = [], cf_typed = [], cf_opened_at = 0, cf_runs = 0\<rparr>"

text \<open>The effect of opening clears the error and the text typed before.\<close>

definition open_dialog :: "int \<Rightarrow> confirm_state \<Rightarrow> confirm_state" where
  "open_dialog now c =
     (let d = c\<lparr>cf_opened_at := now, cf_open := True\<rparr> in if cf_open c then d else d\<lparr>cf_error := [], cf_typed := []\<rparr>)"

definition close_dialog :: "confirm_state \<Rightarrow> confirm_state" where
  "close_dialog c = (if \<not> cf_busy c then c\<lparr>cf_open := False\<rparr> else c)"

definition closeFromBackdrop :: "int \<Rightarrow> confirm_state \<Rightarrow> confirm_state" where
  "closeFromBackdrop now c = (if 400 \<le> now - cf_opened_at c then close_dialog c else c)"

definition textOk :: "string \<Rightarrow> confirm_state \<Rightarrow> bool" where
  "textOk required c = (required = [] \<or> trim (cf_typed c) = required)"

definition run_confirm :: "string \<Rightarrow> confirm_state \<Rightarrow> confirm_state" where
  "run_confirm required c =
     (if cf_busy c \<or> \<not> textOk required c then c
      else c\<lparr>cf_busy := True, cf_error := [], cf_runs := Suc (cf_runs c)\<rparr>)"

definition action_done :: "confirm_state \<Rightarrow> confirm_state" where
  "action_done c = c\<lparr>cf_open := False, cf_busy := False\<rparr>"

definition action_failed :: "env \<Rightarrow> js_error \<Rightarrow> confirm_state \<Rightarrow> confirm_state" where
  "action_failed env e c = c\<lparr>cf_error := shown env e (tx env ''confirm.failed''), cf_busy := False\<rparr>"

text \<open>\<open>onClose\<close> and \<open>onBackdropClose\<close> are given to the dialog while the action does not run; Escape closes the
  dialog on top only.\<close>

definition dialog_open :: "(confirm_state \<Rightarrow> confirm_state) \<Rightarrow> confirm_state \<Rightarrow> confirm_state" where
  "dialog_open f c = (if cf_open c \<and> \<not> cf_busy c then f c else c)"

fun confirm_step :: "env \<Rightarrow> string \<Rightarrow> confirm_event \<Rightarrow> confirm_state \<Rightarrow> confirm_state" where
  "confirm_step env required (Open_click now) c = open_dialog now c"
| "confirm_step env required Cancel_click c = dialog_open close_dialog c"
| "confirm_step env required Close_click c = dialog_open close_dialog c"
| "confirm_step env required (Escape_key on_top) c = dialog_open (\<lambda>d. if on_top then close_dialog d else d) c"
| "confirm_step env required (Backdrop_press now) c = dialog_open (closeFromBackdrop now) c"
| "confirm_step env required (Text_typed s) c = dialog_open (\<lambda>d. if required \<noteq> [] then d\<lparr>cf_typed := s\<rparr> else d) c"
| "confirm_step env required Enter_key c = dialog_open (\<lambda>d. if required \<noteq> [] then run_confirm required d else d) c"
| "confirm_step env required Confirm_click c = dialog_open (\<lambda>d. if textOk required d then run_confirm required d else d) c"
| "confirm_step env required Action_done c = (if cf_busy c then action_done c else c)"
| "confirm_step env required (Action_failed e) c = (if cf_busy c then action_failed env e c else c)"

definition confirm_run :: "env \<Rightarrow> string \<Rightarrow> confirm_event list \<Rightarrow> confirm_state" where
  "confirm_run env required events = fold (confirm_step env required) events confirm_closed"

lemma confirm_run_snoc: "confirm_run env required (events @ [e]) = confirm_step env required e (confirm_run env required events)"
  by (simp add: confirm_run_def)

lemmas confirm_ops = open_dialog_def close_dialog_def closeFromBackdrop_def run_confirm_def action_done_def action_failed_def
  dialog_open_def Let_def

subsection \<open>When the action runs\<close>

text \<open>What was done since the dialog was last opened: the click that opened it, and the events after it.\<close>

definition opened_and_typed :: "string \<Rightarrow> confirm_event list \<Rightarrow> confirm_state \<Rightarrow> bool" where
  "opened_and_typed required events c =
     (cf_open c \<longrightarrow>
        (\<exists>before now after. events = before @ Open_click now # after \<and>
           (cf_typed c \<noteq> [] \<longrightarrow> Text_typed (cf_typed c) \<in> set after)))"

lemma opened_step:
  assumes "opened_and_typed required events c" and "\<not> cf_open c \<longrightarrow> \<not> cf_busy c"
  shows "opened_and_typed required (events @ [e]) (confirm_step env required e c)"
proof (cases "cf_open c")
  case False
  then show ?thesis
    using assms(2) by (cases e) (auto simp: opened_and_typed_def confirm_ops)
next
  case True
  then obtain before now after where ev: "events = before @ Open_click now # after"
      and typed: "cf_typed c \<noteq> [] \<longrightarrow> Text_typed (cf_typed c) \<in> set after"
    using assms(1) by (auto simp: opened_and_typed_def)
  have "cf_typed (confirm_step env required e c) = cf_typed c \<or> e = Text_typed (cf_typed (confirm_step env required e c))"
    using True by (cases e) (auto simp: confirm_ops)
  then have "cf_typed (confirm_step env required e c) \<noteq> [] \<longrightarrow>
      Text_typed (cf_typed (confirm_step env required e c)) \<in> set (after @ [e])"
    using typed by auto
  moreover have "events @ [e] = before @ Open_click now # (after @ [e])"
    by (simp add: ev)
  ultimately show ?thesis
    unfolding opened_and_typed_def by blast
qed

lemma confirm_run_ok:
  "opened_and_typed required events (confirm_run env required events) \<and>
   (cf_busy (confirm_run env required events) \<longrightarrow> cf_open (confirm_run env required events))"
proof (induction events rule: rev_induct)
  case Nil
  show ?case by (simp add: confirm_run_def confirm_closed_def opened_and_typed_def)
next
  case (snoc e events)
  let ?c = "confirm_run env required events"
  have "cf_busy (confirm_step env required e ?c) \<longrightarrow> cf_open (confirm_step env required e ?c)"
    using snoc.IH by (cases e) (auto simp: confirm_ops)
  then show ?case
    using snoc.IH opened_step [of required events ?c e env] by (auto simp: confirm_run_snoc)
qed



subsection \<open>How it ends\<close>

lemma busy_stays:
  assumes "cf_busy c" and "cf_open c" and "\<forall>e \<in> set events. e \<noteq> Action_done \<and> (\<forall>x. e \<noteq> Action_failed x)"
  shows "let d = fold (confirm_step env required) events c in
    cf_busy d \<and> cf_open d \<and> cf_runs d = cf_runs c \<and> cf_typed d = cf_typed c \<and> cf_error d = cf_error c"
  using assms
proof (induction events arbitrary: c)
  case (Cons e events)
  let ?d = "confirm_step env required e c"
  have "cf_busy ?d" "cf_open ?d" "cf_runs ?d = cf_runs c" "cf_typed ?d = cf_typed c" "cf_error ?d = cf_error c"
    using Cons.prems by (cases e; auto simp: confirm_ops)+
  then show ?case
    using Cons.IH [of ?d] Cons.prems by (simp add: Let_def)
qed simp

text \<open>C35: Once the action runs the dialog waits for it whatever is clicked or typed, and its end always frees it: a success closes
  it, a failure leaves it open with the error shown and the text typed, and a confirming click tries
  again; a press on the backdrop within 400 ms of the opening never closes it.\<close>

theorem confirmation_always_ends:
  assumes "cf_busy (confirm_run env required events)"
    and "\<forall>e \<in> set waiting. e \<noteq> Action_done \<and> (\<forall>x. e \<noteq> Action_failed x)"
  shows "let c = confirm_run env required events; ok = confirm_run env required (events @ waiting @ [Action_done]);
             failed = confirm_run env required (events @ waiting @ [Action_failed e]) in
         \<not> cf_open ok \<and> \<not> cf_busy ok \<and> cf_runs ok = cf_runs c \<and>
         cf_open failed \<and> \<not> cf_busy failed \<and> cf_runs failed = cf_runs c \<and>
         cf_error failed = shown env e (tx env ''confirm.failed'') \<and> cf_typed failed = cf_typed c \<and>
         (textOk required c \<longrightarrow> cf_busy (confirm_step env required Confirm_click failed)) \<and>
         (\<forall>later now. now < later + 400 \<longrightarrow> cf_open (confirm_step env required (Backdrop_press now) (open_dialog later ok)))"
proof -
  let ?c = "confirm_run env required events"
  let ?d = "fold (confirm_step env required) waiting ?c"
  have d: "cf_busy ?d" "cf_open ?d" "cf_runs ?d = cf_runs ?c" "cf_typed ?d = cf_typed ?c"
    using busy_stays [OF assms(1) _ assms(2)] confirm_run_ok [of required events env] assms(1) by (auto simp: Let_def)
  have run: "confirm_run env required (events @ waiting @ [x]) = confirm_step env required x ?d" for x
    by (simp add: confirm_run_def)
  show ?thesis
    unfolding run Let_def using d by (auto simp: confirm_ops textOk_def)
qed

lemma confirmation_always_ends_witness:
  "cf_open (confirm_run sample_env [] ([Open_click 10, Confirm_click] @ [Cancel_click, Escape_key True] @ [Action_failed (PlainError ''no'')])) \<and>
   \<not> cf_open (confirm_run sample_env [] ([Open_click 10, Confirm_click] @ [Cancel_click, Escape_key True] @ [Action_done]))"
proof -
  have "cf_busy (confirm_run sample_env [] [Open_click 10, Confirm_click])"
    by code_simp
  then show ?thesis
    using confirmation_always_ends [of sample_env "[]" "[Open_click 10, Confirm_click]" "[Cancel_click, Escape_key True]" "PlainError ''no''"]
    by (simp add: Let_def)
qed

end
