(* ===== verification/SettingsForm.thy ===== *)
theory SettingsForm
  imports AuthFlow
begin

section \<open>The settings of the file transfer (SettingsGroup.jsx, SshTransferSettings.jsx, settings.cc)\<close>

text \<open>
  The administrator edits a group of the settings catalogue of the bastion; the bastion keeps the values in front of
  its environment.  Both ends are modelled, and the JSON text between them: the catalogue entries and the
  check of a value by kind, the store with its audit trail, the two requests, the form with its unsaved edits, and the
  answers that arrive while other edits are made.  The catalogue is an argument; the entry of the group the
  page shows is \<open>ssh_catalog\<close>.  The environment of the process, the database and the vault key are the deployment;
  a stored secret is represented by its plain text, as in the cache the integrations read.
\<close>

subsection \<open>The catalogue\<close>

datatype setting_kind = Bool_kind | Int_kind | String_kind | Secret_kind | Enum_kind | Url_kind | Csv_kind

record descriptor =
  de_key :: string
  de_group :: string
  de_subgroup :: string
  de_kind :: setting_kind
  de_label :: string
  de_hint :: string
  de_default :: string
  de_enum :: "string list"
  de_min :: int
  de_max :: int

fun kind_name :: "setting_kind \<Rightarrow> string" where
  "kind_name Bool_kind = ''bool''"
| "kind_name Int_kind = ''int''"
| "kind_name Secret_kind = ''secret''"
| "kind_name Enum_kind = ''enum''"
| "kind_name Url_kind = ''url''"
| "kind_name Csv_kind = ''csv''"
| "kind_name String_kind = ''string''"

definition ssh_catalog :: "descriptor list" where
  "ssh_catalog =
     [\<lparr>de_key = ''ENDORIUMFORT_SSH_TRANSFER_MAX_UPLOAD_MB'', de_group = ''ssh'', de_subgroup = ''general'',
       de_kind = Int_kind, de_label = ''Max upload size (MB)'',
       de_hint = ''Largest file an operator may send to an SSH target over SFTP/SCP.'',
       de_default = ''100'', de_enum = [], de_min = 1, de_max = 10240\<rparr>]"

definition find_setting :: "descriptor list \<Rightarrow> string \<Rightarrow> descriptor option" where
  "find_setting cat k = List.find (\<lambda>d. de_key d = k) cat"

definition is_secret :: "descriptor list \<Rightarrow> string \<Rightarrow> bool" where
  "is_secret cat k = (case find_setting cat k of Some d \<Rightarrow> de_kind d = Secret_kind | None \<Rightarrow> False)"

subsection \<open>The check of a value\<close>

text \<open>\<open>std::stoi\<close>: the number at the front and what is left, or the exception for a text without digits and for a
  number outside of 32 bits.\<close>

definition stoi :: "string \<Rightarrow> (int \<times> string) option" where
  "stoi value =
     (let s = dropWhile is_ws value;
          negative = (s \<noteq> [] \<and> hd s = CHR ''-'');
          ds = (if s \<noteq> [] \<and> (hd s = CHR ''-'' \<or> hd s = CHR ''+'') then tl s else s);
          digits = takeWhile is_digit ds;
          n = (if negative then - int (digits_val digits) else int (digits_val digits)) in
      if digits = [] \<or> n < - 2147483648 \<or> 2147483647 < n then None else Some (n, dropWhile is_digit ds))"

definition parse_bool_text :: "string \<Rightarrow> bool option" where
  "parse_bool_text raw =
     (let value = to_lower (trim raw) in
      if value \<in> {''1'', ''true'', ''yes'', ''on''} then Some True
      else if value \<in> {''0'', ''false'', ''no'', ''off''} then Some False else None)"

text \<open>Whether \<open>parse_endpoint_url\<close> gives an address; \<open>before_text\<close> is the text before the first occurrence, and the
  text after it.\<close>

fun before_text :: "string \<Rightarrow> string \<Rightarrow> (string \<times> string) option" where
  "before_text pat [] = (if pat = [] then Some ([], []) else None)"
| "before_text pat (c # s) =
     (if starts_with (c # s) pat then Some ([], drop (length pat) (c # s))
      else map_option (\<lambda>(a, b). (c # a, b)) (before_text pat s))"

definition port_ok :: "string \<Rightarrow> bool" where
  "port_ok p = (p \<noteq> [] \<and> list_all is_digit p)"

definition host_ok :: "string \<Rightarrow> bool" where
  "host_ok authority =
     (if authority = [] then False
      else if hd authority = CHR ''[''
      then (case before_text '']'' authority of
              None \<Rightarrow> False
            | Some (inside, rest) \<Rightarrow>
                1 < length inside \<and>
                (rest = [] \<or> (hd rest = CHR '':'' \<and> port_ok (tl rest) \<and> stoi (tl rest) \<noteq> None)))
      else (case before_text '':'' authority of
              None \<Rightarrow> True
            | Some (host, port) \<Rightarrow>
                if CHR '':'' \<notin> set port \<and> port_ok port then stoi port \<noteq> None \<and> host \<noteq> [] else True))"

definition is_endpoint_url :: "string \<Rightarrow> bool" where
  "is_endpoint_url raw =
     (case before_text ''://'' (trim raw) of
        None \<Rightarrow> False
      | Some (scheme, remainder) \<Rightarrow>
          to_lower scheme \<in> {''http'', ''https''} \<and>
          host_ok (takeWhile (\<lambda>c. c \<noteq> CHR ''/'' \<and> c \<noteq> CHR ''?'') remainder))"

definition join_csv_compact :: "string list \<Rightarrow> string" where
  "join_csv_compact xs = join '','' (filter (\<lambda>s. s \<noteq> []) (map trim xs))"

definition control_char :: "char \<Rightarrow> bool" where
  "control_char c = (code c < 32 \<or> code c = 127)"

text \<open>\<open>validate\<close>: the reason of a refusal.\<close>

definition check_kind :: "descriptor \<Rightarrow> string \<Rightarrow> string option" where
  "check_kind d value =
     (case de_kind d of
        Bool_kind \<Rightarrow> if parse_bool_text value = None then Some ''expected a boolean'' else None
      | Int_kind \<Rightarrow>
          (case stoi value of
             Some (n, []) \<Rightarrow>
               if n < de_min d \<or> de_max d < n
               then Some (''must be between '' @ show_int (de_min d) @ '' and '' @ show_int (de_max d)) else None
           | _ \<Rightarrow> Some ''expected a whole number'')
      | Enum_kind \<Rightarrow>
          if to_lower value \<notin> set (de_enum d) then Some (''must be one of '' @ join_csv_compact (de_enum d)) else None
      | Url_kind \<Rightarrow> if \<not> is_endpoint_url value then Some ''expected an absolute http:// or https:// URL'' else None
      | String_kind \<Rightarrow> None
      | Secret_kind \<Rightarrow> None
      | Csv_kind \<Rightarrow> None)"

definition kMaxValueBytes :: nat where
  "kMaxValueBytes = 4096"

definition validate_setting :: "descriptor \<Rightarrow> string \<Rightarrow> string option" where
  "validate_setting d value =
     (if kMaxValueBytes < length value then Some ''value is too long''
      else if list_ex control_char value then Some ''value contains a control character''
      else check_kind d value)"

definition normalize_setting :: "descriptor \<Rightarrow> string \<Rightarrow> string" where
  "normalize_setting d value =
     (case de_kind d of
        Bool_kind \<Rightarrow> if parse_bool_text value = Some True then ''1'' else ''0''
      | Enum_kind \<Rightarrow> to_lower (trim value)
      | Secret_kind \<Rightarrow> value
      | _ \<Rightarrow> trim value)"

subsection \<open>The store of the bastion\<close>

record stored =
  sv_value :: string
  sv_secret :: bool
  sv_at :: string
  sv_by :: string

record audit_entry =
  ae_type :: string
  ae_key :: string
  ae_actor :: string
  ae_detail :: string

record bastion_settings =
  se_values :: "string \<Rightarrow> stored option"
  se_audit :: "audit_entry list"

text \<open>The deployment a request meets: the environment of the process, whether a vault key is configured, what the
  database does with the row of a key, the time, the user of the token if there is one and whether the permission
  \<open>settings.manage\<close> is among the user's, and how the server library writes out a number of the request.\<close>

datatype db = Db_ok | Db_unavailable | Db_fails

record deployment =
  dp_env :: "string \<Rightarrow> string"
  dp_vault_key :: bool
  dp_db :: "string \<Rightarrow> db"
  dp_now :: string
  dp_user :: "string option"
  dp_may :: bool
  dp_number :: "rat \<Rightarrow> string"

definition no_vault_key :: string where
  "no_vault_key = ''no vault key configured: set ENDORIUMFORT_VAULT_KEY before storing a secret''"

definition check_setting :: "deployment \<Rightarrow> descriptor list \<Rightarrow> string \<Rightarrow> string \<Rightarrow> string option" where
  "check_setting dep cat k value =
     (case find_setting cat k of
        None \<Rightarrow> Some ''unknown setting''
      | Some d \<Rightarrow>
          if value = [] then None
          else if de_kind d = Secret_kind \<and> \<not> dp_vault_key dep then Some no_vault_key
          else validate_setting d value)"

definition audit_change :: "string \<Rightarrow> string \<Rightarrow> string \<Rightarrow> string \<Rightarrow> bastion_settings \<Rightarrow> bastion_settings" where
  "audit_change type k actor detail s =
     s\<lparr>se_audit := se_audit s @
        [\<lparr>ae_type = type, ae_key = k, ae_actor = (if actor = [] then ''system'' else actor), ae_detail = detail\<rparr>]\<rparr>"

definition clear_setting ::
    "deployment \<Rightarrow> descriptor list \<Rightarrow> string \<Rightarrow> string \<Rightarrow> bastion_settings \<Rightarrow> string + bastion_settings" where
  "clear_setting dep cat k actor s =
     (if find_setting cat k = None then Inl ''unknown setting''
      else (case dp_db dep k of
        Db_unavailable \<Rightarrow> Inl ''database unavailable''
      | Db_fails \<Rightarrow> Inl ''could not clear the setting''
      | Db_ok \<Rightarrow> Inr (audit_change ''settings.integration.cleared'' k actor [] (s\<lparr>se_values := (se_values s)(k := None)\<rparr>))))"

definition set_setting ::
    "deployment \<Rightarrow> descriptor list \<Rightarrow> string \<Rightarrow> string \<Rightarrow> string \<Rightarrow> bastion_settings \<Rightarrow> string + bastion_settings" where
  "set_setting dep cat k value actor s =
     (case find_setting cat k of
        None \<Rightarrow> Inl ''unknown setting''
      | Some d \<Rightarrow>
          if value = [] then clear_setting dep cat k actor s
          else (case validate_setting d value of
            Some e \<Rightarrow> Inl e
          | None \<Rightarrow>
              (let normalized = normalize_setting d value; secret = (de_kind d = Secret_kind) in
               if secret \<and> \<not> dp_vault_key dep then Inl no_vault_key
               else (case dp_db dep k of
                 Db_unavailable \<Rightarrow> Inl ''database unavailable''
               | Db_fails \<Rightarrow> Inl ''could not store the setting''
               | Db_ok \<Rightarrow>
                   Inr (audit_change ''settings.integration.updated'' k actor (if secret then ''***'' else normalized)
                     (s\<lparr>se_values := (se_values s)(k \<mapsto>
                        \<lparr>sv_value = normalized, sv_secret = secret, sv_at = dp_now dep, sv_by = actor\<rparr>)\<rparr>))))))"

text \<open>\<open>resolve_all\<close> and the entry of the list it gives.\<close>

record resolved =
  re_descriptor :: descriptor
  re_value :: string
  re_source :: string
  re_configured :: bool
  re_shadowed :: bool
  re_at :: string
  re_by :: string

definition resolve_setting :: "deployment \<Rightarrow> bastion_settings \<Rightarrow> descriptor \<Rightarrow> resolved" where
  "resolve_setting dep s d =
     (let from_env = dp_env dep (de_key d); secret = (de_kind d = Secret_kind) in
      case se_values s (de_key d) of
        Some v \<Rightarrow>
          \<lparr>re_descriptor = d, re_value = (if secret then [] else sv_value v), re_source = ''store'', re_configured = True,
           re_shadowed = (from_env \<noteq> []), re_at = sv_at v, re_by = sv_by v\<rparr>
      | None \<Rightarrow>
          if from_env \<noteq> []
          then \<lparr>re_descriptor = d, re_value = (if secret then [] else trim from_env), re_source = ''env'',
                re_configured = True, re_shadowed = False, re_at = [], re_by = []\<rparr>
          else \<lparr>re_descriptor = d, re_value = (if secret then [] else de_default d), re_source = ''default'',
                re_configured = (de_default d \<noteq> []), re_shadowed = False, re_at = [], re_by = []\<rparr>)"

definition setting_json :: "resolved \<Rightarrow> json" where
  "setting_json r =
     (let d = re_descriptor r in
      JObj ([(''key'', JStr (de_key d)), (''group'', JStr (de_group d)), (''subgroup'', JStr (de_subgroup d)),
             (''kind'', JStr (kind_name (de_kind d))), (''label'', JStr (de_label d)), (''hint'', JStr (de_hint d)),
             (''default'', JStr (de_default d)), (''secret'', JBool (de_kind d = Secret_kind)),
             (''value'', JStr (re_value r)), (''source'', JStr (re_source r)), (''configured'', JBool (re_configured r)),
             (''envShadowed'', JBool (re_shadowed r)), (''updatedAt'', JStr (re_at r)), (''updatedBy'', JStr (re_by r))]
            @ (if de_kind d = Int_kind then [(''min'', JInt (de_min d)), (''max'', JInt (de_max d))] else [])
            @ (if de_enum d \<noteq> [] then [(''enumValues'', JArr (map JStr (de_enum d)))] else [])))"

subsection \<open>The two requests\<close>

definition text_answer :: "int \<Rightarrow> string \<Rightarrow> response" where
  "text_answer status text = \<lparr>resp_status = status, resp_headers = [], resp_body = text\<rparr>"

definition json_answer :: "int \<Rightarrow> json \<Rightarrow> response" where
  "json_answer status v =
     \<lparr>resp_status = status, resp_headers = [(''Content-Type'', ''application/json'')], resp_body = json_stringify v\<rparr>"

definition settings_items :: "deployment \<Rightarrow> descriptor list \<Rightarrow> bastion_settings \<Rightarrow> json list" where
  "settings_items dep cat s = map (\<lambda>d. setting_json (resolve_setting dep s d)) cat"

definition settings_get :: "deployment \<Rightarrow> descriptor list \<Rightarrow> bastion_settings \<Rightarrow> response" where
  "settings_get dep cat s =
     (if dp_user dep = None then text_answer 401 ''Unauthorized''
      else if \<not> dp_may dep then text_answer 403 ''Forbidden''
      else json_answer 200 (JObj [(''status'', JStr ''ok''), (''items'', JArr (settings_items dep cat s))]))"

text \<open>Phase 1: what is to be done with a value, or the reason it is refused.\<close>

fun value_text :: "deployment \<Rightarrow> json \<Rightarrow> string option" where
  "value_text dep JNull = Some []"
| "value_text dep (JStr t) = Some t"
| "value_text dep (JBool b) = Some (if b then ''1'' else ''0'')"
| "value_text dep (JNum n) = Some (dp_number dep n)"
| "value_text dep _ = None"

definition change_refused :: "deployment \<Rightarrow> descriptor list \<Rightarrow> string \<times> json \<Rightarrow> string option" where
  "change_refused dep cat kv =
     (case value_text dep (snd kv) of
        None \<Rightarrow> Some ''unsupported value type''
      | Some t \<Rightarrow> check_setting dep cat (fst kv) t)"

definition reject_json :: "string \<times> string \<Rightarrow> json" where
  "reject_json r = JObj [(''key'', JStr (fst r)), (''error'', JStr (snd r))]"

definition rejected_values :: "deployment \<Rightarrow> descriptor list \<Rightarrow> (string \<times> json) list \<Rightarrow> (string \<times> string) list" where
  "rejected_values dep cat kvs =
     List.map_filter (\<lambda>kv. map_option (Pair (fst kv)) (change_refused dep cat kv)) kvs"

text \<open>Phase 2: the changes one after the other; what the database refuses is collected.\<close>

definition apply_change ::
    "deployment \<Rightarrow> descriptor list \<Rightarrow> string \<Rightarrow> string \<times> json \<Rightarrow> bastion_settings \<times> (string \<times> string) list \<Rightarrow>
     bastion_settings \<times> (string \<times> string) list" where
  "apply_change dep cat actor kv r =
     (let t = (case value_text dep (snd kv) of Some t \<Rightarrow> t | None \<Rightarrow> []) in
      case (if t = [] then clear_setting dep cat (fst kv) actor (fst r) else set_setting dep cat (fst kv) t actor (fst r)) of
        Inr s \<Rightarrow> (s, snd r)
      | Inl e \<Rightarrow> (fst r, snd r @ [(fst kv, e)]))"

definition put_values ::
    "deployment \<Rightarrow> descriptor list \<Rightarrow> string \<Rightarrow> (string \<times> json) list \<Rightarrow> bastion_settings \<Rightarrow> bastion_settings \<times> response" where
  "put_values dep cat actor kvs s =
     (if kvs = [] then (s, text_answer 400 ''No values submitted'')
      else if 256 < length kvs then (s, text_answer 400 ''Too many values'')
      else (let rejected = rejected_values dep cat kvs in
        if rejected \<noteq> []
        then (s, json_answer 400 (JObj [(''status'', JStr ''invalid''), (''applied'', JInt 0),
                                        (''rejected'', JArr (map reject_json rejected))]))
        else (let (s', failures) = fold (apply_change dep cat actor) kvs (s, []);
                  applied = int (length kvs) - int (length failures) in
          if failures = []
          then (s', json_answer 200 (JObj [(''status'', JStr ''ok''), (''applied'', JInt applied)]))
          else (s', json_answer 500 (JObj [(''status'', JStr ''partial''), (''applied'', JInt applied),
                                           (''rejected'', JArr (map reject_json failures))])))))"

definition expected_values :: string where
  "expected_values = ''Expected a '' @ [dquote] @ ''values'' @ [dquote] @ '' object''"

definition settings_put ::
    "deployment \<Rightarrow> descriptor list \<Rightarrow> string \<Rightarrow> bastion_settings \<Rightarrow> bastion_settings \<times> response" where
  "settings_put dep cat body s =
     (case dp_user dep of
        None \<Rightarrow> (s, text_answer 401 ''Unauthorized'')
      | Some actor \<Rightarrow>
          if \<not> dp_may dep then (s, text_answer 403 ''Forbidden'')
          else (case json_parse body of
            Some (JObj b) \<Rightarrow>
              (case jget (JObj b) ''values'' of
                 JObj kvs \<Rightarrow> put_values dep cat actor kvs s
               | _ \<Rightarrow> (s, text_answer 400 expected_values))
          | _ \<Rightarrow> (s, text_answer 400 expected_values)))"

subsection \<open>The form\<close>

datatype save_state = Not_saved | Saved json | Rejected "json list" | Save_failed string

record settings_form =
  sf_items :: "json list option"
  sf_error :: string
  sf_draft :: "(string \<times> string) list"
  sf_state :: save_state
  sf_saving :: bool

definition empty_form :: settings_form where
  "empty_form = \<lparr>sf_items = None, sf_error = [], sf_draft = [], sf_state = Not_saved, sf_saving = False\<rparr>"

definition on_settings_loaded :: "env \<Rightarrow> js_error + json \<Rightarrow> settings_form \<Rightarrow> settings_form" where
  "on_settings_loaded env reply f =
     (case reply of
        Inr data \<Rightarrow> f\<lparr>sf_items := Some (array_or_empty (jget data ''items'')), sf_error := []\<rparr>
      | Inl e \<Rightarrow> f\<lparr>sf_error := shown env e (tx env ''sshTransfer.loadError'')\<rparr>)"

definition form_items :: "settings_form \<Rightarrow> json list" where
  "form_items f = (case sf_items f of Some xs \<Rightarrow> xs | None \<Rightarrow> [])"

text \<open>The sections of a group, in the order of their first entry.\<close>

definition settings_sections :: "string \<Rightarrow> json list \<Rightarrow> (json \<times> json list) list" where
  "settings_sections grp items =
     fold (\<lambda>item sections.
        if jget item ''group'' \<noteq> JStr grp then sections
        else let sub = jget item ''subgroup'' in
          assoc_set sub ((case map_of sections sub of Some xs \<Rightarrow> xs | None \<Rightarrow> []) @ [item]) sections) items []"

definition settings_fields :: "string \<Rightarrow> json list \<Rightarrow> json list" where
  "settings_fields grp items = concat (map snd (settings_sections grp items))"

text \<open>What a field shows: the edit if there is one; a secret is never shown.\<close>

definition field_value :: "(string \<times> string) list \<Rightarrow> json \<Rightarrow> json" where
  "field_value draft item =
     (let key = js_string (jget item ''key''); edited = map_of draft key;
          value = (case edited of Some t \<Rightarrow> JStr t | None \<Rightarrow> jget item ''value'') in
      if jget item ''kind'' = JStr ''bool''
      then JStr (if js_string (jcoalesce value (JStr ''0'')) = ''1'' then ''1'' else ''0'')
      else if jget item ''kind'' = JStr ''secret'' then (case edited of Some t \<Rightarrow> JStr t | None \<Rightarrow> JStr [])
      else jcoalesce value (JStr []))"

definition setting_change :: "string \<Rightarrow> string \<Rightarrow> settings_form \<Rightarrow> settings_form" where
  "setting_change k v f = f\<lparr>sf_state := Not_saved, sf_draft := assoc_set k v (sf_draft f)\<rparr>"

definition discard_edits :: "settings_form \<Rightarrow> settings_form" where
  "discard_edits f = f\<lparr>sf_draft := [], sf_state := Not_saved\<rparr>"

text \<open>\<open>submit\<close> up to the request, and after the answer; \<open>True\<close> when the list is loaded again before the
  form stops saving.\<close>

definition submit_start :: "settings_form \<Rightarrow> settings_form" where
  "submit_start f = f\<lparr>sf_saving := True, sf_state := Not_saved\<rparr>"

definition saving_ended :: "settings_form \<Rightarrow> settings_form" where
  "saving_ended f = f\<lparr>sf_saving := False\<rparr>"

definition submit_answered :: "env \<Rightarrow> js_error + json \<Rightarrow> settings_form \<Rightarrow> settings_form \<times> bool" where
  "submit_answered env reply f =
     (case reply of
        Inl e \<Rightarrow> (saving_ended (f\<lparr>sf_state := Save_failed (shown env e (tx env ''settings.saveError''))\<rparr>), False)
      | Inr response \<Rightarrow>
          (case array_or_empty (jget response ''rejected'') of
             [] \<Rightarrow> (f\<lparr>sf_state := Saved (jor (jget response ''applied'') (JInt 0)), sf_draft := []\<rparr>, True)
           | rejected \<Rightarrow> (saving_ended (f\<lparr>sf_state := Rejected rejected\<rparr>), False)))"

definition item_of :: "json list \<Rightarrow> string \<Rightarrow> json" where
  "item_of items k = (case List.find (\<lambda>i. jget i ''key'' = JStr k) items of Some i \<Rightarrow> i | None \<Rightarrow> JUndef)"

definition values_to_save :: "json list \<Rightarrow> (string \<times> string) list \<Rightarrow> (string \<times> json) list" where
  "values_to_save items draft =
     map (\<lambda>(k, v). (k, if v = [] then JNull else JStr v))
       (filter (\<lambda>(k, v). \<not> (jget (item_of items k) ''kind'' = JStr ''secret'' \<and> v = [])) draft)"

definition save_clicked :: "settings_form \<Rightarrow> settings_form \<times> (string \<times> json) list option" where
  "save_clicked f =
     (let vals = values_to_save (form_items f) (sf_draft f) in
      if vals = [] then (f, None) else (submit_start f, Some vals))"

definition revert_clicked :: "string \<Rightarrow> settings_form \<Rightarrow> settings_form \<times> (string \<times> json) list option" where
  "revert_clicked k f = (submit_start f, Some [(k, JNull)])"

definition rejected_for :: "string \<Rightarrow> settings_form \<Rightarrow> json" where
  "rejected_for k f =
     (case sf_state f of
        Rejected rs \<Rightarrow>
          (case List.find (\<lambda>r. jget r ''key'' = JStr k) rs of Some r \<Rightarrow> jget r ''error'' | None \<Rightarrow> JUndef)
      | _ \<Rightarrow> JUndef)"

definition settings_savable :: "settings_form \<Rightarrow> bool" where
  "settings_savable f = (\<not> sf_saving f \<and> sf_draft f \<noteq> [])"

text \<open>What the line under the form says.\<close>

definition save_message :: "env \<Rightarrow> settings_form \<Rightarrow> json option" where
  "save_message env f =
     (case sf_state f of
        Not_saved \<Rightarrow> None
      | Saved n \<Rightarrow> Some (JStr (env_t env ''settings.saved'' [(''count'', n)]))
      | Rejected _ \<Rightarrow> Some (JStr (tx env ''settings.rejected''))
      | Save_failed m \<Rightarrow> Some (JStr (str_or m (tx env ''settings.rejected''))))"

subsection \<open>What a request leaves\<close>

text \<open>The row of a key after a change that was carried out.\<close>

definition setting_row :: "deployment \<Rightarrow> descriptor list \<Rightarrow> string \<Rightarrow> string \<Rightarrow> string \<Rightarrow> stored option" where
  "setting_row dep cat actor k t =
     (case find_setting cat k of
        None \<Rightarrow> None
      | Some d \<Rightarrow>
          if t = [] then None
          else Some \<lparr>sv_value = normalize_setting d t, sv_secret = (de_kind d = Secret_kind), sv_at = dp_now dep, sv_by = actor\<rparr>)"

definition write_refused :: "deployment \<Rightarrow> string \<Rightarrow> string \<Rightarrow> string option" where
  "write_refused dep k t =
     (case dp_db dep k of
        Db_ok \<Rightarrow> None
      | Db_unavailable \<Rightarrow> Some ''database unavailable''
      | Db_fails \<Rightarrow> Some (if t = [] then ''could not clear the setting'' else ''could not store the setting''))"

lemma find_setting_SomeD: "find_setting cat k = Some d \<Longrightarrow> d \<in> set cat \<and> de_key d = k"
  by (auto simp: find_setting_def find_Some_iff)

lemma find_setting_distinct: "distinct (map de_key cat) \<Longrightarrow> d \<in> set cat \<Longrightarrow> find_setting cat (de_key d) = Some d"
  by (induction cat) (force simp: find_setting_def)+

text \<open>A change that was not refused by the check.\<close>

lemma apply_accepted:
  assumes "change_refused dep cat (k, v) = None" and "value_text dep v = Some t"
  shows "apply_change dep cat actor (k, v) (s, es) =
     (case write_refused dep k t of
        Some e \<Rightarrow> (s, es @ [(k, e)])
      | None \<Rightarrow>
          (s\<lparr>se_values := (se_values s)(k := setting_row dep cat actor k t),
             se_audit := se_audit s @ [\<lparr>ae_type = (if t = [] then ''settings.integration.cleared'' else ''settings.integration.updated''),
               ae_key = k, ae_actor = (if actor = [] then ''system'' else actor),
               ae_detail = (if t = [] then [] else if is_secret cat k then ''***''
                            else (case find_setting cat k of Some d \<Rightarrow> normalize_setting d t | None \<Rightarrow> []))\<rparr>]\<rparr>, es))"
proof -
  obtain d where d: "find_setting cat k = Some d"
    and ok: "t = [] \<or> ((de_kind d = Secret_kind \<longrightarrow> dp_vault_key dep) \<and> validate_setting d t = None)"
    using assms by (auto simp: change_refused_def check_setting_def split: option.splits if_splits)
  show ?thesis
    using d ok assms(2)
    by (cases "dp_db dep k")
      (auto simp: apply_change_def set_setting_def clear_setting_def write_refused_def setting_row_def audit_change_def is_secret_def Let_def)
qed

definition text_sent :: "deployment \<Rightarrow> json \<Rightarrow> string" where
  "text_sent dep v = (case value_text dep v of Some t \<Rightarrow> t | None \<Rightarrow> [])"

definition failed_writes :: "deployment \<Rightarrow> (string \<times> json) list \<Rightarrow> (string \<times> string) list" where
  "failed_writes dep kvs = List.map_filter (\<lambda>kv. map_option (Pair (fst kv)) (write_refused dep (fst kv) (text_sent dep (snd kv)))) kvs"

lemma rejected_none: "rejected_values dep cat kvs = [] \<longleftrightarrow> (\<forall>kv \<in> set kvs. change_refused dep cat kv = None)"
  by (induction kvs) (auto simp: rejected_values_def map_filter_simps split: option.splits)

lemma apply_all:
  assumes "\<forall>kv \<in> set kvs. change_refused dep cat kv = None" and "distinct (map fst kvs)"
  shows "se_values (fst (fold (apply_change dep cat actor) kvs (s, es))) =
           (\<lambda>k. case map_of kvs k of
                  None \<Rightarrow> se_values s k
                | Some v \<Rightarrow> if dp_db dep k = Db_ok then setting_row dep cat actor k (text_sent dep v) else se_values s k)
         \<and> snd (fold (apply_change dep cat actor) kvs (s, es)) = es @ failed_writes dep kvs"
  using assms
proof (induction kvs arbitrary: s es)
  case Nil
  then show ?case by (simp add: failed_writes_def map_filter_simps)
next
  case (Cons kv kvs)
  obtain k v where kv: "kv = (k, v)" by (cases kv)
  from Cons.prems(1) kv obtain t where t: "value_text dep v = Some t"
    by (auto simp: change_refused_def split: option.splits)
  have sent: "text_sent dep v = t"
    using t by (simp add: text_sent_def)
  have k: "map_of kvs k = None" "k \<notin> fst ` set kvs"
    using Cons.prems(2) kv by (auto simp: map_of_eq_None_iff)
  note one = apply_accepted [OF _ t, of cat k actor s es]
  show ?case
    using Cons.IH Cons.prems one k sent kv
    by (cases "dp_db dep k") (auto simp: write_refused_def failed_writes_def map_filter_simps intro!: ext split: option.splits)
qed

subsection \<open>A request from the click to the answer\<close>

definition settings_body :: "(string \<times> json) list \<Rightarrow> string" where
  "settings_body kvs = json_stringify (JObj [(''values'', JObj kvs)])"

lemma settings_body_sent: "api_body (integration_save_call (JObj kvs)) = TextBody (settings_body kvs)"
  by (simp add: integration_save_call_def send_json_def json_body_def settings_body_def jor_def)

definition put_round ::
    "env \<Rightarrow> descriptor list \<Rightarrow> deployment \<Rightarrow> (string \<times> json) list \<Rightarrow> settings_form \<Rightarrow> bastion_settings \<Rightarrow> client \<Rightarrow>
     settings_form \<times> bool \<times> bastion_settings \<times> client" where
  "put_round env cat dep kvs f s c =
     (let (s', r) = settings_put dep cat (settings_body kvs) s;
          (reply, c') = saveIntegrationSettings (env_now env) (env_loc env) (JObj kvs) (Answer r) c;
          (f', again) = submit_answered env reply f in
      (f', again, s', c'))"

definition form_value :: "json \<Rightarrow> bool" where
  "form_value v = (v = JNull \<or> (\<exists>t. v = JStr t))"

lemma form_value_plain: "form_value v \<Longrightarrow> plain_json v"
  by (auto simp: form_value_def)

lemma plain_members_iff: "plain_members kvs \<longleftrightarrow> (\<forall>kv \<in> set kvs. plain_json (snd kv))"
  by (induction kvs) auto

lemma plain_elems_iff: "plain_elems xs \<longleftrightarrow> (\<forall>x \<in> set xs. plain_json x)"
  by (induction xs) auto

lemma plain_int [simp]: "plain_json (JInt i)"
  by (simp add: quotient_of_int)

lemma body_read:
  assumes "distinct (map fst kvs)" and "\<forall>kv \<in> set kvs. form_value (snd kv)"
  shows "json_parse (settings_body kvs) = Some (JObj [(''values'', JObj kvs)])"
  unfolding settings_body_def
  by (rule json_parse_stringify) (use assms in \<open>simp add: plain_members_iff form_value_plain\<close>)

lemma put_served:
  assumes "dp_user dep = Some actor" and "dp_may dep" and "distinct (map fst kvs)" and "\<forall>kv \<in> set kvs. form_value (snd kv)"
  shows "settings_put dep cat (settings_body kvs) s = put_values dep cat actor kvs s"
  using assms(1,2) by (simp add: settings_put_def body_read [OF assms(3,4)])

lemma rejects_plain: "plain_json (JArr (map reject_json rs))"
  by (simp add: plain_elems_iff reject_json_def)

lemma refusal_read:
  assumes "plain_json v" and "is_array (jget v ''rejected'')" and "status = 400 \<or> status = 500"
  shows "saveIntegrationSettings now loc vals (Answer (json_answer status v)) c = (Inr v, c)"
  using assms by (auto simp: saveIntegrationSettings_def json_answer_def json_parse_stringify)

lemma success_read:
  assumes "plain_json v"
  shows "saveIntegrationSettings now loc vals (Answer (json_answer 200 v)) c = (Inr v, c)"
  using assms
  by (simp add: saveIntegrationSettings_def json_answer_def json_parse_stringify checked_reply_def ensureResponseOk_def
      needs_license_def resp_ok_def decode_reply_def integration_save_call_def send_json_def resp_json_def)

definition named_refusals :: "(string \<times> json \<Rightarrow> string option) \<Rightarrow> (string \<times> json) list \<Rightarrow> (string \<times> string) list" where
  "named_refusals g kvs = List.map_filter (\<lambda>kv. map_option (Pair (fst kv)) (g kv)) kvs"

lemma refusal_lists:
  "rejected_values dep cat kvs = named_refusals (change_refused dep cat) kvs"
  "failed_writes dep kvs = named_refusals (\<lambda>kv. write_refused dep (fst kv) (text_sent dep (snd kv))) kvs"
  by (simp_all add: rejected_values_def failed_writes_def named_refusals_def)

lemma named_refusals_none: "named_refusals g kvs = [] \<longleftrightarrow> (\<forall>kv \<in> set kvs. g kv = None)"
  by (induction kvs) (auto simp: named_refusals_def map_filter_simps split: option.splits)

text \<open>The reason next to a field: of the refusals the bastion lists, the one of this key.\<close>

definition reason_of :: "(string \<times> json \<Rightarrow> string option) \<Rightarrow> (string \<times> json) list \<Rightarrow> string \<Rightarrow> json" where
  "reason_of g kvs k =
     (case map_of kvs k of
        None \<Rightarrow> JUndef
      | Some v \<Rightarrow> (case g (k, v) of None \<Rightarrow> JUndef | Some e \<Rightarrow> JStr e))"

lemma named_refusals_Cons:
  "named_refusals g (kv # kvs) = (case g kv of None \<Rightarrow> named_refusals g kvs | Some e \<Rightarrow> (fst kv, e) # named_refusals g kvs)"
  by (auto simp: named_refusals_def map_filter_simps split: option.splits)

lemma reason_shown:
  assumes "distinct (map fst kvs)"
  shows "(case List.find (\<lambda>r. jget r ''key'' = JStr k) (map reject_json (named_refusals g kvs)) of
            Some r \<Rightarrow> jget r ''error'' | None \<Rightarrow> JUndef) = reason_of g kvs k"
  using assms
proof (induction kvs)
  case Nil
  then show ?case by (simp add: named_refusals_def map_filter_simps reason_of_def)
next
  case (Cons kv kvs)
  obtain k' v where kv: "kv = (k', v)" by (cases kv)
  have "k' \<notin> fst ` set kvs"
    using Cons.prems kv by simp
  then have fresh: "map_of kvs k' = None"
    by (simp add: map_of_eq_None_iff)
  show ?case
    using Cons.IH Cons.prems kv fresh
    by (cases "k' = k"; cases "g kv") (simp_all add: named_refusals_Cons reject_json_def reason_of_def)
qed

lemma rejected_for_shown:
  assumes "distinct (map fst kvs)" and "sf_state f = Rejected (map reject_json (named_refusals g kvs))"
  shows "rejected_for k f = reason_of g kvs k"
  using reason_shown [OF assms(1), of k g] assms(2) by (simp add: rejected_for_def)

lemma submit_rejected:
  assumes "rs \<noteq> []" and "jget v ''rejected'' = JArr (map reject_json rs)"
  shows "submit_answered env (Inr v) f = (saving_ended (f\<lparr>sf_state := Rejected (map reject_json rs)\<rparr>), False)"
  using assms by (cases rs) (simp_all add: submit_answered_def)

lemma put_round_refused:
  assumes "dp_user dep = Some actor" "dp_may dep" "distinct (map fst kvs)" "\<forall>kv \<in> set kvs. form_value (snd kv)"
    and "kvs \<noteq> []" "length kvs \<le> 256"
    and "rejected_values dep cat kvs \<noteq> []"
  shows "put_round env cat dep kvs f s c =
     (saving_ended (f\<lparr>sf_state := Rejected (map reject_json (rejected_values dep cat kvs))\<rparr>), False, s, c)"
proof -
  let ?v = "JObj [(''status'', JStr ''invalid''), (''applied'', JInt 0), (''rejected'', JArr (map reject_json (rejected_values dep cat kvs)))]"
  have "plain_json ?v"
    using rejects_plain [of "rejected_values dep cat kvs"] by simp
  then have "saveIntegrationSettings (env_now env) (env_loc env) (JObj kvs) (Answer (json_answer 400 ?v)) c = (Inr ?v, c)"
    by (intro refusal_read) simp_all
  moreover have "settings_put dep cat (settings_body kvs) s = (s, json_answer 400 ?v)"
    using assms(5-7) by (simp add: put_served [OF assms(1-4)] put_values_def Let_def)
  moreover have "submit_answered env (Inr ?v) f =
      (saving_ended (f\<lparr>sf_state := Rejected (map reject_json (rejected_values dep cat kvs))\<rparr>), False)"
    by (rule submit_rejected [OF assms(7)]) simp
  ultimately show ?thesis
    by (simp add: put_round_def)
qed

lemma failed_writes_length: "length (failed_writes dep kvs) \<le> length kvs"
  by (induction kvs) (auto simp: failed_writes_def map_filter_simps split: option.splits)

lemma put_round_accepted:
  assumes "dp_user dep = Some actor" "dp_may dep" "distinct (map fst kvs)" "\<forall>kv \<in> set kvs. form_value (snd kv)"
    and "kvs \<noteq> []" "length kvs \<le> 256"
    and "rejected_values dep cat kvs = []"
    and "s' = fst (fold (apply_change dep cat actor) kvs (s, []))"
  shows "put_round env cat dep kvs f s c =
     (if failed_writes dep kvs = []
      then (f\<lparr>sf_state := Saved (JInt (int (length kvs))), sf_draft := []\<rparr>, True, s', c)
      else (saving_ended (f\<lparr>sf_state := Rejected (map reject_json (failed_writes dep kvs))\<rparr>), False, s', c))"
proof -
  have checked: "\<forall>kv \<in> set kvs. change_refused dep cat kv = None"
    using assms(7) by (simp add: rejected_none)
  then have run: "fold (apply_change dep cat actor) kvs (s, []) = (s', failed_writes dep kvs)"
    using apply_all [OF checked assms(3), of actor s "[]"] assms(8) by (simp add: prod_eq_iff)
  let ?n = "int (length kvs) - int (length (failed_writes dep kvs))"
  let ?ok = "JObj [(''status'', JStr ''ok''), (''applied'', JInt ?n)]"
  let ?v = "JObj [(''status'', JStr ''partial''), (''applied'', JInt ?n), (''rejected'', JArr (map reject_json (failed_writes dep kvs)))]"
  have put: "settings_put dep cat (settings_body kvs) s =
      (s', if failed_writes dep kvs = [] then json_answer 200 ?ok else json_answer 500 ?v)"
    using assms(5-7) run by (simp add: put_served [OF assms(1-4)] put_values_def)
  show ?thesis
  proof (cases "failed_writes dep kvs = []")
    case True
    have "saveIntegrationSettings (env_now env) (env_loc env) (JObj kvs) (Answer (json_answer 200 ?ok)) c = (Inr ?ok, c)"
      by (rule success_read) (use plain_int [of ?n] in \<open>simp del: of_int_diff\<close>)
    then show ?thesis
      using True put assms(5) by (simp add: put_round_def submit_answered_def jor_def)
  next
    case False
    have "plain_json ?v"
      using rejects_plain [of "failed_writes dep kvs"] plain_int [of ?n] by (simp del: of_int_diff)
    then have "saveIntegrationSettings (env_now env) (env_loc env) (JObj kvs) (Answer (json_answer 500 ?v)) c = (Inr ?v, c)"
      by (intro refusal_read) simp_all
    moreover have "submit_answered env (Inr ?v) f =
        (saving_ended (f\<lparr>sf_state := Rejected (map reject_json (failed_writes dep kvs))\<rparr>), False)"
      by (rule submit_rejected [OF False]) simp
    ultimately show ?thesis
      using False put by (simp add: put_round_def)
  qed
qed

subsection \<open>Saving\<close>

text \<open>The edit of a key that is sent: every edit but the emptied field of a secret.\<close>

definition edit_sent :: "descriptor list \<Rightarrow> (string \<times> string) list \<Rightarrow> string \<Rightarrow> string option" where
  "edit_sent cat draft k =
     (case map_of draft k of
        Some t \<Rightarrow> if is_secret cat k \<and> t = [] then None else Some t
      | None \<Rightarrow> None)"

lemma setting_json_get [simp]:
  "jget (setting_json r) ''key'' = JStr (de_key (re_descriptor r))"
  "jget (setting_json r) ''kind'' = JStr (kind_name (de_kind (re_descriptor r)))"
  "jget (setting_json r) ''value'' = JStr (re_value r)"
  "jget (setting_json r) ''source'' = JStr (re_source r)"
  by (simp_all add: setting_json_def Let_def)

lemma resolve_descriptor [simp]: "re_descriptor (resolve_setting dep s d) = d"
  by (auto simp: resolve_setting_def Let_def split: option.split)

lemma kind_secret [simp]: "kind_name kind = ''secret'' \<longleftrightarrow> kind = Secret_kind"
  by (cases kind) simp_all

lemma item_of_settings:
  "item_of (settings_items dep cat s) k =
     (case find_setting cat k of Some d \<Rightarrow> setting_json (resolve_setting dep s d) | None \<Rightarrow> JUndef)"
  by (induction cat) (simp_all add: item_of_def settings_items_def find_setting_def)

lemma secret_item: "jget (item_of (settings_items dep cat s) k) ''kind'' = JStr ''secret'' \<longleftrightarrow> is_secret cat k"
  by (simp add: item_of_settings is_secret_def split: option.split)

definition value_json :: "string \<Rightarrow> json" where
  "value_json t = (if t = [] then JNull else JStr t)"

lemma values_sent:
  assumes "distinct (map fst draft)" and secrets: "\<And>k. jget (item_of items k) ''kind'' = JStr ''secret'' \<longleftrightarrow> is_secret cat k"
  shows "map_of (values_to_save items draft) k = map_option value_json (edit_sent cat draft k)"
    and "distinct (map fst (values_to_save items draft))"
    and "\<forall>kv \<in> set (values_to_save items draft). form_value (snd kv)"
    and "length (values_to_save items draft) \<le> length draft"
proof -
  show "map_of (values_to_save items draft) k = map_option value_json (edit_sent cat draft k)"
    using assms(1)
  proof (induction draft)
    case Nil
    then show ?case by (simp add: values_to_save_def edit_sent_def)
  next
    case (Cons e draft)
    obtain k' t where e: "e = (k', t)" by (cases e)
    have fresh: "map_of draft k' = None"
      using Cons.prems e by (simp add: map_of_eq_None_iff)
    show ?case
      using Cons.IH Cons.prems e fresh
      by (auto simp: values_to_save_def edit_sent_def value_json_def secrets)
  qed
  show "distinct (map fst (values_to_save items draft))"
    using assms(1) by (induction draft) (force simp: values_to_save_def)+
  show "\<forall>kv \<in> set (values_to_save items draft). form_value (snd kv)"
    by (auto simp: values_to_save_def form_value_def)
  show "length (values_to_save items draft) \<le> length draft"
    by (simp add: values_to_save_def)
qed

lemma value_json_text [simp]: "value_text dep (value_json t) = Some t" "text_sent dep (value_json t) = t"
  by (simp_all add: value_json_def text_sent_def)

text \<open>The reason the bastion has for refusing the edit of a key, and the failure of its write.\<close>

definition edit_refused :: "deployment \<Rightarrow> descriptor list \<Rightarrow> (string \<times> string) list \<Rightarrow> string \<Rightarrow> string option" where
  "edit_refused dep cat draft k =
     (case edit_sent cat draft k of None \<Rightarrow> None | Some t \<Rightarrow> check_setting dep cat k t)"

definition edit_failed :: "deployment \<Rightarrow> descriptor list \<Rightarrow> (string \<times> string) list \<Rightarrow> string \<Rightarrow> string option" where
  "edit_failed dep cat draft k =
     (case edit_sent cat draft k of None \<Rightarrow> None | Some t \<Rightarrow> write_refused dep k t)"

definition reason_json :: "string option \<Rightarrow> json" where
  "reason_json e = (case e of None \<Rightarrow> JUndef | Some t \<Rightarrow> JStr t)"

text \<open>What a save does, on every branch: \<open>f\<close> the form when the button was pressed, \<open>g\<close> and \<open>s'\<close> the form and the
  bastion after the answer.\<close>

definition saved_as_edited ::
    "deployment \<Rightarrow> descriptor list \<Rightarrow> string \<Rightarrow> settings_form \<Rightarrow> bastion_settings \<Rightarrow> settings_form \<Rightarrow> bastion_settings \<Rightarrow> bool" where
  "saved_as_edited dep cat actor f s g s' =
     (let draft = sf_draft f in
      if \<exists>k. edit_refused dep cat draft k \<noteq> None
      then s' = s \<and> sf_draft g = draft \<and> (\<forall>k. rejected_for k g = reason_json (edit_refused dep cat draft k))
      else (\<forall>k. se_values s' k =
               (case edit_sent cat draft k of
                  Some t \<Rightarrow> if dp_db dep k = Db_ok then setting_row dep cat actor k t else se_values s k
                | None \<Rightarrow> se_values s k)) \<and>
           (if \<exists>k. edit_failed dep cat draft k \<noteq> None
            then sf_draft g = draft \<and> (\<forall>k. rejected_for k g = reason_json (edit_failed dep cat draft k))
            else sf_draft g = [] \<and> sf_state g = Saved (JInt (int (card {k. edit_sent cat draft k \<noteq> None})))))"

lemma refusals_by_key:
  assumes "distinct (map fst kvs)" and "\<And>k. map_of kvs k = map_option value_json (e k)"
    and "\<And>k t. g (k, value_json t) = h k t"
  shows "(\<exists>kv \<in> set kvs. g kv \<noteq> None) \<longleftrightarrow> (\<exists>k. (case e k of None \<Rightarrow> None | Some t \<Rightarrow> h k t) \<noteq> None)"
    and "reason_of g kvs k = reason_json (case e k of None \<Rightarrow> None | Some t \<Rightarrow> h k t)"
proof -
  have in_kvs: "(k, v) \<in> set kvs \<longleftrightarrow> (\<exists>t. e k = Some t \<and> v = value_json t)" for k v
    using map_of_eq_Some_iff [OF assms(1), of k v] by (auto simp: assms(2) map_option_eq_Some)
  show "(\<exists>kv \<in> set kvs. g kv \<noteq> None) \<longleftrightarrow> (\<exists>k. (case e k of None \<Rightarrow> None | Some t \<Rightarrow> h k t) \<noteq> None)"
  proof -
    have "(\<exists>kv \<in> set kvs. g kv \<noteq> None) \<longleftrightarrow> (\<exists>k v. (k, v) \<in> set kvs \<and> g (k, v) \<noteq> None)"
      by (simp add: Bex_def split_paired_Ex)
    also have "\<dots> \<longleftrightarrow> (\<exists>k t. e k = Some t \<and> h k t \<noteq> None)"
      unfolding in_kvs using assms(3) by metis
    also have "\<dots> \<longleftrightarrow> (\<exists>k. (case e k of None \<Rightarrow> None | Some t \<Rightarrow> h k t) \<noteq> None)"
      by (rule ex_cong1) (simp split: option.split)
    finally show ?thesis .
  qed
  show "reason_of g kvs k = reason_json (case e k of None \<Rightarrow> None | Some t \<Rightarrow> h k t)"
    using assms(2,3) by (auto simp: reason_of_def reason_json_def split: option.split)
qed

lemma refused_change [simp]: "change_refused dep cat (k, value_json t) = check_setting dep cat k t"
  by (simp add: change_refused_def)

lemma save_click_sends:
  assumes "form_items f = settings_items dep0 cat s0" and "distinct (map fst (sf_draft f))"
    and "save_clicked f = (f1, Some kvs)"
  shows "f1 = submit_start f" "kvs = values_to_save (form_items f) (sf_draft f)" "kvs \<noteq> []"
    "\<And>k. map_of kvs k = map_option value_json (edit_sent cat (sf_draft f) k)"
    "distinct (map fst kvs)" "\<forall>kv \<in> set kvs. form_value (snd kv)" "length kvs \<le> length (sf_draft f)"
proof -
  show k: "kvs = values_to_save (form_items f) (sf_draft f)" and "f1 = submit_start f" "kvs \<noteq> []"
    using assms(3) by (auto simp: save_clicked_def Let_def split: if_splits)
  have "\<And>k. jget (item_of (form_items f) k) ''kind'' = JStr ''secret'' \<longleftrightarrow> is_secret cat k"
    by (simp add: assms(1) secret_item)
  note v = values_sent [OF assms(2) this]
  show "\<And>k. map_of kvs k = map_option value_json (edit_sent cat (sf_draft f) k)"
    "distinct (map fst kvs)" "\<forall>kv \<in> set kvs. form_value (snd kv)" "length kvs \<le> length (sf_draft f)"
    unfolding k by (rule v)+
qed

lemma sent_count:
  assumes "distinct (map fst kvs)" and "\<And>k. map_of kvs k = map_option value_json (e k)"
  shows "length kvs = card {k. e k \<noteq> None}"
proof -
  have "{k. e k \<noteq> None} = dom (map_of kvs)"
    by (simp add: dom_def assms(2))
  also have "\<dots> = fst ` set kvs"
    by (rule dom_map_of_conv_image_fst)
  finally show ?thesis
    using distinct_card [OF assms(1)] by simp
qed

lemma form_unchanged [simp]:
  "sf_draft (submit_start f) = sf_draft f" "sf_draft (saving_ended f) = sf_draft f"
  "sf_state (saving_ended f) = sf_state f"
  by (simp_all add: submit_start_def saving_ended_def)

text \<open>C37: Saving the settings, on every branch.  When the bastion refuses one of the edits it stores none of them,
  the edits stay in the form and each refused field shows its own reason.  Otherwise every edit is stored, normalised by its
  kind, an emptied field clears the stored value, an emptied secret is not sent, and every other key keeps its
  value; an edit the database did not take keeps the old value and is named with its reason.  The form is
  emptied exactly when everything was stored, and then says how many.\<close>

theorem save_writes_what_was_edited:
  assumes "form_items f = settings_items dep0 cat s0" and "distinct (map fst (sf_draft f))" and "length (sf_draft f) \<le> 256"
    and "save_clicked f = (f1, Some kvs)"
    and "dp_user dep = Some actor" and "dp_may dep"
    and "put_round env cat dep kvs f1 s c = (g, again, s', c')"
  shows "saved_as_edited dep cat actor f s g s' \<and> c' = c \<and> (again \<longleftrightarrow> sf_draft g = [])"
proof -
  let ?d = "sf_draft f"
  note sent = save_click_sends [OF assms(1,2,4)]
  note few = order.trans [OF sent(7) assms(3)]
  have draft: "?d \<noteq> []"
    using sent(3) by (auto simp: sent(2) values_to_save_def)
  have refused: "(rejected_values dep cat kvs \<noteq> []) = (\<exists>k. edit_refused dep cat ?d k \<noteq> None)"
      "reason_of (change_refused dep cat) kvs k = reason_json (edit_refused dep cat ?d k)" for k
    unfolding edit_refused_def refusal_lists named_refusals_none
    using refusals_by_key [OF sent(5,4), of "change_refused dep cat" "\<lambda>k t. check_setting dep cat k t"] by auto
  have failed: "(failed_writes dep kvs \<noteq> []) = (\<exists>k. edit_failed dep cat ?d k \<noteq> None)"
      "reason_of (\<lambda>kv. write_refused dep (fst kv) (text_sent dep (snd kv))) kvs k = reason_json (edit_failed dep cat ?d k)" for k
    unfolding edit_failed_def refusal_lists named_refusals_none
    using refusals_by_key [OF sent(5,4), of "\<lambda>kv. write_refused dep (fst kv) (text_sent dep (snd kv))" "\<lambda>k t. write_refused dep k t"]
    by auto
  show ?thesis
  proof (cases "rejected_values dep cat kvs = []")
    case False
    have "sf_state g = Rejected (map reject_json (named_refusals (change_refused dep cat) kvs))" "s' = s" "c' = c" "\<not> again" "sf_draft g = ?d"
      using put_round_refused [OF assms(5,6) sent(5,6,3) few False, of env f1 s c] assms(7)
      by (auto simp: refusal_lists sent(1))
    then show ?thesis
      using False refused rejected_for_shown [OF sent(5)] draft by (simp add: saved_as_edited_def)
  next
    case True
    define t where "t = fst (fold (apply_change dep cat actor) kvs (s, []))"
    have checked: "\<forall>kv \<in> set kvs. change_refused dep cat kv = None"
      using True by (simp add: rejected_none)
    note round = put_round_accepted [OF assms(5,6) sent(5,6,3) few True t_def, of env f1 c]
    have "s' = t" "c' = c"
      using round assms(7) by (auto split: if_splits)
    moreover have "se_values t k = (case edit_sent cat ?d k of
        Some x \<Rightarrow> if dp_db dep k = Db_ok then setting_row dep cat actor k x else se_values s k | None \<Rightarrow> se_values s k)" for k
      using apply_all [OF checked sent(5), of actor s "[]"] by (simp add: t_def sent(4) split: option.split)
    moreover have "failed_writes dep kvs = [] \<Longrightarrow> again \<and> sf_draft g = [] \<and> sf_state g = Saved (JInt (int (length kvs)))"
      "failed_writes dep kvs \<noteq> [] \<Longrightarrow> \<not> again \<and> sf_draft g = ?d \<and>
         sf_state g = Rejected (map reject_json (named_refusals (\<lambda>kv. write_refused dep (fst kv) (text_sent dep (snd kv))) kvs))"
      using round assms(7) by (auto simp: sent(1) refusal_lists)
    ultimately show ?thesis
      using True refused(1) failed rejected_for_shown [OF sent(5)] draft sent_count [OF sent(5,4)]
      by (auto simp: saved_as_edited_def Let_def)
  qed
qed

definition sample_deployment :: deployment where
  "sample_deployment =
     \<lparr>dp_env = (\<lambda>_. []), dp_vault_key = False, dp_db = (\<lambda>_. Db_ok), dp_now = ''2026-01-01T00:00:00Z'', dp_user = Some ''ana'',
      dp_may = True, dp_number = (\<lambda>_. [])\<rparr>"

definition no_settings :: bastion_settings where
  "no_settings = \<lparr>se_values = (\<lambda>_. None), se_audit = []\<rparr>"

abbreviation max_upload :: string where
  "max_upload \<equiv> ''ENDORIUMFORT_SSH_TRANSFER_MAX_UPLOAD_MB''"

definition sample_settings_form :: "string \<Rightarrow> settings_form" where
  "sample_settings_form t =
     \<lparr>sf_items = Some (settings_items sample_deployment ssh_catalog no_settings), sf_error = [],
      sf_draft = [(max_upload, t)], sf_state = Not_saved, sf_saving = False\<rparr>"

lemma ssh_setting [simp]:
  "find_setting ssh_catalog k = (if k = max_upload then Some (hd ssh_catalog) else None)"
  "de_kind (hd ssh_catalog) = Int_kind" "de_min (hd ssh_catalog) = 1" "de_max (hd ssh_catalog) = 10240"
  by (simp_all add: find_setting_def ssh_catalog_def)

lemma ssh_not_secret [simp]: "\<not> is_secret ssh_catalog k"
  by (simp add: is_secret_def)

lemma stoi_example: "stoi ''250'' = Some (250, [])" "stoi ''20000'' = Some (20000, [])" "stoi ''2x'' = Some (2, ''x'')"
  by (simp_all add: stoi_def digits_val_def js_eval)

lemma control_example: "\<not> control_char (CHR ''0'')" "\<not> control_char (CHR ''2'')" "\<not> control_char (CHR ''5'')"
  by (simp_all add: control_char_def js_eval)

lemma sample_save:
  "save_clicked (sample_settings_form t) =
     (submit_start (sample_settings_form t), Some [(max_upload, if t = [] then JNull else JStr t)])"
  by (simp add: save_clicked_def sample_settings_form_def values_to_save_def form_items_def secret_item)

lemma save_writes_what_was_edited_witness:
  "\<exists>g again s' c'. put_round sample_env ssh_catalog sample_deployment [(max_upload, JStr ''250'')]
       (submit_start (sample_settings_form ''250'')) no_settings (api (load_page Map.empty [] None)) = (g, again, s', c') \<and>
     se_values s' max_upload =
       Some \<lparr>sv_value = ''250'', sv_secret = False, sv_at = ''2026-01-01T00:00:00Z'', sv_by = ''ana''\<rparr> \<and> sf_draft g = []"
proof -
  let ?r = "put_round sample_env ssh_catalog sample_deployment [(max_upload, JStr ''250'')]
       (submit_start (sample_settings_form ''250'')) no_settings (api (load_page Map.empty [] None))"
  obtain g again s' c' where r: "?r = (g, again, s', c')" by (cases ?r) auto
  have s: "saved_as_edited sample_deployment ssh_catalog ''ana'' (sample_settings_form ''250'') no_settings g s'"
    using save_writes_what_was_edited [OF _ _ _ _ _ _ r, of "sample_settings_form ''250''" sample_deployment no_settings "''ana''"]
    by (simp add: sample_save) (simp add: sample_settings_form_def form_items_def sample_deployment_def)
  have ok: "edit_refused sample_deployment ssh_catalog (sf_draft (sample_settings_form ''250'')) k = None"
      "edit_failed sample_deployment ssh_catalog (sf_draft (sample_settings_form ''250'')) k = None" for k
    by (simp_all add: edit_refused_def edit_failed_def edit_sent_def sample_settings_form_def check_setting_def validate_setting_def
        check_kind_def stoi_example control_example kMaxValueBytes_def write_refused_def sample_deployment_def)
  have "se_values s' max_upload = setting_row sample_deployment ssh_catalog ''ana'' max_upload ''250''" "sf_draft g = []"
    using s ok by (simp_all add: saved_as_edited_def Let_def edit_sent_def sample_settings_form_def sample_deployment_def)
  then show ?thesis
    using r by (simp add: setting_row_def normalize_setting_def sample_deployment_def trim_def trim_start_def js_eval)
qed

subsection \<open>Reverting one setting\<close>

lemma setting_json_plain: "plain_json (setting_json r)"
  by (cases "de_kind (re_descriptor r) = Int_kind"; cases "de_enum (re_descriptor r) = []")
    (auto simp: setting_json_def Let_def plain_members_iff plain_elems_iff quotient_of_int)

lemma list_read:
  assumes "dp_user dep = Some actor" and "dp_may dep"
  shows "complete_call now loc fetchIntegrationSettings (Answer (settings_get dep cat s)) c =
     (Inr (JObj [(''status'', JStr ''ok''), (''items'', JArr (settings_items dep cat s))]), c)"
proof -
  have "plain_json (JObj [(''status'', JStr ''ok''), (''items'', JArr (settings_items dep cat s))])"
    by (auto simp: plain_elems_iff settings_items_def setting_json_plain)
  then show ?thesis
    using assms
    by (simp add: complete_call_def settings_get_def json_answer_def checked_reply_def ensureResponseOk_def needs_license_def
        resp_ok_def decode_reply_def fetchIntegrationSettings_def plain_call_def resp_json_def json_parse_stringify)
qed

text \<open>The list loaded after a save or a revert.\<close>

definition reload ::
    "env \<Rightarrow> deployment \<Rightarrow> descriptor list \<Rightarrow> bastion_settings \<Rightarrow> client \<Rightarrow> settings_form \<Rightarrow> settings_form" where
  "reload env dep cat s c f =
     saving_ended
       (on_settings_loaded env
          (fst (complete_call (env_now env) (env_loc env) fetchIntegrationSettings (Answer (settings_get dep cat s)) c)) f)"

lemma reloaded:
  assumes "dp_user dep = Some actor" and "dp_may dep"
  shows "reload env dep cat s c f = f\<lparr>sf_items := Some (settings_items dep cat s), sf_error := [], sf_saving := False\<rparr>"
  by (simp add: reload_def list_read [OF assms] on_settings_loaded_def saving_ended_def)

text \<open>C38: Reverting a setting removes the stored value of that key and of no other, and the field shows the
  environment or the default again.  As written it also empties the form: whatever was edited in the other fields
  is neither sent nor kept, and the form says that one setting was saved.\<close>

theorem revert_drops_the_other_edits:
  assumes "find_setting cat k = Some d" and "dp_user dep = Some actor" and "dp_may dep" and "dp_db dep k = Db_ok"
    and "revert_clicked k f = (f1, Some kvs)"
    and "put_round env cat dep kvs f1 s c = (g, again, s', c')"
  shows "se_values s' = (se_values s)(k := None) \<and> again \<and> sf_state g = Saved (JInt 1) \<and>
     (let h = reload env dep cat s' c' g in
      sf_draft h = [] \<and> sf_items h = Some (settings_items dep cat s') \<and>
      jget (item_of (form_items h) k) ''source'' = JStr (if dp_env dep k = [] then ''default'' else ''env''))"
proof -
  have kvs: "kvs = [(k, JNull)]" "f1 = submit_start f"
    using assms(5) by (simp_all add: revert_clicked_def)
  have none: "rejected_values dep cat kvs = []"
    using assms(1) by (simp add: kvs rejected_none change_refused_def check_setting_def)
  have no_failure: "failed_writes dep kvs = []"
    using assms(4) by (simp add: kvs failed_writes_def map_filter_simps write_refused_def text_sent_def)
  define t where "t = fst (fold (apply_change dep cat actor) kvs (s, []))"
  have g: "g = f1\<lparr>sf_state := Saved (JInt 1), sf_draft := []\<rparr>" "again" "s' = t"
    using put_round_accepted [OF assms(2,3) _ _ _ _ none t_def, of env f1 c] no_failure assms(6)
    by (auto simp: kvs(1) form_value_def)
  have "se_values t = (\<lambda>j. if j = k then None else se_values s j)"
    using apply_all [of kvs dep cat actor s "[]"] none assms(4)
    by (auto simp: t_def kvs(1) rejected_none setting_row_def text_sent_def split: option.splits)
  then have s': "se_values s' = (se_values s)(k := None)"
    using g(3) by auto
  have "de_key d = k"
    using find_setting_SomeD [OF assms(1)] by simp
  then have "jget (item_of (settings_items dep cat s') k) ''source'' = JStr (if dp_env dep k = [] then ''default'' else ''env'')"
    using assms(1) s' by (simp add: item_of_settings resolve_setting_def Let_def)
  then show ?thesis
    using g s' by (simp add: reloaded [OF assms(2,3)] Let_def form_items_def)
qed

subsection \<open>Secrets stay on the bastion\<close>

definition row_alike :: "bool \<Rightarrow> stored option \<Rightarrow> stored option \<Rightarrow> bool" where
  "row_alike secret a b =
     (if secret then map_option (sv_value_update (\<lambda>_. [])) a = map_option (sv_value_update (\<lambda>_. [])) b else a = b)"

lemma row_alike_rows [simp]:
  "row_alike secret (Some a) (Some b) \<longleftrightarrow>
     sv_secret a = sv_secret b \<and> sv_at a = sv_at b \<and> sv_by a = sv_by b \<and> (secret \<or> sv_value a = sv_value b)"
  "row_alike secret None y \<longleftrightarrow> y = None" "row_alike secret x None \<longleftrightarrow> x = None"
  by (cases a; cases b; auto simp: row_alike_def)+

definition alike_but_secrets :: "descriptor list \<Rightarrow> bastion_settings \<Rightarrow> bastion_settings \<Rightarrow> bool" where
  "alike_but_secrets cat s s' =
     ((\<forall>k. row_alike (is_secret cat k) (se_values s k) (se_values s' k)) \<and> se_audit s = se_audit s')"

definition acceptable_secret :: "json \<Rightarrow> bool" where
  "acceptable_secret v = (\<exists>t. v = JStr t \<and> t \<noteq> [] \<and> length t \<le> kMaxValueBytes \<and> \<not> list_ex control_char t)"

definition alike_requests :: "descriptor list \<Rightarrow> (string \<times> json) list \<Rightarrow> (string \<times> json) list \<Rightarrow> bool" where
  "alike_requests cat =
     list_all2 (\<lambda>(k, v) (k', v'). k = k' \<and> (v = v' \<or> (is_secret cat k \<and> acceptable_secret v \<and> acceptable_secret v')))"

lemma list_hides_secrets:
  assumes "distinct (map de_key cat)" and "alike_but_secrets cat s s'"
  shows "settings_items dep cat s = settings_items dep cat s'"
proof -
  have "resolve_setting dep s d = resolve_setting dep s' d" if d: "d \<in> set cat" for d
  proof -
    have sec: "is_secret cat (de_key d) \<longleftrightarrow> de_kind d = Secret_kind"
      using find_setting_distinct [OF assms(1) d] by (simp add: is_secret_def)
    have "row_alike (is_secret cat (de_key d)) (se_values s (de_key d)) (se_values s' (de_key d))"
      using assms(2) by (simp add: alike_but_secrets_def)
    then show ?thesis
      unfolding sec
      by (cases "se_values s (de_key d)"; cases "se_values s' (de_key d)") (auto simp: resolve_setting_def Let_def)
  qed
  then show ?thesis
    by (simp add: settings_items_def)
qed

lemma acceptable_checked:
  assumes "is_secret cat k" and "acceptable_secret v"
  shows "change_refused dep cat (k, v) = (if dp_vault_key dep then None else Some no_vault_key)"
proof -
  obtain t where t: "v = JStr t" "t \<noteq> []" "length t \<le> kMaxValueBytes" "\<not> list_ex control_char t"
    using assms(2) unfolding acceptable_secret_def by blast
  obtain d where "find_setting cat k = Some d" "de_kind d = Secret_kind"
    using assms(1) by (auto simp: is_secret_def split: option.splits)
  then show ?thesis
    using t by (simp add: change_refused_def check_setting_def validate_setting_def check_kind_def)
qed

definition alike_values :: "descriptor list \<Rightarrow> string \<Rightarrow> json \<Rightarrow> json \<Rightarrow> bool" where
  "alike_values cat k v v' = (v = v' \<or> (is_secret cat k \<and> acceptable_secret v \<and> acceptable_secret v'))"

lemma alike_refused:
  "alike_values cat k v v' \<Longrightarrow> change_refused dep cat (k, v) = change_refused dep cat (k, v')"
  by (auto simp: alike_values_def acceptable_checked)

lemma alike_requests_iff:
  "alike_requests cat [] ys \<longleftrightarrow> ys = []"
  "alike_requests cat ((k, v) # xs) ys \<longleftrightarrow> (\<exists>v' ys'. ys = (k, v') # ys' \<and> alike_values cat k v v' \<and> alike_requests cat xs ys')"
  by (auto simp: alike_requests_def alike_values_def list_all2_Cons1)

lemma alike_rejected:
  "alike_requests cat kvs kvs' \<Longrightarrow> rejected_values dep cat kvs = rejected_values dep cat kvs'"
proof (induction kvs arbitrary: kvs')
  case Nil
  then show ?case by (simp add: alike_requests_iff)
next
  case (Cons kv kvs)
  obtain k v where kv: "kv = (k, v)" by (cases kv)
  obtain v' rest where rest: "kvs' = (k, v') # rest" "alike_values cat k v v'" "alike_requests cat kvs rest"
    using Cons.prems kv by (auto simp: alike_requests_iff)
  show ?case
    using Cons.IH [OF rest(3)] alike_refused [OF rest(2)]
    by (simp add: kv rest(1) refusal_lists named_refusals_Cons split: option.split)
qed

lemma alike_change:
  assumes "alike_but_secrets cat s s'" and "alike_values cat k v v'" and "change_refused dep cat (k, v) = None"
  shows "alike_but_secrets cat (fst (apply_change dep cat actor (k, v) (s, es))) (fst (apply_change dep cat actor (k, v') (s', es)))
    \<and> snd (apply_change dep cat actor (k, v) (s, es)) = snd (apply_change dep cat actor (k, v') (s', es))"
proof -
  obtain t where t: "value_text dep v = Some t"
    using assms(3) by (auto simp: change_refused_def split: option.splits)
  obtain t' where t': "value_text dep v' = Some t'" "t' = [] \<longleftrightarrow> t = []" "is_secret cat k \<or> t' = t"
    using assms(2) t by (auto simp: alike_values_def acceptable_secret_def)
  have accepted: "change_refused dep cat (k, v') = None"
    using assms(3) alike_refused [OF assms(2)] by simp
  have row: "row_alike (is_secret cat k) (setting_row dep cat actor k t) (setting_row dep cat actor k t')"
    using t'(2,3) by (auto simp: setting_row_def is_secret_def split: option.split)
  have written: "write_refused dep k t' = write_refused dep k t"
    using t'(2) by (simp add: write_refused_def)
  have alike: "\<forall>j. row_alike (is_secret cat j) (se_values s j) (se_values s' j)" "se_audit s = se_audit s'"
    using assms(1) by (simp_all add: alike_but_secrets_def)
  show ?thesis
    unfolding apply_accepted [OF assms(3) t] apply_accepted [OF accepted t'(1)] written
    using alike row t'(2,3) by (cases "write_refused dep k t") (auto simp: alike_but_secrets_def)
qed

lemma alike_run:
  assumes "alike_requests cat kvs kvs'" and "alike_but_secrets cat s s'" and "\<forall>kv \<in> set kvs. change_refused dep cat kv = None"
  shows "alike_but_secrets cat (fst (fold (apply_change dep cat actor) kvs (s, es))) (fst (fold (apply_change dep cat actor) kvs' (s', es)))
    \<and> snd (fold (apply_change dep cat actor) kvs (s, es)) = snd (fold (apply_change dep cat actor) kvs' (s', es))"
  using assms
proof (induction kvs arbitrary: kvs' s s' es)
  case Nil
  then show ?case by (simp add: alike_requests_iff)
next
  case (Cons kv kvs)
  obtain k v where kv: "kv = (k, v)" by (cases kv)
  obtain v' rest where rest: "kvs' = (k, v') # rest" "alike_values cat k v v'" "alike_requests cat kvs rest"
    using Cons.prems(1) kv by (auto simp: alike_requests_iff)
  obtain a fs where a: "apply_change dep cat actor (k, v) (s, es) = (a, fs)" by (cases "apply_change dep cat actor (k, v) (s, es)")
  obtain b gs where b: "apply_change dep cat actor (k, v') (s', es) = (b, gs)" by (cases "apply_change dep cat actor (k, v') (s', es)")
  have "change_refused dep cat (k, v) = None"
    using Cons.prems(3) kv by simp
  from alike_change [OF Cons.prems(2) rest(2) this, of actor es] have "alike_but_secrets cat a b" "gs = fs"
    by (simp_all add: a b)
  then show ?case
    using Cons.IH [OF rest(3), of a b fs] Cons.prems(3) by (simp add: kv rest(1) a b)
qed

lemma alike_value_shape: "alike_values cat k v v' \<Longrightarrow> form_value v \<Longrightarrow> form_value v'"
  by (auto simp: alike_values_def acceptable_secret_def form_value_def)

lemma alike_shape:
  assumes "alike_requests cat kvs kvs'" and "\<forall>kv \<in> set kvs. form_value (snd kv)"
  shows "map fst kvs' = map fst kvs \<and> (\<forall>kv \<in> set kvs'. form_value (snd kv))"
  using assms
proof (induction kvs arbitrary: kvs')
  case Nil
  then show ?case by (simp add: alike_requests_iff)
next
  case (Cons kv kvs)
  obtain k v where kv: "kv = (k, v)" by (cases kv)
  obtain v' rest where rest: "kvs' = (k, v') # rest" "alike_values cat k v v'" "alike_requests cat kvs rest"
    using Cons.prems(1) kv by (auto simp: alike_requests_iff)
  then show ?case
    using Cons.IH [OF rest(3)] Cons.prems(2) alike_value_shape [OF rest(2)] by (simp add: kv)
qed


lemma revert_drops_the_other_edits_witness:
  "\<exists>g again s' c'. put_round sample_env ssh_catalog sample_deployment [(max_upload, JNull)]
       (submit_start ((sample_settings_form ''250'')\<lparr>sf_draft := [(''OTHER'', ''x'')]\<rparr>))
       (no_settings\<lparr>se_values := [max_upload \<mapsto> \<lparr>sv_value = ''50'', sv_secret = False, sv_at = [], sv_by = ''bo''\<rparr>]\<rparr>)
       (api (load_page Map.empty [] None)) = (g, again, s', c') \<and> se_values s' max_upload = None \<and> sf_state g = Saved (JInt 1)"
proof -
  let ?f = "(sample_settings_form ''250'')\<lparr>sf_draft := [(''OTHER'', ''x'')]\<rparr>"
  let ?s = "no_settings\<lparr>se_values := [max_upload \<mapsto> \<lparr>sv_value = ''50'', sv_secret = False, sv_at = [], sv_by = ''bo''\<rparr>]\<rparr>"
  let ?r = "put_round sample_env ssh_catalog sample_deployment [(max_upload, JNull)] (submit_start ?f) ?s (api (load_page Map.empty [] None))"
  obtain g again s' c' where r: "?r = (g, again, s', c')" by (cases ?r) auto
  have "se_values s' = (se_values ?s)(max_upload := None) \<and> sf_state g = Saved (JInt 1)"
    using revert_drops_the_other_edits [OF _ _ _ _ _ r, where d = "hd ssh_catalog" and actor = "''ana''" and f = ?f and k = max_upload]
    by (simp add: sample_deployment_def revert_clicked_def)
  then show ?thesis
    using r by simp
qed

definition token_catalog :: "descriptor list" where
  "token_catalog =
     [\<lparr>de_key = ''ENDORIUMFORT_SIEM_SPLUNK_TOKEN'', de_group = ''siem'', de_subgroup = ''splunk'', de_kind = Secret_kind,
       de_label = ''HEC token'', de_hint = [], de_default = [], de_enum = [], de_min = 0, de_max = 0\<rparr>]"

abbreviation token_key :: string where
  "token_key \<equiv> ''ENDORIUMFORT_SIEM_SPLUNK_TOKEN''"

definition token_stored :: "string \<Rightarrow> bastion_settings" where
  "token_stored t = no_settings\<lparr>se_values := [token_key \<mapsto> \<lparr>sv_value = t, sv_secret = True, sv_at = [], sv_by = ''bo''\<rparr>]\<rparr>"

lemma token_secret [simp]: "is_secret token_catalog token_key" "is_secret token_catalog k \<longleftrightarrow> k = token_key"
  by (simp_all add: is_secret_def find_setting_def token_catalog_def)


subsection \<open>The page over time\<close>

text \<open>
  Edits, saves and reverts are possible while earlier requests are under way, and their answers come in any order: a
  request is served, or lost with or without having been served, and its answer is taken later.  A
  reload is answered from the state of the bastion at that moment, or fails.  The deployment may differ from
  request to request.
\<close>

datatype settings_event =
    Edit string string
  | Save_click
  | Revert_click string
  | Discard_click
  | Served nat deployment
  | Lost nat deployment bool
  | Put_answered nat
  | Reload_answered deployment
  | Reload_failed

record settings_system =
  sy_form :: settings_form
  sy_store :: bastion_settings
  sy_client :: client
  sy_asked :: "(string \<times> json) list list"
  sy_answers :: "((string \<times> json) list \<times> fetched) list"
  sy_reloads :: nat

definition without :: "nat \<Rightarrow> 'a list \<Rightarrow> 'a list" where
  "without n xs = take n xs @ drop (Suc n) xs"

definition clicked :: "settings_form \<times> (string \<times> json) list option \<Rightarrow> settings_system \<Rightarrow> settings_system" where
  "clicked r y =
     y\<lparr>sy_form := fst r, sy_asked := sy_asked y @ (case snd r of Some kvs \<Rightarrow> [kvs] | None \<Rightarrow> [])\<rparr>"

definition settings_start :: "bastion_settings \<Rightarrow> client \<Rightarrow> settings_system" where
  "settings_start s c =
     \<lparr>sy_form = empty_form, sy_store = s, sy_client = c, sy_asked = [], sy_answers = [], sy_reloads = 1\<rparr>"

definition editable :: "string \<Rightarrow> string \<Rightarrow> settings_form \<Rightarrow> bool" where
  "editable grp k f = list_ex (\<lambda>i. jget i ''key'' = JStr k) (settings_fields grp (form_items f))"

definition revertible :: "string \<Rightarrow> string \<Rightarrow> settings_form \<Rightarrow> bool" where
  "revertible grp k f =
     list_ex (\<lambda>i. jget i ''key'' = JStr k \<and> jget i ''source'' = JStr ''store'') (settings_fields grp (form_items f))"

definition reload_answered :: "env \<Rightarrow> fetched \<Rightarrow> settings_system \<Rightarrow> settings_system" where
  "reload_answered env fetched y =
     (let (reply, c) = complete_call (env_now env) (env_loc env) fetchIntegrationSettings fetched (sy_client y) in
      y\<lparr>sy_form := saving_ended (on_settings_loaded env reply (sy_form y)), sy_client := c, sy_reloads := sy_reloads y - 1\<rparr>)"

fun settings_step :: "env \<Rightarrow> string \<Rightarrow> descriptor list \<Rightarrow> settings_event \<Rightarrow> settings_system \<Rightarrow> settings_system" where
  "settings_step env grp cat (Edit k t) y =
     (if editable grp k (sy_form y) then y\<lparr>sy_form := setting_change k t (sy_form y)\<rparr> else y)"
| "settings_step env grp cat Save_click y =
     (if settings_savable (sy_form y) then clicked (save_clicked (sy_form y)) y else y)"
| "settings_step env grp cat (Revert_click k) y =
     (if revertible grp k (sy_form y) then clicked (revert_clicked k (sy_form y)) y else y)"
| "settings_step env grp cat Discard_click y =
     (if settings_savable (sy_form y) then y\<lparr>sy_form := discard_edits (sy_form y)\<rparr> else y)"
| "settings_step env grp cat (Served n dep) y =
     (if n < length (sy_asked y)
      then (let kvs = sy_asked y ! n; (s, r) = settings_put dep cat (settings_body kvs) (sy_store y) in
        y\<lparr>sy_store := s, sy_asked := without n (sy_asked y), sy_answers := sy_answers y @ [(kvs, Answer r)]\<rparr>)
      else y)"
| "settings_step env grp cat (Lost n dep served) y =
     (if n < length (sy_asked y)
      then (let kvs = sy_asked y ! n in
        y\<lparr>sy_store := (if served then fst (settings_put dep cat (settings_body kvs) (sy_store y)) else sy_store y),
          sy_asked := without n (sy_asked y), sy_answers := sy_answers y @ [(kvs, NoAnswer)]\<rparr>)
      else y)"
| "settings_step env grp cat (Put_answered n) y =
     (if n < length (sy_answers y)
      then (let (kvs, fetched) = sy_answers y ! n;
                (reply, c) = saveIntegrationSettings (env_now env) (env_loc env) (JObj kvs) fetched (sy_client y);
                (f, again) = submit_answered env reply (sy_form y) in
        y\<lparr>sy_form := f, sy_client := c, sy_answers := without n (sy_answers y),
          sy_reloads := sy_reloads y + (if again then 1 else 0)\<rparr>)
      else y)"
| "settings_step env grp cat (Reload_answered dep) y =
     (if 0 < sy_reloads y then reload_answered env (Answer (settings_get dep cat (sy_store y))) y else y)"
| "settings_step env grp cat Reload_failed y = (if 0 < sy_reloads y then reload_answered env NoAnswer y else y)"

definition settings_run :: "env \<Rightarrow> string \<Rightarrow> descriptor list \<Rightarrow> settings_event list \<Rightarrow> settings_system \<Rightarrow> settings_system" where
  "settings_run env grp cat events y = fold (settings_step env grp cat) events y"

text \<open>A value typed into a field and followed by a click on the save button.\<close>

definition typed_and_saved :: "string \<Rightarrow> string \<Rightarrow> settings_event list \<Rightarrow> bool" where
  "typed_and_saved k t events = (\<exists>before after. events = before @ Edit k t # after \<and> Save_click \<in> set after)"

definition row_on_purpose :: "bastion_settings \<Rightarrow> settings_event list \<Rightarrow> string \<Rightarrow> stored option \<Rightarrow> bool" where
  "row_on_purpose s0 events k r =
     (r = se_values s0 k \<or> (r = None \<and> Revert_click k \<in> set events) \<or>
      (\<exists>t w u. t \<noteq> [] \<and> r = Some \<lparr>sv_value = t, sv_secret = True, sv_at = w, sv_by = u\<rparr> \<and> typed_and_saved k t events))"

definition value_on_purpose :: "settings_event list \<Rightarrow> string \<Rightarrow> json \<Rightarrow> bool" where
  "value_on_purpose events k v =
     ((v = JNull \<and> Revert_click k \<in> set events) \<or> (\<exists>t. t \<noteq> [] \<and> v = JStr t \<and> typed_and_saved k t events))"

definition request_ok :: "descriptor list \<Rightarrow> settings_event list \<Rightarrow> (string \<times> json) list \<Rightarrow> bool" where
  "request_ok cat events kvs =
     (distinct (map fst kvs) \<and>
      (\<forall>kv \<in> set kvs. form_value (snd kv) \<and> (is_secret cat (fst kv) \<longrightarrow> value_on_purpose events (fst kv) (snd kv))))"

definition form_ok :: "descriptor list \<Rightarrow> settings_event list \<Rightarrow> settings_form \<Rightarrow> bool" where
  "form_ok cat events f =
     (distinct (map fst (sf_draft f)) \<and> (\<forall>e \<in> set (sf_draft f). Edit (fst e) (snd e) \<in> set events) \<and>
      ((sf_items f = None \<and> sf_draft f = []) \<or> (\<exists>dep s. sf_items f = Some (settings_items dep cat s))))"

definition system_ok :: "descriptor list \<Rightarrow> bastion_settings \<Rightarrow> settings_event list \<Rightarrow> settings_system \<Rightarrow> bool" where
  "system_ok cat s0 events y =
     (form_ok cat events (sy_form y) \<and> (\<forall>kvs \<in> set (sy_asked y). request_ok cat events kvs) \<and>
      (\<forall>k. is_secret cat k \<longrightarrow> row_on_purpose s0 events k (se_values (sy_store y) k)))"

lemma typed_and_saved_later: "typed_and_saved k t events \<Longrightarrow> typed_and_saved k t (events @ [e])"
  unfolding typed_and_saved_def by (metis append.assoc append_Cons in_set_conv_decomp set_append UnI1)

lemma typed_then_saved: "Edit k t \<in> set events \<Longrightarrow> typed_and_saved k t (events @ [Save_click])"
  by (auto simp: typed_and_saved_def in_set_conv_decomp) (metis append.assoc append_Cons in_set_conv_decomp)

lemma later:
  "value_on_purpose events k v \<Longrightarrow> value_on_purpose (events @ [e]) k v"
  "request_ok cat events kvs \<Longrightarrow> request_ok cat (events @ [e]) kvs"
  "row_on_purpose s0 events k r \<Longrightarrow> row_on_purpose s0 (events @ [e]) k r"
  "form_ok cat events f \<Longrightarrow> form_ok cat (events @ [e]) f"
  by (auto simp: value_on_purpose_def request_ok_def row_on_purpose_def form_ok_def dest: typed_and_saved_later)

lemma system_later: "system_ok cat s0 events y \<Longrightarrow> system_ok cat s0 (events @ [e]) y"
  by (simp add: system_ok_def later)

text \<open>The bastion changes a secret only as a request on purpose says.\<close>

lemma put_on_purpose:
  assumes "request_ok cat events kvs" and "is_secret cat k" and "row_on_purpose s0 events k (se_values s k)"
  shows "row_on_purpose s0 events k (se_values (fst (settings_put dep cat (settings_body kvs) s)) k)"
proof -
  have kvs: "distinct (map fst kvs)" "\<forall>kv \<in> set kvs. form_value (snd kv)"
    using assms(1) by (auto simp: request_ok_def)
  consider (refused) "fst (settings_put dep cat (settings_body kvs) s) = s"
    | (run) actor where "\<forall>kv \<in> set kvs. change_refused dep cat kv = None"
        "fst (settings_put dep cat (settings_body kvs) s) = fst (fold (apply_change dep cat actor) kvs (s, []))"
  proof (cases "dp_user dep")
    case None
    then show ?thesis using refused by (simp add: settings_put_def)
  next
    case (Some actor)
    show ?thesis
    proof (cases "dp_may dep")
      case False
      then show ?thesis using Some refused by (simp add: settings_put_def)
    next
      case True
      note put = put_served [OF Some True kvs, of cat s]
      show ?thesis
      proof (cases "kvs = [] \<or> 256 < length kvs \<or> rejected_values dep cat kvs \<noteq> []")
        case True
        then show ?thesis using refused put by (auto simp: put_values_def Let_def)
      next
        case False
        then show ?thesis
          using run [of actor] put by (auto simp: put_values_def Let_def split_beta rejected_none)
      qed
    qed
  qed
  then show ?thesis
  proof cases
    case refused
    then show ?thesis using assms(3) by simp
  next
    case (run actor)
    have row: "se_values (fst (settings_put dep cat (settings_body kvs) s)) k =
        (case map_of kvs k of None \<Rightarrow> se_values s k
         | Some v \<Rightarrow> if dp_db dep k = Db_ok then setting_row dep cat actor k (text_sent dep v) else se_values s k)"
      using apply_all [OF run(1) kvs(1), of actor s "[]"] run(2) by simp
    obtain d where d: "find_setting cat k = Some d" "de_kind d = Secret_kind"
      using assms(2) by (auto simp: is_secret_def split: option.splits)
    show ?thesis
    proof (cases "map_of kvs k")
      case None
      then show ?thesis using row assms(3) by simp
    next
      case (Some v)
      then have "value_on_purpose events k v"
        using assms(1,2) map_of_SomeD [OF Some] by (force simp: request_ok_def)
      then have "row_on_purpose s0 events k (setting_row dep cat actor k (text_sent dep v))"
        using d by (auto simp: value_on_purpose_def row_on_purpose_def setting_row_def text_sent_def normalize_setting_def)
      then show ?thesis using row Some assms(3) by simp
    qed
  qed
qed

lemma form_kept:
  assumes "form_ok cat events f"
  shows "editable grp k f \<Longrightarrow> form_ok cat (events @ [Edit k t]) (setting_change k t f)"
    and "form_ok cat events (submit_start f)" and "form_ok cat events (saving_ended f)" and "form_ok cat events (discard_edits f)"
    and "form_ok cat events (fst (submit_answered env reply f))"
proof -
  show "form_ok cat (events @ [Edit k t]) (setting_change k t f)" if "editable grp k f"
  proof -
    have "sf_items f \<noteq> None"
      using that by (cases "sf_items f") (auto simp: editable_def form_items_def settings_fields_def settings_sections_def)
    moreover have "e \<in> set (assoc_set k t xs) \<Longrightarrow> e \<in> set xs \<or> e = (k, t)" for e xs
      by (induction k t xs rule: assoc_set.induct) (auto split: if_splits)
    ultimately show ?thesis
      using assms assoc_set_distinct [of "sf_draft f" k t] by (fastforce simp: form_ok_def setting_change_def)
  qed
  show "form_ok cat events (submit_start f)" "form_ok cat events (saving_ended f)" "form_ok cat events (discard_edits f)"
    using assms by (auto simp: form_ok_def submit_start_def saving_ended_def discard_edits_def)
  show "form_ok cat events (fst (submit_answered env reply f))"
    using assms by (auto simp: form_ok_def submit_answered_def saving_ended_def split: sum.split list.split)
qed

lemma save_on_purpose:
  assumes "form_ok cat events f" and "save_clicked f = (f1, Some kvs)"
  shows "request_ok cat (events @ [Save_click]) kvs"
proof -
  from assms have "sf_draft f \<noteq> []"
    by (auto simp: save_clicked_def values_to_save_def split: if_splits)
  then obtain dep s where items: "form_items f = settings_items dep cat s" and draft: "distinct (map fst (sf_draft f))"
    using assms(1) by (auto simp: form_ok_def form_items_def)
  note sent = save_click_sends [OF items draft assms(2)]
  have "value_on_purpose (events @ [Save_click]) k v" if kv: "(k, v) \<in> set kvs" and secret: "is_secret cat k" for k v
  proof -
    have "map_of kvs k = Some v"
      using kv sent(5) by simp
    then obtain t where t: "edit_sent cat (sf_draft f) k = Some t" "v = value_json t"
      using sent(4) [of k] by (auto simp: map_option_eq_Some)
    then have "t \<noteq> []" "(k, t) \<in> set (sf_draft f)"
      using secret by (auto simp: edit_sent_def split: option.splits if_splits dest: map_of_SomeD)
    moreover have "Edit k t \<in> set events"
      using calculation assms(1) by (force simp: form_ok_def)
    ultimately show ?thesis
      using t typed_then_saved by (auto simp: value_on_purpose_def value_json_def)
  qed
  then show ?thesis
    using sent(5,6) by (auto simp: request_ok_def)
qed

lemma reload_kept:
  assumes "system_ok cat s0 events y"
  shows "system_ok cat s0 events (reload_answered env (Answer (settings_get dep cat (sy_store y))) y)"
    and "system_ok cat s0 events (reload_answered env NoAnswer y)"
proof -
  have refused: "form_ok cat events (saving_ended (on_settings_loaded env (Inl e) (sy_form y)))" for e
    using assms by (auto simp: system_ok_def form_ok_def on_settings_loaded_def saving_ended_def)
  have listed: "form_ok cat events (saving_ended (on_settings_loaded env
      (Inr (JObj [(''status'', JStr ''ok''), (''items'', JArr (settings_items dep cat s))])) (sy_form y)))" for s
    using assms by (auto simp: system_ok_def form_ok_def on_settings_loaded_def saving_ended_def)
  let ?call = "complete_call (env_now env) (env_loc env) fetchIntegrationSettings"
  have "\<exists>e. fst (?call (Answer (settings_get dep cat s)) c) = Inl e" if "dp_user dep = None \<or> \<not> dp_may dep" for s c
    using that
    by (auto simp: complete_call_def settings_get_def text_answer_def checked_reply_def ensureResponseOk_def needs_license_def
        header_get_def resp_ok_def)
  moreover have "fst (?call (Answer (settings_get dep cat s)) c) =
      Inr (JObj [(''status'', JStr ''ok''), (''items'', JArr (settings_items dep cat s))])" if "dp_user dep \<noteq> None" "dp_may dep" for s c
    using that list_read [of dep] by auto
  ultimately have "form_ok cat events (saving_ended (on_settings_loaded env (fst (?call (Answer (settings_get dep cat s)) c)) (sy_form y)))" for s c
    using refused listed by metis
  then show "system_ok cat s0 events (reload_answered env (Answer (settings_get dep cat (sy_store y))) y)"
    using assms by (simp add: reload_answered_def system_ok_def split_beta)
  show "system_ok cat s0 events (reload_answered env NoAnswer y)"
    using assms refused by (simp add: reload_answered_def system_ok_def complete_call_def)
qed

lemma without_subset: "set (without n xs) \<subseteq> set xs"
  by (auto simp: without_def dest: in_set_takeD in_set_dropD)

lemma step_kept:
  assumes "system_ok cat s0 events y"
  shows "system_ok cat s0 (events @ [e]) (settings_step env grp cat e y)"
proof -
  have later: "system_ok cat s0 (events @ [e]) y"
    by (rule system_later [OF assms])
  have form: "form_ok cat events (sy_form y)" "form_ok cat (events @ [e]) (sy_form y)"
    using assms later by (simp_all add: system_ok_def)
  have served: "system_ok cat s0 (events @ [e])
      (y\<lparr>sy_store := fst (settings_put dep cat (settings_body (sy_asked y ! n)) (sy_store y)),
         sy_asked := without n (sy_asked y), sy_answers := as\<rparr>)" if "n < length (sy_asked y)" for n dep as
    using later put_on_purpose [of cat "events @ [e]" "sy_asked y ! n"] nth_mem [OF that] without_subset [of n "sy_asked y"]
    by (auto simp: system_ok_def)
  show ?thesis
  proof (cases e)
    case (Edit k t)
    then show ?thesis
      using later form_kept(1) [OF form(1), of grp k t] by (auto simp: system_ok_def)
  next
    case Save_click
    obtain f1 r where r: "save_clicked (sy_form y) = (f1, r)" by (cases "save_clicked (sy_form y)")
    then have "f1 = sy_form y \<or> f1 = submit_start (sy_form y)"
      by (auto simp: save_clicked_def Let_def split: if_splits)
    then have "form_ok cat (events @ [e]) f1"
      using form(2) form_kept(2) by auto
    then show ?thesis
      using later r save_on_purpose [OF form(1)] Save_click
      by (cases r) (auto simp: clicked_def system_ok_def)
  next
    case (Revert_click k)
    then show ?thesis
      using later form_kept(2) [OF form(2)]
      by (auto simp: clicked_def revert_clicked_def system_ok_def request_ok_def value_on_purpose_def form_value_def)
  next
    case Discard_click
    then show ?thesis
      using later form_kept(4) [OF form(2)] by (auto simp: system_ok_def)
  next
    case (Served n dep)
    then show ?thesis
      using later served [of n _ dep] by (auto simp: Let_def split_beta)
  next
    case (Lost n dep b)
    show ?thesis
    proof (cases b)
      case True
      then show ?thesis using Lost later served [of n _ dep] by (simp add: Let_def)
    next
      case False
      then show ?thesis
        using Lost later without_subset [of n "sy_asked y"] by (auto simp: Let_def system_ok_def)
    qed
  next
    case (Put_answered n)
    then show ?thesis
      using later form_kept(5) [OF form(2)] by (auto simp: Let_def split_beta system_ok_def)
  next
    case (Reload_answered dep)
    then show ?thesis
      using later reload_kept(1) [OF later] by auto
  next
    case Reload_failed
    then show ?thesis
      using later reload_kept(2) [OF later] by auto
  qed
qed

lemma run_kept: "system_ok cat s [] y \<Longrightarrow> system_ok cat s events (settings_run env grp cat events y)"
  by (induction events rule: rev_induct) (simp_all add: settings_run_def step_kept)

text \<open>C40: However the page is used, whatever fails and in whatever order requests and answers arrive, a secret the
  bastion holds stays as it is unless its own revert was clicked, or a new value was typed into its field and the save
  button clicked after that; what is stored then is the text typed.  Emptying the field of a secret, or not
  touching it, never loses it.\<close>

theorem stored_secret_changes_on_purpose:
  assumes "is_secret cat k"
    and "y = settings_run env grp cat events (settings_start s c)"
  shows "se_values (sy_store y) k = se_values s k \<or>
     (se_values (sy_store y) k = None \<and> Revert_click k \<in> set events) \<or>
     (\<exists>t w u before after. t \<noteq> [] \<and> se_values (sy_store y) k = Some \<lparr>sv_value = t, sv_secret = True, sv_at = w, sv_by = u\<rparr> \<and>
        events = before @ Edit k t # after \<and> Save_click \<in> set after)"
proof -
  have "system_ok cat s [] (settings_start s c)"
    by (simp add: system_ok_def settings_start_def form_ok_def empty_form_def row_on_purpose_def)
  from run_kept [OF this, of events env] have "row_on_purpose s events k (se_values (sy_store y) k)"
    using assms by (simp add: system_ok_def)
  then show ?thesis
    by (auto simp: row_on_purpose_def typed_and_saved_def)
qed

lemma stored_secret_changes_on_purpose_witness:
  "let y = settings_run sample_env ''siem'' token_catalog [Reload_answered sample_deployment, Edit token_key [], Save_click]
             (settings_start (token_stored ''a'') (api (load_page Map.empty [] None))) in
   se_values (sy_store y) token_key = se_values (token_stored ''a'') token_key"
proof -
  let ?es = "[Reload_answered sample_deployment, Edit token_key [], Save_click]"
  have "Edit token_key t \<in> set ?es \<Longrightarrow> t = []" for t by simp
  then have "\<nexists>t before after. t \<noteq> [] \<and> ?es = before @ Edit token_key t # after"
    by (metis in_set_conv_decomp)
  moreover have "Revert_click token_key \<notin> set ?es" by simp
  ultimately show ?thesis
    using stored_secret_changes_on_purpose [OF token_secret(1) refl, of sample_env "''siem''" ?es "token_stored ''a''" "api (load_page Map.empty [] None)"]
    unfolding Let_def by blast
qed

end
