(* ===== verification/Spec2Isabelle.thy ===== *)
theory Spec2Isabelle
  imports ApiSafety Sessions Incident LiveAlerts MfaSettings Connect SshUpload Passkeys Gating RbiViewer Fileshare Zones SessionsView UsersPage ResourcesPage PageTexts JournalPage RequestsPage ReportsPage SshGuard ConfirmDialog SettingsForm
begin

section \<open>The browser side of EndoriumFort\<close>

text \<open>
  EndoriumFort is a bastion: operators open SSH, VNC, web, database and file sessions on resources
  through it.  This development models the logic of its web interface, the JavaScript under
  \<open>src/frontend/src\<close>: the client of the server's API, the application state and handlers of
  App.jsx, the viewer of isolated browsers, the drive of a file share, and pages with logic of their own.

  How the parts interact.  Every call of the server goes through api.js: it adds the token, and an
  answer can sign the user out or open the licence dialog by an event the page listens to.  The page
  keeps the signed-in user, the lists the server gave it, one SSH terminal, the access dialog, the
  security feed and the incident desk.  A handler that waits for the server is split where it waits:
  one definition for what it sends, one for what it does with the reply; a value it captured when it
  started is an argument of the second.  So the replies of handlers that overlap may come in any
  order, which is what the step relations and the traces range over.

  The theories, in the order of their imports:
  \<^item> \<open>Prelude\<close>: JavaScript strings, number text, percent and form encoding, stable sorting.
  \<^item> \<open>Json\<close>, \<open>JsonText\<close>: the values of unknown shape the code reads, their
    conversions (\<open>String\<close>, \<open>Number\<close>, \<open>||\<close>), and JSON text with the round trip of printing and parsing.
    The parser runs on the length of the text as fuel; \<open>json_parse_stringify\<close> shows that this is enough for
    everything the program prints.
  \<^item> \<open>FrMessages\<close>, \<open>ServerMessages\<close>: serverMessages.js, the French table entry by
    entry and \<open>translateServerMessage\<close>.
  \<^item> \<open>ApiClient\<close>, \<open>ApiCall\<close>, \<open>ApiEndpoints\<close>, \<open>ApiSafety\<close>: api.js.
    The module state, the notifications with their throttles (the locale \<open>throttle\<close>, interpreted on
    both), the shape of a call and every endpoint, and what holds of all of them.
  \<^item> \<open>AccessPolicy\<close> (accessPolicy.js), \<open>Gating\<close> (roles, capabilities, licence, tabs and
    menu of App.jsx and layout/AppShell.jsx), \<open>Passkeys\<close> (base64url and WebAuthn),
    \<open>Clock\<close> (\<open>Date.parse\<close> and \<open>toISOString\<close>).
  \<^item> \<open>AuthFlow\<close>, \<open>MfaSettings\<close>: signing in and out, expiry, second factors, first login,
    password.  \<open>page\<close> is the reachable states of the sign-in part.
  \<^item> \<open>LiveAlerts\<close>, \<open>Incident\<close>: the security feed and the incident desk; the feed's
    escalation is a third instance of \<open>throttle\<close>.
  \<^item> \<open>Sessions\<close>, \<open>SessionStore\<close>: ui/sessions.js, and the update of one record of a
    list by its identifier (the locale \<open>keyed_list\<close>).
  \<^item> \<open>Terminal\<close>: the SSH terminal and its sockets; \<open>terminal_run\<close> is every order of its
    events, \<open>wired\<close> the invariant they keep.
  \<^item> \<open>AgentLaunch\<close>: the deep link of a tunnel and its watcher.  \<open>Connect\<close>: what the
    server will ask for, the access dialog, requests for approval, the route of each protocol, playbooks,
    relay hints.
  \<^item> \<open>SshUpload\<close>: sending a file in chunks (ui/SshFilesDialog.jsx).  The loop is a partial
    function, for it need not end; \<open>uploads_end\<close> says for which servers it does, and
    \<open>upload_stores_the_file\<close> that with the staging of the bastion (ssh_transfer.cc) the target holds the file.

  \<^item> \<open>RbiFrames\<close>, \<open>RbiViewer\<close>: RbiViewerModal.jsx.  The binary frames, read with the decoders of the
    browser (\<open>utf8_run\<close> ends, for it consumes its input) and written by the helper (rbi-cef/main.cc);
    downloads, uploads whose turns come in any order and their staging by the bastion (rbi.cc), mouse and
    keys.  \<open>rbi_reachable\<close> is every order of events.
  \<^item> \<open>Fileshare\<close>: fileshareApi.js and FileShareApp.jsx, the requests to a drive, the renewal of its session,
    uploads and sharing.
  \<^item> \<open>AccessMap\<close>, \<open>Zones\<close>: pages/MapPage.jsx and pages/ZonesPage.jsx.  What the map computes from the
    resources and sessions; the pending moves and edits (the locale \<open>pending_view\<close>, interpreted on both), the
    requests of a save, and how the bastion (utils.h) reads the tags and hours that are saved.
  \<^item> \<open>SessionsView\<close>, \<open>UsersPage\<close>, \<open>ResourcesPage\<close>: pages/SessionsPage.jsx, pages/admin/UsersAdmin.jsx and
    pages/admin/ResourcesAdmin.jsx.  The effects of the sessions page run until nothing changes
    (\<open>effects_settle\<close>: two runs are enough), \<open>sv_reach\<close> is every order of clicks and passed values;
    accounts and their access; the form of a resource, what a save of it sends and the configuration of clusters.

  \<^item> \<open>I18n\<close>, \<open>TextsGeneral\<close>, \<open>TextsPages\<close>, \<open>TextsResources\<close>, \<open>TextsSecurity\<close>, \<open>TextsDialogs\<close>, \<open>TextsApp\<close>,
    \<open>Translations\<close>, \<open>PageTexts\<close>: i18n.jsx, its functions, the dictionary by sections and as a whole, and the pages
    with the texts they show.  The other theories take the translation as a parameter; \<open>with_texts\<close> gives it.

  \<^item> \<open>Calendar\<close>: the day number and the civil date determine each other, and the text of \<open>toISOString\<close> is read back
    as its time; \<open>LatestReply\<close>: the locale of the pages that drop the replies of earlier requests.
  \<^item> \<open>JournalPage\<close>: pages/JournalPage.jsx and ui/AuditIntegrity.jsx.  \<open>journal_run\<close> is every order of filters, clicks
    and replies, \<open>pages\<close> what the list has to be; a reader of CSV (\<open>read_lines\<close>) for the export.
  \<^item> \<open>RequestsPage\<close>: pages/RequestsPage.jsx with the check of an approval when the bastion (routes.cc) opens a session.
    \<open>ReportsPage\<close>: pages/ReportsPage.jsx, the anchor of a period and the replies, an instance of \<open>latest_reply\<close>.
  \<^item> \<open>SshGuard\<close>: SshGuardRules.jsx, the store behind it and the copy of the typed line (ssh_guard.cc, ssh.cc) against a
    reference line editor.  \<open>ConfirmDialog\<close>: ui/ConfirmButton.jsx, the dialog before a sensitive action.
  \<^item> \<open>SettingsForm\<close>: ui/SettingsGroup.jsx and pages/admin/SshTransferSettings.jsx with the settings of the bastion
    (settings.cc, settings_routes.cc): \<open>put_round\<close> is a request from the click to its answer, JSON text included, and
    \<open>settings_run\<close> every order of edits, clicks, answers and losses.

  What the lemmas show: a call carries the token exactly when the page is signed in, and a 401 or a
  sign-out ends both; a saved session survives a reload; a high-risk session has a purpose and a dual
  approval is asked first; typed input and passwords reach only the socket of their session, and where
  the code lets a late reply break that, a theorem states what happens as written; alerts and suspects
  stay within their bounds; encodings are undone by their decoders; a file reaches the other side of a
  viewer whole; a moved resource is in its zone for the page and for the bastion; an
  SSH tab shows its own terminal; an unchanged form writes back the resource it was opened on; the journal shows the pages
  of its filters; an approval counts for the page as for the bastion; a guarded terminal runs no typed line that
  matches the list; an action runs only when confirmed; a save
  writes all of the edits or says which were refused, and a stored secret neither comes back nor is lost by accident.  Where a theorem says
  "as written", it states a behaviour the code was not meant to have.

  Not modelled.  React rendering, the smaller pages that only call the handlers above, the browser's own services (WebAuthn, WebSocket, canvas, timers are events or
  parameters), the server in C++ but for what the interface writes or reads byte for byte (staging of
  uploads, frames, tags, time windows, requests for access, the rules and the copy of the line of the SSH guard, the settings), the agent and the file share service in Go.  Strings are their UTF-8 bytes; case folding is
  modelled for ASCII.
\<close>

end
